(* ===== verification/Prelude.thy ===== *)
theory Prelude
  imports Main "HOL-Library.Word"
begin

unbundle bit_operations_syntax

section \<open>Types, results and byte strings shared by every component\<close>

text \<open>
  This theory holds what every component of the model uses.
  \<^item> Machine integers: Rust's \<open>iN\<close> and \<open>uN\<close> are both \<open>N word\<close>; a cast between the two is the
    identity, \<open>sint\<close> and \<open>unat\<close> read the value. \<open>usize\<close> values are lengths and indices of
    buffers that exist in memory and are \<open>nat\<close>.
  \<^item> Results: Rust's \<open>Result\<close> is a sum, \<open>Inl\<close> the error. A function that reads from
    \<open>&mut &[u8]\<close> or appends to \<open>&mut Vec<u8>\<close> takes the buffer and returns it, so that what
    happens to the buffer on an error is part of the model; \<open>st_bind\<close> is the operator \<open>?\<close>.
  \<^item> Strings: a Rust \<open>String\<close> is its UTF-8 byte string (\<open>utf8_valid\<close>); \<open>utf16_units\<close> is
    \<open>encode_utf16().count()\<close>.
  \<^item> \<open>to_le_bytes\<close>, \<open>from_le_bytes\<close> and their big-endian forms, with both round trips.
\<close>

type_synonym u8 = "8 word"
type_synonym i8 = "8 word"
type_synonym u16 = "16 word"
type_synonym i16 = "16 word"
type_synonym u32 = "32 word"
type_synonym i32 = "32 word"
type_synonym u64 = "64 word"
type_synonym i64 = "64 word"
type_synonym f32bits = "32 word"
type_synonym f64bits = "64 word"
type_synonym bytes = "8 word list"
type_synonym rstring = "8 word list"

named_theorems dec_intros "a decoder reads back what an encoder wrote"
named_theorems field_intros "what an encoder of a field wrote, the decoder of the field reads"

subsection \<open>Fallible operations on a buffer\<close>

type_synonym ('e, 'a, 's) st = "'s \<Rightarrow> ('e + 'a) \<times> 's"
type_synonym ('e, 'a) decoder = "bytes \<Rightarrow> ('e + 'a) \<times> bytes"
type_synonym 'e encoder = "bytes \<Rightarrow> ('e + unit) \<times> bytes"

definition st_ret :: "'a \<Rightarrow> ('e, 'a, 's) st" where
  "st_ret a = (\<lambda>s. (Inr a, s))"

definition st_fail :: "'e \<Rightarrow> ('e, 'a, 's) st" where
  "st_fail e = (\<lambda>s. (Inl e, s))"

text \<open>The operator \<open>?\<close>: stop at the first error, leaving the buffer where it is.\<close>

definition st_bind :: "('e, 'a, 's) st \<Rightarrow> ('a \<Rightarrow> ('e, 'b, 's) st) \<Rightarrow> ('e, 'b, 's) st" where
  "st_bind p f = (\<lambda>s. case p s of (Inl e, s') \<Rightarrow> (Inl e, s') | (Inr a, s') \<Rightarrow> f a s')"

text \<open>\<open>map_err\<close> and an infallible change of the buffer.\<close>

definition st_map_err :: "('e \<Rightarrow> 'f) \<Rightarrow> ('e, 'a, 's) st \<Rightarrow> ('f, 'a, 's) st" where
  "st_map_err g p = (\<lambda>s. case p s of (Inl e, s') \<Rightarrow> (Inl (g e), s') | (Inr a, s') \<Rightarrow> (Inr a, s'))"

definition st_mod :: "('s \<Rightarrow> 's) \<Rightarrow> ('e, unit, 's) st" where
  "st_mod h = (\<lambda>s. (Inr (), h s))"

text \<open>
  \<open>*input = source\<close> before every error return: the pattern most packet decoders follow.
\<close>

definition st_restore :: "('e, 'a, 's) st \<Rightarrow> ('e, 'a, 's) st" where
  "st_restore p = (\<lambda>s. case p s of (Inl e, _) \<Rightarrow> (Inl e, s) | (Inr a, s') \<Rightarrow> (Inr a, s'))"

lemmas st_defs = st_ret_def st_fail_def st_bind_def st_map_err_def st_mod_def st_restore_def

lemma st_bind_Inr: "p s = (Inr a, s') \<Longrightarrow> st_bind p f s = f a s'"
  by (simp add: st_bind_def)

lemma st_bind_Inl: "p s = (Inl e, s') \<Longrightarrow> st_bind p f s = (Inl e, s')"
  by (simp add: st_bind_def)

lemma st_bind_Inr_iff:
  "st_bind p f s = (Inr b, t) \<longleftrightarrow> (\<exists>a s'. p s = (Inr a, s') \<and> f a s' = (Inr b, t))"
  by (auto simp: st_bind_def split: prod.splits sum.splits)

lemma st_map_err_Inr [simp]: "st_map_err g p s = (Inr a, t) \<longleftrightarrow> p s = (Inr a, t)"
  by (auto simp: st_map_err_def split: prod.splits sum.splits)

lemma st_restore_Inr [simp]: "st_restore p s = (Inr a, t) \<longleftrightarrow> p s = (Inr a, t)"
  by (auto simp: st_restore_def split: prod.splits sum.splits)

lemma st_restore_Inl: "st_restore p s = (Inl e, t) \<longleftrightarrow> t = s \<and> (\<exists>u. p s = (Inl e, u))"
  by (auto simp: st_restore_def split: prod.splits sum.splits)

lemma st_ret_simp [simp]: "st_ret a s = (Inr a, s)"
  by (simp add: st_ret_def)

lemma st_fail_simp [simp]: "st_fail e s = (Inl e, s)"
  by (simp add: st_fail_def)

lemma st_mod_simp [simp]: "st_mod h s = (Inr (), h s)"
  by (simp add: st_mod_def)

subsection \<open>Slices\<close>

text \<open>\<open>slice.get(i)\<close>, \<open>slice.get(..n)\<close>.\<close>

definition slice_get :: "'a list \<Rightarrow> nat \<Rightarrow> 'a option" where
  "slice_get xs i = (if i < length xs then Some (xs ! i) else None)"

definition slice_to :: "'a list \<Rightarrow> nat \<Rightarrow> 'a list option" where
  "slice_to xs n = (if n \<le> length xs then Some (take n xs) else None)"

lemma slice_get_append [simp]: "slice_get (xs @ y # ys) (length xs) = Some y"
  by (simp add: slice_get_def)

lemma slice_to_append [simp]: "slice_to (xs @ ys) (length xs) = Some xs"
  by (simp add: slice_to_def)

lemma find_SomeD: "find P xs = Some x \<Longrightarrow> x \<in> set xs \<and> P x"
  by (induction xs) (auto split: if_splits)

definition usize_max :: nat where
  "usize_max = 2 ^ 64 - 1"

definition i32_max :: nat where
  "i32_max = 2 ^ 31 - 1"

definition saturating_mul :: "nat \<Rightarrow> nat \<Rightarrow> nat" where
  "saturating_mul a b = min (a * b) usize_max"

text \<open>\<open>usize::try_from\<close> on an \<open>i32\<close> and back.\<close>

definition usize_of_i32 :: "i32 \<Rightarrow> nat option" where
  "usize_of_i32 v = (if sint v < 0 then None else Some (nat (sint v)))"

definition i32_of_usize :: "nat \<Rightarrow> i32 option" where
  "i32_of_usize n = (if n \<le> i32_max then Some (word_of_nat n) else None)"

lemma sint_i32_of_nat: "n \<le> i32_max \<Longrightarrow> sint (word_of_nat n :: i32) = int n"
  by (simp add: i32_max_def sint_uint unsigned_of_nat take_bit_nat_eq_self
      signed_take_bit_int_eq_self)

lemma usize_of_i32_of_nat [simp]: "n \<le> i32_max \<Longrightarrow> usize_of_i32 (word_of_nat n) = Some n"
  by (simp add: usize_of_i32_def sint_i32_of_nat)

lemma usize_of_i32_le: "usize_of_i32 v = Some n \<Longrightarrow> n \<le> i32_max"
  using sint_lt [of v] by (auto simp: usize_of_i32_def i32_max_def split: if_splits)

end
