(* ===== verification/Bytes.thy ===== *)
theory Bytes
  imports Prelude
begin

section \<open>Byte order and UTF-8: the standard library's conversions\<close>

text \<open>
  \<open>to_le_bytes\<close>, \<open>to_be_bytes\<close>, \<open>from_le_bytes\<close> and \<open>from_be_bytes\<close> of the integer types, as
  one definition for every width, and \<open>str::from_utf8\<close> with \<open>encode_utf16().count()\<close>. These are
  functions of Rust's standard library that the code calls; the lemmas are the round trips and
  lengths the codecs rest on.
\<close>

subsection \<open>Byte order\<close>

fun le_digits :: "nat \<Rightarrow> 'a::len word \<Rightarrow> bytes" where
  "le_digits 0 w = []"
| "le_digits (Suc n) w = ucast w # le_digits n (drop_bit 8 w)"

fun from_le_bytes :: "bytes \<Rightarrow> 'a::len word" where
  "from_le_bytes [] = 0"
| "from_le_bytes (b # bs) = ucast b OR push_bit 8 (from_le_bytes bs)"

definition to_le_bytes :: "'a::len word \<Rightarrow> bytes" where
  "to_le_bytes w = le_digits (LENGTH('a) div 8) w"

definition to_be_bytes :: "'a::len word \<Rightarrow> bytes" where
  "to_be_bytes w = rev (to_le_bytes w)"

definition from_be_bytes :: "bytes \<Rightarrow> 'a::len word" where
  "from_be_bytes bs = from_le_bytes (rev bs)"

lemma length_le_digits [simp]: "length (le_digits n w) = n"
  by (induction n arbitrary: w) auto

lemma length_to_le_bytes [simp]: "length (to_le_bytes (w :: 'a::len word)) = LENGTH('a) div 8"
  by (simp add: to_le_bytes_def)

lemma length_to_be_bytes [simp]: "length (to_be_bytes (w :: 'a::len word)) = LENGTH('a) div 8"
  by (simp add: to_be_bytes_def)

lemma low_byte_step:
  fixes w :: "'a::len word"
  shows "ucast (ucast w :: u8) OR push_bit 8 (take_bit n (drop_bit 8 w)) = take_bit (n + 8) w"
  by (rule bit_word_eqI) (auto simp: bit_or_iff bit_push_bit_iff bit_take_bit_iff bit_drop_bit_eq
      bit_unsigned_iff add.commute dest: bit_imp_le_length)

lemma from_le_digits: "from_le_bytes (le_digits n w) = take_bit (8 * n) w"
proof (induction n arbitrary: w)
  case 0
  show ?case by simp
next
  case (Suc n)
  show ?case using low_byte_step [of w "8 * n"] by (simp add: Suc add.commute)
qed

lemma from_le_to_le:
  fixes w :: "'a::len word"
  assumes "8 dvd LENGTH('a)"
  shows "from_le_bytes (to_le_bytes w) = w"
  using assms by (simp add: to_le_bytes_def from_le_digits)

lemma from_be_to_be:
  fixes w :: "'a::len word"
  assumes "8 dvd LENGTH('a)"
  shows "from_be_bytes (to_be_bytes w) = w"
  using assms by (simp add: to_be_bytes_def from_be_bytes_def from_le_to_le)

lemma drop_or_low_byte:
  fixes v :: "'a::len word"
  assumes "8 \<le> LENGTH('a)"
  shows "drop_bit 8 (ucast (b :: u8) OR push_bit 8 v) = take_bit (LENGTH('a) - 8) v"
  using assms
  by (intro bit_word_eqI) (auto simp: bit_or_iff bit_push_bit_iff bit_take_bit_iff bit_drop_bit_eq
      bit_unsigned_iff dest: bit_imp_le_length)

lemma ucast_or_low_byte:
  fixes v :: "'a::len word"
  assumes "8 \<le> LENGTH('a)"
  shows "ucast (ucast (b :: u8) OR push_bit 8 v) = b"
  using assms
  by (intro bit_word_eqI) (auto simp: bit_or_iff bit_push_bit_iff bit_unsigned_iff
      dest: bit_imp_le_length)

lemma le_digits_take_bit:
  fixes w :: "'a::len word"
  assumes "8 * n \<le> m"
  shows "le_digits n (take_bit m w) = le_digits n w"
  using assms
proof (induction n arbitrary: w m)
  case 0
  show ?case by simp
next
  case (Suc n)
  have "ucast (take_bit m w) = (ucast w :: u8)"
    using Suc.prems by (intro bit_word_eqI) (auto simp: bit_unsigned_iff bit_take_bit_iff)
  moreover have "drop_bit 8 (take_bit m w) = take_bit (m - 8) (drop_bit 8 w)"
    by (simp add: drop_bit_take_bit)
  ultimately show ?case using Suc.IH [of "m - 8" "drop_bit 8 w"] Suc.prems by simp
qed

lemma le_digits_from_le:
  assumes "8 * length bs \<le> LENGTH('a)"
  shows "le_digits (length bs) (from_le_bytes bs :: 'a::len word) = bs"
  using assms
proof (induction bs)
  case Nil
  show ?case by simp
next
  case (Cons b bs)
  then show ?case
    by (simp add: drop_or_low_byte ucast_or_low_byte le_digits_take_bit del: drop_bit_or)
qed

lemma to_le_from_le:
  assumes "8 * length bs = LENGTH('a)"
  shows "to_le_bytes (from_le_bytes bs :: 'a::len word) = bs"
proof -
  have "LENGTH('a) div 8 = length bs" using assms by simp
  then show ?thesis using assms le_digits_from_le [of bs, where 'a = 'a] by (simp add: to_le_bytes_def)
qed

lemma to_be_from_be:
  assumes "8 * length bs = LENGTH('a)"
  shows "to_be_bytes (from_be_bytes bs :: 'a::len word) = bs"
  using assms to_le_from_le [of "rev bs", where 'a = 'a] by (simp add: to_be_bytes_def from_be_bytes_def)

subsection \<open>UTF-8\<close>

definition utf8_cont :: "u8 \<Rightarrow> bool" where
  "utf8_cont b \<longleftrightarrow> 0x80 \<le> b \<and> b \<le> 0xBF"

text \<open>
  The first scalar value of a byte string: its length in bytes and in UTF-16 units, \<open>None\<close> where
  the bytes do not start with a well-formed sequence (overlong forms, surrogates, values past
  U+10FFFF and truncated sequences are refused).
\<close>

definition utf8_first :: "bytes \<Rightarrow> (nat \<times> nat) option" where
  "utf8_first bs =
    (case bs of [] \<Rightarrow> None | b0 # cs \<Rightarrow>
     if b0 < 0x80 then Some (1, 1)
     else if 0xC2 \<le> b0 \<and> b0 \<le> 0xDF then
       (case cs of b1 # _ \<Rightarrow> if utf8_cont b1 then Some (2, 1) else None | _ \<Rightarrow> None)
     else if 0xE0 \<le> b0 \<and> b0 \<le> 0xEF then
       (case cs of b1 # b2 # _ \<Rightarrow>
          if utf8_cont b1 \<and> utf8_cont b2 \<and> (b0 = 0xE0 \<longrightarrow> 0xA0 \<le> b1) \<and> (b0 = 0xED \<longrightarrow> b1 \<le> 0x9F)
          then Some (3, 1) else None
        | _ \<Rightarrow> None)
     else if 0xF0 \<le> b0 \<and> b0 \<le> 0xF4 then
       (case cs of b1 # b2 # b3 # _ \<Rightarrow>
          if utf8_cont b1 \<and> utf8_cont b2 \<and> utf8_cont b3
             \<and> (b0 = 0xF0 \<longrightarrow> 0x90 \<le> b1) \<and> (b0 = 0xF4 \<longrightarrow> b1 \<le> 0x8F)
          then Some (4, 2) else None
        | _ \<Rightarrow> None)
     else None)"

lemma utf8_first_width:
  "utf8_first bs = Some (k, u) \<Longrightarrow> 0 < k \<and> k \<le> length bs \<and> u \<le> k \<and> k \<le> 3 * u"
  by (auto simp: utf8_first_def split: list.splits if_splits simp del: word_le_def)

text \<open>
  The UTF-16 length of a well-formed UTF-8 byte string, \<open>None\<close> where \<open>str::from_utf8\<close> fails.
\<close>

function utf8_scan :: "bytes \<Rightarrow> nat option" where
  "utf8_scan bs =
    (if bs = [] then Some 0
     else case utf8_first bs of None \<Rightarrow> None
       | Some (k, u) \<Rightarrow> map_option ((+) u) (utf8_scan (drop k bs)))"
  by pat_completeness auto
termination
  by (relation "measure length") (auto dest: utf8_first_width)

declare utf8_scan.simps [simp del]

definition utf8_valid :: "bytes \<Rightarrow> bool" where
  "utf8_valid bs \<longleftrightarrow> utf8_scan bs \<noteq> None"

definition utf16_units :: "rstring \<Rightarrow> nat" where
  "utf16_units s = (case utf8_scan s of None \<Rightarrow> 0 | Some n \<Rightarrow> n)"

text \<open>A UTF-16 unit is at most three UTF-8 bytes, a byte at most one unit.\<close>

lemma utf8_scan_bounds: "utf8_scan bs = Some n \<Longrightarrow> n \<le> length bs \<and> length bs \<le> 3 * n"
proof (induction bs arbitrary: n rule: utf8_scan.induct)
  case (1 bs)
  show ?case
  proof (cases "bs = []")
    case True
    then show ?thesis using "1.prems" by (simp add: utf8_scan.simps)
  next
    case False
    then obtain k u m where f: "utf8_first bs = Some (k, u)" and m: "utf8_scan (drop k bs) = Some m"
      and n: "n = u + m"
      using "1.prems" by (auto simp: utf8_scan.simps [of bs] split: option.splits)
    from "1.IH" [OF False f refl m] utf8_first_width [OF f] show ?thesis by (auto simp: n)
  qed
qed

lemma utf8_len_le: "utf8_valid s \<Longrightarrow> length s \<le> 3 * utf16_units s"
  by (auto simp: utf8_valid_def utf16_units_def dest: utf8_scan_bounds)

text \<open>String literals of the source (all of them ASCII).\<close>

definition ascii :: "string \<Rightarrow> rstring" where
  "ascii s = map (\<lambda>c. word_of_nat (of_char c)) s"

lemma length_ascii [simp]: "length (ascii s) = length s"
  by (simp add: ascii_def)

lemma utf8_scan_Cons_ascii:
  assumes "b < 0x80"
  shows "utf8_scan (b # bs) = map_option Suc (utf8_scan bs)"
proof -
  have "utf8_first (b # bs) = Some (1, 1)" using assms by (simp add: utf8_first_def)
  then show ?thesis by (cases "utf8_scan bs") (simp_all add: utf8_scan.simps [of "b # bs"])
qed

lemma utf8_scan_Nil [simp]: "utf8_scan [] = Some 0"
  by (simp add: utf8_scan.simps)

lemma utf8_scan_ascii: "(\<forall>b \<in> set bs. b < 0x80) \<Longrightarrow> utf8_scan bs = Some (length bs)"
  by (induction bs) (auto simp: utf8_scan_Cons_ascii)

lemma utf8_valid_Nil [simp]: "utf8_valid []" and utf16_units_Nil [simp]: "utf16_units [] = 0"
  by (simp_all add: utf8_valid_def utf16_units_def)

end
