(* ===== verification/Codec.thy ===== *)
theory Codec
  imports Bytes
begin

section \<open>The interfaces of decoders and encoders\<close>

text \<open>
  What a caller of a codec relies on, as locales. \<open>transactional\<close> is the promise of the module
  comment of \<open>primitives.rs\<close>: the input advances only when a complete value was read. \<open>codec\<close> is
  an encoder with a decoder that reads its output back; \<open>streaming_codec\<close> adds that a cut-off
  encoding is reported as incomplete, and \<open>wire_codec\<close> puts the two together: a caller may keep
  the bytes and retry. Every wire
  type of the protocol interprets them, and the packet theories use what is proved here once:
  injectivity, unique parsing, and the decoding of a sequence of values.
\<close>

subsection \<open>A decoder reads a byte string as a value\<close>

definition decodes :: "('e, 'a) decoder \<Rightarrow> bytes \<Rightarrow> 'a \<Rightarrow> bool" where
  "decodes p bs a \<longleftrightarrow> (\<forall>rest. p (bs @ rest) = (Inr a, rest))"

lemma decodesD: "decodes p bs a \<Longrightarrow> p (bs @ rest) = (Inr a, rest)"
  by (simp add: decodes_def)

lemma decodesD_all: "decodes p bs a \<Longrightarrow> p bs = (Inr a, [])"
  using decodesD [of p bs a "[]"] by simp

lemma decodes_ret [dec_intros]: "decodes (st_ret a) [] a"
  by (simp add: decodes_def)

lemma decodes_bind [dec_intros]:
  "decodes p bs a \<Longrightarrow> decodes (f a) cs b \<Longrightarrow> decodes (st_bind p f) (bs @ cs) b"
  by (simp add: decodes_def st_bind_def)

lemma decodes_bind_last:
  "decodes p bs a \<Longrightarrow> decodes (f a) [] b \<Longrightarrow> decodes (st_bind p f) bs b"
  using decodes_bind [of p bs a f "[]" b] by simp

lemma decodes_map_err [dec_intros]: "decodes p bs a \<Longrightarrow> decodes (st_map_err g p) bs a"
  by (simp add: decodes_def)

lemma decodes_restore [dec_intros]: "decodes p bs a \<Longrightarrow> decodes (st_restore p) bs a"
  by (simp add: decodes_def)

subsection \<open>Transactional decoders\<close>

locale transactional =
  fixes dec :: "('e, 'a) decoder"
  assumes err_unchanged: "dec inp = (Inl e, rest) \<Longrightarrow> rest = inp"
    and consumes_prefix: "dec inp = (Inr a, rest) \<Longrightarrow> \<exists>used. inp = used @ rest"
begin

lemma is_suffix: "\<exists>used. inp = used @ snd (dec inp)"
proof (cases "dec inp")
  case (Pair r rest)
  then show ?thesis by (cases r) (auto dest: err_unchanged consumes_prefix)
qed

lemma never_grows: "length (snd (dec inp)) \<le> length inp"
  using is_suffix [of inp] by (metis length_append le_add2)

lemma restore_id: "st_restore dec = dec"
  by (rule ext) (auto simp: st_restore_def split: prod.splits sum.splits dest: err_unchanged)

end

text \<open>Restoring on every error makes a decoder that consumes a prefix transactional.\<close>

lemma transactional_restore:
  assumes "\<And>inp a rest. p inp = (Inr a, rest) \<Longrightarrow> \<exists>used. inp = used @ rest"
  shows "transactional (st_restore p)"
  using assms by unfold_locales (auto simp: st_restore_Inl)

lemma transactional_map_err:
  assumes "transactional p"
  shows "transactional (st_map_err g p)"
  using transactional.err_unchanged [OF assms] transactional.consumes_prefix [OF assms]
  by unfold_locales (auto simp: st_map_err_def split: prod.splits sum.splits)

subsection \<open>Codecs\<close>

locale codec =
  fixes enc :: "'a \<Rightarrow> bytes \<Rightarrow> bytes"
    and dec :: "('e, 'a) decoder"
    and ok :: "'a \<Rightarrow> bool"
  assumes enc_appends: "enc a out = out @ enc a []"
    and roundtrip: "ok a \<Longrightarrow> dec (enc a [] @ rest) = (Inr a, rest)"
begin

lemma decodes_enc: "ok a \<Longrightarrow> decodes dec (enc a []) a"
  by (simp add: decodes_def roundtrip)

lemma unique_parse:
  assumes "ok a" "ok b" "enc a [] @ r = enc b [] @ s"
  shows "a = b \<and> r = s"
proof -
  have "(Inr a, r) = dec (enc b [] @ s)"
    unfolding assms(3) [symmetric] by (rule roundtrip [OF assms(1), symmetric])
  also have "\<dots> = (Inr b, s)" by (rule roundtrip [OF assms(2)])
  finally show ?thesis by simp
qed

lemma enc_inj: "ok a \<Longrightarrow> ok b \<Longrightarrow> enc a [] = enc b [] \<Longrightarrow> a = b"
  by (metis unique_parse)

end

locale streaming_codec = codec enc dec ok
  for enc :: "'a \<Rightarrow> bytes \<Rightarrow> bytes" and dec :: "('e, 'a) decoder" and ok :: "'a \<Rightarrow> bool" +
  fixes incomplete :: 'e
  assumes truncated: "ok a \<Longrightarrow> enc a [] = p @ q \<Longrightarrow> q \<noteq> [] \<Longrightarrow> dec p = (Inl incomplete, p)"
begin

text \<open>Feeding an encoding byte by byte: incomplete until the last byte, then the value.\<close>

lemma incremental:
  assumes "ok a" "n \<le> length (enc a [])"
  shows "dec (take n (enc a [])) =
    (if n < length (enc a []) then (Inl incomplete, take n (enc a [])) else (Inr a, []))"
proof (cases "n < length (enc a [])")
  case True
  then have "dec (take n (enc a [])) = (Inl incomplete, take n (enc a []))"
    using assms(1) by (intro truncated [of a _ "drop n (enc a [])"]) simp_all
  with True show ?thesis by simp
next
  case False
  then show ?thesis using roundtrip [OF assms(1), of "[]"] by simp
qed

end

text \<open>A streaming codec whose decoder is transactional as well.\<close>

locale wire_codec = streaming_codec enc dec ok incomplete + transactional dec
  for enc :: "'a \<Rightarrow> bytes \<Rightarrow> bytes" and dec :: "('e, 'a) decoder" and ok :: "'a \<Rightarrow> bool"
    and incomplete :: 'e
begin

lemma retry_after_append:
  assumes "ok a" "enc a [] = p @ q" "q \<noteq> []"
  shows "dec p = (Inl incomplete, p) \<and> dec (snd (dec p) @ q @ rest) = (Inr a, rest)"
  using truncated [OF assms] roundtrip [OF assms(1), of rest] assms(2) by simp

end

subsection \<open>Sequences: \<open>for _ in 0..count\<close> and \<open>for x in xs\<close>\<close>

fun dec_times :: "nat \<Rightarrow> ('e, 'a) decoder \<Rightarrow> ('e, 'a list) decoder" where
  "dec_times 0 p = st_ret []"
| "dec_times (Suc n) p = st_bind p (\<lambda>x. st_bind (dec_times n p) (\<lambda>xs. st_ret (x # xs)))"

lemma dec_times_length: "dec_times n p inp = (Inr xs, rest) \<Longrightarrow> length xs = n"
  by (induction n arbitrary: inp xs) (auto simp: st_bind_Inr_iff)

lemma dec_times_concat:
  assumes "\<And>x. x \<in> set xs \<Longrightarrow> decodes p (f x) x"
  shows "decodes (dec_times (length xs) p) (concat (map f xs)) xs"
  using assms
proof (induction xs)
  case Nil
  show ?case by (simp add: decodes_def)
next
  case (Cons x xs)
  have 1: "decodes p (f x) x" using Cons.prems by simp
  have 2: "decodes (dec_times (length xs) p) (concat (map f xs)) xs" using Cons by simp
  show ?case
    unfolding dec_times.simps length_Cons list.map concat.simps
    by (rule decodes_bind [OF 1 decodes_bind_last [OF 2 decodes_ret]])
qed

text \<open>An infallible encoder folded over a list appends the elements' encodings in order.\<close>

lemma fold_enc_concat:
  assumes "\<And>x out. enc x out = out @ enc x []"
  shows "fold enc xs out = out @ concat (map (\<lambda>x. enc x []) xs)"
proof (induction xs arbitrary: out)
  case Nil
  show ?case by simp
next
  case (Cons x xs)
  show ?case by (simp add: Cons assms [of x out])
qed

end
