(* ===== verification/Primitives.thy ===== *)
theory Primitives
  imports Codec
begin

section \<open>Primitive codecs (\<open>rustbound-protocol/src/primitives.rs\<close>)\<close>

text \<open>
  VarInt and VarLong, protocol strings, fixed-width big-endian integers and floats (as their bit
  patterns), packed block positions, booleans, UUIDs and length-prefixed byte arrays. The encoders
  append to the output buffer, the decoders advance the input buffer; every wire type is shown to
  be a \<open>wire_codec\<close>.
\<close>

datatype codec_error =
    IncompleteInput
  | VarIntTooLong
  | VarLongTooLong
  | NegativeStringLength
  | StringTooLong
  | InvalidUtf8
  | InvalidBoolean

subsection \<open>VarInt and VarLong\<close>

text \<open>
  The loops of \<open>encode_var_int\<close>/\<open>encode_var_long\<close> and \<open>decode_var_int\<close>/\<open>decode_var_long\<close> differ
  only in the width and in the number of bytes allowed, which are parameters here.
\<close>

function var_enc_loop :: "'a::len word \<Rightarrow> bytes \<Rightarrow> bytes" where
  "var_enc_loop remaining out =
    (let byte = ucast (remaining AND 0x7F) :: u8; remaining' = drop_bit 7 remaining in
     if remaining' \<noteq> 0 then var_enc_loop remaining' (out @ [byte OR 0x80])
     else out @ [byte])"
  by pat_completeness auto

lemma unat_drop_7: "unat (drop_bit 7 (w :: 'a::len word)) = unat w div 128"
  by (subst unat_drop_bit_eq) (simp add: drop_bit_eq_div)

lemma drop_bit_7_less: "drop_bit 7 (w :: 'a::len word) \<noteq> 0 \<Longrightarrow> unat (drop_bit 7 w) < unat w"
proof -
  assume nz: "drop_bit 7 w \<noteq> 0"
  then have "unat w div 128 \<noteq> 0" by (metis unat_drop_7 unat_eq_zero)
  then show ?thesis unfolding unat_drop_7 by auto
qed

termination var_enc_loop
  by (relation "measure (\<lambda>(w, _). unat w)") (auto simp: drop_bit_7_less)

declare var_enc_loop.simps [simp del]

function var_dec_loop ::
  "nat \<Rightarrow> codec_error \<Rightarrow> bytes \<Rightarrow> nat \<Rightarrow> 'a::len word \<Rightarrow> codec_error + 'a word \<times> bytes" where
  "var_dec_loop limit too_long source index result =
    (if index < limit then
       (case slice_get source index of
          None \<Rightarrow> Inl IncompleteInput
        | Some byte \<Rightarrow>
            let result' = result OR push_bit (index * 7) (ucast (byte AND 0x7F)) in
            if byte AND 0x80 = 0 then Inr (result', drop (index + 1) source)
            else var_dec_loop limit too_long source (index + 1) result')
     else Inl too_long)"
  by pat_completeness auto
termination
  by (relation "measure (\<lambda>(limit, _, _, index, _). limit - index)") auto

declare var_dec_loop.simps [simp del]

definition encode_var_int :: "i32 \<Rightarrow> bytes \<Rightarrow> bytes" where
  "encode_var_int value output = var_enc_loop value output"

definition decode_var_int :: "(codec_error, i32) decoder" where
  "decode_var_int input =
    (case var_dec_loop 5 VarIntTooLong input 0 0 of
       Inl e \<Rightarrow> (Inl e, input)
     | Inr (result, rest) \<Rightarrow> (Inr result, rest))"

definition encode_var_long :: "i64 \<Rightarrow> bytes \<Rightarrow> bytes" where
  "encode_var_long value output = var_enc_loop value output"

definition decode_var_long :: "(codec_error, i64) decoder" where
  "decode_var_long input =
    (case var_dec_loop 10 VarLongTooLong input 0 0 of
       Inl e \<Rightarrow> (Inl e, input)
     | Inr (result, rest) \<Rightarrow> (Inr result, rest))"

subsubsection \<open>The encoder's output as a list of groups\<close>

function var_groups :: "'a::len word \<Rightarrow> bytes" where
  "var_groups w =
    (if drop_bit 7 w \<noteq> 0 then (ucast (w AND 0x7F) OR 0x80) # var_groups (drop_bit 7 w)
     else [ucast (w AND 0x7F)])"
  by pat_completeness auto
termination
  by (relation "measure unat") (auto simp: drop_bit_7_less)

declare var_groups.simps [simp del]

lemma var_enc_loop_groups: "var_enc_loop w out = out @ var_groups w"
proof (induction w out rule: var_enc_loop.induct)
  case (1 w out)
  then show ?case
    by (simp add: var_enc_loop.simps [of w out] var_groups.simps [of w] Let_def)
qed

lemma var_groups_not_Nil [simp]: "var_groups w \<noteq> []"
  by (simp add: var_groups.simps [of w])

lemma var_groups_length:
  "unat w < 2 ^ (7 * n) \<Longrightarrow> 0 < n \<Longrightarrow> length (var_groups w) \<le> n"
proof (induction w arbitrary: n rule: var_groups.induct)
  case (1 w)
  show ?case
  proof (cases "drop_bit 7 w = 0")
    case True
    then show ?thesis using "1.prems" by (simp add: var_groups.simps [of w])
  next
    case False
    with unat_drop_7 [of w] have "128 \<le> unat w" by (metis div_less linorder_not_less unat_eq_zero)
    with "1.prems" have n: "1 < n" by (cases "n = 1") auto
    then have "(2::nat) ^ (7 * n) = 128 * 2 ^ (7 * (n - 1))"
      by (cases n) (simp_all add: power_add)
    with "1.prems" have "unat (drop_bit 7 w) < 2 ^ (7 * (n - 1))"
      by (simp only: unat_drop_7 mult.commute less_mult_imp_div_less)
    with "1.IH" [of "n - 1"] False n have "length (var_groups (drop_bit 7 w)) \<le> n - 1" by simp
    with False n show ?thesis by (simp add: var_groups.simps [of w])
  qed
qed

text \<open>The two masks of the loops, read as bits.\<close>

lemma and_7f: "w AND 0x7F = take_bit 7 (w :: 'a::len word)"
proof -
  have "(0x7F :: 'a word) = mask 7" by (simp add: mask_eq_exp_minus_1)
  then show ?thesis by (simp only: take_bit_eq_mask)
qed

lemma and_80_eq_0: "(b :: u8) AND 0x80 = 0 \<longleftrightarrow> \<not> bit b 7"
proof -
  have "(0x80 :: u8) = push_bit 7 1" by simp
  then show ?thesis by (metis and_exp_eq_0_iff_not_bit push_bit_of_1)
qed

lemma or_80: "(b :: u8) OR 0x80 = set_bit 7 b"
proof -
  have "(0x80 :: u8) = push_bit 7 1" by simp
  then show ?thesis by (simp only: set_bit_eq_or)
qed

lemma group_payload:
  "ucast (take_bit 7 (ucast (take_bit 7 w) :: u8)) = take_bit 7 (w :: 'a::len word)"
  "ucast (take_bit 7 (set_bit 7 (ucast (take_bit 7 w) :: u8))) = take_bit 7 (w :: 'a::len word)"
  by (rule bit_word_eqI, auto simp: bit_take_bit_iff bit_unsigned_iff bit_set_bit_iff
      dest: bit_imp_le_length)+

lemma group_step:
  "(r OR push_bit k (take_bit 7 w)) OR push_bit (k + 7) (drop_bit 7 w) = r OR push_bit k (w :: 'a::len word)"
proof (rule bit_word_eqI)
  fix n assume "n < LENGTH('a)"
  moreover have "k + 7 \<le> n \<Longrightarrow> 7 + (n - (k + 7)) = n - k" by simp
  ultimately show "bit ((r OR push_bit k (take_bit 7 w)) OR push_bit (k + 7) (drop_bit 7 w)) n
      = bit (r OR push_bit k w) n"
    by (cases "k + 7 \<le> n")
      (auto simp: bit_or_iff bit_push_bit_iff bit_take_bit_iff bit_drop_bit_eq)
qed

lemma group_last: "drop_bit 7 w = 0 \<Longrightarrow> take_bit 7 w = (w :: 'a::len word)"
  using bits_ident [of 7 w] by simp

subsubsection \<open>Reading the groups back\<close>

lemma var_dec_groups:
  fixes w :: "'a::len word"
  assumes "length (var_groups w) + length pre \<le> limit"
  shows "var_dec_loop limit e (pre @ var_groups w @ rest) (length pre) r
    = Inr (r OR push_bit (7 * length pre) w, rest)"
  using assms
proof (induction w arbitrary: pre r rule: var_groups.induct)
  case (1 w)
  let ?b = "ucast (take_bit 7 w) :: u8"
  show ?case
  proof (cases "drop_bit 7 w = 0")
    case True
    define b where "b = ?b"
    have g: "var_groups w = [b]" using True by (simp add: var_groups.simps [of w] and_7f b_def)
    have "\<not> bit b 7" by (simp add: b_def bit_unsigned_iff bit_take_bit_iff)
    moreover have "ucast (take_bit 7 b) = w"
      unfolding b_def group_payload(1) by (rule group_last [OF True])
    ultimately show ?thesis
      using "1.prems" by (subst var_dec_loop.simps)
        (simp add: g and_7f and_80_eq_0 Let_def mult.commute)
  next
    case False
    then have g: "var_groups w = set_bit 7 ?b # var_groups (drop_bit 7 w)"
      by (simp add: var_groups.simps [of w] and_7f or_80)
    have IH: "var_dec_loop limit e ((pre @ [set_bit 7 ?b]) @ var_groups (drop_bit 7 w) @ rest)
        (length (pre @ [set_bit 7 ?b])) r'
      = Inr (r' OR push_bit (7 * length (pre @ [set_bit 7 ?b])) (drop_bit 7 w), rest)" for r'
      by (rule "1.IH") (use "1.prems" False in \<open>auto simp: g\<close>)
    have c: "bit (set_bit 7 ?b) 7" by (simp add: bit_set_bit_iff)
    show ?thesis
      using "1.prems" IH [of "r OR push_bit (7 * length pre) (take_bit 7 w)"]
        group_payload(2) [of w] group_step [of r "7 * length pre" w] c
      by (subst var_dec_loop.simps) (simp add: g and_7f and_80_eq_0 mult.commute add.commute)
  qed
qed

lemma var_dec_truncated:
  fixes w :: "'a::len word"
  assumes "length (var_groups w) + length pre \<le> limit" "var_groups w = p @ q" "q \<noteq> []"
  shows "var_dec_loop limit e (pre @ p) (length pre) (r :: 'a word) = Inl IncompleteInput"
  using assms
proof (induction w arbitrary: pre p r rule: var_groups.induct)
  case (1 w)
  let ?b = "ucast (take_bit 7 w) :: u8"
  show ?case
  proof (cases p)
    case Nil
    have "length pre < limit" using "1.prems"(1) by (cases "var_groups w") auto
    with Nil show ?thesis
      by (subst var_dec_loop.simps) (simp add: slice_get_def)
  next
    case (Cons b p')
    show ?thesis
    proof (cases "drop_bit 7 w = 0")
      case True
      then have "var_groups w = [?b]" by (simp add: var_groups.simps [of w] and_7f)
      with Cons "1.prems"(2,3) show ?thesis by simp
    next
      case False
      then have g: "var_groups w = set_bit 7 ?b # var_groups (drop_bit 7 w)"
        by (simp add: var_groups.simps [of w] and_7f or_80)
      with Cons "1.prems" have b: "b = set_bit 7 ?b" and rest: "var_groups (drop_bit 7 w) = p' @ q"
        by auto
      have IH: "var_dec_loop limit e ((pre @ [b]) @ p') (length (pre @ [b])) r' = Inl IncompleteInput"
        for r' :: "'a word" by (rule "1.IH") (use "1.prems" False rest in \<open>auto simp: g\<close>)
      have c: "bit b 7" by (simp add: b bit_set_bit_iff)
      have "length pre < limit" using "1.prems"(1) g by simp
      with IH c Cons show ?thesis
        by (subst var_dec_loop.simps) (simp add: and_80_eq_0)
    qed
  qed
qed

lemma var_dec_consumes:
  "var_dec_loop limit e source index r = Inr (v, rest) \<Longrightarrow> \<exists>n. rest = drop n source"
proof (induction limit e source index r rule: var_dec_loop.induct)
  case (1 limit e source index r)
  from "1.prems" show ?case
    by (subst (asm) var_dec_loop.simps)
      (auto simp: Let_def split: if_splits option.splits dest: "1.IH")
qed

lemma var_int_groups_length: "length (var_groups (v :: i32)) \<le> 5"
  by (rule var_groups_length) (use unsigned_less [of v, where 'a = nat] in simp_all)

lemma var_long_groups_length: "length (var_groups (v :: i64)) \<le> 10"
  by (rule var_groups_length) (use unsigned_less [of v, where 'a = nat] in simp_all)

lemma encode_var_int_app: "encode_var_int v out = out @ encode_var_int v []"
  by (simp add: encode_var_int_def var_enc_loop_groups)

lemma encode_var_int_Nil: "encode_var_int v [] = var_groups v"
  by (simp add: encode_var_int_def var_enc_loop_groups)

lemma drop_is_suffix: "\<exists>used. xs = used @ drop n xs"
  by (metis append_take_drop_id)

interpretation var_int: wire_codec encode_var_int decode_var_int "\<lambda>_. True" IncompleteInput
proof unfold_locales
  show "encode_var_int v out = out @ encode_var_int v []" for v out
    by (rule encode_var_int_app)
next
  show "decode_var_int (encode_var_int v [] @ rest) = (Inr v, rest)" for v rest
    using var_dec_groups [of v "[]" 5 VarIntTooLong rest 0] var_int_groups_length [of v]
    by (simp add: decode_var_int_def encode_var_int_Nil)
next
  show "decode_var_int p = (Inl IncompleteInput, p)"
    if "encode_var_int v [] = p @ q" "q \<noteq> []" for v p q
    using var_dec_truncated [of v "[]" 5 p q VarIntTooLong 0] var_int_groups_length [of v] that
    by (simp add: decode_var_int_def encode_var_int_Nil)
qed (auto simp: decode_var_int_def drop_is_suffix split: sum.splits dest!: var_dec_consumes)

interpretation var_long: wire_codec encode_var_long decode_var_long "\<lambda>_. True" IncompleteInput
proof unfold_locales
  show "encode_var_long v out = out @ encode_var_long v []" for v out
    by (simp add: encode_var_long_def var_enc_loop_groups)
next
  show "decode_var_long (encode_var_long v [] @ rest) = (Inr v, rest)" for v rest
    using var_dec_groups [of v "[]" 10 VarLongTooLong rest 0] var_long_groups_length [of v]
    by (simp add: decode_var_long_def encode_var_long_def var_enc_loop_groups)
next
  show "decode_var_long p = (Inl IncompleteInput, p)"
    if "encode_var_long v [] = p @ q" "q \<noteq> []" for v p q
    using var_dec_truncated [of v "[]" 10 p q VarLongTooLong 0] var_long_groups_length [of v] that
    by (simp add: decode_var_long_def encode_var_long_def var_enc_loop_groups)
qed (auto simp: decode_var_long_def drop_is_suffix split: sum.splits dest!: var_dec_consumes)

subsection \<open>Strings\<close>

definition encode_string :: "rstring \<Rightarrow> nat \<Rightarrow> codec_error encoder" where
  "encode_string value max_utf16_units output =
    (let max_bytes = saturating_mul max_utf16_units 3 in
     if length value > max_bytes \<or> length value > i32_max \<or> utf16_units value > max_utf16_units
     then (Inl StringTooLong, output)
     else (Inr (), encode_var_int (word_of_nat (length value)) output @ value))"

definition decode_string :: "nat \<Rightarrow> (codec_error, rstring) decoder" where
  "decode_string max_utf16_units input =
    (case decode_var_int input of
       (Inl e, _) \<Rightarrow> (Inl e, input)
     | (Inr encoded_len, remaining) \<Rightarrow>
       (case usize_of_i32 encoded_len of
          None \<Rightarrow> (Inl NegativeStringLength, input)
        | Some byte_len \<Rightarrow>
          (let max_bytes = saturating_mul max_utf16_units 3 in
           if byte_len > max_bytes then (Inl StringTooLong, input)
           else case slice_to remaining byte_len of
              None \<Rightarrow> (Inl IncompleteInput, input)
            | Some bytes \<Rightarrow>
              if \<not> utf8_valid bytes then (Inl InvalidUtf8, input)
              else if utf16_units bytes > max_utf16_units then (Inl StringTooLong, input)
              else (Inr bytes, drop byte_len remaining))))"

text \<open>The strings a field of at most \<open>n\<close> UTF-16 units can carry.\<close>

definition str_ok :: "nat \<Rightarrow> rstring \<Rightarrow> bool" where
  "str_ok n s \<longleftrightarrow> utf8_valid s \<and> utf16_units s \<le> n \<and> length s \<le> i32_max"

lemma str_ok_bytes:
  assumes "str_ok n s"
  shows "length s \<le> saturating_mul n 3"
proof -
  have "length s \<le> 3 * utf16_units s" and "length s \<le> i32_max"
    using assms utf8_len_le by (auto simp: str_ok_def)
  moreover have "3 * utf16_units s \<le> n * 3" using assms by (simp add: str_ok_def)
  ultimately show ?thesis by (simp add: saturating_mul_def usize_max_def i32_max_def)
qed

lemma encode_string_ok:
  "str_ok n s \<Longrightarrow> encode_string s n out = (Inr (), out @ encode_var_int (word_of_nat (length s)) [] @ s)"
  using str_ok_bytes [of n s]
  by (simp add: encode_string_def str_ok_def encode_var_int_app [of _ out] Let_def not_less)

lemma encode_string_success_iff:
  "utf8_valid s \<Longrightarrow> fst (encode_string s n out) = Inr () \<longleftrightarrow> str_ok n s"
  using str_ok_bytes [of n s] by (auto simp: encode_string_def str_ok_def Let_def not_less)

lemma encode_string_err: "encode_string s n out = (Inl e, out') \<Longrightarrow> out' = out \<and> e = StringTooLong"
  by (auto simp: encode_string_def Let_def split: if_splits)

lemma decode_string_roundtrip:
  assumes "str_ok n s"
  shows "decode_string n (encode_var_int (word_of_nat (length s)) [] @ s @ rest) = (Inr s, rest)"
  using assms str_ok_bytes [OF assms]
  by (simp add: decode_string_def var_int.roundtrip str_ok_def Let_def not_less)

lemma split_app: "xs @ ys = p @ q \<Longrightarrow> (\<exists>zs. p = xs @ zs \<and> ys = zs @ q) \<or> (\<exists>zs. xs = p @ zs \<and> zs \<noteq> [])"
  by (auto simp: append_eq_append_conv2)

lemma decode_string_truncated:
  assumes "str_ok n s" "encode_var_int (word_of_nat (length s)) [] @ s = p @ q" "q \<noteq> []"
  shows "decode_string n p = (Inl IncompleteInput, p)"
  using split_app [OF assms(2)]
proof (elim disjE exE conjE)
  fix zs assume p: "p = encode_var_int (word_of_nat (length s)) [] @ zs" and "s = zs @ q"
  then have "length zs < length s" using assms(3) by simp
  then show ?thesis using assms(1) str_ok_bytes [OF assms(1)]
    by (simp add: p decode_string_def var_int.roundtrip str_ok_def Let_def not_less slice_to_def)
next
  fix zs assume "encode_var_int (word_of_nat (length s)) [] = p @ zs" "zs \<noteq> []"
  then show ?thesis by (simp add: decode_string_def var_int.truncated)
qed

lemma decode_string_result: "decode_string n inp = (Inr s, rest) \<Longrightarrow> str_ok n s"
  by (auto simp: decode_string_def str_ok_def Let_def slice_to_def dest!: usize_of_i32_le
      split: prod.splits sum.splits option.splits if_splits)

interpretation str: wire_codec "\<lambda>s out. snd (encode_string s n out)" "decode_string n" "str_ok n"
  IncompleteInput for n
proof unfold_locales
  show "snd (encode_string s n out) = out @ snd (encode_string s n [])" for s out
    by (simp add: encode_string_def Let_def encode_var_int_app [of _ out])
next
  show "decode_string n (snd (encode_string s n []) @ rest) = (Inr s, rest)"
    if "str_ok n s" for s rest
    using that by (simp add: encode_string_ok decode_string_roundtrip)
next
  show "decode_string n p = (Inl IncompleteInput, p)"
    if "str_ok n s" "snd (encode_string s n []) = p @ q" "q \<noteq> []" for s p q
    using that by (simp add: encode_string_ok decode_string_truncated)
next
  show "rest = inp" if "decode_string n inp = (Inl e, rest)" for inp e rest
    using that
    by (auto simp: decode_string_def Let_def split: prod.splits sum.splits option.splits if_splits)
next
  show "\<exists>used. inp = used @ rest" if dec: "decode_string n inp = (Inr s, rest)" for inp s rest
  proof -
    from dec obtain l r k where "decode_var_int inp = (Inr l, r)" and "rest = drop k r"
      by (auto simp: decode_string_def Let_def slice_to_def
          split: prod.splits sum.splits option.splits if_splits)
    with var_int.consumes_prefix [of inp l r] show ?thesis
      by (metis append.assoc append_take_drop_id)
  qed
qed

subsection \<open>Fixed-width integers and floats, big-endian\<close>

text \<open>\<open>source.get(..n)\<close> followed by \<open>from_be_bytes\<close>, the body every fixed-width decoder has.\<close>

definition decode_be :: "nat \<Rightarrow> (codec_error, 'a::len word) decoder" where
  "decode_be n source =
    (case slice_to source n of
       None \<Rightarrow> (Inl IncompleteInput, source)
     | Some bytes \<Rightarrow> (Inr (from_be_bytes bytes), drop n source))"

definition encode_u16 :: "u16 \<Rightarrow> bytes \<Rightarrow> bytes" where
  "encode_u16 value output = output @ to_be_bytes value"

definition decode_u16 :: "(codec_error, u16) decoder" where
  "decode_u16 = decode_be 2"

definition encode_i16 :: "i16 \<Rightarrow> bytes \<Rightarrow> bytes" where
  "encode_i16 value output = output @ to_be_bytes value"

definition decode_i16 :: "(codec_error, i16) decoder" where
  "decode_i16 = decode_be 2"

definition encode_i32 :: "i32 \<Rightarrow> bytes \<Rightarrow> bytes" where
  "encode_i32 value output = output @ to_be_bytes value"

definition decode_i32 :: "(codec_error, i32) decoder" where
  "decode_i32 = decode_be 4"

definition encode_i64 :: "i64 \<Rightarrow> bytes \<Rightarrow> bytes" where
  "encode_i64 value output = output @ to_be_bytes value"

definition decode_i64 :: "(codec_error, i64) decoder" where
  "decode_i64 = decode_be 8"

definition encode_f32 :: "f32bits \<Rightarrow> bytes \<Rightarrow> bytes" where
  "encode_f32 value output = output @ to_be_bytes value"

definition decode_f32 :: "(codec_error, f32bits) decoder" where
  "decode_f32 = decode_be 4"

definition encode_f64 :: "f64bits \<Rightarrow> bytes \<Rightarrow> bytes" where
  "encode_f64 value output = output @ to_be_bytes value"

definition decode_f64 :: "(codec_error, f64bits) decoder" where
  "decode_f64 = decode_be 8"

lemma be_wire_codec:
  assumes "8 dvd LENGTH('a::len)"
  shows "wire_codec (\<lambda>(v :: 'a word) out. out @ to_be_bytes v) (decode_be (LENGTH('a) div 8))
    (\<lambda>_. True) IncompleteInput"
proof unfold_locales
  show "decode_be (LENGTH('a) div 8) (([] @ to_be_bytes v) @ rest) = (Inr v, rest)"
    for v :: "'a word" and rest
    using assms slice_to_append [of "to_be_bytes v" rest] by (simp add: decode_be_def from_be_to_be)
next
  show "decode_be (LENGTH('a) div 8) p = (Inl IncompleteInput :: codec_error + 'a word, p)"
    if "[] @ to_be_bytes v = p @ q" "q \<noteq> []" for v :: "'a word" and p q
  proof -
    have "length (to_be_bytes v) = length p + length q" using that by simp
    moreover have "0 < length q" using that by simp
    ultimately have "length p < LENGTH('a) div 8" by simp
    then show ?thesis by (simp add: decode_be_def slice_to_def)
  qed
qed (auto simp: decode_be_def slice_to_def drop_is_suffix split: option.splits if_splits)

interpretation be_u16: wire_codec encode_u16 decode_u16 "\<lambda>_. True" IncompleteInput
  using be_wire_codec [where 'a = 16] by (simp add: encode_u16_def [abs_def] decode_u16_def)

interpretation be_i16: wire_codec encode_i16 decode_i16 "\<lambda>_. True" IncompleteInput
  using be_wire_codec [where 'a = 16] by (simp add: encode_i16_def [abs_def] decode_i16_def)

interpretation be_i32: wire_codec encode_i32 decode_i32 "\<lambda>_. True" IncompleteInput
  using be_wire_codec [where 'a = 32] by (simp add: encode_i32_def [abs_def] decode_i32_def)

interpretation be_i64: wire_codec encode_i64 decode_i64 "\<lambda>_. True" IncompleteInput
  using be_wire_codec [where 'a = 64] by (simp add: encode_i64_def [abs_def] decode_i64_def)

interpretation be_f32: wire_codec encode_f32 decode_f32 "\<lambda>_. True" IncompleteInput
  using be_wire_codec [where 'a = 32] by (simp add: encode_f32_def [abs_def] decode_f32_def)

interpretation be_f64: wire_codec encode_f64 decode_f64 "\<lambda>_. True" IncompleteInput
  using be_wire_codec [where 'a = 64] by (simp add: encode_f64_def [abs_def] decode_f64_def)

subsection \<open>Booleans and single bytes\<close>

definition encode_bool :: "bool \<Rightarrow> bytes \<Rightarrow> bytes" where
  "encode_bool value output = output @ [if value then 0x01 else 0x00]"

definition decode_bool :: "(codec_error, bool) decoder" where
  "decode_bool source =
    (case source of
       [] \<Rightarrow> (Inl IncompleteInput, source)
     | byte # rest \<Rightarrow>
       if byte = 0x00 then (Inr False, rest)
       else if byte = 0x01 then (Inr True, rest)
       else (Inl InvalidBoolean, source))"

definition encode_u8 :: "u8 \<Rightarrow> bytes \<Rightarrow> bytes" where
  "encode_u8 value output = output @ [value]"

definition decode_u8 :: "(codec_error, u8) decoder" where
  "decode_u8 source =
    (case source of [] \<Rightarrow> (Inl IncompleteInput, source) | byte # rest \<Rightarrow> (Inr byte, rest))"

definition encode_i8 :: "i8 \<Rightarrow> bytes \<Rightarrow> bytes" where
  "encode_i8 value output = output @ [value]"

definition decode_i8 :: "(codec_error, i8) decoder" where
  "decode_i8 source =
    (case source of [] \<Rightarrow> (Inl IncompleteInput, source) | byte # rest \<Rightarrow> (Inr byte, rest))"

lemma singleton_append: "[x] = p @ q \<Longrightarrow> q \<noteq> [] \<Longrightarrow> p = []"
  by (auto simp: Cons_eq_append_conv)

interpretation bool: wire_codec encode_bool decode_bool "\<lambda>_. True" IncompleteInput
  by unfold_locales (auto simp: encode_bool_def decode_bool_def dest!: singleton_append
      split: list.splits if_splits)

interpretation u8: wire_codec encode_u8 decode_u8 "\<lambda>_. True" IncompleteInput
  by unfold_locales (auto simp: encode_u8_def decode_u8_def dest!: singleton_append
      split: list.splits if_splits)

interpretation i8: wire_codec encode_i8 decode_i8 "\<lambda>_. True" IncompleteInput
  by unfold_locales (auto simp: encode_i8_def decode_i8_def dest!: singleton_append
      split: list.splits if_splits)

subsection \<open>Packed block positions\<close>

definition pack_position :: "i32 \<Rightarrow> i32 \<Rightarrow> i32 \<Rightarrow> i64" where
  "pack_position x y z =
    (let x' = (scast x :: i64) AND 0x3FFFFFF;
         y' = (scast y :: i64) AND 0xFFF;
         z' = (scast z :: i64) AND 0x3FFFFFF
     in push_bit 38 x' OR push_bit 12 z' OR y')"

definition encode_position :: "i32 \<Rightarrow> i32 \<Rightarrow> i32 \<Rightarrow> bytes \<Rightarrow> bytes" where
  "encode_position x y z output = encode_i64 (pack_position x y z) output"

text \<open>\<open>>>\<close> on \<open>i64\<close> is the arithmetic shift.\<close>

definition decode_position :: "(codec_error, i32 \<times> i32 \<times> i32) decoder" where
  "decode_position = st_bind decode_i64 (\<lambda>value. st_ret
     (ucast (signed_drop_bit 38 value),
      ucast (signed_drop_bit 52 (push_bit 52 value)),
      ucast (signed_drop_bit 38 (push_bit 26 value))))"

lemma and_mask_position: "(w :: i64) AND 0x3FFFFFF = take_bit 26 w" "(w :: i64) AND 0xFFF = take_bit 12 w"
  by (simp_all add: take_bit_eq_mask mask_eq_exp_minus_1)

lemma bit_pack_position:
  "bit (pack_position x y z) n \<longleftrightarrow>
    (n < 12 \<and> bit y n) \<or> (12 \<le> n \<and> n < 38 \<and> bit z (n - 12)) \<or> (38 \<le> n \<and> n < 64 \<and> bit x (n - 38))"
  unfolding pack_position_def and_mask_position
  by (auto simp: Let_def bit_or_iff bit_take_bit_iff bit_push_bit_iff bit_signed_iff min_def)

lemma bit_signed_take_bit_cases:
  "n < LENGTH('a) \<Longrightarrow> bit (signed_take_bit m (w :: 'a::len word)) n \<longleftrightarrow> (if n < m then bit w n else bit w m)"
  by (auto simp: bit_signed_take_bit_iff min_def not_less dest!: le_antisym)

lemma unpack_x: "ucast (signed_drop_bit 38 (pack_position x y z)) = signed_take_bit 25 x"
proof (rule bit_word_eqI)
  fix n :: nat assume "n < LENGTH(32)"
  then show "bit (ucast (signed_drop_bit 38 (pack_position x y z)) :: i32) n = bit (signed_take_bit 25 x) n"
    by (cases "n = 25") (auto simp: bit_unsigned_iff bit_signed_drop_bit_iff bit_pack_position
        bit_signed_take_bit_cases)
qed

lemma unpack_y: "ucast (signed_drop_bit 52 (push_bit 52 (pack_position x y z))) = signed_take_bit 11 y"
proof (rule bit_word_eqI)
  fix n :: nat assume "n < LENGTH(32)"
  then show "bit (ucast (signed_drop_bit 52 (push_bit 52 (pack_position x y z))) :: i32) n
      = bit (signed_take_bit 11 y) n"
    by (cases "n = 11") (auto simp: bit_unsigned_iff bit_signed_drop_bit_iff bit_pack_position
        bit_push_bit_iff bit_signed_take_bit_cases)
qed

lemma unpack_z: "ucast (signed_drop_bit 38 (push_bit 26 (pack_position x y z))) = signed_take_bit 25 z"
proof (rule bit_word_eqI)
  fix n :: nat assume "n < LENGTH(32)"
  then show "bit (ucast (signed_drop_bit 38 (push_bit 26 (pack_position x y z))) :: i32) n
      = bit (signed_take_bit 25 z) n"
    by (cases "n = 25") (auto simp: bit_unsigned_iff bit_signed_drop_bit_iff bit_pack_position
        bit_push_bit_iff bit_signed_take_bit_cases)
qed

lemma decode_position_wraps:
  "decode_position (encode_position x y z [] @ rest) =
    (Inr (signed_take_bit 25 x, signed_take_bit 11 y, signed_take_bit 25 z), rest)"
  by (simp add: decode_position_def encode_position_def st_bind_def be_i64.roundtrip
      unpack_x unpack_y unpack_z)

definition in_position_range :: "i32 \<times> i32 \<times> i32 \<Rightarrow> bool" where
  "in_position_range p \<longleftrightarrow>
    (case p of (x, y, z) \<Rightarrow> signed_take_bit 25 x = x \<and> signed_take_bit 11 y = y \<and> signed_take_bit 25 z = z)"

lemma signed_take_bit_id_iff:
  fixes v :: "'a::len word"
  assumes "Suc n < LENGTH('a)"
  shows "signed_take_bit n v = v \<longleftrightarrow> - (2 ^ n) \<le> sint v \<and> sint v < 2 ^ n"
proof -
  have "signed_take_bit n v = v \<longleftrightarrow> sint (signed_take_bit n v) = sint v"
    by (simp add: word_eq_iff_signed)
  also have "sint (signed_take_bit n v) = signed_take_bit n (sint v)"
    using assms
    by (intro bit_eqI) (auto simp: bit_signed_iff bit_signed_take_bit_iff min_def)
  finally show ?thesis
    by (auto simp: signed_take_bit_int_eq_self_iff)
qed

lemma in_position_range_iff:
  "in_position_range (x, y, z) \<longleftrightarrow>
    (- (2 ^ 25) \<le> sint x \<and> sint x < 2 ^ 25) \<and> (- (2 ^ 11) \<le> sint y \<and> sint y < 2 ^ 11)
    \<and> (- (2 ^ 25) \<le> sint z \<and> sint z < 2 ^ 25)"
  unfolding in_position_range_def split by (subst (1 2 3) signed_take_bit_id_iff) simp_all

interpretation position: wire_codec "\<lambda>(x, y, z). encode_position x y z" decode_position
  in_position_range IncompleteInput
proof unfold_locales
  show "(case p of (x, y, z) \<Rightarrow> encode_position x y z) out
      = out @ (case p of (x, y, z) \<Rightarrow> encode_position x y z) []" for p out
    using be_i64.enc_appends [of _ out] by (simp add: encode_position_def split: prod.splits)
next
  show "decode_position ((case p of (x, y, z) \<Rightarrow> encode_position x y z) [] @ rest) = (Inr p, rest)"
    if "in_position_range p" for p rest
    using that by (auto simp: decode_position_wraps in_position_range_def split: prod.splits)
next
  show "decode_position p = (Inl IncompleteInput, p)"
    if "(case v of (x, y, z) \<Rightarrow> encode_position x y z) [] = p @ q" "q \<noteq> []" for v p q
    using that by (auto simp: decode_position_def encode_position_def st_bind_def
        be_i64.truncated split: prod.splits)
qed (auto simp: decode_position_def st_bind_def split: prod.splits sum.splits
    dest: be_i64.err_unchanged be_i64.consumes_prefix)

subsection \<open>UUIDs\<close>

record uuid =
  most_significant :: i64
  least_significant :: i64

definition uuid_new :: "i64 \<Rightarrow> i64 \<Rightarrow> uuid" where
  "uuid_new hi lo = \<lparr>most_significant = hi, least_significant = lo\<rparr>"

text \<open>\<open>from_be_bytes\<close> takes a \<open>[u8; 16]\<close>; \<open>to_be_bytes\<close> gives one.\<close>

definition uuid_from_be_bytes :: "bytes \<Rightarrow> uuid" where
  "uuid_from_be_bytes b = uuid_new (from_be_bytes (take 8 b)) (from_be_bytes (take 8 (drop 8 b)))"

definition uuid_to_be_bytes :: "uuid \<Rightarrow> bytes" where
  "uuid_to_be_bytes u = to_be_bytes (most_significant u) @ to_be_bytes (least_significant u)"

lemma length_uuid_to_be_bytes [simp]: "length (uuid_to_be_bytes u) = 16"
  by (simp add: uuid_to_be_bytes_def)

lemma uuid_from_to [simp]: "uuid_from_be_bytes (uuid_to_be_bytes u) = u"
  by (simp add: uuid_from_be_bytes_def uuid_to_be_bytes_def uuid_new_def from_be_to_be)

lemma uuid_to_from:
  assumes "length b = 16"
  shows "uuid_to_be_bytes (uuid_from_be_bytes b) = b"
proof -
  have "b = take 8 b @ take 8 (drop 8 b)" using assms by (simp flip: take_add)
  with assms show ?thesis
    by (simp add: uuid_from_be_bytes_def uuid_to_be_bytes_def uuid_new_def to_be_from_be)
qed

definition encode_uuid :: "uuid \<Rightarrow> bytes \<Rightarrow> bytes" where
  "encode_uuid value output =
    encode_i64 (least_significant value) (encode_i64 (most_significant value) output)"

definition decode_uuid :: "(codec_error, uuid) decoder" where
  "decode_uuid source =
    (case decode_i64 source of
       (Inl e, input) \<Rightarrow> (Inl e, input)
     | (Inr hi, input) \<Rightarrow>
       (case decode_i64 input of
          (Inr lo, input') \<Rightarrow> (Inr (uuid_new hi lo), input')
        | (Inl IncompleteInput, _) \<Rightarrow> (Inl IncompleteInput, source)
        | (Inl e, input') \<Rightarrow> (Inl e, input')))"

lemma encode_uuid_bytes: "encode_uuid u out = out @ uuid_to_be_bytes u"
  by (simp add: encode_uuid_def encode_i64_def uuid_to_be_bytes_def)

lemma decode_be_long: "length xs = n \<Longrightarrow> decode_be n (xs @ rest) = (Inr (from_be_bytes xs), rest)"
  by (auto simp: decode_be_def)

lemma decode_be_short: "length xs < n \<Longrightarrow> decode_be n xs = (Inl IncompleteInput, xs)"
  by (simp add: decode_be_def slice_to_def)

lemma decode_uuid_cases:
  "decode_uuid inp =
    (if length inp < 16 then (Inl IncompleteInput, inp)
     else (Inr (uuid_from_be_bytes (take 16 inp)), drop 16 inp))"
  by (auto simp: decode_uuid_def decode_i64_def decode_be_def slice_to_def uuid_from_be_bytes_def drop_take
      split: option.splits if_splits)

interpretation uuid: wire_codec encode_uuid decode_uuid "\<lambda>_. True" IncompleteInput
proof unfold_locales
  show "decode_uuid p = (Inl IncompleteInput, p)" if "encode_uuid u [] = p @ q" "q \<noteq> []" for u p q
  proof -
    have "length (uuid_to_be_bytes u) = length p + length q" using that by (simp add: encode_uuid_bytes)
    moreover have "0 < length q" using that by simp
    ultimately have "length p < 16" unfolding length_uuid_to_be_bytes by linarith
    then show ?thesis by (simp add: decode_uuid_cases)
  qed
qed (auto simp: encode_uuid_bytes decode_uuid_cases drop_is_suffix split: if_splits)

subsection \<open>Length-prefixed byte arrays\<close>

definition encode_byte_array :: "bytes \<Rightarrow> nat \<Rightarrow> codec_error encoder" where
  "encode_byte_array value max_length output =
    (if length value > max_length then (Inl StringTooLong, output)
     else case i32_of_usize (length value) of
        None \<Rightarrow> (Inl VarIntTooLong, output)
      | Some len \<Rightarrow> (Inr (), encode_var_int len output @ value))"

text \<open>A negative length returns before \<open>*input = source\<close>: the prefix stays consumed.\<close>

definition decode_byte_array :: "nat \<Rightarrow> (codec_error, bytes) decoder" where
  "decode_byte_array max_length source =
    (case decode_var_int source of
       (Inl e, input) \<Rightarrow> (Inl e, input)
     | (Inr l, input) \<Rightarrow>
       (case usize_of_i32 l of
          None \<Rightarrow> (Inl VarIntTooLong, input)
        | Some len \<Rightarrow>
          if len > max_length then (Inl StringTooLong, source)
          else case slice_to input len of
             None \<Rightarrow> (Inl IncompleteInput, source)
           | Some bytes \<Rightarrow> (Inr bytes, drop len input)))"

definition bytes_ok :: "nat \<Rightarrow> bytes \<Rightarrow> bool" where
  "bytes_ok n b \<longleftrightarrow> length b \<le> n \<and> length b \<le> i32_max"

lemma encode_byte_array_ok:
  "bytes_ok n b \<Longrightarrow> encode_byte_array b n out = (Inr (), out @ encode_var_int (word_of_nat (length b)) [] @ b)"
  by (simp add: encode_byte_array_def bytes_ok_def i32_of_usize_def encode_var_int_app [of _ out])

interpretation byte_array: streaming_codec "\<lambda>b out. snd (encode_byte_array b n out)"
  "decode_byte_array n" "bytes_ok n" IncompleteInput for n
proof unfold_locales
  show "snd (encode_byte_array b n out) = out @ snd (encode_byte_array b n [])" for b out
    by (auto simp: encode_byte_array_def encode_var_int_app [of _ out] split: option.splits)
next
  show "decode_byte_array n (snd (encode_byte_array b n []) @ rest) = (Inr b, rest)"
    if "bytes_ok n b" for b rest
    using that by (simp add: encode_byte_array_ok decode_byte_array_def var_int.roundtrip)
      (simp add: bytes_ok_def)
next
  fix b p q
  assume ok: "bytes_ok n b" and enc: "snd (encode_byte_array b n []) = p @ q" and q: "q \<noteq> []"
  then have "encode_var_int (word_of_nat (length b)) [] @ b = p @ q"
    by (simp add: encode_byte_array_ok)
  from split_app [OF this] show "decode_byte_array n p = (Inl IncompleteInput, p)"
  proof (elim disjE exE conjE)
    fix zs assume p: "p = encode_var_int (word_of_nat (length b)) [] @ zs" and "b = zs @ q"
    then have "length zs < length b" using q by simp
    then show ?thesis using ok
      by (simp add: p decode_byte_array_def var_int.roundtrip bytes_ok_def slice_to_def)
  next
    fix zs assume "encode_var_int (word_of_nat (length b)) [] = p @ zs" "zs \<noteq> []"
    then show ?thesis by (simp add: decode_byte_array_def var_int.truncated)
  qed
qed

lemma decode_byte_array_consumes:
  "decode_byte_array n inp = (Inr b, rest) \<Longrightarrow> \<exists>used. inp = used @ rest"
proof -
  assume "decode_byte_array n inp = (Inr b, rest)"
  then obtain l r k where "decode_var_int inp = (Inr l, r)" and "rest = drop k r"
    by (auto simp: decode_byte_array_def slice_to_def
        split: prod.splits sum.splits option.splits if_splits)
  with var_int.consumes_prefix [of inp l r] show ?thesis
    by (metis append.assoc append_take_drop_id)
qed

lemma decode_byte_array_result: "decode_byte_array n inp = (Inr b, rest) \<Longrightarrow> bytes_ok n b"
  by (auto simp: decode_byte_array_def bytes_ok_def slice_to_def dest!: usize_of_i32_le
      split: prod.splits sum.splits option.splits if_splits)

subsection \<open>Limits\<close>

definition MAX_USERNAME_LENGTH :: nat where "MAX_USERNAME_LENGTH = 16"
definition MAX_CHAT_COMPONENT_LENGTH :: nat where "MAX_CHAT_COMPONENT_LENGTH = 32767"
definition MAX_SERVER_ID_LENGTH :: nat where "MAX_SERVER_ID_LENGTH = 20"
definition MAX_PUBLIC_KEY_LENGTH :: nat where "MAX_PUBLIC_KEY_LENGTH = 512"
definition MAX_VERIFY_TOKEN_LENGTH :: nat where "MAX_VERIFY_TOKEN_LENGTH = 16"
definition SHARED_SECRET_LENGTH :: nat where "SHARED_SECRET_LENGTH = 16"

subsection \<open>What the VarInt decoder accepts\<close>

text \<open>
  The specification of the decoding loop: the bytes up to and including the first one without a
  continuation bit, read as little-endian groups of seven bits, whatever their number up to five.
\<close>

fun var_value :: "bytes \<Rightarrow> 'a::len word" where
  "var_value [] = 0"
| "var_value (b # bs) = ucast (take_bit 7 b) OR push_bit 7 (var_value bs)"

definition var_width :: "bytes \<Rightarrow> nat" where
  "var_width bs = length (takeWhile (\<lambda>b. bit b 7) bs)"

lemma var_width_simps [simp]:
  "var_width [] = 0" "var_width (b # bs) = (if bit b 7 then Suc (var_width bs) else 0)"
  by (simp_all add: var_width_def)

lemma push_bit_or_distrib: "push_bit n (a OR b) = push_bit n a OR push_bit n (b :: 'a::len word)"
  by (rule bit_word_eqI) (auto simp: bit_or_iff bit_push_bit_iff)

lemma var_dec_spec:
  fixes r :: "'a::len word"
  assumes "length pre \<le> limit"
  shows "var_dec_loop limit e (pre @ bs) (length pre) r =
    (if limit \<le> length pre + var_width bs then Inl e
     else if var_width bs = length bs then Inl IncompleteInput
     else Inr (r OR push_bit (7 * length pre) (var_value (take (Suc (var_width bs)) bs)),
       drop (Suc (var_width bs)) bs))"
  using assms
proof (induction bs arbitrary: pre r)
  case Nil
  then show ?case by (subst var_dec_loop.simps) (auto simp: slice_get_def)
next
  case (Cons b bs)
  show ?case
  proof (cases "length pre < limit")
    case False
    with Cons.prems show ?thesis by (subst var_dec_loop.simps) simp
  next
    case True
    have IH: "var_dec_loop limit e (pre @ b # bs) (Suc (length pre)) r' =
      (if limit \<le> Suc (length pre) + var_width bs
       then Inl e
       else if var_width bs = length bs then Inl IncompleteInput
       else Inr (r' OR push_bit (7 * Suc (length pre)) (var_value (take (Suc (var_width bs)) bs)),
         drop (Suc (var_width bs)) bs))" for r' :: "'a word"
      using Cons.IH [of "pre @ [b]" r'] True by simp
    show ?thesis
    proof (cases "bit b 7")
      case False
      with True show ?thesis
        by (subst var_dec_loop.simps)
          (auto simp: and_7f and_80_eq_0 Let_def mult.commute)
    next
      case cont: True
      have w: "var_width bs \<le> length bs" by (simp add: var_width_def length_takeWhile_le)
      show ?thesis using True cont w
        by (subst var_dec_loop.simps)
          (auto simp: and_7f and_80_eq_0 IH Let_def mult.commute push_bit_or_distrib or.assoc add.commute)
    qed
  qed
qed

lemma var_groups_length_eq:
  "length (var_groups (v :: i32)) =
    (if unat v < 2 ^ 7 then 1 else if unat v < 2 ^ 14 then 2 else if unat v < 2 ^ 21 then 3
     else if unat v < 2 ^ 28 then 4 else 5)"
proof -
  have small: "length (var_groups w) = (if unat w < 128 then 1 else Suc (length (var_groups (drop_bit 7 w))))"
    for w :: i32
  proof -
    have "drop_bit 7 w = 0 \<longleftrightarrow> unat w < 128" by (metis unat_drop_7 div_eq_0_iff unat_eq_zero zero_neq_numeral)
    then show ?thesis by (subst var_groups.simps) simp
  qed
  have d: "unat (drop_bit 7 w) = unat w div 128" for w :: i32 by (rule unat_drop_7)
  have "unat v < 2 ^ 32" using unsigned_less [of v, where 'a = nat] by simp
  then show ?thesis
    using small [of v] small [of "drop_bit 7 v"] small [of "drop_bit 7 (drop_bit 7 v)"]
      small [of "drop_bit 7 (drop_bit 7 (drop_bit 7 v))"]
      small [of "drop_bit 7 (drop_bit 7 (drop_bit 7 (drop_bit 7 v)))"]
    by (simp only: d div_mult2_eq [symmetric] div_less_iff_less_mult) (auto split: if_splits)
qed

lemma decode_var_int_spec:
  "decode_var_int inp =
    (if 5 \<le> var_width inp then (Inl VarIntTooLong, inp)
     else if var_width inp = length inp then (Inl IncompleteInput, inp)
     else (Inr (var_value (take (Suc (var_width inp)) inp)), drop (Suc (var_width inp)) inp))"
  using var_dec_spec [of "[]" 5 VarIntTooLong inp "0 :: i32"] by (simp add: decode_var_int_def)

lemma decode_var_long_spec:
  "decode_var_long inp =
    (if 10 \<le> var_width inp then (Inl VarLongTooLong, inp)
     else if var_width inp = length inp then (Inl IncompleteInput, inp)
     else (Inr (var_value (take (Suc (var_width inp)) inp)), drop (Suc (var_width inp)) inp))"
  using var_dec_spec [of "[]" 10 VarLongTooLong inp "0 :: i64"] by (simp add: decode_var_long_def)

subsection \<open>Properties of the primitives\<close>

text \<open>
  The VarInt codec is exact and incremental. Encoding appends one to five bytes, the number the
  value's magnitude calls for; decoding the encoding gives back the value and leaves what follows;
  and a caller that has only the first \<open>n\<close> bytes of an encoding is told the input is incomplete
  and keeps its bytes, until the last byte is there.
\<close>

theorem var_int_wire:
  "encode_var_int v out = out @ encode_var_int v []
   \<and> length (encode_var_int v []) =
      (if unat v < 2 ^ 7 then 1 else if unat v < 2 ^ 14 then 2 else if unat v < 2 ^ 21 then 3
       else if unat v < 2 ^ 28 then 4 else 5)
   \<and> decode_var_int (encode_var_int v [] @ rest) = (Inr v, rest)
   \<and> decode_var_int (take n (encode_var_int v [])) =
      (if n < length (encode_var_int v []) then (Inl IncompleteInput, take n (encode_var_int v []))
       else (Inr v, []))"
proof (intro conjI)
  show "length (encode_var_int v []) =
      (if unat v < 2 ^ 7 then 1 else if unat v < 2 ^ 14 then 2 else if unat v < 2 ^ 21 then 3
       else if unat v < 2 ^ 28 then 4 else 5)"
    by (simp only: encode_var_int_Nil var_groups_length_eq)
  show "decode_var_int (take n (encode_var_int v [])) =
      (if n < length (encode_var_int v []) then (Inl IncompleteInput, take n (encode_var_int v []))
       else (Inr v, []))"
    using var_int.incremental [where a = v and n = n] var_int.roundtrip [where a = v and rest = "[]"]
    by (auto simp: not_less)
qed (rule var_int.enc_appends, rule var_int.roundtrip, rule TrueI)

text \<open>
  C40: What the two VarInt decoding loops compute on every input, well-formed or not: with five (ten)
  leading continuation bytes the value is too long, with no terminating byte the input is
  incomplete, and otherwise the value is the little-endian sequence of seven-bit groups up to the
  first byte without a continuation bit, and exactly those bytes are consumed. Errors leave the
  input where it was.
\<close>

theorem var_decoders_equiv_spec:
  "decode_var_int inp =
    (if 5 \<le> var_width inp then (Inl VarIntTooLong, inp)
     else if var_width inp = length inp then (Inl IncompleteInput, inp)
     else (Inr (var_value (take (Suc (var_width inp)) inp)), drop (Suc (var_width inp)) inp))
   \<and> decode_var_long inp =
    (if 10 \<le> var_width inp then (Inl VarLongTooLong, inp)
     else if var_width inp = length inp then (Inl IncompleteInput, inp)
     else (Inr (var_value (take (Suc (var_width inp)) inp)), drop (Suc (var_width inp)) inp))"
  by (rule conjI [OF decode_var_int_spec decode_var_long_spec])

text \<open>
  Protocol strings. For a valid UTF-8 string the encoder either refuses it, with the output
  untouched, exactly when it has more UTF-16 units than allowed (or more bytes than an \<open>i32\<close>
  holds), or appends an encoding that the decoder with the same limit reads back, leaving the rest.
\<close>

theorem string_wire:
  assumes "utf8_valid s"
  shows "case encode_string s n out of
      (Inl e, out') \<Rightarrow> e = StringTooLong \<and> out' = out \<and> (n < utf16_units s \<or> i32_max < length s)
    | (Inr _, out') \<Rightarrow> utf16_units s \<le> n \<and> length s \<le> i32_max
        \<and> (\<exists>enc. out' = out @ enc \<and> decode_string n (enc @ rest) = (Inr s, rest))"
proof (cases "str_ok n s")
  case True
  then show ?thesis
    using decode_string_roundtrip [OF True, of rest] by (auto simp: encode_string_ok) (auto simp: str_ok_def)
next
  case False
  then have "fst (encode_string s n out) \<noteq> Inr ()"
    using encode_string_success_iff [OF assms] by simp
  then obtain e out' where enc: "encode_string s n out = (Inl e, out')"
    by (cases "encode_string s n out"; cases "fst (encode_string s n out)") auto
  with False assms show ?thesis by (auto simp: str_ok_def dest: encode_string_err)
qed

theorem string_wire_witness:
  "case encode_string (ascii ''Steve'') 16 [] of
      (Inl e, out') \<Rightarrow> e = StringTooLong \<and> out' = [] \<and> (16 < utf16_units (ascii ''Steve'') \<or> i32_max < length (ascii ''Steve''))
    | (Inr _, out') \<Rightarrow> utf16_units (ascii ''Steve'') \<le> 16 \<and> length (ascii ''Steve'') \<le> i32_max
        \<and> (\<exists>enc. out' = [] @ enc \<and> decode_string 16 (enc @ [1]) = (Inr (ascii ''Steve''), [1]))"
  by (rule string_wire) (simp add: utf8_valid_def ascii_def utf8_scan_ascii)

text \<open>
  Block positions. Packing keeps the low 26, 12 and 26 bits of the coordinates: decoding an
  encoded position gives the coordinates wrapped to those widths, so the round trip is exact
  precisely for x and z in [-2^25, 2^25) and y in [-2^11, 2^11).
\<close>

theorem position_wire:
  "decode_position (encode_position x y z [] @ rest) =
     (Inr (signed_take_bit 25 x, signed_take_bit 11 y, signed_take_bit 25 z), rest)
   \<and> (decode_position (encode_position x y z [] @ rest) = (Inr (x, y, z), rest) \<longleftrightarrow>
      (- (2 ^ 25) \<le> sint x \<and> sint x < 2 ^ 25) \<and> (- (2 ^ 11) \<le> sint y \<and> sint y < 2 ^ 11)
      \<and> (- (2 ^ 25) \<le> sint z \<and> sint z < 2 ^ 25))"
  unfolding decode_position_wraps in_position_range_iff [symmetric] in_position_range_def by simp

text \<open>
  Length-prefixed byte arrays, for every declared length. A length over the limit or past the
  end of the input is reported with the input restored; a negative length is reported too, but with
  the length prefix already consumed, so this decoder is not transactional.
\<close>

theorem byte_array_decode_cases:
  "decode_byte_array n (encode_var_int l [] @ rest) =
    (if sint l < 0 then (Inl VarIntTooLong, rest)
     else if n < nat (sint l) then (Inl StringTooLong, encode_var_int l [] @ rest)
     else if length rest < nat (sint l) then (Inl IncompleteInput, encode_var_int l [] @ rest)
     else (Inr (take (nat (sint l)) rest), drop (nat (sint l)) rest))
   \<and> \<not> transactional (decode_byte_array n)"
proof (rule conjI)
  have eq: "decode_byte_array m (encode_var_int k [] @ r) =
    (if sint k < 0 then (Inl VarIntTooLong, r)
     else if m < nat (sint k) then (Inl StringTooLong, encode_var_int k [] @ r)
     else if length r < nat (sint k) then (Inl IncompleteInput, encode_var_int k [] @ r)
     else (Inr (take (nat (sint k)) r), drop (nat (sint k)) r))" for m k r
    by (auto simp: decode_byte_array_def var_int.roundtrip usize_of_i32_def slice_to_def)
  show "decode_byte_array n (encode_var_int l [] @ rest) =
    (if sint l < 0 then (Inl VarIntTooLong, rest)
     else if n < nat (sint l) then (Inl StringTooLong, encode_var_int l [] @ rest)
     else if length rest < nat (sint l) then (Inl IncompleteInput, encode_var_int l [] @ rest)
     else (Inr (take (nat (sint l)) rest), drop (nat (sint l)) rest))"
    by (rule eq)
  show "\<not> transactional (decode_byte_array n)"
  proof
    assume t: "transactional (decode_byte_array n)"
    have "decode_byte_array n (encode_var_int (- 1) [] @ []) = (Inl VarIntTooLong, [])"
      unfolding eq by simp
    then have "[] = encode_var_int (- 1) [] @ []" by (rule transactional.err_unchanged [OF t])
    then show False by (metis append_Nil2 encode_var_int_Nil var_groups_not_Nil)
  qed
qed

end
