(* ===== verification/Framing.thy ===== *)
theory Framing
  imports Primitives
begin

section \<open>Packet framing (\<open>rustbound-protocol/src/framing.rs\<close>)\<close>

text \<open>
  A frame is a VarInt length, a VarInt packet id and the payload. \<open>decode_frame\<close> takes one frame
  off the input or says that more bytes are needed; \<open>encode_frame\<close> appends one after checking its
  length; the raw forms, used under compression, carry a body without a packet id.
\<close>

definition PROTOCOL_MAX_FRAME_LENGTH :: nat where
  "PROTOCOL_MAX_FRAME_LENGTH = 0x1FFFFF"

definition MAX_LENGTH_PREFIX_BYTES :: nat where
  "MAX_LENGTH_PREFIX_BYTES = 3"

record packet_frame =
  pf_packet_id :: i32
  pf_payload :: bytes

datatype decode_outcome = FrameComplete packet_frame | FrameIncomplete

datatype framing_error =
    LengthCodec codec_error
  | LengthPrefixTooLong nat
  | PacketIdCodec codec_error
  | NegativeFrameLength
  | ZeroFrameLength
  | FrameTooLong nat nat
  | FrameLengthOverflow

definition effective_max_length :: "nat \<Rightarrow> nat" where
  "effective_max_length caller_maximum = min caller_maximum PROTOCOL_MAX_FRAME_LENGTH"

definition decode_frame :: "nat \<Rightarrow> (framing_error, decode_outcome) decoder" where
  "decode_frame max_frame_length source =
    (case decode_var_int source of
       (Inl IncompleteInput, _) \<Rightarrow> (Inr FrameIncomplete, source)
     | (Inl e, _) \<Rightarrow> (Inl (LengthCodec e), source)
     | (Inr encoded_length, body_and_tail) \<Rightarrow>
       (let prefix_bytes = length source - length body_and_tail in
        if prefix_bytes > MAX_LENGTH_PREFIX_BYTES then (Inl (LengthPrefixTooLong prefix_bytes), source)
        else case usize_of_i32 encoded_length of
           None \<Rightarrow> (Inl NegativeFrameLength, source)
         | Some frame_length \<Rightarrow>
           if frame_length = 0 then (Inl ZeroFrameLength, source)
           else (let maximum = effective_max_length max_frame_length in
             if frame_length > maximum then (Inl (FrameTooLong frame_length maximum), source)
             else case slice_to body_and_tail frame_length of
                None \<Rightarrow> (Inr FrameIncomplete, source)
              | Some body \<Rightarrow>
                (case decode_var_int body of
                   (Inl e, _) \<Rightarrow> (Inl (PacketIdCodec e), source)
                 | (Inr pid, payload) \<Rightarrow>
                   (Inr (FrameComplete \<lparr>pf_packet_id = pid, pf_payload = payload\<rparr>),
                    drop frame_length body_and_tail)))))"

definition var_int_length :: "i32 \<Rightarrow> nat" where
  "var_int_length value =
    (if value AND NOT 0x7F = 0 then 1
     else if value AND NOT 0x3FFF = 0 then 2
     else if value AND NOT 0x1FFFFF = 0 then 3
     else if value AND NOT 0x0FFFFFFF = 0 then 4
     else 5)"

text \<open>\<open>checked_add\<close> fails past \<open>usize::MAX\<close>.\<close>

definition validated_frame_length :: "i32 \<Rightarrow> nat \<Rightarrow> nat \<Rightarrow> framing_error + i32" where
  "validated_frame_length pid payload_length max_frame_length =
    (let maximum = effective_max_length max_frame_length;
         frame_length = var_int_length pid + payload_length in
     if frame_length > usize_max then Inl FrameLengthOverflow
     else if frame_length > maximum then Inl (FrameTooLong frame_length maximum)
     else case i32_of_usize frame_length of None \<Rightarrow> Inl FrameLengthOverflow | Some n \<Rightarrow> Inr n)"

definition encode_frame :: "i32 \<Rightarrow> bytes \<Rightarrow> nat \<Rightarrow> framing_error encoder" where
  "encode_frame pid payload max_frame_length output =
    (case validated_frame_length pid (length payload) max_frame_length of
       Inl e \<Rightarrow> (Inl e, output)
     | Inr encoded_length \<Rightarrow>
       (Inr (), encode_var_int pid (encode_var_int encoded_length output) @ payload))"

definition encode_raw_frame :: "bytes \<Rightarrow> nat \<Rightarrow> framing_error encoder" where
  "encode_raw_frame body max_frame_length output =
    (let maximum = effective_max_length max_frame_length; frame_length = length body in
     if frame_length > maximum then (Inl (FrameTooLong frame_length maximum), output)
     else case i32_of_usize frame_length of
        None \<Rightarrow> (Inl FrameLengthOverflow, output)
      | Some encoded_length \<Rightarrow> (Inr (), encode_var_int encoded_length output @ body))"

datatype raw_decode_outcome = RawComplete bytes | RawIncomplete

text \<open>On the two length errors the source returns with the length prefix consumed.\<close>

definition decode_raw_frame :: "nat \<Rightarrow> (framing_error, raw_decode_outcome) decoder" where
  "decode_raw_frame max_frame_length source =
    (case decode_var_int source of
       (Inl IncompleteInput, _) \<Rightarrow> (Inr RawIncomplete, source)
     | (Inl e, input) \<Rightarrow> (Inl (LengthCodec e), input)
     | (Inr l, input) \<Rightarrow>
       (case usize_of_i32 l of
          None \<Rightarrow> (Inl FrameLengthOverflow, input)
        | Some len \<Rightarrow>
          (let maximum = effective_max_length max_frame_length in
           if len > maximum then (Inl (FrameTooLong len maximum), input)
           else if length input < len then (Inr RawIncomplete, source)
           else (Inr (RawComplete (take len input)), drop len input))))"

subsection \<open>Lengths\<close>

lemma and_not_mask_eq_0:
  fixes v :: i32
  assumes "n < 32"
  shows "v AND NOT (mask n) = 0 \<longleftrightarrow> unat v < 2 ^ n"
proof -
  have "v AND NOT (mask n) = 0 \<longleftrightarrow> drop_bit n v = 0"
  proof
    assume h: "v AND NOT (mask n) = 0"
    show "drop_bit n v = 0"
    proof (rule bit_word_eqI)
      fix m assume "m < LENGTH(32)"
      show "bit (drop_bit n v) m = bit 0 m"
        using arg_cong [OF h, of "\<lambda>w. bit w (n + m)"]
        by (auto simp: bit_and_iff bit_not_iff bit_mask_iff bit_drop_bit_eq dest: bit_imp_le_length)
    qed
  next
    assume h: "drop_bit n v = 0"
    show "v AND NOT (mask n) = 0"
    proof (rule bit_word_eqI)
      fix m assume "m < LENGTH(32)"
      show "bit (v AND NOT (mask n)) m = bit 0 m"
        using arg_cong [OF h, of "\<lambda>w. bit w (m - n)"]
        by (cases "m < n") (auto simp: bit_and_iff bit_not_iff bit_mask_iff bit_drop_bit_eq)
    qed
  qed
  also have "\<dots> \<longleftrightarrow> unat (drop_bit n v) = 0" by (rule unat_eq_zero [symmetric])
  also have "unat (drop_bit n v) = unat v div 2 ^ n"
    by (subst unat_drop_bit_eq) (simp add: drop_bit_eq_div)
  finally show ?thesis by (simp add: div_eq_0_iff)
qed

lemma var_int_length_correct: "var_int_length v = length (encode_var_int v [])"
proof -
  have m: "(0x7F :: i32) = mask 7" "(0x3FFF :: i32) = mask 14" "(0x1FFFFF :: i32) = mask 21"
    "(0x0FFFFFFF :: i32) = mask 28" by (simp_all add: mask_eq_exp_minus_1)
  show ?thesis
    unfolding var_int_length_def m encode_var_int_Nil var_groups_length_eq
    by (simp only: and_not_mask_eq_0)
qed

lemma effective_max_le: "effective_max_length m \<le> 0x1FFFFF" "effective_max_length m \<le> m"
  by (simp_all add: effective_max_length_def PROTOCOL_MAX_FRAME_LENGTH_def)

lemma validated_frame_length_Inr:
  "validated_frame_length pid k m = Inr l \<longleftrightarrow>
    l = word_of_nat (var_int_length pid + k) \<and> var_int_length pid + k \<le> effective_max_length m"
  using effective_max_le(1) [of m]
  by (auto simp: validated_frame_length_def Let_def i32_of_usize_def i32_max_def usize_max_def
      split: option.splits if_splits)

lemma length_prefix_small:
  assumes "n \<le> 0x1FFFFF"
  shows "length (encode_var_int (word_of_nat n) []) \<le> 3"
proof -
  have "unat (word_of_nat n :: i32) = n"
    using assms by (simp add: unsigned_of_nat take_bit_nat_eq_self)
  with assms show ?thesis by (simp only: encode_var_int_Nil var_groups_length_eq) simp
qed

subsection \<open>One frame: encoding, then decoding whole or in part\<close>

definition frame_bytes :: "i32 \<Rightarrow> bytes \<Rightarrow> bytes" where
  "frame_bytes pid payload =
    encode_var_int (word_of_nat (var_int_length pid + length payload)) [] @ encode_var_int pid [] @ payload"

lemma encode_frame_Inr:
  "encode_frame pid payload m out = (Inr u, out') \<longleftrightarrow>
    var_int_length pid + length payload \<le> effective_max_length m \<and> out' = out @ frame_bytes pid payload"
proof -
  let ?n = "var_int_length pid + length payload"
  have app: "encode_var_int pid (encode_var_int l out) @ payload
      = out @ encode_var_int l [] @ encode_var_int pid [] @ payload" for l
    by (metis append.assoc encode_var_int_app)
  show ?thesis
  proof (cases "validated_frame_length pid (length payload) m")
    case (Inl e)
    then show ?thesis
      using validated_frame_length_Inr [of pid "length payload" m "word_of_nat ?n"]
      by (simp add: encode_frame_def)
  next
    case (Inr l)
    then have "l = word_of_nat ?n" and le: "?n \<le> effective_max_length m"
      by (simp_all only: validated_frame_length_Inr)
    then have "encode_frame pid payload m out = (Inr (), out @ frame_bytes pid payload)"
      using Inr by (simp add: encode_frame_def frame_bytes_def app)
    with le show ?thesis by auto
  qed
qed

lemma encode_frame_Inl: "encode_frame pid payload m out = (Inl e, out') \<Longrightarrow> out' = out"
  by (auto simp: encode_frame_def split: sum.splits)

lemma decode_frame_bytes:
  assumes "var_int_length pid + length payload \<le> effective_max_length m"
  shows "decode_frame m (frame_bytes pid payload @ rest)
    = (Inr (FrameComplete \<lparr>pf_packet_id = pid, pf_payload = payload\<rparr>), rest)"
proof -
  let ?n = "var_int_length pid + length payload"
  have n: "?n \<le> 0x1FFFFF" using assms effective_max_le(1) [of m] by simp
  have body: "?n = length (encode_var_int pid [] @ payload)" by (simp add: var_int_length_correct)
  have pos: "0 < ?n" by (simp add: var_int_length_def)
  have pre: "length (encode_var_int (word_of_nat ?n) []) \<le> 3" by (rule length_prefix_small [OF n])
  have "usize_of_i32 (word_of_nat ?n) = Some ?n"
    by (rule usize_of_i32_of_nat) (use n in \<open>simp add: i32_max_def\<close>)
  moreover have "slice_to (encode_var_int pid [] @ payload @ rest) ?n = Some (encode_var_int pid [] @ payload)"
    unfolding body using slice_to_append [of "encode_var_int pid [] @ payload" rest] by simp
  moreover have "drop ?n (encode_var_int pid [] @ payload @ rest) = rest"
    unfolding body by simp
  ultimately show ?thesis
    using assms pos pre
    by (simp add: decode_frame_def frame_bytes_def var_int.roundtrip MAX_LENGTH_PREFIX_BYTES_def
        Let_def not_less)
qed

lemma decode_frame_truncated:
  assumes "var_int_length pid + length payload \<le> effective_max_length m"
    and "frame_bytes pid payload = p @ q" "q \<noteq> []"
  shows "decode_frame m p = (Inr FrameIncomplete, p)"
proof -
  let ?n = "var_int_length pid + length payload"
  have n: "?n \<le> 0x1FFFFF" using assms(1) effective_max_le(1) [of m] by simp
  have pos: "0 < ?n" by (simp add: var_int_length_def)
  have pre: "length (encode_var_int (word_of_nat ?n) []) \<le> 3" by (rule length_prefix_small [OF n])
  have us: "usize_of_i32 (word_of_nat ?n) = Some ?n"
    by (rule usize_of_i32_of_nat) (use n in \<open>simp add: i32_max_def\<close>)
  have "encode_var_int (word_of_nat ?n) [] @ (encode_var_int pid [] @ payload) = p @ q"
    using assms(2) by (simp only: frame_bytes_def)
  from split_app [OF this] show ?thesis
  proof (elim disjE exE conjE)
    fix zs
    assume p: "p = encode_var_int (word_of_nat ?n) [] @ zs"
      and z: "encode_var_int pid [] @ payload = zs @ q"
    have "?n = length (zs @ q)" by (simp add: var_int_length_correct flip: z)
    then have "length zs < ?n" using assms(3) by simp
    then show ?thesis
      using assms(1) pos pre us
      by (simp add: p decode_frame_def var_int.roundtrip MAX_LENGTH_PREFIX_BYTES_def Let_def
          not_less slice_to_def)
  next
    fix zs assume "encode_var_int (word_of_nat ?n) [] = p @ zs" "zs \<noteq> []"
    then show ?thesis by (simp add: decode_frame_def var_int.truncated)
  qed
qed

lemma decode_frame_err: "decode_frame m inp = (Inl e, rest) \<Longrightarrow> rest = inp"
  by (auto simp: decode_frame_def Let_def
      split: prod.splits sum.splits codec_error.splits option.splits if_splits)

lemma decode_frame_incomplete: "decode_frame m inp = (Inr FrameIncomplete, rest) \<Longrightarrow> rest = inp"
  by (auto simp: decode_frame_def Let_def
      split: prod.splits sum.splits codec_error.splits option.splits if_splits)

text \<open>
  A complete frame was cut off the front of the input; it is well within the limits, and its body
  is the packet id followed by the payload.
\<close>

lemma decode_frame_complete:
  assumes "decode_frame m inp = (Inr (FrameComplete f), rest)"
  shows "\<exists>pre body. inp = pre @ body @ rest \<and> length pre \<le> 3 \<and> 0 < length body
    \<and> length body \<le> effective_max_length m
    \<and> decode_var_int body = (Inr (pf_packet_id f), pf_payload f)"
proof -
  from assms obtain l tail n body pid pay where d: "decode_var_int inp = (Inr l, tail)"
    and p: "length inp - length tail \<le> 3" and l: "usize_of_i32 l = Some n" and n: "n \<noteq> 0"
    and le: "n \<le> effective_max_length m" and b: "slice_to tail n = Some body"
    and pb: "decode_var_int body = (Inr pid, pay)"
    and f: "f = \<lparr>pf_packet_id = pid, pf_payload = pay\<rparr>" and r: "rest = drop n tail"
    by (auto simp: decode_frame_def Let_def MAX_LENGTH_PREFIX_BYTES_def not_less
        split: prod.splits sum.splits codec_error.splits option.splits if_splits)
  from var_int.consumes_prefix [OF d] obtain pre where pre: "inp = pre @ tail" by blast
  have "body = take n tail" "n \<le> length tail" using b by (auto simp: slice_to_def split: if_splits)
  then show ?thesis using p n le pb f r pre
    by (intro exI [of _ pre] exI [of _ body]) auto
qed

interpretation frame: transactional "decode_frame m" for m
proof unfold_locales
  show "rest = inp" if "decode_frame m inp = (Inl e, rest)" for inp e rest
    using that by (rule decode_frame_err)
  show "\<exists>used. inp = used @ rest" if "decode_frame m inp = (Inr a, rest)" for inp a rest
  proof (cases a)
    case (FrameComplete f)
    with that decode_frame_complete [of m inp f rest] show ?thesis by (metis append.assoc)
  next
    case FrameIncomplete
    with that decode_frame_incomplete [of m inp rest] show ?thesis by auto
  qed
qed

lemma frame_bytes_length: "length (frame_bytes pid payload)
    = length (encode_var_int (word_of_nat (var_int_length pid + length payload)) [])
      + var_int_length pid + length payload"
  by (simp add: frame_bytes_def var_int_length_correct)

lemma encode_frame_refused:
  "encode_frame pid payload m out = (Inl e, out') \<Longrightarrow>
    effective_max_length m < var_int_length pid + length payload"
  by (rule ccontr) (use encode_frame_Inr [of pid payload m out "()" "out @ frame_bytes pid payload"] in simp)

subsection \<open>Raw frames\<close>

lemma encode_raw_frame_Inr:
  "encode_raw_frame body m out = (Inr u, out') \<longleftrightarrow>
    length body \<le> effective_max_length m
    \<and> out' = out @ encode_var_int (word_of_nat (length body)) [] @ body"
  using effective_max_le(1) [of m] encode_var_int_app [of "word_of_nat (length body)" out]
  by (auto simp: encode_raw_frame_def Let_def i32_of_usize_def i32_max_def)

lemma encode_raw_frame_Inl: "encode_raw_frame body m out = (Inl e, out') \<Longrightarrow> out' = out"
  by (auto simp: encode_raw_frame_def Let_def split: option.splits if_splits)

lemma decode_raw_frame_bytes:
  assumes "length body \<le> effective_max_length m"
  shows "decode_raw_frame m (encode_var_int (word_of_nat (length body)) [] @ body @ rest)
    = (Inr (RawComplete body), rest)"
proof -
  have "usize_of_i32 (word_of_nat (length body)) = Some (length body)"
    by (rule usize_of_i32_of_nat) (use assms effective_max_le(1) [of m] in \<open>simp add: i32_max_def\<close>)
  with assms show ?thesis
    by (simp add: decode_raw_frame_def var_int.roundtrip Let_def not_less)
qed

lemma decode_raw_frame_truncated:
  assumes "length body \<le> effective_max_length m"
    and "encode_var_int (word_of_nat (length body)) [] @ body = p @ q" "q \<noteq> []"
  shows "decode_raw_frame m p = (Inr RawIncomplete, p)"
  using split_app [OF assms(2)]
proof (elim disjE exE conjE)
  fix zs assume p: "p = encode_var_int (word_of_nat (length body)) [] @ zs" and z: "body = zs @ q"
  have "usize_of_i32 (word_of_nat (length body)) = Some (length body)"
    by (rule usize_of_i32_of_nat) (use assms(1) effective_max_le(1) [of m] in \<open>simp add: i32_max_def\<close>)
  moreover have "length zs < length body" using z assms(3) by simp
  ultimately show ?thesis using assms(1)
    by (simp add: p decode_raw_frame_def var_int.roundtrip Let_def not_less)
next
  fix zs assume "encode_var_int (word_of_nat (length body)) [] = p @ zs" "zs \<noteq> []"
  then show ?thesis by (simp add: decode_raw_frame_def var_int.truncated)
qed

subsection \<open>Properties of the framing layer\<close>

text \<open>
  Framing round trip. \<open>encode_frame\<close> either refuses a packet, exactly when its id and payload
  exceed the smaller of the caller's and the protocol's limit, and leaves the output alone; or it
  appends a frame of at most three prefix bytes and the body, which \<open>decode_frame\<close> under the same
  limit takes off the front of any input, and of which every proper prefix is reported as
  incomplete with nothing consumed.
\<close>

theorem frame_wire:
  "case encode_frame pid payload m out of
     (Inl e, out') \<Rightarrow> out' = out \<and> min m 0x1FFFFF < length (encode_var_int pid []) + length payload
   | (Inr _, out') \<Rightarrow> length (encode_var_int pid []) + length payload \<le> min m 0x1FFFFF
       \<and> (\<exists>f. out' = out @ f \<and> length f \<le> 3 + length (encode_var_int pid []) + length payload
           \<and> decode_frame m (f @ rest) = (Inr (FrameComplete \<lparr>pf_packet_id = pid, pf_payload = payload\<rparr>), rest)
           \<and> fst (decode_frame m (take n f)) =
              Inr (if n < length f then FrameIncomplete
                   else FrameComplete \<lparr>pf_packet_id = pid, pf_payload = payload\<rparr>)
           \<and> snd (decode_frame m (take n f)) = (if n < length f then take n f else []))"
proof (cases "encode_frame pid payload m out")
  case (Pair r out')
  have eff: "effective_max_length m = min m 0x1FFFFF"
    by (simp add: effective_max_length_def PROTOCOL_MAX_FRAME_LENGTH_def)
  show ?thesis
  proof (cases r)
    case (Inl e)
    with Pair encode_frame_Inl encode_frame_refused show ?thesis
      by (fastforce simp: var_int_length_correct eff)
  next
    case (Inr u)
    let ?f = "frame_bytes pid payload"
    from Pair Inr have le: "var_int_length pid + length payload \<le> effective_max_length m"
      and out': "out' = out @ ?f" using encode_frame_Inr [of pid payload m out u out'] by auto
    have "length ?f \<le> 3 + var_int_length pid + length payload"
      using length_prefix_small [of "var_int_length pid + length payload"] le effective_max_le(1) [of m]
      by (simp add: frame_bytes_length)
    moreover have "decode_frame m (take n ?f) = (Inr FrameIncomplete, take n ?f)" if "n < length ?f"
      by (rule decode_frame_truncated [OF le, of _ "drop n ?f"]) (use that in simp_all)
    moreover note decode_frame_bytes [OF le, of rest] decode_frame_bytes [OF le, of "[]"]
    ultimately show ?thesis
      using Pair Inr le out' by (auto simp: var_int_length_correct eff not_less)
  qed
qed

text \<open>
  What a decoded frame is, on any input: a prefix of the input of at most three bytes, then a
  non-empty body within the limit that starts with the packet id, then the untouched rest. In
  every other outcome, incomplete or error, nothing is consumed.
\<close>

theorem frame_decode_sound:
  "case decode_frame m inp of
     (Inr (FrameComplete f), rest) \<Rightarrow>
       (\<exists>pre body. inp = pre @ body @ rest \<and> length pre \<le> 3 \<and> 0 < length body
         \<and> length body \<le> min m 0x1FFFFF \<and> decode_var_int body = (Inr (pf_packet_id f), pf_payload f))
   | (_, rest) \<Rightarrow> rest = inp"
  using decode_frame_complete [of m inp] decode_frame_err [of m inp] decode_frame_incomplete [of m inp]
  by (auto simp: effective_max_length_def PROTOCOL_MAX_FRAME_LENGTH_def
      split: prod.splits sum.splits decode_outcome.splits)

end
