(* ===== verification/Packets.thy ===== *)
theory Packets
  imports Framing
begin

section \<open>The shape every packet codec shares\<close>

text \<open>
  Each packet encoder of the source builds a body in a fresh vector, stops at the first field
  that fails, and hands the body to \<open>encode_frame\<close>; each packet decoder takes one frame, checks its
  packet id, parses the payload, and restores the input on every error. \<open>encode_packet\<close> and
  \<open>decode_packet\<close> are these two shapes, and the locale \<open>framed_packet\<close> is what a connection may
  rely on for a packet type: errors leave both buffers alone, an encoded packet is decoded as
  itself off the front of any input, its proper prefixes are incomplete, and a buffer of packets
  written one after the other is read back in order.
\<close>

fun enc_all :: "('e, unit, 's) st list \<Rightarrow> ('e, unit, 's) st" where
  "enc_all [] = st_ret ()"
| "enc_all (m # ms) = st_bind m (\<lambda>_. enc_all ms)"

definition run_body :: "'e encoder \<Rightarrow> 'e + bytes" where
  "run_body m = (case m [] of (Inl e, _) \<Rightarrow> Inl e | (Inr _, b) \<Rightarrow> Inr b)"

definition encode_packet ::
  "(framing_error \<Rightarrow> 'e) \<Rightarrow> i32 \<Rightarrow> 'e encoder \<Rightarrow> nat \<Rightarrow> 'e encoder" where
  "encode_packet conv pid body m out =
    (case run_body body of
       Inl e \<Rightarrow> (Inl e, out)
     | Inr b \<Rightarrow> st_map_err conv (encode_frame pid b m) out)"

definition decode_packet ::
  "(framing_error \<Rightarrow> 'e) \<Rightarrow> (packet_frame \<Rightarrow> 'e + 'a) \<Rightarrow> ('a \<Rightarrow> 'r) \<Rightarrow> 'r \<Rightarrow> nat \<Rightarrow> ('e, 'r) decoder" where
  "decode_packet conv parse complete incomplete m source =
    (case decode_frame m source of
       (Inl e, _) \<Rightarrow> (Inl (conv e), source)
     | (Inr FrameIncomplete, _) \<Rightarrow> (Inr incomplete, source)
     | (Inr (FrameComplete f), rest) \<Rightarrow>
       (case parse f of Inl e \<Rightarrow> (Inl e, source) | Inr a \<Rightarrow> (Inr (complete a), rest)))"

text \<open>Run a field decoder over a whole payload; bytes left over are an error.\<close>

definition decode_exact :: "(nat \<Rightarrow> 'e) \<Rightarrow> ('e, 'a) decoder \<Rightarrow> bytes \<Rightarrow> 'e + 'a" where
  "decode_exact trailing p body =
    (case p body of
       (Inl e, _) \<Rightarrow> Inl e
     | (Inr a, rest) \<Rightarrow> if rest = [] then Inr a else Inl (trailing (length rest)))"

lemma decode_exact_decodes: "decodes p b a \<Longrightarrow> decode_exact t p b = Inr a"
  using decodesD_all [of p b a] by (simp add: decode_exact_def)

lemma run_body_Inr: "run_body m = Inr b \<longleftrightarrow> (\<exists>u. m [] = (Inr u, b))"
  by (auto simp: run_body_def split: prod.splits sum.splits)

lemma encode_packet_Inl: "encode_packet conv pid body m out = (Inl e, out') \<Longrightarrow> out' = out"
  by (auto simp: encode_packet_def st_map_err_def split: sum.splits prod.splits dest: encode_frame_Inl)

lemma encode_packet_Inr:
  "encode_packet conv pid body m out = (Inr u, out') \<longleftrightarrow>
    (\<exists>b. run_body body = Inr b \<and> var_int_length pid + length b \<le> effective_max_length m
      \<and> out' = out @ frame_bytes pid b)"
  by (auto simp: encode_packet_def encode_frame_Inr split: sum.splits)

lemma decode_packet_Inl: "decode_packet conv parse c i m inp = (Inl e, rest) \<Longrightarrow> rest = inp"
  by (auto simp: decode_packet_def split: prod.splits sum.splits decode_outcome.splits)

lemma decode_packet_suffix:
  "decode_packet conv parse c i m inp = (Inr a, rest) \<Longrightarrow> \<exists>used. inp = used @ rest"
  by (auto simp: decode_packet_def split: prod.splits sum.splits decode_outcome.splits
      dest: frame.consumes_prefix)

text \<open>The fields of a body: each either appends its encoding or refuses.\<close>

lemma encode_string_Inr:
  "encode_string s n out = (Inr u, out') \<longleftrightarrow>
    length s \<le> saturating_mul n 3 \<and> length s \<le> i32_max \<and> utf16_units s \<le> n
    \<and> out' = out @ encode_var_int (word_of_nat (length s)) [] @ s"
  by (auto simp: encode_string_def Let_def encode_var_int_app [of _ out])

lemma encode_string_Inr_ok:
  "utf8_valid s \<Longrightarrow> encode_string s n out = (Inr u, out') \<longleftrightarrow>
    str_ok n s \<and> out' = out @ encode_var_int (word_of_nat (length s)) [] @ s"
  using str_ok_bytes [of n s] by (auto simp: encode_string_Inr str_ok_def)

lemma encode_byte_array_Inr:
  "encode_byte_array b n out = (Inr u, out') \<longleftrightarrow>
    bytes_ok n b \<and> out' = out @ encode_var_int (word_of_nat (length b)) [] @ b"
  by (auto simp: encode_byte_array_def bytes_ok_def i32_of_usize_def encode_var_int_app [of _ out])

lemma decodes_string: "str_ok n s \<Longrightarrow> decodes (decode_string n) (encode_var_int (word_of_nat (length s)) [] @ s) s"
  by (simp add: decodes_def decode_string_roundtrip)

lemma decodes_byte_array:
  "bytes_ok n b \<Longrightarrow> decodes (decode_byte_array n) (encode_var_int (word_of_nat (length b)) [] @ b) b"
  using byte_array.decodes_enc [of n b] by (simp add: encode_byte_array_ok)

text \<open>
  A field: whatever its encoder appends when it succeeds, its decoder reads as the value. Bodies
  are lists of fields, and the rules below walk an encoder and a decoder in step.
\<close>

definition field_ok :: "'e encoder \<Rightarrow> ('f, 'a) decoder \<Rightarrow> 'a \<Rightarrow> bool" where
  "field_ok m d v \<longleftrightarrow>
    (\<forall>out u out'. m out = (Inr u, out') \<longrightarrow> (\<exists>bs. out' = out @ bs \<and> decodes d bs v))"

lemma field_okI:
  "(\<And>out u out'. m out = (Inr u, out') \<Longrightarrow> \<exists>bs. out' = out @ bs \<and> decodes d bs v) \<Longrightarrow> field_ok m d v"
  by (simp add: field_ok_def)

lemma field_okD:
  "field_ok m d v \<Longrightarrow> m out = (Inr u, out') \<Longrightarrow> \<exists>bs. out' = out @ bs \<and> decodes d bs v"
  by (simp add: field_ok_def)

lemma field_map_err [field_intros]: "field_ok m d v \<Longrightarrow> field_ok m (st_map_err h d) v"
  by (rule field_okI) (blast dest: field_okD decodes_map_err)

lemma field_map_err_enc [field_intros]: "field_ok m d v \<Longrightarrow> field_ok (st_map_err g m) d v"
  by (rule field_okI) (blast dest: field_okD st_map_err_Inr [THEN iffD1])

lemma field_codec:
  assumes "codec enc dec ok" "ok v"
  shows "field_ok (st_mod (enc v)) dec v"
proof (rule field_okI)
  fix out u out' assume "st_mod (enc v) out = (Inr u, out')"
  then have "out' = out @ enc v []" using codec.enc_appends [OF assms(1), of v out] by simp
  with codec.decodes_enc [OF assms] show "\<exists>bs. out' = out @ bs \<and> decodes dec bs v" by blast
qed

lemma field_string [field_intros]:
  "utf8_valid s \<Longrightarrow> field_ok (encode_string s n) (decode_string n) s"
  by (rule field_okI) (auto simp: encode_string_Inr_ok intro: decodes_string)

lemma field_byte_array [field_intros]: "field_ok (encode_byte_array b n) (decode_byte_array n) b"
  by (rule field_okI) (auto simp: encode_byte_array_Inr intro: decodes_byte_array)

lemmas field_prims [field_intros] =
  field_codec [OF var_int.codec_axioms TrueI] field_codec [OF var_long.codec_axioms TrueI]
  field_codec [OF be_u16.codec_axioms TrueI] field_codec [OF be_i64.codec_axioms TrueI]
  field_codec [OF be_i32.codec_axioms TrueI] field_codec [OF be_f32.codec_axioms TrueI]
  field_codec [OF be_f64.codec_axioms TrueI] field_codec [OF bool.codec_axioms TrueI]
  field_codec [OF u8.codec_axioms TrueI] field_codec [OF i8.codec_axioms TrueI]
  field_codec [OF uuid.codec_axioms TrueI]

lemma field_bind:
  assumes "field_ok m d v" "field_ok (enc_all ms) (f v) w"
  shows "field_ok (enc_all (m # ms)) (st_bind d f) w"
proof (rule field_okI)
  fix out u out' assume "enc_all (m # ms) out = (Inr u, out')"
  then obtain x mid where m: "m out = (Inr x, mid)" and ms: "enc_all ms mid = (Inr u, out')"
    by (auto simp: st_bind_Inr_iff)
  from field_okD [OF assms(1) m] obtain b where b: "mid = out @ b" "decodes d b v" by (elim exE conjE)
  from field_okD [OF assms(2) ms] obtain c where c: "out' = mid @ c" "decodes (f v) c w" by (elim exE conjE)
  have "decodes (st_bind d f) (b @ c) w" using b(2) c(2) by (rule decodes_bind)
  moreover have "out' = out @ b @ c" using b(1) c(1) by simp
  ultimately show "\<exists>bs. out' = out @ bs \<and> decodes (st_bind d f) bs w" by blast
qed

lemma field_nil: "field_ok (enc_all []) (st_ret w) w"
  by (simp add: field_ok_def decodes_def)

lemma field_ret [simp]: "field_ok (st_ret ()) (st_ret w) v \<longleftrightarrow> w = v" "field_ok (Pair (Inr ())) (Pair (Inr w)) v \<longleftrightarrow> w = v"
  by (auto simp: field_ok_def decodes_def)

lemma field_run_body: "field_ok m d v \<Longrightarrow> run_body m = Inr b \<Longrightarrow> decodes d b v"
  by (auto simp: run_body_Inr dest!: field_okD)

lemma field_bind_last:
  assumes "field_ok m d v" "f v = st_ret w"
  shows "field_ok m (st_bind d f) w"
proof (rule field_okI)
  fix out u out' assume "m out = (Inr u, out')"
  from field_okD [OF assms(1) this] obtain b where "out' = out @ b" "decodes d b v" by (elim exE conjE)
  then show "\<exists>bs. out' = out @ bs \<and> decodes (st_bind d f) bs w"
    by (intro exI [of _ b] conjI decodes_bind_last [where a = v]) (simp_all add: assms(2) decodes_ret)
qed

lemma enc_all_one [simp]: "st_bind m st_ret = m"
  by (rule ext) (simp add: st_bind_def split: prod.splits sum.splits)

lemma field_fail [field_intros]: "field_ok (st_fail e) d v"
  by (simp add: field_ok_def)

lemma field_restore [field_intros]: "field_ok m d v \<Longrightarrow> field_ok m (st_restore d) v"
  by (rule field_okI) (blast dest: field_okD decodes_restore)

lemma field_times:
  assumes "\<And>x. x \<in> set xs \<Longrightarrow> field_ok (m x) d x"
  shows "field_ok (enc_all (map m xs)) (dec_times (length xs) d) xs"
  using assms
proof (induction xs)
  case Nil
  show ?case by simp
next
  case (Cons x xs)
  have IH: "field_ok (enc_all (map m xs)) (dec_times (length xs) d) xs" using Cons by simp
  have "field_ok (enc_all (map m xs)) (st_bind (dec_times (length xs) d) (\<lambda>ys. st_ret (x # ys))) (x # xs)"
  proof (rule field_okI)
    fix out u out' assume "enc_all (map m xs) out = (Inr u, out')"
    from field_okD [OF IH this] obtain b where "out' = out @ b" "decodes (dec_times (length xs) d) b xs"
      by (elim exE conjE)
    then show "\<exists>bs. out' = out @ bs \<and> decodes (st_bind (dec_times (length xs) d) (\<lambda>ys. st_ret (x # ys))) bs (x # xs)"
      by (intro exI [of _ b] conjI decodes_bind_last [where a = xs] decodes_ret)
  qed
  moreover have "field_ok (m x) d x" using Cons.prems by simp
  ultimately show ?case unfolding list.map length_Cons dec_times.simps by (rule field_bind [rotated])
qed

text \<open>A body whose last field is the rest of the payload.\<close>

lemma field_then_rest:
  "field_ok m d v \<Longrightarrow> run_body (st_bind m (\<lambda>_. st_mod (\<lambda>b. b @ tail_bytes))) = Inr b \<Longrightarrow> d b = (Inr v, tail_bytes)"
  by (auto simp: run_body_Inr st_bind_Inr_iff dest!: field_okD decodesD)

text \<open>The common parser: check the packet id, read the fields, refuse what is left over.\<close>

definition parse_fields ::
  "(i32 \<Rightarrow> i32 \<Rightarrow> 'e) \<Rightarrow> (nat \<Rightarrow> 'e) \<Rightarrow> i32 \<Rightarrow> ('e, 'a) decoder \<Rightarrow> packet_frame \<Rightarrow> 'e + 'a" where
  "parse_fields wrong_id trailing pid reader frame =
    (if pf_packet_id frame \<noteq> pid then Inl (wrong_id (pf_packet_id frame) pid)
     else decode_exact trailing reader (pf_payload frame))"

lemma parse_fields_ok:
  "field_ok m reader v \<Longrightarrow> run_body m = Inr b \<Longrightarrow>
    parse_fields w t pid reader \<lparr>pf_packet_id = pid, pf_payload = b\<rparr> = Inr v"
  by (simp add: parse_fields_def decode_exact_decodes field_run_body)

text \<open>Evaluating an encoder at a concrete packet.\<close>

lemmas packet_eval = encode_packet_def run_body_def st_bind_def st_map_err_def Let_def
  encode_string_def encode_var_int_def encode_var_long_def var_enc_loop.simps encode_frame_def validated_frame_length_def
  saturating_mul_def usize_max_def i32_max_def utf16_units_def utf8_scan_ascii ascii_def i32_of_usize_def
  var_int_length_def effective_max_length_def PROTOCOL_MAX_FRAME_LENGTH_def utf8_valid_def

subsection \<open>The interface\<close>

locale framed_packet =
  fixes enc :: "'p \<Rightarrow> nat \<Rightarrow> 'e encoder"
    and dec :: "nat \<Rightarrow> ('e, 'r) decoder"
    and complete :: "'p \<Rightarrow> 'r"
    and incomplete :: "'e + 'r"
    and valid :: "'p \<Rightarrow> bool"
  assumes enc_unchanged: "enc p m out = (Inl e, out') \<Longrightarrow> out' = out"
    and enc_frame: "valid p \<Longrightarrow> enc p m out = (Inr u, out') \<Longrightarrow>
      \<exists>f. f \<noteq> [] \<and> out' = out @ f \<and> (\<forall>rest. dec m (f @ rest) = (Inr (complete p), rest))
        \<and> (\<forall>a b. f = a @ b \<longrightarrow> b \<noteq> [] \<longrightarrow> dec m a = (incomplete, a))"
    and dec_unchanged: "dec m inp = (Inl e, rest) \<Longrightarrow> rest = inp"
    and dec_suffix: "dec m inp = (Inr r, rest) \<Longrightarrow> \<exists>used. inp = used @ rest"
begin

lemma dec_transactional: "transactional (dec m)"
  by unfold_locales (auto dest: dec_unchanged dec_suffix)

lemma roundtrip:
  assumes "valid p" "enc p m [] = (Inr u, f)"
  shows "dec m (f @ rest) = (Inr (complete p), rest)"
  using enc_frame [OF assms] by auto

lemma wire:
  assumes "valid p"
  shows "case enc p m out of
      (Inl e, out') \<Rightarrow> out' = out
    | (Inr _, out') \<Rightarrow> \<exists>f. out' = out @ f \<and> dec m (f @ rest) = (Inr (complete p), rest)
        \<and> dec m (take n f) = (if n < length f then (incomplete, take n f) else (Inr (complete p), []))"
proof (cases "enc p m out")
  case (Pair r out')
  show ?thesis
  proof (cases r)
    case (Inl e)
    with Pair show ?thesis by (auto dest: enc_unchanged)
  next
    case (Inr u)
    from enc_frame [OF assms Pair [unfolded Inr]] obtain f where f: "out' = out @ f"
      and full: "\<And>rest. dec m (f @ rest) = (Inr (complete p), rest)"
      and part: "\<And>a b. f = a @ b \<Longrightarrow> b \<noteq> [] \<Longrightarrow> dec m a = (incomplete, a)" by blast
    have "dec m (take n f) = (if n < length f then (incomplete, take n f) else (Inr (complete p), []))"
      using part [of "take n f" "drop n f"] full [of "[]"] by (auto simp: not_less)
    with Pair Inr f full show ?thesis by auto
  qed
qed

lemma stream:
  assumes "\<And>p. p \<in> set ps \<Longrightarrow> valid p" "enc_all (map (\<lambda>p. enc p m) ps) out = (Inr u, out')"
  shows "\<exists>fs. out' = out @ fs \<and> (\<forall>rest. dec_times (length ps) (dec m) (fs @ rest) = (Inr (map complete ps), rest))"
  using assms
proof (induction ps arbitrary: out)
  case Nil
  then show ?case by simp
next
  case (Cons p ps)
  from Cons.prems(2) obtain v mid where p: "enc p m out = (Inr v, mid)"
    and ps: "enc_all (map (\<lambda>p. enc p m) ps) mid = (Inr u, out')"
    by (auto simp: st_bind_Inr_iff)
  from enc_frame [OF Cons.prems(1) p] obtain f where f: "mid = out @ f"
    and df: "\<And>rest. dec m (f @ rest) = (Inr (complete p), rest)" by auto
  from Cons.IH [OF Cons.prems(1) ps] obtain fs where fs: "out' = mid @ fs"
    and dfs: "\<And>rest. dec_times (length ps) (dec m) (fs @ rest) = (Inr (map complete ps), rest)" by auto
  show ?case
    by (rule exI [of _ "f @ fs"]) (simp add: f fs st_bind_def df dfs)
qed

end

text \<open>Any decoder built on \<open>decode_frame\<close> that hands the payload to a parser has the shape.\<close>

lemma framed_packet_intro:
  assumes enc: "\<And>p m. enc p m = encode_packet conv pid (body p) m"
    and complete: "\<And>m inp f rest p. decode_frame m inp = (Inr (FrameComplete f), rest) \<Longrightarrow> parse f = Inr p \<Longrightarrow>
      dec m inp = (Inr (complete p), rest)"
    and incomplete: "\<And>m inp. decode_frame m inp = (Inr FrameIncomplete, inp) \<Longrightarrow> dec m inp = (incomplete, inp)"
    and dec_Inl: "\<And>m inp e rest. dec m inp = (Inl e, rest) \<Longrightarrow> rest = inp"
    and dec_Inr: "\<And>m inp r rest. dec m inp = (Inr r, rest) \<Longrightarrow> \<exists>used. inp = used @ rest"
    and parse: "\<And>p b. valid p \<Longrightarrow> run_body (body p) = Inr b \<Longrightarrow>
      parse \<lparr>pf_packet_id = pid, pf_payload = b\<rparr> = Inr p"
  shows "framed_packet enc dec complete incomplete valid"
proof
  show "out' = out" if "enc p m out = (Inl e, out')" for p m out e out'
    using that by (simp add: enc encode_packet_Inl)
next
  fix p m out u out'
  assume valid: "valid p" and "enc p m out = (Inr u, out')"
  then obtain b where b: "run_body (body p) = Inr b"
    and le: "var_int_length pid + length b \<le> effective_max_length m"
    and out': "out' = out @ frame_bytes pid b" by (auto simp: enc encode_packet_Inr)
  have "frame_bytes pid b \<noteq> []" by (simp add: frame_bytes_def encode_var_int_Nil)
  moreover have "dec m (frame_bytes pid b @ rest) = (Inr (complete p), rest)" for rest
    by (rule complete [OF decode_frame_bytes [OF le] parse [OF valid b]])
  moreover have "dec m a = (incomplete, a)" if "frame_bytes pid b = a @ c" "c \<noteq> []" for a c
    by (rule incomplete [OF decode_frame_truncated [OF le that]])
  ultimately show "\<exists>f. f \<noteq> [] \<and> out' = out @ f \<and> (\<forall>rest. dec m (f @ rest) = (Inr (complete p), rest))
      \<and> (\<forall>a b. f = a @ b \<longrightarrow> b \<noteq> [] \<longrightarrow> dec m a = (incomplete, a))"
    using out' by blast
qed (fact dec_Inl dec_Inr)+

lemma framed_packetI:
  assumes "\<And>p m. enc p m = encode_packet conv pid (body p) m"
    and dec: "\<And>m. dec m = decode_packet conv' parse complete inc m"
    and "\<And>p b. valid p \<Longrightarrow> run_body (body p) = Inr b \<Longrightarrow> parse \<lparr>pf_packet_id = pid, pf_payload = b\<rparr> = Inr p"
  shows "framed_packet enc dec complete (Inr inc) valid"
proof (rule framed_packet_intro [where parse = parse and body = body and pid = pid and conv = conv])
  show "enc p m = encode_packet conv pid (body p) m" for p m by (fact assms(1))
qed (simp_all add: dec decode_packet_Inl decode_packet_suffix assms(3), simp_all add: decode_packet_def)

lemma framed_packet_fieldsI:
  assumes "\<And>p m. enc p m = encode_packet conv pid (body p) m"
    and "\<And>m. dec m = decode_packet conv' (parse_fields w t pid reader) complete inc m"
    and "\<And>p. valid p \<Longrightarrow> field_ok (body p) reader p"
  shows "framed_packet enc dec complete (Inr inc) valid"
  by (rule framed_packetI [where parse = "parse_fields w t pid reader" and conv = conv and conv' = conv'
        and pid = pid and body = body]) (simp_all add: assms(1,2) parse_fields_ok [OF assms(3)])

end
