(* ===== verification/Handshake.thy ===== *)
theory Handshake
  imports Packets
begin

section \<open>Connection states and the handshake (\<open>state.rs\<close>, \<open>handshake.rs\<close>)\<close>

text \<open>
  The connection states of protocol 763 with the one transition a handshake makes, and the
  handshake packet: its parser, its encoder and the decoder the connection loop calls.
\<close>

subsection \<open>Connection states\<close>

datatype protocol_state = Handshaking | Status | Login | Play | Closed

datatype next_state = NextStatus | NextLogin

definition next_state_wire_value :: "next_state \<Rightarrow> i32" where
  "next_state_wire_value s = (case s of NextStatus \<Rightarrow> 1 | NextLogin \<Rightarrow> 2)"

definition next_state_from_wire :: "i32 \<Rightarrow> next_state option" where
  "next_state_from_wire v = (if v = 1 then Some NextStatus else if v = 2 then Some NextLogin else None)"

definition target_state :: "next_state \<Rightarrow> protocol_state" where
  "target_state s = (case s of NextStatus \<Rightarrow> Status | NextLogin \<Rightarrow> Login)"

datatype state_error = WrongState protocol_state protocol_state | ConnectionClosed

definition apply_handshake_transition :: "protocol_state \<Rightarrow> next_state \<Rightarrow> state_error + protocol_state" where
  "apply_handshake_transition current next =
    (case current of
       Handshaking \<Rightarrow> Inr (target_state next)
     | Closed \<Rightarrow> Inl ConnectionClosed
     | other \<Rightarrow> Inl (WrongState other Handshaking))"

lemma next_state_wire_roundtrip [simp]: "next_state_from_wire (next_state_wire_value s) = Some s"
  by (cases s) (simp_all add: next_state_wire_value_def next_state_from_wire_def)

lemma next_state_from_wire_Some: "next_state_from_wire v = Some s \<longleftrightarrow> v = next_state_wire_value s"
  by (cases s) (auto simp: next_state_wire_value_def next_state_from_wire_def)

subsection \<open>The handshake packet\<close>

definition MAX_SERVER_ADDRESS_UTF16_UNITS :: nat where "MAX_SERVER_ADDRESS_UTF16_UNITS = 255"
definition HANDSHAKE_PACKET_ID :: i32 where "HANDSHAKE_PACKET_ID = 0x00"

record handshake_packet =
  hs_protocol_version :: i32
  hs_server_address :: rstring
  hs_port :: u16
  hs_next_state :: next_state

datatype handshake_error =
    WrongPacketId i32
  | Codec codec_error
  | AddressTooLong
  | InvalidNextState i32
  | TrailingBytes nat
  | Incomplete

definition handshake_error_from_codec :: "codec_error \<Rightarrow> handshake_error" where
  "handshake_error_from_codec e = (case e of IncompleteInput \<Rightarrow> Incomplete | other \<Rightarrow> Codec other)"

definition handshake_address_error :: "codec_error \<Rightarrow> handshake_error" where
  "handshake_address_error e =
    (case e of StringTooLong \<Rightarrow> AddressTooLong | other \<Rightarrow> handshake_error_from_codec other)"

definition handshake_fields :: "(handshake_error, handshake_packet) decoder" where
  "handshake_fields =
    st_bind (st_map_err handshake_error_from_codec decode_var_int) (\<lambda>version.
    st_bind (st_map_err handshake_address_error (decode_string MAX_SERVER_ADDRESS_UTF16_UNITS)) (\<lambda>address.
    st_bind (st_map_err handshake_error_from_codec decode_u16) (\<lambda>port.
    st_bind (st_map_err handshake_error_from_codec decode_var_int) (\<lambda>raw.
    case next_state_from_wire raw of
      None \<Rightarrow> st_fail (InvalidNextState raw)
    | Some next \<Rightarrow> st_ret \<lparr>hs_protocol_version = version, hs_server_address = address,
        hs_port = port, hs_next_state = next\<rparr>))))"

definition parse_handshake_body :: "packet_frame \<Rightarrow> handshake_error + handshake_packet" where
  "parse_handshake_body frame =
    (if pf_packet_id frame \<noteq> HANDSHAKE_PACKET_ID then Inl (WrongPacketId (pf_packet_id frame))
     else decode_exact TrailingBytes handshake_fields (pf_payload frame))"

text \<open>Every framing error is mapped to \<open>Incomplete\<close>, as in the source.\<close>

definition decode_handshake :: "nat \<Rightarrow> (handshake_error, handshake_packet) decoder" where
  "decode_handshake max_frame_length source =
    (case decode_frame max_frame_length source of
       (Inl _, input) \<Rightarrow> (Inl Incomplete, input)
     | (Inr FrameIncomplete, _) \<Rightarrow> (Inl Incomplete, source)
     | (Inr (FrameComplete frame), input) \<Rightarrow>
       (case parse_handshake_body frame of
          Inl e \<Rightarrow> (Inl e, source)
        | Inr p \<Rightarrow> (Inr p, input)))"

definition handshake_body :: "handshake_packet \<Rightarrow> handshake_error encoder" where
  "handshake_body p = enc_all
    [st_mod (encode_var_int (hs_protocol_version p)),
     st_map_err handshake_address_error
       (encode_string (hs_server_address p) MAX_SERVER_ADDRESS_UTF16_UNITS),
     st_mod (encode_u16 (hs_port p)),
     st_mod (encode_var_int (next_state_wire_value (hs_next_state p)))]"

definition encode_handshake :: "handshake_packet \<Rightarrow> nat \<Rightarrow> handshake_error encoder" where
  "encode_handshake p max_frame_length =
    encode_packet (\<lambda>_. Incomplete) HANDSHAKE_PACKET_ID (handshake_body p) max_frame_length"

subsection \<open>Round trip\<close>

lemma handshake_field:
  assumes "utf8_valid (hs_server_address p)"
  shows "field_ok (handshake_body p) handshake_fields p"
  unfolding handshake_body_def handshake_fields_def
  by ((rule field_bind field_intros assms)+) simp

lemma parse_handshake_body_ok:
  assumes "utf8_valid (hs_server_address p)" "run_body (handshake_body p) = Inr b"
  shows "parse_handshake_body \<lparr>pf_packet_id = HANDSHAKE_PACKET_ID, pf_payload = b\<rparr> = Inr p"
  using field_run_body [OF handshake_field [OF assms(1)] assms(2)]
  by (simp add: parse_handshake_body_def decode_exact_decodes)

lemma decode_handshake_Inl: "decode_handshake m inp = (Inl e, rest) \<Longrightarrow> rest = inp"
  by (auto simp: decode_handshake_def split: prod.splits sum.splits decode_outcome.splits
      dest: frame.err_unchanged)

lemma decode_handshake_suffix: "decode_handshake m inp = (Inr p, rest) \<Longrightarrow> \<exists>used. inp = used @ rest"
  by (auto simp: decode_handshake_def split: prod.splits sum.splits decode_outcome.splits
      dest: frame.consumes_prefix)

interpretation handshake: framed_packet encode_handshake decode_handshake "\<lambda>p. p" "Inl Incomplete"
    "\<lambda>p. utf8_valid (hs_server_address p)"
proof (rule framed_packet_intro [where parse = parse_handshake_body])
  show "encode_handshake p m = encode_packet (\<lambda>_. Incomplete) HANDSHAKE_PACKET_ID (handshake_body p) m" for p m
    by (rule ext) (simp add: encode_handshake_def)
qed (simp_all add: parse_handshake_body_ok decode_handshake_Inl decode_handshake_suffix,
    simp_all add: decode_handshake_def)

text \<open>
  A handshake that its encoder accepts is appended as one frame, which the decoder reads back
  as the same packet leaving exactly the bytes that follow; every proper prefix of the frame is
  reported incomplete with the input untouched; and an encoder error leaves the output untouched.
\<close>

theorem handshake_wire:
  assumes "utf8_valid (hs_server_address p)"
  shows "case encode_handshake p m out of
      (Inl e, out') \<Rightarrow> out' = out
    | (Inr _, out') \<Rightarrow> \<exists>f. out' = out @ f \<and> decode_handshake m (f @ rest) = (Inr p, rest)
        \<and> decode_handshake m (take n f) =
          (if n < length f then (Inl Incomplete, take n f) else (Inr p, []))"
  by (rule handshake.wire [OF assms])

definition login_handshake :: handshake_packet where
  "login_handshake = \<lparr>hs_protocol_version = 763, hs_server_address = ascii ''localhost'', hs_port = 25565,
    hs_next_state = NextLogin\<rparr>"

theorem handshake_wire_witness:
  "fst (encode_handshake login_handshake 64 []) = Inr () \<and>
   (case encode_handshake login_handshake 64 [] of
      (Inl e, out') \<Rightarrow> out' = []
    | (Inr _, out') \<Rightarrow> \<exists>f. out' = [] @ f \<and> decode_handshake 64 (f @ [7]) = (Inr login_handshake, [7])
        \<and> decode_handshake 64 (take 3 f) =
          (if 3 < length f then (Inl Incomplete, take 3 f) else (Inr login_handshake, [])))"
proof (rule conjI)
  show "fst (encode_handshake login_handshake 64 []) = Inr ()"
    by (simp add: packet_eval login_handshake_def encode_handshake_def handshake_body_def
        next_state_wire_value_def encode_u16_def MAX_SERVER_ADDRESS_UTF16_UNITS_def HANDSHAKE_PACKET_ID_def)
qed (rule handshake_wire, simp add: login_handshake_def packet_eval)

text \<open>
  A frame whose length the framing layer refuses (negative, zero or over the limit) is reported
  by the handshake decoder as \<open>Incomplete\<close>, with the input untouched, whatever bytes follow: the
  connection loop, which reads more input on \<open>Incomplete\<close>, never sees an error for it.
\<close>

theorem handshake_bad_length_incomplete:
  assumes "sint v \<le> 0 \<or> int (effective_max_length m) < sint v"
  shows "decode_handshake m (encode_var_int v [] @ following) = (Inl Incomplete, encode_var_int v [] @ following)"
proof -
  have "\<exists>e. decode_frame m (encode_var_int v [] @ following) = (Inl e, encode_var_int v [] @ following)"
    using assms by (auto simp: decode_frame_def var_int.roundtrip usize_of_i32_def Let_def)
  then show ?thesis by (auto simp: decode_handshake_def)
qed

theorem handshake_bad_length_incomplete_witness:
  "decode_handshake 64 (encode_var_int 65 [] @ [1, 2, 3]) = (Inl Incomplete, encode_var_int 65 [] @ [1, 2, 3])"
  by (rule handshake_bad_length_incomplete) (simp add: effective_max_length_def PROTOCOL_MAX_FRAME_LENGTH_def)

text \<open>
  The handshake transition: a connection leaves \<open>Handshaking\<close> for exactly the state the packet
  asks for, and every other state refuses it, a closed connection as closed.
\<close>

theorem handshake_transition_spec:
  "apply_handshake_transition s n =
    (if s = Handshaking then Inr (if n = NextStatus then Status else Login)
     else if s = Closed then Inl ConnectionClosed else Inl (WrongState s Handshaking))"
  by (cases s; cases n) (simp_all add: apply_handshake_transition_def target_state_def)

end
