(* ===== verification/Login_Packets.thy ===== *)
theory Login_Packets
  imports Handshake
begin

section \<open>The Login state's packets (\<open>login.rs\<close>)\<close>

text \<open>
  The seven packets of the Login state, each with its encoder and decoder, and the round trip of
  all of them. Packets that end in free-form data (the plugin messages) take the rest of the
  payload; the others refuse bytes left over.
\<close>

definition LOGIN_START_PACKET_ID :: i32 where "LOGIN_START_PACKET_ID = 0x00"
definition LOGIN_DISCONNECT_PACKET_ID :: i32 where "LOGIN_DISCONNECT_PACKET_ID = 0x00"
definition ENCRYPTION_REQUEST_PACKET_ID :: i32 where "ENCRYPTION_REQUEST_PACKET_ID = 0x01"
definition ENCRYPTION_RESPONSE_PACKET_ID :: i32 where "ENCRYPTION_RESPONSE_PACKET_ID = 0x01"
definition LOGIN_SUCCESS_PACKET_ID :: i32 where "LOGIN_SUCCESS_PACKET_ID = 0x02"
definition LOGIN_PLUGIN_RESPONSE_PACKET_ID :: i32 where "LOGIN_PLUGIN_RESPONSE_PACKET_ID = 0x02"
definition LOGIN_PLUGIN_REQUEST_PACKET_ID :: i32 where "LOGIN_PLUGIN_REQUEST_PACKET_ID = 0x04"
definition MAX_CHANNEL_IDENTIFIER_LENGTH :: nat where "MAX_CHANNEL_IDENTIFIER_LENGTH = 32767"
definition MAX_PROPERTIES_COUNT :: nat where "MAX_PROPERTIES_COUNT = 1024"
definition MAX_PROPERTY_STRING_LENGTH :: nat where "MAX_PROPERTY_STRING_LENGTH = 32767"
definition MAX_PROPERTY_SIGNATURE_LENGTH :: nat where "MAX_PROPERTY_SIGNATURE_LENGTH = 32767"

datatype login_error =
    Framing framing_error
  | Codec codec_error
  | WrongPacketId i32 i32
  | TrailingBytes nat
  | WrongState protocol_state
  | Incomplete

definition login_error_from_framing :: "framing_error \<Rightarrow> login_error" where
  "login_error_from_framing e =
    (case e of
       LengthCodec IncompleteInput \<Rightarrow> Incomplete
     | PacketIdCodec IncompleteInput \<Rightarrow> Incomplete
     | other \<Rightarrow> Framing other)"

definition login_error_from_codec :: "codec_error \<Rightarrow> login_error" where
  "login_error_from_codec e = (case e of IncompleteInput \<Rightarrow> Incomplete | other \<Rightarrow> Codec other)"

subsection \<open>The packets\<close>

record login_start =
  lst_username :: rstring
  lst_uuid :: uuid

record login_disconnect =
  ld_reason :: rstring

record encryption_request =
  eq_server_id :: rstring
  eq_public_key :: bytes
  eq_verify_token :: bytes

record encryption_response =
  er_shared_secret :: bytes
  er_verify_token :: bytes

record property =
  pr_name :: rstring
  pr_value :: rstring
  pr_signature :: "rstring option"

record login_success =
  lsu_uuid :: uuid
  lsu_username :: rstring
  lsu_properties :: "property list"

record login_plugin_request =
  lpq_message_id :: i32
  lpq_channel :: rstring
  lpq_data :: bytes

record login_plugin_response =
  lpr_message_id :: i32
  lpr_understood :: bool
  lpr_data :: bytes

datatype login_packet =
    LoginStart login_start
  | LoginDisconnect login_disconnect
  | EncryptionRequest encryption_request
  | EncryptionResponse encryption_response
  | LoginSuccess login_success
  | LoginPluginRequest login_plugin_request
  | LoginPluginResponse login_plugin_response

datatype login_decode_outcome = LoginComplete login_packet | LoginIncomplete

abbreviation login_codec :: "(codec_error, 'a, 's) st \<Rightarrow> (login_error, 'a, 's) st" where
  "login_codec \<equiv> st_map_err login_error_from_codec"

abbreviation encode_login_frame :: "i32 \<Rightarrow> login_error encoder \<Rightarrow> nat \<Rightarrow> login_error encoder" where
  "encode_login_frame \<equiv> encode_packet login_error_from_framing"

abbreviation decode_login_fields ::
  "i32 \<Rightarrow> (login_error, 'a) decoder \<Rightarrow> ('a \<Rightarrow> login_packet) \<Rightarrow> nat \<Rightarrow> (login_error, login_decode_outcome) decoder" where
  "decode_login_fields pid reader packet \<equiv>
    decode_packet login_error_from_framing (parse_fields WrongPacketId TrailingBytes pid reader)
      (\<lambda>a. LoginComplete (packet a)) LoginIncomplete"

subsubsection \<open>Login Start and Disconnect\<close>

definition login_start_body :: "login_start \<Rightarrow> login_error encoder" where
  "login_start_body p = enc_all
    [login_codec (encode_string (lst_username p) MAX_USERNAME_LENGTH),
     st_mod (encode_bool True),
     st_mod (encode_uuid (lst_uuid p))]"

definition encode_login_start :: "login_start \<Rightarrow> nat \<Rightarrow> login_error encoder" where
  "encode_login_start p m = encode_login_frame LOGIN_START_PACKET_ID (login_start_body p) m"

definition login_start_fields :: "(login_error, login_start) decoder" where
  "login_start_fields =
    st_bind (login_codec (decode_string MAX_USERNAME_LENGTH)) (\<lambda>username.
    st_bind (login_codec decode_bool) (\<lambda>has_uuid.
    st_bind (if has_uuid then login_codec decode_uuid else st_ret (uuid_new 0 0)) (\<lambda>u.
    st_ret \<lparr>lst_username = username, lst_uuid = u\<rparr>)))"

definition decode_login_start :: "nat \<Rightarrow> (login_error, login_decode_outcome) decoder" where
  "decode_login_start m = decode_login_fields LOGIN_START_PACKET_ID login_start_fields LoginStart m"

definition encode_login_disconnect :: "login_disconnect \<Rightarrow> nat \<Rightarrow> login_error encoder" where
  "encode_login_disconnect p m = encode_login_frame LOGIN_DISCONNECT_PACKET_ID
    (enc_all [login_codec (encode_string (ld_reason p) MAX_CHAT_COMPONENT_LENGTH)]) m"

definition login_disconnect_fields :: "(login_error, login_disconnect) decoder" where
  "login_disconnect_fields =
    st_bind (login_codec (decode_string MAX_CHAT_COMPONENT_LENGTH)) (\<lambda>reason.
    st_ret \<lparr>ld_reason = reason\<rparr>)"

definition decode_login_disconnect :: "nat \<Rightarrow> (login_error, login_decode_outcome) decoder" where
  "decode_login_disconnect m =
    decode_login_fields LOGIN_DISCONNECT_PACKET_ID login_disconnect_fields LoginDisconnect m"

datatype login_direction = Serverbound | Clientbound

definition decode_login_packet :: "login_direction \<Rightarrow> nat \<Rightarrow> (login_error, login_decode_outcome) decoder" where
  "decode_login_packet direction m =
    (case direction of Serverbound \<Rightarrow> decode_login_start m | Clientbound \<Rightarrow> decode_login_disconnect m)"

definition ensure_login_state :: "protocol_state \<Rightarrow> login_error + unit" where
  "ensure_login_state state = (if state = Login then Inr () else Inl (WrongState state))"

subsubsection \<open>Encryption\<close>

definition encryption_request_body :: "encryption_request \<Rightarrow> login_error encoder" where
  "encryption_request_body p = enc_all
    [login_codec (encode_string (eq_server_id p) MAX_SERVER_ID_LENGTH),
     login_codec (encode_byte_array (eq_public_key p) MAX_PUBLIC_KEY_LENGTH),
     login_codec (encode_byte_array (eq_verify_token p) MAX_VERIFY_TOKEN_LENGTH)]"

definition encode_encryption_request :: "encryption_request \<Rightarrow> nat \<Rightarrow> login_error encoder" where
  "encode_encryption_request p m =
    encode_login_frame ENCRYPTION_REQUEST_PACKET_ID (encryption_request_body p) m"

definition encryption_request_fields :: "(login_error, encryption_request) decoder" where
  "encryption_request_fields =
    st_bind (login_codec (decode_string MAX_SERVER_ID_LENGTH)) (\<lambda>server_id.
    st_bind (login_codec (decode_byte_array MAX_PUBLIC_KEY_LENGTH)) (\<lambda>public_key.
    st_bind (login_codec (decode_byte_array MAX_VERIFY_TOKEN_LENGTH)) (\<lambda>verify_token.
    st_ret \<lparr>eq_server_id = server_id, eq_public_key = public_key, eq_verify_token = verify_token\<rparr>)))"

definition decode_encryption_request :: "nat \<Rightarrow> (login_error, login_decode_outcome) decoder" where
  "decode_encryption_request m =
    decode_login_fields ENCRYPTION_REQUEST_PACKET_ID encryption_request_fields EncryptionRequest m"

definition encryption_response_body :: "encryption_response \<Rightarrow> login_error encoder" where
  "encryption_response_body p = enc_all
    [login_codec (encode_byte_array (er_shared_secret p) MAX_PUBLIC_KEY_LENGTH),
     login_codec (encode_byte_array (er_verify_token p) MAX_VERIFY_TOKEN_LENGTH)]"

definition encode_encryption_response :: "encryption_response \<Rightarrow> nat \<Rightarrow> login_error encoder" where
  "encode_encryption_response p m =
    encode_login_frame ENCRYPTION_RESPONSE_PACKET_ID (encryption_response_body p) m"

definition encryption_response_fields :: "(login_error, encryption_response) decoder" where
  "encryption_response_fields =
    st_bind (login_codec (decode_byte_array MAX_PUBLIC_KEY_LENGTH)) (\<lambda>shared_secret.
    st_bind (login_codec (decode_byte_array MAX_VERIFY_TOKEN_LENGTH)) (\<lambda>verify_token.
    st_ret \<lparr>er_shared_secret = shared_secret, er_verify_token = verify_token\<rparr>))"

definition decode_encryption_response :: "nat \<Rightarrow> (login_error, login_decode_outcome) decoder" where
  "decode_encryption_response m =
    decode_login_fields ENCRYPTION_RESPONSE_PACKET_ID encryption_response_fields EncryptionResponse m"

subsubsection \<open>Login Success\<close>

text \<open>The flag bytes that the source reads by hand: \<open>first()\<close>, a match, and a step forward.\<close>

definition push_flag :: "bool \<Rightarrow> bytes \<Rightarrow> bytes" where
  "push_flag b body = body @ [if b then 1 else 0]"

definition read_flag :: "(login_error, bool) decoder" where
  "read_flag body =
    (case body of
       [] \<Rightarrow> (Inl Incomplete, body)
     | b # rest \<Rightarrow>
       if b = 0 then (Inr False, rest) else if b = 1 then (Inr True, rest)
       else (Inl (Codec InvalidBoolean), body))"

definition property_body :: "property \<Rightarrow> login_error encoder" where
  "property_body p = enc_all
    [login_codec (encode_string (pr_name p) MAX_PROPERTY_STRING_LENGTH),
     login_codec (encode_string (pr_value p) MAX_PROPERTY_STRING_LENGTH),
     st_mod (push_flag (pr_signature p \<noteq> None)),
     (case pr_signature p of
        None \<Rightarrow> st_ret ()
      | Some signature \<Rightarrow> login_codec (encode_string signature MAX_PROPERTY_SIGNATURE_LENGTH))]"

definition properties_body :: "property list \<Rightarrow> login_error encoder" where
  "properties_body ps =
    (case i32_of_usize (length ps) of
       None \<Rightarrow> st_fail (Codec VarIntTooLong)
     | Some count \<Rightarrow>
       if length ps > MAX_PROPERTIES_COUNT then st_fail (Codec StringTooLong)
       else enc_all [st_mod (encode_var_int count), enc_all (map property_body ps)])"

definition login_success_body :: "login_success \<Rightarrow> login_error encoder" where
  "login_success_body p = enc_all
    [st_mod (encode_uuid (lsu_uuid p)),
     login_codec (encode_string (lsu_username p) MAX_USERNAME_LENGTH),
     properties_body (lsu_properties p)]"

definition encode_login_success :: "login_success \<Rightarrow> nat \<Rightarrow> login_error encoder" where
  "encode_login_success p m = encode_login_frame LOGIN_SUCCESS_PACKET_ID (login_success_body p) m"

definition property_fields :: "(login_error, property) decoder" where
  "property_fields =
    st_bind (login_codec (decode_string MAX_PROPERTY_STRING_LENGTH)) (\<lambda>name.
    st_bind (login_codec (decode_string MAX_PROPERTY_STRING_LENGTH)) (\<lambda>val.
    st_bind read_flag (\<lambda>has_signature.
    st_bind (if has_signature
        then st_bind (login_codec (decode_string MAX_PROPERTY_SIGNATURE_LENGTH)) (\<lambda>sig. st_ret (Some sig))
        else st_ret None) (\<lambda>signature.
    st_ret \<lparr>pr_name = name, pr_value = val, pr_signature = signature\<rparr>))))"

definition properties_fields :: "(login_error, property list) decoder" where
  "properties_fields =
    st_bind (login_codec decode_var_int) (\<lambda>count.
    case usize_of_i32 count of
      None \<Rightarrow> st_fail (Codec VarIntTooLong)
    | Some n \<Rightarrow> if n > MAX_PROPERTIES_COUNT then st_fail (Codec StringTooLong)
        else dec_times n property_fields)"

definition login_success_fields :: "(login_error, login_success) decoder" where
  "login_success_fields =
    st_bind (login_codec decode_uuid) (\<lambda>u.
    st_bind (login_codec (decode_string MAX_USERNAME_LENGTH)) (\<lambda>username.
    st_bind properties_fields (\<lambda>ps.
    st_ret \<lparr>lsu_uuid = u, lsu_username = username, lsu_properties = ps\<rparr>)))"

definition decode_login_success :: "nat \<Rightarrow> (login_error, login_decode_outcome) decoder" where
  "decode_login_success m =
    decode_login_fields LOGIN_SUCCESS_PACKET_ID login_success_fields LoginSuccess m"

subsubsection \<open>Plugin messages\<close>

definition login_plugin_request_head :: "login_plugin_request \<Rightarrow> login_error encoder" where
  "login_plugin_request_head p = enc_all
    [st_mod (encode_var_int (lpq_message_id p)),
     login_codec (encode_string (lpq_channel p) MAX_CHANNEL_IDENTIFIER_LENGTH)]"

definition encode_login_plugin_request :: "login_plugin_request \<Rightarrow> nat \<Rightarrow> login_error encoder" where
  "encode_login_plugin_request p m = encode_login_frame LOGIN_PLUGIN_REQUEST_PACKET_ID
    (st_bind (login_plugin_request_head p) (\<lambda>_. st_mod (\<lambda>body. body @ lpq_data p))) m"

definition parse_login_plugin_request :: "packet_frame \<Rightarrow> login_error + login_plugin_request" where
  "parse_login_plugin_request frame =
    (if pf_packet_id frame \<noteq> LOGIN_PLUGIN_REQUEST_PACKET_ID
     then Inl (WrongPacketId (pf_packet_id frame) LOGIN_PLUGIN_REQUEST_PACKET_ID)
     else case st_bind (login_codec decode_var_int) (\<lambda>message_id.
         st_bind (login_codec (decode_string MAX_CHANNEL_IDENTIFIER_LENGTH)) (\<lambda>channel.
         st_ret (message_id, channel))) (pf_payload frame) of
        (Inl e, _) \<Rightarrow> Inl e
      | (Inr (message_id, channel), body) \<Rightarrow>
        Inr \<lparr>lpq_message_id = message_id, lpq_channel = channel, lpq_data = body\<rparr>)"

definition decode_login_plugin_request :: "nat \<Rightarrow> (login_error, login_decode_outcome) decoder" where
  "decode_login_plugin_request m =
    decode_packet login_error_from_framing parse_login_plugin_request
      (\<lambda>a. LoginComplete (LoginPluginRequest a)) LoginIncomplete m"

definition login_plugin_response_head :: "login_plugin_response \<Rightarrow> login_error encoder" where
  "login_plugin_response_head p = enc_all
    [st_mod (encode_var_int (lpr_message_id p)), st_mod (push_flag (lpr_understood p))]"

definition encode_login_plugin_response :: "login_plugin_response \<Rightarrow> nat \<Rightarrow> login_error encoder" where
  "encode_login_plugin_response p m = encode_login_frame LOGIN_PLUGIN_RESPONSE_PACKET_ID
    (st_bind (login_plugin_response_head p) (\<lambda>_. st_mod (\<lambda>body. body @ lpr_data p))) m"

definition parse_login_plugin_response :: "packet_frame \<Rightarrow> login_error + login_plugin_response" where
  "parse_login_plugin_response frame =
    (if pf_packet_id frame \<noteq> LOGIN_PLUGIN_RESPONSE_PACKET_ID
     then Inl (WrongPacketId (pf_packet_id frame) LOGIN_PLUGIN_RESPONSE_PACKET_ID)
     else case st_bind (login_codec decode_var_int) (\<lambda>message_id.
         st_bind read_flag (\<lambda>understood. st_ret (message_id, understood))) (pf_payload frame) of
        (Inl e, _) \<Rightarrow> Inl e
      | (Inr (message_id, understood), body) \<Rightarrow>
        Inr \<lparr>lpr_message_id = message_id, lpr_understood = understood, lpr_data = body\<rparr>)"

definition decode_login_plugin_response :: "nat \<Rightarrow> (login_error, login_decode_outcome) decoder" where
  "decode_login_plugin_response m =
    decode_packet login_error_from_framing parse_login_plugin_response
      (\<lambda>a. LoginComplete (LoginPluginResponse a)) LoginIncomplete m"

subsection \<open>Fields read back\<close>

lemma login_start_field:
  assumes "utf8_valid (lst_username p)" shows "field_ok (login_start_body p) login_start_fields p"
  unfolding login_start_body_def login_start_fields_def
  by ((rule field_bind field_intros assms | simp only: if_True if_False option.case)+) simp

lemma login_disconnect_field:
  assumes "utf8_valid (ld_reason p)"
  shows "field_ok (enc_all [login_codec (encode_string (ld_reason p) MAX_CHAT_COMPONENT_LENGTH)]) login_disconnect_fields p"
  unfolding login_disconnect_fields_def
  by ((rule field_bind field_intros assms | simp only: if_True if_False option.case)+) simp

lemma encryption_request_field:
  assumes "utf8_valid (eq_server_id p)" shows "field_ok (encryption_request_body p) encryption_request_fields p"
  unfolding encryption_request_body_def encryption_request_fields_def
  by ((rule field_bind field_intros assms | simp only: if_True if_False option.case)+) simp

lemma encryption_response_field:
  "field_ok (encryption_response_body p) encryption_response_fields p"
  unfolding encryption_response_body_def encryption_response_fields_def
  by ((rule field_bind field_intros | simp only: if_True if_False option.case)+) simp

lemma field_flag [field_intros]: "field_ok (st_mod (push_flag b)) read_flag b"
  by (simp add: field_ok_def push_flag_def decodes_def read_flag_def)

definition property_valid :: "property \<Rightarrow> bool" where
  "property_valid p \<longleftrightarrow> utf8_valid (pr_name p) \<and> utf8_valid (pr_value p)
    \<and> (case pr_signature p of None \<Rightarrow> True | Some s \<Rightarrow> utf8_valid s)"

lemma property_field:
  assumes "property_valid p"
  shows "field_ok (property_body p) property_fields p"
proof (cases "pr_signature p")
  case None
  with assms show ?thesis
    unfolding property_body_def property_fields_def property_valid_def
    by (intro field_bind [where v = "pr_name p"] field_bind [where v = "pr_value p"]
        field_bind [where v = False] field_bind [where v = None])
      (auto intro: field_intros simp: field_flag)
next
  case (Some g)
  have "field_ok (login_codec (encode_string g MAX_PROPERTY_SIGNATURE_LENGTH))
      (st_bind (login_codec (decode_string MAX_PROPERTY_SIGNATURE_LENGTH)) (\<lambda>sig. st_ret (Some sig))) (Some g)"
    if "utf8_valid g"
    by (rule field_bind_last [OF field_map_err_enc [OF field_map_err [OF field_string [OF that]]]]) simp
  with Some assms show ?thesis
    unfolding property_body_def property_fields_def property_valid_def
    by (intro field_bind [where v = "pr_name p"] field_bind [where v = "pr_value p"]
        field_bind [where v = True] field_bind [where v = "Some g"])
      (auto intro: field_intros simp: field_flag)
qed

lemma properties_field:
  assumes "\<And>p. p \<in> set ps \<Longrightarrow> property_valid p"
  shows "field_ok (properties_body ps) properties_fields ps"
proof (cases "length ps \<le> i32_max \<and> length ps \<le> MAX_PROPERTIES_COUNT")
  case True
  have "field_ok (enc_all [st_mod (encode_var_int (word_of_nat (length ps))), enc_all (map property_body ps)])
      properties_fields ps"
    unfolding properties_fields_def
    by (rule field_bind [where v = "word_of_nat (length ps)"], rule field_intros, rule field_intros)
      (use True in \<open>simp add: field_times property_field assms not_less\<close>)
  with True show ?thesis by (simp add: properties_body_def i32_of_usize_def)
next
  case False
  then show ?thesis
    by (auto simp: properties_body_def i32_of_usize_def intro: field_fail)
qed

lemma login_success_field:
  assumes "utf8_valid (lsu_username p)" "\<And>x. x \<in> set (lsu_properties p) \<Longrightarrow> property_valid x"
  shows "field_ok (login_success_body p) login_success_fields p"
  unfolding login_success_body_def login_success_fields_def
  by ((rule field_bind field_intros properties_field assms | assumption)+) simp

subsection \<open>The packets as framed packets\<close>

interpretation login_start: framed_packet encode_login_start decode_login_start "\<lambda>p. LoginComplete (LoginStart p)"
    "Inr LoginIncomplete" "\<lambda>p. utf8_valid (lst_username p)"
  by (rule framed_packet_fieldsI [OF encode_login_start_def decode_login_start_def]) (simp_all add: login_start_field)

interpretation login_disconnect: framed_packet encode_login_disconnect decode_login_disconnect "\<lambda>p. LoginComplete (LoginDisconnect p)"
    "Inr LoginIncomplete" "\<lambda>p. utf8_valid (ld_reason p)"
  by (rule framed_packet_fieldsI [OF encode_login_disconnect_def decode_login_disconnect_def]) (simp_all add: login_disconnect_field [simplified])

interpretation encryption_request: framed_packet encode_encryption_request decode_encryption_request "\<lambda>p. LoginComplete (EncryptionRequest p)"
    "Inr LoginIncomplete" "\<lambda>p. utf8_valid (eq_server_id p)"
  by (rule framed_packet_fieldsI [OF encode_encryption_request_def decode_encryption_request_def]) (simp_all add: encryption_request_field)

interpretation encryption_response: framed_packet encode_encryption_response decode_encryption_response "\<lambda>p. LoginComplete (EncryptionResponse p)"
    "Inr LoginIncomplete" "\<lambda>_. True"
  by (rule framed_packet_fieldsI [OF encode_encryption_response_def decode_encryption_response_def]) (simp_all add: encryption_response_field)

interpretation login_success: framed_packet encode_login_success decode_login_success "\<lambda>p. LoginComplete (LoginSuccess p)"
    "Inr LoginIncomplete" "\<lambda>p. utf8_valid (lsu_username p) \<and> (\<forall>x\<in>set (lsu_properties p). property_valid x)"
  by (rule framed_packet_fieldsI [OF encode_login_success_def decode_login_success_def]) (simp_all add: login_success_field)

lemma login_plugin_request_parse:
  assumes "utf8_valid (lpq_channel p)"
    and "run_body (st_bind (login_plugin_request_head p) (\<lambda>_. st_mod (\<lambda>body. body @ lpq_data p))) = Inr b"
  shows "parse_login_plugin_request \<lparr>pf_packet_id = LOGIN_PLUGIN_REQUEST_PACKET_ID, pf_payload = b\<rparr> = Inr p"
proof -
  have "field_ok (login_plugin_request_head p)
      (st_bind (login_codec decode_var_int) (\<lambda>message_id.
       st_bind (login_codec (decode_string MAX_CHANNEL_IDENTIFIER_LENGTH)) (\<lambda>channel.
       st_ret (message_id, channel)))) (lpq_message_id p, lpq_channel p)"
    unfolding login_plugin_request_head_def by ((rule field_bind field_intros assms(1))+) simp
  from field_then_rest [OF this assms(2)] show ?thesis by (simp add: parse_login_plugin_request_def)
qed

lemma login_plugin_response_parse:
  assumes "run_body (st_bind (login_plugin_response_head p) (\<lambda>_. st_mod (\<lambda>body. body @ lpr_data p))) = Inr b"
  shows "parse_login_plugin_response \<lparr>pf_packet_id = LOGIN_PLUGIN_RESPONSE_PACKET_ID, pf_payload = b\<rparr> = Inr p"
proof -
  have "field_ok (login_plugin_response_head p)
      (st_bind (login_codec decode_var_int) (\<lambda>message_id.
       st_bind read_flag (\<lambda>understood. st_ret (message_id, understood)))) (lpr_message_id p, lpr_understood p)"
    unfolding login_plugin_response_head_def by ((rule field_bind field_intros)+) simp
  from field_then_rest [OF this assms] show ?thesis by (simp add: parse_login_plugin_response_def)
qed

interpretation login_plugin_request: framed_packet encode_login_plugin_request decode_login_plugin_request
    "\<lambda>p. LoginComplete (LoginPluginRequest p)" "Inr LoginIncomplete" "\<lambda>p. utf8_valid (lpq_channel p)"
  by (rule framed_packetI [OF encode_login_plugin_request_def decode_login_plugin_request_def])
    (rule login_plugin_request_parse)

interpretation login_plugin_response: framed_packet encode_login_plugin_response decode_login_plugin_response
    "\<lambda>p. LoginComplete (LoginPluginResponse p)" "Inr LoginIncomplete" "\<lambda>_. True"
  by (rule framed_packetI [OF encode_login_plugin_response_def decode_login_plugin_response_def])
    (rule login_plugin_response_parse)

text \<open>The encoder and the decoder that belong to a packet, and the packets made of Rust strings.\<close>

definition login_encoder :: "login_packet \<Rightarrow> nat \<Rightarrow> login_error encoder" where
  "login_encoder p = (case p of
      LoginStart q \<Rightarrow> encode_login_start q
    | LoginDisconnect q \<Rightarrow> encode_login_disconnect q
    | EncryptionRequest q \<Rightarrow> encode_encryption_request q
    | EncryptionResponse q \<Rightarrow> encode_encryption_response q
    | LoginSuccess q \<Rightarrow> encode_login_success q
    | LoginPluginRequest q \<Rightarrow> encode_login_plugin_request q
    | LoginPluginResponse q \<Rightarrow> encode_login_plugin_response q)"

definition login_decoder :: "login_packet \<Rightarrow> nat \<Rightarrow> (login_error, login_decode_outcome) decoder" where
  "login_decoder p = (case p of
      LoginStart _ \<Rightarrow> decode_login_start
    | LoginDisconnect _ \<Rightarrow> decode_login_disconnect
    | EncryptionRequest _ \<Rightarrow> decode_encryption_request
    | EncryptionResponse _ \<Rightarrow> decode_encryption_response
    | LoginSuccess _ \<Rightarrow> decode_login_success
    | LoginPluginRequest _ \<Rightarrow> decode_login_plugin_request
    | LoginPluginResponse _ \<Rightarrow> decode_login_plugin_response)"

definition login_strings_valid :: "login_packet \<Rightarrow> bool" where
  "login_strings_valid p = (case p of
      LoginStart q \<Rightarrow> utf8_valid (lst_username q)
    | LoginDisconnect q \<Rightarrow> utf8_valid (ld_reason q)
    | EncryptionRequest q \<Rightarrow> utf8_valid (eq_server_id q)
    | EncryptionResponse q \<Rightarrow> True
    | LoginSuccess q \<Rightarrow> utf8_valid (lsu_username q) \<and> (\<forall>x\<in>set (lsu_properties q). property_valid x)
    | LoginPluginRequest q \<Rightarrow> utf8_valid (lpq_channel q)
    | LoginPluginResponse q \<Rightarrow> True)"

text \<open>
  C39: Each of the seven packets of the Login state, whatever its strings, keys, properties and
  data: when the encoder accepts it, the output grows by one frame that the packet's decoder reads
  back as the packet at any place in the input, a cut-off frame is waited for with the input
  untouched, and when the encoder refuses it the output is untouched.
\<close>

theorem login_packets_wire:
  assumes "login_strings_valid p"
  shows "case login_encoder p m out of
      (Inl e, out') \<Rightarrow> out' = out
    | (Inr _, out') \<Rightarrow> \<exists>f. out' = out @ f \<and> login_decoder p m (f @ rest) = (Inr (LoginComplete p), rest)
        \<and> login_decoder p m (take n f) =
          (if n < length f then (Inr LoginIncomplete, take n f) else (Inr (LoginComplete p), []))"
proof (cases p)
  case (LoginStart q)
  show ?thesis unfolding login_encoder_def login_decoder_def LoginStart login_packet.case
    by (rule login_start.wire) (use assms LoginStart in \<open>simp add: login_strings_valid_def\<close>)
next
  case (LoginDisconnect q)
  show ?thesis unfolding login_encoder_def login_decoder_def LoginDisconnect login_packet.case
    by (rule login_disconnect.wire) (use assms LoginDisconnect in \<open>simp add: login_strings_valid_def\<close>)
next
  case (EncryptionRequest q)
  show ?thesis unfolding login_encoder_def login_decoder_def EncryptionRequest login_packet.case
    by (rule encryption_request.wire) (use assms EncryptionRequest in \<open>simp add: login_strings_valid_def\<close>)
next
  case (EncryptionResponse q)
  show ?thesis unfolding login_encoder_def login_decoder_def EncryptionResponse login_packet.case
    by (rule encryption_response.wire) (use assms EncryptionResponse in \<open>simp add: login_strings_valid_def\<close>)
next
  case (LoginSuccess q)
  show ?thesis unfolding login_encoder_def login_decoder_def LoginSuccess login_packet.case
    by (rule login_success.wire) (use assms LoginSuccess in \<open>simp add: login_strings_valid_def\<close>)
next
  case (LoginPluginRequest q)
  show ?thesis unfolding login_encoder_def login_decoder_def LoginPluginRequest login_packet.case
    by (rule login_plugin_request.wire) (use assms LoginPluginRequest in \<open>simp add: login_strings_valid_def\<close>)
next
  case (LoginPluginResponse q)
  show ?thesis unfolding login_encoder_def login_decoder_def LoginPluginResponse login_packet.case
    by (rule login_plugin_response.wire) (use assms LoginPluginResponse in \<open>simp add: login_strings_valid_def\<close>)
qed

definition steve_success :: login_packet where
  "steve_success = LoginSuccess \<lparr>lsu_uuid = uuid_new 0 7, lsu_username = ascii ''Steve'',
    lsu_properties = [\<lparr>pr_name = ascii ''textures'', pr_value = ascii ''x'', pr_signature = Some (ascii ''y'')\<rparr>]\<rparr>"

theorem login_packets_wire_witness:
  "fst (login_encoder steve_success 64 []) = Inr () \<and>
   (case login_encoder steve_success 64 [] of
      (Inl e, out') \<Rightarrow> out' = []
    | (Inr _, out') \<Rightarrow> \<exists>f. out' = [] @ f \<and> login_decoder steve_success 64 (f @ [9]) = (Inr (LoginComplete steve_success), [9])
        \<and> login_decoder steve_success 64 (take 5 f) =
          (if 5 < length f then (Inr LoginIncomplete, take 5 f) else (Inr (LoginComplete steve_success), [])))"
proof (rule conjI)
  show "fst (login_encoder steve_success 64 []) = Inr ()"
    by (simp add: packet_eval login_encoder_def steve_success_def encode_login_success_def login_success_body_def
        properties_body_def property_body_def push_flag_def encode_uuid_bytes
        MAX_USERNAME_LENGTH_def MAX_PROPERTIES_COUNT_def MAX_PROPERTY_STRING_LENGTH_def
        MAX_PROPERTY_SIGNATURE_LENGTH_def LOGIN_SUCCESS_PACKET_ID_def)
qed (rule login_packets_wire, simp add: login_strings_valid_def steve_success_def property_valid_def packet_eval)

end
