(* ===== verification/Login_Machine.thy ===== *)
theory Login_Machine
  imports Login_Packets
begin

section \<open>The login state machine (\<open>login_state_machine.rs\<close>)\<close>

text \<open>
  The machine that drives a login: each handler takes the machine and the input and returns its
  result with the machine and the input afterwards, whatever the result. \<open>lm_step\<close> and \<open>lm_run\<close>
  feed it a sequence of calls, and \<open>lm_reach\<close> is what a caller can bring it to.
\<close>

datatype login_phase = AwaitingLoginStart | AwaitingEncryptionResponse | LoginDone | Disconnected

datatype login_step_result =
    Continue "bytes list" login_phase
  | Success bytes protocol_state
  | Disconnect bytes protocol_state

datatype login_machine_error =
    LoginErr login_error
  | UnexpectedPacket login_phase string
  | Terminal

record login_config =
  lc_online_mode :: bool
  lc_compression_threshold :: i32
  lc_max_frame_length :: nat
  lc_offline_uuid :: uuid

record login_machine =
  lm_phase :: login_phase
  lm_config :: login_config
  lm_username :: "rstring option"

definition lm_new :: "login_config \<Rightarrow> login_machine" where
  "lm_new config = \<lparr>lm_phase = AwaitingLoginStart, lm_config = config, lm_username = None\<rparr>"

type_synonym login_result = "login_machine_error + login_step_result"

definition lm_terminal :: "login_machine \<Rightarrow> bool" where
  "lm_terminal m \<longleftrightarrow> lm_phase m = Disconnected \<or> lm_phase m = LoginDone"

definition placeholder_encryption_request :: encryption_request where
  "placeholder_encryption_request =
    \<lparr>eq_server_id = [], eq_public_key = replicate 128 0, eq_verify_token = replicate 4 0\<rparr>"

text \<open>What \<open>handle_login_start\<close> does once a Login Start was read, \<open>m\<close> holding its username.\<close>

definition lm_accept_start :: "login_start \<Rightarrow> login_machine \<Rightarrow> login_result \<times> login_machine" where
  "lm_accept_start packet m0 =
    (let m = m0\<lparr>lm_username := Some (lst_username packet)\<rparr>; c = lm_config m in
     if lc_online_mode c then
       (case encode_encryption_request placeholder_encryption_request (lc_max_frame_length c) [] of
          (Inl e, _) \<Rightarrow> (Inl (LoginErr e), m)
        | (Inr _, wire) \<Rightarrow>
          (Inr (Continue [wire] AwaitingEncryptionResponse), m\<lparr>lm_phase := AwaitingEncryptionResponse\<rparr>))
     else
       (case encode_login_success \<lparr>lsu_uuid = lc_offline_uuid c, lsu_username = lst_username packet,
            lsu_properties = []\<rparr> (lc_max_frame_length c) [] of
          (Inl e, _) \<Rightarrow> (Inl (LoginErr e), m)
        | (Inr _, wire) \<Rightarrow> (Inr (Success wire Play), m\<lparr>lm_phase := LoginDone\<rparr>)))"

definition handle_login_start :: "login_machine \<Rightarrow> bytes \<Rightarrow> login_result \<times> login_machine \<times> bytes" where
  "handle_login_start m input =
    (if lm_terminal m then (Inl Terminal, m, input)
     else if lm_phase m \<noteq> AwaitingLoginStart
     then (Inl (UnexpectedPacket (lm_phase m) ''Login Start''), m, input)
     else case decode_login_start (lc_max_frame_length (lm_config m)) input of
        (Inl e, input') \<Rightarrow> (Inl (LoginErr e), m, input')
      | (Inr LoginIncomplete, input') \<Rightarrow> (Inr (Continue [] (lm_phase m)), m, input')
      | (Inr (LoginComplete (LoginStart packet)), input') \<Rightarrow>
          (case lm_accept_start packet m of (r, m') \<Rightarrow> (r, m', input'))
      | (Inr (LoginComplete _), input') \<Rightarrow>
          (Inl (UnexpectedPacket (lm_phase m) ''Login Start''), m, input'))"

definition lm_accept_encryption :: "login_machine \<Rightarrow> login_result \<times> login_machine" where
  "lm_accept_encryption m =
    (case encode_login_success \<lparr>lsu_uuid = lc_offline_uuid (lm_config m),
         lsu_username = (case lm_username m of None \<Rightarrow> [] | Some u \<Rightarrow> u), lsu_properties = []\<rparr>
         (lc_max_frame_length (lm_config m)) [] of
       (Inl e, _) \<Rightarrow> (Inl (LoginErr e), m)
     | (Inr _, wire) \<Rightarrow> (Inr (Success wire Play), m\<lparr>lm_phase := LoginDone\<rparr>))"

definition handle_encryption_response :: "login_machine \<Rightarrow> bytes \<Rightarrow> login_result \<times> login_machine \<times> bytes" where
  "handle_encryption_response m input =
    (if lm_terminal m then (Inl Terminal, m, input)
     else if lm_phase m \<noteq> AwaitingEncryptionResponse
     then (Inl (UnexpectedPacket (lm_phase m) ''Encryption Response''), m, input)
     else case decode_encryption_response (lc_max_frame_length (lm_config m)) input of
        (Inl e, input') \<Rightarrow> (Inl (LoginErr e), m, input')
      | (Inr LoginIncomplete, input') \<Rightarrow> (Inr (Continue [] (lm_phase m)), m, input')
      | (Inr (LoginComplete (EncryptionResponse _)), input') \<Rightarrow>
          (case lm_accept_encryption m of (r, m') \<Rightarrow> (r, m', input'))
      | (Inr (LoginComplete _), input') \<Rightarrow>
          (Inl (UnexpectedPacket (lm_phase m) ''Encryption Response''), m, input'))"

definition lm_disconnect :: "rstring \<Rightarrow> login_machine \<Rightarrow> login_result \<times> login_machine" where
  "lm_disconnect reason m =
    (if lm_terminal m then (Inl Terminal, m)
     else case encode_login_disconnect \<lparr>ld_reason = reason\<rparr> (lc_max_frame_length (lm_config m)) [] of
        (Inl e, _) \<Rightarrow> (Inl (LoginErr e), m)
      | (Inr _, wire) \<Rightarrow> (Inr (Disconnect wire Closed), m\<lparr>lm_phase := Disconnected\<rparr>))"

subsection \<open>Sequences of calls\<close>

datatype login_call = CallLoginStart bytes | CallEncryptionResponse bytes | CallDisconnect rstring

definition lm_step :: "login_call \<Rightarrow> login_machine \<Rightarrow> login_result \<times> login_machine" where
  "lm_step c m =
    (case c of
       CallLoginStart b \<Rightarrow> (case handle_login_start m b of (r, m', _) \<Rightarrow> (r, m'))
     | CallEncryptionResponse b \<Rightarrow> (case handle_encryption_response m b of (r, m', _) \<Rightarrow> (r, m'))
     | CallDisconnect reason \<Rightarrow> lm_disconnect reason m)"

fun lm_run :: "login_call list \<Rightarrow> login_machine \<Rightarrow> login_result list \<times> login_machine" where
  "lm_run [] m = ([], m)"
| "lm_run (c # cs) m = (case lm_step c m of (r, m') \<Rightarrow> (case lm_run cs m' of (rs, m'') \<Rightarrow> (r # rs, m'')))"

inductive lm_reach :: "login_config \<Rightarrow> login_machine \<Rightarrow> bool" for config where
  lm_start: "lm_reach config (lm_new config)"
| lm_call: "lm_reach config m \<Longrightarrow> lm_step c m = (r, m') \<Longrightarrow> lm_reach config m'"

definition is_final :: "login_result \<Rightarrow> bool" where
  "is_final r \<longleftrightarrow> (case r of Inr (Success _ _) \<Rightarrow> True | Inr (Disconnect _ _) \<Rightarrow> True | _ \<Rightarrow> False)"

lemma lm_accept_start_cases:
  assumes "lm_accept_start packet m = (r, m')"
  shows "lm_config m' = lm_config m \<and> lm_username m' = Some (lst_username packet) \<and>
    (if is_final r then lm_phase m' = LoginDone \<and> \<not> lc_online_mode (lm_config m)
     else lm_phase m' = lm_phase m \<or> lm_phase m' = AwaitingEncryptionResponse \<and> lc_online_mode (lm_config m))"
  using assms
  by (auto simp: lm_accept_start_def Let_def is_final_def split: if_splits prod.splits sum.splits)

lemma lm_accept_encryption_cases:
  assumes "lm_accept_encryption m = (r, m')"
  shows "lm_config m' = lm_config m \<and> lm_username m' = lm_username m \<and>
    (if is_final r then lm_phase m' = LoginDone else m' = m)"
  using assms
  by (auto simp: lm_accept_encryption_def is_final_def split: if_splits prod.splits sum.splits)

text \<open>What one call can do to the machine.\<close>

lemma lm_step_terminal:
  assumes "lm_terminal m"
  shows "lm_step c m = (Inl Terminal, m)"
  using assms by (cases c) (simp_all add: lm_step_def handle_login_start_def handle_encryption_response_def lm_disconnect_def)

lemma lm_step_start:
  assumes "\<not> lm_terminal m" "lm_step (CallLoginStart b) m = (r, m')"
  shows "m' = m \<and> \<not> is_final r \<or> lm_phase m = AwaitingLoginStart
    \<and> (\<exists>p rest. decode_login_start (lc_max_frame_length (lm_config m)) b = (Inr (LoginComplete (LoginStart p)), rest)
        \<and> lm_accept_start p m = (r, m'))"
  using assms
  by (auto simp: lm_step_def handle_login_start_def is_final_def
      split: if_splits prod.splits sum.splits login_decode_outcome.splits login_packet.splits)

lemma lm_step_encryption:
  assumes "\<not> lm_terminal m" "lm_step (CallEncryptionResponse b) m = (r, m')"
  shows "m' = m \<and> \<not> is_final r \<or> lm_phase m = AwaitingEncryptionResponse \<and> lm_accept_encryption m = (r, m')"
  using assms
  by (auto simp: lm_step_def handle_encryption_response_def is_final_def
      split: if_splits prod.splits sum.splits login_decode_outcome.splits login_packet.splits)

lemma lm_step_disconnect:
  assumes "\<not> lm_terminal m" "lm_step (CallDisconnect reason) m = (r, m')"
  shows "if is_final r then m' = m\<lparr>lm_phase := Disconnected\<rparr> else m' = m"
  using assms
  by (auto simp: lm_step_def lm_disconnect_def is_final_def split: if_splits prod.splits sum.splits)

lemma lm_step_final_iff:
  assumes "\<not> lm_terminal m" "lm_step c m = (r, m')"
  shows "is_final r \<longleftrightarrow> lm_terminal m'"
proof (cases c)
  case (CallLoginStart b)
  from lm_step_start [OF assms(1) assms(2) [unfolded CallLoginStart]] assms(1) show ?thesis
    by (auto simp: lm_terminal_def dest!: lm_accept_start_cases split: if_splits)
next
  case (CallEncryptionResponse b)
  from lm_step_encryption [OF assms(1) assms(2) [unfolded CallEncryptionResponse]] assms(1) show ?thesis
    by (auto simp: lm_terminal_def dest!: lm_accept_encryption_cases split: if_splits)
next
  case (CallDisconnect reason)
  from lm_step_disconnect [OF assms(1) assms(2) [unfolded CallDisconnect]] assms(1) show ?thesis
    by (auto simp: lm_terminal_def split: if_splits)
qed

lemma lm_run_terminal: "lm_terminal m \<Longrightarrow> lm_run cs m = (replicate (length cs) (Inl Terminal), m)"
  by (induction cs) (simp_all add: lm_step_terminal)

definition lm_inv :: "login_config \<Rightarrow> login_machine \<Rightarrow> bool" where
  "lm_inv config m \<longleftrightarrow> lm_config m = config
    \<and> (lm_phase m = AwaitingEncryptionResponse \<longrightarrow> lc_online_mode config)
    \<and> (lm_phase m \<in> {AwaitingEncryptionResponse, LoginDone} \<longrightarrow> lm_username m \<noteq> None)"

lemma lm_step_inv:
  assumes "lm_inv config m" "lm_step c m = (r, m')"
  shows "lm_inv config m'"
proof (cases "lm_terminal m")
  case True
  with assms show ?thesis by (simp add: lm_step_terminal)
next
  case False
  show ?thesis
  proof (cases c)
    case (CallLoginStart b)
    from lm_step_start [OF False assms(2) [unfolded CallLoginStart]] assms(1) show ?thesis
      by (auto simp: lm_inv_def dest!: lm_accept_start_cases split: if_splits)
  next
    case (CallEncryptionResponse b)
    from lm_step_encryption [OF False assms(2) [unfolded CallEncryptionResponse]] assms(1) show ?thesis
      by (auto simp: lm_inv_def dest!: lm_accept_encryption_cases split: if_splits)
  next
    case (CallDisconnect reason)
    from lm_step_disconnect [OF False assms(2) [unfolded CallDisconnect]] assms(1) show ?thesis
      by (auto simp: lm_inv_def split: if_splits)
  qed
qed

lemma lm_reach_inv: "lm_reach config m \<Longrightarrow> lm_inv config m"
proof (induction rule: lm_reach.induct)
  case lm_start
  show ?case by (simp add: lm_inv_def lm_new_def)
next
  case (lm_call m c r m')
  from lm_call.IH lm_call.hyps(2) show ?case by (rule lm_step_inv)
qed

lemma lm_reach_run: "lm_reach config m \<Longrightarrow> lm_reach config (snd (lm_run cs m))"
proof (induction cs arbitrary: m)
  case (Cons c cs)
  obtain r m' where s: "lm_step c m = (r, m')" by (cases "lm_step c m")
  from Cons.IH [OF lm_call [OF Cons.prems s]] show ?case by (auto simp: s split: prod.splits)
qed simp

lemma lm_run_finals:
  "if lm_terminal m then filter is_final (fst (lm_run cs m)) = []
   else length (filter is_final (fst (lm_run cs m))) = (if lm_terminal (snd (lm_run cs m)) then 1 else 0)"
proof (induction cs arbitrary: m)
  case (Cons c cs)
  obtain r m' where s: "lm_step c m = (r, m')" by (cases "lm_step c m")
  show ?case
  proof (cases "lm_terminal m")
    case True
    then show ?thesis using lm_run_terminal [OF True, of "c # cs"] by (simp add: is_final_def)
  next
    case False
    with lm_step_final_iff [OF False s] Cons.IH [of m'] lm_run_terminal [of m' cs] show ?thesis
      by (auto simp: s split: prod.splits if_splits)
  qed
qed simp

definition offline_config :: login_config where
  "offline_config = \<lparr>lc_online_mode = False, lc_compression_threshold = -1, lc_max_frame_length = 64,
    lc_offline_uuid = uuid_new 1 2\<rparr>"

lemma disconnect_example:
  "\<exists>w. lm_disconnect [] (lm_new offline_config) = (Inr (Disconnect w Closed), (lm_new offline_config)\<lparr>lm_phase := Disconnected\<rparr>)"
  by (simp add: lm_disconnect_def lm_new_def offline_config_def lm_terminal_def encode_login_disconnect_def
      packet_eval LOGIN_DISCONNECT_PACKET_ID_def MAX_CHAT_COMPONENT_LENGTH_def)

subsection \<open>Properties\<close>

text \<open>
  C32: Whatever calls a connection makes, in whatever order and with whatever input, the machine
  gives at most one final result (Success or Disconnect), exactly one when it has ended, and in
  offline mode it never waits for an encryption response; a machine past the Login Start holds
  the username it was given.
\<close>

theorem login_machine_one_outcome:
  "case lm_run cs (lm_new config) of (rs, m) \<Rightarrow>
     length (filter is_final rs) = (if lm_phase m \<in> {LoginDone, Disconnected} then 1 else 0)
     \<and> lm_config m = config
     \<and> (lm_phase m = AwaitingEncryptionResponse \<longrightarrow> lc_online_mode config)
     \<and> (lm_phase m \<in> {AwaitingEncryptionResponse, LoginDone} \<longrightarrow> lm_username m \<noteq> None)"
proof (cases "lm_run cs (lm_new config)")
  case (Pair rs m)
  with lm_reach_inv [OF lm_reach_run [OF lm_start [of config], of cs]] lm_run_finals [of "lm_new config" cs]
  show ?thesis
    by (auto simp: lm_inv_def lm_terminal_def lm_new_def split: prod.splits)
qed

theorem login_machine_one_outcome_witness:
  "length (filter is_final (fst (lm_run [CallDisconnect [], CallLoginStart [1, 2]] (lm_new offline_config)))) = 1"
proof -
  obtain w where "lm_disconnect [] (lm_new offline_config) =
      (Inr (Disconnect w Closed), (lm_new offline_config)\<lparr>lm_phase := Disconnected\<rparr>)"
    using disconnect_example by blast
  then have "lm_phase (snd (lm_run [CallDisconnect [], CallLoginStart [1, 2]] (lm_new offline_config))) = Disconnected"
    by (simp add: lm_step_def handle_login_start_def lm_terminal_def)
  then show ?thesis
    using login_machine_one_outcome [where cs = "[CallDisconnect [], CallLoginStart [1, 2]]" and config = offline_config]
    by (auto split: prod.splits)
qed

text \<open>
  After its final result the machine accepts nothing: every later call of any handler returns
  \<open>Terminal\<close> and leaves the machine and, for the packet handlers, the input as they were.
\<close>

theorem login_machine_terminal:
  "case lm_step c m of (r, m') \<Rightarrow>
     if is_final r then
       (\<forall>d. lm_step d m' = (Inl Terminal, m'))
       \<and> (\<forall>b. handle_login_start m' b = (Inl Terminal, m', b) \<and> handle_encryption_response m' b = (Inl Terminal, m', b))
     else lm_phase m' \<notin> {LoginDone, Disconnected} \<or> m' = m"
proof (cases "lm_step c m")
  case (Pair r m')
  show ?thesis
  proof (cases "lm_terminal m")
    case True
    with Pair show ?thesis by (auto simp: lm_step_terminal is_final_def)
  next
    case False
    from lm_step_final_iff [OF False Pair] Pair show ?thesis
      by (auto simp: lm_step_terminal handle_login_start_def handle_encryption_response_def lm_terminal_def)
  qed
qed

theorem login_machine_terminal_witness:
  "\<exists>m. lm_step (CallDisconnect []) (lm_new offline_config) = m \<and> is_final (fst m)
    \<and> lm_step (CallEncryptionResponse [1]) (snd m) = (Inl Terminal, snd m)"
proof -
  obtain w where w: "lm_step (CallDisconnect []) (lm_new offline_config) =
      (Inr (Disconnect w Closed), (lm_new offline_config)\<lparr>lm_phase := Disconnected\<rparr>)"
    using disconnect_example by (auto simp: lm_step_def)
  then show ?thesis
    using login_machine_terminal [where c = "CallDisconnect []" and m = "lm_new offline_config"] by (simp add: is_final_def)
qed

lemma empty_properties_body: "properties_body [] b = (Inr (), b @ [0])"
  by (simp add: properties_body_def i32_of_usize_def i32_max_def MAX_PROPERTIES_COUNT_def st_bind_def
      encode_var_int_def var_enc_loop.simps)

text \<open>A Login Start that fits the limit makes a Login Success, with no properties, that fits it.\<close>

lemma login_success_fits:
  assumes "utf8_valid (lst_username p)" "encode_login_start p m out = (Inr u, out')"
  shows "\<exists>wire. encode_login_success \<lparr>lsu_uuid = i, lsu_username = lst_username p, lsu_properties = []\<rparr> m [] = (Inr (), wire)"
proof -
  let ?s = "lst_username p" and ?q = "\<lparr>lsu_uuid = i, lsu_username = lst_username p, lsu_properties = []\<rparr>"
  let ?e = "encode_var_int (word_of_nat (length ?s)) [] @ ?s"
  from assms(2) obtain b where b: "run_body (login_start_body p) = Inr b"
    and le: "var_int_length LOGIN_START_PACKET_ID + length b \<le> effective_max_length m"
    by (auto simp: encode_login_start_def encode_packet_Inr)
  from b have ok: "str_ok MAX_USERNAME_LENGTH ?s" and b': "b = ?e @ [1] @ uuid_to_be_bytes (lst_uuid p)"
    by (auto simp: run_body_Inr login_start_body_def st_bind_Inr_iff encode_string_Inr_ok [OF assms(1)]
        encode_bool_def encode_uuid_bytes)
  have "run_body (login_success_body ?q) = Inr (uuid_to_be_bytes i @ ?e @ [0])"
    by (auto simp: run_body_Inr login_success_body_def st_bind_Inr_iff encode_string_Inr_ok [OF assms(1)] ok
        encode_uuid_bytes empty_properties_body)
  moreover have "var_int_length LOGIN_SUCCESS_PACKET_ID = var_int_length LOGIN_START_PACKET_ID"
    by (simp add: LOGIN_SUCCESS_PACKET_ID_def LOGIN_START_PACKET_ID_def var_int_length_def)
  ultimately show ?thesis using le b'
    by (auto simp: encode_login_success_def encode_packet_Inr)
qed

text \<open>The whole login in one lemma, for the connection that makes a machine for it.\<close>

lemma offline_login_frame:
  assumes "utf8_valid (lst_username p)" "encode_login_start p (lc_max_frame_length config) [] = (Inr u, f)"
    and "\<not> lc_online_mode config"
  shows "\<exists>wire. handle_login_start (lm_new config) (f @ rest) =
      (Inr (Success wire Play),
       \<lparr>lm_phase = LoginDone, lm_config = config, lm_username = Some (lst_username p)\<rparr>, rest)
    \<and> decode_login_success (lc_max_frame_length config) wire =
      (Inr (LoginComplete (LoginSuccess \<lparr>lsu_uuid = lc_offline_uuid config, lsu_username = lst_username p, lsu_properties = []\<rparr>)), [])"
proof -
  let ?m = "lc_max_frame_length config"
  let ?q = "\<lparr>lsu_uuid = lc_offline_uuid config, lsu_username = lst_username p, lsu_properties = []\<rparr>"
  obtain wire where wire: "encode_login_success ?q ?m [] = (Inr (), wire)"
    using login_success_fits [OF assms(1,2)] by blast
  have "decode_login_start ?m (f @ rest) = (Inr (LoginComplete (LoginStart p)), rest)"
    by (rule login_start.roundtrip [OF assms(1,2)])
  moreover have "decode_login_success ?m (wire @ []) = (Inr (LoginComplete (LoginSuccess ?q)), [])"
    by (rule login_success.roundtrip [OF _ wire]) (simp add: assms(1))
  ultimately show ?thesis using assms(3) wire
    by (simp add: handle_login_start_def lm_accept_start_def lm_terminal_def lm_new_def)
qed

text \<open>
  An offline login: given the frame of a Login Start, at the front of any input and within
  the frame limit, the machine answers with the Login Success frame for the configured UUID and
  the given name, moves the connection to Play and consumes exactly the frame.
\<close>

theorem offline_login:
  assumes "utf8_valid (lst_username p)" "encode_login_start p (lc_max_frame_length config) [] = (Inr u, f)"
    and "\<not> lc_online_mode config"
  shows "\<exists>wire. handle_login_start (lm_new config) (f @ rest) =
      (Inr (Success wire Play),
       \<lparr>lm_phase = LoginDone, lm_config = config, lm_username = Some (lst_username p)\<rparr>, rest)
    \<and> decode_login_success (lc_max_frame_length config) wire =
      (Inr (LoginComplete (LoginSuccess \<lparr>lsu_uuid = lc_offline_uuid config, lsu_username = lst_username p, lsu_properties = []\<rparr>)), [])"
  by (rule offline_login_frame [OF assms])

definition steve_start :: login_start where
  "steve_start = \<lparr>lst_username = ascii ''Steve'', lst_uuid = uuid_new 0 0\<rparr>"

theorem offline_login_witness:
  "\<exists>f wire. encode_login_start steve_start 64 [] = (Inr (), f)
    \<and> handle_login_start (lm_new offline_config) (f @ [1, 2]) =
      (Inr (Success wire Play),
       \<lparr>lm_phase = LoginDone, lm_config = offline_config, lm_username = Some (ascii ''Steve'')\<rparr>, [1, 2])"
proof -
  have "fst (encode_login_start steve_start 64 []) = Inr ()"
    by (simp add: packet_eval encode_login_start_def login_start_body_def steve_start_def encode_bool_def
        encode_uuid_bytes MAX_USERNAME_LENGTH_def LOGIN_START_PACKET_ID_def)
  then obtain f where f: "encode_login_start steve_start (lc_max_frame_length offline_config) [] = (Inr (), f)"
    by (metis prod.collapse offline_config_def login_config.select_convs(3))
  have "utf8_valid (lst_username steve_start)" "\<not> lc_online_mode offline_config"
    by (simp_all add: steve_start_def packet_eval offline_config_def)
  from offline_login [OF this(1) f this(2), of "[1, 2]"] f show ?thesis
    by (auto simp: offline_config_def steve_start_def)
qed

end
