(* ===== verification/Status_Packets.thy ===== *)
theory Status_Packets
  imports Handshake
begin

section \<open>The Status state (\<open>status.rs\<close>)\<close>

text \<open>
  The server-list exchange: request, JSON response, ping and pong. \<open>serde_json\<close> is not part of the
  repository: \<open>to_json\<close> and \<open>from_json\<close> are parameters, and the round trip of a response assumes
  of them that reading back the JSON of this one response gives the response.
\<close>

definition STATUS_PACKET_ID :: i32 where "STATUS_PACKET_ID = 0x00"
definition PING_PACKET_ID :: i32 where "PING_PACKET_ID = 0x01"
definition MAX_STATUS_JSON_UTF16_UNITS :: nat where "MAX_STATUS_JSON_UTF16_UNITS = 32767"

datatype status_error =
    Codec codec_error
  | PayloadNotEmpty nat
  | WrongPacketId i32 i32
  | JsonTooLong
  | JsonSerialization rstring
  | Incomplete

definition status_error_from_codec :: "codec_error \<Rightarrow> status_error" where
  "status_error_from_codec e = (case e of IncompleteInput \<Rightarrow> Incomplete | other \<Rightarrow> Codec other)"

definition status_json_error :: "codec_error \<Rightarrow> status_error" where
  "status_json_error e = (case e of StringTooLong \<Rightarrow> JsonTooLong | other \<Rightarrow> status_error_from_codec other)"

record status_version =
  sv_name :: rstring
  sv_protocol :: i32

record player_sample_entry =
  ps_name :: rstring
  ps_id :: rstring

record status_players =
  sp_max :: i32
  sp_online :: i32
  sp_sample :: "player_sample_entry list option"

record status_description =
  sd_text :: rstring

record status_response =
  sr_version :: status_version
  sr_players :: status_players
  sr_description :: status_description
  sr_favicon :: "rstring option"

subsection \<open>Status request\<close>

definition validate_status_request_frame :: "packet_frame \<Rightarrow> status_error + unit" where
  "validate_status_request_frame frame =
    (if pf_packet_id frame \<noteq> STATUS_PACKET_ID
     then Inl (WrongPacketId (pf_packet_id frame) STATUS_PACKET_ID)
     else if pf_payload frame \<noteq> [] then Inl (PayloadNotEmpty (length (pf_payload frame)))
     else Inr ())"

definition decode_status_request :: "nat \<Rightarrow> (status_error, unit option) decoder" where
  "decode_status_request m = decode_packet (\<lambda>_. Incomplete) validate_status_request_frame Some None m"

subsection \<open>Status response\<close>

definition encode_status_response ::
  "(status_response \<Rightarrow> rstring + rstring) \<Rightarrow> status_response \<Rightarrow> nat \<Rightarrow> status_error encoder" where
  "encode_status_response to_json response m out =
    (case to_json response of
       Inl e \<Rightarrow> (Inl (JsonSerialization e), out)
     | Inr json \<Rightarrow> encode_packet (\<lambda>_. Incomplete) STATUS_PACKET_ID
         (st_map_err status_json_error (encode_string json MAX_STATUS_JSON_UTF16_UNITS)) m out)"

definition parse_status_response_body ::
  "(rstring \<Rightarrow> rstring + status_response) \<Rightarrow> packet_frame \<Rightarrow> status_error + status_response" where
  "parse_status_response_body from_json frame =
    (if pf_packet_id frame \<noteq> STATUS_PACKET_ID
     then Inl (WrongPacketId (pf_packet_id frame) STATUS_PACKET_ID)
     else case decode_string MAX_STATUS_JSON_UTF16_UNITS (pf_payload frame) of
        (Inl e, _) \<Rightarrow> Inl (status_json_error e)
      | (Inr json, _) \<Rightarrow>
        (case from_json json of Inl e \<Rightarrow> Inl (JsonSerialization e) | Inr r \<Rightarrow> Inr r))"

definition decode_status_response ::
  "(rstring \<Rightarrow> rstring + status_response) \<Rightarrow> nat \<Rightarrow> (status_error, status_response option) decoder" where
  "decode_status_response from_json m =
    decode_packet (\<lambda>_. Incomplete) (parse_status_response_body from_json) Some None m"

subsection \<open>Ping and pong\<close>

definition parse_ping_body :: "packet_frame \<Rightarrow> status_error + i64" where
  "parse_ping_body frame =
    (if pf_packet_id frame \<noteq> PING_PACKET_ID
     then Inl (WrongPacketId (pf_packet_id frame) PING_PACKET_ID)
     else decode_exact PayloadNotEmpty (st_map_err status_error_from_codec decode_i64) (pf_payload frame))"

definition decode_ping_request :: "nat \<Rightarrow> (status_error, i64 option) decoder" where
  "decode_ping_request m = decode_packet (\<lambda>_. Incomplete) parse_ping_body Some None m"

definition encode_pong_response :: "i64 \<Rightarrow> nat \<Rightarrow> status_error encoder" where
  "encode_pong_response payload m =
    encode_packet (\<lambda>_. Incomplete) PING_PACKET_ID (st_mod (encode_i64 payload)) m"

subsection \<open>State routing\<close>

datatype status_state_error = WrongState protocol_state protocol_state | ConnectionClosed

definition ensure_status_state :: "protocol_state \<Rightarrow> status_state_error + unit" where
  "ensure_status_state current =
    (case current of
       Status \<Rightarrow> Inr ()
     | Closed \<Rightarrow> Inl ConnectionClosed
     | other \<Rightarrow> Inl (WrongState other Status))"

subsection \<open>The packets as framed packets\<close>

text \<open>The pong's frame is also the frame of a ping, which the server's decoder reads.\<close>

interpretation ping: framed_packet encode_pong_response decode_ping_request Some "Inr None" "\<lambda>_. True"
proof (rule framed_packetI)
  show "encode_pong_response p m = encode_packet (\<lambda>_. Incomplete) PING_PACKET_ID (st_mod (encode_i64 p)) m" for p m
    by (rule encode_pong_response_def)
  show "decode_ping_request m = decode_packet (\<lambda>_. Incomplete) parse_ping_body Some None m" for m
    by (rule decode_ping_request_def)
  show "parse_ping_body \<lparr>pf_packet_id = PING_PACKET_ID, pf_payload = b\<rparr> = Inr p"
    if "run_body (st_mod (encode_i64 p)) = Inr b" for p b
  proof -
    have "decodes (st_map_err status_error_from_codec decode_i64) b p"
      by (rule field_run_body [OF _ that]) (rule field_intros)+
    then show ?thesis by (simp add: parse_ping_body_def decode_exact_decodes)
  qed
qed

text \<open>The responses whose JSON the parameters read back.\<close>

definition json_roundtrips ::
  "(status_response \<Rightarrow> rstring + rstring) \<Rightarrow> (rstring \<Rightarrow> rstring + status_response) \<Rightarrow> status_response \<Rightarrow> bool" where
  "json_roundtrips to_json from_json r \<longleftrightarrow>
    (case to_json r of Inl _ \<Rightarrow> True | Inr j \<Rightarrow> utf8_valid j \<and> from_json j = Inr r)"

interpretation status_response: framed_packet "encode_status_response to_json"
  "decode_status_response from_json" Some "Inr None" "json_roundtrips to_json from_json"
  for to_json from_json
proof (rule framed_packet_intro [where parse = "parse_status_response_body from_json"])
  let ?body = "\<lambda>p. case to_json p of Inl e \<Rightarrow> st_fail (JsonSerialization e)
    | Inr j \<Rightarrow> st_map_err status_json_error (encode_string j MAX_STATUS_JSON_UTF16_UNITS)"
  show "encode_status_response to_json p m = encode_packet (\<lambda>_. Incomplete) STATUS_PACKET_ID (?body p) m" for p m
    by (rule ext) (simp add: encode_status_response_def encode_packet_def run_body_def split: sum.splits)
  show "parse_status_response_body from_json \<lparr>pf_packet_id = STATUS_PACKET_ID, pf_payload = b\<rparr> = Inr p"
    if ok: "json_roundtrips to_json from_json p" and b: "run_body (?body p) = Inr b" for p b
  proof (cases "to_json p")
    case (Inl e)
    with b show ?thesis by (simp add: run_body_def)
  next
    case (Inr j)
    with ok have j: "utf8_valid j" "from_json j = Inr p" by (simp_all add: json_roundtrips_def)
    have "decodes (decode_string MAX_STATUS_JSON_UTF16_UNITS) b j"
      by (rule field_run_body [where m = "?body p", OF _ b]) (simp add: Inr field_map_err_enc field_string j)
    then show ?thesis by (simp add: parse_status_response_body_def decodesD_all j)
  qed
qed (simp_all add: decode_status_response_def decode_packet_Inl decode_packet_suffix,
    simp_all add: decode_packet_def)

text \<open>
  A ping is answered byte for byte: the pong for any payload that the frame limit admits is
  the one frame the ping decoder reads as that payload, at any place in the input, and a cut-off
  frame is waited for.
\<close>

theorem ping_wire:
  "case encode_pong_response v m out of
      (Inl e, out') \<Rightarrow> e = Incomplete \<and> out' = out \<and> effective_max_length m < 9
    | (Inr _, out') \<Rightarrow> \<exists>f. out' = out @ f \<and> length f = 10
        \<and> decode_ping_request m (f @ rest) = (Inr (Some v), rest)
        \<and> decode_ping_request m (take n f) = (if n < 10 then (Inr None, take n f) else (Inr (Some v), []))"
proof (cases "encode_pong_response v m out")
  case (Pair r out')
  let ?b = "to_be_bytes v"
  have body: "run_body (st_mod (encode_i64 v) :: status_error encoder) = Inr ?b"
    by (simp add: run_body_def encode_i64_def)
  have len: "length ?b = 8" by (simp add: to_be_bytes_def)
  have id_len: "var_int_length PING_PACKET_ID = 1" by (simp add: PING_PACKET_ID_def var_int_length_def)
  show ?thesis
  proof (cases r)
    case (Inl e)
    have "\<not> 9 \<le> effective_max_length m"
      using Pair Inl body len id_len
        encode_packet_Inr [of "\<lambda>_. Incomplete" PING_PACKET_ID "st_mod (encode_i64 v)" m out "()" "out @ frame_bytes PING_PACKET_ID ?b"]
      by (auto simp: encode_pong_response_def)
    moreover have "e = Incomplete"
      using Pair Inl body
      by (auto simp: encode_pong_response_def encode_packet_def st_map_err_def split: prod.splits sum.splits)
    ultimately show ?thesis using Pair Inl ping.enc_unchanged by auto
  next
    case (Inr u)
    with Pair have out': "out' = out @ frame_bytes PING_PACKET_ID ?b"
      using body by (auto simp: encode_pong_response_def encode_packet_Inr)
    have "length (frame_bytes PING_PACKET_ID ?b) = 10"
      by (simp add: frame_bytes_def len encode_var_int_def var_enc_loop.simps Let_def PING_PACKET_ID_def var_int_length_def)
    with ping.wire [where p = v and m = m and out = out and rest = rest and n = n] Pair Inr out'
    show ?thesis by auto
  qed
qed

text \<open>
  A status response whose JSON reads back (the assumption on \<open>serde_json\<close>) is sent as one frame
  that the client's decoder reads as the same response, and refused with the output untouched
  otherwise; a cut-off frame is waited for.
\<close>

theorem status_response_wire:
  assumes "json_roundtrips to_json from_json r"
  shows "case encode_status_response to_json r m out of
      (Inl e, out') \<Rightarrow> out' = out
    | (Inr _, out') \<Rightarrow> \<exists>f. out' = out @ f
        \<and> decode_status_response from_json m (f @ rest) = (Inr (Some r), rest)
        \<and> decode_status_response from_json m (take n f) =
          (if n < length f then (Inr None, take n f) else (Inr (Some r), []))"
  by (rule status_response.wire [OF assms])

definition sample_status :: status_response where
  "sample_status = \<lparr>sr_version = \<lparr>sv_name = ascii ''1.20.1'', sv_protocol = 763\<rparr>,
    sr_players = \<lparr>sp_max = 20, sp_online = 0, sp_sample = None\<rparr>,
    sr_description = \<lparr>sd_text = []\<rparr>, sr_favicon = None\<rparr>"

theorem status_response_wire_witness:
  "fst (encode_status_response (\<lambda>_. Inr (ascii ''{}'')) sample_status 64 []) = Inr () \<and>
   (case encode_status_response (\<lambda>_. Inr (ascii ''{}'')) sample_status 64 [] of
      (Inl e, out') \<Rightarrow> out' = []
    | (Inr _, out') \<Rightarrow> \<exists>f. out' = [] @ f
        \<and> decode_status_response (\<lambda>_. Inr sample_status) 64 (f @ [1]) = (Inr (Some sample_status), [1])
        \<and> decode_status_response (\<lambda>_. Inr sample_status) 64 (take 2 f) =
          (if 2 < length f then (Inr None, take 2 f) else (Inr (Some sample_status), [])))"
proof (rule conjI)
  show "fst (encode_status_response (\<lambda>_. Inr (ascii ''{}'')) sample_status 64 []) = Inr ()"
    by (simp add: packet_eval encode_status_response_def MAX_STATUS_JSON_UTF16_UNITS_def STATUS_PACKET_ID_def)
qed (rule status_response_wire, simp add: json_roundtrips_def packet_eval)

end
