(* ===== verification/Compression.thy ===== *)
theory Compression
  imports Packets
begin

section \<open>The compression layer (\<open>compression.rs\<close>)\<close>

text \<open>
  Once a threshold is set, a frame is a length, the size of the uncompressed body (or 0), and the
  body, deflated when its size is above the threshold. zlib is not part of the repository:
  \<open>deflate\<close> and \<open>inflate\<close>, with their I/O errors, are parameters; what the round trip assumes of
  them (\<open>zlib_reads_back\<close>) is that inflating what deflate wrote for this body gives the body.
\<close>

definition SET_COMPRESSION_PACKET_ID :: i32 where "SET_COMPRESSION_PACKET_ID = 0x03"
definition COMPRESSION_DISABLED :: i32 where "COMPRESSION_DISABLED = -1"
definition MAX_DECOMPRESSED_SIZE :: nat where "MAX_DECOMPRESSED_SIZE = PROTOCOL_MAX_FRAME_LENGTH"

datatype 'io compression_error =
    Framing framing_error
  | Codec codec_error
  | Zlib 'io
  | DecompressedTooLarge nat nat
  | DataLengthMismatch nat nat
  | WrongPacketId i32 i32
  | TrailingBytes nat
  | Incomplete

definition compression_error_from_framing :: "framing_error \<Rightarrow> 'io compression_error" where
  "compression_error_from_framing e =
    (case e of LengthCodec IncompleteInput \<Rightarrow> Incomplete | other \<Rightarrow> Framing other)"

definition compression_error_from_codec :: "codec_error \<Rightarrow> 'io compression_error" where
  "compression_error_from_codec e = (case e of IncompleteInput \<Rightarrow> Incomplete | other \<Rightarrow> Codec other)"

record decompressed_packet =
  dp_packet_id :: i32
  dp_payload :: bytes

datatype compressed_decode_outcome = CompressedComplete decompressed_packet | CompressedIncomplete

subsection \<open>Frames\<close>

text \<open>The body of a frame under compression, after the length prefix was taken off.\<close>

definition parse_compressed_body ::
  "(bytes \<Rightarrow> 'io + bytes) \<Rightarrow> bytes \<Rightarrow> 'io compression_error + decompressed_packet" where
  "parse_compressed_body inflate raw_body =
    (case decode_var_int raw_body of
       (Inl e, _) \<Rightarrow> Inl (compression_error_from_codec e)
     | (Inr v, body) \<Rightarrow>
       (case usize_of_i32 v of
          None \<Rightarrow> Inl (Codec VarIntTooLong)
        | Some data_length \<Rightarrow>
          if data_length = 0 then
            (case decode_var_int body of
               (Inl e, _) \<Rightarrow> Inl (compression_error_from_codec e)
             | (Inr pid, payload) \<Rightarrow> Inr \<lparr>dp_packet_id = pid, dp_payload = payload\<rparr>)
          else if data_length > MAX_DECOMPRESSED_SIZE then
            Inl (DecompressedTooLarge data_length MAX_DECOMPRESSED_SIZE)
          else (case inflate body of
             Inl e \<Rightarrow> Inl (Zlib e)
           | Inr decompressed \<Rightarrow>
             if length decompressed \<noteq> data_length
             then Inl (DataLengthMismatch data_length (length decompressed))
             else (case decode_var_int decompressed of
                (Inl e, _) \<Rightarrow> Inl (compression_error_from_codec e)
              | (Inr pid, payload) \<Rightarrow> Inr \<lparr>dp_packet_id = pid, dp_payload = payload\<rparr>))))"

definition decode_compressed_frame ::
  "(bytes \<Rightarrow> 'io + bytes) \<Rightarrow> i32 \<Rightarrow> nat \<Rightarrow> ('io compression_error, compressed_decode_outcome) decoder" where
  "decode_compressed_frame inflate threshold max_frame_length source =
    (if sint threshold < 0 then
       (case decode_frame max_frame_length source of
          (Inr (FrameComplete f), input) \<Rightarrow>
            (Inr (CompressedComplete \<lparr>dp_packet_id = pf_packet_id f, dp_payload = pf_payload f\<rparr>), input)
        | (Inr FrameIncomplete, _) \<Rightarrow> (Inr CompressedIncomplete, source)
        | (Inl e, _) \<Rightarrow> (Inl (compression_error_from_framing e), source))
     else
       (case decode_raw_frame max_frame_length source of
          (Inr RawIncomplete, _) \<Rightarrow> (Inr CompressedIncomplete, source)
        | (Inl e, _) \<Rightarrow> (Inl (compression_error_from_framing e), source)
        | (Inr (RawComplete raw_body), input) \<Rightarrow>
          (case parse_compressed_body inflate raw_body of
             Inl e \<Rightarrow> (Inl e, source)
           | Inr p \<Rightarrow> (Inr (CompressedComplete p), input))))"

definition compressed_body ::
  "(bytes \<Rightarrow> 'io + bytes) \<Rightarrow> i32 \<Rightarrow> bytes \<Rightarrow> 'io compression_error + bytes" where
  "compressed_body deflate threshold uncompressed_body =
    (if length uncompressed_body > (case usize_of_i32 threshold of Some n \<Rightarrow> n | None \<Rightarrow> 0) then
       (case deflate uncompressed_body of
          Inl e \<Rightarrow> Inl (Zlib e)
        | Inr compressed \<Rightarrow>
          Inr (encode_var_int (word_of_nat (length uncompressed_body)) [] @ compressed))
     else Inr (encode_var_int 0 [] @ uncompressed_body))"

definition encode_compressed_frame ::
  "(bytes \<Rightarrow> 'io + bytes) \<Rightarrow> i32 \<Rightarrow> bytes \<Rightarrow> i32 \<Rightarrow> nat \<Rightarrow> 'io compression_error encoder" where
  "encode_compressed_frame deflate pid payload threshold max_frame_length output =
    (let uncompressed_body = encode_var_int pid [] @ payload in
     if sint threshold < 0
     then st_map_err compression_error_from_framing (encode_frame pid payload max_frame_length) output
     else case compressed_body deflate threshold uncompressed_body of
        Inl e \<Rightarrow> (Inl e, output)
      | Inr body \<Rightarrow> st_map_err compression_error_from_framing (encode_raw_frame body max_frame_length) output)"

subsection \<open>The Set Compression packet\<close>

definition encode_set_compression :: "i32 \<Rightarrow> nat \<Rightarrow> 'io compression_error encoder" where
  "encode_set_compression threshold m =
    encode_packet compression_error_from_framing SET_COMPRESSION_PACKET_ID
      (st_mod (encode_var_int threshold)) m"

definition parse_set_compression :: "packet_frame \<Rightarrow> 'io compression_error + i32" where
  "parse_set_compression frame =
    (if pf_packet_id frame \<noteq> SET_COMPRESSION_PACKET_ID
     then Inl (WrongPacketId (pf_packet_id frame) SET_COMPRESSION_PACKET_ID)
     else decode_exact TrailingBytes (st_map_err compression_error_from_codec decode_var_int) (pf_payload frame))"

definition decode_set_compression :: "nat \<Rightarrow> ('io compression_error, i32 option) decoder" where
  "decode_set_compression m =
    decode_packet compression_error_from_framing parse_set_compression Some None m"

interpretation set_compression: framed_packet encode_set_compression decode_set_compression
  Some "Inr None" "\<lambda>_. True"
proof (rule framed_packetI)
  show "encode_set_compression p m = encode_packet compression_error_from_framing SET_COMPRESSION_PACKET_ID
      (st_mod (encode_var_int p)) m" for p m
    by (rule encode_set_compression_def)
  show "decode_set_compression m =
      decode_packet compression_error_from_framing parse_set_compression Some None m" for m
    by (rule decode_set_compression_def)
  show "parse_set_compression \<lparr>pf_packet_id = SET_COMPRESSION_PACKET_ID, pf_payload = b\<rparr> = Inr p"
    if "run_body (st_mod (encode_var_int p)) = Inr b" for p b
    by (simp add: parse_set_compression_def, rule decode_exact_decodes, rule field_run_body [OF _ that])
      (rule field_intros)+
qed

subsection \<open>Round trip of compressed frames\<close>

definition zlib_reads_back :: "(bytes \<Rightarrow> 'io + bytes) \<Rightarrow> (bytes \<Rightarrow> 'io + bytes) \<Rightarrow> bytes \<Rightarrow> bool" where
  "zlib_reads_back deflate inflate b \<longleftrightarrow> (case deflate b of Inl _ \<Rightarrow> True | Inr c \<Rightarrow> inflate c = Inr b)"

definition compressible :: "(bytes \<Rightarrow> 'io + bytes) \<Rightarrow> (bytes \<Rightarrow> 'io + bytes) \<Rightarrow> decompressed_packet \<Rightarrow> bool" where
  "compressible deflate inflate p \<longleftrightarrow>
    (let b = encode_var_int (dp_packet_id p) [] @ dp_payload p in
     length b \<le> MAX_DECOMPRESSED_SIZE \<and> zlib_reads_back deflate inflate b)"

lemma MAX_DECOMPRESSED_i32: "n \<le> MAX_DECOMPRESSED_SIZE \<Longrightarrow> usize_of_i32 (word_of_nat n) = Some n"
  by (simp add: MAX_DECOMPRESSED_SIZE_def PROTOCOL_MAX_FRAME_LENGTH_def i32_max_def)

lemma parse_compressed_body_ok:
  assumes "compressible deflate inflate p"
    and "compressed_body deflate threshold (encode_var_int (dp_packet_id p) [] @ dp_payload p) = Inr b"
  shows "parse_compressed_body inflate b = Inr p"
proof -
  let ?u = "encode_var_int (dp_packet_id p) [] @ dp_payload p"
  have le: "length ?u \<le> MAX_DECOMPRESSED_SIZE" and z: "zlib_reads_back deflate inflate ?u"
    using assms(1) by (simp_all add: compressible_def Let_def)
  have u: "decode_var_int ?u = (Inr (dp_packet_id p), dp_payload p)" by (simp add: var_int.roundtrip)
  from assms(2) consider (big) c where "deflate ?u = Inr c" "b = encode_var_int (word_of_nat (length ?u)) [] @ c"
    | (small) "b = encode_var_int 0 [] @ ?u"
    by (auto simp: compressed_body_def split: if_splits sum.splits)
  then show ?thesis
  proof cases
    case big
    have ne: "length ?u \<noteq> 0" by (simp add: encode_var_int_Nil)
    have dv: "decode_var_int b = (Inr (word_of_nat (length ?u)), c)" by (simp only: big(2) var_int.roundtrip)
    from z big(1) have "inflate c = Inr ?u" by (simp add: zlib_reads_back_def)
    then show ?thesis using le ne
      by (simp only: parse_compressed_body_def dv MAX_DECOMPRESSED_i32 [OF le] u prod.case sum.case
          option.case if_False not_less [symmetric] simp_thms) simp
  next
    case small
    then show ?thesis
      by (simp add: parse_compressed_body_def var_int.roundtrip usize_of_i32_def)
  qed
qed

lemma encode_compressed_frame_Inl:
  "encode_compressed_frame deflate pid payload t m out = (Inl e, out') \<Longrightarrow> out' = out"
  by (auto simp: encode_compressed_frame_def st_map_err_def Let_def
      split: if_splits sum.splits prod.splits dest: encode_frame_Inl encode_raw_frame_Inl)

lemma decode_raw_frame_suffix:
  assumes "decode_raw_frame m inp = (Inr (RawComplete b), rest)"
  shows "(\<exists>used. inp = used @ b @ rest) \<and> length b \<le> effective_max_length m"
proof -
  from assms obtain l n tl' where d: "decode_var_int inp = (Inr l, tl')" "n \<le> effective_max_length m"
    "b = take n tl'" "rest = drop n tl'"
    by (auto simp: decode_raw_frame_def Let_def not_less split: prod.splits sum.splits codec_error.splits option.splits if_splits)
  then show ?thesis using var_int.consumes_prefix [OF d(1)] by auto
qed

lemma decode_compressed_frame_Inl:
  "decode_compressed_frame inflate t m inp = (Inl e, rest) \<Longrightarrow> rest = inp"
  by (auto simp: decode_compressed_frame_def
      split: if_splits prod.splits sum.splits decode_outcome.splits raw_decode_outcome.splits)

lemma decode_compressed_frame_suffix:
  "decode_compressed_frame inflate t m inp = (Inr r, rest) \<Longrightarrow> \<exists>used. inp = used @ rest"
  by (auto simp: decode_compressed_frame_def
      split: if_splits prod.splits sum.splits decode_outcome.splits raw_decode_outcome.splits
      dest: frame.consumes_prefix decode_raw_frame_suffix)

interpretation compressed: framed_packet
  "\<lambda>p. encode_compressed_frame deflate (dp_packet_id p) (dp_payload p) t"
  "decode_compressed_frame inflate t" CompressedComplete "Inr CompressedIncomplete"
  "compressible deflate inflate" for deflate inflate t
proof
  fix p m out u out'
  assume ok: "compressible deflate inflate p"
    and enc: "encode_compressed_frame deflate (dp_packet_id p) (dp_payload p) t m out = (Inr u, out')"
  let ?dec = "decode_compressed_frame inflate t m"
  show "\<exists>f. f \<noteq> [] \<and> out' = out @ f \<and> (\<forall>rest. ?dec (f @ rest) = (Inr (CompressedComplete p), rest))
      \<and> (\<forall>a b. f = a @ b \<longrightarrow> b \<noteq> [] \<longrightarrow> ?dec a = (Inr CompressedIncomplete, a))"
  proof (cases "sint t < 0")
    case True
    with enc have le: "var_int_length (dp_packet_id p) + length (dp_payload p) \<le> effective_max_length m"
      and out': "out' = out @ frame_bytes (dp_packet_id p) (dp_payload p)"
      by (simp_all add: encode_compressed_frame_def encode_frame_Inr)
    show ?thesis
      by (rule exI [of _ "frame_bytes (dp_packet_id p) (dp_payload p)"])
        (simp add: out' True decode_compressed_frame_def decode_frame_bytes [OF le] decode_frame_truncated [OF le],
          simp add: frame_bytes_def encode_var_int_Nil)
  next
    case False
    with enc obtain b where b: "compressed_body deflate t (encode_var_int (dp_packet_id p) [] @ dp_payload p) = Inr b"
      and raw: "encode_raw_frame b m out = (Inr u, out')"
      by (auto simp: encode_compressed_frame_def Let_def split: sum.splits)
    from raw have le: "length b \<le> effective_max_length m"
      and out': "out' = out @ encode_var_int (word_of_nat (length b)) [] @ b"
      by (simp_all add: encode_raw_frame_Inr)
    show ?thesis
      by (rule exI [of _ "encode_var_int (word_of_nat (length b)) [] @ b"])
        (simp add: out' False decode_compressed_frame_def decode_raw_frame_bytes [OF le]
          decode_raw_frame_truncated [OF le] parse_compressed_body_ok [OF ok b], simp add: encode_var_int_Nil)
  qed
qed (erule encode_compressed_frame_Inl decode_compressed_frame_Inl decode_compressed_frame_suffix)+

lemma parse_compressed_body_too_large:
  assumes "n \<le> i32_max" "MAX_DECOMPRESSED_SIZE < n"
  shows "parse_compressed_body inflate (encode_var_int (word_of_nat n) [] @ c) =
    Inl (DecompressedTooLarge n MAX_DECOMPRESSED_SIZE)"
  using assms by (simp add: parse_compressed_body_def var_int.roundtrip)

text \<open>Whatever the encoder accepts is one frame, of which no part is enough.\<close>

lemma compressed_frame_added:
  assumes "encode_compressed_frame deflate pid payload t m out = (Inr u, out')"
  shows "\<exists>f. out' = out @ f \<and> (\<forall>a b. f = a @ b \<longrightarrow> b \<noteq> [] \<longrightarrow>
      decode_compressed_frame inflate t m a = (Inr CompressedIncomplete, a))
    \<and> (0 \<le> sint t \<longrightarrow> (\<exists>b. compressed_body deflate t (encode_var_int pid [] @ payload) = Inr b
        \<and> length b \<le> effective_max_length m
        \<and> (\<forall>rest. decode_compressed_frame inflate t m (f @ rest) =
            (case parse_compressed_body inflate b of Inl e \<Rightarrow> (Inl e, f @ rest) | Inr p \<Rightarrow> (Inr (CompressedComplete p), rest)))))"
proof (cases "sint t < 0")
  case True
  with assms have le: "var_int_length pid + length payload \<le> effective_max_length m" and out': "out' = out @ frame_bytes pid payload"
    by (simp_all add: encode_compressed_frame_def encode_frame_Inr)
  have "\<not> 0 \<le> sint t" using True by linarith
  then show ?thesis
    by (intro exI [of _ "frame_bytes pid payload"]) (simp add: out' True decode_compressed_frame_def decode_frame_truncated [OF le])
next
  case False
  with assms obtain b where b: "compressed_body deflate t (encode_var_int pid [] @ payload) = Inr b"
    and raw: "encode_raw_frame b m out = (Inr u, out')"
    by (auto simp: encode_compressed_frame_def Let_def split: sum.splits)
  from raw have le: "length b \<le> effective_max_length m" and out': "out' = out @ encode_var_int (word_of_nat (length b)) [] @ b"
    by (simp_all add: encode_raw_frame_Inr)
  have cut: "decode_compressed_frame inflate t m a = (Inr CompressedIncomplete, a)"
    if "encode_var_int (word_of_nat (length b)) [] @ b = a @ c" "c \<noteq> []" for a c
    using False decode_raw_frame_truncated [OF le that] by (simp add: decode_compressed_frame_def)
  have whole: "decode_compressed_frame inflate t m ((encode_var_int (word_of_nat (length b)) [] @ b) @ rest) =
      (case parse_compressed_body inflate b of Inl e \<Rightarrow> (Inl e, (encode_var_int (word_of_nat (length b)) [] @ b) @ rest)
       | Inr p \<Rightarrow> (Inr (CompressedComplete p), rest))" for rest
    using False decode_raw_frame_bytes [OF le, of rest] by (simp add: decode_compressed_frame_def split: sum.split)
  show ?thesis
    by (intro exI [of _ "encode_var_int (word_of_nat (length b)) [] @ b"] conjI allI impI exI [of _ b])
      (rule out', rule cut, assumption, assumption, rule b, rule le, rule whole)
qed

text \<open>
  C30: Compressed frames on the wire, at any threshold. A refusal by the encoder leaves the output untouched; what it
  accepts is one frame, and while only a part of that has arrived the decoder with the same threshold waits. Take
  a zlib that inflates what it deflated, and an id and payload of together at most 2^31 - 1 bytes. If
  they have at most 2^21 - 1 bytes, the decoder reads the frame as the packet, in front of anything. If they have more, the
  frame, which the encoder sends when it is small enough after compression, is refused by the decoder of the same module.
\<close>

theorem compressed_frame_wire:
  "case encode_compressed_frame deflate (dp_packet_id p) (dp_payload p) t m out of
      (Inl e, out') \<Rightarrow> out' = out
    | (Inr _, out') \<Rightarrow> \<exists>f. out' = out @ f
        \<and> (n < length f \<longrightarrow> decode_compressed_frame inflate t m (take n f) = (Inr CompressedIncomplete, take n f))
        \<and> (let u = encode_var_int (dp_packet_id p) [] @ dp_payload p in
            zlib_reads_back deflate inflate u \<and> length u \<le> i32_max \<longrightarrow> decode_compressed_frame inflate t m (f @ rest) =
            (if length u \<le> MAX_DECOMPRESSED_SIZE then (Inr (CompressedComplete p), rest)
             else (Inl (DecompressedTooLarge (length u) MAX_DECOMPRESSED_SIZE), f @ rest)))"
proof (cases "encode_compressed_frame deflate (dp_packet_id p) (dp_payload p) t m out")
  case (Pair r out')
  let ?u = "encode_var_int (dp_packet_id p) [] @ dp_payload p"
  show ?thesis
  proof (cases r)
    case (Inl e)
    with Pair show ?thesis by (simp add: encode_compressed_frame_Inl)
  next
    case (Inr v)
    note enc = Pair [unfolded Inr]
    from compressed_frame_added [OF enc, of inflate] obtain f where f: "out' = out @ f"
      and cut: "\<And>a b. f = a @ b \<Longrightarrow> b \<noteq> [] \<Longrightarrow> decode_compressed_frame inflate t m a = (Inr CompressedIncomplete, a)"
      and body: "0 \<le> sint t \<Longrightarrow> \<exists>b. compressed_body deflate t ?u = Inr b \<and> length b \<le> effective_max_length m
        \<and> (\<forall>rest. decode_compressed_frame inflate t m (f @ rest) =
            (case parse_compressed_body inflate b of Inl e \<Rightarrow> (Inl e, f @ rest) | Inr p \<Rightarrow> (Inr (CompressedComplete p), rest)))"
      by blast
    have "decode_compressed_frame inflate t m (f @ rest) = (Inr (CompressedComplete p), rest)"
      if "zlib_reads_back deflate inflate ?u" "length ?u \<le> MAX_DECOMPRESSED_SIZE"
    proof -
      have "compressible deflate inflate p" using that by (simp add: compressible_def)
      from compressed.enc_frame [OF this enc] f show ?thesis by auto
    qed
    moreover have "decode_compressed_frame inflate t m (f @ rest) =
        (Inl (DecompressedTooLarge (length ?u) MAX_DECOMPRESSED_SIZE), f @ rest)"
      if big: "length ?u \<le> i32_max" "\<not> length ?u \<le> MAX_DECOMPRESSED_SIZE"
    proof -
      have max: "effective_max_length m \<le> MAX_DECOMPRESSED_SIZE" by (simp add: MAX_DECOMPRESSED_SIZE_def effective_max_length_def)
      have "0 \<le> sint t"
      proof (rule ccontr)
        assume "\<not> 0 \<le> sint t"
        with enc have "var_int_length (dp_packet_id p) + length (dp_payload p) \<le> effective_max_length m"
          by (auto simp: encode_compressed_frame_def encode_frame_Inr)
        with max big(2) show False by (simp add: var_int_length_correct)
      qed
      from body [OF this] obtain b where b: "compressed_body deflate t ?u = Inr b" "length b \<le> effective_max_length m"
        and whole: "decode_compressed_frame inflate t m (f @ rest) =
            (case parse_compressed_body inflate b of Inl e \<Rightarrow> (Inl e, f @ rest) | Inr p \<Rightarrow> (Inr (CompressedComplete p), rest))" by blast
      have "b \<noteq> encode_var_int 0 [] @ ?u" using b(2) max big(2) by auto
      with b(1) obtain c where "b = encode_var_int (word_of_nat (length ?u)) [] @ c"
        by (auto simp: compressed_body_def split: if_splits sum.splits)
      with parse_compressed_body_too_large [OF big(1), of inflate c] big(2) show ?thesis by (simp add: whole not_le)
    qed
    moreover have "decode_compressed_frame inflate t m (take n f) = (Inr CompressedIncomplete, take n f)" if "n < length f"
      using cut [of "take n f" "drop n f"] that by simp
    ultimately show ?thesis unfolding Pair Inr prod.case sum.case Let_def by (intro exI [of _ f]) (simp add: f)
  qed
qed

text \<open>Deflate replaced by reversing the bytes: a body of three bytes above the threshold 1.\<close>

theorem compressed_frame_wire_witness:
  "encode_compressed_frame (\<lambda>b. Inr (rev b) :: unit + bytes) 5 [1, 2] 1 64 [] = (Inr (), [4, 3, 2, 1, 5])
   \<and> decode_compressed_frame (\<lambda>b. Inr (rev b) :: unit + bytes) 1 64 [4, 3, 2, 1, 5, 9] =
      (Inr (CompressedComplete \<lparr>dp_packet_id = 5, dp_payload = [1, 2]\<rparr>), [9])
   \<and> decode_compressed_frame (\<lambda>b. Inr (rev b) :: unit + bytes) 1 64 [4, 3] = (Inr CompressedIncomplete, [4, 3])"
proof (rule conjI)
  show enc: "encode_compressed_frame (\<lambda>b. Inr (rev b) :: unit + bytes) 5 [1, 2] 1 64 [] = (Inr (), [4, 3, 2, 1, 5])"
    by (simp add: encode_compressed_frame_def compressed_body_def packet_eval usize_of_i32_def encode_raw_frame_def)
  have u: "encode_var_int 5 [] @ [1, 2] = [5, 1, 2]" by (simp add: packet_eval)
  have "zlib_reads_back (\<lambda>b. Inr (rev b) :: unit + bytes) (\<lambda>b. Inr (rev b)) [5, 1, 2]"
    by (simp add: zlib_reads_back_def)
  then show "decode_compressed_frame (\<lambda>b. Inr (rev b) :: unit + bytes) 1 64 [4, 3, 2, 1, 5, 9] =
      (Inr (CompressedComplete \<lparr>dp_packet_id = 5, dp_payload = [1, 2]\<rparr>), [9])
   \<and> decode_compressed_frame (\<lambda>b. Inr (rev b) :: unit + bytes) 1 64 [4, 3] = (Inr CompressedIncomplete, [4, 3])"
    using compressed_frame_wire [where deflate = "\<lambda>b. Inr (rev b) :: unit + bytes" and inflate = "\<lambda>b. Inr (rev b) :: unit + bytes"
        and p = "\<lparr>dp_packet_id = 5, dp_payload = [1, 2]\<rparr>" and t = 1 and m = 64 and out = "[]" and rest = "[9]" and n = 2] enc
    by (simp add: u i32_max_def MAX_DECOMPRESSED_SIZE_def PROTOCOL_MAX_FRAME_LENGTH_def)
qed

lemma decode_var_int_shorter: "decode_var_int b = (Inr v, rest) \<Longrightarrow> length rest < length b"
  by (cases b) (auto simp: decode_var_int_spec split: if_splits)

lemma parse_compressed_body_bound:
  assumes "parse_compressed_body inflate b = Inr p" "length b \<le> MAX_DECOMPRESSED_SIZE"
  shows "length (dp_payload p) < MAX_DECOMPRESSED_SIZE"
  using assms by (auto simp: parse_compressed_body_def not_less
      split: prod.splits sum.splits option.splits if_splits dest!: decode_var_int_shorter)

text \<open>
  However large the stream inflates, the decoder never delivers more than 2^21 - 1 bytes (id
  and payload), and an input it accepts had a frame within the configured limit.
\<close>

theorem decompressed_bounded:
  "case decode_compressed_frame inflate t m inp of
     (Inr (CompressedComplete p), rest) \<Rightarrow> length (dp_payload p) < MAX_DECOMPRESSED_SIZE \<and> length rest < length inp
   | (Inr CompressedIncomplete, rest) \<Rightarrow> rest = inp
   | (Inl _, rest) \<Rightarrow> rest = inp"
proof (cases "decode_compressed_frame inflate t m inp")
  case (Pair r rest)
  consider (err) e where "r = Inl e" | (inc) "r = Inr CompressedIncomplete" | (ok) p where "r = Inr (CompressedComplete p)"
    by (metis compressed_decode_outcome.exhaust sum.exhaust)
  then show ?thesis
  proof cases
    case err
    with Pair show ?thesis by (auto dest: decode_compressed_frame_Inl)
  next
    case inc
    with Pair show ?thesis
      by (auto simp: decode_compressed_frame_def
          split: if_splits prod.splits sum.splits decode_outcome.splits raw_decode_outcome.splits)
  next
    case ok
    show ?thesis
    proof (cases "sint t < 0")
      case True
      with Pair ok obtain f where f: "decode_frame m inp = (Inr (FrameComplete f), rest)"
        and p: "dp_payload p = pf_payload f"
        by (auto simp: decode_compressed_frame_def split: prod.splits sum.splits decode_outcome.splits)
      show ?thesis using decode_frame_complete [OF f] effective_max_le(1) [of m] Pair ok p
        by (auto simp: MAX_DECOMPRESSED_SIZE_def PROTOCOL_MAX_FRAME_LENGTH_def dest!: decode_var_int_shorter)
    next
      case False
      with Pair ok obtain b where b: "decode_raw_frame m inp = (Inr (RawComplete b), rest)"
        and p: "parse_compressed_body inflate b = Inr p"
        by (auto simp: decode_compressed_frame_def split: prod.splits sum.splits raw_decode_outcome.splits)
      have "b \<noteq> []" using p by (auto simp: parse_compressed_body_def split: prod.splits sum.splits dest: decode_var_int_shorter)
      moreover have "length b \<le> MAX_DECOMPRESSED_SIZE"
        using decode_raw_frame_suffix [OF b] effective_max_le(1) [of m]
        by (simp add: MAX_DECOMPRESSED_SIZE_def PROTOCOL_MAX_FRAME_LENGTH_def)
      ultimately show ?thesis using parse_compressed_body_bound [OF p] decode_raw_frame_suffix [OF b] Pair ok by auto
    qed
  qed
qed

text \<open>
  The encoder puts no bound on the uncompressed size: a body larger than 2^21 - 1 bytes that
  deflates to a small one is framed and sent, and the decoder of this same module refuses it.
\<close>

theorem oversized_body_sent_but_refused:
  assumes "encode_compressed_frame deflate pid payload t m out = (Inr u, out')"
    and "0 \<le> sint t" "usize_of_i32 t = Some n" "n < length (encode_var_int pid [] @ payload)"
    and "MAX_DECOMPRESSED_SIZE < length (encode_var_int pid [] @ payload)"
    and "length (encode_var_int pid [] @ payload) \<le> i32_max"
  shows "\<exists>f. out' = out @ f \<and> decode_compressed_frame inflate t m (f @ rest) =
    (Inl (DecompressedTooLarge (length (encode_var_int pid [] @ payload)) MAX_DECOMPRESSED_SIZE), f @ rest)"
proof -
  let ?u = "encode_var_int pid [] @ payload"
  from assms(2) have t: "\<not> sint t < 0" by simp
  from assms(1,3,4) t obtain c where
    raw: "encode_raw_frame (encode_var_int (word_of_nat (length ?u)) [] @ c) m out = (Inr u, out')"
    by (auto simp: encode_compressed_frame_def compressed_body_def Let_def split: sum.splits if_splits)
  let ?b = "encode_var_int (word_of_nat (length ?u)) [] @ c"
  have le: "length ?b \<le> effective_max_length m"
    and out': "out' = out @ encode_var_int (word_of_nat (length ?b)) [] @ ?b"
    using raw by (simp_all only: encode_raw_frame_Inr)
  have "parse_compressed_body inflate ?b = Inl (DecompressedTooLarge (length ?u) MAX_DECOMPRESSED_SIZE)"
    by (rule parse_compressed_body_too_large [OF assms(6,5)])
  then have "decode_compressed_frame inflate t m ((encode_var_int (word_of_nat (length ?b)) [] @ ?b) @ rest) =
    (Inl (DecompressedTooLarge (length ?u) MAX_DECOMPRESSED_SIZE), (encode_var_int (word_of_nat (length ?b)) [] @ ?b) @ rest)"
    using t decode_raw_frame_bytes [OF le, of rest] by (simp add: decode_compressed_frame_def)
  with out' show ?thesis by blast
qed

text \<open>Two megabytes of zeros with a deflate that makes them one byte.\<close>

theorem oversized_body_sent_but_refused_witness:
  "\<exists>f out'. encode_compressed_frame (\<lambda>_. Inr [0] :: unit + bytes) 0 (replicate 2097152 0) 0 64 [] = (Inr (), out')
    \<and> out' = [] @ f \<and> decode_compressed_frame (\<lambda>_. Inr []) 0 64 (f @ [1]) =
    (Inl (DecompressedTooLarge (length (encode_var_int 0 [] @ replicate 2097152 0)) MAX_DECOMPRESSED_SIZE)
      :: unit compression_error + _, f @ [1])"
proof -
  let ?e = "encode_compressed_frame (\<lambda>_. Inr [0] :: unit + bytes) 0 (replicate 2097152 0) 0 64 []"
  have len: "length (encode_var_int 0 [] @ replicate 2097152 (0 :: u8)) = 2097153"
    by (simp add: encode_var_int_def var_enc_loop.simps)
  have "fst ?e = Inr ()"
    by (simp add: encode_compressed_frame_def compressed_body_def encode_raw_frame_def packet_eval usize_of_i32_def)
  then obtain out' where e: "?e = (Inr (), out')" by (metis prod.collapse)
  from oversized_body_sent_but_refused [OF e, where n = 0 and inflate = "\<lambda>_. Inr []" and rest = "[1]"]
  show ?thesis using e
    by (simp only: len) (simp add: usize_of_i32_def MAX_DECOMPRESSED_SIZE_def PROTOCOL_MAX_FRAME_LENGTH_def i32_max_def)
qed

end
