(* ===== verification/Nbt.thy ===== *)
theory Nbt
  imports Packets
begin

section \<open>Skipping NBT values (\<open>play.rs\<close>, item and registry data)\<close>

text \<open>
  Item stacks, heightmaps and the registry codec carry NBT, which has no length prefix; the source
  walks the bytes with an index to find where the value ends. Two things in that walk are modelled
  as they are. The index is a \<open>usize\<close> and an array's length is a signed number cast to \<open>usize\<close>, so
  in a release build, where overflow wraps, a negative length moves the index backwards
  (a debug build panics there). And so the walk may not end: the functions take fuel and return
  \<open>None\<close> when it runs out. \<open>nbt_fuel_mono\<close> shows that a result does not depend on the fuel that
  gave it, \<open>nbt_value\<close> is the grammar of the values the walk passes over exactly, with fuel linear
  in their length, and \<open>nbt_children_diverges\<close> is an input on which no fuel is enough.
\<close>

datatype nbt_error = NbtCodec codec_error | NbtRunning

type_synonym nbt_walk = "(codec_error + nat) option"

definition nbt_bind :: "nbt_walk \<Rightarrow> (nat \<Rightarrow> nbt_walk) \<Rightarrow> nbt_walk" where
  "nbt_bind r f = (case r of None \<Rightarrow> None | Some (Inl e) \<Rightarrow> Some (Inl e) | Some (Inr pos) \<Rightarrow> f pos)"

text \<open>\<open>i32::from_be_bytes\<close> at an index, and the \<open>usize\<close> sum with its wrap-around.\<close>

definition be_i32_at :: "bytes \<Rightarrow> nat \<Rightarrow> i32" where
  "be_i32_at data pos = from_be_bytes (take 4 (drop pos data))"

definition usize_wrap :: "int \<Rightarrow> nat" where
  "usize_wrap i = nat (i mod 2 ^ 64)"

definition skip_nbt_name :: "bytes \<Rightarrow> nat \<Rightarrow> codec_error + nat" where
  "skip_nbt_name data pos =
    (if pos + 2 > length data then Inl IncompleteInput
     else let name_len = unat (from_be_bytes (take 2 (drop pos data)) :: u16); pos' = pos + 2 + name_len in
       if pos' > length data then Inl IncompleteInput else Inr pos')"

definition nbt_primitive_size :: "u8 \<Rightarrow> nat option" where
  "nbt_primitive_size tag =
    (if tag = 1 then Some 1 else if tag = 2 then Some 2 else if tag = 3 then Some 4 else if tag = 4 then Some 8
     else if tag = 5 then Some 4 else if tag = 6 then Some 8 else if tag = 7 then Some 4 else None)"

definition skip_nbt_primitive :: "u8 \<Rightarrow> bytes \<Rightarrow> nat \<Rightarrow> codec_error + nat" where
  "skip_nbt_primitive tag data pos =
    (if tag = 8 then
       (if pos + 2 > length data then Inl IncompleteInput
        else let len = unat (from_be_bytes (take 2 (drop pos data)) :: u16); pos' = pos + (2 + len) in
          if pos' > length data then Inl IncompleteInput else Inr pos')
     else case nbt_primitive_size tag of
        None \<Rightarrow> Inl InvalidBoolean
      | Some width \<Rightarrow> if pos + width > length data then Inl IncompleteInput else Inr (pos + width))"

text \<open>
  The arrays: a length and \<open>width\<close> bytes for each element. A slice is shorter than 2^63 bytes, so a
  length that is not negative cannot overflow the sum; a negative one, cast to \<open>usize\<close>, always does.
\<close>

definition skip_nbt_array :: "nat \<Rightarrow> bytes \<Rightarrow> nat \<Rightarrow> codec_error + nat" where
  "skip_nbt_array width data pos =
    (if pos + 4 > length data then Inl IncompleteInput
     else let len = sint (be_i32_at data pos);
           pos' = if 0 \<le> len then pos + 4 + nat len * width
             else usize_wrap (int (pos + 4) + len * int width) in
       if pos' > length data then Inl IncompleteInput else Inr pos')"

text \<open>
  The value of a given type, as \<open>parse_nbt_payload_inner\<close> and \<open>parse_nbt_list_element\<close> both spell
  it out, over the loop that reads the elements of a list and the loop that reads a compound.
\<close>

definition nbt_value_walk ::
  "(nat \<Rightarrow> u8 \<Rightarrow> nat \<Rightarrow> nbt_walk) \<Rightarrow> (nat \<Rightarrow> nbt_walk) \<Rightarrow> u8 \<Rightarrow> bytes \<Rightarrow> nat \<Rightarrow> nbt_walk" where
  "nbt_value_walk elements children tag data pos =
    (if tag = 0 then Some (Inr pos)
     else if tag \<le> 8 then Some (skip_nbt_primitive tag data pos)
     else if tag = 9 then
       (if pos + 5 > length data then Some (Inl IncompleteInput)
        else elements (nat (sint (be_i32_at data (pos + 1)))) (data ! pos) (pos + 5))
     else if tag = 10 then children pos
     else if tag = 11 then Some (skip_nbt_array 4 data pos)
     else if tag = 12 then Some (skip_nbt_array 8 data pos)
     else if tag = 13 then Some (skip_nbt_array 1 data pos)
     else Some (Inl InvalidBoolean))"

text \<open>One round of the loop over a compound's children.\<close>

definition nbt_child_step ::
  "(u8 \<Rightarrow> nat \<Rightarrow> nbt_walk) \<Rightarrow> (nat \<Rightarrow> nbt_walk) \<Rightarrow> bytes \<Rightarrow> nat \<Rightarrow> nbt_walk" where
  "nbt_child_step child again data pos =
    (if pos \<ge> length data then Some (Inl IncompleteInput)
     else if data ! pos = 0 then Some (Inr (pos + 1))
     else case skip_nbt_name data (pos + 1) of
        Inl e \<Rightarrow> Some (Inl e)
      | Inr pos' \<Rightarrow> nbt_bind (child (data ! pos) pos') again)"

fun parse_nbt_payload_inner :: "nat \<Rightarrow> bytes \<Rightarrow> u8 \<Rightarrow> nat \<Rightarrow> nbt_walk"
  and parse_nbt_list_element :: "nat \<Rightarrow> bytes \<Rightarrow> u8 \<Rightarrow> nat \<Rightarrow> nbt_walk"
  and parse_nbt_children :: "nat \<Rightarrow> bytes \<Rightarrow> nat \<Rightarrow> nbt_walk"
  and parse_nbt_elements :: "nat \<Rightarrow> bytes \<Rightarrow> nat \<Rightarrow> u8 \<Rightarrow> nat \<Rightarrow> nbt_walk" where
  "parse_nbt_payload_inner 0 data tag pos = None"
| "parse_nbt_payload_inner (Suc n) data tag pos =
    nbt_value_walk (parse_nbt_elements n data) (parse_nbt_children n data) tag data pos"
| "parse_nbt_list_element 0 data tag pos = None"
| "parse_nbt_list_element (Suc n) data tag pos =
    nbt_value_walk (parse_nbt_elements n data) (parse_nbt_children n data) tag data pos"
| "parse_nbt_children 0 data pos = None"
| "parse_nbt_children (Suc n) data pos =
    nbt_child_step (parse_nbt_payload_inner n data) (parse_nbt_children n data) data pos"
| "parse_nbt_elements 0 data count tag pos = None"
| "parse_nbt_elements (Suc n) data count tag pos =
    (case count of
       0 \<Rightarrow> Some (Inr pos)
     | Suc k \<Rightarrow> nbt_bind (parse_nbt_list_element n data tag pos) (parse_nbt_elements n data k tag))"

text \<open>The named root value; the source only calls it on a compound.\<close>

definition parse_nbt_payload :: "nat \<Rightarrow> bytes \<Rightarrow> nat \<Rightarrow> nbt_walk" where
  "parse_nbt_payload fuel data start =
    (if start \<ge> length data then Some (Inl IncompleteInput)
     else let tag = data ! start; pos = start + 1 in
       if tag = 0 then Some (Inr pos)
       else if tag > 13 then Some (Inl InvalidBoolean)
       else case skip_nbt_name data pos of
          Inl e \<Rightarrow> Some (Inl e)
        | Inr pos' \<Rightarrow> nbt_value_walk (parse_nbt_elements fuel data) (parse_nbt_children fuel data) tag data pos')"

definition read_nbt_compound :: "nat \<Rightarrow> (nbt_error, bytes) decoder" where
  "read_nbt_compound fuel input =
    (case input of
       [] \<Rightarrow> (Inl (NbtCodec IncompleteInput), input)
     | tag # _ \<Rightarrow>
       if tag \<noteq> 0x0A then (Inl (NbtCodec InvalidBoolean), input)
       else case parse_nbt_payload fuel input 0 of
          None \<Rightarrow> (Inl NbtRunning, input)
        | Some (Inl e) \<Rightarrow> (Inl (NbtCodec e), input)
        | Some (Inr pos) \<Rightarrow> (Inr (take pos input), drop pos input))"

subsection \<open>More fuel does not change a result\<close>

lemma nbt_bind_Some: "nbt_bind r f = Some x \<longleftrightarrow>
    (\<exists>e. r = Some (Inl e) \<and> x = Inl e) \<or> (\<exists>p. r = Some (Inr p) \<and> f p = Some x)"
  by (auto simp: nbt_bind_def split: option.splits sum.splits)

lemma nbt_value_walk_mono:
  assumes "nbt_value_walk f g tag data pos = Some r"
    and "\<And>c t p r. f c t p = Some r \<Longrightarrow> f' c t p = Some r" "\<And>p r. g p = Some r \<Longrightarrow> g' p = Some r"
  shows "nbt_value_walk f' g' tag data pos = Some r"
  using assms by (auto simp: nbt_value_walk_def split: if_splits)

lemma nbt_child_step_mono:
  assumes "nbt_child_step f g data pos = Some r"
    and "\<And>t p r. f t p = Some r \<Longrightarrow> f' t p = Some r" "\<And>p r. g p = Some r \<Longrightarrow> g' p = Some r"
  shows "nbt_child_step f' g' data pos = Some r"
  using assms by (auto simp: nbt_child_step_def nbt_bind_Some split: if_splits sum.splits)

lemma nbt_fuel_mono:
  "parse_nbt_payload_inner n data tag pos = Some r \<Longrightarrow> n \<le> m \<Longrightarrow> parse_nbt_payload_inner m data tag pos = Some r"
  "parse_nbt_list_element n data tag pos = Some r \<Longrightarrow> n \<le> m \<Longrightarrow> parse_nbt_list_element m data tag pos = Some r"
  "parse_nbt_children n data pos = Some r \<Longrightarrow> n \<le> m \<Longrightarrow> parse_nbt_children m data pos = Some r"
  "parse_nbt_elements n data count tag pos = Some r \<Longrightarrow> n \<le> m \<Longrightarrow> parse_nbt_elements m data count tag pos = Some r"
proof (induction n arbitrary: m tag pos count r)
  case 0
  {
    case 1 then show ?case by simp
  next
    case 2 then show ?case by simp
  next
    case 3 then show ?case by simp
  next
    case 4 then show ?case by simp
  }
next
  case (Suc n)
  {
    case 1
    then obtain m' where m: "m = Suc m'" "n \<le> m'" by (cases m) auto
    show ?case unfolding m(1) parse_nbt_payload_inner.simps
      by (rule nbt_value_walk_mono [OF 1(1) [unfolded parse_nbt_payload_inner.simps] Suc.IH(4) [OF _ m(2)] Suc.IH(3) [OF _ m(2)]])
  next
    case 2
    then obtain m' where m: "m = Suc m'" "n \<le> m'" by (cases m) auto
    show ?case unfolding m(1) parse_nbt_list_element.simps
      by (rule nbt_value_walk_mono [OF 2(1) [unfolded parse_nbt_list_element.simps] Suc.IH(4) [OF _ m(2)] Suc.IH(3) [OF _ m(2)]])
  next
    case 3
    then obtain m' where m: "m = Suc m'" "n \<le> m'" by (cases m) auto
    show ?case unfolding m(1) parse_nbt_children.simps
      by (rule nbt_child_step_mono [OF 3(1) [unfolded parse_nbt_children.simps] Suc.IH(1) [OF _ m(2)] Suc.IH(3) [OF _ m(2)]])
  next
    case 4
    then obtain m' where m: "m = Suc m'" "n \<le> m'" by (cases m) auto
    show ?case
    proof (cases count)
      case 0
      with 4 m show ?thesis by simp
    next
      case (Suc k)
      from 4(1) Suc consider (err) e where "parse_nbt_list_element n data tag pos = Some (Inl e)" "r = Inl e"
        | (ok) p where "parse_nbt_list_element n data tag pos = Some (Inr p)" "parse_nbt_elements n data k tag p = Some r"
        by (auto simp: nbt_bind_Some)
      then show ?thesis
      proof cases
        case err
        from Suc.IH(2) [OF err(1) m(2)] err(2) Suc m show ?thesis by (simp add: nbt_bind_def)
      next
        case ok
        from Suc.IH(2) [OF ok(1) m(2)] Suc.IH(4) [OF ok(2) m(2)] Suc m show ?thesis by (simp add: nbt_bind_def)
      qed
    qed
  }
qed

subsection \<open>The values the walk passes over exactly\<close>

text \<open>
  The grammar of a payload by tag: primitives of fixed size, strings with a 16-bit length, lists,
  compounds, and the arrays 11 to 13 with a length that is not negative. Byte arrays (tag 7) are
  left out: of them the source skips the length and not the bytes.
\<close>

inductive nbt_value :: "u8 \<Rightarrow> bytes \<Rightarrow> bool"
  and nbt_entries :: "bytes \<Rightarrow> bool"
  and nbt_items :: "u8 \<Rightarrow> nat \<Rightarrow> bytes \<Rightarrow> bool" where
  nbt_prim: "nbt_primitive_size tag = Some (length b) \<Longrightarrow> tag \<noteq> 7 \<Longrightarrow> nbt_value tag b"
| nbt_string: "length s < 2 ^ 16 \<Longrightarrow> nbt_value 8 (to_be_bytes (word_of_nat (length s) :: u16) @ s)"
| nbt_list: "nbt_items tag k b \<Longrightarrow> k \<le> i32_max \<Longrightarrow> nbt_value 9 (tag # to_be_bytes (word_of_nat k :: i32) @ b)"
| nbt_compound: "nbt_entries b \<Longrightarrow> nbt_value 10 b"
| nbt_array: "(tag, width) \<in> {(11, 4), (12, 8), (13, 1)} \<Longrightarrow> length b = k * width \<Longrightarrow> k \<le> i32_max \<Longrightarrow>
    nbt_value tag (to_be_bytes (word_of_nat k :: i32) @ b)"
| nbt_end: "nbt_entries [0]"
| nbt_entry: "nbt_value tag b \<Longrightarrow> length name < 2 ^ 16 \<Longrightarrow> nbt_entries c \<Longrightarrow>
    nbt_entries (tag # to_be_bytes (word_of_nat (length name) :: u16) @ name @ b @ c)"
| nbt_no_items: "nbt_items tag 0 []"
| nbt_item: "nbt_value tag b \<Longrightarrow> nbt_items tag k c \<Longrightarrow> nbt_items tag (Suc k) (b @ c)"

definition nbt_root :: "bytes \<Rightarrow> bool" where
  "nbt_root bs \<longleftrightarrow> (\<exists>name b. bs = 10 # to_be_bytes (word_of_nat (length name) :: u16) @ name @ b
    \<and> length name < 2 ^ 16 \<and> nbt_entries b)"

lemma length_be_16 [simp]: "length (to_be_bytes (w :: u16)) = 2"
  by (simp add: to_be_bytes_def)

lemma length_be_32 [simp]: "length (to_be_bytes (w :: i32)) = 4"
  by (simp add: to_be_bytes_def)

lemma be_not_Nil [simp]: "to_be_bytes (w :: u16) \<noteq> []" "to_be_bytes (v :: i32) \<noteq> []"
  using length_be_16 [of w] length_be_32 [of v] by (metis list.size(3) zero_neq_numeral)+

lemma nbt_value_tag: "nbt_value tag b \<Longrightarrow> tag \<noteq> 0 \<and> tag \<le> 13"
  by (erule nbt_value.cases) (auto simp: nbt_primitive_size_def word_le_nat_alt split: if_splits)

lemma nbt_value_not_Nil: "nbt_value tag b \<Longrightarrow> b \<noteq> []"
  and nbt_entries_not_Nil: "nbt_entries c \<Longrightarrow> c \<noteq> []"
  and "nbt_items tag k d \<Longrightarrow> True"
  by (induction rule: nbt_value_nbt_entries_nbt_items.inducts)
    (auto simp: nbt_primitive_size_def split: if_splits)

lemma take_2_be: "take 2 (to_be_bytes (w :: u16) @ xs) = to_be_bytes w"
  by simp

lemma take_4_be: "take 4 (to_be_bytes (w :: i32) @ xs) = to_be_bytes w"
  by simp

lemma unat_u16: "n < 2 ^ 16 \<Longrightarrow> unat (word_of_nat n :: u16) = n"
  by (simp add: unsigned_of_nat take_bit_nat_eq_self)

lemma skip_nbt_name_ok:
  assumes "data = pre @ to_be_bytes (word_of_nat (length name) :: u16) @ name @ post" "length name < 2 ^ 16"
  shows "skip_nbt_name data (length pre) = Inr (length pre + 2 + length name)"
  using assms by (simp add: skip_nbt_name_def Let_def take_2_be from_be_to_be unat_u16)

lemma skip_nbt_array_ok:
  assumes "data = pre @ to_be_bytes (word_of_nat k :: i32) @ b @ post" "length b = k * width" "k \<le> i32_max"
  shows "skip_nbt_array width data (length pre) = Inr (length pre + 4 + length b)"
proof -
  have "sint (be_i32_at data (length pre)) = int k"
    using assms(1,3) by (simp add: be_i32_at_def take_4_be from_be_to_be sint_i32_of_nat)
  then show ?thesis using assms(1,2)
    by (simp add: skip_nbt_array_def Let_def)
qed

lemma nbt_inner_is_element: "parse_nbt_payload_inner n data tag pos = parse_nbt_list_element n data tag pos"
  by (cases n) simp_all

definition walk_passes :: "(nat \<Rightarrow> bytes \<Rightarrow> nat \<Rightarrow> nbt_walk) \<Rightarrow> nat \<Rightarrow> bytes \<Rightarrow> bool" where
  "walk_passes walk fuel b \<longleftrightarrow> (\<forall>n pre post. fuel \<le> n \<longrightarrow>
    walk n (pre @ b @ post) (length pre) = Some (Inr (length pre + length b)))"

lemma walk_passesD:
  "walk_passes walk fuel b \<Longrightarrow> fuel \<le> n \<Longrightarrow> data = pre @ b @ post \<Longrightarrow>
    walk n data (length pre) = Some (Inr (length pre + length b))"
  by (simp add: walk_passes_def)

lemma nbt_primitive_tag: "nbt_primitive_size tag = Some n \<Longrightarrow> tag \<noteq> 0 \<and> tag \<le> 8 \<and> tag \<noteq> 8"
  by (auto simp: nbt_primitive_size_def word_le_nat_alt split: if_splits)

lemma nbt_exact:
  "nbt_value tag b \<Longrightarrow> walk_passes (\<lambda>n data pos. parse_nbt_payload_inner n data tag pos) (length b + 2) b"
  "nbt_entries c \<Longrightarrow> walk_passes parse_nbt_children (length c + 1) c"
  "nbt_items tag k d \<Longrightarrow> walk_passes (\<lambda>n data pos. parse_nbt_elements n data k tag pos) (length d + 3) d"
proof (induction rule: nbt_value_nbt_entries_nbt_items.inducts)
  case (nbt_prim tag b)
  from nbt_primitive_tag [OF nbt_prim(1)] nbt_prim show ?case
    by (auto simp: walk_passes_def nbt_value_walk_def skip_nbt_primitive_def gr0_conv_Suc Suc_le_eq dest!: less_imp_Suc_add)
next
  case (nbt_string s)
  then show ?case
    by (auto simp: walk_passes_def nbt_value_walk_def skip_nbt_primitive_def Suc_le_eq Let_def unat_u16 from_be_to_be
        dest!: less_imp_Suc_add)
next
  case (nbt_list tag k b)
  show ?case
    unfolding walk_passes_def
  proof (intro allI impI)
    fix n pre post
    let ?v = "tag # to_be_bytes (word_of_nat k :: i32) @ b"
    let ?data = "pre @ ?v @ post"
    assume n: "length ?v + 2 \<le> n"
    then obtain n' where n': "n = Suc n'" "length b + 3 \<le> n'" by (cases n) auto
    have "parse_nbt_elements n' ?data k tag (length (pre @ tag # to_be_bytes (word_of_nat k :: i32)))
        = Some (Inr (length (pre @ tag # to_be_bytes (word_of_nat k :: i32)) + length b))"
      by (rule walk_passesD [OF nbt_list.IH n'(2)]) simp
    moreover have "sint (be_i32_at ?data (length pre + 1)) = int k"
      using nbt_list.hyps(2) by (simp add: be_i32_at_def from_be_to_be sint_i32_of_nat)
    ultimately show "parse_nbt_payload_inner n ?data 9 (length pre) = Some (Inr (length pre + length ?v))"
      by (simp add: n' nbt_value_walk_def word_le_nat_alt)
  qed
next
  case (nbt_compound b)
  show ?case
    unfolding walk_passes_def
  proof (intro allI impI)
    fix n pre post
    assume n: "length b + 2 \<le> n"
    then obtain n' where n': "n = Suc n'" "length b + 1 \<le> n'" by (cases n) auto
    show "parse_nbt_payload_inner n (pre @ b @ post) 10 (length pre) = Some (Inr (length pre + length b))"
      using walk_passesD [OF nbt_compound.IH n'(2) refl] by (simp add: n' nbt_value_walk_def word_le_nat_alt)
  qed
next
  case (nbt_array tag width b k)
  show ?case
    unfolding walk_passes_def
  proof (intro allI impI)
    fix n pre post
    let ?v = "to_be_bytes (word_of_nat k :: i32) @ b"
    assume n: "length ?v + 2 \<le> n"
    then obtain n' where n': "n = Suc n'" by (cases n) auto
    have "skip_nbt_array width (pre @ ?v @ post) (length pre) = Inr (length pre + 4 + length b)"
      by (rule skip_nbt_array_ok [OF _ nbt_array.hyps(2,3)]) simp
    then show "parse_nbt_payload_inner n (pre @ ?v @ post) tag (length pre) = Some (Inr (length pre + length ?v))"
      using nbt_array.hyps(1) by (auto simp: n' nbt_value_walk_def word_le_nat_alt)
  qed
next
  case nbt_end
  show ?case by (auto simp: walk_passes_def nbt_child_step_def Suc_le_eq dest!: less_imp_Suc_add)
next
  case (nbt_entry tag b name c)
  show ?case
    unfolding walk_passes_def
  proof (intro allI impI)
    fix n pre post
    let ?h = "tag # to_be_bytes (word_of_nat (length name) :: u16) @ name"
    let ?v = "tag # to_be_bytes (word_of_nat (length name) :: u16) @ name @ b @ c"
    let ?data = "pre @ ?v @ post"
    assume n: "length ?v + 1 \<le> n"
    have b0: "0 < length b" using nbt_value_not_Nil [OF nbt_entry.hyps(1)] by simp
    from n b0 obtain n' where n': "n = Suc n'" "length b + 2 \<le> n'" "length c + 1 \<le> n'" by (cases n) auto
    have tag: "tag \<noteq> 0" using nbt_value_tag [OF nbt_entry.hyps(1)] by simp
    have nm: "skip_nbt_name ?data (length (pre @ [tag])) = Inr (length (pre @ [tag]) + 2 + length name)"
      by (rule skip_nbt_name_ok [OF _ nbt_entry.hyps(2), where post = "b @ c @ post"]) simp
    have inner: "parse_nbt_payload_inner n' ?data tag (length (pre @ ?h)) = Some (Inr (length (pre @ ?h) + length b))"
      by (rule walk_passesD [OF nbt_entry.IH(1) n'(2) _, where post = "c @ post"]) simp
    have rest: "parse_nbt_children n' ?data (length (pre @ ?h @ b)) = Some (Inr (length (pre @ ?h @ b) + length c))"
      by (rule walk_passesD [OF nbt_entry.IH(2) n'(3)]) simp
    show "parse_nbt_children n ?data (length pre) = Some (Inr (length pre + length ?v))"
      using tag nm inner rest by (simp add: n' nbt_child_step_def nbt_bind_def add.assoc add.commute add.left_commute)
  qed
next
  case (nbt_no_items tag)
  show ?case
  proof (unfold walk_passes_def, intro allI impI)
    fix n pre post assume "length [] + 3 \<le> n"
    then obtain n' where "n = Suc n'" by (cases n) auto
    then show "parse_nbt_elements n (pre @ [] @ post) 0 tag (length pre) = Some (Inr (length pre + length []))" by simp
  qed
next
  case (nbt_item tag b k c)
  show ?case
    unfolding walk_passes_def
  proof (intro allI impI)
    fix n pre post
    let ?data = "pre @ (b @ c) @ post"
    assume n: "length (b @ c) + 3 \<le> n"
    obtain m where b0: "length b = Suc m" using nbt_value_not_Nil [OF nbt_item.hyps(1)] by (cases b) auto
    from n b0 obtain n' where n': "n = Suc n'" "length b + 2 \<le> n'" "length c + 3 \<le> n'" by (cases n) auto
    have "parse_nbt_list_element n' ?data tag (length pre) = Some (Inr (length pre + length b))"
      unfolding nbt_inner_is_element [symmetric]
      by (rule walk_passesD [OF nbt_item.IH(1) n'(2) _, where post = "c @ post"]) simp
    moreover have "parse_nbt_elements n' ?data k tag (length (pre @ b)) = Some (Inr (length (pre @ b) + length c))"
      by (rule walk_passesD [OF nbt_item.IH(2) n'(3)]) simp
    ultimately show "parse_nbt_elements n ?data (Suc k) tag (length pre) = Some (Inr (length pre + length (b @ c)))"
      by (simp add: n' nbt_bind_def)
  qed
qed

lemma read_nbt_root:
  assumes "nbt_root bs" "length bs \<le> fuel"
  shows "read_nbt_compound fuel (bs @ rest) = (Inr bs, rest)"
proof -
  from assms(1) obtain name b where bs: "bs = 10 # to_be_bytes (word_of_nat (length name) :: u16) @ name @ b"
    and name: "length name < 2 ^ 16" and b: "nbt_entries b" by (auto simp: nbt_root_def)
  let ?h = "10 # to_be_bytes (word_of_nat (length name) :: u16) @ name"
  have nm: "skip_nbt_name (bs @ rest) (length [10 :: u8]) = Inr (length [10 :: u8] + 2 + length name)"
    by (rule skip_nbt_name_ok [OF _ name, where post = "b @ rest"]) (simp add: bs)
  have "parse_nbt_children fuel (bs @ rest) (length ?h) = Some (Inr (length ?h + length b))"
    by (rule walk_passesD [OF nbt_exact(2) [OF b], where post = rest]) (use assms(2) in \<open>simp_all add: bs\<close>)
  with nm have "parse_nbt_payload fuel (bs @ rest) 0 = Some (Inr (length bs))"
    by (simp add: parse_nbt_payload_def nbt_value_walk_def Let_def bs word_le_nat_alt word_less_nat_alt)
  then show ?thesis by (simp add: read_nbt_compound_def bs)
qed

subsection \<open>An input that is never passed\<close>

text \<open>
  A child of type 13 with an empty name and the length -7: its seven bytes are walked over, and the
  length takes the index back to where the child begins.
\<close>

definition endless_child :: bytes where
  "endless_child = [13, 0, 0, 0xFF, 0xFF, 0xFF, 0xF9]"

lemma endless_length: "sint (from_be_bytes [0xFF, 0xFF, 0xFF, 0xF9] :: i32) = -7"
  by (simp add: from_be_bytes_def)

lemma skip_endless:
  assumes "data = pre @ endless_child @ post" "length data < 2 ^ 64"
  shows "skip_nbt_name data (length pre + 1) = Inr (length pre + 3)"
    and "skip_nbt_array 1 data (length pre + 3) = Inr (length pre)"
proof -
  show "skip_nbt_name data (length pre + 1) = Inr (length pre + 3)"
    using assms(1) by (simp add: skip_nbt_name_def endless_child_def from_be_bytes_def)
  have "be_i32_at data (length pre + 3) = from_be_bytes [0xFF, 0xFF, 0xFF, 0xF9]"
    using assms(1) by (simp add: be_i32_at_def endless_child_def)
  then show "skip_nbt_array 1 data (length pre + 3) = Inr (length pre)"
    using assms by (simp add: skip_nbt_array_def endless_length usize_wrap_def endless_child_def)
qed

lemma nbt_children_diverges:
  assumes "data = pre @ endless_child @ post" "length data < 2 ^ 64"
  shows "parse_nbt_children n data (length pre) = None"
proof (induction n)
  case (Suc n)
  have at: "data ! length pre = 13" "length pre < length data"
    using assms(1) by (simp_all add: endless_child_def)
  show ?case
  proof (cases n)
    case (Suc k)
    have "parse_nbt_payload_inner n data 13 (length pre + 3) = Some (Inr (length pre))"
      using skip_endless(2) [OF assms] by (simp add: Suc nbt_value_walk_def word_le_nat_alt)
    with Suc.IH at skip_endless(1) [OF assms] show ?thesis
      by (simp add: nbt_child_step_def nbt_bind_def)
  qed (use at skip_endless(1) [OF assms] in \<open>simp add: nbt_child_step_def nbt_bind_def\<close>)
qed simp

definition endless_compound :: bytes where
  "endless_compound = [10, 0, 0] @ endless_child"

lemma read_nbt_endless:
  assumes "length rest < 2 ^ 63"
  shows "read_nbt_compound fuel (endless_compound @ rest) = (Inl NbtRunning, endless_compound @ rest)"
proof -
  let ?d = "endless_compound @ rest"
  have "parse_nbt_children fuel ?d (length [10 :: u8, 0, 0]) = None"
    by (rule nbt_children_diverges [where post = rest]) (use assms in \<open>simp_all add: endless_compound_def endless_child_def\<close>)
  moreover have "skip_nbt_name ?d 1 = Inr 3"
    by (simp add: skip_nbt_name_def endless_compound_def endless_child_def from_be_bytes_def)
  ultimately have "parse_nbt_payload fuel ?d 0 = None"
    by (simp add: parse_nbt_payload_def nbt_value_walk_def Let_def endless_compound_def word_le_nat_alt word_less_nat_alt numeral_3_eq_3)
  then show ?thesis by (simp add: read_nbt_compound_def endless_compound_def)
qed

lemma field_nbt:
  "nbt_root bs \<Longrightarrow> length bs \<le> fuel \<Longrightarrow> field_ok (st_mod (\<lambda>b. b @ bs)) (read_nbt_compound fuel) bs"
  by (simp add: field_ok_def decodes_def read_nbt_root)

end
