(* ===== verification/Play_Types.thy ===== *)
theory Play_Types
  imports Compression Handshake Nbt
begin

section \<open>The Play state's packets: data (\<open>play.rs\<close>)\<close>

text \<open>
  Packet ids and limits, the errors, the enums with their wire values, item slots, and the records
  of the packets. \<open>StillRunning\<close> is an outcome of the model only: the fuel given to the NBT walk of
  \<open>Nbt\<close> ran out. Coordinates are \<open>f64\<close> and \<open>f32\<close> bit patterns here, as the codecs move them.
\<close>

subsection \<open>Packet ids and limits\<close>

definition JOIN_GAME_PACKET_ID :: i32 where "JOIN_GAME_PACKET_ID = 0x28"
definition KEEP_ALIVE_CLIENTBOUND_PACKET_ID :: i32 where "KEEP_ALIVE_CLIENTBOUND_PACKET_ID = 0x23"
definition KEEP_ALIVE_SERVERBOUND_PACKET_ID :: i32 where "KEEP_ALIVE_SERVERBOUND_PACKET_ID = 0x12"
definition SET_PLAYER_POSITION_PACKET_ID :: i32 where "SET_PLAYER_POSITION_PACKET_ID = 0x14"
definition SET_PLAYER_POSITION_AND_ROTATION_PACKET_ID :: i32 where "SET_PLAYER_POSITION_AND_ROTATION_PACKET_ID = 0x15"
definition SET_PLAYER_ROTATION_PACKET_ID :: i32 where "SET_PLAYER_ROTATION_PACKET_ID = 0x16"
definition SYNCHRONIZE_PLAYER_POSITION_PACKET_ID :: i32 where "SYNCHRONIZE_PLAYER_POSITION_PACKET_ID = 0x3c"
definition DISCONNECT_PLAY_PACKET_ID :: i32 where "DISCONNECT_PLAY_PACKET_ID = 0x1a"
definition CHUNK_DATA_PACKET_ID :: i32 where "CHUNK_DATA_PACKET_ID = 0x24"
definition CONFIRM_TELEPORTATION_PACKET_ID :: i32 where "CONFIRM_TELEPORTATION_PACKET_ID = 0x00"
definition CLIENT_INFORMATION_PACKET_ID :: i32 where "CLIENT_INFORMATION_PACKET_ID = 0x08"
definition PLUGIN_MESSAGE_CLIENTBOUND_PACKET_ID :: i32 where "PLUGIN_MESSAGE_CLIENTBOUND_PACKET_ID = 0x17"
definition CHANGE_DIFFICULTY_PACKET_ID :: i32 where "CHANGE_DIFFICULTY_PACKET_ID = 0x0C"
definition PLAYER_ABILITIES_PACKET_ID :: i32 where "PLAYER_ABILITIES_PACKET_ID = 0x34"
definition SET_HELD_ITEM_PACKET_ID :: i32 where "SET_HELD_ITEM_PACKET_ID = 0x4D"
definition ENTITY_EVENT_PACKET_ID :: i32 where "ENTITY_EVENT_PACKET_ID = 0x1C"
definition DECLARE_COMMANDS_PACKET_ID :: i32 where "DECLARE_COMMANDS_PACKET_ID = 0x10"
definition PLAYER_INFO_UPDATE_PACKET_ID :: i32 where "PLAYER_INFO_UPDATE_PACKET_ID = 0x3A"
definition PLAYER_INFO_REMOVE_PACKET_ID :: i32 where "PLAYER_INFO_REMOVE_PACKET_ID = 0x39"
definition SPAWN_PLAYER_PACKET_ID :: i32 where "SPAWN_PLAYER_PACKET_ID = 0x03"
definition SPAWN_ENTITY_PACKET_ID :: i32 where "SPAWN_ENTITY_PACKET_ID = 0x01"
definition INTERACT_ENTITY_PACKET_ID :: i32 where "INTERACT_ENTITY_PACKET_ID = 0x10"
definition REMOVE_ENTITIES_PACKET_ID :: i32 where "REMOVE_ENTITIES_PACKET_ID = 0x3E"
definition SET_DEFAULT_SPAWN_POSITION_PACKET_ID :: i32 where "SET_DEFAULT_SPAWN_POSITION_PACKET_ID = 0x50"
definition GAME_EVENT_PACKET_ID :: i32 where "GAME_EVENT_PACKET_ID = 0x1F"
definition SET_CENTER_CHUNK_PACKET_ID :: i32 where "SET_CENTER_CHUNK_PACKET_ID = 0x4E"
definition UNLOAD_CHUNK_PACKET_ID :: i32 where "UNLOAD_CHUNK_PACKET_ID = 0x1E"
definition COMBAT_DEATH_PACKET_ID :: i32 where "COMBAT_DEATH_PACKET_ID = 0x38"
definition SET_BLOCK_DESTROY_STAGE_PACKET_ID :: i32 where "SET_BLOCK_DESTROY_STAGE_PACKET_ID = 0x07"
definition SET_RENDER_DISTANCE_PACKET_ID :: i32 where "SET_RENDER_DISTANCE_PACKET_ID = 0x4F"
definition SET_SIMULATION_DISTANCE_PACKET_ID :: i32 where "SET_SIMULATION_DISTANCE_PACKET_ID = 0x5C"
definition UPDATE_TAGS_PACKET_ID :: i32 where "UPDATE_TAGS_PACKET_ID = 0x6E"
definition UPDATE_RECIPES_PACKET_ID :: i32 where "UPDATE_RECIPES_PACKET_ID = 0x6D"
definition PLAYER_DIGGING_PACKET_ID :: i32 where "PLAYER_DIGGING_PACKET_ID = 0x1D"
definition USE_ITEM_ON_PACKET_ID :: i32 where "USE_ITEM_ON_PACKET_ID = 0x31"
definition BLOCK_UPDATE_PACKET_ID :: i32 where "BLOCK_UPDATE_PACKET_ID = 0x0A"
definition ACKNOWLEDGE_BLOCK_CHANGE_PACKET_ID :: i32 where "ACKNOWLEDGE_BLOCK_CHANGE_PACKET_ID = 0x06"
definition MOVE_ENTITY_POS_PACKET_ID :: i32 where "MOVE_ENTITY_POS_PACKET_ID = 0x2B"
definition MOVE_ENTITY_POS_ROT_PACKET_ID :: i32 where "MOVE_ENTITY_POS_ROT_PACKET_ID = 0x2C"
definition MOVE_ENTITY_ROT_PACKET_ID :: i32 where "MOVE_ENTITY_ROT_PACKET_ID = 0x2D"
definition ENTITY_TELEPORT_PACKET_ID :: i32 where "ENTITY_TELEPORT_PACKET_ID = 0x68"
definition SET_CONTAINER_CONTENT_PACKET_ID :: i32 where "SET_CONTAINER_CONTENT_PACKET_ID = 0x12"
definition SET_CONTAINER_SLOT_PACKET_ID :: i32 where "SET_CONTAINER_SLOT_PACKET_ID = 0x14"
definition OPEN_SCREEN_PACKET_ID :: i32 where "OPEN_SCREEN_PACKET_ID = 0x30"
definition CLOSE_CONTAINER_CLIENTBOUND_PACKET_ID :: i32 where "CLOSE_CONTAINER_CLIENTBOUND_PACKET_ID = 0x11"
definition CLICK_CONTAINER_PACKET_ID :: i32 where "CLICK_CONTAINER_PACKET_ID = 0x0B"
definition CLOSE_CONTAINER_SERVERBOUND_PACKET_ID :: i32 where "CLOSE_CONTAINER_SERVERBOUND_PACKET_ID = 0x0C"
definition SET_HELD_ITEM_SERVERBOUND_PACKET_ID :: i32 where "SET_HELD_ITEM_SERVERBOUND_PACKET_ID = 0x28"
definition SET_CREATIVE_MODE_SLOT_PACKET_ID :: i32 where "SET_CREATIVE_MODE_SLOT_PACKET_ID = 0x2B"
definition SET_HEALTH_PACKET_ID :: i32 where "SET_HEALTH_PACKET_ID = 0x57"
definition RESPAWN_PACKET_ID :: i32 where "RESPAWN_PACKET_ID = 0x41"
definition CLIENT_STATUS_PACKET_ID :: i32 where "CLIENT_STATUS_PACKET_ID = 0x07"
definition MAX_CONTAINER_SLOTS :: nat where "MAX_CONTAINER_SLOTS = 256"
definition MAX_ITEM_NBT_SIZE :: nat where "MAX_ITEM_NBT_SIZE = 65536"
definition CHAT_MESSAGE_SERVERBOUND_PACKET_ID :: i32 where "CHAT_MESSAGE_SERVERBOUND_PACKET_ID = 0x05"
definition SYSTEM_CHAT_MESSAGE_PACKET_ID :: i32 where "SYSTEM_CHAT_MESSAGE_PACKET_ID = 0x64"
definition MAX_CHUNK_DATA_SIZE :: nat where "MAX_CHUNK_DATA_SIZE = 1048576"
definition MAX_BLOCK_ENTITIES :: nat where "MAX_BLOCK_ENTITIES = 1024"
definition MAX_DIMENSION_NAMES :: nat where "MAX_DIMENSION_NAMES = 256"
definition MAX_IDENTIFIER_LENGTH :: nat where "MAX_IDENTIFIER_LENGTH = 32767"
definition MAX_REGISTRY_CODEC_SIZE :: nat where "MAX_REGISTRY_CODEC_SIZE = 1048576"

subsection \<open>Errors\<close>

type_synonym io_error = rstring

datatype play_error =
    Framing framing_error
  | Codec codec_error
  | Compression "io_error compression_error"
  | WrongPacketId i32 i32
  | TrailingBytes nat
  | WrongState protocol_state
  | Incomplete
  | StillRunning

definition play_error_from_framing :: "framing_error \<Rightarrow> play_error" where
  "play_error_from_framing e =
    (case e of
       LengthCodec IncompleteInput \<Rightarrow> Incomplete
     | PacketIdCodec IncompleteInput \<Rightarrow> Incomplete
     | other \<Rightarrow> Framing other)"

definition play_error_from_codec :: "codec_error \<Rightarrow> play_error" where
  "play_error_from_codec e = (case e of IncompleteInput \<Rightarrow> Incomplete | other \<Rightarrow> Codec other)"

definition play_error_from_compression :: "io_error compression_error \<Rightarrow> play_error" where
  "play_error_from_compression e =
    (case e of compression_error.Incomplete \<Rightarrow> Incomplete | other \<Rightarrow> Compression other)"

definition play_error_from_nbt :: "nbt_error \<Rightarrow> play_error" where
  "play_error_from_nbt e = (case e of NbtCodec c \<Rightarrow> play_error_from_codec c | NbtRunning \<Rightarrow> StillRunning)"

abbreviation play_codec :: "(codec_error, 'a, 's) st \<Rightarrow> (play_error, 'a, 's) st" where
  "play_codec \<equiv> st_map_err play_error_from_codec"

abbreviation play_nbt :: "(nbt_error, 'a, 's) st \<Rightarrow> (play_error, 'a, 's) st" where
  "play_nbt \<equiv> st_map_err play_error_from_nbt"

definition ensure_play_state :: "protocol_state \<Rightarrow> play_error + unit" where
  "ensure_play_state state = (if state = Play then Inr () else Inl (WrongState state))"

subsection \<open>Enums\<close>

datatype game_mode = Survival | Creative | Adventure | Spectator

definition game_mode_to_wire :: "game_mode \<Rightarrow> u8" where
  "game_mode_to_wire g = (case g of Survival \<Rightarrow> 0 | Creative \<Rightarrow> 1 | Adventure \<Rightarrow> 2 | Spectator \<Rightarrow> 3)"

definition game_mode_from_wire :: "u8 \<Rightarrow> game_mode option" where
  "game_mode_from_wire v =
    (if v = 0 then Some Survival else if v = 1 then Some Creative else if v = 2 then Some Adventure
     else if v = 3 then Some Spectator else None)"

datatype chat_mode = ChatFull | ChatSystem | ChatHidden

definition chat_mode_to_wire :: "chat_mode \<Rightarrow> i32" where
  "chat_mode_to_wire c = (case c of ChatFull \<Rightarrow> 0 | ChatSystem \<Rightarrow> 1 | ChatHidden \<Rightarrow> 2)"

definition chat_mode_from_wire :: "i32 \<Rightarrow> chat_mode option" where
  "chat_mode_from_wire v =
    (if v = 0 then Some ChatFull else if v = 1 then Some ChatSystem else if v = 2 then Some ChatHidden else None)"

datatype main_hand = LeftHand | RightHand

definition main_hand_to_wire :: "main_hand \<Rightarrow> i32" where
  "main_hand_to_wire h = (case h of LeftHand \<Rightarrow> 0 | RightHand \<Rightarrow> 1)"

definition main_hand_from_wire :: "i32 \<Rightarrow> main_hand option" where
  "main_hand_from_wire v = (if v = 0 then Some LeftHand else if v = 1 then Some RightHand else None)"

datatype player_digging_action =
    StartDestroy | AbortDestroy | StopDestroy | DropAllItems | DropItem | ShootArrowOrFinishEating | SwapItemInHand

definition player_digging_action_to_wire :: "player_digging_action \<Rightarrow> i32" where
  "player_digging_action_to_wire a =
    (case a of StartDestroy \<Rightarrow> 0 | AbortDestroy \<Rightarrow> 1 | StopDestroy \<Rightarrow> 2 | DropAllItems \<Rightarrow> 3 | DropItem \<Rightarrow> 4
     | ShootArrowOrFinishEating \<Rightarrow> 5 | SwapItemInHand \<Rightarrow> 6)"

definition player_digging_action_from_wire :: "i32 \<Rightarrow> player_digging_action option" where
  "player_digging_action_from_wire v =
    (if v = 0 then Some StartDestroy else if v = 1 then Some AbortDestroy else if v = 2 then Some StopDestroy
     else if v = 3 then Some DropAllItems else if v = 4 then Some DropItem
     else if v = 5 then Some ShootArrowOrFinishEating else if v = 6 then Some SwapItemInHand else None)"

lemma enum_wire [simp]:
  "game_mode_from_wire (game_mode_to_wire g) = Some g"
  "chat_mode_from_wire (chat_mode_to_wire c) = Some c"
  "main_hand_from_wire (main_hand_to_wire h) = Some h"
  "player_digging_action_from_wire (player_digging_action_to_wire a) = Some a"
  subgoal by (cases g) (simp_all add: game_mode_from_wire_def game_mode_to_wire_def)
  subgoal by (cases c) (simp_all add: chat_mode_from_wire_def chat_mode_to_wire_def)
  subgoal by (cases h) (simp_all add: main_hand_from_wire_def main_hand_to_wire_def)
  subgoal by (cases a) (simp_all add: player_digging_action_from_wire_def player_digging_action_to_wire_def)
  done

text \<open>A wire value with \<open>from_wire\<close> after it; an unknown value is reported as \<open>InvalidBoolean\<close>.\<close>

definition play_enum :: "(codec_error, 'w) decoder \<Rightarrow> ('w \<Rightarrow> 'a option) \<Rightarrow> (play_error, 'a) decoder" where
  "play_enum d from_wire = st_bind (play_codec d) (\<lambda>raw.
    case from_wire raw of None \<Rightarrow> st_fail (Codec InvalidBoolean) | Some v \<Rightarrow> st_ret v)"

lemma field_enum:
  assumes "field_ok m d w" "from_wire w = Some v"
  shows "field_ok m (play_enum d from_wire) v"
  unfolding play_enum_def by (rule field_bind_last [OF field_map_err [OF assms(1)]]) (simp add: assms(2))

lemma field_enums [field_intros]:
  "field_ok (st_mod (encode_u8 (game_mode_to_wire g))) (play_enum decode_u8 game_mode_from_wire) g"
  "field_ok (st_mod (encode_var_int (chat_mode_to_wire c))) (play_enum decode_var_int chat_mode_from_wire) c"
  "field_ok (st_mod (encode_var_int (main_hand_to_wire h))) (play_enum decode_var_int main_hand_from_wire) h"
  "field_ok (st_mod (encode_var_int (player_digging_action_to_wire a)))
    (play_enum decode_var_int player_digging_action_from_wire) a"
  by (rule field_enum, rule field_intros, rule enum_wire)+

definition encode_position3 :: "i32 \<times> i32 \<times> i32 \<Rightarrow> bytes \<Rightarrow> bytes" where
  "encode_position3 p = (case p of (x, y, z) \<Rightarrow> encode_position x y z)"

lemma field_position [field_intros]:
  "in_position_range p \<Longrightarrow> field_ok (st_mod (encode_position3 p)) decode_position p"
  using field_codec [OF position.codec_axioms, of p] by (simp add: encode_position3_def)

subsection \<open>Item slots\<close>

record slot =
  slot_present :: bool
  slot_item_id :: i32
  slot_count :: i8
  slot_nbt :: bytes

definition slot_empty :: slot where
  "slot_empty = \<lparr>slot_present = False, slot_item_id = 0, slot_count = 0, slot_nbt = []\<rparr>"

definition slot_item :: "i32 \<Rightarrow> i8 \<Rightarrow> slot" where
  "slot_item i c = \<lparr>slot_present = True, slot_item_id = i, slot_count = c, slot_nbt = []\<rparr>"

definition slot_with_nbt :: "i32 \<Rightarrow> i8 \<Rightarrow> bytes \<Rightarrow> slot" where
  "slot_with_nbt i c nbt = \<lparr>slot_present = True, slot_item_id = i, slot_count = c, slot_nbt = nbt\<rparr>"

definition encode_slot :: "slot \<Rightarrow> bytes \<Rightarrow> bytes" where
  "encode_slot s output =
    (let output1 = encode_bool (slot_present s) output in
     if slot_present s then
       (let output2 = encode_i8 (slot_count s) (encode_var_int (slot_item_id s) output1) in
        if slot_nbt s = [] then output2 @ [0x00] else output2 @ slot_nbt s)
     else output1)"

text \<open>The NBT of a slot: a zero byte for none, else a compound.\<close>

definition decode_slot_nbt :: "nat \<Rightarrow> (nbt_error, bytes) decoder" where
  "decode_slot_nbt fuel input =
    (case input of
       [] \<Rightarrow> (Inl (NbtCodec IncompleteInput), input)
     | first_byte # rest \<Rightarrow>
       if first_byte = 0x00 then (Inr [], rest) else read_nbt_compound fuel input)"

definition decode_slot :: "nat \<Rightarrow> (nbt_error, slot) decoder" where
  "decode_slot fuel =
    st_bind (st_map_err NbtCodec decode_bool) (\<lambda>present.
    if \<not> present then st_ret slot_empty
    else st_bind (st_map_err NbtCodec decode_var_int) (\<lambda>item_id.
      st_bind (st_map_err NbtCodec decode_i8) (\<lambda>count.
      st_bind (decode_slot_nbt fuel) (\<lambda>nbt.
      st_ret \<lparr>slot_present = True, slot_item_id = item_id, slot_count = count, slot_nbt = nbt\<rparr>))))"

text \<open>The slots the codec carries: the empty slot, and items without NBT or with a compound.\<close>

definition slot_ok :: "nat \<Rightarrow> slot \<Rightarrow> bool" where
  "slot_ok fuel s \<longleftrightarrow> (if slot_present s
     then slot_nbt s = [] \<or> nbt_root (slot_nbt s) \<and> length (slot_nbt s) \<le> fuel else s = slot_empty)"

lemma slot_ok_simps [simp]: "slot_ok fuel slot_empty" "slot_ok fuel (slot_item i c)"
  by (simp_all add: slot_ok_def slot_empty_def slot_item_def)

lemma nbt_root_first: "nbt_root bs \<Longrightarrow> bs \<noteq> [] \<and> hd bs = 10"
  by (auto simp: nbt_root_def)

lemma decode_slot_nbt_ok:
  assumes "bs = [] \<or> nbt_root bs \<and> length bs \<le> fuel"
  shows "decode_slot_nbt fuel ((if bs = [] then [0] else bs) @ rest) = (Inr bs, rest)"
proof (cases bs)
  case (Cons b bs')
  with assms nbt_root_first [of bs] have "b \<noteq> 0" "nbt_root bs" "length bs \<le> fuel" by auto
  with read_nbt_root [of bs fuel rest] Cons show ?thesis by (simp add: decode_slot_nbt_def)
qed (simp add: decode_slot_nbt_def)

lemma decodes_slot:
  assumes "slot_ok fuel s"
  shows "decodes (decode_slot fuel) (encode_slot s []) s"
proof (cases "slot_present s")
  case True
  with assms have ok: "slot_nbt s = [] \<or> nbt_root (slot_nbt s) \<and> length (slot_nbt s) \<le> fuel"
    by (simp add: slot_ok_def)
  have "encode_slot s [] = [1] @ encode_var_int (slot_item_id s) [] @ encode_i8 (slot_count s) []
      @ (if slot_nbt s = [] then [0] else slot_nbt s)"
    using True var_int.enc_appends [where a = "slot_item_id s" and out = "[1]"]
    by (simp add: encode_slot_def encode_bool_def encode_i8_def Let_def)
  then show ?thesis
    using True by (simp add: decodes_def decode_slot_def st_bind_def st_map_err_def decode_bool_def
        var_int.roundtrip i8.roundtrip decode_slot_nbt_ok [OF ok])
next
  case False
  with assms show ?thesis
    by (simp add: slot_ok_def encode_slot_def encode_bool_def decodes_def decode_slot_def st_bind_def st_map_err_def
        decode_bool_def)
qed

lemma encode_slot_app: "encode_slot s out = out @ encode_slot s []"
  using var_int.enc_appends [where a = "slot_item_id s" and out = "out @ [1]"]
    var_int.enc_appends [where a = "slot_item_id s" and out = "[1]"]
  by (simp add: encode_slot_def encode_bool_def encode_i8_def Let_def)

lemma field_slot [field_intros]: "slot_ok fuel s \<Longrightarrow> field_ok (st_mod (encode_slot s)) (decode_slot fuel) s"
proof (rule field_okI)
  fix out u out' assume ok: "slot_ok fuel s" and "st_mod (encode_slot s) out = (Inr u, out')"
  then have "out' = encode_slot s out" by simp
  then show "\<exists>bs. out' = out @ bs \<and> decodes (decode_slot fuel) bs s"
    using decodes_slot [OF ok] encode_slot_app [of s out] by (intro exI [of _ "encode_slot s []"] conjI) simp_all
qed

subsection \<open>The records of the packets\<close>

record join_game =
  jg_entity_id :: i32
  jg_is_hardcore :: bool
  jg_gamemode :: game_mode
  jg_previous_gamemode :: "game_mode option"
  jg_dimension_names :: "rstring list"
  jg_registry_codec :: bytes
  jg_dimension_type :: rstring
  jg_dimension_name :: rstring
  jg_hashed_seed :: i64
  jg_max_players :: i32
  jg_view_distance :: i32
  jg_simulation_distance :: i32
  jg_reduce_debug_info :: bool
  jg_enable_respawn_screen :: bool
  jg_is_debug :: bool
  jg_is_flat :: bool
  jg_has_death_location :: bool
  jg_death_dimension_name :: rstring
  jg_death_location :: "i32 \<times> i32 \<times> i32"
  jg_portal_cooldown :: i32

record keep_alive =
  ka_payload :: i64

record set_player_position =
  spp_x :: f64bits
  spp_y :: f64bits
  spp_z :: f64bits
  spp_on_ground :: bool

record set_player_position_and_rotation =
  spr_x :: f64bits
  spr_y :: f64bits
  spr_z :: f64bits
  spr_yaw :: f32bits
  spr_pitch :: f32bits
  spr_on_ground :: bool

record set_player_rotation =
  sro_yaw :: f32bits
  sro_pitch :: f32bits
  sro_on_ground :: bool

record synchronize_player_position =
  syn_x :: f64bits
  syn_y :: f64bits
  syn_z :: f64bits
  syn_yaw :: f32bits
  syn_pitch :: f32bits
  syn_flags :: i8
  syn_teleport_id :: i32

record disconnect_play =
  dp_reason :: rstring

record confirm_teleportation =
  ct_teleport_id :: i32

record client_information =
  ci_locale :: rstring
  ci_view_distance :: u8
  ci_chat_mode :: chat_mode
  ci_chat_colors :: bool
  ci_displayed_skin_parts :: u8
  ci_main_hand :: main_hand
  ci_enable_text_filtering :: bool
  ci_allow_server_listings :: bool

record set_health =
  sh_health :: f32bits
  sh_food :: i32
  sh_food_saturation :: f32bits

record client_status =
  cs_action :: i32

record change_difficulty =
  cd_difficulty :: u8
  cd_locked :: bool

record player_abilities =
  pa_flags :: u8
  pa_flying_speed :: f32bits
  pa_fov_modifier :: f32bits

record set_held_item =
  shi_slot :: u8

record entity_event =
  ee_entity_id :: i32
  ee_entity_status :: u8

record game_event =
  ge_event_type :: u8
  ge_value :: f32bits

record set_default_spawn_position =
  sds_location :: "i32 \<times> i32 \<times> i32"
  sds_angle :: f32bits

record set_center_chunk =
  scc_chunk_x :: i32
  scc_chunk_z :: i32

record combat_death =
  cbd_player_id :: i32
  cbd_message :: rstring

record set_block_destroy_stage =
  sbd_entity_id :: i32
  sbd_position :: "i32 \<times> i32 \<times> i32"
  sbd_destroy_stage :: i8

record set_render_distance =
  srd_view_distance :: i32

record set_simulation_distance =
  ssd_simulation_distance :: i32

record player_digging =
  pd_action :: player_digging_action
  pd_position :: "i32 \<times> i32 \<times> i32"
  pd_face :: u8
  pd_sequence :: i32

record use_item_on =
  uio_position :: "i32 \<times> i32 \<times> i32"
  uio_face :: u8
  uio_hand :: i32
  uio_cursor_x :: f32bits
  uio_cursor_y :: f32bits
  uio_cursor_z :: f32bits
  uio_inside_block :: bool
  uio_sequence :: i32

record block_update =
  bu_position :: "i32 \<times> i32 \<times> i32"
  bu_block_state :: i32

record acknowledge_block_change =
  abc_sequence :: i32

record move_entity_pos =
  mep_entity_id :: i32
  mep_delta_x :: i16
  mep_delta_y :: i16
  mep_delta_z :: i16
  mep_on_ground :: bool

record move_entity_pos_rot =
  mpr_entity_id :: i32
  mpr_delta_x :: i16
  mpr_delta_y :: i16
  mpr_delta_z :: i16
  mpr_yaw :: u8
  mpr_pitch :: u8
  mpr_on_ground :: bool

record move_entity_rot =
  mer_entity_id :: i32
  mer_yaw :: u8
  mer_pitch :: u8
  mer_on_ground :: bool

record entity_teleport =
  et_entity_id :: i32
  et_x :: f64bits
  et_y :: f64bits
  et_z :: f64bits
  et_yaw :: u8
  et_pitch :: u8
  et_on_ground :: bool

record set_container_slot =
  scs_window_id :: i8
  scs_state_id :: i32
  scs_slot :: i16
  scs_item :: slot

record open_screen =
  os_window_id :: i32
  os_window_type :: i32
  os_title :: rstring

record set_held_item_serverbound =
  shs_slot :: i16

record set_creative_mode_slot =
  scm_slot :: i16
  scm_item :: slot

record chunk_data =
  chd_chunk_x :: i32
  chd_chunk_z :: i32
  chd_heightmaps :: bytes
  chd_data :: bytes
  chd_block_entities :: "bytes list"
  chd_light_data :: bytes

record plugin_message_clientbound =
  pmc_channel :: rstring
  pmc_data :: bytes

record unload_chunk =
  uc_chunk_x :: i32
  uc_chunk_z :: i32

type_synonym player_info_actions = u8

record player_info_entry =
  pie_uuid :: uuid
  pie_name :: rstring
  pie_properties :: "(rstring \<times> rstring \<times> rstring option) list"
  pie_gamemode :: i32
  pie_listed :: bool
  pie_latency :: i32
  pie_display_name :: "rstring option"

record player_info_update =
  piu_actions :: player_info_actions
  piu_entries :: "player_info_entry list"

record player_info_remove =
  pir_uuids :: "uuid list"

record spawn_player =
  spl_entity_id :: i32
  spl_uuid :: uuid
  spl_x :: f64bits
  spl_y :: f64bits
  spl_z :: f64bits
  spl_yaw :: u8
  spl_pitch :: u8

record spawn_entity =
  se_entity_id :: i32
  se_uuid :: uuid
  se_entity_type :: i32
  se_x :: f64bits
  se_y :: f64bits
  se_z :: f64bits
  se_pitch :: u8
  se_yaw :: u8
  se_head_yaw :: u8
  se_data :: i32
  se_velocity_x :: i16
  se_velocity_y :: i16
  se_velocity_z :: i16

record interact_entity =
  ie_entity_id :: i32
  ie_action :: i32
  ie_hand :: i32
  ie_sneaking :: bool

record remove_entities =
  re_entity_ids :: "i32 list"

record set_container_content =
  scn_window_id :: u8
  scn_state_id :: i32
  scn_slots :: "slot list"
  scn_carried_item :: slot

record close_container =
  cc_window_id :: u8

record click_container_changed_slot =
  ccs_slot :: i16
  ccs_item :: slot

record click_container =
  clc_window_id :: u8
  clc_state_id :: i32
  clc_slot :: i16
  clc_button :: i8
  clc_mode :: i32
  clc_changed_slots :: "click_container_changed_slot list"
  clc_cursor :: slot

record chat_message_serverbound =
  cms_message :: rstring

record system_chat_message =
  sym_content :: rstring
  sym_overlay :: bool

record respawn =
  rs_dimension_type :: rstring
  rs_dimension_name :: rstring
  rs_hashed_seed :: i64
  rs_gamemode :: u8
  rs_previous_gamemode :: i8
  rs_is_debug :: bool
  rs_is_flat :: bool
  rs_has_death_location :: bool
  rs_death_dimension_name :: rstring
  rs_death_location :: "i32 \<times> i32 \<times> i32"
  rs_portal_cooldown :: i32
  rs_data_kept :: u8

datatype play_packet =
    JoinGame join_game
  | KeepAliveClientbound keep_alive
  | KeepAliveServerbound keep_alive
  | SetPlayerPosition set_player_position
  | SetPlayerPositionAndRotation set_player_position_and_rotation
  | SetPlayerRotation set_player_rotation
  | SynchronizePlayerPosition synchronize_player_position
  | DisconnectPlay disconnect_play
  | ChunkData chunk_data
  | ConfirmTeleportation confirm_teleportation
  | ClientInformation client_information
  | PluginMessageClientbound plugin_message_clientbound
  | ChangeDifficulty change_difficulty
  | PlayerAbilities player_abilities
  | SetHeldItem set_held_item
  | EntityEvent entity_event
  | GameEvent game_event
  | SetDefaultSpawnPosition set_default_spawn_position
  | SetCenterChunk set_center_chunk
  | UnloadChunk unload_chunk
  | CombatDeath combat_death
  | SetBlockDestroyStage set_block_destroy_stage
  | SetRenderDistance set_render_distance
  | SetSimulationDistance set_simulation_distance
  | PlayerInfoUpdate player_info_update
  | PlayerInfoRemove player_info_remove
  | SpawnPlayer spawn_player
  | SpawnEntity spawn_entity
  | RemoveEntities remove_entities
  | InteractEntity interact_entity
  | PlayerDigging player_digging
  | UseItemOn use_item_on
  | BlockUpdate block_update
  | AcknowledgeBlockChange acknowledge_block_change
  | MoveEntityPos move_entity_pos
  | MoveEntityPosRot move_entity_pos_rot
  | MoveEntityRot move_entity_rot
  | EntityTeleport entity_teleport
  | SetContainerContent set_container_content
  | SetContainerSlot set_container_slot
  | OpenScreen open_screen
  | CloseContainerClientbound close_container
  | ClickContainer click_container
  | CloseContainerServerbound close_container
  | SetHeldItemServerbound set_held_item_serverbound
  | SetCreativeModeSlot set_creative_mode_slot
  | ChatMessageServerbound chat_message_serverbound
  | SystemChatMessage system_chat_message
  | SetHealth set_health
  | Respawn respawn
  | ClientStatus client_status

datatype play_decode_outcome = PlayComplete play_packet | PlayIncomplete

abbreviation encode_play_frame :: "i32 \<Rightarrow> play_error encoder \<Rightarrow> nat \<Rightarrow> play_error encoder" where
  "encode_play_frame \<equiv> encode_packet play_error_from_framing"

abbreviation decode_play_fields ::
  "i32 \<Rightarrow> (play_error, 'a) decoder \<Rightarrow> ('a \<Rightarrow> play_packet) \<Rightarrow> nat \<Rightarrow> (play_error, play_decode_outcome) decoder" where
  "decode_play_fields pid reader packet \<equiv>
    decode_packet play_error_from_framing (parse_fields WrongPacketId TrailingBytes pid reader)
      (\<lambda>a. PlayComplete (packet a)) PlayIncomplete"

end
