(* ===== verification/Floats.thy ===== *)
theory Floats
  imports Prelude
begin

section \<open>Floating-point numbers\<close>

text \<open>
  IEEE 754 numbers as bit patterns. A format has \<open>t\<close> fraction bits and \<open>e\<close> exponent bits; every finite
  number of the format is an integer multiple of its smallest positive one, and \<open>fl_units\<close> is that
  integer. An operation is the exact integer or rational result rounded once, to nearest with
  ties to even (\<open>fl_round\<close>), as Rust's \<open>f64\<close> and \<open>f32\<close> operations are. The bits of a NaN result are not
  fixed by Rust; the model takes the quiet NaN.
\<close>

subsection \<open>A format\<close>

definition fl_exp :: "nat \<Rightarrow> nat \<Rightarrow> nat \<Rightarrow> nat" where
  "fl_exp t e b = (b div 2 ^ t) mod 2 ^ e"

definition fl_frac :: "nat \<Rightarrow> nat \<Rightarrow> nat" where
  "fl_frac t b = b mod 2 ^ t"

definition fl_neg :: "nat \<Rightarrow> nat \<Rightarrow> nat \<Rightarrow> bool" where
  "fl_neg t e b \<longleftrightarrow> odd (b div 2 ^ (t + e))"

definition fl_nan :: "nat \<Rightarrow> nat \<Rightarrow> nat \<Rightarrow> bool" where
  "fl_nan t e b \<longleftrightarrow> fl_exp t e b = 2 ^ e - 1 \<and> fl_frac t b \<noteq> 0"

definition fl_inf :: "nat \<Rightarrow> nat \<Rightarrow> nat \<Rightarrow> bool" where
  "fl_inf t e b \<longleftrightarrow> fl_exp t e b = 2 ^ e - 1 \<and> fl_frac t b = 0"

definition fl_magnitude :: "nat \<Rightarrow> nat \<Rightarrow> nat \<Rightarrow> nat" where
  "fl_magnitude t e b =
    (if fl_exp t e b = 0 then fl_frac t b else (2 ^ t + fl_frac t b) * 2 ^ (fl_exp t e b - 1))"

text \<open>The value in units; an infinity gets the value just past the largest number, so that comparisons need no case of their own.\<close>

definition fl_units :: "nat \<Rightarrow> nat \<Rightarrow> nat \<Rightarrow> int" where
  "fl_units t e b = (if fl_neg t e b then - int (fl_magnitude t e b) else int (fl_magnitude t e b))"

text \<open>One is \<open>2 ^ fl_scale\<close> units.\<close>

definition fl_scale :: "nat \<Rightarrow> nat \<Rightarrow> nat" where
  "fl_scale t e = 2 ^ (e - 1) - 2 + t"

fun bit_length :: "nat \<Rightarrow> nat" where
  "bit_length n = (if n = 0 then 0 else Suc (bit_length (n div 2)))"

declare bit_length.simps [simp del]

text \<open>The bits of \<open>p / q\<close> units rounded to nearest, ties to even: \<open>s\<close> is the exponent that leaves \<open>t + 1\<close> bits.\<close>

definition fl_round_mag :: "nat \<Rightarrow> nat \<Rightarrow> nat \<Rightarrow> nat \<Rightarrow> nat" where
  "fl_round_mag t e p q =
    (let s = bit_length (p div q) - (t + 1); d = q * 2 ^ s; n = p div d; r = p mod d;
         n' = (if 2 * r > d \<or> 2 * r = d \<and> odd n then n + 1 else n);
         b = s * 2 ^ t + n'
     in min b ((2 ^ e - 1) * 2 ^ t))"

definition fl_sign_bit :: "nat \<Rightarrow> nat \<Rightarrow> bool \<Rightarrow> nat" where
  "fl_sign_bit t e neg = (if neg then 2 ^ (t + e) else 0)"

definition fl_round :: "nat \<Rightarrow> nat \<Rightarrow> bool \<Rightarrow> nat \<Rightarrow> nat \<Rightarrow> nat" where
  "fl_round t e neg p q = fl_sign_bit t e neg + fl_round_mag t e p q"

definition fl_qnan :: "nat \<Rightarrow> nat \<Rightarrow> nat" where
  "fl_qnan t e = (2 ^ e - 1) * 2 ^ t + 2 ^ (t - 1)"

definition fl_infinity :: "nat \<Rightarrow> nat \<Rightarrow> bool \<Rightarrow> nat" where
  "fl_infinity t e neg = fl_sign_bit t e neg + (2 ^ e - 1) * 2 ^ t"

text \<open>The number nearest to \<open>u\<close> units; \<open>zero_neg\<close> is the sign of a zero.\<close>

definition fl_of_units :: "nat \<Rightarrow> nat \<Rightarrow> bool \<Rightarrow> int \<Rightarrow> nat" where
  "fl_of_units t e zero_neg u = fl_round t e (if u = 0 then zero_neg else u < 0) (nat \<bar>u\<bar>) 1"

subsection \<open>Arithmetic in a format\<close>

definition fl_add :: "nat \<Rightarrow> nat \<Rightarrow> nat \<Rightarrow> nat \<Rightarrow> nat" where
  "fl_add t e a b =
    (if fl_nan t e a \<or> fl_nan t e b then fl_qnan t e
     else if fl_inf t e a then (if fl_inf t e b \<and> fl_neg t e a \<noteq> fl_neg t e b then fl_qnan t e else a)
     else if fl_inf t e b then b
     else fl_of_units t e (fl_neg t e a \<and> fl_neg t e b) (fl_units t e a + fl_units t e b))"

definition fl_minus :: "nat \<Rightarrow> nat \<Rightarrow> nat \<Rightarrow> nat" where
  "fl_minus t e b = (if fl_neg t e b then b - 2 ^ (t + e) else b + 2 ^ (t + e))"

definition fl_sub :: "nat \<Rightarrow> nat \<Rightarrow> nat \<Rightarrow> nat \<Rightarrow> nat" where
  "fl_sub t e a b = (if fl_nan t e b then fl_qnan t e else fl_add t e a (fl_minus t e b))"

definition fl_mul :: "nat \<Rightarrow> nat \<Rightarrow> nat \<Rightarrow> nat \<Rightarrow> nat" where
  "fl_mul t e a b =
    (let neg = (fl_neg t e a \<noteq> fl_neg t e b) in
     if fl_nan t e a \<or> fl_nan t e b then fl_qnan t e
     else if fl_inf t e a \<or> fl_inf t e b then
       (if fl_magnitude t e a = 0 \<or> fl_magnitude t e b = 0 then fl_qnan t e else fl_infinity t e neg)
     else fl_round t e neg (fl_magnitude t e a * fl_magnitude t e b) (2 ^ fl_scale t e))"

definition fl_div :: "nat \<Rightarrow> nat \<Rightarrow> nat \<Rightarrow> nat \<Rightarrow> nat" where
  "fl_div t e a b =
    (let neg = (fl_neg t e a \<noteq> fl_neg t e b) in
     if fl_nan t e a \<or> fl_nan t e b \<or> fl_inf t e a \<and> fl_inf t e b
       \<or> fl_magnitude t e a = 0 \<and> fl_magnitude t e b = 0 then fl_qnan t e
     else if fl_inf t e a \<or> fl_magnitude t e b = 0 then fl_infinity t e neg
     else if fl_inf t e b then fl_sign_bit t e neg
     else fl_round t e neg (fl_magnitude t e a * 2 ^ fl_scale t e) (fl_magnitude t e b))"

definition fl_lt :: "nat \<Rightarrow> nat \<Rightarrow> nat \<Rightarrow> nat \<Rightarrow> bool" where
  "fl_lt t e a b \<longleftrightarrow> \<not> fl_nan t e a \<and> \<not> fl_nan t e b \<and> fl_units t e a < fl_units t e b"

definition fl_le :: "nat \<Rightarrow> nat \<Rightarrow> nat \<Rightarrow> nat \<Rightarrow> bool" where
  "fl_le t e a b \<longleftrightarrow> \<not> fl_nan t e a \<and> \<not> fl_nan t e b \<and> fl_units t e a \<le> fl_units t e b"

definition fl_eq :: "nat \<Rightarrow> nat \<Rightarrow> nat \<Rightarrow> nat \<Rightarrow> bool" where
  "fl_eq t e a b \<longleftrightarrow> \<not> fl_nan t e a \<and> \<not> fl_nan t e b \<and> fl_units t e a = fl_units t e b"

subsection \<open>\<open>f64\<close>\<close>

abbreviation f64_bits :: "f64bits \<Rightarrow> nat" where "f64_bits \<equiv> unat"

definition f64_nan :: "f64bits \<Rightarrow> bool" where "f64_nan x \<longleftrightarrow> fl_nan 52 11 (unat x)"
definition f64_units :: "f64bits \<Rightarrow> int" where "f64_units x = fl_units 52 11 (unat x)"
definition f64_add :: "f64bits \<Rightarrow> f64bits \<Rightarrow> f64bits" where "f64_add x y = word_of_nat (fl_add 52 11 (unat x) (unat y))"
definition f64_sub :: "f64bits \<Rightarrow> f64bits \<Rightarrow> f64bits" where "f64_sub x y = word_of_nat (fl_sub 52 11 (unat x) (unat y))"
definition f64_mul :: "f64bits \<Rightarrow> f64bits \<Rightarrow> f64bits" where "f64_mul x y = word_of_nat (fl_mul 52 11 (unat x) (unat y))"
definition f64_div :: "f64bits \<Rightarrow> f64bits \<Rightarrow> f64bits" where "f64_div x y = word_of_nat (fl_div 52 11 (unat x) (unat y))"
definition f64_lt :: "f64bits \<Rightarrow> f64bits \<Rightarrow> bool" where "f64_lt x y = fl_lt 52 11 (unat x) (unat y)"
definition f64_le :: "f64bits \<Rightarrow> f64bits \<Rightarrow> bool" where "f64_le x y = fl_le 52 11 (unat x) (unat y)"
definition f64_eq :: "f64bits \<Rightarrow> f64bits \<Rightarrow> bool" where "f64_eq x y = fl_eq 52 11 (unat x) (unat y)"

text \<open>A decimal literal \<open>p / q\<close>, and \<open>f64::from\<close> on an \<open>i32\<close>.\<close>

definition f64_lit :: "nat \<Rightarrow> nat \<Rightarrow> f64bits" where
  "f64_lit p q = word_of_nat (fl_round 52 11 False (p * 2 ^ 1074) q)"

text \<open>The literal \<open>0.5\<close>.\<close>

definition f64_half :: f64bits where
  "f64_half = f64_lit 1 2"

definition f64_minus :: "f64bits \<Rightarrow> f64bits" where
  "f64_minus x = x XOR push_bit 63 1"

definition f64_abs :: "f64bits \<Rightarrow> f64bits" where
  "f64_abs x = x AND mask 63"

definition f64_one :: int where
  "f64_one = 2 ^ 1074"

definition f64_of_int :: "int \<Rightarrow> f64bits" where
  "f64_of_int i = word_of_nat (fl_of_units 52 11 False (i * f64_one))"

definition f64_epsilon :: f64bits where
  "f64_epsilon = 0x3CB0000000000000"

text \<open>\<open>clamp\<close>: the comparisons are false on a NaN, which is returned as it is.\<close>

definition f64_clamp :: "f64bits \<Rightarrow> f64bits \<Rightarrow> f64bits \<Rightarrow> f64bits" where
  "f64_clamp lo hi x = (let x = (if f64_lt x lo then lo else x) in if f64_lt hi x then hi else x)"

definition f64_max :: "f64bits \<Rightarrow> f64bits \<Rightarrow> f64bits" where
  "f64_max x y = (if f64_nan x then y else if f64_nan y then x else if f64_lt x y then y else x)"

text \<open>The square root: the integer root of the scaled magnitude, with a sticky bit for the rounding.\<close>

fun isqrt :: "nat \<Rightarrow> nat" where
  "isqrt n = (if n = 0 then 0 else let r = 2 * isqrt (n div 4) in if (r + 1) * (r + 1) \<le> n then r + 1 else r)"

declare isqrt.simps [simp del]

definition f64_sqrt :: "f64bits \<Rightarrow> f64bits" where
  "f64_sqrt x =
    (let b = unat x; m = fl_magnitude 52 11 b * 2 ^ 1074; r = isqrt m in
     if fl_nan 52 11 b then word_of_nat (fl_qnan 52 11)
     else if fl_magnitude 52 11 b = 0 then x
     else if fl_neg 52 11 b then word_of_nat (fl_qnan 52 11)
     else if fl_inf 52 11 b then x
     else word_of_nat (fl_round 52 11 False (2 * r + (if r * r = m then 0 else 1)) 2))"

definition clamp_i32 :: "int \<Rightarrow> i32" where
  "clamp_i32 i = word_of_int (max (- (2 ^ 31)) (min (2 ^ 31 - 1) i))"

text \<open>
  The integer operations the source composes: \<open>x.floor() as i32\<close> (a cast of a NaN is 0, and it
  saturates), and \<open>x.round()\<close>, halves away from zero, as a number and cast.
\<close>

definition floor_i32 :: "f64bits \<Rightarrow> i32" where
  "floor_i32 x = (if f64_nan x then 0 else clamp_i32 (f64_units x div f64_one))"

definition f64_round_int :: "f64bits \<Rightarrow> int" where
  "f64_round_int x = sgn (f64_units x) * ((2 * \<bar>f64_units x\<bar> + f64_one) div (2 * f64_one))"

definition f64_round :: "f64bits \<Rightarrow> f64bits" where
  "f64_round x =
    (if fl_nan 52 11 (unat x) \<or> fl_inf 52 11 (unat x) then x
     else word_of_nat (fl_of_units 52 11 (fl_neg 52 11 (unat x)) (f64_round_int x * f64_one)))"

definition round_i32 :: "f64bits \<Rightarrow> i32" where
  "round_i32 x = (if f64_nan x then 0 else clamp_i32 (f64_round_int x))"

subsection \<open>\<open>f32\<close>\<close>

definition f32_nan :: "f32bits \<Rightarrow> bool" where "f32_nan x \<longleftrightarrow> fl_nan 23 8 (unat x)"
definition f32_units :: "f32bits \<Rightarrow> int" where "f32_units x = fl_units 23 8 (unat x)"
definition f32_add :: "f32bits \<Rightarrow> f32bits \<Rightarrow> f32bits" where "f32_add x y = word_of_nat (fl_add 23 8 (unat x) (unat y))"
definition f32_sub :: "f32bits \<Rightarrow> f32bits \<Rightarrow> f32bits" where "f32_sub x y = word_of_nat (fl_sub 23 8 (unat x) (unat y))"
definition f32_mul :: "f32bits \<Rightarrow> f32bits \<Rightarrow> f32bits" where "f32_mul x y = word_of_nat (fl_mul 23 8 (unat x) (unat y))"
definition f32_div :: "f32bits \<Rightarrow> f32bits \<Rightarrow> f32bits" where "f32_div x y = word_of_nat (fl_div 23 8 (unat x) (unat y))"
definition f32_lt :: "f32bits \<Rightarrow> f32bits \<Rightarrow> bool" where "f32_lt x y = fl_lt 23 8 (unat x) (unat y)"
definition f32_le :: "f32bits \<Rightarrow> f32bits \<Rightarrow> bool" where "f32_le x y = fl_le 23 8 (unat x) (unat y)"
definition f32_eq :: "f32bits \<Rightarrow> f32bits \<Rightarrow> bool" where "f32_eq x y = fl_eq 23 8 (unat x) (unat y)"

definition f32_lit :: "nat \<Rightarrow> nat \<Rightarrow> f32bits" where
  "f32_lit p q = word_of_nat (fl_round 23 8 False (p * 2 ^ 149) q)"

definition f32_minus :: "f32bits \<Rightarrow> f32bits" where
  "f32_minus x = x XOR push_bit 31 1"

definition f32_abs :: "f32bits \<Rightarrow> f32bits" where
  "f32_abs x = x AND mask 31"

definition f32_max :: "f32bits \<Rightarrow> f32bits \<Rightarrow> f32bits" where
  "f32_max x y = (if f32_nan x then y else if f32_nan y then x else if f32_lt x y then y else x)"

definition f32_min :: "f32bits \<Rightarrow> f32bits \<Rightarrow> f32bits" where
  "f32_min x y = (if f32_nan x then y else if f32_nan y then x else if f32_lt y x then y else x)"

text \<open>\<open>x as f32\<close> on an \<open>f64\<close>.\<close>

definition f32_of_f64 :: "f64bits \<Rightarrow> f32bits" where
  "f32_of_f64 x =
    (let b = unat x in
     if fl_nan 52 11 b then word_of_nat (fl_qnan 23 8)
     else if fl_inf 52 11 b then word_of_nat (fl_infinity 23 8 (fl_neg 52 11 b))
     else word_of_nat (fl_round 23 8 (fl_neg 52 11 b) (fl_magnitude 52 11 b) (2 ^ 925)))"

lemmas f64_defs = f64_nan_def f64_units_def f64_add_def f64_sub_def f64_mul_def f64_div_def f64_lt_def
  f64_le_def f64_eq_def

lemmas f32_defs = f32_nan_def f32_units_def f32_add_def f32_sub_def f32_mul_def f32_div_def f32_lt_def
  f32_le_def f32_eq_def

subsection \<open>Rounding\<close>

lemma bit_length_unique: "2 ^ k \<le> n \<Longrightarrow> n < 2 ^ Suc k \<Longrightarrow> bit_length n = Suc k"
proof (induction k arbitrary: n)
  case 0
  then have "n = 1" by simp
  then show ?case by (simp add: bit_length.simps)
next
  case (Suc k)
  have "2 ^ k \<le> n div 2" "n div 2 < 2 ^ Suc k" using Suc.prems by auto
  from Suc.IH [OF this] have "bit_length (n div 2) = Suc k" .
  moreover have "n \<noteq> 0" using Suc.prems(1) by (metis le_zero_eq power_not_zero zero_neq_numeral)
  ultimately show ?case by (simp add: bit_length.simps [of n])
qed

lemma bit_length_le: "n < 2 ^ k \<Longrightarrow> bit_length n \<le> k"
proof (induction k arbitrary: n)
  case 0
  then show ?case by (simp add: bit_length.simps)
next
  case (Suc k)
  then have "n div 2 < 2 ^ k" by auto
  from Suc.IH [OF this] show ?case by (simp add: bit_length.simps [of n])
qed

text \<open>The exponent of a rounding from the two bounds that determine it.\<close>

lemma rounding_exponent:
  assumes "0 < q" "p < q * 2 ^ (s + t + 1)" "s = 0 \<or> q * 2 ^ (s + t) \<le> p"
  shows "bit_length (p div q) - (t + 1) = s"
proof -
  have lt: "p div q < 2 ^ (s + t + 1)"
    using assms(1,2) by (simp add: div_less_iff_less_mult mult.commute)
  show ?thesis
  proof (cases "q * 2 ^ (s + t) \<le> p")
    case True
    then have "2 ^ (s + t) \<le> p div q" using assms(1) by (simp add: less_eq_div_iff_mult_less_eq mult.commute)
    from bit_length_unique [OF this] lt have "bit_length (p div q) = Suc (s + t)" by simp
    then show ?thesis by simp
  next
    case False
    with assms(3) have "s = 0" by simp
    with bit_length_le [OF lt] show ?thesis by simp
  qed
qed

lemma fl_round_mag_by:
  assumes "0 < q" "p < q * 2 ^ (s + t + 1)" "s = 0 \<or> q * 2 ^ (s + t) \<le> p"
  shows "fl_round_mag t e p q =
    (let d = q * 2 ^ s; n = p div d; r = p mod d;
         n' = (if 2 * r > d \<or> 2 * r = d \<and> odd n then n + 1 else n)
     in min (s * 2 ^ t + n') ((2 ^ e - 1) * 2 ^ t))"
  unfolding fl_round_mag_def rounding_exponent [OF assms] Let_def ..

text \<open>The parts of a composed bit pattern.\<close>

lemma fl_fields:
  assumes "f < 2 ^ t" "k < 2 ^ e" "b = fl_sign_bit t e neg + k * 2 ^ t + f"
  shows "fl_frac t b = f" "fl_exp t e b = k" "fl_neg t e b = neg"
proof -
  let ?s = "if neg then 1 else (0 :: nat)"
  have b: "b = f + (k + ?s * 2 ^ e) * 2 ^ t"
    using assms(3) by (simp add: fl_sign_bit_def power_add algebra_simps)
  show "fl_frac t b = f" using assms(1) unfolding b fl_frac_def by simp
  have d: "b div 2 ^ t = k + ?s * 2 ^ e" using assms(1) unfolding b by simp
  show "fl_exp t e b = k" unfolding fl_exp_def d using assms(2) by simp
  have "b div 2 ^ (t + e) = ?s" using assms(2) by (simp add: power_add div_mult2_eq d)
  then show "fl_neg t e b = neg" by (simp add: fl_neg_def)
qed

text \<open>A number that fits is its own rounding.\<close>

lemma fl_round_exact:
  assumes "f < 2 ^ t" "k < 2 ^ e - 1"
  shows "fl_round_mag t e (if k = 0 then f else (2 ^ t + f) * 2 ^ (k - 1)) 1 = k * 2 ^ t + f"
proof -
  have le: "k * 2 ^ t + f \<le> (2 ^ e - 1) * 2 ^ t"
  proof -
    have "k * 2 ^ t + f \<le> Suc k * 2 ^ t" using assms(1) by simp
    also have "\<dots> \<le> (2 ^ e - 1) * 2 ^ t" using assms(2) by (intro mult_right_mono) simp_all
    finally show ?thesis .
  qed
  show ?thesis
  proof (cases "k = 0")
    case True
    show ?thesis using True assms(1) le
      by (subst fl_round_mag_by [where s = 0]) (simp_all add: Let_def)
  next
    case False
    have lt: "2 ^ t + f < 2 ^ Suc t" using assms(1) by simp
    have 1: "(2 ^ t + f) * 2 ^ (k - 1) < 1 * 2 ^ (k - 1 + t + 1)"
      using mult_strict_right_mono [OF lt, of "2 ^ (k - 1)"] by (simp add: power_add mult_ac)
    have 2: "1 * 2 ^ (k - 1 + t) \<le> (2 ^ t + f) * 2 ^ (k - 1)"
      by (simp add: power_add mult.commute)
    have "(k - 1) * 2 ^ t + 2 ^ t = k * 2 ^ t" using False by (cases k) simp_all
    then show ?thesis unfolding if_not_P [OF False] using le
      by (subst fl_round_mag_by [where s = "k - 1", OF _ 1 disjI2 [OF 2]]) (simp_all add: Let_def)
  qed
qed

lemma fl_magnitude_fields:
  assumes "f < 2 ^ t" "k < 2 ^ e" "b = fl_sign_bit t e neg + k * 2 ^ t + f"
  shows "fl_magnitude t e b = (if k = 0 then f else (2 ^ t + f) * 2 ^ (k - 1))"
  by (simp add: fl_magnitude_def fl_fields [OF assms])

text \<open>Every \<open>i * 2 ^ j\<close> with \<open>i\<close> of at most 53 bits is a number (away from the ends of the range).\<close>

definition f64_finite :: "f64bits \<Rightarrow> bool" where
  "f64_finite x \<longleftrightarrow> fl_exp 52 11 (unat x) \<noteq> 2047"

lemma f64_finite_not: "f64_finite x \<Longrightarrow> \<not> f64_nan x" "f64_finite x \<Longrightarrow> \<not> fl_nan 52 11 (unat x)"
  "f64_finite x \<Longrightarrow> \<not> fl_inf 52 11 (unat x)"
  by (simp_all add: f64_finite_def f64_nan_def fl_nan_def fl_inf_def)

lemma unat_of_nat_64: "n < 2 ^ 64 \<Longrightarrow> unat (word_of_nat n :: 64 word) = n"
  by (simp add: unsigned_of_nat take_bit_nat_eq_self)

lemma f64_of_units_bits:
  assumes "i \<noteq> 0" "\<bar>i\<bar> < 2 ^ 53" "52 \<le> j" "j \<le> 2045"
  obtains k f where "k < 2 ^ 11 - 1" "k \<noteq> 0" "f < 2 ^ 52" "(2 ^ 52 + f) * 2 ^ (k - 1) = nat \<bar>i\<bar> * 2 ^ j"
    "unat (word_of_nat (fl_of_units 52 11 z (i * 2 ^ j)) :: f64bits) = fl_sign_bit 52 11 (i < 0) + k * 2 ^ 52 + f"
proof -
  define m where "m = nat \<bar>i\<bar>"
  have m: "0 < m" "m < 2 ^ 53" using assms(1,2) by (simp_all add: m_def nat_less_iff)
  obtain l where l: "2 ^ l \<le> m" "m < 2 ^ Suc l" using ex_power_ivl1 [of 2 m] m(1) by auto
  have "(2 :: nat) ^ l < 2 ^ 53" using l(1) m(2) by (rule le_less_trans)
  then have "l < 53" by (rule power_less_imp_less_exp [rotated]) simp
  then have l52: "l \<le> 52" by simp
  define f where "f = m * 2 ^ (52 - l) - 2 ^ 52"
  define k where "k = l + j - 51"
  have two: "(2 :: nat) ^ l * 2 ^ (52 - l) = 2 ^ 52" "(2 :: nat) ^ Suc l * 2 ^ (52 - l) = 2 ^ 53"
    using l52 by (simp_all flip: power_add)
  have lo: "2 ^ 52 \<le> m * 2 ^ (52 - l)" using mult_right_mono [OF l(1), of "2 ^ (52 - l)"] two(1) by simp
  have hi: "m * 2 ^ (52 - l) < 2 ^ 53"
    using mult_strict_right_mono [OF l(2), of "2 ^ (52 - l)"] unfolding two(2) by simp
  have f: "f < 2 ^ 52" using lo hi by (simp add: f_def)
  have k: "k < 2 ^ 11 - 1" "k \<noteq> 0" using l52 assms(3,4) by (simp_all add: k_def)
  have sum: "2 ^ 52 + f = m * 2 ^ (52 - l)" using lo by (simp add: f_def)
  have e: "(52 - l) + (k - 1) = j" using l52 assms(3) by (simp add: k_def)
  have val: "(2 ^ 52 + f) * 2 ^ (k - 1) = m * 2 ^ j"
    unfolding sum mult.assoc power_add [symmetric] e ..
  have "fl_round_mag 52 11 (m * 2 ^ j) 1 = k * 2 ^ 52 + f"
    using fl_round_exact [OF f k(1)] k(2) val by simp
  moreover have "nat \<bar>i * 2 ^ j\<bar> = m * 2 ^ j"
    by (simp add: m_def abs_mult nat_mult_distrib nat_power_eq)
  moreover have "(i * 2 ^ j < 0) = (i < 0)" "(i * 2 ^ j = 0) = (i = 0)"
    by (simp_all add: mult_less_0_iff)
  ultimately have r: "fl_of_units 52 11 z (i * 2 ^ j) = fl_sign_bit 52 11 (i < 0) + k * 2 ^ 52 + f"
    using assms(1) by (simp add: fl_of_units_def fl_round_def)
  have "fl_sign_bit 52 11 (i < 0) + k * 2 ^ 52 + f < 2 ^ 64"
    using f k(1) by (simp add: fl_sign_bit_def)
  then have "unat (word_of_nat (fl_of_units 52 11 z (i * 2 ^ j)) :: f64bits) = fl_sign_bit 52 11 (i < 0) + k * 2 ^ 52 + f"
    unfolding r by (rule unat_of_nat_64)
  with that [OF k f] val show thesis by (simp add: m_def)
qed

lemma f64_of_units_exact:
  fixes z :: bool
  assumes "\<bar>i\<bar> < 2 ^ 53" "52 \<le> j" "j \<le> 2045"
  defines "x \<equiv> word_of_nat (fl_of_units 52 11 z (i * 2 ^ j)) :: f64bits"
  shows "f64_units x = i * 2 ^ j" "f64_finite x"
proof -
  have "f64_units x = i * 2 ^ j \<and> f64_finite x"
  proof (cases "i = 0")
    case True
    have "fl_round_mag 52 11 0 1 = 0" using fl_round_exact [of 0 52 0 11] by simp
    then have "unat x = fl_sign_bit 52 11 z + 0 * 2 ^ 52 + 0"
      unfolding x_def by (subst unat_of_nat_64) (simp_all add: True fl_of_units_def fl_round_def fl_sign_bit_def)
    note fields = fl_fields [OF _ _ this] fl_magnitude_fields [OF _ _ this]
    have "f64_units x = 0" by (simp add: f64_units_def fl_units_def fields)
    moreover have "f64_finite x" by (simp add: f64_finite_def fields)
    ultimately show ?thesis by (simp add: True)
  next
    case False
    from f64_of_units_bits [OF False assms(1-3)] obtain k f where k: "k < 2 ^ 11 - 1" "k \<noteq> 0" and f: "f < 2 ^ 52"
      and val: "(2 ^ 52 + f) * 2 ^ (k - 1) = nat \<bar>i\<bar> * 2 ^ j"
      and b: "unat x = fl_sign_bit 52 11 (i < 0) + k * 2 ^ 52 + f" unfolding x_def by blast
    have k': "k < 2 ^ 11" using k(1) by simp
    have mag: "int (fl_magnitude 52 11 (unat x)) = \<bar>i\<bar> * 2 ^ j"
      unfolding fl_magnitude_fields [OF f k' b] using k(2) val by simp
    have "f64_units x = i * 2 ^ j"
      unfolding f64_units_def fl_units_def fl_fields(3) [OF f k' b] mag by simp
    moreover have "f64_finite x"
      using k(1) unfolding f64_finite_def fl_fields(2) [OF f k' b] by simp
    ultimately show ?thesis ..
  qed
  then show "f64_units x = i * 2 ^ j" "f64_finite x" by simp_all
qed

text \<open>Integers, and sums of numbers whose exact sum is a number.\<close>

lemma f64_of_int_exact:
  assumes "\<bar>i\<bar> < 2 ^ 53"
  shows "f64_units (f64_of_int i) = i * f64_one" "f64_finite (f64_of_int i)"
  unfolding f64_of_int_def f64_one_def using assms by (rule f64_of_units_exact; simp)+

lemma f64_add_exact:
  assumes "f64_finite x" "f64_finite y" "f64_units x + f64_units y = i * 2 ^ j"
    and "\<bar>i\<bar> < 2 ^ 53" "52 \<le> j" "j \<le> 2045"
  shows "f64_units (f64_add x y) = f64_units x + f64_units y" "f64_finite (f64_add x y)"
proof -
  have "f64_add x y = word_of_nat (fl_of_units 52 11 (fl_neg 52 11 (unat x) \<and> fl_neg 52 11 (unat y)) (i * 2 ^ j))"
    using f64_finite_not [OF assms(1)] f64_finite_not [OF assms(2)] assms(3)
    by (simp add: f64_add_def fl_add_def f64_units_def)
  with f64_of_units_exact [OF assms(4-6)] assms(3)
  show "f64_units (f64_add x y) = f64_units x + f64_units y" "f64_finite (f64_add x y)" by simp_all
qed

subsection \<open>Order\<close>

lemma f64_lt_irrefl [simp]: "\<not> f64_lt x x"
  by (simp add: f64_lt_def fl_lt_def)

lemma f64_lt_units: "f64_lt x y \<longleftrightarrow> \<not> f64_nan x \<and> \<not> f64_nan y \<and> f64_units x < f64_units y"
  by (simp add: f64_defs fl_lt_def)

lemma f64_le_units: "f64_le x y \<longleftrightarrow> \<not> f64_nan x \<and> \<not> f64_nan y \<and> f64_units x \<le> f64_units y"
  by (simp add: f64_defs fl_le_def)

lemma f64_eq_units: "f64_eq x y \<longleftrightarrow> \<not> f64_nan x \<and> \<not> f64_nan y \<and> f64_units x = f64_units y"
  by (simp add: f64_defs fl_eq_def)

lemma f64_clamp_nan [simp]: "f64_nan x \<Longrightarrow> f64_clamp lo hi x = x"
  by (simp add: f64_clamp_def f64_lt_units)

lemma f64_clamp_units:
  assumes "\<not> f64_nan x" "f64_le lo hi"
  shows "\<not> f64_nan (f64_clamp lo hi x)"
    and "f64_units (f64_clamp lo hi x) = max (f64_units lo) (min (f64_units hi) (f64_units x))"
  using assms by (auto simp: f64_clamp_def f64_lt_units f64_le_units Let_def max_def min_def)

lemma f64_clamp_id: "\<not> f64_lt x lo \<Longrightarrow> \<not> f64_lt hi x \<Longrightarrow> f64_clamp lo hi x = x"
  by (simp add: f64_clamp_def)

subsection \<open>Casts to integers\<close>

lemma sint_clamp_i32: "sint (clamp_i32 i) = max (- (2 ^ 31)) (min (2 ^ 31 - 1) i)"
  by (simp add: clamp_i32_def sint_sbintrunc' signed_take_bit_int_eq_self)

lemma isqrt_correct: "isqrt n * isqrt n \<le> n \<and> n < (isqrt n + 1) * (isqrt n + 1)"
proof (induction n rule: isqrt.induct)
  case (1 n)
  show ?case
  proof (cases "n = 0")
    case True
    then show ?thesis by (simp add: isqrt.simps)
  next
    case False
    let ?r = "isqrt (n div 4)"
    from 1 [OF False] have r: "?r * ?r \<le> n div 4" "n div 4 < (?r + 1) * (?r + 1)" by simp_all
    have lo: "2 * ?r * (2 * ?r) \<le> n" using r(1) by simp
    have "n < 4 * ((?r + 1) * (?r + 1))" using r(2) by (simp add: less_mult_imp_div_less div_less_iff_less_mult)
    also have "4 * ((?r + 1) * (?r + 1)) = (2 * ?r + 2) * (2 * ?r + 2)" by (simp add: algebra_simps)
    finally show ?thesis
      using False lo by (simp add: isqrt.simps [of n] Let_def)
  qed
qed

subsection \<open>One half\<close>

definition half_one :: int where
  "half_one = 2 ^ 1073"

lemma f64_one_half: "f64_one = 2 * half_one"
  by (simp add: f64_one_def half_one_def flip: power_Suc)

lemma half_one_pos: "0 < half_one"
  by (simp add: half_one_def)

lemma f64_half_bits: "f64_half = 0x3FE0000000000000"
proof -
  have "fl_round_mag 52 11 (1 * 2 ^ 1074) 2 = 1022 * 2 ^ 52"
    by (subst fl_round_mag_by [where s = 1021]) (simp_all add: Let_def flip: power_Suc)
  then show ?thesis
    by (simp add: f64_half_def f64_lit_def fl_round_def fl_sign_bit_def)
qed

lemma f64_half_units: "f64_units f64_half = half_one" "f64_finite f64_half"
  by (simp_all add: f64_half_bits half_one_def f64_units_def fl_units_def fl_magnitude_def fl_exp_def fl_frac_def
      fl_neg_def f64_finite_def)

lemma le_div_iff_int:
  assumes "0 < c"
  shows "i \<le> a div c \<longleftrightarrow> i * c \<le> (a :: int)"
proof
  assume "i \<le> a div c"
  then have "i * c \<le> a div c * c" using assms by simp
  also have "\<dots> \<le> a" using assms div_mult_mod_eq [of a c] pos_mod_sign [OF assms, of a] by linarith
  finally show "i * c \<le> a" .
next
  assume "i * c \<le> a"
  from zdiv_mono1 [OF this assms] show "i \<le> a div c" using assms by simp
qed

end
