(* ===== verification/Hakoniwa.thy ===== *)
theory Hakoniwa
  imports Bytes Floats
begin

section \<open>Gardens and dimensions (\<open>hakoniwa.rs\<close>)\<close>

text \<open>
  The dimensions of a pack, the size presets and the garden they span, with the operations that
  clamp a position into it.
\<close>

subsection \<open>Dimensions\<close>

datatype dimension_id = Overworld | Nether | TheEnd

definition dimension_protocol_name :: "dimension_id \<Rightarrow> rstring" where
  "dimension_protocol_name d =
    (case d of Overworld \<Rightarrow> ascii ''minecraft:overworld'' | Nether \<Rightarrow> ascii ''minecraft:the_nether''
     | TheEnd \<Rightarrow> ascii ''minecraft:the_end'')"

definition dimension_as_str :: "dimension_id \<Rightarrow> rstring" where
  "dimension_as_str d =
    (case d of Overworld \<Rightarrow> ascii ''overworld'' | Nether \<Rightarrow> ascii ''nether'' | TheEnd \<Rightarrow> ascii ''end'')"

text \<open>\<open>to_ascii_lowercase\<close>: the bytes \<open>A\<close> to \<open>Z\<close> and no others.\<close>

definition ascii_lowercase :: "rstring \<Rightarrow> rstring" where
  "ascii_lowercase s = map (\<lambda>b. if 65 \<le> b \<and> b \<le> 90 then b + 32 else b) s"

definition dimension_parse :: "rstring \<Rightarrow> dimension_id option" where
  "dimension_parse v =
    (let s = ascii_lowercase v in
     if s \<in> {ascii ''overworld'', ascii ''ow'', ascii ''world''} then Some Overworld
     else if s \<in> {ascii ''nether'', ascii ''hell''} then Some Nether
     else if s \<in> {ascii ''end'', ascii ''the_end'', ascii ''the-end''} then Some TheEnd
     else None)"

definition dimension_all :: "dimension_id list" where
  "dimension_all = [Overworld, Nether, TheEnd]"

definition dimension_parse_protocol :: "rstring \<Rightarrow> dimension_id option" where
  "dimension_parse_protocol name =
    (if name = ascii ''minecraft:overworld'' then Some Overworld
     else if name = ascii ''minecraft:the_nether'' then Some Nether
     else if name = ascii ''minecraft:the_end'' then Some TheEnd
     else None)"

subsection \<open>Sizes\<close>

datatype map_size = Tiny | Small | Medium

definition map_size_parse :: "rstring \<Rightarrow> map_size option" where
  "map_size_parse v =
    (let s = ascii_lowercase v in
     if s = ascii ''tiny'' then Some Tiny else if s = ascii ''small'' then Some Small
     else if s = ascii ''medium'' then Some Medium else None)"

definition map_size_as_str :: "map_size \<Rightarrow> rstring" where
  "map_size_as_str s = (case s of Tiny \<Rightarrow> ascii ''tiny'' | Small \<Rightarrow> ascii ''small'' | Medium \<Rightarrow> ascii ''medium'')"

definition chunk_radius :: "map_size \<Rightarrow> i32" where
  "chunk_radius s = (case s of Tiny \<Rightarrow> 4 | Small \<Rightarrow> 8 | Medium \<Rightarrow> 16)"

definition chunk_span :: "map_size \<Rightarrow> i32" where
  "chunk_span s = chunk_radius s * 2 + 1"

subsection \<open>Sets of dimensions\<close>

record dimension_set =
  ds_overworld :: bool
  ds_nether :: bool
  ds_end :: bool

definition dimension_set_default :: dimension_set where
  "dimension_set_default = \<lparr>ds_overworld = True, ds_nether = True, ds_end = True\<rparr>"

definition dimension_set_contains :: "dimension_set \<Rightarrow> dimension_id \<Rightarrow> bool" where
  "dimension_set_contains s d = (case d of Overworld \<Rightarrow> ds_overworld s | Nether \<Rightarrow> ds_nether s | TheEnd \<Rightarrow> ds_end s)"

definition protocol_names :: "dimension_set \<Rightarrow> rstring list" where
  "protocol_names s = map dimension_protocol_name (filter (dimension_set_contains s) dimension_all)"

subsection \<open>The garden\<close>

record garden_spec =
  gs_size :: map_size
  gs_dimensions :: dimension_set
  gs_min_block_x :: i32
  gs_max_block_x :: i32
  gs_min_block_z :: i32
  gs_max_block_z :: i32
  gs_surface_y :: f64bits

definition garden_from_size :: "map_size \<Rightarrow> garden_spec" where
  "garden_from_size preset =
    (let radius = chunk_radius preset; min_block = - radius * 16; max_block = radius * 16 + 15 in
     \<lparr>gs_size = preset, gs_dimensions = dimension_set_default,
      gs_min_block_x = min_block, gs_max_block_x = max_block,
      gs_min_block_z = min_block, gs_max_block_z = max_block,
      gs_surface_y = 0x4050000000000000\<rparr>)"

definition recommended_view_distance :: "garden_spec \<Rightarrow> i32" where
  "recommended_view_distance g = chunk_radius (gs_size g)"

definition contains_chunk :: "garden_spec \<Rightarrow> i32 \<Rightarrow> i32 \<Rightarrow> bool" where
  "contains_chunk g chunk_x chunk_z =
    (let r = chunk_radius (gs_size g) in
     - r \<le>s chunk_x \<and> chunk_x \<le>s r \<and> - r \<le>s chunk_z \<and> chunk_z \<le>s r)"

definition contains_block :: "garden_spec \<Rightarrow> i32 \<Rightarrow> i32 \<Rightarrow> bool" where
  "contains_block g x z \<longleftrightarrow>
    gs_min_block_x g \<le>s x \<and> x \<le>s gs_max_block_x g \<and> gs_min_block_z g \<le>s z \<and> z \<le>s gs_max_block_z g"

definition clamp_horizontal :: "garden_spec \<Rightarrow> f64bits \<Rightarrow> f64bits \<Rightarrow> f64bits \<Rightarrow> f64bits \<times> f64bits \<times> f64bits" where
  "clamp_horizontal g x y z =
    (let min_x = f64_add (f64_of_int (sint (gs_min_block_x g))) f64_half;
         max_x = f64_add (f64_of_int (sint (gs_max_block_x g))) f64_half;
         min_z = f64_add (f64_of_int (sint (gs_min_block_z g))) f64_half;
         max_z = f64_add (f64_of_int (sint (gs_max_block_z g))) f64_half
     in (f64_clamp min_x max_x x, y, f64_clamp min_z max_z z))"

definition clamp_spawn_position :: "garden_spec \<Rightarrow> f64bits \<Rightarrow> f64bits \<Rightarrow> f64bits \<Rightarrow> f64bits \<times> f64bits \<times> f64bits" where
  "clamp_spawn_position g x0 y0 z0 =
    (let (x, y, z) = clamp_horizontal g x0 y0 z0;
         y = (if f64_lt y (f64_minus (f64_lit 64 1)) then gs_surface_y g else y)
     in (x, y, z))"

definition is_outside_horizontally :: "garden_spec \<Rightarrow> f64bits \<Rightarrow> f64bits \<Rightarrow> bool" where
  "is_outside_horizontally g x z =
    (let (cx, y', cz) = clamp_horizontal g x 0 z
     in f64_lt f64_epsilon (f64_abs (f64_sub cx x)) \<or> f64_lt f64_epsilon (f64_abs (f64_sub cz z)))"

subsection \<open>Properties\<close>

text \<open>
  The names of dimensions: a protocol name parses back to its dimension, the short name does
  in any letter case, and the list for Join Game has exactly the enabled dimensions, each once.
\<close>

theorem dimension_names:
  "dimension_parse_protocol (dimension_protocol_name d) = Some d
   \<and> dimension_parse (dimension_as_str d) = Some d
   \<and> distinct (protocol_names s)
   \<and> (dimension_protocol_name d \<in> set (protocol_names s) \<longleftrightarrow> dimension_set_contains s d)"
proof (intro conjI)
  show "dimension_parse_protocol (dimension_protocol_name d) = Some d"
    by (cases d) (simp_all add: dimension_parse_protocol_def dimension_protocol_name_def ascii_def)
  show "dimension_parse (dimension_as_str d) = Some d"
    by (cases d) (simp_all add: dimension_parse_def dimension_as_str_def ascii_def ascii_lowercase_def Let_def)
  show "distinct (protocol_names s)"
    by (simp add: protocol_names_def dimension_all_def dimension_protocol_name_def ascii_def)
  show "dimension_protocol_name d \<in> set (protocol_names s) \<longleftrightarrow> dimension_set_contains s d"
    by (cases d) (auto simp: protocol_names_def dimension_all_def dimension_protocol_name_def ascii_def)
qed

lemma sint_chunk: "sint (signed_drop_bit 4 (x :: i32)) = sint x div 16"
  by (simp add: sint_signed_drop_bit_eq drop_bit_eq_div)

text \<open>
  The garden in blocks and in chunks is the same square: a block column lies inside exactly when
  its chunk (the coordinates shifted right by four) does, for every preset and every coordinate.
\<close>

theorem garden_blocks_are_chunks:
  "contains_block (garden_from_size s) x z =
    contains_chunk (garden_from_size s) (signed_drop_bit 4 x) (signed_drop_bit 4 z)"
proof -
  have lo: "- (16 * k) \<le> v \<longleftrightarrow> - k \<le> v div 16" for v k :: int by presburger
  have hi: "v \<le> 16 * k + 15 \<longleftrightarrow> v div 16 \<le> k" for v k :: int by presburger
  show ?thesis
    using lo [of 4] lo [of 8] lo [of 16] hi [of _ 4] hi [of _ 8] hi [of _ 16]
    by (cases s) (simp_all add: contains_block_def contains_chunk_def garden_from_size_def chunk_radius_def
        Let_def word_sle_eq sint_chunk)
qed

subsection \<open>Clamping into the garden\<close>

text \<open>The centre of a block column is a number, and exactly half a block past its corner.\<close>

lemma block_centre:
  assumes "\<bar>i\<bar> < 2 ^ 40"
  shows "f64_units (f64_add (f64_of_int i) f64_half) = (2 * i + 1) * half_one"
    and "f64_finite (f64_add (f64_of_int i) f64_half)"
proof -
  have small: "\<bar>i\<bar> < 2 ^ 53" "\<bar>2 * i + 1\<bar> < 2 ^ 53" using assms by simp_all
  have sum: "f64_units (f64_of_int i) + f64_units f64_half = (2 * i + 1) * half_one"
    using f64_half_units(1) f64_of_int_exact(1) [OF small(1)] by (simp add: f64_one_half algebra_simps)
  note exact = f64_add_exact [OF f64_of_int_exact(2) [OF small(1)] f64_half_units(2) sum [unfolded half_one_def] small(2)]
  show "f64_units (f64_add (f64_of_int i) f64_half) = (2 * i + 1) * half_one"
    unfolding sum [symmetric] by (rule exact(1)) simp_all
  show "f64_finite (f64_add (f64_of_int i) f64_half)"
    by (rule exact(2)) simp_all
qed


lemma centre_le: "\<bar>i\<bar> < 2 ^ 40 \<Longrightarrow> \<bar>j\<bar> < 2 ^ 40 \<Longrightarrow> i \<le> j \<Longrightarrow>
    f64_le (f64_add (f64_of_int i) f64_half) (f64_add (f64_of_int j) f64_half)"
  unfolding f64_le_units using f64_finite_not(1) [OF block_centre(2)]
  by (simp add: block_centre(1) half_one_pos)

lemma clamped_column:
  assumes "\<not> f64_nan v" "\<bar>i\<bar> < 2 ^ 30" "\<bar>j\<bar> < 2 ^ 30" "i \<le> j"
  defines "c \<equiv> f64_clamp (f64_add (f64_of_int i) f64_half) (f64_add (f64_of_int j) f64_half) v"
  shows "i \<le> sint (floor_i32 c)" "sint (floor_i32 c) \<le> j"
    "f64_clamp (f64_add (f64_of_int i) f64_half) (f64_add (f64_of_int j) f64_half) c = c"
proof -
  have small: "\<bar>i\<bar> < 2 ^ 40" "\<bar>j\<bar> < 2 ^ 40" using assms(2,3) by simp_all
  note c = f64_clamp_units [OF assms(1) centre_le [OF small assms(4)], folded c_def]
  define u where "u = half_one"
  have u: "0 < u" "f64_one = 2 * u" by (simp_all add: u_def f64_one_half half_one_pos)
  note centre = block_centre(1) [OF small(1), folded u_def] block_centre(1) [OF small(2), folded u_def]
  have lo: "(2 * i + 1) * u \<le> f64_units c" and hi: "f64_units c \<le> (2 * j + 1) * u"
    unfolding c(2) centre using assms(4) u(1) by simp_all
  have "2 * i * u \<le> f64_units c" using lo u(1) by (simp add: algebra_simps)
  then have floor_lo: "i \<le> f64_units c div f64_one"
    unfolding u(2) using u(1) by (simp add: le_div_iff_int algebra_simps)
  have "f64_units c < (j + 1) * (2 * u)" using hi u(1) by (simp add: algebra_simps)
  then have floor_hi: "f64_units c div f64_one \<le> j"
    using le_div_iff_int [of f64_one "j + 1" "f64_units c"] u by simp
  show "i \<le> sint (floor_i32 c)" "sint (floor_i32 c) \<le> j"
    using floor_lo floor_hi assms(2,3) c(1) by (simp_all add: floor_i32_def sint_clamp_i32)
  show "f64_clamp (f64_add (f64_of_int i) f64_half) (f64_add (f64_of_int j) f64_half) c = c"
    by (rule f64_clamp_id) (use lo hi centre in \<open>simp_all add: f64_lt_units\<close>)
qed

lemma garden_bounds:
  "\<bar>sint (gs_min_block_x (garden_from_size s))\<bar> < 2 ^ 30" "\<bar>sint (gs_max_block_x (garden_from_size s))\<bar> < 2 ^ 30"
  "sint (gs_min_block_x (garden_from_size s)) \<le> sint (gs_max_block_x (garden_from_size s))"
  "gs_min_block_z (garden_from_size s) = gs_min_block_x (garden_from_size s)"
  "gs_max_block_z (garden_from_size s) = gs_max_block_x (garden_from_size s)"
  by (cases s; simp add: garden_from_size_def chunk_radius_def Let_def)+

text \<open>
  C27: Clamping a position whose coordinates are numbers puts it into the garden: the block column
  under the clamped point (the floor of its coordinates) is inside the border of every preset, the
  height is kept, a second clamp changes nothing. A spawn position also ends no deeper than 64
  below zero.
\<close>

theorem clamp_into_garden:
  assumes "\<not> f64_nan x" "\<not> f64_nan z"
  shows "case clamp_horizontal (garden_from_size s) x y z of (x', y', z') \<Rightarrow>
      y' = y \<and> contains_block (garden_from_size s) (floor_i32 x') (floor_i32 z')
      \<and> clamp_horizontal (garden_from_size s) x' y' z' = (x', y', z')
      \<and> clamp_spawn_position (garden_from_size s) x y z =
          (x', if f64_lt y (f64_minus (f64_lit 64 1)) then gs_surface_y (garden_from_size s) else y, z')"
  using clamped_column [OF assms(1) garden_bounds(1-3) [of s]] clamped_column [OF assms(2) garden_bounds(1-3) [of s]]
  by (simp add: clamp_horizontal_def clamp_spawn_position_def contains_block_def garden_bounds(4,5) word_sle_eq Let_def f64_half_def)

theorem clamp_into_garden_witness:
  "case clamp_horizontal (garden_from_size Tiny) 0x40D0000000000000 0 0 of (x', y', z') \<Rightarrow>
      y' = 0 \<and> contains_block (garden_from_size Tiny) (floor_i32 x') (floor_i32 z')"
  using clamp_into_garden [where x = "0x40D0000000000000" and y = 0 and z = 0 and s = Tiny]
  by (simp add: f64_nan_def fl_nan_def fl_exp_def fl_frac_def split: prod.splits)

text \<open>A coordinate that is not a number passes the clamp as it is.\<close>

lemma clamp_keeps_nan:
  "f64_nan x \<Longrightarrow> f64_nan z \<Longrightarrow> clamp_horizontal g x y z = (x, y, z)"
  by (simp add: clamp_horizontal_def)

end
