(* ===== verification/Offline_Uuid.thy ===== *)
theory Offline_Uuid
  imports Primitives
begin

section \<open>Offline UUIDs (\<open>offline_uuid.rs\<close>)\<close>

text \<open>
  The version 3 UUID of a user name. MD5 is not part of the repository: \<open>md5\<close> is a parameter, of
  which the one fact used is that its digest has 16 bytes.
\<close>

definition offline_uuid_bytes :: "bytes \<Rightarrow> bytes" where
  "offline_uuid_bytes digest =
    digest[6 := (digest ! 6 AND 0x0f) OR 0x30, 8 := (digest ! 8 AND 0x3f) OR 0x80]"

definition offline_uuid_from_username :: "(bytes \<Rightarrow> bytes) \<Rightarrow> rstring \<Rightarrow> uuid" where
  "offline_uuid_from_username md5 username =
    uuid_from_be_bytes (offline_uuid_bytes (md5 (ascii ''OfflinePlayer:'' @ username)))"

text \<open>
  The UUID of a user name has version 3 and the IETF variant, and keeps every other bit of the
  digest: 122 of its 128 bits are the digest's.
\<close>

theorem offline_uuid_version:
  assumes "length (md5 (ascii ''OfflinePlayer:'' @ name)) = 16"
  shows "let b = uuid_to_be_bytes (offline_uuid_from_username md5 name); d = md5 (ascii ''OfflinePlayer:'' @ name) in
    b ! 6 AND 0xf0 = 0x30 \<and> b ! 8 AND 0xc0 = 0x80
    \<and> (\<forall>i<16. i \<noteq> 6 \<longrightarrow> i \<noteq> 8 \<longrightarrow> b ! i = d ! i)
    \<and> b ! 6 AND 0x0f = d ! 6 AND 0x0f \<and> b ! 8 AND 0x3f = d ! 8 AND 0x3f"
proof -
  let ?d = "md5 (ascii ''OfflinePlayer:'' @ name)"
  have b: "uuid_to_be_bytes (offline_uuid_from_username md5 name) = offline_uuid_bytes ?d"
    by (simp add: offline_uuid_from_username_def uuid_to_from offline_uuid_bytes_def assms)
  have masks: "((v AND 0x0f) OR 0x30) AND 0xf0 = (0x30 :: u8)" "((v AND 0x3f) OR 0x80) AND 0xc0 = (0x80 :: u8)"
    "((v AND 0x0f) OR 0x30) AND 0x0f = v AND 0x0f" "((v AND 0x3f) OR 0x80) AND 0x3f = v AND 0x3f" for v :: u8
    by (simp_all add: bit.conj_disj_distrib2 and.assoc)
  show ?thesis using assms by (simp add: b Let_def offline_uuid_bytes_def masks)
qed

theorem offline_uuid_version_witness:
  "let b = uuid_to_be_bytes (offline_uuid_from_username (\<lambda>_. replicate 16 0xff) (ascii ''Steve''));
       d = replicate 16 (0xff :: u8) in
    b ! 6 AND 0xf0 = 0x30 \<and> b ! 8 AND 0xc0 = 0x80
    \<and> (\<forall>i<16. i \<noteq> 6 \<longrightarrow> i \<noteq> 8 \<longrightarrow> b ! i = d ! i)
    \<and> b ! 6 AND 0x0f = d ! 6 AND 0x0f \<and> b ! 8 AND 0x3f = d ! 8 AND 0x3f"
  using offline_uuid_version [of "\<lambda>_. replicate 16 0xff" "ascii ''Steve''"] by (simp only: length_replicate simp_thms)

end
