(* ===== verification/Connection.thy ===== *)
theory Connection
  imports Login_Machine Status_Packets Play_Types Hakoniwa Offline_Uuid
begin

section \<open>The connection before play (\<open>connection.rs\<close>)\<close>

text \<open>
  The loop that a connection thread runs until the player enters play: decode a packet of the
  current state from the read buffer, act on it, or read more. One round of the loop is \<open>conn_round\<close>;
  \<open>conn_drain\<close> repeats it until the loop wants to read or returns, and \<open>conn_run\<close> feeds it the
  outcomes of \<open>read\<close> in order. The sent bytes are part of the state, so what was written before an
  error is seen. \<open>serde_json\<close>, zlib, MD5 and the socket's write errors are parameters, and the play
  loop (\<open>session.rs\<close>) is an end of this model: \<open>EnterPlay\<close> with the arguments it is called with.
\<close>

subsection \<open>Configuration, environment and errors\<close>

datatype connection_error =
    Io io_error
  | RemoteDisconnected
  | ConnFraming framing_error
  | ConnHandshake handshake_error
  | ConnStatus status_error
  | ConnLogin login_error
  | ConnLoginMachine login_machine_error
  | ConnCompression "io_error compression_error"
  | ConnUnexpectedPacket protocol_state i32

text \<open>An \<open>std::io::Error\<close>: whether its kind is \<open>UnexpectedEof\<close>, and the error itself.\<close>

type_synonym std_io_error = "bool \<times> io_error"

definition connection_error_from_io :: "std_io_error \<Rightarrow> connection_error" where
  "connection_error_from_io e = (if fst e then RemoteDisconnected else Io (snd e))"

record connection_config =
  cnf_status_response :: status_response
  cnf_online_mode :: bool
  cnf_max_frame_length :: nat
  cnf_compression_threshold :: i32
  cnf_play_read_timeout :: nat
  cnf_max_players :: i32
  cnf_default_gamemode :: u8
  cnf_view_distance :: i32
  cnf_simulation_distance :: i32
  cnf_keep_alive_timeout :: nat
  cnf_enabled_dimensions :: dimension_set

text \<open>What the connection uses from outside: libraries, the socket, and the shared counters.\<close>

record connection_env =
  env_to_json :: "status_response \<Rightarrow> rstring + rstring"
  env_deflate :: "bytes \<Rightarrow> io_error + bytes"
  env_md5 :: "bytes \<Rightarrow> bytes"
  env_write_fails :: "bytes \<Rightarrow> bytes \<Rightarrow> std_io_error option"
  env_player_count :: nat
  env_next_entity_id :: i32

record session_config =
  sc_uuid :: uuid
  sc_username :: rstring
  sc_gamemode :: u8
  sc_max_frame_length :: nat
  sc_read_timeout :: nat
  sc_compression_threshold :: i32
  sc_view_distance :: i32
  sc_simulation_distance :: i32
  sc_max_players :: i32
  sc_keep_alive_timeout :: nat
  sc_enabled_dimensions :: dimension_set

text \<open>\<open>write_all\<close>: the bytes are sent, or the write fails.\<close>

definition conn_write :: "connection_env \<Rightarrow> bytes \<Rightarrow> (connection_error, unit, bytes) st" where
  "conn_write env wire sent =
    (case env_write_fails env sent wire of
       Some e \<Rightarrow> (Inl (connection_error_from_io e), sent)
     | None \<Rightarrow> (Inr (), sent @ wire))"

subsection \<open>Decoding a packet of the current state\<close>

datatype decoded_packet = DecHandshake handshake_packet | DecStatusRequest | DecPing i64 | DecLoginStart login_start

datatype decode_result = DecComplete decoded_packet | DecIncomplete | DecError connection_error

text \<open>The decoders tried in each state: the packet, no packet yet (\<open>Inl None\<close>), or an error.\<close>

definition decode_in_state ::
  "protocol_state \<Rightarrow> nat \<Rightarrow> bytes \<Rightarrow> (connection_error option + decoded_packet) \<times> bytes" where
  "decode_in_state state m source =
    (case state of
       Handshaking \<Rightarrow>
         (case decode_handshake m source of
            (Inr packet, input) \<Rightarrow> (Inr (DecHandshake packet), input)
          | (Inl handshake_error.Incomplete, input) \<Rightarrow> (Inl None, input)
          | (Inl e, input) \<Rightarrow> (Inl (Some (ConnHandshake e)), input))
     | Status \<Rightarrow>
         (case decode_status_request m source of
            (Inr (Some ()), input) \<Rightarrow> (Inr DecStatusRequest, input)
          | (Inr None, input) \<Rightarrow> (Inl None, input)
          | (Inl e, input) \<Rightarrow>
            (if (case e of status_error.WrongPacketId received _ \<Rightarrow> received = 1 | _ \<Rightarrow> False) then
               (case decode_ping_request m source of
                  (Inr (Some payload), input) \<Rightarrow> (Inr (DecPing payload), input)
                | (Inr None, input) \<Rightarrow> (Inl None, input)
                | (Inl e, input) \<Rightarrow> (Inl (Some (ConnStatus e)), input))
             else (Inl (Some (ConnStatus e)), input)))
     | Login \<Rightarrow>
         (case decode_login_start m source of
            (Inr (LoginComplete (LoginStart start)), input) \<Rightarrow> (Inr (DecLoginStart start), input)
          | (Inr LoginIncomplete, input) \<Rightarrow> (Inl None, input)
          | (Inr _, input) \<Rightarrow> (Inl (Some (ConnUnexpectedPacket state (-1))), input)
          | (Inl e, input) \<Rightarrow>
            (case e of
               login_error.WrongPacketId received _ \<Rightarrow> (Inl (Some (ConnUnexpectedPacket state received)), input)
             | _ \<Rightarrow> (Inl (Some (ConnLogin e)), input)))
     | _ \<Rightarrow> (Inl (Some (ConnUnexpectedPacket state (-1))), source))"

definition try_decode_packet :: "bytes \<Rightarrow> protocol_state \<Rightarrow> nat \<Rightarrow> decode_result \<times> bytes" where
  "try_decode_packet buffer state m =
    (case decode_in_state state m buffer of
       (Inr packet, input) \<Rightarrow> (DecComplete packet, drop (length buffer - length input) buffer)
     | (Inl None, _) \<Rightarrow> (DecIncomplete, buffer)
     | (Inl (Some e), _) \<Rightarrow> (DecError e, buffer))"

subsection \<open>Acting on a packet\<close>

text \<open>A packet encoded into a fresh buffer, its error converted.\<close>

definition encode_fresh :: "('e \<Rightarrow> connection_error) \<Rightarrow> 'e encoder \<Rightarrow> connection_error + bytes" where
  "encode_fresh conv enc = (case enc [] of (Inl e, _) \<Rightarrow> Inl (conv e) | (Inr _, wire) \<Rightarrow> Inr wire)"

definition handle_status_packet ::
  "connection_env \<Rightarrow> decoded_packet \<Rightarrow> status_response \<Rightarrow> nat \<Rightarrow> (connection_error, protocol_state, bytes) st" where
  "handle_status_packet env packet response m sent =
    (case packet of
       DecStatusRequest \<Rightarrow>
         (case encode_fresh ConnStatus (encode_status_response (env_to_json env) response m) of
            Inl e \<Rightarrow> (Inl e, sent)
          | Inr wire \<Rightarrow> st_bind (conn_write env wire) (\<lambda>_. st_ret Status) sent)
     | DecPing payload \<Rightarrow>
         (case encode_fresh ConnStatus (encode_pong_response payload m) of
            Inl e \<Rightarrow> (Inl e, sent)
          | Inr wire \<Rightarrow> st_bind (conn_write env wire) (\<lambda>_. st_ret Closed) sent)
     | _ \<Rightarrow> (Inl (ConnUnexpectedPacket Status (-1)), sent))"

text \<open>The response sent: the template with the live player count (saturated) and the maximum.\<close>

definition live_status_response :: "connection_env \<Rightarrow> connection_config \<Rightarrow> status_response" where
  "live_status_response env config =
    (cnf_status_response config)\<lparr>sr_players := (sr_players (cnf_status_response config))
      \<lparr>sp_online := (case i32_of_usize (env_player_count env) of Some n \<Rightarrow> n | None \<Rightarrow> word_of_nat i32_max),
       sp_max := cnf_max_players config\<rparr>\<rparr>"

text \<open>Login Success under compression: Set Compression first, then the packet as a compressed frame.\<close>

definition send_login_success :: "connection_env \<Rightarrow> connection_config \<Rightarrow> bytes \<Rightarrow> (connection_error, unit, bytes) st" where
  "send_login_success env config outgoing sent =
    (let t = cnf_compression_threshold config; m = cnf_max_frame_length config in
     if 0 \<le> sint t then
       (case encode_fresh ConnCompression (encode_set_compression t m) of
          Inl e \<Rightarrow> (Inl e, sent)
        | Inr comp_wire \<Rightarrow>
          st_bind (conn_write env comp_wire) (\<lambda>_ sent'.
            case decode_frame m outgoing of
              (Inl e, _) \<Rightarrow> (Inl (ConnFraming e), sent')
            | (Inr FrameIncomplete, _) \<Rightarrow> (Inl (ConnFraming ZeroFrameLength), sent')
            | (Inr (FrameComplete f), _) \<Rightarrow>
              (case encode_fresh ConnCompression
                  (encode_compressed_frame (env_deflate env) (pf_packet_id f) (pf_payload f) t m) of
                 Inl e \<Rightarrow> (Inl e, sent')
               | Inr wire \<Rightarrow> conn_write env wire sent')) sent)
     else conn_write env outgoing sent)"

record conn =
  cn_state :: protocol_state
  cn_buffer :: bytes
  cn_sent :: bytes

datatype conn_outcome =
    Again conn
  | NeedRead conn
  | Ended "connection_error + unit" bytes
  | EnterPlay session_config i32 bytes

definition play_session_config :: "connection_env \<Rightarrow> connection_config \<Rightarrow> rstring \<Rightarrow> session_config" where
  "play_session_config env config username =
    \<lparr>sc_uuid = offline_uuid_from_username (env_md5 env) username, sc_username = username,
     sc_gamemode = cnf_default_gamemode config, sc_max_frame_length = cnf_max_frame_length config,
     sc_read_timeout = cnf_play_read_timeout config, sc_compression_threshold = cnf_compression_threshold config,
     sc_view_distance = cnf_view_distance config, sc_simulation_distance = cnf_simulation_distance config,
     sc_max_players = cnf_max_players config, sc_keep_alive_timeout = cnf_keep_alive_timeout config,
     sc_enabled_dimensions = cnf_enabled_dimensions config\<rparr>"

definition send_all :: "connection_env \<Rightarrow> bytes list \<Rightarrow> (connection_error, unit, bytes) st" where
  "send_all env wires = enc_all (map (conn_write env) wires)"

text \<open>
  A Login Start: a new login machine for this packet, which is encoded again for the machine to
  decode; then what the machine's result says.
\<close>

definition conn_login :: "connection_env \<Rightarrow> connection_config \<Rightarrow> login_start \<Rightarrow> conn \<Rightarrow> conn_outcome" where
  "conn_login env config start c =
    (let m = cnf_max_frame_length config;
         machine = lm_new \<lparr>lc_online_mode = cnf_online_mode config,
           lc_compression_threshold = cnf_compression_threshold config,
           lc_max_frame_length = m, lc_offline_uuid = uuid_new 0 0\<rparr> in
     case encode_fresh ConnLogin (encode_login_start start m) of
       Inl e \<Rightarrow> Ended (Inl e) (cn_sent c)
     | Inr start_wire \<Rightarrow>
       (case handle_login_start machine start_wire of
          (Inl e, _) \<Rightarrow> Ended (Inl (ConnLoginMachine e)) (cn_sent c)
        | (Inr (Success outgoing _), machine', _) \<Rightarrow>
          (case send_login_success env config outgoing (cn_sent c) of
             (Inl e, sent) \<Rightarrow> Ended (Inl e) sent
           | (Inr _, sent) \<Rightarrow>
             (let username = (case lm_username machine' of Some u \<Rightarrow> u | None \<Rightarrow> ascii ''Player'') in
              EnterPlay (play_session_config env config username) (env_next_entity_id env) sent))
        | (Inr (Continue outgoing _), _) \<Rightarrow>
          (case send_all env outgoing (cn_sent c) of
             (Inl e, sent) \<Rightarrow> Ended (Inl e) sent
           | (Inr _, sent) \<Rightarrow> Again (c\<lparr>cn_sent := sent\<rparr>))
        | (Inr (Disconnect outgoing _), _) \<Rightarrow>
          (case conn_write env outgoing (cn_sent c) of
             (Inl e, sent) \<Rightarrow> Ended (Inl e) sent
           | (Inr _, sent) \<Rightarrow> Ended (Inr ()) sent)))"

text \<open>\<open>c\<close> here has the packet's bytes drained from its buffer.\<close>

definition conn_route :: "connection_env \<Rightarrow> connection_config \<Rightarrow> decoded_packet \<Rightarrow> conn \<Rightarrow> conn_outcome" where
  "conn_route env config packet c =
    (case cn_state c of
       Handshaking \<Rightarrow>
         (case packet of
            DecHandshake h \<Rightarrow> Again (c\<lparr>cn_state := target_state (hs_next_state h)\<rparr>)
          | _ \<Rightarrow> Ended (Inl (ConnUnexpectedPacket Handshaking (-1))) (cn_sent c))
     | Status \<Rightarrow>
         (case handle_status_packet env packet (live_status_response env config) (cnf_max_frame_length config) (cn_sent c) of
            (Inl e, sent) \<Rightarrow> Ended (Inl e) sent
          | (Inr state, sent) \<Rightarrow>
            if state = Closed then Ended (Inr ()) sent else Again (c\<lparr>cn_state := state, cn_sent := sent\<rparr>))
     | Login \<Rightarrow>
         (case packet of
            DecLoginStart start \<Rightarrow> conn_login env config start c
          | _ \<Rightarrow> Ended (Inl (ConnUnexpectedPacket Login (-1))) (cn_sent c))
     | Play \<Rightarrow> Ended (Inr ()) (cn_sent c)
     | Closed \<Rightarrow> Ended (Inr ()) (cn_sent c))"

text \<open>One round of the loop, up to the read.\<close>

definition conn_round :: "connection_env \<Rightarrow> connection_config \<Rightarrow> conn \<Rightarrow> conn_outcome" where
  "conn_round env config c =
    (case try_decode_packet (cn_buffer c) (cn_state c) (cnf_max_frame_length config) of
       (DecComplete packet, buffer) \<Rightarrow> conn_route env config packet (c\<lparr>cn_buffer := buffer\<rparr>)
     | (DecIncomplete, buffer) \<Rightarrow> NeedRead (c\<lparr>cn_buffer := buffer\<rparr>)
     | (DecError e, _) \<Rightarrow> Ended (Inl e) (cn_sent c))"

subsection \<open>Status responses\<close>

definition status_response_from_config :: "rstring \<Rightarrow> i32 \<Rightarrow> status_response" where
  "status_response_from_config motd max_players =
    \<lparr>sr_version = \<lparr>sv_name = ascii ''1.20.1'', sv_protocol = 763\<rparr>,
     sr_players = \<lparr>sp_max = max_players, sp_online = 0, sp_sample = Some []\<rparr>,
     sr_description = \<lparr>sd_text = motd\<rparr>, sr_favicon = None\<rparr>"

definition default_status_response :: status_response where
  "default_status_response =
    \<lparr>sr_version = \<lparr>sv_name = ascii ''1.20.1'', sv_protocol = 763\<rparr>,
     sr_players = \<lparr>sp_max = 20, sp_online = 0, sp_sample = Some []\<rparr>,
     sr_description = \<lparr>sd_text = ascii ''A Rust Minecraft Server''\<rparr>, sr_favicon = None\<rparr>"

subsection \<open>More input does not change what was decided\<close>

text \<open>
  What the loop needs from a decoder that is called again after every read: a result that is not
  "wait" stays the same when more bytes follow.
\<close>

locale prefix_stable =
  fixes dec :: "bytes \<Rightarrow> 'r \<times> bytes"
    and pending :: "'r \<Rightarrow> bool"
  assumes stable: "dec a = (r, rest) \<Longrightarrow> \<not> pending r \<Longrightarrow> dec (a @ b) = (r, rest @ b)"
begin

lemma decided_split: "\<not> pending (fst (dec a)) \<Longrightarrow> dec (a @ b @ c) = (fst (dec a), snd (dec (a @ b)) @ c)"
  using stable [of "a @ b" "fst (dec a)" "snd (dec a) @ b" c] stable [of a "fst (dec a)" "snd (dec a)" b]
  by simp

end

lemma var_width_append:
  "var_width a < length a \<Longrightarrow> var_width (a @ b) = var_width a"
  "var_width a \<le> var_width (a @ b)"
  by (induction a) (auto simp: var_width_def)

interpretation var_int_stable: prefix_stable decode_var_int "\<lambda>r. r = Inl IncompleteInput"
proof
  fix a r rest b assume d: "decode_var_int a = (r, rest)" and r: "r \<noteq> Inl IncompleteInput"
  show "decode_var_int (a @ b) = (r, rest @ b)"
  proof (cases "5 \<le> var_width a")
    case True
    with d var_width_append(2) [of a b] show ?thesis by (simp add: decode_var_int_spec)
  next
    case False
    with d r have "var_width a \<noteq> length a" by (auto simp: decode_var_int_spec)
    moreover have "var_width a \<le> length a" by (simp add: var_width_def length_takeWhile_le)
    ultimately have "var_width a < length a" by simp
    with d False var_width_append(1) [of a b] show ?thesis by (auto simp: decode_var_int_spec)
  qed
qed

interpretation frame_stable: prefix_stable "decode_frame m" "\<lambda>r. r = Inr FrameIncomplete" for m
proof
  fix a r rest b assume d: "decode_frame m a = (r, rest)" and r: "r \<noteq> Inr FrameIncomplete"
  obtain v tail where v: "decode_var_int a = (v, tail)" by (cases "decode_var_int a")
  have np: "v \<noteq> Inl IncompleteInput" using d r v by (auto simp: decode_frame_def)
  have v': "decode_var_int (a @ b) = (v, tail @ b)" by (rule var_int_stable.stable [OF v np])
  have len: "length (a @ b) - length (tail @ b) = length a - length tail" by simp
  have s: "slice_to (tail @ b) n = Some body \<and> drop (n - length tail) b = b"
    if "slice_to tail n = Some body" for n body
    using that by (auto simp: slice_to_def split: if_splits)
  show "decode_frame m (a @ b) = (r, rest @ b)"
    using d r np unfolding decode_frame_def v v' len
    by (auto simp: Let_def s split: sum.splits codec_error.splits option.splits if_splits prod.splits)
qed

lemma decode_packet_stable:
  assumes "decode_packet conv parse c i m a = (r, rest)" "r \<noteq> Inr i"
  shows "decode_packet conv parse c i m (a @ b) = (r, rest @ b)"
proof -
  obtain v tail where v: "decode_frame m a = (v, tail)" by (cases "decode_frame m a")
  have np: "v \<noteq> Inr FrameIncomplete" using assms v by (auto simp: decode_packet_def)
  show ?thesis
    using assms frame_stable.stable [OF v np, of b] np v
    by (auto simp: decode_packet_def split: sum.splits decode_outcome.splits)
qed

lemma decode_packet_progress:
  assumes "decode_packet conv parse c i m a = (Inr r, rest)" "r \<noteq> i"
  shows "length rest < length a"
  using assms
  by (auto simp: decode_packet_def split: sum.splits decode_outcome.splits prod.splits
      dest!: decode_frame_complete)

interpretation handshake_stable: prefix_stable "decode_handshake m" "\<lambda>r. r = Inl handshake_error.Incomplete" for m
proof
  fix a r rest b assume d: "decode_handshake m a = (r, rest)" and r: "r \<noteq> Inl handshake_error.Incomplete"
  obtain v tail where v: "decode_frame m a = (v, tail)" by (cases "decode_frame m a")
  have np: "v \<noteq> Inr FrameIncomplete" using d r v by (auto simp: decode_handshake_def)
  show "decode_handshake m (a @ b) = (r, rest @ b)"
    using d r frame_stable.stable [OF v np, of b] np v
    by (auto simp: decode_handshake_def split: sum.splits decode_outcome.splits)
qed

lemma handshake_progress: "decode_handshake m a = (Inr p, rest) \<Longrightarrow> length rest < length a"
  by (auto simp: decode_handshake_def split: sum.splits decode_outcome.splits prod.splits
      dest!: decode_frame_complete)

lemma status_request_stable:
  "decode_status_request m a = (r, rest) \<Longrightarrow> r \<noteq> Inr None \<Longrightarrow> decode_status_request m (a @ b) = (r, rest @ b)"
  unfolding decode_status_request_def by (rule decode_packet_stable)

lemma ping_request_stable:
  "decode_ping_request m a = (r, rest) \<Longrightarrow> r \<noteq> Inr None \<Longrightarrow> decode_ping_request m (a @ b) = (r, rest @ b)"
  unfolding decode_ping_request_def by (rule decode_packet_stable)

lemma login_start_stable:
  "decode_login_start m a = (r, rest) \<Longrightarrow> r \<noteq> Inr LoginIncomplete \<Longrightarrow> decode_login_start m (a @ b) = (r, rest @ b)"
  unfolding decode_login_start_def by (rule decode_packet_stable)

text \<open>The Login branch looks at the decoder's result only, and keeps the input it left.\<close>

definition login_view :: "(login_error + login_decode_outcome) \<Rightarrow> connection_error option + decoded_packet" where
  "login_view r =
    (case r of
       Inr (LoginComplete (LoginStart start)) \<Rightarrow> Inr (DecLoginStart start)
     | Inr LoginIncomplete \<Rightarrow> Inl None
     | Inr _ \<Rightarrow> Inl (Some (ConnUnexpectedPacket Login (-1)))
     | Inl (login_error.WrongPacketId received _) \<Rightarrow> Inl (Some (ConnUnexpectedPacket Login received))
     | Inl e \<Rightarrow> Inl (Some (ConnLogin e)))"

lemma decode_in_state_Login:
  "decode_login_start m a = (v, t) \<Longrightarrow> decode_in_state Login m a = (login_view v, t)"
  by (simp add: decode_in_state_def login_view_def
      split: sum.split login_error.split login_decode_outcome.split login_packet.split)

lemma login_view_Inr: "login_view v = Inr p \<longleftrightarrow> (\<exists>s. v = Inr (LoginComplete (LoginStart s)) \<and> p = DecLoginStart s)"
  by (cases v) (auto simp: login_view_def split: login_error.split login_decode_outcome.split login_packet.split)

text \<open>The packets each state reads.\<close>

lemma decode_in_state_Handshaking:
  "decode_in_state Handshaking m a = (Inr p, rest) \<longleftrightarrow> (\<exists>h. p = DecHandshake h \<and> decode_handshake m a = (Inr h, rest))"
proof (cases "decode_handshake m a")
  case (Pair v t)
  then show ?thesis
    by (cases v) (auto simp: decode_in_state_def split: handshake_error.split)
qed

lemma decode_in_state_Status:
  assumes "decode_in_state Status m a = (Inr p, rest)"
  shows "p = DecStatusRequest \<and> decode_status_request m a = (Inr (Some ()), rest)
    \<or> (\<exists>v. p = DecPing v \<and> decode_ping_request m a = (Inr (Some v), rest))"
proof (cases "decode_status_request m a")
  case (Pair v t)
  show ?thesis
  proof (cases v)
    case (Inr x)
    with Pair assms show ?thesis by (cases x) (simp_all add: decode_in_state_def split: unit.splits)
  next
    case (Inl e)
    obtain w u where w: "decode_ping_request m a = (w, u)" by (cases "decode_ping_request m a")
    have "w = Inr (Some x) \<longrightarrow> decode_in_state Status m a \<noteq> (Inr p, rest) \<or> p = DecPing x \<and> u = rest" for x
      using Pair Inl w by (simp add: decode_in_state_def)
    moreover have "\<exists>x. w = Inr (Some x)"
      using assms Pair Inl w
      by (cases w; cases "projr w") (simp_all add: decode_in_state_def split: if_splits)
    ultimately show ?thesis using assms w by auto
  qed
qed

lemma decode_in_state_consumes:
  assumes "decode_in_state state m a = (Inr p, rest)"
  shows "length rest < length a \<and> (\<exists>used. a = used @ rest)"
proof (cases state)
  case Handshaking
  with assms show ?thesis
    by (auto simp: decode_in_state_Handshaking handshake_progress decode_handshake_suffix)
next
  case Status
  from decode_in_state_Status [OF assms [unfolded Status]] show ?thesis
    unfolding decode_status_request_def decode_ping_request_def
    by (auto dest: decode_packet_progress decode_packet_suffix)
next
  case Login
  obtain v t where v: "decode_login_start m a = (v, t)" by (cases "decode_login_start m a")
  with assms Login obtain s where "v = Inr (LoginComplete (LoginStart s))" and t: "t = rest"
    by (auto simp: decode_in_state_Login login_view_Inr)
  with v have "decode_login_start m a = (Inr (LoginComplete (LoginStart s)), rest)" by simp
  then show ?thesis unfolding decode_login_start_def
    by (auto dest: decode_packet_progress decode_packet_suffix)
qed (use assms in \<open>simp_all add: decode_in_state_def\<close>)

interpretation state_stable: prefix_stable "decode_in_state state m" "\<lambda>r. r = Inl None" for state m
proof
  fix a r rest b assume d: "decode_in_state state m a = (r, rest)" and r: "r \<noteq> Inl None"
  show "decode_in_state state m (a @ b) = (r, rest @ b)"
  proof (cases state)
    case Handshaking
    obtain v t where v: "decode_handshake m a = (v, t)" by (cases "decode_handshake m a")
    then have "v \<noteq> Inl handshake_error.Incomplete" using d r Handshaking by (auto simp: decode_in_state_def)
    from handshake_stable.stable [OF v this, of b] v this d Handshaking show ?thesis
      by (cases v; cases "projl v") (simp_all add: decode_in_state_def)
  next
    case Status
    obtain v t where v: "decode_status_request m a = (v, t)" by (cases "decode_status_request m a")
    then have nv: "v \<noteq> Inr None" using d r Status by (auto simp: decode_in_state_def)
    note v' = status_request_stable [OF v nv, of b]
    show ?thesis
    proof (cases "\<exists>x. v = Inl (status_error.WrongPacketId 1 x)")
      case True
      then obtain x where x: "v = Inl (status_error.WrongPacketId 1 x)" ..
      obtain w u where w: "decode_ping_request m a = (w, u)" by (cases "decode_ping_request m a")
      then have "w \<noteq> Inr None" using d r Status v x by (auto simp: decode_in_state_def)
      from ping_request_stable [OF w this, of b] this w v v' x d Status show ?thesis
        by (cases w; cases "projr w") (simp_all add: decode_in_state_def)
    next
      case False
      then have no: "\<not> (case e of status_error.WrongPacketId received _ \<Rightarrow> received = 1 | _ \<Rightarrow> False)" if "v = Inl e" for e
        using that by (cases e) auto
      show ?thesis
      proof (cases v)
        case (Inl e)
        from no [OF Inl] v v' Inl d Status show ?thesis by (simp add: decode_in_state_def)
      next
        case (Inr x)
        with v v' nv d Status show ?thesis by (cases x) (simp_all add: decode_in_state_def split: unit.splits)
      qed
    qed
  next
    case Login
    obtain v t where v: "decode_login_start m a = (v, t)" by (cases "decode_login_start m a")
    then have "v \<noteq> Inr LoginIncomplete" using d r Login by (auto simp: decode_in_state_Login login_view_def)
    from decode_in_state_Login [OF login_start_stable [OF v this, of b]] decode_in_state_Login [OF v] d Login
    show ?thesis by simp
  qed (use d in \<open>simp_all add: decode_in_state_def\<close>)
qed

lemma try_decode_packet_Complete:
  "decode_in_state state m a = (Inr p, rest) \<Longrightarrow> try_decode_packet a state m = (DecComplete p, rest)"
  using decode_in_state_consumes [of state m a p rest] by (auto simp: try_decode_packet_def)

end
