(* ===== verification/Connection_Run.thy ===== *)
theory Connection_Run
  imports Connection
begin

section \<open>Running a connection (\<open>handle_connection\<close>)\<close>

text \<open>
  The loop of \<open>handle_connection\<close>: \<open>conn_drain\<close> goes round until the loop would read from the socket
  or has returned; \<open>conn_run\<close> gives it the results of the reads one after the other. The theorems
  say that how TCP cuts the client's bytes into reads does not matter, that the loop always gets
  back to the socket, and what a status exchange and an offline login come to.
\<close>

subsection \<open>Rounds\<close>

definition conn_feed :: "bytes \<Rightarrow> conn \<Rightarrow> conn" where
  "conn_feed bs c = c\<lparr>cn_buffer := cn_buffer c @ bs\<rparr>"

lemma conn_feed_sel [simp]:
  "cn_state (conn_feed bs c) = cn_state c" "cn_buffer (conn_feed bs c) = cn_buffer c @ bs"
  "cn_sent (conn_feed bs c) = cn_sent c"
  by (simp_all add: conn_feed_def)

lemma conn_feed_update [simp]:
  "(conn_feed bs c)\<lparr>cn_state := s\<rparr> = conn_feed bs (c\<lparr>cn_state := s\<rparr>)"
  "(conn_feed bs c)\<lparr>cn_sent := w\<rparr> = conn_feed bs (c\<lparr>cn_sent := w\<rparr>)"
  by (simp_all add: conn_feed_def)

lemma conn_feed_feed [simp]: "conn_feed b (conn_feed a c) = conn_feed (a @ b) c" "conn_feed [] c = c"
  by (simp_all add: conn_feed_def)

fun outcome_feed :: "bytes \<Rightarrow> conn_outcome \<Rightarrow> conn_outcome" where
  "outcome_feed bs (Again c) = Again (conn_feed bs c)"
| "outcome_feed bs (NeedRead c) = NeedRead (conn_feed bs c)"
| "outcome_feed bs (Ended r sent) = Ended r sent"
| "outcome_feed bs (EnterPlay s i sent) = EnterPlay s i sent"

lemma outcome_feed_Again [simp]: "outcome_feed bs out = Again c \<longleftrightarrow> (\<exists>d. out = Again d \<and> c = conn_feed bs d)"
  by (cases out) auto

text \<open>The buffer has no part in acting on a packet.\<close>

lemma conn_login_feed: "conn_login env config start (conn_feed bs c) = outcome_feed bs (conn_login env config start c)"
  by (simp add: conn_login_def Let_def split: sum.split prod.split login_step_result.split)

lemma conn_route_feed: "conn_route env config p (conn_feed bs c) = outcome_feed bs (conn_route env config p c)"
  by (cases "cn_state c"; cases p)
    (simp_all add: conn_route_def conn_login_feed split: prod.split sum.split)

lemma conn_login_Again_buffer: "conn_login env config start c = Again c' \<Longrightarrow> cn_buffer c' = cn_buffer c \<and> cn_state c' = cn_state c"
  by (auto simp: conn_login_def Let_def split: sum.splits prod.splits login_step_result.splits)

lemma conn_route_Again_buffer: "conn_route env config p c = Again c' \<Longrightarrow> cn_buffer c' = cn_buffer c"
  by (auto simp: conn_route_def split: protocol_state.splits decoded_packet.splits prod.splits sum.splits if_splits
      dest: conn_login_Again_buffer)

lemma conn_route_not_NeedRead: "conn_route env config p c \<noteq> NeedRead c'"
  by (auto simp: conn_route_def conn_login_def Let_def
      split: protocol_state.splits decoded_packet.splits prod.splits sum.splits login_step_result.splits)

lemma conn_round_cases:
  obtains
    (packet) p rest where "decode_in_state (cn_state c) (cnf_max_frame_length config) (cn_buffer c) = (Inr p, rest)"
      "conn_round env config c = conn_route env config p (c\<lparr>cn_buffer := rest\<rparr>)"
  | (wait) rest where "decode_in_state (cn_state c) (cnf_max_frame_length config) (cn_buffer c) = (Inl None, rest)"
      "conn_round env config c = NeedRead c"
  | (error) e rest where "decode_in_state (cn_state c) (cnf_max_frame_length config) (cn_buffer c) = (Inl (Some e), rest)"
      "conn_round env config c = Ended (Inl e) (cn_sent c)"
proof (cases "decode_in_state (cn_state c) (cnf_max_frame_length config) (cn_buffer c)")
  case (Pair r rest)
  consider "r = Inl None" | e where "r = Inl (Some e)" | p where "r = Inr p"
    by (cases r; cases "projl r") auto
  then show ?thesis
  proof cases
    case 1
    with Pair show ?thesis by (intro wait [of rest]) (simp_all add: conn_round_def try_decode_packet_def)
  next
    case (2 e)
    with Pair show ?thesis by (intro error [of e rest]) (simp_all add: conn_round_def try_decode_packet_def)
  next
    case (3 p)
    with Pair show ?thesis by (intro packet [of p rest]) (simp_all add: conn_round_def try_decode_packet_Complete)
  qed
qed

lemma conn_round_shrinks: "conn_round env config c = Again c' \<Longrightarrow> length (cn_buffer c') < length (cn_buffer c)"
  by (rule conn_round_cases [of c config env])
    (auto dest!: conn_route_Again_buffer decode_in_state_consumes)

lemma conn_round_NeedRead: "conn_round env config c = NeedRead c' \<Longrightarrow> c' = c"
  by (rule conn_round_cases [of c config env]) (auto simp: conn_route_not_NeedRead)

lemma conn_round_feed:
  assumes "\<And>c'. conn_round env config c \<noteq> NeedRead c'"
  shows "conn_round env config (conn_feed bs c) = outcome_feed bs (conn_round env config c)"
proof (rule conn_round_cases [of c config env])
  fix p rest
  assume d: "decode_in_state (cn_state c) (cnf_max_frame_length config) (cn_buffer c) = (Inr p, rest)"
    and r: "conn_round env config c = conn_route env config p (c\<lparr>cn_buffer := rest\<rparr>)"
  from state_stable.stable [OF d, of bs]
  have "conn_round env config (conn_feed bs c) = conn_route env config p (conn_feed bs (c\<lparr>cn_buffer := rest\<rparr>))"
    by (simp add: conn_round_def try_decode_packet_Complete conn_feed_def)
  then show ?thesis by (simp add: conn_route_feed r)
next
  fix e rest
  assume d: "decode_in_state (cn_state c) (cnf_max_frame_length config) (cn_buffer c) = (Inl (Some e), rest)"
    and r: "conn_round env config c = Ended (Inl e) (cn_sent c)"
  from state_stable.stable [OF d, of bs] show ?thesis
    unfolding r by (simp add: conn_round_def try_decode_packet_def)
qed (use assms in auto)

subsection \<open>Draining the buffer\<close>

function conn_drain :: "connection_env \<Rightarrow> connection_config \<Rightarrow> conn \<Rightarrow> conn_outcome" where
  "conn_drain env config c = (case conn_round env config c of Again c' \<Rightarrow> conn_drain env config c' | out \<Rightarrow> out)"
  by pat_completeness auto

termination by (relation "measure (\<lambda>(env, config, c). length (cn_buffer c))") (simp_all add: conn_round_shrinks)

declare conn_drain.simps [simp del]

lemma conn_drain_Again: "conn_round env config c = Again c' \<Longrightarrow> conn_drain env config c = conn_drain env config c'"
  by (simp add: conn_drain.simps [of env config c])

lemma conn_drain_stop: "(\<And>c'. conn_round env config c \<noteq> Again c') \<Longrightarrow> conn_drain env config c = conn_round env config c"
  by (simp add: conn_drain.simps [of env config c] split: conn_outcome.split)

lemma conn_drain_feed:
  "conn_drain env config (conn_feed bs c) =
    (case conn_drain env config c of NeedRead c' \<Rightarrow> conn_drain env config (conn_feed bs c') | out \<Rightarrow> out)"
proof (induction env config c rule: conn_drain.induct)
  case (1 env config c)
  show ?case
  proof (cases "conn_round env config c")
    case (Again c')
    then have "conn_round env config (conn_feed bs c) = Again (conn_feed bs c')" by (simp add: conn_round_feed)
    with 1 [OF Again] Again show ?thesis by (simp add: conn_drain_Again)
  next
    case (NeedRead c')
    with conn_round_NeedRead [OF this] show ?thesis by (simp add: conn_drain_stop [of env config c])
  qed (simp_all add: conn_drain_stop conn_round_feed)
qed

lemma conn_drain_not_Again: "conn_drain env config c \<noteq> Again c'"
proof (induction env config c rule: conn_drain.induct)
  case (1 env config c)
  then show ?case by (cases "conn_round env config c") (simp_all add: conn_drain_Again conn_drain_stop)
qed

subsection \<open>Reads\<close>

datatype read_event = ReadBytes bytes | ReadRetry | ReadFail std_io_error

fun conn_run :: "connection_env \<Rightarrow> connection_config \<Rightarrow> read_event list \<Rightarrow> conn \<Rightarrow> conn_outcome" where
  "conn_run env config [] c = conn_drain env config c"
| "conn_run env config (ev # evs) c =
    (case conn_drain env config c of
       NeedRead c' \<Rightarrow>
         (case ev of
            ReadBytes bs \<Rightarrow>
              if bs = [] then Ended (Inl RemoteDisconnected) (cn_sent c')
              else conn_run env config evs (conn_feed bs c')
          | ReadRetry \<Rightarrow> conn_run env config evs c'
          | ReadFail e \<Rightarrow> Ended (Inl (connection_error_from_io e)) (cn_sent c'))
     | out \<Rightarrow> out)"

definition handle_connection :: "connection_env \<Rightarrow> connection_config \<Rightarrow> read_event list \<Rightarrow> conn_outcome" where
  "handle_connection env config evs =
    conn_run env config evs \<lparr>cn_state = Handshaking, cn_buffer = [], cn_sent = []\<rparr>"

text \<open>The bytes of a run in which every read gave bytes or was to be retried.\<close>

fun read_bytes :: "read_event list \<Rightarrow> bytes option" where
  "read_bytes [] = Some []"
| "read_bytes (ReadBytes bs # evs) = (if bs = [] then None else map_option ((@) bs) (read_bytes evs))"
| "read_bytes (ReadRetry # evs) = read_bytes evs"
| "read_bytes (ReadFail e # evs) = None"

lemma conn_drain_idem: "conn_drain env config c = NeedRead c' \<Longrightarrow> conn_drain env config c' = NeedRead c'"
proof (induction env config c rule: conn_drain.induct)
  case (1 env config c)
  show ?case
  proof (cases "conn_round env config c")
    case (Again d)
    with 1 show ?thesis by (simp add: conn_drain_Again)
  next
    case (NeedRead d)
    with 1 conn_round_NeedRead [OF this] show ?thesis by (simp add: conn_drain_stop)
  qed (use 1 in \<open>simp_all add: conn_drain_stop\<close>)
qed

lemma conn_run_read_bytes:
  "read_bytes evs = Some bs \<Longrightarrow> conn_run env config evs c = conn_drain env config (conn_feed bs c)"
proof (induction evs arbitrary: bs c rule: read_bytes.induct)
  case 1
  then show ?case by simp
next
  case (2 b evs)
  then obtain bs' where b: "b \<noteq> []" "read_bytes evs = Some bs'" "bs = b @ bs'" by (auto split: if_splits)
  show ?case
  proof (cases "conn_drain env config c")
    case (NeedRead c')
    with 2(1) [OF b(1,2)] b show ?thesis by (simp add: conn_drain_feed [of _ _ _ c])
  qed (use b in \<open>simp_all add: conn_drain_feed [of _ _ _ c] conn_drain_not_Again\<close>)
next
  case (3 evs)
  show ?case
  proof (cases "conn_drain env config c")
    case (NeedRead c')
    with 3(1) [of bs c'] 3(2) show ?thesis by (simp add: conn_drain_feed [of _ _ _ c])
  qed (use 3(2) in \<open>simp_all add: conn_drain_feed [of _ _ _ c] conn_drain_not_Again\<close>)
next
  case 4
  then show ?case by simp
qed

subsection \<open>Single rounds\<close>

lemma round_handshake:
  assumes "cn_state c = Handshaking" "decode_handshake (cnf_max_frame_length config) (cn_buffer c) = (Inr h, rest)"
  shows "conn_round env config c = Again (c\<lparr>cn_buffer := rest, cn_state := target_state (hs_next_state h)\<rparr>)"
proof -
  have "decode_in_state Handshaking (cnf_max_frame_length config) (cn_buffer c) = (Inr (DecHandshake h), rest)"
    by (simp add: decode_in_state_Handshaking assms(2))
  with assms(1) show ?thesis by (simp add: conn_round_def try_decode_packet_Complete conn_route_def)
qed

lemma conn_write_ok: "(\<And>a b. env_write_fails env a b = None) \<Longrightarrow> conn_write env w sent = (Inr (), sent @ w)"
  by (simp add: conn_write_def)

lemma round_status_request:
  assumes "cn_state c = Status" "decode_status_request (cnf_max_frame_length config) (cn_buffer c) = (Inr (Some ()), rest)"
    and "\<And>a b. env_write_fails env a b = None"
    and "encode_status_response (env_to_json env) (live_status_response env config) (cnf_max_frame_length config) [] = (Inr u, w)"
  shows "conn_round env config c = Again (c\<lparr>cn_buffer := rest, cn_sent := cn_sent c @ w\<rparr>)"
proof -
  have "decode_in_state Status (cnf_max_frame_length config) (cn_buffer c) = (Inr DecStatusRequest, rest)"
    by (simp add: decode_in_state_def assms(2) split: unit.split)
  with assms show ?thesis
    by (simp add: conn_round_def try_decode_packet_Complete conn_route_def handle_status_packet_def
        encode_fresh_def st_bind_def conn_write_ok)
qed

lemma ping_not_status_request:
  assumes "decode_ping_request m a = (Inr (Some v), rest)"
  shows "decode_status_request m a = (Inl (status_error.WrongPacketId 1 0), a)"
  using assms
  by (auto simp: decode_ping_request_def decode_status_request_def decode_packet_def parse_ping_body_def
      validate_status_request_frame_def PING_PACKET_ID_def STATUS_PACKET_ID_def
      split: prod.splits sum.splits decode_outcome.splits if_splits)

lemma round_ping:
  assumes "cn_state c = Status" "decode_ping_request (cnf_max_frame_length config) (cn_buffer c) = (Inr (Some v), rest)"
    and "\<And>a b. env_write_fails env a b = None"
    and "encode_pong_response v (cnf_max_frame_length config) [] = (Inr u, w)"
  shows "conn_round env config c = Ended (Inr ()) (cn_sent c @ w)"
proof -
  have "decode_in_state Status (cnf_max_frame_length config) (cn_buffer c) = (Inr (DecPing v), rest)"
    by (simp add: decode_in_state_def assms(2) ping_not_status_request [OF assms(2)])
  with assms show ?thesis
    by (simp add: conn_round_def try_decode_packet_Complete conn_route_def handle_status_packet_def
        encode_fresh_def st_bind_def conn_write_ok)
qed

lemma round_login_start:
  assumes "cn_state c = Login"
    and "decode_login_start (cnf_max_frame_length config) (cn_buffer c) = (Inr (LoginComplete (LoginStart p)), rest)"
  shows "conn_round env config c = conn_login env config p (c\<lparr>cn_buffer := rest\<rparr>)"
  using assms
  by (simp add: conn_round_def conn_route_def
      try_decode_packet_Complete [of Login _ _ "DecLoginStart p" rest] decode_in_state_Login login_view_def)

text \<open>An offline Login Start that fits the frame limit is accepted by the machine made for it.\<close>

lemma conn_login_offline:
  assumes "utf8_valid (lst_username p)" "encode_login_start p (cnf_max_frame_length config) [] = (Inr u, w)"
    and "\<not> cnf_online_mode config"
  shows "\<exists>out. conn_login env config p c =
      (case send_login_success env config out (cn_sent c) of
         (Inl e, sent) \<Rightarrow> Ended (Inl e) sent
       | (Inr _, sent) \<Rightarrow> EnterPlay (play_session_config env config (lst_username p)) (env_next_entity_id env) sent)
    \<and> decode_login_success (cnf_max_frame_length config) out =
      (Inr (LoginComplete (LoginSuccess \<lparr>lsu_uuid = uuid_new 0 0, lsu_username = lst_username p, lsu_properties = []\<rparr>)), [])"
proof -
  let ?lc = "\<lparr>lc_online_mode = cnf_online_mode config, lc_compression_threshold = cnf_compression_threshold config,
    lc_max_frame_length = cnf_max_frame_length config, lc_offline_uuid = uuid_new 0 0\<rparr>"
  have "encode_login_start p (lc_max_frame_length ?lc) [] = (Inr (), w)" using assms(2) by simp
  from offline_login_frame [OF assms(1) this, of "[]"] assms(3) obtain out where
    "handle_login_start (lm_new ?lc) (w @ []) = (Inr (Success out Play),
       \<lparr>lm_phase = LoginDone, lm_config = ?lc, lm_username = Some (lst_username p)\<rparr>, [])"
    and "decode_login_success (lc_max_frame_length ?lc) out = (Inr (LoginComplete (LoginSuccess
      \<lparr>lsu_uuid = lc_offline_uuid ?lc, lsu_username = lst_username p, lsu_properties = []\<rparr>)), [])"
    by auto
  then show ?thesis
    by (intro exI [of _ out]) (simp add: conn_login_def Let_def encode_fresh_def assms(2) split: prod.split sum.split)
qed

text \<open>A configuration and an environment to run the examples in.\<close>

definition sample_config :: connection_config where
  "sample_config = \<lparr>cnf_status_response = default_status_response, cnf_online_mode = False,
    cnf_max_frame_length = 65536, cnf_compression_threshold = -1, cnf_play_read_timeout = 5,
    cnf_max_players = 20, cnf_default_gamemode = 0, cnf_view_distance = 10, cnf_simulation_distance = 10,
    cnf_keep_alive_timeout = 30, cnf_enabled_dimensions = dimension_set_default\<rparr>"

definition sample_env :: connection_env where
  "sample_env = \<lparr>env_to_json = (\<lambda>_. Inr (ascii ''{}'')), env_deflate = Inr,
    env_md5 = (\<lambda>b. take 16 (b @ replicate 16 0)), env_write_fails = (\<lambda>_ _. None), env_player_count = 3,
    env_next_entity_id = 7\<rparr>"

subsection \<open>Properties\<close>

text \<open>
  C11: How the client's bytes arrive makes no difference: two sequences of reads that deliver the same
  bytes, cut differently and with time-outs anywhere between them, bring the connection to the same
  point with the same bytes sent, be that waiting for more, an error, the end or the play loop.
\<close>

theorem segmentation_irrelevant:
  assumes "read_bytes evs = Some bs" "read_bytes evs' = Some bs"
  shows "handle_connection env config evs = handle_connection env config evs'"
  by (simp add: handle_connection_def conn_run_read_bytes [OF assms(1)] conn_run_read_bytes [OF assms(2)])

theorem segmentation_irrelevant_witness:
  "handle_connection sample_env sample_config [ReadBytes [2, 0], ReadRetry, ReadBytes [7]] =
   handle_connection sample_env sample_config [ReadRetry, ReadBytes [2], ReadBytes [0, 7]]"
  by (rule segmentation_irrelevant [of _ "[2, 0, 7]"]) simp_all

lemma target_state_cases: "target_state s = Status \<or> target_state s = Login"
  by (cases s) (simp_all add: target_state_def)

lemma st_bind_conn_write_prefix:
  assumes "conn_write env w sent = (r, sent')"
  shows "\<exists>more. sent' = sent @ more"
  using assms by (auto simp: conn_write_def split: option.splits)

lemma handle_status_packet_sent:
  assumes "handle_status_packet env p resp m sent = (r, sent')"
  shows "(\<exists>more. sent' = sent @ more) \<and> (\<forall>s. r = Inr s \<longrightarrow> s = Status \<or> s = Closed)"
  using assms
  by (cases p) (auto simp: handle_status_packet_def st_bind_def conn_write_def split: sum.splits option.splits)

lemma send_all_prefix: "send_all env ws sent = (r, sent') \<Longrightarrow> \<exists>more. sent' = sent @ more"
  by (induction ws arbitrary: sent)
    (auto simp: send_all_def st_bind_def conn_write_def split: option.splits prod.splits sum.splits, (metis append.assoc)+)

lemma send_login_success_prefix:
  "send_login_success env config out sent = (r, sent') \<Longrightarrow> \<exists>more. sent' = sent @ more"
  by (auto simp: send_login_success_def Let_def st_bind_def conn_write_def
      split: option.splits prod.splits sum.splits decode_outcome.splits if_splits)

definition outcome_sent :: "conn_outcome \<Rightarrow> bytes" where
  "outcome_sent out = (case out of Again c \<Rightarrow> cn_sent c | NeedRead c \<Rightarrow> cn_sent c | Ended _ s \<Rightarrow> s | EnterPlay _ _ s \<Rightarrow> s)"

lemma conn_login_sent: "\<exists>more. outcome_sent (conn_login env config start c) = cn_sent c @ more"
  by (auto simp: conn_login_def Let_def outcome_sent_def
      dest: send_login_success_prefix send_all_prefix st_bind_conn_write_prefix
      split: sum.splits prod.splits login_step_result.splits)

lemma conn_route_sent: "\<exists>more. outcome_sent (conn_route env config p c) = cn_sent c @ more"
proof (cases "cn_state c")
  case Status
  obtain r sent where h: "handle_status_packet env p (live_status_response env config)
      (cnf_max_frame_length config) (cn_sent c) = (r, sent)"
    by (meson surj_pair)
  from handle_status_packet_sent [OF h] Status show ?thesis
    by (auto simp: conn_route_def h outcome_sent_def split: sum.split)
next
  case Login
  then show ?thesis
    using conn_login_sent [of env config _ c] by (cases p) (auto simp: conn_route_def outcome_sent_def)
qed (auto simp: conn_route_def outcome_sent_def split: decoded_packet.split)

lemma conn_route_state:
  "conn_route env config p c = Again c' \<Longrightarrow> cn_state c' = Status \<or> cn_state c' = Login"
  by (auto simp: conn_route_def split: protocol_state.splits decoded_packet.splits prod.splits sum.splits if_splits
      dest: conn_login_Again_buffer dest!: handle_status_packet_sent) (metis target_state_cases)

lemma conn_round_sent: "\<exists>more. outcome_sent (conn_round env config c) = cn_sent c @ more"
proof (rule conn_round_cases [of c config env])
  fix p rest assume "conn_round env config c = conn_route env config p (c\<lparr>cn_buffer := rest\<rparr>)"
  then show ?thesis using conn_route_sent [of env config p "c\<lparr>cn_buffer := rest\<rparr>"] by simp
qed (simp_all add: outcome_sent_def)

lemma conn_round_Again:
  assumes "conn_round env config c = Again c'"
  shows "(\<exists>used. used \<noteq> [] \<and> cn_buffer c = used @ cn_buffer c') \<and> (cn_state c' = Status \<or> cn_state c' = Login)"
proof (rule conn_round_cases [of c config env])
  fix p rest
  assume d: "decode_in_state (cn_state c) (cnf_max_frame_length config) (cn_buffer c) = (Inr p, rest)"
    and "conn_round env config c = conn_route env config p (c\<lparr>cn_buffer := rest\<rparr>)"
  with assms have r: "conn_route env config p (c\<lparr>cn_buffer := rest\<rparr>) = Again c'" by simp
  from decode_in_state_consumes [OF d] conn_route_Again_buffer [OF r] conn_route_state [OF r]
  show ?thesis by auto
qed (use assms in simp_all)

text \<open>
  C12: The loop always comes back to the socket or returns: from any buffer it stops after finitely
  many packets, having consumed a prefix of the buffer and only added to what was sent; it then
  waits in a state the protocol reads in (never Play or Closed) with a buffer in which that
  state's decoder finds no packet yet, or it has returned.
\<close>

theorem drain_stops:
  "(\<exists>more. outcome_sent (conn_drain env config c) = cn_sent c @ more)
   \<and> (case conn_drain env config c of
        Again _ \<Rightarrow> False
      | NeedRead c' \<Rightarrow>
          (\<exists>used. cn_buffer c = used @ cn_buffer c')
          \<and> fst (decode_in_state (cn_state c') (cnf_max_frame_length config) (cn_buffer c')) = Inl None
          \<and> (cn_state c' = cn_state c \<or> cn_state c' = Status \<or> cn_state c' = Login)
          \<and> cn_state c' \<noteq> Play \<and> cn_state c' \<noteq> Closed
      | _ \<Rightarrow> True)"
proof (induction env config c rule: conn_drain.induct)
  case (1 env config c)
  show ?case
  proof (cases "conn_round env config c")
    case (Again c')
    from 1 [OF Again] conn_round_Again [OF Again] conn_round_sent [of env config c] Again show ?thesis
      by (auto simp: conn_drain_Again outcome_sent_def split: conn_outcome.splits)
  next
    case (NeedRead c')
    from conn_round_NeedRead [OF NeedRead] have [simp]: "c' = c" .
    have "\<exists>rest. decode_in_state (cn_state c) (cnf_max_frame_length config) (cn_buffer c) = (Inl None, rest)"
      by (rule conn_round_cases [of c config env]) (use NeedRead in \<open>auto simp: conn_route_not_NeedRead dest: sym\<close>)
    then show ?thesis
      using NeedRead by (auto simp: conn_drain_stop outcome_sent_def decode_in_state_def)
  next
    case (Ended r s)
    then show ?thesis using conn_round_sent [of env config c] by (simp add: conn_drain_stop)
  next
    case (EnterPlay a b s)
    then show ?thesis using conn_round_sent [of env config c] by (simp add: conn_drain_stop)
  qed
qed

text \<open>
  C13: A server-list ping. A handshake for Status, a status request and a ping with payload \<open>v\<close>,
  delivered in any reads and followed by anything, get exactly two packets, the status response
  with the live player count and the configured maximum, then the pong with the ping's own
  bytes; the connection then ends without an error and what followed is not read.
\<close>

theorem status_exchange:
  assumes "utf8_valid (hs_server_address h)" "hs_next_state h = NextStatus"
    and "encode_handshake h (cnf_max_frame_length config) [] = (Inr u1, hw)"
    and "encode_frame STATUS_PACKET_ID [] (cnf_max_frame_length config) [] = (Inr u2, rw)"
    and "encode_pong_response v (cnf_max_frame_length config) [] = (Inr u3, pw)"
    and "encode_status_response (env_to_json env)
        ((cnf_status_response config)\<lparr>sr_players := (sr_players (cnf_status_response config))
          \<lparr>sp_online := word_of_nat (min (env_player_count env) (2 ^ 31 - 1)), sp_max := cnf_max_players config\<rparr>\<rparr>)
        (cnf_max_frame_length config) [] = (Inr u4, sw)"
    and "\<And>a b. env_write_fails env a b = None"
    and "read_bytes evs = Some (hw @ rw @ pw @ extra)"
  shows "handle_connection env config evs = Ended (Inr ()) (sw @ pw)"
proof -
  let ?m = "cnf_max_frame_length config"
  let ?c = "\<lambda>s b w. \<lparr>cn_state = s, cn_buffer = b, cn_sent = w\<rparr>"
  have live: "live_status_response env config = (cnf_status_response config)
      \<lparr>sr_players := (sr_players (cnf_status_response config))
        \<lparr>sp_online := word_of_nat (min (env_player_count env) (2 ^ 31 - 1)), sp_max := cnf_max_players config\<rparr>\<rparr>"
    by (simp add: live_status_response_def i32_of_usize_def i32_max_def min_def)
  have h: "decode_handshake ?m (hw @ rw @ pw @ extra) = (Inr h, rw @ pw @ extra)"
    by (rule handshake.roundtrip [OF assms(1,3)])
  have r: "decode_status_request ?m (rw @ pw @ extra) = (Inr (Some ()), pw @ extra)"
  proof -
    from assms(4) have "rw = frame_bytes STATUS_PACKET_ID []"
      and "var_int_length STATUS_PACKET_ID + length ([] :: bytes) \<le> effective_max_length ?m"
      by (auto simp: encode_frame_Inr)
    then show ?thesis
      by (simp add: decode_status_request_def decode_packet_def decode_frame_bytes validate_status_request_frame_def)
  qed
  have p: "decode_ping_request ?m (pw @ extra) = (Inr (Some v), extra)"
    by (rule ping.roundtrip [OF TrueI assms(5)])
  have "conn_drain env config (?c Handshaking (hw @ rw @ pw @ extra) [])
      = conn_drain env config (?c Status (rw @ pw @ extra) [])"
    by (rule conn_drain_Again) (use h assms(2) in \<open>simp add: round_handshake target_state_def\<close>)
  also have "\<dots> = conn_drain env config (?c Status (pw @ extra) sw)"
    by (rule conn_drain_Again) (use r assms(6,7) in \<open>simp add: round_status_request live\<close>)
  also have "\<dots> = Ended (Inr ()) (sw @ pw)"
    using p assms(5,7) by (simp add: conn_drain_stop round_ping)
  finally show ?thesis
    by (simp add: handle_connection_def conn_run_read_bytes [OF assms(8)] conn_feed_def)
qed

definition status_handshake :: handshake_packet where
  "status_handshake = \<lparr>hs_protocol_version = 763, hs_server_address = ascii ''localhost'', hs_port = 25565,
    hs_next_state = NextStatus\<rparr>"

lemma encoded_ex: "fst (enc []) = Inr () \<Longrightarrow> \<exists>w. enc [] = (Inr (), w)"
  by (metis prod.collapse)

theorem status_exchange_witness:
  "\<exists>sw pw evs. encode_pong_response 42 65536 [] = (Inr (), pw)
    \<and> handle_connection sample_env sample_config evs = Ended (Inr ()) (sw @ pw)"
proof -
  have "fst (encode_handshake status_handshake 65536 []) = Inr ()"
    by (simp add: packet_eval encode_handshake_def handshake_body_def status_handshake_def encode_u16_def
        MAX_SERVER_ADDRESS_UTF16_UNITS_def HANDSHAKE_PACKET_ID_def next_state_wire_value_def to_be_bytes_def to_le_bytes_def)
  then obtain hw where h: "encode_handshake status_handshake 65536 [] = (Inr (), hw)"
    using encoded_ex by blast
  have "fst (encode_frame STATUS_PACKET_ID [] 65536 []) = Inr ()"
    by (simp add: packet_eval STATUS_PACKET_ID_def)
  then obtain rw where r: "encode_frame STATUS_PACKET_ID [] 65536 [] = (Inr (), rw)"
    using encoded_ex by blast
  have "fst (encode_pong_response 42 65536 []) = Inr ()"
    by (simp add: packet_eval encode_pong_response_def PING_PACKET_ID_def encode_i64_def to_be_bytes_def to_le_bytes_def)
  then obtain pw where p: "encode_pong_response 42 65536 [] = (Inr (), pw)"
    using encoded_ex by blast
  have "fst (encode_status_response (env_to_json sample_env) resp 65536 []) = Inr ()" for resp
    by (simp add: sample_env_def packet_eval encode_status_response_def MAX_STATUS_JSON_UTF16_UNITS_def STATUS_PACKET_ID_def)
  then obtain sw where s: "encode_status_response (env_to_json sample_env)
      ((cnf_status_response sample_config)\<lparr>sr_players := (sr_players (cnf_status_response sample_config))
          \<lparr>sp_online := word_of_nat (min (env_player_count sample_env) (2 ^ 31 - 1)), sp_max := cnf_max_players sample_config\<rparr>\<rparr>)
       65536 [] = (Inr (), sw)"
    using encoded_ex by blast
  have m: "cnf_max_frame_length sample_config = 65536" by (simp add: sample_config_def)
  have "handle_connection sample_env sample_config [ReadBytes (hw @ rw @ pw @ [1])] = Ended (Inr ()) (sw @ pw)"
  proof (rule status_exchange [where h = status_handshake and v = 42 and env = sample_env and config = sample_config])
    show "utf8_valid (hs_server_address status_handshake)"
      by (simp add: status_handshake_def packet_eval)
    show "encode_handshake status_handshake (cnf_max_frame_length sample_config) [] = (Inr (), hw)" using h by (simp add: m)
    show "encode_frame STATUS_PACKET_ID [] (cnf_max_frame_length sample_config) [] = (Inr (), rw)" using r by (simp add: m)
    show "encode_pong_response 42 (cnf_max_frame_length sample_config) [] = (Inr (), pw)" using p by (simp add: m)
    show "read_bytes [ReadBytes (hw @ rw @ pw @ [1])] = Some (hw @ rw @ pw @ [1])" by simp
  qed (use s in \<open>simp_all add: m sample_env_def status_handshake_def\<close>)
  with p show ?thesis by blast
qed

text \<open>
  An offline login without compression: a handshake for Login and a Login Start, in any reads, get one packet, and the
  connection is in the play loop.
\<close>

lemma offline_login_plain:
  assumes "utf8_valid (hs_server_address h)" "hs_next_state h = NextLogin"
    and "encode_handshake h (cnf_max_frame_length config) [] = (Inr u1, hw)"
    and "utf8_valid (lst_username p)" "encode_login_start p (cnf_max_frame_length config) [] = (Inr u2, lw)"
    and "\<not> cnf_online_mode config" "sint (cnf_compression_threshold config) < 0"
    and "\<And>a b. env_write_fails env a b = None"
    and "read_bytes evs = Some (hw @ lw @ extra)"
  shows "\<exists>sc sent. handle_connection env config evs = EnterPlay sc (env_next_entity_id env) sent
    \<and> sc_username sc = lst_username p
    \<and> sc_uuid sc = offline_uuid_from_username (env_md5 env) (lst_username p)
    \<and> decode_login_success (cnf_max_frame_length config) sent =
      (Inr (LoginComplete (LoginSuccess \<lparr>lsu_uuid = uuid_new 0 0, lsu_username = lst_username p, lsu_properties = []\<rparr>)), [])"
proof -
  let ?m = "cnf_max_frame_length config"
  let ?c = "\<lambda>s b w. \<lparr>cn_state = s, cn_buffer = b, cn_sent = w\<rparr>"
  have h: "decode_handshake ?m (hw @ lw @ extra) = (Inr h, lw @ extra)"
    by (rule handshake.roundtrip [OF assms(1,3)])
  have l: "decode_login_start ?m (lw @ extra) = (Inr (LoginComplete (LoginStart p)), extra)"
    by (rule login_start.roundtrip [OF assms(4,5)])
  obtain out where cl: "conn_login env config p (?c Login extra []) =
      (case send_login_success env config out [] of
         (Inl e, sent) \<Rightarrow> Ended (Inl e) sent
       | (Inr _, sent) \<Rightarrow> EnterPlay (play_session_config env config (lst_username p)) (env_next_entity_id env) sent)"
    and dec: "decode_login_success ?m out =
      (Inr (LoginComplete (LoginSuccess \<lparr>lsu_uuid = uuid_new 0 0, lsu_username = lst_username p, lsu_properties = []\<rparr>)), [])"
    using conn_login_offline [OF assms(4,5,6), of env "?c Login extra []"] by auto
  have "conn_drain env config (?c Handshaking (hw @ lw @ extra) [])
      = conn_drain env config (?c Login (lw @ extra) [])"
    by (rule conn_drain_Again) (use h assms(2) in \<open>simp add: round_handshake target_state_def\<close>)
  also have "\<dots> = EnterPlay (play_session_config env config (lst_username p)) (env_next_entity_id env) out"
    using round_login_start [of "?c Login (lw @ extra) []" config p extra env] l assms(7)
    by (simp add: conn_drain_stop cl send_login_success_def conn_write_ok [OF assms(8)])
  finally show ?thesis
    using dec by (simp add: handle_connection_def conn_run_read_bytes [OF assms(9)] conn_feed_def play_session_config_def)
qed

text \<open>
  C38: A broken first frame is waited on for ever. When the client's first bytes are not the start of any
  frame (an overlong or negative length, a length beyond the limit), the handshake decoder calls
  that incomplete, and so the connection neither answers nor closes: it goes on reading and
  keeps every byte, whatever follows.
\<close>

theorem broken_first_frame_waits:
  assumes "decode_frame (cnf_max_frame_length config) bad = (Inl e, rest)" "read_bytes evs = Some (bad @ tail)"
  shows "handle_connection env config evs =
    NeedRead \<lparr>cn_state = Handshaking, cn_buffer = bad @ tail, cn_sent = []\<rparr>"
proof -
  have "decode_frame (cnf_max_frame_length config) (bad @ tail) = (Inl e, rest @ tail)"
    by (rule frame_stable.stable [OF assms(1)]) simp
  then have "decode_in_state Handshaking (cnf_max_frame_length config) (bad @ tail) = (Inl None, rest @ tail)"
    by (simp add: decode_in_state_def decode_handshake_def)
  then show ?thesis
    by (simp add: handle_connection_def conn_run_read_bytes [OF assms(2)] conn_feed_def conn_drain_stop
        conn_round_def try_decode_packet_def)
qed

theorem broken_first_frame_waits_witness:
  "handle_connection sample_env sample_config [ReadBytes [0, 1], ReadBytes [2]] =
    NeedRead \<lparr>cn_state = Handshaking, cn_buffer = [0, 1, 2], cn_sent = []\<rparr>"
proof -
  have "decode_frame (cnf_max_frame_length sample_config) [0] = (Inl ZeroFrameLength, [0])"
    by (simp add: decode_frame_def decode_var_int_spec var_value.simps MAX_LENGTH_PREFIX_BYTES_def usize_of_i32_def)
  from broken_first_frame_waits [OF this, of "[ReadBytes [0, 1], ReadBytes [2]]" "[1, 2]"] show ?thesis by simp
qed

end
