(* ===== verification/Play_Player.thy ===== *)
theory Play_Player
  imports Play_Types
begin

section \<open>Play packets of the player (\<open>play.rs\<close>)\<close>

text \<open>
  Joining, movement, keep-alive, client settings, health, respawn and disconnect. Each encoder is
  the list of its fields (\<open>_body\<close>), each decoder the fields in the same order (\<open>_fields\<close>), and each
  packet with both is a \<open>framed_packet\<close>.
\<close>

subsection \<open>Join Game\<close>

definition encode_string_list :: "rstring list \<Rightarrow> nat \<Rightarrow> nat \<Rightarrow> play_error encoder" where
  "encode_string_list names max_count n =
    (case i32_of_usize (length names) of
       None \<Rightarrow> st_fail (Codec VarIntTooLong)
     | Some count \<Rightarrow>
       if length names > max_count then st_fail (Codec StringTooLong)
       else enc_all [st_mod (encode_var_int count), enc_all (map (\<lambda>name. play_codec (encode_string name n)) names)])"

definition decode_string_list :: "nat \<Rightarrow> nat \<Rightarrow> (play_error, rstring list) decoder" where
  "decode_string_list max_count n =
    st_bind (play_codec decode_var_int) (\<lambda>raw.
    case usize_of_i32 raw of
      None \<Rightarrow> st_fail (Codec VarIntTooLong)
    | Some count \<Rightarrow> if count > max_count then st_fail (Codec StringTooLong)
        else dec_times count (play_codec (decode_string n)))"

text \<open>Raw NBT of bounded size, and the death location that is there when its flag is set.\<close>

definition encode_bounded_nbt :: "bytes \<Rightarrow> nat \<Rightarrow> play_error encoder" where
  "encode_bounded_nbt nbt max_size =
    (if length nbt > max_size then st_fail (Codec StringTooLong) else st_mod (\<lambda>body. body @ nbt))"

definition decode_bounded_nbt :: "nat \<Rightarrow> nat \<Rightarrow> (play_error, bytes) decoder" where
  "decode_bounded_nbt fuel max_size =
    st_bind (play_nbt (read_nbt_compound fuel)) (\<lambda>nbt.
    if length nbt > max_size then st_fail (Codec StringTooLong) else st_ret nbt)"

definition encode_death_location :: "bool \<Rightarrow> rstring \<Rightarrow> i32 \<times> i32 \<times> i32 \<Rightarrow> nat \<Rightarrow> play_error encoder" where
  "encode_death_location has name loc n =
    (if has then enc_all [play_codec (encode_string name n), st_mod (encode_position3 loc)] else st_ret ())"

definition decode_death_location :: "bool \<Rightarrow> nat \<Rightarrow> (play_error, rstring \<times> (i32 \<times> i32 \<times> i32)) decoder" where
  "decode_death_location has n =
    (if has then
       st_bind (play_codec (decode_string n)) (\<lambda>name.
       st_bind (play_codec decode_position) (\<lambda>pos. st_ret (name, pos)))
     else st_ret ([], (0, 0, 0)))"

definition previous_gamemode_wire :: "game_mode option \<Rightarrow> i8" where
  "previous_gamemode_wire g = (case g of None \<Rightarrow> -1 | Some g \<Rightarrow> game_mode_to_wire g)"

definition decode_previous_gamemode :: "(play_error, game_mode option) decoder" where
  "decode_previous_gamemode =
    st_bind (play_codec decode_i8) (\<lambda>byte.
    if byte = -1 then st_ret None
    else case game_mode_from_wire byte of None \<Rightarrow> st_fail (Codec InvalidBoolean) | Some g \<Rightarrow> st_ret (Some g))"

definition join_game_body :: "join_game \<Rightarrow> play_error encoder" where
  "join_game_body p = enc_all
    [st_mod (encode_i32 (jg_entity_id p)),
     st_mod (encode_bool (jg_is_hardcore p)),
     st_mod (encode_u8 (game_mode_to_wire (jg_gamemode p))),
     st_mod (encode_i8 (previous_gamemode_wire (jg_previous_gamemode p))),
     encode_string_list (jg_dimension_names p) MAX_DIMENSION_NAMES MAX_IDENTIFIER_LENGTH,
     encode_bounded_nbt (jg_registry_codec p) MAX_REGISTRY_CODEC_SIZE,
     play_codec (encode_string (jg_dimension_type p) MAX_IDENTIFIER_LENGTH),
     play_codec (encode_string (jg_dimension_name p) MAX_IDENTIFIER_LENGTH),
     st_mod (encode_i64 (jg_hashed_seed p)),
     st_mod (encode_var_int (jg_max_players p)),
     st_mod (encode_var_int (jg_view_distance p)),
     st_mod (encode_var_int (jg_simulation_distance p)),
     st_mod (encode_bool (jg_reduce_debug_info p)),
     st_mod (encode_bool (jg_enable_respawn_screen p)),
     st_mod (encode_bool (jg_is_debug p)),
     st_mod (encode_bool (jg_is_flat p)),
     st_mod (encode_bool (jg_has_death_location p)),
     encode_death_location (jg_has_death_location p) (jg_death_dimension_name p) (jg_death_location p)
       MAX_IDENTIFIER_LENGTH,
     st_mod (encode_var_int (jg_portal_cooldown p))]"

definition encode_join_game :: "join_game \<Rightarrow> nat \<Rightarrow> play_error encoder" where
  "encode_join_game p m = encode_play_frame JOIN_GAME_PACKET_ID (join_game_body p) m"

definition join_game_fields :: "nat \<Rightarrow> (play_error, join_game) decoder" where
  "join_game_fields fuel =
    st_bind (play_codec decode_i32) (\<lambda>entity_id.
    st_bind (play_codec decode_bool) (\<lambda>is_hardcore.
    st_bind (play_enum decode_u8 game_mode_from_wire) (\<lambda>gamemode.
    st_bind decode_previous_gamemode (\<lambda>previous_gamemode.
    st_bind (decode_string_list MAX_DIMENSION_NAMES MAX_IDENTIFIER_LENGTH) (\<lambda>dimension_names.
    st_bind (decode_bounded_nbt fuel MAX_REGISTRY_CODEC_SIZE) (\<lambda>registry_codec.
    st_bind (play_codec (decode_string MAX_IDENTIFIER_LENGTH)) (\<lambda>dimension_type.
    st_bind (play_codec (decode_string MAX_IDENTIFIER_LENGTH)) (\<lambda>dimension_name.
    st_bind (play_codec decode_i64) (\<lambda>hashed_seed.
    st_bind (play_codec decode_var_int) (\<lambda>max_players.
    st_bind (play_codec decode_var_int) (\<lambda>view_distance.
    st_bind (play_codec decode_var_int) (\<lambda>simulation_distance.
    st_bind (play_codec decode_bool) (\<lambda>reduce_debug_info.
    st_bind (play_codec decode_bool) (\<lambda>enable_respawn_screen.
    st_bind (play_codec decode_bool) (\<lambda>is_debug.
    st_bind (play_codec decode_bool) (\<lambda>is_flat.
    st_bind (play_codec decode_bool) (\<lambda>has_death_location.
    st_bind (decode_death_location has_death_location MAX_IDENTIFIER_LENGTH) (\<lambda>death.
    st_bind (play_codec decode_var_int) (\<lambda>portal_cooldown.
    st_ret \<lparr>jg_entity_id = entity_id, jg_is_hardcore = is_hardcore, jg_gamemode = gamemode,
      jg_previous_gamemode = previous_gamemode, jg_dimension_names = dimension_names,
      jg_registry_codec = registry_codec, jg_dimension_type = dimension_type,
      jg_dimension_name = dimension_name, jg_hashed_seed = hashed_seed, jg_max_players = max_players,
      jg_view_distance = view_distance, jg_simulation_distance = simulation_distance,
      jg_reduce_debug_info = reduce_debug_info, jg_enable_respawn_screen = enable_respawn_screen,
      jg_is_debug = is_debug, jg_is_flat = is_flat, jg_has_death_location = has_death_location,
      jg_death_dimension_name = fst death, jg_death_location = snd death,
      jg_portal_cooldown = portal_cooldown\<rparr>)))))))))))))))))))"

definition decode_join_game :: "nat \<Rightarrow> nat \<Rightarrow> (play_error, play_decode_outcome) decoder" where
  "decode_join_game fuel m = decode_play_fields JOIN_GAME_PACKET_ID (join_game_fields fuel) JoinGame m"

subsection \<open>Keep Alive\<close>

definition encode_keep_alive_clientbound :: "keep_alive \<Rightarrow> nat \<Rightarrow> play_error encoder" where
  "encode_keep_alive_clientbound p m =
    encode_play_frame KEEP_ALIVE_CLIENTBOUND_PACKET_ID (enc_all [st_mod (encode_i64 (ka_payload p))]) m"

definition encode_keep_alive_serverbound :: "keep_alive \<Rightarrow> nat \<Rightarrow> play_error encoder" where
  "encode_keep_alive_serverbound p m =
    encode_play_frame KEEP_ALIVE_SERVERBOUND_PACKET_ID (enc_all [st_mod (encode_i64 (ka_payload p))]) m"

definition keep_alive_fields :: "(play_error, keep_alive) decoder" where
  "keep_alive_fields =
    st_bind (play_codec decode_i64) (\<lambda>payload. st_ret \<lparr>ka_payload = payload\<rparr>)"

definition decode_keep_alive :: "nat \<Rightarrow> i32 \<Rightarrow> bool \<Rightarrow> (play_error, play_decode_outcome) decoder" where
  "decode_keep_alive m expected_id clientbound =
    decode_play_fields expected_id keep_alive_fields
      (\<lambda>p. if clientbound then KeepAliveClientbound p else KeepAliveServerbound p) m"

definition decode_keep_alive_clientbound :: "nat \<Rightarrow> (play_error, play_decode_outcome) decoder" where
  "decode_keep_alive_clientbound m = decode_keep_alive m KEEP_ALIVE_CLIENTBOUND_PACKET_ID True"

definition decode_keep_alive_serverbound :: "nat \<Rightarrow> (play_error, play_decode_outcome) decoder" where
  "decode_keep_alive_serverbound m = decode_keep_alive m KEEP_ALIVE_SERVERBOUND_PACKET_ID False"

subsection \<open>Movement, settings and health\<close>

definition set_player_position_body :: "set_player_position \<Rightarrow> play_error encoder" where
  "set_player_position_body p = enc_all
    [st_mod (encode_f64 (spp_x p)),
     st_mod (encode_f64 (spp_y p)),
     st_mod (encode_f64 (spp_z p)),
     st_mod (encode_bool (spp_on_ground p))]"

definition encode_set_player_position :: "set_player_position \<Rightarrow> nat \<Rightarrow> play_error encoder" where
  "encode_set_player_position p m = encode_play_frame SET_PLAYER_POSITION_PACKET_ID (set_player_position_body p) m"

definition set_player_position_fields :: "(play_error, set_player_position) decoder" where
  "set_player_position_fields =
    st_bind (play_codec decode_f64) (\<lambda>x.
    st_bind (play_codec decode_f64) (\<lambda>y.
    st_bind (play_codec decode_f64) (\<lambda>z.
    st_bind (play_codec decode_bool) (\<lambda>on_ground.
    st_ret \<lparr>spp_x = x, spp_y = y, spp_z = z, spp_on_ground = on_ground\<rparr>))))"

definition decode_set_player_position :: "nat \<Rightarrow> (play_error, play_decode_outcome) decoder" where
  "decode_set_player_position m = decode_play_fields SET_PLAYER_POSITION_PACKET_ID set_player_position_fields SetPlayerPosition m"

definition set_player_position_and_rotation_body :: "set_player_position_and_rotation \<Rightarrow> play_error encoder" where
  "set_player_position_and_rotation_body p = enc_all
    [st_mod (encode_f64 (spr_x p)),
     st_mod (encode_f64 (spr_y p)),
     st_mod (encode_f64 (spr_z p)),
     st_mod (encode_f32 (spr_yaw p)),
     st_mod (encode_f32 (spr_pitch p)),
     st_mod (encode_bool (spr_on_ground p))]"

definition encode_set_player_position_and_rotation :: "set_player_position_and_rotation \<Rightarrow> nat \<Rightarrow> play_error encoder" where
  "encode_set_player_position_and_rotation p m = encode_play_frame SET_PLAYER_POSITION_AND_ROTATION_PACKET_ID (set_player_position_and_rotation_body p) m"

definition set_player_position_and_rotation_fields :: "(play_error, set_player_position_and_rotation) decoder" where
  "set_player_position_and_rotation_fields =
    st_bind (play_codec decode_f64) (\<lambda>x.
    st_bind (play_codec decode_f64) (\<lambda>y.
    st_bind (play_codec decode_f64) (\<lambda>z.
    st_bind (play_codec decode_f32) (\<lambda>yaw.
    st_bind (play_codec decode_f32) (\<lambda>pitch.
    st_bind (play_codec decode_bool) (\<lambda>on_ground.
    st_ret \<lparr>spr_x = x, spr_y = y, spr_z = z, spr_yaw = yaw, spr_pitch = pitch, spr_on_ground = on_ground\<rparr>))))))"

definition decode_set_player_position_and_rotation :: "nat \<Rightarrow> (play_error, play_decode_outcome) decoder" where
  "decode_set_player_position_and_rotation m = decode_play_fields SET_PLAYER_POSITION_AND_ROTATION_PACKET_ID set_player_position_and_rotation_fields SetPlayerPositionAndRotation m"

definition set_player_rotation_body :: "set_player_rotation \<Rightarrow> play_error encoder" where
  "set_player_rotation_body p = enc_all
    [st_mod (encode_f32 (sro_yaw p)),
     st_mod (encode_f32 (sro_pitch p)),
     st_mod (encode_bool (sro_on_ground p))]"

definition encode_set_player_rotation :: "set_player_rotation \<Rightarrow> nat \<Rightarrow> play_error encoder" where
  "encode_set_player_rotation p m = encode_play_frame SET_PLAYER_ROTATION_PACKET_ID (set_player_rotation_body p) m"

definition set_player_rotation_fields :: "(play_error, set_player_rotation) decoder" where
  "set_player_rotation_fields =
    st_bind (play_codec decode_f32) (\<lambda>yaw.
    st_bind (play_codec decode_f32) (\<lambda>pitch.
    st_bind (play_codec decode_bool) (\<lambda>on_ground.
    st_ret \<lparr>sro_yaw = yaw, sro_pitch = pitch, sro_on_ground = on_ground\<rparr>)))"

definition decode_set_player_rotation :: "nat \<Rightarrow> (play_error, play_decode_outcome) decoder" where
  "decode_set_player_rotation m = decode_play_fields SET_PLAYER_ROTATION_PACKET_ID set_player_rotation_fields SetPlayerRotation m"

definition synchronize_player_position_body :: "synchronize_player_position \<Rightarrow> play_error encoder" where
  "synchronize_player_position_body p = enc_all
    [st_mod (encode_f64 (syn_x p)),
     st_mod (encode_f64 (syn_y p)),
     st_mod (encode_f64 (syn_z p)),
     st_mod (encode_f32 (syn_yaw p)),
     st_mod (encode_f32 (syn_pitch p)),
     st_mod (encode_i8 (syn_flags p)),
     st_mod (encode_var_int (syn_teleport_id p))]"

definition encode_synchronize_player_position :: "synchronize_player_position \<Rightarrow> nat \<Rightarrow> play_error encoder" where
  "encode_synchronize_player_position p m = encode_play_frame SYNCHRONIZE_PLAYER_POSITION_PACKET_ID (synchronize_player_position_body p) m"

definition synchronize_player_position_fields :: "(play_error, synchronize_player_position) decoder" where
  "synchronize_player_position_fields =
    st_bind (play_codec decode_f64) (\<lambda>x.
    st_bind (play_codec decode_f64) (\<lambda>y.
    st_bind (play_codec decode_f64) (\<lambda>z.
    st_bind (play_codec decode_f32) (\<lambda>yaw.
    st_bind (play_codec decode_f32) (\<lambda>pitch.
    st_bind (play_codec decode_i8) (\<lambda>flags.
    st_bind (play_codec decode_var_int) (\<lambda>teleport_id.
    st_ret \<lparr>syn_x = x, syn_y = y, syn_z = z, syn_yaw = yaw, syn_pitch = pitch, syn_flags = flags, syn_teleport_id = teleport_id\<rparr>)))))))"

definition decode_synchronize_player_position :: "nat \<Rightarrow> (play_error, play_decode_outcome) decoder" where
  "decode_synchronize_player_position m = decode_play_fields SYNCHRONIZE_PLAYER_POSITION_PACKET_ID synchronize_player_position_fields SynchronizePlayerPosition m"

definition disconnect_play_body :: "disconnect_play \<Rightarrow> play_error encoder" where
  "disconnect_play_body p = enc_all
    [play_codec (encode_string (dp_reason p) MAX_CHAT_COMPONENT_LENGTH)]"

definition encode_disconnect_play :: "disconnect_play \<Rightarrow> nat \<Rightarrow> play_error encoder" where
  "encode_disconnect_play p m = encode_play_frame DISCONNECT_PLAY_PACKET_ID (disconnect_play_body p) m"

definition disconnect_play_fields :: "(play_error, disconnect_play) decoder" where
  "disconnect_play_fields =
    st_bind (play_codec (decode_string MAX_CHAT_COMPONENT_LENGTH)) (\<lambda>reason.
    st_ret \<lparr>dp_reason = reason\<rparr>)"

definition decode_disconnect_play :: "nat \<Rightarrow> (play_error, play_decode_outcome) decoder" where
  "decode_disconnect_play m = decode_play_fields DISCONNECT_PLAY_PACKET_ID disconnect_play_fields DisconnectPlay m"

definition confirm_teleportation_body :: "confirm_teleportation \<Rightarrow> play_error encoder" where
  "confirm_teleportation_body p = enc_all
    [st_mod (encode_var_int (ct_teleport_id p))]"

definition encode_confirm_teleportation :: "confirm_teleportation \<Rightarrow> nat \<Rightarrow> play_error encoder" where
  "encode_confirm_teleportation p m = encode_play_frame CONFIRM_TELEPORTATION_PACKET_ID (confirm_teleportation_body p) m"

definition confirm_teleportation_fields :: "(play_error, confirm_teleportation) decoder" where
  "confirm_teleportation_fields =
    st_bind (play_codec decode_var_int) (\<lambda>teleport_id.
    st_ret \<lparr>ct_teleport_id = teleport_id\<rparr>)"

definition decode_confirm_teleportation :: "nat \<Rightarrow> (play_error, play_decode_outcome) decoder" where
  "decode_confirm_teleportation m = decode_play_fields CONFIRM_TELEPORTATION_PACKET_ID confirm_teleportation_fields ConfirmTeleportation m"

definition client_information_body :: "client_information \<Rightarrow> play_error encoder" where
  "client_information_body p = enc_all
    [play_codec (encode_string (ci_locale p) MAX_CHAT_COMPONENT_LENGTH),
     st_mod (encode_u8 (ci_view_distance p)),
     st_mod (encode_var_int (chat_mode_to_wire (ci_chat_mode p))),
     st_mod (encode_bool (ci_chat_colors p)),
     st_mod (encode_u8 (ci_displayed_skin_parts p)),
     st_mod (encode_var_int (main_hand_to_wire (ci_main_hand p))),
     st_mod (encode_bool (ci_enable_text_filtering p)),
     st_mod (encode_bool (ci_allow_server_listings p))]"

definition encode_client_information :: "client_information \<Rightarrow> nat \<Rightarrow> play_error encoder" where
  "encode_client_information p m = encode_play_frame CLIENT_INFORMATION_PACKET_ID (client_information_body p) m"

definition client_information_fields :: "(play_error, client_information) decoder" where
  "client_information_fields =
    st_bind (play_codec (decode_string MAX_CHAT_COMPONENT_LENGTH)) (\<lambda>locale.
    st_bind (play_codec decode_u8) (\<lambda>view_distance.
    st_bind (play_enum decode_var_int chat_mode_from_wire) (\<lambda>chat_mode.
    st_bind (play_codec decode_bool) (\<lambda>chat_colors.
    st_bind (play_codec decode_u8) (\<lambda>displayed_skin_parts.
    st_bind (play_enum decode_var_int main_hand_from_wire) (\<lambda>main_hand.
    st_bind (play_codec decode_bool) (\<lambda>enable_text_filtering.
    st_bind (play_codec decode_bool) (\<lambda>allow_server_listings.
    st_ret \<lparr>ci_locale = locale, ci_view_distance = view_distance, ci_chat_mode = chat_mode, ci_chat_colors = chat_colors, ci_displayed_skin_parts = displayed_skin_parts, ci_main_hand = main_hand, ci_enable_text_filtering = enable_text_filtering, ci_allow_server_listings = allow_server_listings\<rparr>))))))))"

definition decode_client_information :: "nat \<Rightarrow> (play_error, play_decode_outcome) decoder" where
  "decode_client_information m = decode_play_fields CLIENT_INFORMATION_PACKET_ID client_information_fields ClientInformation m"

definition set_health_body :: "set_health \<Rightarrow> play_error encoder" where
  "set_health_body p = enc_all
    [st_mod (encode_f32 (sh_health p)),
     st_mod (encode_var_int (sh_food p)),
     st_mod (encode_f32 (sh_food_saturation p))]"

definition encode_set_health :: "set_health \<Rightarrow> nat \<Rightarrow> play_error encoder" where
  "encode_set_health p m = encode_play_frame SET_HEALTH_PACKET_ID (set_health_body p) m"

definition set_health_fields :: "(play_error, set_health) decoder" where
  "set_health_fields =
    st_bind (play_codec decode_f32) (\<lambda>health.
    st_bind (play_codec decode_var_int) (\<lambda>food.
    st_bind (play_codec decode_f32) (\<lambda>food_saturation.
    st_ret \<lparr>sh_health = health, sh_food = food, sh_food_saturation = food_saturation\<rparr>)))"

definition decode_set_health :: "nat \<Rightarrow> (play_error, play_decode_outcome) decoder" where
  "decode_set_health m = decode_play_fields SET_HEALTH_PACKET_ID set_health_fields SetHealth m"

definition client_status_fields :: "(play_error, client_status) decoder" where
  "client_status_fields =
    st_bind (play_codec decode_var_int) (\<lambda>action.
    st_ret \<lparr>cs_action = action\<rparr>)"

definition decode_client_status :: "nat \<Rightarrow> (play_error, play_decode_outcome) decoder" where
  "decode_client_status m = decode_play_fields CLIENT_STATUS_PACKET_ID client_status_fields ClientStatus m"

subsection \<open>Respawn\<close>

definition respawn_body :: "respawn \<Rightarrow> play_error encoder" where
  "respawn_body p = enc_all
    [play_codec (encode_string (rs_dimension_type p) MAX_CHAT_COMPONENT_LENGTH),
     play_codec (encode_string (rs_dimension_name p) MAX_CHAT_COMPONENT_LENGTH),
     st_mod (encode_i64 (rs_hashed_seed p)),
     st_mod (encode_u8 (rs_gamemode p)),
     st_mod (encode_i8 (rs_previous_gamemode p)),
     st_mod (encode_bool (rs_is_debug p)),
     st_mod (encode_bool (rs_is_flat p)),
     st_mod (encode_bool (rs_has_death_location p)),
     encode_death_location (rs_has_death_location p) (rs_death_dimension_name p) (rs_death_location p)
       MAX_CHAT_COMPONENT_LENGTH,
     st_mod (encode_var_int (rs_portal_cooldown p)),
     st_mod (encode_u8 (rs_data_kept p))]"

definition encode_respawn :: "respawn \<Rightarrow> nat \<Rightarrow> play_error encoder" where
  "encode_respawn p m = encode_play_frame RESPAWN_PACKET_ID (respawn_body p) m"

definition respawn_fields :: "(play_error, respawn) decoder" where
  "respawn_fields =
    st_bind (play_codec (decode_string MAX_CHAT_COMPONENT_LENGTH)) (\<lambda>dimension_type.
    st_bind (play_codec (decode_string MAX_CHAT_COMPONENT_LENGTH)) (\<lambda>dimension_name.
    st_bind (play_codec decode_i64) (\<lambda>hashed_seed.
    st_bind (play_codec decode_u8) (\<lambda>gamemode.
    st_bind (play_codec decode_i8) (\<lambda>previous_gamemode.
    st_bind (play_codec decode_bool) (\<lambda>is_debug.
    st_bind (play_codec decode_bool) (\<lambda>is_flat.
    st_bind (play_codec decode_bool) (\<lambda>has_death_location.
    st_bind (decode_death_location has_death_location MAX_CHAT_COMPONENT_LENGTH) (\<lambda>death.
    st_bind (play_codec decode_var_int) (\<lambda>portal_cooldown.
    st_bind (play_codec decode_u8) (\<lambda>data_kept.
    st_ret \<lparr>rs_dimension_type = dimension_type, rs_dimension_name = dimension_name,
      rs_hashed_seed = hashed_seed, rs_gamemode = gamemode, rs_previous_gamemode = previous_gamemode,
      rs_is_debug = is_debug, rs_is_flat = is_flat, rs_has_death_location = has_death_location,
      rs_death_dimension_name = fst death, rs_death_location = snd death,
      rs_portal_cooldown = portal_cooldown, rs_data_kept = data_kept\<rparr>)))))))))))"

definition decode_respawn :: "nat \<Rightarrow> (play_error, play_decode_outcome) decoder" where
  "decode_respawn m = decode_play_fields RESPAWN_PACKET_ID respawn_fields Respawn m"

subsection \<open>Chat\<close>

definition encode_system_chat_message :: "system_chat_message \<Rightarrow> nat \<Rightarrow> play_error encoder" where
  "encode_system_chat_message p m = encode_play_frame SYSTEM_CHAT_MESSAGE_PACKET_ID
    (enc_all [st_map_err Codec (encode_string (sym_content p) 32767), st_mod (encode_bool (sym_overlay p))]) m"

text \<open>The serverbound chat message: only the text is read, whatever follows it is accepted.\<close>

definition parse_chat_message :: "packet_frame \<Rightarrow> play_error + chat_message_serverbound" where
  "parse_chat_message frame =
    (if pf_packet_id frame \<noteq> CHAT_MESSAGE_SERVERBOUND_PACKET_ID
     then Inl (WrongPacketId (pf_packet_id frame) CHAT_MESSAGE_SERVERBOUND_PACKET_ID)
     else case decode_string 256 (pf_payload frame) of
        (Inl e, _) \<Rightarrow> Inl (Codec e)
      | (Inr message, _) \<Rightarrow> Inr \<lparr>cms_message = message\<rparr>)"

definition decode_chat_message_serverbound :: "nat \<Rightarrow> (play_error, play_decode_outcome) decoder" where
  "decode_chat_message_serverbound m = decode_packet play_error_from_framing parse_chat_message
    (\<lambda>p. PlayComplete (ChatMessageServerbound p)) PlayIncomplete m"

subsection \<open>The fields read back, and the packets as framed packets\<close>

lemma field_string_list [field_intros]:
  assumes "list_all utf8_valid names"
  shows "field_ok (encode_string_list names k n) (decode_string_list k n) names"
proof (cases "length names \<le> i32_max \<and> length names \<le> k")
  case True
  have "field_ok (enc_all (map (\<lambda>name. play_codec (encode_string name n)) names))
      (dec_times (length names) (play_codec (decode_string n))) names"
    by (rule field_times, rule field_map_err_enc, rule field_map_err, rule field_string)
      (use assms in \<open>simp add: list_all_iff\<close>)
  then have "field_ok (enc_all [st_mod (encode_var_int (word_of_nat (length names))),
      enc_all (map (\<lambda>name. play_codec (encode_string name n)) names)]) (decode_string_list k n) names"
    unfolding decode_string_list_def
    by (intro field_bind [where v = "word_of_nat (length names)"] field_intros)
      (use True in \<open>simp add: not_less\<close>)
  with True show ?thesis by (simp add: encode_string_list_def i32_of_usize_def)
next
  case False
  then show ?thesis by (auto simp: encode_string_list_def i32_of_usize_def intro: field_fail)
qed

lemma field_bounded_nbt [field_intros]:
  assumes "nbt_root nbt \<and> length nbt \<le> fuel"
  shows "field_ok (encode_bounded_nbt nbt k) (decode_bounded_nbt fuel k) nbt"
proof (cases "length nbt > k")
  case False
  have "field_ok (st_mod (\<lambda>body. body @ nbt)) (play_nbt (read_nbt_compound fuel)) nbt"
    by (rule field_map_err [OF field_nbt]) (use assms in simp_all)
  then have "field_ok (st_mod (\<lambda>body. body @ nbt)) (decode_bounded_nbt fuel k) nbt"
    unfolding decode_bounded_nbt_def by (rule field_bind_last) (use False in simp)
  with False show ?thesis by (simp add: encode_bounded_nbt_def)
qed (simp add: encode_bounded_nbt_def field_fail)

definition death_location_ok :: "bool \<Rightarrow> rstring \<Rightarrow> i32 \<times> i32 \<times> i32 \<Rightarrow> bool" where
  "death_location_ok has name loc \<longleftrightarrow>
    (if has then utf8_valid name \<and> in_position_range loc else name = [] \<and> loc = (0, 0, 0))"

lemma field_death_location [field_intros]:
  assumes "death_location_ok has name loc"
  shows "field_ok (encode_death_location has name loc n) (decode_death_location has n) (name, loc)"
proof (cases has)
  case True
  with assms have v: "utf8_valid name" "in_position_range loc" by (simp_all add: death_location_ok_def)
  from True show ?thesis
    unfolding encode_death_location_def decode_death_location_def if_P [OF True]
    by - ((rule field_bind field_intros v)+, simp)
next
  case False
  with assms show ?thesis
    by (simp add: encode_death_location_def decode_death_location_def death_location_ok_def)
qed

lemma field_previous_gamemode [field_intros]:
  "field_ok (st_mod (encode_i8 (previous_gamemode_wire g))) decode_previous_gamemode g"
  unfolding decode_previous_gamemode_def
proof (rule field_bind_last)
  show "field_ok (st_mod (encode_i8 (previous_gamemode_wire g))) (play_codec decode_i8) (previous_gamemode_wire g)"
    by (rule field_intros)+
  show "(if previous_gamemode_wire g = -1 then st_ret None
      else case game_mode_from_wire (previous_gamemode_wire g) of
        None \<Rightarrow> st_fail (Codec InvalidBoolean) | Some g \<Rightarrow> st_ret (Some g)) = st_ret g"
    by (cases g; cases "the g")
      (simp_all add: previous_gamemode_wire_def game_mode_to_wire_def game_mode_from_wire_def)
qed

definition join_game_ok :: "nat \<Rightarrow> join_game \<Rightarrow> bool" where
  "join_game_ok fuel p \<longleftrightarrow> list_all utf8_valid (jg_dimension_names p)
    \<and> (nbt_root (jg_registry_codec p) \<and> length (jg_registry_codec p) \<le> fuel)
    \<and> utf8_valid (jg_dimension_type p) \<and> utf8_valid (jg_dimension_name p)
    \<and> death_location_ok (jg_has_death_location p) (jg_death_dimension_name p) (jg_death_location p)"

lemma join_game_field:
  assumes "list_all utf8_valid (jg_dimension_names p)"
    and "nbt_root (jg_registry_codec p) \<and> length (jg_registry_codec p) \<le> fuel"
    and "utf8_valid (jg_dimension_type p)" "utf8_valid (jg_dimension_name p)"
    and "death_location_ok (jg_has_death_location p) (jg_death_dimension_name p) (jg_death_location p)"
  shows "field_ok (join_game_body p) (join_game_fields fuel) p"
  unfolding join_game_body_def join_game_fields_def
  by ((rule field_bind field_intros assms)+) simp

interpretation join_game: framed_packet encode_join_game "decode_join_game fuel" "\<lambda>p. PlayComplete (JoinGame p)"
    "Inr PlayIncomplete" "join_game_ok fuel" for fuel
  by (rule framed_packet_fieldsI [OF encode_join_game_def decode_join_game_def])
    (simp add: join_game_field join_game_ok_def)

lemma keep_alive_field: "field_ok (enc_all [st_mod (encode_i64 (ka_payload p))]) keep_alive_fields p"
  unfolding keep_alive_fields_def by ((rule field_bind field_intros)+) simp

interpretation keep_alive_clientbound: framed_packet encode_keep_alive_clientbound decode_keep_alive_clientbound
    "\<lambda>p. PlayComplete (KeepAliveClientbound p)" "Inr PlayIncomplete" "\<lambda>_. True"
  by (rule framed_packet_fieldsI [where body = "\<lambda>p. enc_all [st_mod (encode_i64 (ka_payload p))]"
        and pid = KEEP_ALIVE_CLIENTBOUND_PACKET_ID, OF encode_keep_alive_clientbound_def])
    (simp_all only: decode_keep_alive_clientbound_def decode_keep_alive_def if_True, rule keep_alive_field)

interpretation keep_alive_serverbound: framed_packet encode_keep_alive_serverbound decode_keep_alive_serverbound
    "\<lambda>p. PlayComplete (KeepAliveServerbound p)" "Inr PlayIncomplete" "\<lambda>_. True"
  by (rule framed_packet_fieldsI [where body = "\<lambda>p. enc_all [st_mod (encode_i64 (ka_payload p))]"
        and pid = KEEP_ALIVE_SERVERBOUND_PACKET_ID, OF encode_keep_alive_serverbound_def])
    (simp_all only: decode_keep_alive_serverbound_def decode_keep_alive_def if_False, rule keep_alive_field)

lemma set_player_position_field:
  "field_ok (set_player_position_body p) set_player_position_fields p"
  unfolding set_player_position_body_def set_player_position_fields_def
  by ((rule field_bind field_intros)+) simp

interpretation set_player_position: framed_packet encode_set_player_position decode_set_player_position "\<lambda>p. PlayComplete (SetPlayerPosition p)"
    "Inr PlayIncomplete" "\<lambda>_. True"
  by (rule framed_packet_fieldsI [OF encode_set_player_position_def decode_set_player_position_def]) (simp add: set_player_position_field)

lemma set_player_position_and_rotation_field:
  "field_ok (set_player_position_and_rotation_body p) set_player_position_and_rotation_fields p"
  unfolding set_player_position_and_rotation_body_def set_player_position_and_rotation_fields_def
  by ((rule field_bind field_intros)+) simp

interpretation set_player_position_and_rotation: framed_packet encode_set_player_position_and_rotation decode_set_player_position_and_rotation "\<lambda>p. PlayComplete (SetPlayerPositionAndRotation p)"
    "Inr PlayIncomplete" "\<lambda>_. True"
  by (rule framed_packet_fieldsI [OF encode_set_player_position_and_rotation_def decode_set_player_position_and_rotation_def]) (simp add: set_player_position_and_rotation_field)

lemma set_player_rotation_field:
  "field_ok (set_player_rotation_body p) set_player_rotation_fields p"
  unfolding set_player_rotation_body_def set_player_rotation_fields_def
  by ((rule field_bind field_intros)+) simp

interpretation set_player_rotation: framed_packet encode_set_player_rotation decode_set_player_rotation "\<lambda>p. PlayComplete (SetPlayerRotation p)"
    "Inr PlayIncomplete" "\<lambda>_. True"
  by (rule framed_packet_fieldsI [OF encode_set_player_rotation_def decode_set_player_rotation_def]) (simp add: set_player_rotation_field)

lemma synchronize_player_position_field:
  "field_ok (synchronize_player_position_body p) synchronize_player_position_fields p"
  unfolding synchronize_player_position_body_def synchronize_player_position_fields_def
  by ((rule field_bind field_intros)+) simp

interpretation synchronize_player_position: framed_packet encode_synchronize_player_position decode_synchronize_player_position "\<lambda>p. PlayComplete (SynchronizePlayerPosition p)"
    "Inr PlayIncomplete" "\<lambda>_. True"
  by (rule framed_packet_fieldsI [OF encode_synchronize_player_position_def decode_synchronize_player_position_def]) (simp add: synchronize_player_position_field)

lemma disconnect_play_field:
  assumes "utf8_valid (dp_reason p)"
  shows "field_ok (disconnect_play_body p) disconnect_play_fields p"
  unfolding disconnect_play_body_def disconnect_play_fields_def
  by ((rule field_bind field_intros assms)+) simp

interpretation disconnect_play: framed_packet encode_disconnect_play decode_disconnect_play "\<lambda>p. PlayComplete (DisconnectPlay p)"
    "Inr PlayIncomplete" "\<lambda>p. utf8_valid (dp_reason p)"
  by (rule framed_packet_fieldsI [OF encode_disconnect_play_def decode_disconnect_play_def]) (simp add: disconnect_play_field)

lemma confirm_teleportation_field:
  "field_ok (confirm_teleportation_body p) confirm_teleportation_fields p"
  unfolding confirm_teleportation_body_def confirm_teleportation_fields_def
  by ((rule field_bind field_intros)+) simp

interpretation confirm_teleportation: framed_packet encode_confirm_teleportation decode_confirm_teleportation "\<lambda>p. PlayComplete (ConfirmTeleportation p)"
    "Inr PlayIncomplete" "\<lambda>_. True"
  by (rule framed_packet_fieldsI [OF encode_confirm_teleportation_def decode_confirm_teleportation_def]) (simp add: confirm_teleportation_field)

lemma client_information_field:
  assumes "utf8_valid (ci_locale p)"
  shows "field_ok (client_information_body p) client_information_fields p"
  unfolding client_information_body_def client_information_fields_def
  by ((rule field_bind field_intros assms)+) simp

interpretation client_information: framed_packet encode_client_information decode_client_information "\<lambda>p. PlayComplete (ClientInformation p)"
    "Inr PlayIncomplete" "\<lambda>p. utf8_valid (ci_locale p)"
  by (rule framed_packet_fieldsI [OF encode_client_information_def decode_client_information_def]) (simp add: client_information_field)

lemma set_health_field:
  "field_ok (set_health_body p) set_health_fields p"
  unfolding set_health_body_def set_health_fields_def
  by ((rule field_bind field_intros)+) simp

interpretation set_health: framed_packet encode_set_health decode_set_health "\<lambda>p. PlayComplete (SetHealth p)"
    "Inr PlayIncomplete" "\<lambda>_. True"
  by (rule framed_packet_fieldsI [OF encode_set_health_def decode_set_health_def]) (simp add: set_health_field)

definition respawn_ok :: "respawn \<Rightarrow> bool" where
  "respawn_ok p \<longleftrightarrow> utf8_valid (rs_dimension_type p) \<and> utf8_valid (rs_dimension_name p)
    \<and> death_location_ok (rs_has_death_location p) (rs_death_dimension_name p) (rs_death_location p)"

lemma respawn_field:
  assumes "utf8_valid (rs_dimension_type p)" "utf8_valid (rs_dimension_name p)"
    and "death_location_ok (rs_has_death_location p) (rs_death_dimension_name p) (rs_death_location p)"
  shows "field_ok (respawn_body p) respawn_fields p"
  unfolding respawn_body_def respawn_fields_def
  by ((rule field_bind field_intros assms)+) simp

interpretation respawn: framed_packet encode_respawn decode_respawn "\<lambda>p. PlayComplete (Respawn p)"
    "Inr PlayIncomplete" respawn_ok
  by (rule framed_packet_fieldsI [OF encode_respawn_def decode_respawn_def])
    (simp add: respawn_field respawn_ok_def)

end
