(* ===== verification/Play_World.thy ===== *)
theory Play_World
  imports Play_Types
begin

section \<open>Play packets of the world (\<open>play.rs\<close>)\<close>

text \<open>
  The packets of the join sequence, the world's time and view, block changes, digging and placing,
  and chunk data.
\<close>

subsection \<open>Plugin message and the empty registries\<close>

definition plugin_message_head :: "plugin_message_clientbound \<Rightarrow> play_error encoder" where
  "plugin_message_head p = enc_all [play_codec (encode_string (pmc_channel p) MAX_CHAT_COMPONENT_LENGTH)]"

definition encode_plugin_message_clientbound :: "plugin_message_clientbound \<Rightarrow> nat \<Rightarrow> play_error encoder" where
  "encode_plugin_message_clientbound p m = encode_play_frame PLUGIN_MESSAGE_CLIENTBOUND_PACKET_ID
    (st_bind (plugin_message_head p) (\<lambda>_. st_mod (\<lambda>body. body @ pmc_data p))) m"

definition parse_plugin_message :: "packet_frame \<Rightarrow> play_error + plugin_message_clientbound" where
  "parse_plugin_message frame =
    (if pf_packet_id frame \<noteq> PLUGIN_MESSAGE_CLIENTBOUND_PACKET_ID
     then Inl (WrongPacketId (pf_packet_id frame) PLUGIN_MESSAGE_CLIENTBOUND_PACKET_ID)
     else case play_codec (decode_string MAX_CHAT_COMPONENT_LENGTH) (pf_payload frame) of
        (Inl e, _) \<Rightarrow> Inl e
      | (Inr channel, body) \<Rightarrow> Inr \<lparr>pmc_channel = channel, pmc_data = body\<rparr>)"

definition decode_plugin_message_clientbound :: "nat \<Rightarrow> (play_error, play_decode_outcome) decoder" where
  "decode_plugin_message_clientbound m = decode_packet play_error_from_framing parse_plugin_message
    (\<lambda>p. PlayComplete (PluginMessageClientbound p)) PlayIncomplete m"

definition tag_registries :: "rstring list" where
  "tag_registries = [ascii ''minecraft:block'', ascii ''minecraft:item'', ascii ''minecraft:fluid'',
    ascii ''minecraft:entity_type'', ascii ''minecraft:game_event'']"

definition encode_update_tags_empty :: "nat \<Rightarrow> play_error encoder" where
  "encode_update_tags_empty m = encode_play_frame UPDATE_TAGS_PACKET_ID
    (enc_all [st_mod (encode_var_int (word_of_nat (length tag_registries))),
      enc_all (map (\<lambda>registry. enc_all [play_codec (encode_string registry MAX_IDENTIFIER_LENGTH),
        st_mod (encode_var_int 0)]) tag_registries)]) m"

definition encode_update_recipes_empty :: "nat \<Rightarrow> play_error encoder" where
  "encode_update_recipes_empty m =
    encode_play_frame UPDATE_RECIPES_PACKET_ID (enc_all [st_mod (encode_var_int 0)]) m"

subsection \<open>Fixed-shape packets\<close>

definition change_difficulty_body :: "change_difficulty \<Rightarrow> play_error encoder" where
  "change_difficulty_body p = enc_all
    [st_mod (encode_u8 (cd_difficulty p)),
     st_mod (encode_bool (cd_locked p))]"

definition encode_change_difficulty :: "change_difficulty \<Rightarrow> nat \<Rightarrow> play_error encoder" where
  "encode_change_difficulty p m = encode_play_frame CHANGE_DIFFICULTY_PACKET_ID (change_difficulty_body p) m"

definition change_difficulty_fields :: "(play_error, change_difficulty) decoder" where
  "change_difficulty_fields =
    st_bind (play_codec decode_u8) (\<lambda>difficulty.
    st_bind (play_codec decode_bool) (\<lambda>locked.
    st_ret \<lparr>cd_difficulty = difficulty, cd_locked = locked\<rparr>))"

definition decode_change_difficulty :: "nat \<Rightarrow> (play_error, play_decode_outcome) decoder" where
  "decode_change_difficulty m = decode_play_fields CHANGE_DIFFICULTY_PACKET_ID change_difficulty_fields ChangeDifficulty m"

definition player_abilities_body :: "player_abilities \<Rightarrow> play_error encoder" where
  "player_abilities_body p = enc_all
    [st_mod (encode_u8 (pa_flags p)),
     st_mod (encode_f32 (pa_flying_speed p)),
     st_mod (encode_f32 (pa_fov_modifier p))]"

definition encode_player_abilities :: "player_abilities \<Rightarrow> nat \<Rightarrow> play_error encoder" where
  "encode_player_abilities p m = encode_play_frame PLAYER_ABILITIES_PACKET_ID (player_abilities_body p) m"

definition player_abilities_fields :: "(play_error, player_abilities) decoder" where
  "player_abilities_fields =
    st_bind (play_codec decode_u8) (\<lambda>flags.
    st_bind (play_codec decode_f32) (\<lambda>flying_speed.
    st_bind (play_codec decode_f32) (\<lambda>fov_modifier.
    st_ret \<lparr>pa_flags = flags, pa_flying_speed = flying_speed, pa_fov_modifier = fov_modifier\<rparr>)))"

definition decode_player_abilities :: "nat \<Rightarrow> (play_error, play_decode_outcome) decoder" where
  "decode_player_abilities m = decode_play_fields PLAYER_ABILITIES_PACKET_ID player_abilities_fields PlayerAbilities m"

definition set_held_item_body :: "set_held_item \<Rightarrow> play_error encoder" where
  "set_held_item_body p = enc_all
    [st_mod (encode_u8 (shi_slot p))]"

definition encode_set_held_item :: "set_held_item \<Rightarrow> nat \<Rightarrow> play_error encoder" where
  "encode_set_held_item p m = encode_play_frame SET_HELD_ITEM_PACKET_ID (set_held_item_body p) m"

definition set_held_item_fields :: "(play_error, set_held_item) decoder" where
  "set_held_item_fields =
    st_bind (play_codec decode_u8) (\<lambda>slot.
    st_ret \<lparr>shi_slot = slot\<rparr>)"

definition decode_set_held_item :: "nat \<Rightarrow> (play_error, play_decode_outcome) decoder" where
  "decode_set_held_item m = decode_play_fields SET_HELD_ITEM_PACKET_ID set_held_item_fields SetHeldItem m"

definition entity_event_body :: "entity_event \<Rightarrow> play_error encoder" where
  "entity_event_body p = enc_all
    [st_mod (encode_i32 (ee_entity_id p)),
     st_mod (encode_u8 (ee_entity_status p))]"

definition encode_entity_event :: "entity_event \<Rightarrow> nat \<Rightarrow> play_error encoder" where
  "encode_entity_event p m = encode_play_frame ENTITY_EVENT_PACKET_ID (entity_event_body p) m"

definition entity_event_fields :: "(play_error, entity_event) decoder" where
  "entity_event_fields =
    st_bind (play_codec decode_i32) (\<lambda>entity_id.
    st_bind (play_codec decode_u8) (\<lambda>entity_status.
    st_ret \<lparr>ee_entity_id = entity_id, ee_entity_status = entity_status\<rparr>))"

definition decode_entity_event :: "nat \<Rightarrow> (play_error, play_decode_outcome) decoder" where
  "decode_entity_event m = decode_play_fields ENTITY_EVENT_PACKET_ID entity_event_fields EntityEvent m"

definition game_event_body :: "game_event \<Rightarrow> play_error encoder" where
  "game_event_body p = enc_all
    [st_mod (encode_u8 (ge_event_type p)),
     st_mod (encode_f32 (ge_value p))]"

definition encode_game_event :: "game_event \<Rightarrow> nat \<Rightarrow> play_error encoder" where
  "encode_game_event p m = encode_play_frame GAME_EVENT_PACKET_ID (game_event_body p) m"

definition game_event_fields :: "(play_error, game_event) decoder" where
  "game_event_fields =
    st_bind (play_codec decode_u8) (\<lambda>event_type.
    st_bind (play_codec decode_f32) (\<lambda>value.
    st_ret \<lparr>ge_event_type = event_type, ge_value = value\<rparr>))"

definition decode_game_event :: "nat \<Rightarrow> (play_error, play_decode_outcome) decoder" where
  "decode_game_event m = decode_play_fields GAME_EVENT_PACKET_ID game_event_fields GameEvent m"

definition set_default_spawn_position_body :: "set_default_spawn_position \<Rightarrow> play_error encoder" where
  "set_default_spawn_position_body p = enc_all
    [st_mod (encode_position3 (sds_location p)),
     st_mod (encode_f32 (sds_angle p))]"

definition encode_set_default_spawn_position :: "set_default_spawn_position \<Rightarrow> nat \<Rightarrow> play_error encoder" where
  "encode_set_default_spawn_position p m = encode_play_frame SET_DEFAULT_SPAWN_POSITION_PACKET_ID (set_default_spawn_position_body p) m"

definition set_default_spawn_position_fields :: "(play_error, set_default_spawn_position) decoder" where
  "set_default_spawn_position_fields =
    st_bind (play_codec decode_position) (\<lambda>location.
    st_bind (play_codec decode_f32) (\<lambda>angle.
    st_ret \<lparr>sds_location = location, sds_angle = angle\<rparr>))"

definition decode_set_default_spawn_position :: "nat \<Rightarrow> (play_error, play_decode_outcome) decoder" where
  "decode_set_default_spawn_position m = decode_play_fields SET_DEFAULT_SPAWN_POSITION_PACKET_ID set_default_spawn_position_fields SetDefaultSpawnPosition m"

definition set_center_chunk_body :: "set_center_chunk \<Rightarrow> play_error encoder" where
  "set_center_chunk_body p = enc_all
    [st_mod (encode_var_int (scc_chunk_x p)),
     st_mod (encode_var_int (scc_chunk_z p))]"

definition encode_set_center_chunk :: "set_center_chunk \<Rightarrow> nat \<Rightarrow> play_error encoder" where
  "encode_set_center_chunk p m = encode_play_frame SET_CENTER_CHUNK_PACKET_ID (set_center_chunk_body p) m"

definition set_center_chunk_fields :: "(play_error, set_center_chunk) decoder" where
  "set_center_chunk_fields =
    st_bind (play_codec decode_var_int) (\<lambda>chunk_x.
    st_bind (play_codec decode_var_int) (\<lambda>chunk_z.
    st_ret \<lparr>scc_chunk_x = chunk_x, scc_chunk_z = chunk_z\<rparr>))"

definition decode_set_center_chunk :: "nat \<Rightarrow> (play_error, play_decode_outcome) decoder" where
  "decode_set_center_chunk m = decode_play_fields SET_CENTER_CHUNK_PACKET_ID set_center_chunk_fields SetCenterChunk m"

definition combat_death_body :: "combat_death \<Rightarrow> play_error encoder" where
  "combat_death_body p = enc_all
    [st_mod (encode_var_int (cbd_player_id p)),
     st_map_err Codec (encode_string (cbd_message p) 32767)]"

definition encode_combat_death :: "combat_death \<Rightarrow> nat \<Rightarrow> play_error encoder" where
  "encode_combat_death p m = encode_play_frame COMBAT_DEATH_PACKET_ID (combat_death_body p) m"

definition combat_death_fields :: "(play_error, combat_death) decoder" where
  "combat_death_fields =
    st_bind (play_codec decode_var_int) (\<lambda>player_id.
    st_bind (play_codec (decode_string 32767)) (\<lambda>message.
    st_ret \<lparr>cbd_player_id = player_id, cbd_message = message\<rparr>))"

definition decode_combat_death :: "nat \<Rightarrow> (play_error, play_decode_outcome) decoder" where
  "decode_combat_death m = decode_play_fields COMBAT_DEATH_PACKET_ID combat_death_fields CombatDeath m"

definition set_block_destroy_stage_body :: "set_block_destroy_stage \<Rightarrow> play_error encoder" where
  "set_block_destroy_stage_body p = enc_all
    [st_mod (encode_var_int (sbd_entity_id p)),
     st_mod (encode_position3 (sbd_position p)),
     st_mod (encode_i8 (sbd_destroy_stage p))]"

definition encode_set_block_destroy_stage :: "set_block_destroy_stage \<Rightarrow> nat \<Rightarrow> play_error encoder" where
  "encode_set_block_destroy_stage p m = encode_play_frame SET_BLOCK_DESTROY_STAGE_PACKET_ID (set_block_destroy_stage_body p) m"

definition set_block_destroy_stage_fields :: "(play_error, set_block_destroy_stage) decoder" where
  "set_block_destroy_stage_fields =
    st_bind (play_codec decode_var_int) (\<lambda>entity_id.
    st_bind (play_codec decode_position) (\<lambda>position.
    st_bind (play_codec decode_i8) (\<lambda>destroy_stage.
    st_ret \<lparr>sbd_entity_id = entity_id, sbd_position = position, sbd_destroy_stage = destroy_stage\<rparr>)))"

definition decode_set_block_destroy_stage :: "nat \<Rightarrow> (play_error, play_decode_outcome) decoder" where
  "decode_set_block_destroy_stage m = decode_play_fields SET_BLOCK_DESTROY_STAGE_PACKET_ID set_block_destroy_stage_fields SetBlockDestroyStage m"

definition set_render_distance_body :: "set_render_distance \<Rightarrow> play_error encoder" where
  "set_render_distance_body p = enc_all
    [st_mod (encode_var_int (srd_view_distance p))]"

definition encode_set_render_distance :: "set_render_distance \<Rightarrow> nat \<Rightarrow> play_error encoder" where
  "encode_set_render_distance p m = encode_play_frame SET_RENDER_DISTANCE_PACKET_ID (set_render_distance_body p) m"

definition set_render_distance_fields :: "(play_error, set_render_distance) decoder" where
  "set_render_distance_fields =
    st_bind (play_codec decode_var_int) (\<lambda>view_distance.
    st_ret \<lparr>srd_view_distance = view_distance\<rparr>)"

definition decode_set_render_distance :: "nat \<Rightarrow> (play_error, play_decode_outcome) decoder" where
  "decode_set_render_distance m = decode_play_fields SET_RENDER_DISTANCE_PACKET_ID set_render_distance_fields SetRenderDistance m"

definition set_simulation_distance_body :: "set_simulation_distance \<Rightarrow> play_error encoder" where
  "set_simulation_distance_body p = enc_all
    [st_mod (encode_var_int (ssd_simulation_distance p))]"

definition encode_set_simulation_distance :: "set_simulation_distance \<Rightarrow> nat \<Rightarrow> play_error encoder" where
  "encode_set_simulation_distance p m = encode_play_frame SET_SIMULATION_DISTANCE_PACKET_ID (set_simulation_distance_body p) m"

definition set_simulation_distance_fields :: "(play_error, set_simulation_distance) decoder" where
  "set_simulation_distance_fields =
    st_bind (play_codec decode_var_int) (\<lambda>simulation_distance.
    st_ret \<lparr>ssd_simulation_distance = simulation_distance\<rparr>)"

definition decode_set_simulation_distance :: "nat \<Rightarrow> (play_error, play_decode_outcome) decoder" where
  "decode_set_simulation_distance m = decode_play_fields SET_SIMULATION_DISTANCE_PACKET_ID set_simulation_distance_fields SetSimulationDistance m"

definition player_digging_body :: "player_digging \<Rightarrow> play_error encoder" where
  "player_digging_body p = enc_all
    [st_mod (encode_var_int (player_digging_action_to_wire (pd_action p))),
     st_mod (encode_position3 (pd_position p)),
     st_mod (encode_u8 (pd_face p)),
     st_mod (encode_var_int (pd_sequence p))]"

definition encode_player_digging :: "player_digging \<Rightarrow> nat \<Rightarrow> play_error encoder" where
  "encode_player_digging p m = encode_play_frame PLAYER_DIGGING_PACKET_ID (player_digging_body p) m"

definition player_digging_fields :: "(play_error, player_digging) decoder" where
  "player_digging_fields =
    st_bind (play_enum decode_var_int player_digging_action_from_wire) (\<lambda>action.
    st_bind (play_codec decode_position) (\<lambda>position.
    st_bind (play_codec decode_u8) (\<lambda>face.
    st_bind (play_codec decode_var_int) (\<lambda>sequence.
    st_ret \<lparr>pd_action = action, pd_position = position, pd_face = face, pd_sequence = sequence\<rparr>))))"

definition decode_player_digging :: "nat \<Rightarrow> (play_error, play_decode_outcome) decoder" where
  "decode_player_digging m = decode_play_fields PLAYER_DIGGING_PACKET_ID player_digging_fields PlayerDigging m"

definition use_item_on_body :: "use_item_on \<Rightarrow> play_error encoder" where
  "use_item_on_body p = enc_all
    [st_mod (encode_position3 (uio_position p)),
     st_mod (encode_u8 (uio_face p)),
     st_mod (encode_var_int (uio_hand p)),
     st_mod (encode_f32 (uio_cursor_x p)),
     st_mod (encode_f32 (uio_cursor_y p)),
     st_mod (encode_f32 (uio_cursor_z p)),
     st_mod (encode_bool (uio_inside_block p)),
     st_mod (encode_var_int (uio_sequence p))]"

definition encode_use_item_on :: "use_item_on \<Rightarrow> nat \<Rightarrow> play_error encoder" where
  "encode_use_item_on p m = encode_play_frame USE_ITEM_ON_PACKET_ID (use_item_on_body p) m"

definition use_item_on_fields :: "(play_error, use_item_on) decoder" where
  "use_item_on_fields =
    st_bind (play_codec decode_position) (\<lambda>position.
    st_bind (play_codec decode_u8) (\<lambda>face.
    st_bind (play_codec decode_var_int) (\<lambda>hand.
    st_bind (play_codec decode_f32) (\<lambda>cursor_x.
    st_bind (play_codec decode_f32) (\<lambda>cursor_y.
    st_bind (play_codec decode_f32) (\<lambda>cursor_z.
    st_bind (play_codec decode_bool) (\<lambda>inside_block.
    st_bind (play_codec decode_var_int) (\<lambda>sequence.
    st_ret \<lparr>uio_position = position, uio_face = face, uio_hand = hand, uio_cursor_x = cursor_x, uio_cursor_y = cursor_y, uio_cursor_z = cursor_z, uio_inside_block = inside_block, uio_sequence = sequence\<rparr>))))))))"

definition decode_use_item_on :: "nat \<Rightarrow> (play_error, play_decode_outcome) decoder" where
  "decode_use_item_on m = decode_play_fields USE_ITEM_ON_PACKET_ID use_item_on_fields UseItemOn m"

definition block_update_body :: "block_update \<Rightarrow> play_error encoder" where
  "block_update_body p = enc_all
    [st_mod (encode_position3 (bu_position p)),
     st_mod (encode_var_int (bu_block_state p))]"

definition encode_block_update :: "block_update \<Rightarrow> nat \<Rightarrow> play_error encoder" where
  "encode_block_update p m = encode_play_frame BLOCK_UPDATE_PACKET_ID (block_update_body p) m"

definition block_update_fields :: "(play_error, block_update) decoder" where
  "block_update_fields =
    st_bind (play_codec decode_position) (\<lambda>position.
    st_bind (play_codec decode_var_int) (\<lambda>block_state.
    st_ret \<lparr>bu_position = position, bu_block_state = block_state\<rparr>))"

definition decode_block_update :: "nat \<Rightarrow> (play_error, play_decode_outcome) decoder" where
  "decode_block_update m = decode_play_fields BLOCK_UPDATE_PACKET_ID block_update_fields BlockUpdate m"

definition acknowledge_block_change_body :: "acknowledge_block_change \<Rightarrow> play_error encoder" where
  "acknowledge_block_change_body p = enc_all
    [st_mod (encode_var_int (abc_sequence p))]"

definition encode_acknowledge_block_change :: "acknowledge_block_change \<Rightarrow> nat \<Rightarrow> play_error encoder" where
  "encode_acknowledge_block_change p m = encode_play_frame ACKNOWLEDGE_BLOCK_CHANGE_PACKET_ID (acknowledge_block_change_body p) m"

definition acknowledge_block_change_fields :: "(play_error, acknowledge_block_change) decoder" where
  "acknowledge_block_change_fields =
    st_bind (play_codec decode_var_int) (\<lambda>sequence.
    st_ret \<lparr>abc_sequence = sequence\<rparr>)"

definition decode_acknowledge_block_change :: "nat \<Rightarrow> (play_error, play_decode_outcome) decoder" where
  "decode_acknowledge_block_change m = decode_play_fields ACKNOWLEDGE_BLOCK_CHANGE_PACKET_ID acknowledge_block_change_fields AcknowledgeBlockChange m"

subsection \<open>Unload Chunk\<close>

definition encode_unload_chunk :: "unload_chunk \<Rightarrow> nat \<Rightarrow> play_error encoder" where
  "encode_unload_chunk p m = encode_play_frame UNLOAD_CHUNK_PACKET_ID
    (enc_all [st_mod (\<lambda>body. body @ to_be_bytes (uc_chunk_x p)), st_mod (\<lambda>body. body @ to_be_bytes (uc_chunk_z p))]) m"

definition parse_unload_chunk :: "packet_frame \<Rightarrow> play_error + unload_chunk" where
  "parse_unload_chunk frame =
    (let body = pf_payload frame in
     if pf_packet_id frame \<noteq> UNLOAD_CHUNK_PACKET_ID
     then Inl (WrongPacketId (pf_packet_id frame) UNLOAD_CHUNK_PACKET_ID)
     else if length body < 8 then Inl (TrailingBytes 0)
     else let trailing = drop 8 body in
       if trailing \<noteq> [] then Inl (TrailingBytes (length trailing))
       else Inr \<lparr>uc_chunk_x = from_be_bytes (take 4 body), uc_chunk_z = from_be_bytes (take 4 (drop 4 body))\<rparr>)"

definition decode_unload_chunk :: "nat \<Rightarrow> (play_error, play_decode_outcome) decoder" where
  "decode_unload_chunk m = decode_packet play_error_from_framing parse_unload_chunk
    (\<lambda>p. PlayComplete (UnloadChunk p)) PlayIncomplete m"

subsection \<open>Chunk Data\<close>

definition encode_byte_arrays :: "bytes list \<Rightarrow> nat \<Rightarrow> nat \<Rightarrow> play_error encoder" where
  "encode_byte_arrays bss max_count max_size =
    (case i32_of_usize (length bss) of
       None \<Rightarrow> st_fail (Codec VarIntTooLong)
     | Some count \<Rightarrow>
       if length bss > max_count then st_fail (Codec StringTooLong)
       else enc_all [st_mod (encode_var_int count), enc_all (map (\<lambda>bs. play_codec (encode_byte_array bs max_size)) bss)])"

definition decode_byte_arrays :: "nat \<Rightarrow> nat \<Rightarrow> (play_error, bytes list) decoder" where
  "decode_byte_arrays max_count max_size =
    st_bind (play_codec decode_var_int) (\<lambda>raw.
    case usize_of_i32 raw of
      None \<Rightarrow> st_fail (Codec VarIntTooLong)
    | Some count \<Rightarrow> if count > max_count then st_fail (Codec StringTooLong)
        else dec_times count (play_codec (decode_byte_array max_size)))"

definition chunk_data_head :: "chunk_data \<Rightarrow> play_error encoder" where
  "chunk_data_head p = enc_all
    [st_mod (encode_i32 (chd_chunk_x p)),
     st_mod (encode_i32 (chd_chunk_z p)),
     (if length (chd_heightmaps p) > MAX_CHUNK_DATA_SIZE then st_fail (Codec StringTooLong)
      else st_mod (\<lambda>body. body @ chd_heightmaps p)),
     play_codec (encode_byte_array (chd_data p) MAX_CHUNK_DATA_SIZE),
     encode_byte_arrays (chd_block_entities p) MAX_BLOCK_ENTITIES MAX_CHUNK_DATA_SIZE]"

definition chunk_data_light :: "chunk_data \<Rightarrow> play_error encoder" where
  "chunk_data_light p =
    (if length (chd_light_data p) > MAX_CHUNK_DATA_SIZE then st_fail (Codec StringTooLong)
     else st_mod (\<lambda>body. body @ chd_light_data p))"

definition encode_chunk_data :: "chunk_data \<Rightarrow> nat \<Rightarrow> play_error encoder" where
  "encode_chunk_data p m =
    encode_play_frame CHUNK_DATA_PACKET_ID (st_bind (chunk_data_head p) (\<lambda>_. chunk_data_light p)) m"

definition chunk_data_head_fields :: "nat \<Rightarrow> (play_error, bytes \<Rightarrow> chunk_data) decoder" where
  "chunk_data_head_fields fuel =
    st_bind (play_codec decode_i32) (\<lambda>chunk_x.
    st_bind (play_codec decode_i32) (\<lambda>chunk_z.
    st_bind (st_bind (play_nbt (read_nbt_compound fuel)) (\<lambda>nbt.
        if length nbt > MAX_CHUNK_DATA_SIZE then st_fail (Codec StringTooLong) else st_ret nbt)) (\<lambda>heightmaps.
    st_bind (play_codec (decode_byte_array MAX_CHUNK_DATA_SIZE)) (\<lambda>data.
    st_bind (decode_byte_arrays MAX_BLOCK_ENTITIES MAX_CHUNK_DATA_SIZE) (\<lambda>block_entities.
    st_ret (\<lambda>light_data. \<lparr>chd_chunk_x = chunk_x, chd_chunk_z = chunk_z, chd_heightmaps = heightmaps,
      chd_data = data, chd_block_entities = block_entities, chd_light_data = light_data\<rparr>))))))"

definition parse_chunk_data :: "nat \<Rightarrow> packet_frame \<Rightarrow> play_error + chunk_data" where
  "parse_chunk_data fuel frame =
    (if pf_packet_id frame \<noteq> CHUNK_DATA_PACKET_ID
     then Inl (WrongPacketId (pf_packet_id frame) CHUNK_DATA_PACKET_ID)
     else case chunk_data_head_fields fuel (pf_payload frame) of
        (Inl e, _) \<Rightarrow> Inl e
      | (Inr chunk, body) \<Rightarrow>
        if length body > MAX_CHUNK_DATA_SIZE then Inl (Codec StringTooLong) else Inr (chunk body))"

definition decode_chunk_data :: "nat \<Rightarrow> nat \<Rightarrow> (play_error, play_decode_outcome) decoder" where
  "decode_chunk_data fuel m = decode_packet play_error_from_framing (parse_chunk_data fuel)
    (\<lambda>p. PlayComplete (ChunkData p)) PlayIncomplete m"

subsection \<open>The fields read back, and the packets as framed packets\<close>

lemma change_difficulty_field:
  "field_ok (change_difficulty_body p) change_difficulty_fields p"
  unfolding change_difficulty_body_def change_difficulty_fields_def
  by ((rule field_bind field_intros)+) simp

interpretation change_difficulty: framed_packet encode_change_difficulty decode_change_difficulty "\<lambda>p. PlayComplete (ChangeDifficulty p)"
    "Inr PlayIncomplete" "\<lambda>_. True"
  by (rule framed_packet_fieldsI [OF encode_change_difficulty_def decode_change_difficulty_def]) (simp add: change_difficulty_field)

lemma player_abilities_field:
  "field_ok (player_abilities_body p) player_abilities_fields p"
  unfolding player_abilities_body_def player_abilities_fields_def
  by ((rule field_bind field_intros)+) simp

interpretation player_abilities: framed_packet encode_player_abilities decode_player_abilities "\<lambda>p. PlayComplete (PlayerAbilities p)"
    "Inr PlayIncomplete" "\<lambda>_. True"
  by (rule framed_packet_fieldsI [OF encode_player_abilities_def decode_player_abilities_def]) (simp add: player_abilities_field)

lemma set_held_item_field:
  "field_ok (set_held_item_body p) set_held_item_fields p"
  unfolding set_held_item_body_def set_held_item_fields_def
  by ((rule field_bind field_intros)+) simp

interpretation set_held_item: framed_packet encode_set_held_item decode_set_held_item "\<lambda>p. PlayComplete (SetHeldItem p)"
    "Inr PlayIncomplete" "\<lambda>_. True"
  by (rule framed_packet_fieldsI [OF encode_set_held_item_def decode_set_held_item_def]) (simp add: set_held_item_field)

lemma entity_event_field:
  "field_ok (entity_event_body p) entity_event_fields p"
  unfolding entity_event_body_def entity_event_fields_def
  by ((rule field_bind field_intros)+) simp

interpretation entity_event: framed_packet encode_entity_event decode_entity_event "\<lambda>p. PlayComplete (EntityEvent p)"
    "Inr PlayIncomplete" "\<lambda>_. True"
  by (rule framed_packet_fieldsI [OF encode_entity_event_def decode_entity_event_def]) (simp add: entity_event_field)

lemma game_event_field:
  "field_ok (game_event_body p) game_event_fields p"
  unfolding game_event_body_def game_event_fields_def
  by ((rule field_bind field_intros)+) simp

interpretation game_event: framed_packet encode_game_event decode_game_event "\<lambda>p. PlayComplete (GameEvent p)"
    "Inr PlayIncomplete" "\<lambda>_. True"
  by (rule framed_packet_fieldsI [OF encode_game_event_def decode_game_event_def]) (simp add: game_event_field)

lemma set_default_spawn_position_field:
  assumes "in_position_range (sds_location p)"
  shows "field_ok (set_default_spawn_position_body p) set_default_spawn_position_fields p"
  unfolding set_default_spawn_position_body_def set_default_spawn_position_fields_def
  by ((rule field_bind field_intros assms)+) simp

interpretation set_default_spawn_position: framed_packet encode_set_default_spawn_position decode_set_default_spawn_position "\<lambda>p. PlayComplete (SetDefaultSpawnPosition p)"
    "Inr PlayIncomplete" "\<lambda>p. in_position_range (sds_location p)"
  by (rule framed_packet_fieldsI [OF encode_set_default_spawn_position_def decode_set_default_spawn_position_def]) (simp add: set_default_spawn_position_field)

lemma set_center_chunk_field:
  "field_ok (set_center_chunk_body p) set_center_chunk_fields p"
  unfolding set_center_chunk_body_def set_center_chunk_fields_def
  by ((rule field_bind field_intros)+) simp

interpretation set_center_chunk: framed_packet encode_set_center_chunk decode_set_center_chunk "\<lambda>p. PlayComplete (SetCenterChunk p)"
    "Inr PlayIncomplete" "\<lambda>_. True"
  by (rule framed_packet_fieldsI [OF encode_set_center_chunk_def decode_set_center_chunk_def]) (simp add: set_center_chunk_field)

lemma combat_death_field:
  assumes "utf8_valid (cbd_message p)"
  shows "field_ok (combat_death_body p) combat_death_fields p"
  unfolding combat_death_body_def combat_death_fields_def
  by ((rule field_bind field_intros assms)+) simp

interpretation combat_death: framed_packet encode_combat_death decode_combat_death "\<lambda>p. PlayComplete (CombatDeath p)"
    "Inr PlayIncomplete" "\<lambda>p. utf8_valid (cbd_message p)"
  by (rule framed_packet_fieldsI [OF encode_combat_death_def decode_combat_death_def]) (simp add: combat_death_field)

lemma set_block_destroy_stage_field:
  assumes "in_position_range (sbd_position p)"
  shows "field_ok (set_block_destroy_stage_body p) set_block_destroy_stage_fields p"
  unfolding set_block_destroy_stage_body_def set_block_destroy_stage_fields_def
  by ((rule field_bind field_intros assms)+) simp

interpretation set_block_destroy_stage: framed_packet encode_set_block_destroy_stage decode_set_block_destroy_stage "\<lambda>p. PlayComplete (SetBlockDestroyStage p)"
    "Inr PlayIncomplete" "\<lambda>p. in_position_range (sbd_position p)"
  by (rule framed_packet_fieldsI [OF encode_set_block_destroy_stage_def decode_set_block_destroy_stage_def]) (simp add: set_block_destroy_stage_field)

lemma set_render_distance_field:
  "field_ok (set_render_distance_body p) set_render_distance_fields p"
  unfolding set_render_distance_body_def set_render_distance_fields_def
  by ((rule field_bind field_intros)+) simp

interpretation set_render_distance: framed_packet encode_set_render_distance decode_set_render_distance "\<lambda>p. PlayComplete (SetRenderDistance p)"
    "Inr PlayIncomplete" "\<lambda>_. True"
  by (rule framed_packet_fieldsI [OF encode_set_render_distance_def decode_set_render_distance_def]) (simp add: set_render_distance_field)

lemma set_simulation_distance_field:
  "field_ok (set_simulation_distance_body p) set_simulation_distance_fields p"
  unfolding set_simulation_distance_body_def set_simulation_distance_fields_def
  by ((rule field_bind field_intros)+) simp

interpretation set_simulation_distance: framed_packet encode_set_simulation_distance decode_set_simulation_distance "\<lambda>p. PlayComplete (SetSimulationDistance p)"
    "Inr PlayIncomplete" "\<lambda>_. True"
  by (rule framed_packet_fieldsI [OF encode_set_simulation_distance_def decode_set_simulation_distance_def]) (simp add: set_simulation_distance_field)

lemma player_digging_field:
  assumes "in_position_range (pd_position p)"
  shows "field_ok (player_digging_body p) player_digging_fields p"
  unfolding player_digging_body_def player_digging_fields_def
  by ((rule field_bind field_intros assms)+) simp

interpretation player_digging: framed_packet encode_player_digging decode_player_digging "\<lambda>p. PlayComplete (PlayerDigging p)"
    "Inr PlayIncomplete" "\<lambda>p. in_position_range (pd_position p)"
  by (rule framed_packet_fieldsI [OF encode_player_digging_def decode_player_digging_def]) (simp add: player_digging_field)

lemma use_item_on_field:
  assumes "in_position_range (uio_position p)"
  shows "field_ok (use_item_on_body p) use_item_on_fields p"
  unfolding use_item_on_body_def use_item_on_fields_def
  by ((rule field_bind field_intros assms)+) simp

interpretation use_item_on: framed_packet encode_use_item_on decode_use_item_on "\<lambda>p. PlayComplete (UseItemOn p)"
    "Inr PlayIncomplete" "\<lambda>p. in_position_range (uio_position p)"
  by (rule framed_packet_fieldsI [OF encode_use_item_on_def decode_use_item_on_def]) (simp add: use_item_on_field)

lemma block_update_field:
  assumes "in_position_range (bu_position p)"
  shows "field_ok (block_update_body p) block_update_fields p"
  unfolding block_update_body_def block_update_fields_def
  by ((rule field_bind field_intros assms)+) simp

interpretation block_update: framed_packet encode_block_update decode_block_update "\<lambda>p. PlayComplete (BlockUpdate p)"
    "Inr PlayIncomplete" "\<lambda>p. in_position_range (bu_position p)"
  by (rule framed_packet_fieldsI [OF encode_block_update_def decode_block_update_def]) (simp add: block_update_field)

lemma acknowledge_block_change_field:
  "field_ok (acknowledge_block_change_body p) acknowledge_block_change_fields p"
  unfolding acknowledge_block_change_body_def acknowledge_block_change_fields_def
  by ((rule field_bind field_intros)+) simp

interpretation acknowledge_block_change: framed_packet encode_acknowledge_block_change decode_acknowledge_block_change "\<lambda>p. PlayComplete (AcknowledgeBlockChange p)"
    "Inr PlayIncomplete" "\<lambda>_. True"
  by (rule framed_packet_fieldsI [OF encode_acknowledge_block_change_def decode_acknowledge_block_change_def]) (simp add: acknowledge_block_change_field)

interpretation plugin_message: framed_packet encode_plugin_message_clientbound decode_plugin_message_clientbound
    "\<lambda>p. PlayComplete (PluginMessageClientbound p)" "Inr PlayIncomplete" "\<lambda>p. utf8_valid (pmc_channel p)"
proof (rule framed_packetI [OF encode_plugin_message_clientbound_def decode_plugin_message_clientbound_def])
  fix p b
  assume v: "utf8_valid (pmc_channel p)"
    and b: "run_body (st_bind (plugin_message_head p) (\<lambda>_. st_mod (\<lambda>body. body @ pmc_data p))) = Inr b"
  have "field_ok (plugin_message_head p) (play_codec (decode_string MAX_CHAT_COMPONENT_LENGTH)) (pmc_channel p)"
    by (simp add: plugin_message_head_def field_map_err_enc field_map_err field_string v)
  from field_then_rest [OF this b]
  show "parse_plugin_message \<lparr>pf_packet_id = PLUGIN_MESSAGE_CLIENTBOUND_PACKET_ID, pf_payload = b\<rparr> = Inr p"
    by (simp add: parse_plugin_message_def st_map_err_def)
qed

interpretation unload_chunk: framed_packet encode_unload_chunk decode_unload_chunk
    "\<lambda>p. PlayComplete (UnloadChunk p)" "Inr PlayIncomplete" "\<lambda>_. True"
  by (rule framed_packetI [OF encode_unload_chunk_def decode_unload_chunk_def])
    (auto simp: run_body_Inr st_bind_Inr_iff parse_unload_chunk_def Let_def from_be_to_be)

lemma field_byte_arrays: "field_ok (encode_byte_arrays bss k n) (decode_byte_arrays k n) bss"
proof (cases "length bss \<le> i32_max \<and> length bss \<le> k")
  case True
  have "field_ok (enc_all (map (\<lambda>bs. play_codec (encode_byte_array bs n)) bss))
      (dec_times (length bss) (play_codec (decode_byte_array n))) bss"
    by (rule field_times, rule field_map_err_enc, rule field_map_err, rule field_byte_array)
  then have "field_ok (enc_all [st_mod (encode_var_int (word_of_nat (length bss))),
      enc_all (map (\<lambda>bs. play_codec (encode_byte_array bs n)) bss)]) (decode_byte_arrays k n) bss"
    unfolding decode_byte_arrays_def
    by (intro field_bind [where v = "word_of_nat (length bss)"] field_intros)
      (use True in \<open>simp add: not_less\<close>)
  with True show ?thesis by (simp add: encode_byte_arrays_def i32_of_usize_def)
next
  case False
  then show ?thesis by (auto simp: encode_byte_arrays_def i32_of_usize_def intro: field_fail)
qed

lemma field_heightmaps:
  assumes "nbt_root nbt" "length nbt \<le> fuel"
  shows "field_ok (if length nbt > k then st_fail e else st_mod (\<lambda>body. body @ nbt))
    (st_bind (play_nbt (read_nbt_compound fuel)) (\<lambda>nbt. if length nbt > k then st_fail e' else st_ret nbt)) nbt"
proof (cases "length nbt > k")
  case False
  have "field_ok (st_mod (\<lambda>body. body @ nbt)) (play_nbt (read_nbt_compound fuel)) nbt"
    by (rule field_map_err [OF field_nbt]) (use assms in simp_all)
  then have "field_ok (st_mod (\<lambda>body. body @ nbt))
      (st_bind (play_nbt (read_nbt_compound fuel)) (\<lambda>nbt. if length nbt > k then st_fail e' else st_ret nbt)) nbt"
    by (rule field_bind_last) (use False in simp)
  with False show ?thesis by simp
qed (simp add: field_fail)

interpretation chunk_data: framed_packet encode_chunk_data "decode_chunk_data fuel"
    "\<lambda>p. PlayComplete (ChunkData p)" "Inr PlayIncomplete"
    "\<lambda>p. nbt_root (chd_heightmaps p) \<and> length (chd_heightmaps p) \<le> fuel" for fuel
proof (rule framed_packetI [OF encode_chunk_data_def decode_chunk_data_def])
  fix p b
  assume v: "nbt_root (chd_heightmaps p) \<and> length (chd_heightmaps p) \<le> fuel"
    and b: "run_body (st_bind (chunk_data_head p) (\<lambda>_. chunk_data_light p)) = Inr b"
  let ?c = "\<lambda>l. \<lparr>chd_chunk_x = chd_chunk_x p, chd_chunk_z = chd_chunk_z p, chd_heightmaps = chd_heightmaps p,
    chd_data = chd_data p, chd_block_entities = chd_block_entities p, chd_light_data = l\<rparr>"
  have le: "length (chd_light_data p) \<le> MAX_CHUNK_DATA_SIZE"
    using b by (auto simp: run_body_Inr st_bind_Inr_iff chunk_data_light_def split: if_splits)
  have h: "field_ok (chunk_data_head p) (chunk_data_head_fields fuel) ?c"
    unfolding chunk_data_head_def chunk_data_head_fields_def
    by ((rule field_bind field_intros field_byte_arrays field_heightmaps
          v [THEN conjunct1] v [THEN conjunct2])+) simp
  have "run_body (st_bind (chunk_data_head p) (\<lambda>_. st_mod (\<lambda>body. body @ chd_light_data p))) = Inr b"
    using b le by (simp add: chunk_data_light_def)
  from field_then_rest [OF h this] le
  show "parse_chunk_data fuel \<lparr>pf_packet_id = CHUNK_DATA_PACKET_ID, pf_payload = b\<rparr> = Inr p"
    by (simp add: parse_chunk_data_def)
qed

end
