(* ===== verification/Play_Entity.thy ===== *)
theory Play_Entity
  imports Play_Types
begin

section \<open>Play packets of entities and the player list (\<open>play.rs\<close>)\<close>

text \<open>
  Spawning, moving and removing entities, the player list, and the client's interaction with an
  entity.
\<close>

subsection \<open>Movement\<close>

definition move_entity_pos_body :: "move_entity_pos \<Rightarrow> play_error encoder" where
  "move_entity_pos_body p = enc_all
    [st_mod (encode_var_int (mep_entity_id p)),
     st_mod (encode_i16 (mep_delta_x p)),
     st_mod (encode_i16 (mep_delta_y p)),
     st_mod (encode_i16 (mep_delta_z p)),
     st_mod (encode_bool (mep_on_ground p))]"

definition encode_move_entity_pos :: "move_entity_pos \<Rightarrow> nat \<Rightarrow> play_error encoder" where
  "encode_move_entity_pos p m = encode_play_frame MOVE_ENTITY_POS_PACKET_ID (move_entity_pos_body p) m"

definition move_entity_pos_fields :: "(play_error, move_entity_pos) decoder" where
  "move_entity_pos_fields =
    st_bind (play_codec decode_var_int) (\<lambda>entity_id.
    st_bind (play_codec decode_i16) (\<lambda>delta_x.
    st_bind (play_codec decode_i16) (\<lambda>delta_y.
    st_bind (play_codec decode_i16) (\<lambda>delta_z.
    st_bind (play_codec decode_bool) (\<lambda>on_ground.
    st_ret \<lparr>mep_entity_id = entity_id, mep_delta_x = delta_x, mep_delta_y = delta_y, mep_delta_z = delta_z, mep_on_ground = on_ground\<rparr>)))))"

definition decode_move_entity_pos :: "nat \<Rightarrow> (play_error, play_decode_outcome) decoder" where
  "decode_move_entity_pos m = decode_play_fields MOVE_ENTITY_POS_PACKET_ID move_entity_pos_fields MoveEntityPos m"

definition move_entity_pos_rot_body :: "move_entity_pos_rot \<Rightarrow> play_error encoder" where
  "move_entity_pos_rot_body p = enc_all
    [st_mod (encode_var_int (mpr_entity_id p)),
     st_mod (encode_i16 (mpr_delta_x p)),
     st_mod (encode_i16 (mpr_delta_y p)),
     st_mod (encode_i16 (mpr_delta_z p)),
     st_mod (encode_u8 (mpr_yaw p)),
     st_mod (encode_u8 (mpr_pitch p)),
     st_mod (encode_bool (mpr_on_ground p))]"

definition encode_move_entity_pos_rot :: "move_entity_pos_rot \<Rightarrow> nat \<Rightarrow> play_error encoder" where
  "encode_move_entity_pos_rot p m = encode_play_frame MOVE_ENTITY_POS_ROT_PACKET_ID (move_entity_pos_rot_body p) m"

definition move_entity_pos_rot_fields :: "(play_error, move_entity_pos_rot) decoder" where
  "move_entity_pos_rot_fields =
    st_bind (play_codec decode_var_int) (\<lambda>entity_id.
    st_bind (play_codec decode_i16) (\<lambda>delta_x.
    st_bind (play_codec decode_i16) (\<lambda>delta_y.
    st_bind (play_codec decode_i16) (\<lambda>delta_z.
    st_bind (play_codec decode_u8) (\<lambda>yaw.
    st_bind (play_codec decode_u8) (\<lambda>pitch.
    st_bind (play_codec decode_bool) (\<lambda>on_ground.
    st_ret \<lparr>mpr_entity_id = entity_id, mpr_delta_x = delta_x, mpr_delta_y = delta_y, mpr_delta_z = delta_z, mpr_yaw = yaw, mpr_pitch = pitch, mpr_on_ground = on_ground\<rparr>)))))))"

definition decode_move_entity_pos_rot :: "nat \<Rightarrow> (play_error, play_decode_outcome) decoder" where
  "decode_move_entity_pos_rot m = decode_play_fields MOVE_ENTITY_POS_ROT_PACKET_ID move_entity_pos_rot_fields MoveEntityPosRot m"

definition move_entity_rot_body :: "move_entity_rot \<Rightarrow> play_error encoder" where
  "move_entity_rot_body p = enc_all
    [st_mod (encode_var_int (mer_entity_id p)),
     st_mod (encode_u8 (mer_yaw p)),
     st_mod (encode_u8 (mer_pitch p)),
     st_mod (encode_bool (mer_on_ground p))]"

definition encode_move_entity_rot :: "move_entity_rot \<Rightarrow> nat \<Rightarrow> play_error encoder" where
  "encode_move_entity_rot p m = encode_play_frame MOVE_ENTITY_ROT_PACKET_ID (move_entity_rot_body p) m"

definition move_entity_rot_fields :: "(play_error, move_entity_rot) decoder" where
  "move_entity_rot_fields =
    st_bind (play_codec decode_var_int) (\<lambda>entity_id.
    st_bind (play_codec decode_u8) (\<lambda>yaw.
    st_bind (play_codec decode_u8) (\<lambda>pitch.
    st_bind (play_codec decode_bool) (\<lambda>on_ground.
    st_ret \<lparr>mer_entity_id = entity_id, mer_yaw = yaw, mer_pitch = pitch, mer_on_ground = on_ground\<rparr>))))"

definition decode_move_entity_rot :: "nat \<Rightarrow> (play_error, play_decode_outcome) decoder" where
  "decode_move_entity_rot m = decode_play_fields MOVE_ENTITY_ROT_PACKET_ID move_entity_rot_fields MoveEntityRot m"

definition entity_teleport_body :: "entity_teleport \<Rightarrow> play_error encoder" where
  "entity_teleport_body p = enc_all
    [st_mod (encode_var_int (et_entity_id p)),
     st_mod (encode_f64 (et_x p)),
     st_mod (encode_f64 (et_y p)),
     st_mod (encode_f64 (et_z p)),
     st_mod (encode_u8 (et_yaw p)),
     st_mod (encode_u8 (et_pitch p)),
     st_mod (encode_bool (et_on_ground p))]"

definition encode_entity_teleport :: "entity_teleport \<Rightarrow> nat \<Rightarrow> play_error encoder" where
  "encode_entity_teleport p m = encode_play_frame ENTITY_TELEPORT_PACKET_ID (entity_teleport_body p) m"

definition entity_teleport_fields :: "(play_error, entity_teleport) decoder" where
  "entity_teleport_fields =
    st_bind (play_codec decode_var_int) (\<lambda>entity_id.
    st_bind (play_codec decode_f64) (\<lambda>x.
    st_bind (play_codec decode_f64) (\<lambda>y.
    st_bind (play_codec decode_f64) (\<lambda>z.
    st_bind (play_codec decode_u8) (\<lambda>yaw.
    st_bind (play_codec decode_u8) (\<lambda>pitch.
    st_bind (play_codec decode_bool) (\<lambda>on_ground.
    st_ret \<lparr>et_entity_id = entity_id, et_x = x, et_y = y, et_z = z, et_yaw = yaw, et_pitch = pitch, et_on_ground = on_ground\<rparr>)))))))"

definition decode_entity_teleport :: "nat \<Rightarrow> (play_error, play_decode_outcome) decoder" where
  "decode_entity_teleport m = decode_play_fields ENTITY_TELEPORT_PACKET_ID entity_teleport_fields EntityTeleport m"

subsection \<open>Player list\<close>

definition ADD_PLAYER :: u8 where "ADD_PLAYER = 0x01"
definition INITIALIZE_CHAT :: u8 where "INITIALIZE_CHAT = 0x02"
definition UPDATE_GAMEMODE :: u8 where "UPDATE_GAMEMODE = 0x04"
definition UPDATE_LISTED :: u8 where "UPDATE_LISTED = 0x08"
definition UPDATE_LATENCY :: u8 where "UPDATE_LATENCY = 0x10"
definition UPDATE_DISPLAY_NAME :: u8 where "UPDATE_DISPLAY_NAME = 0x20"

definition actions_has :: "player_info_actions \<Rightarrow> u8 \<Rightarrow> bool" where
  "actions_has actions flag \<longleftrightarrow> actions AND flag \<noteq> 0"

text \<open>\<open>i32::try_from(len)\<close>, written as a VarInt, or the error.\<close>

definition encode_count :: "nat \<Rightarrow> play_error encoder" where
  "encode_count n =
    (case i32_of_usize n of None \<Rightarrow> st_fail (Codec VarIntTooLong) | Some c \<Rightarrow> st_mod (encode_var_int c))"

definition when_action :: "player_info_actions \<Rightarrow> u8 \<Rightarrow> play_error encoder \<Rightarrow> play_error encoder" where
  "when_action actions flag enc = (if actions_has actions flag then enc else st_ret ())"

definition encode_optional_string :: "rstring option \<Rightarrow> play_error encoder" where
  "encode_optional_string s =
    (case s of
       Some str \<Rightarrow> enc_all [st_mod (encode_bool True), play_codec (encode_string str MAX_CHAT_COMPONENT_LENGTH)]
     | None \<Rightarrow> st_mod (encode_bool False))"

definition player_info_property_body :: "rstring \<times> rstring \<times> rstring option \<Rightarrow> play_error encoder" where
  "player_info_property_body prop = (case prop of (name, val, signature) \<Rightarrow> enc_all
    [play_codec (encode_string name MAX_CHAT_COMPONENT_LENGTH),
     play_codec (encode_string val MAX_CHAT_COMPONENT_LENGTH),
     encode_optional_string signature])"

definition player_info_entry_body :: "player_info_actions \<Rightarrow> player_info_entry \<Rightarrow> play_error encoder" where
  "player_info_entry_body actions e = enc_all
    [st_mod (\<lambda>body. body @ uuid_to_be_bytes (pie_uuid e)),
     when_action actions ADD_PLAYER (enc_all
       [play_codec (encode_string (pie_name e) MAX_CHAT_COMPONENT_LENGTH),
        encode_count (length (pie_properties e)),
        enc_all (map player_info_property_body (pie_properties e))]),
     when_action actions INITIALIZE_CHAT (st_mod (encode_bool False)),
     when_action actions UPDATE_GAMEMODE (st_mod (encode_var_int (pie_gamemode e))),
     when_action actions UPDATE_LISTED (st_mod (encode_bool (pie_listed e))),
     when_action actions UPDATE_LATENCY (st_mod (encode_var_int (pie_latency e))),
     when_action actions UPDATE_DISPLAY_NAME (encode_optional_string (pie_display_name e))]"

definition encode_player_info_update :: "player_info_update \<Rightarrow> nat \<Rightarrow> play_error encoder" where
  "encode_player_info_update p m = encode_play_frame PLAYER_INFO_UPDATE_PACKET_ID
    (enc_all
      [st_mod (encode_u8 (piu_actions p)),
       encode_count (length (piu_entries p)),
       enc_all (map (player_info_entry_body (piu_actions p)) (piu_entries p))]) m"

definition encode_player_info_remove :: "player_info_remove \<Rightarrow> nat \<Rightarrow> play_error encoder" where
  "encode_player_info_remove p m = encode_play_frame PLAYER_INFO_REMOVE_PACKET_ID
    (enc_all
      [encode_count (length (pir_uuids p)),
       enc_all (map (\<lambda>u. st_mod (\<lambda>body. body @ uuid_to_be_bytes u)) (pir_uuids p))]) m"

subsection \<open>Spawning, removing and interacting\<close>

definition encode_spawn_player :: "spawn_player \<Rightarrow> nat \<Rightarrow> play_error encoder" where
  "encode_spawn_player p m = encode_play_frame SPAWN_PLAYER_PACKET_ID
    (enc_all
      [st_mod (encode_var_int (spl_entity_id p)),
       st_mod (\<lambda>body. body @ uuid_to_be_bytes (spl_uuid p)),
       st_mod (encode_f64 (spl_x p)),
       st_mod (encode_f64 (spl_y p)),
       st_mod (encode_f64 (spl_z p)),
       st_mod (encode_u8 (spl_yaw p)),
       st_mod (encode_u8 (spl_pitch p)),
       st_mod (\<lambda>body. body @ [0xFF])]) m"

definition encode_spawn_entity :: "spawn_entity \<Rightarrow> nat \<Rightarrow> play_error encoder" where
  "encode_spawn_entity p m = encode_play_frame SPAWN_ENTITY_PACKET_ID
    (enc_all
      [st_mod (encode_var_int (se_entity_id p)),
       st_mod (\<lambda>body. body @ uuid_to_be_bytes (se_uuid p)),
       st_mod (encode_var_int (se_entity_type p)),
       st_mod (encode_f64 (se_x p)),
       st_mod (encode_f64 (se_y p)),
       st_mod (encode_f64 (se_z p)),
       st_mod (encode_u8 (se_pitch p)),
       st_mod (encode_u8 (se_yaw p)),
       st_mod (encode_u8 (se_head_yaw p)),
       st_mod (encode_var_int (se_data p)),
       st_mod (encode_i16 (se_velocity_x p)),
       st_mod (encode_i16 (se_velocity_y p)),
       st_mod (encode_i16 (se_velocity_z p))]) m"

definition encode_remove_entities :: "remove_entities \<Rightarrow> nat \<Rightarrow> play_error encoder" where
  "encode_remove_entities p m = encode_play_frame REMOVE_ENTITIES_PACKET_ID
    (enc_all
      [encode_count (length (re_entity_ids p)),
       enc_all (map (\<lambda>i. st_mod (encode_var_int i)) (re_entity_ids p))]) m"

text \<open>\<open>action\<close> 2 (interact at) carries a target position, and 0 and 2 the hand.\<close>

definition interact_entity_fields :: "(play_error, interact_entity) decoder" where
  "interact_entity_fields =
    st_bind (play_codec decode_var_int) (\<lambda>entity_id.
    st_bind (play_codec decode_var_int) (\<lambda>action.
    st_bind (if action = 2 then
        st_bind (play_codec decode_f32) (\<lambda>_.
        st_bind (play_codec decode_f32) (\<lambda>_.
        st_bind (play_codec decode_f32) (\<lambda>_. st_ret ()))) else st_ret ()) (\<lambda>_.
    st_bind (if action = 0 \<or> action = 2 then play_codec decode_var_int else st_ret 0) (\<lambda>hand.
    st_bind (play_codec decode_bool) (\<lambda>sneaking.
    st_ret \<lparr>ie_entity_id = entity_id, ie_action = action, ie_hand = hand, ie_sneaking = sneaking\<rparr>)))))"

definition decode_interact_entity :: "nat \<Rightarrow> (play_error, play_decode_outcome) decoder" where
  "decode_interact_entity m =
    decode_play_fields INTERACT_ENTITY_PACKET_ID interact_entity_fields InteractEntity m"

subsection \<open>The fields read back, and the packets as framed packets\<close>

lemmas field_i16 [field_intros] = field_codec [OF be_i16.codec_axioms TrueI]

lemma move_entity_pos_field:
  "field_ok (move_entity_pos_body p) move_entity_pos_fields p"
  unfolding move_entity_pos_body_def move_entity_pos_fields_def
  by ((rule field_bind field_intros)+) simp

interpretation move_entity_pos: framed_packet encode_move_entity_pos decode_move_entity_pos "\<lambda>p. PlayComplete (MoveEntityPos p)"
    "Inr PlayIncomplete" "\<lambda>_. True"
  by (rule framed_packet_fieldsI [OF encode_move_entity_pos_def decode_move_entity_pos_def]) (simp add: move_entity_pos_field)

lemma move_entity_pos_rot_field:
  "field_ok (move_entity_pos_rot_body p) move_entity_pos_rot_fields p"
  unfolding move_entity_pos_rot_body_def move_entity_pos_rot_fields_def
  by ((rule field_bind field_intros)+) simp

interpretation move_entity_pos_rot: framed_packet encode_move_entity_pos_rot decode_move_entity_pos_rot "\<lambda>p. PlayComplete (MoveEntityPosRot p)"
    "Inr PlayIncomplete" "\<lambda>_. True"
  by (rule framed_packet_fieldsI [OF encode_move_entity_pos_rot_def decode_move_entity_pos_rot_def]) (simp add: move_entity_pos_rot_field)

lemma move_entity_rot_field:
  "field_ok (move_entity_rot_body p) move_entity_rot_fields p"
  unfolding move_entity_rot_body_def move_entity_rot_fields_def
  by ((rule field_bind field_intros)+) simp

interpretation move_entity_rot: framed_packet encode_move_entity_rot decode_move_entity_rot "\<lambda>p. PlayComplete (MoveEntityRot p)"
    "Inr PlayIncomplete" "\<lambda>_. True"
  by (rule framed_packet_fieldsI [OF encode_move_entity_rot_def decode_move_entity_rot_def]) (simp add: move_entity_rot_field)

lemma entity_teleport_field:
  "field_ok (entity_teleport_body p) entity_teleport_fields p"
  unfolding entity_teleport_body_def entity_teleport_fields_def
  by ((rule field_bind field_intros)+) simp

interpretation entity_teleport: framed_packet encode_entity_teleport decode_entity_teleport "\<lambda>p. PlayComplete (EntityTeleport p)"
    "Inr PlayIncomplete" "\<lambda>_. True"
  by (rule framed_packet_fieldsI [OF encode_entity_teleport_def decode_entity_teleport_def]) (simp add: entity_teleport_field)

text \<open>
  The client's three ways to interact with an entity. An interaction (0) carries a hand, an
  attack (1) none, and an interaction at a point (2) the point and the hand: the decoder reads each
  layout to its last byte, takes 0 as the hand of an attack, and refuses a payload that is one
  byte longer.
\<close>

theorem interact_entity_layouts:
  "interact_entity_fields (encode_var_int e [] @ encode_var_int 1 [] @ encode_bool s [] @ rest) =
     (Inr \<lparr>ie_entity_id = e, ie_action = 1, ie_hand = 0, ie_sneaking = s\<rparr>, rest)
   \<and> interact_entity_fields (encode_var_int e [] @ encode_var_int 0 [] @ encode_var_int h [] @ encode_bool s [] @ rest) =
     (Inr \<lparr>ie_entity_id = e, ie_action = 0, ie_hand = h, ie_sneaking = s\<rparr>, rest)
   \<and> interact_entity_fields (encode_var_int e [] @ encode_var_int 2 [] @ encode_f32 x [] @ encode_f32 y []
       @ encode_f32 z [] @ encode_var_int h [] @ encode_bool s [] @ rest) =
     (Inr \<lparr>ie_entity_id = e, ie_action = 2, ie_hand = h, ie_sneaking = s\<rparr>, rest)
   \<and> parse_fields WrongPacketId TrailingBytes INTERACT_ENTITY_PACKET_ID interact_entity_fields
       \<lparr>pf_packet_id = INTERACT_ENTITY_PACKET_ID,
         pf_payload = encode_var_int e [] @ encode_var_int 1 [] @ encode_bool s [] @ [b]\<rparr> = Inl (TrailingBytes 1)"
  by (simp add: interact_entity_fields_def parse_fields_def decode_exact_def st_bind_def st_map_err_def
      var_int.roundtrip bool.roundtrip be_f32.roundtrip)

end
