(* ===== verification/Play_Container.thy ===== *)
theory Play_Container
  imports Play_Types
begin

section \<open>Play packets of inventories and windows (\<open>play.rs\<close>)\<close>

text \<open>
  Slots and windows: what the server shows of them, and the clicks and creative-mode changes the
  client sends.
\<close>

definition set_container_slot_body :: "set_container_slot \<Rightarrow> play_error encoder" where
  "set_container_slot_body p = enc_all
    [st_mod (encode_i8 (scs_window_id p)),
     st_mod (encode_var_int (scs_state_id p)),
     st_mod (encode_i16 (scs_slot p)),
     st_mod (encode_slot (scs_item p))]"

definition encode_set_container_slot :: "set_container_slot \<Rightarrow> nat \<Rightarrow> play_error encoder" where
  "encode_set_container_slot p m = encode_play_frame SET_CONTAINER_SLOT_PACKET_ID (set_container_slot_body p) m"

definition set_container_slot_fields :: "nat \<Rightarrow> (play_error, set_container_slot) decoder" where
  "set_container_slot_fields fuel =
    st_bind (play_codec decode_i8) (\<lambda>window_id.
    st_bind (play_codec decode_var_int) (\<lambda>state_id.
    st_bind (play_codec decode_i16) (\<lambda>slot.
    st_bind (play_nbt (decode_slot fuel)) (\<lambda>item.
    st_ret \<lparr>scs_window_id = window_id, scs_state_id = state_id, scs_slot = slot, scs_item = item\<rparr>))))"

definition decode_set_container_slot :: "nat \<Rightarrow> nat \<Rightarrow> (play_error, play_decode_outcome) decoder" where
  "decode_set_container_slot fuel m = decode_play_fields SET_CONTAINER_SLOT_PACKET_ID (set_container_slot_fields fuel) SetContainerSlot m"

definition open_screen_body :: "open_screen \<Rightarrow> play_error encoder" where
  "open_screen_body p = enc_all
    [st_mod (encode_var_int (os_window_id p)),
     st_mod (encode_var_int (os_window_type p)),
     st_map_err Codec (encode_string (os_title p) MAX_CHAT_COMPONENT_LENGTH)]"

definition encode_open_screen :: "open_screen \<Rightarrow> nat \<Rightarrow> play_error encoder" where
  "encode_open_screen p m = encode_play_frame OPEN_SCREEN_PACKET_ID (open_screen_body p) m"

definition open_screen_fields :: "(play_error, open_screen) decoder" where
  "open_screen_fields =
    st_bind (play_codec decode_var_int) (\<lambda>window_id.
    st_bind (play_codec decode_var_int) (\<lambda>window_type.
    st_bind (play_codec (decode_string MAX_CHAT_COMPONENT_LENGTH)) (\<lambda>title.
    st_ret \<lparr>os_window_id = window_id, os_window_type = window_type, os_title = title\<rparr>)))"

definition decode_open_screen :: "nat \<Rightarrow> (play_error, play_decode_outcome) decoder" where
  "decode_open_screen m = decode_play_fields OPEN_SCREEN_PACKET_ID open_screen_fields OpenScreen m"

definition set_held_item_serverbound_fields :: "(play_error, set_held_item_serverbound) decoder" where
  "set_held_item_serverbound_fields =
    st_bind (play_codec decode_i16) (\<lambda>slot.
    st_ret \<lparr>shs_slot = slot\<rparr>)"

definition decode_set_held_item_serverbound :: "nat \<Rightarrow> (play_error, play_decode_outcome) decoder" where
  "decode_set_held_item_serverbound m = decode_play_fields SET_HELD_ITEM_SERVERBOUND_PACKET_ID set_held_item_serverbound_fields SetHeldItemServerbound m"

definition set_creative_mode_slot_fields :: "nat \<Rightarrow> (play_error, set_creative_mode_slot) decoder" where
  "set_creative_mode_slot_fields fuel =
    st_bind (play_codec decode_i16) (\<lambda>slot.
    st_bind (play_nbt (decode_slot fuel)) (\<lambda>item.
    st_ret \<lparr>scm_slot = slot, scm_item = item\<rparr>))"

definition decode_set_creative_mode_slot :: "nat \<Rightarrow> nat \<Rightarrow> (play_error, play_decode_outcome) decoder" where
  "decode_set_creative_mode_slot fuel m = decode_play_fields SET_CREATIVE_MODE_SLOT_PACKET_ID (set_creative_mode_slot_fields fuel) SetCreativeModeSlot m"

subsection \<open>Window contents\<close>

definition set_container_content_body :: "set_container_content \<Rightarrow> play_error encoder" where
  "set_container_content_body p = enc_all
    [st_mod (encode_u8 (scn_window_id p)),
     st_mod (encode_var_int (scn_state_id p)),
     (if length (scn_slots p) > MAX_CONTAINER_SLOTS then st_fail (Codec VarIntTooLong)
      else enc_all [st_mod (encode_var_int (word_of_nat (length (scn_slots p)))),
        enc_all (map (\<lambda>s. st_mod (encode_slot s)) (scn_slots p))]),
     st_mod (encode_slot (scn_carried_item p))]"

definition encode_set_container_content :: "set_container_content \<Rightarrow> nat \<Rightarrow> play_error encoder" where
  "encode_set_container_content p m =
    encode_play_frame SET_CONTAINER_CONTENT_PACKET_ID (set_container_content_body p) m"

text \<open>A count of at most 256 entries, refused with the given error when it is negative or larger.\<close>

definition decode_slot_list :: "codec_error \<Rightarrow> (play_error, 'a) decoder \<Rightarrow> (play_error, 'a list) decoder" where
  "decode_slot_list bad item =
    st_bind (play_codec decode_var_int) (\<lambda>count.
    if sint count < 0 \<or> nat (sint count) > MAX_CONTAINER_SLOTS then st_fail (Codec bad)
    else dec_times (nat (sint count)) item)"

definition set_container_content_fields :: "nat \<Rightarrow> (play_error, set_container_content) decoder" where
  "set_container_content_fields fuel =
    st_bind (play_codec decode_u8) (\<lambda>window_id.
    st_bind (play_codec decode_var_int) (\<lambda>state_id.
    st_bind (decode_slot_list VarIntTooLong (play_nbt (decode_slot fuel))) (\<lambda>slots.
    st_bind (play_nbt (decode_slot fuel)) (\<lambda>carried_item.
    st_ret \<lparr>scn_window_id = window_id, scn_state_id = state_id, scn_slots = slots,
      scn_carried_item = carried_item\<rparr>))))"

definition decode_set_container_content :: "nat \<Rightarrow> nat \<Rightarrow> (play_error, play_decode_outcome) decoder" where
  "decode_set_container_content fuel m =
    decode_play_fields SET_CONTAINER_CONTENT_PACKET_ID (set_container_content_fields fuel) SetContainerContent m"

subsection \<open>Closing windows\<close>

definition encode_close_container_clientbound :: "close_container \<Rightarrow> nat \<Rightarrow> play_error encoder" where
  "encode_close_container_clientbound p m =
    encode_play_frame CLOSE_CONTAINER_CLIENTBOUND_PACKET_ID (enc_all [st_mod (encode_u8 (cc_window_id p))]) m"

definition encode_close_container_serverbound :: "close_container \<Rightarrow> nat \<Rightarrow> play_error encoder" where
  "encode_close_container_serverbound p m =
    encode_play_frame CLOSE_CONTAINER_SERVERBOUND_PACKET_ID (enc_all [st_mod (encode_u8 (cc_window_id p))]) m"

definition close_container_fields :: "(play_error, close_container) decoder" where
  "close_container_fields = st_bind (play_codec decode_u8) (\<lambda>window_id. st_ret \<lparr>cc_window_id = window_id\<rparr>)"

definition decode_close_container_serverbound :: "nat \<Rightarrow> (play_error, play_decode_outcome) decoder" where
  "decode_close_container_serverbound m =
    decode_play_fields CLOSE_CONTAINER_SERVERBOUND_PACKET_ID close_container_fields CloseContainerServerbound m"

subsection \<open>Clicks\<close>

definition changed_slot_body :: "click_container_changed_slot \<Rightarrow> play_error encoder" where
  "changed_slot_body c = enc_all [st_mod (encode_i16 (ccs_slot c)), st_mod (encode_slot (ccs_item c))]"

definition click_container_body :: "click_container \<Rightarrow> play_error encoder" where
  "click_container_body p = enc_all
    [st_mod (encode_u8 (clc_window_id p)),
     st_mod (encode_var_int (clc_state_id p)),
     st_mod (encode_i16 (clc_slot p)),
     st_mod (encode_i8 (clc_button p)),
     st_mod (encode_var_int (clc_mode p)),
     enc_all [st_mod (encode_var_int (case i32_of_usize (length (clc_changed_slots p)) of
         Some count \<Rightarrow> count | None \<Rightarrow> word_of_nat i32_max)),
       enc_all (map changed_slot_body (clc_changed_slots p))],
     st_mod (encode_slot (clc_cursor p))]"

definition encode_click_container :: "click_container \<Rightarrow> nat \<Rightarrow> play_error encoder" where
  "encode_click_container p m = encode_play_frame CLICK_CONTAINER_PACKET_ID (click_container_body p) m"

definition changed_slot_fields :: "nat \<Rightarrow> (play_error, click_container_changed_slot) decoder" where
  "changed_slot_fields fuel =
    st_bind (play_codec decode_i16) (\<lambda>change_slot.
    st_bind (play_nbt (decode_slot fuel)) (\<lambda>item.
    st_ret \<lparr>ccs_slot = change_slot, ccs_item = item\<rparr>))"

definition click_container_fields :: "nat \<Rightarrow> (play_error, click_container) decoder" where
  "click_container_fields fuel =
    st_bind (play_codec decode_u8) (\<lambda>window_id.
    st_bind (play_codec decode_var_int) (\<lambda>state_id.
    st_bind (play_codec decode_i16) (\<lambda>slot.
    st_bind (play_codec decode_i8) (\<lambda>button.
    st_bind (play_codec decode_var_int) (\<lambda>mode.
    st_bind (decode_slot_list InvalidBoolean (changed_slot_fields fuel)) (\<lambda>changed_slots.
    st_bind (play_nbt (decode_slot fuel)) (\<lambda>cursor.
    st_ret \<lparr>clc_window_id = window_id, clc_state_id = state_id, clc_slot = slot, clc_button = button,
      clc_mode = mode, clc_changed_slots = changed_slots, clc_cursor = cursor\<rparr>)))))))"

definition decode_click_container :: "nat \<Rightarrow> nat \<Rightarrow> (play_error, play_decode_outcome) decoder" where
  "decode_click_container fuel m =
    decode_play_fields CLICK_CONTAINER_PACKET_ID (click_container_fields fuel) ClickContainer m"

subsection \<open>The fields read back, and the packets as framed packets\<close>

lemmas field_i16_slot [field_intros] = field_codec [OF be_i16.codec_axioms TrueI]

lemma set_container_slot_field:
  assumes "slot_ok fuel (scs_item p)"
  shows "field_ok (set_container_slot_body p) (set_container_slot_fields fuel) p"
  unfolding set_container_slot_body_def set_container_slot_fields_def
  by ((rule field_bind field_intros assms)+) simp

interpretation set_container_slot: framed_packet encode_set_container_slot "decode_set_container_slot fuel" "\<lambda>p. PlayComplete (SetContainerSlot p)"
    "Inr PlayIncomplete" "\<lambda>p. slot_ok fuel (scs_item p)" for fuel
  by (rule framed_packet_fieldsI [OF encode_set_container_slot_def decode_set_container_slot_def]) (simp add: set_container_slot_field)

lemma open_screen_field:
  assumes "utf8_valid (os_title p)"
  shows "field_ok (open_screen_body p) open_screen_fields p"
  unfolding open_screen_body_def open_screen_fields_def
  by ((rule field_bind field_intros assms)+) simp

interpretation open_screen: framed_packet encode_open_screen decode_open_screen "\<lambda>p. PlayComplete (OpenScreen p)"
    "Inr PlayIncomplete" "\<lambda>p. utf8_valid (os_title p)"
  by (rule framed_packet_fieldsI [OF encode_open_screen_def decode_open_screen_def]) (simp add: open_screen_field)

lemma field_slot_list:
  assumes "\<And>x. x \<in> set xs \<Longrightarrow> field_ok (m x) item x" "length xs \<le> MAX_CONTAINER_SLOTS"
  shows "field_ok (enc_all [st_mod (encode_var_int (word_of_nat (length xs))), enc_all (map m xs)])
    (decode_slot_list bad item) xs"
  unfolding decode_slot_list_def
proof (intro field_bind [where v = "word_of_nat (length xs)"] field_intros)
  have "length xs \<le> i32_max" using assms(2) by (simp add: MAX_CONTAINER_SLOTS_def i32_max_def)
  then show "field_ok (enc_all [enc_all (map m xs)])
      (if sint (word_of_nat (length xs) :: i32) < 0 \<or> nat (sint (word_of_nat (length xs) :: i32)) > MAX_CONTAINER_SLOTS
       then st_fail (Codec bad) else dec_times (nat (sint (word_of_nat (length xs) :: i32))) item) xs"
    using assms by (simp add: sint_i32_of_nat not_less field_times)
qed

lemma set_container_content_field:
  assumes "\<And>s. s \<in> set (scn_slots p) \<Longrightarrow> slot_ok fuel s" "slot_ok fuel (scn_carried_item p)"
  shows "field_ok (set_container_content_body p) (set_container_content_fields fuel) p"
proof (cases "length (scn_slots p) > MAX_CONTAINER_SLOTS")
  case True
  have "fst (set_container_content_body p out) \<noteq> Inr u" for out u
    using True by (auto simp: set_container_content_body_def st_bind_def split: prod.splits sum.splits)
  then show ?thesis by (intro field_okI) (metis fst_conv)
next
  case False
  then have le: "length (scn_slots p) \<le> MAX_CONTAINER_SLOTS" by simp
  have slots: "field_ok (enc_all [st_mod (encode_var_int (word_of_nat (length (scn_slots p)))),
        enc_all (map (\<lambda>s. st_mod (encode_slot s)) (scn_slots p))])
      (decode_slot_list VarIntTooLong (play_nbt (decode_slot fuel))) (scn_slots p)"
    by (rule field_slot_list [OF _ le]) (rule field_map_err, rule field_slot, rule assms(1))
  show ?thesis
    unfolding set_container_content_body_def set_container_content_fields_def if_not_P [OF False]
    by ((rule field_bind slots field_intros assms(2))+) simp
qed

interpretation set_container_content: framed_packet encode_set_container_content "decode_set_container_content fuel"
    "\<lambda>p. PlayComplete (SetContainerContent p)" "Inr PlayIncomplete"
    "\<lambda>p. (\<forall>s\<in>set (scn_slots p). slot_ok fuel s) \<and> slot_ok fuel (scn_carried_item p)" for fuel
  by (rule framed_packet_fieldsI [OF encode_set_container_content_def decode_set_container_content_def])
    (simp add: set_container_content_field)

lemma close_container_field: "field_ok (enc_all [st_mod (encode_u8 (cc_window_id p))]) close_container_fields p"
  unfolding close_container_fields_def by ((rule field_bind field_intros)+) simp

interpretation close_container_serverbound: framed_packet encode_close_container_serverbound
    decode_close_container_serverbound "\<lambda>p. PlayComplete (CloseContainerServerbound p)" "Inr PlayIncomplete" "\<lambda>_. True"
  by (rule framed_packet_fieldsI [OF encode_close_container_serverbound_def decode_close_container_serverbound_def])
    (rule close_container_field)

lemma changed_slot_field:
  assumes "slot_ok fuel (ccs_item c)"
  shows "field_ok (changed_slot_body c) (changed_slot_fields fuel) c"
  unfolding changed_slot_body_def changed_slot_fields_def
  by ((rule field_bind field_intros assms)+) simp

definition click_container_ok :: "nat \<Rightarrow> click_container \<Rightarrow> bool" where
  "click_container_ok fuel p \<longleftrightarrow> length (clc_changed_slots p) \<le> MAX_CONTAINER_SLOTS
    \<and> (\<forall>c\<in>set (clc_changed_slots p). slot_ok fuel (ccs_item c)) \<and> slot_ok fuel (clc_cursor p)"

lemma click_container_field:
  assumes "click_container_ok fuel p"
  shows "field_ok (click_container_body p) (click_container_fields fuel) p"
proof -
  from assms have le: "length (clc_changed_slots p) \<le> MAX_CONTAINER_SLOTS" and cur: "slot_ok fuel (clc_cursor p)"
    and items: "\<And>c. c \<in> set (clc_changed_slots p) \<Longrightarrow> slot_ok fuel (ccs_item c)"
    by (simp_all add: click_container_ok_def)
  have count: "(case i32_of_usize (length (clc_changed_slots p)) of Some count \<Rightarrow> count | None \<Rightarrow> word_of_nat i32_max)
      = word_of_nat (length (clc_changed_slots p))"
    using le by (simp add: i32_of_usize_def i32_max_def MAX_CONTAINER_SLOTS_def)
  have slots: "field_ok (enc_all [st_mod (encode_var_int (word_of_nat (length (clc_changed_slots p)))),
        enc_all (map changed_slot_body (clc_changed_slots p))])
      (decode_slot_list InvalidBoolean (changed_slot_fields fuel)) (clc_changed_slots p)"
    by (rule field_slot_list [OF _ le]) (rule changed_slot_field, rule items)
  show ?thesis
    unfolding click_container_body_def click_container_fields_def count
    by ((rule field_bind slots field_intros cur)+) simp
qed

interpretation click_container: framed_packet encode_click_container "decode_click_container fuel"
    "\<lambda>p. PlayComplete (ClickContainer p)" "Inr PlayIncomplete" "click_container_ok fuel" for fuel
  by (rule framed_packet_fieldsI [OF encode_click_container_def decode_click_container_def])
    (rule click_container_field)

definition endless_creative_payload :: bytes where
  "endless_creative_payload = [0, 36, 1, 1, 1] @ endless_compound"

text \<open>
  C20: A 17-byte packet makes the creative-mode decoder of a release build run for ever: whatever
  fuel it is given, the walk over the item's NBT is still running. (The item carries a compound with
  one child of type 13 whose length is -7.)
\<close>

theorem creative_slot_decoder_diverges:
  "decode_set_creative_mode_slot fuel 64 (frame_bytes SET_CREATIVE_MODE_SLOT_PACKET_ID endless_creative_payload) =
    (Inl StillRunning, frame_bytes SET_CREATIVE_MODE_SLOT_PACKET_ID endless_creative_payload)
   \<and> length (frame_bytes SET_CREATIVE_MODE_SLOT_PACKET_ID endless_creative_payload) = 17"
proof -
  let ?p = endless_creative_payload
  have len: "length ?p = 15" by (simp add: endless_creative_payload_def endless_compound_def endless_child_def)
  have le: "var_int_length SET_CREATIVE_MODE_SLOT_PACKET_ID + length ?p \<le> effective_max_length 64"
    by (simp add: len var_int_length_def SET_CREATIVE_MODE_SLOT_PACKET_ID_def effective_max_length_def
        PROTOCOL_MAX_FRAME_LENGTH_def)
  have i16: "decode_i16 ([0, 36] @ xs) = (Inr (from_be_bytes [0, 36]), xs)" for xs
    using decode_be_long [of "[0, 36]" 2 xs] by (simp add: decode_i16_def)
  have one: "decode_var_int ([1] @ xs) = (Inr 1, xs)" for xs
    using var_int.roundtrip [where a = 1 and rest = xs] by (simp add: encode_var_int_def var_enc_loop.simps)
  have nbt: "decode_slot_nbt fuel endless_compound = (Inl NbtRunning, endless_compound)"
    using read_nbt_endless [of "[]" fuel] by (simp add: decode_slot_nbt_def endless_compound_def)
  have "fst (set_creative_mode_slot_fields fuel ?p) = Inl StillRunning"
    using i16 [of "[1, 1, 1] @ endless_compound"] one [of "[1] @ endless_compound"] nbt
    by (simp add: set_creative_mode_slot_fields_def endless_creative_payload_def st_bind_def st_map_err_def
        decode_slot_def decode_bool_def decode_i8_def decode_u8_def play_error_from_nbt_def)
  then obtain r where fields: "set_creative_mode_slot_fields fuel ?p = (Inl StillRunning, r)"
    by (metis prod.collapse)
  have "length (frame_bytes SET_CREATIVE_MODE_SLOT_PACKET_ID ?p) = 17"
    by (simp add: frame_bytes_length len var_int_length_def SET_CREATIVE_MODE_SLOT_PACKET_ID_def
        encode_var_int_def var_enc_loop.simps)
  then show ?thesis
    using decode_frame_bytes [OF le, of "[]"] fields
    by (simp add: decode_set_creative_mode_slot_def decode_packet_def parse_fields_def decode_exact_def)
qed

end
