(* ===== verification/Play_Wire.thy ===== *)
theory Play_Wire
  imports Play_Player Play_World Play_Entity Play_Container
begin

section \<open>All Play packets on the wire (\<open>play.rs\<close>)\<close>

text \<open>
  The packets of the Play state that have both an encoder and a decoder, as one family: the encoder
  and decoder that belong to a packet, the packets the codec carries unchanged, and the round trip
  of all of them.
\<close>

definition play_encoder :: "play_packet \<Rightarrow> nat \<Rightarrow> play_error encoder" where
  "play_encoder p = (case p of
      JoinGame q \<Rightarrow> encode_join_game q
    | KeepAliveClientbound q \<Rightarrow> encode_keep_alive_clientbound q
    | KeepAliveServerbound q \<Rightarrow> encode_keep_alive_serverbound q
    | SetPlayerPosition q \<Rightarrow> encode_set_player_position q
    | SetPlayerPositionAndRotation q \<Rightarrow> encode_set_player_position_and_rotation q
    | SetPlayerRotation q \<Rightarrow> encode_set_player_rotation q
    | SynchronizePlayerPosition q \<Rightarrow> encode_synchronize_player_position q
    | DisconnectPlay q \<Rightarrow> encode_disconnect_play q
    | ChunkData q \<Rightarrow> encode_chunk_data q
    | ConfirmTeleportation q \<Rightarrow> encode_confirm_teleportation q
    | ClientInformation q \<Rightarrow> encode_client_information q
    | PluginMessageClientbound q \<Rightarrow> encode_plugin_message_clientbound q
    | ChangeDifficulty q \<Rightarrow> encode_change_difficulty q
    | PlayerAbilities q \<Rightarrow> encode_player_abilities q
    | SetHeldItem q \<Rightarrow> encode_set_held_item q
    | EntityEvent q \<Rightarrow> encode_entity_event q
    | GameEvent q \<Rightarrow> encode_game_event q
    | SetDefaultSpawnPosition q \<Rightarrow> encode_set_default_spawn_position q
    | SetCenterChunk q \<Rightarrow> encode_set_center_chunk q
    | UnloadChunk q \<Rightarrow> encode_unload_chunk q
    | CombatDeath q \<Rightarrow> encode_combat_death q
    | SetBlockDestroyStage q \<Rightarrow> encode_set_block_destroy_stage q
    | SetRenderDistance q \<Rightarrow> encode_set_render_distance q
    | SetSimulationDistance q \<Rightarrow> encode_set_simulation_distance q
    | PlayerDigging q \<Rightarrow> encode_player_digging q
    | UseItemOn q \<Rightarrow> encode_use_item_on q
    | BlockUpdate q \<Rightarrow> encode_block_update q
    | AcknowledgeBlockChange q \<Rightarrow> encode_acknowledge_block_change q
    | MoveEntityPos q \<Rightarrow> encode_move_entity_pos q
    | MoveEntityPosRot q \<Rightarrow> encode_move_entity_pos_rot q
    | MoveEntityRot q \<Rightarrow> encode_move_entity_rot q
    | EntityTeleport q \<Rightarrow> encode_entity_teleport q
    | SetContainerContent q \<Rightarrow> encode_set_container_content q
    | SetContainerSlot q \<Rightarrow> encode_set_container_slot q
    | OpenScreen q \<Rightarrow> encode_open_screen q
    | ClickContainer q \<Rightarrow> encode_click_container q
    | CloseContainerServerbound q \<Rightarrow> encode_close_container_serverbound q
    | SetHealth q \<Rightarrow> encode_set_health q
    | Respawn q \<Rightarrow> encode_respawn q
    | _ \<Rightarrow> (\<lambda>_ out. (Inl Incomplete, out)))"

definition play_decoder :: "nat \<Rightarrow> play_packet \<Rightarrow> nat \<Rightarrow> (play_error, play_decode_outcome) decoder" where
  "play_decoder fuel p = (case p of
      JoinGame _ \<Rightarrow> decode_join_game fuel
    | KeepAliveClientbound _ \<Rightarrow> decode_keep_alive_clientbound
    | KeepAliveServerbound _ \<Rightarrow> decode_keep_alive_serverbound
    | SetPlayerPosition _ \<Rightarrow> decode_set_player_position
    | SetPlayerPositionAndRotation _ \<Rightarrow> decode_set_player_position_and_rotation
    | SetPlayerRotation _ \<Rightarrow> decode_set_player_rotation
    | SynchronizePlayerPosition _ \<Rightarrow> decode_synchronize_player_position
    | DisconnectPlay _ \<Rightarrow> decode_disconnect_play
    | ChunkData _ \<Rightarrow> decode_chunk_data fuel
    | ConfirmTeleportation _ \<Rightarrow> decode_confirm_teleportation
    | ClientInformation _ \<Rightarrow> decode_client_information
    | PluginMessageClientbound _ \<Rightarrow> decode_plugin_message_clientbound
    | ChangeDifficulty _ \<Rightarrow> decode_change_difficulty
    | PlayerAbilities _ \<Rightarrow> decode_player_abilities
    | SetHeldItem _ \<Rightarrow> decode_set_held_item
    | EntityEvent _ \<Rightarrow> decode_entity_event
    | GameEvent _ \<Rightarrow> decode_game_event
    | SetDefaultSpawnPosition _ \<Rightarrow> decode_set_default_spawn_position
    | SetCenterChunk _ \<Rightarrow> decode_set_center_chunk
    | UnloadChunk _ \<Rightarrow> decode_unload_chunk
    | CombatDeath _ \<Rightarrow> decode_combat_death
    | SetBlockDestroyStage _ \<Rightarrow> decode_set_block_destroy_stage
    | SetRenderDistance _ \<Rightarrow> decode_set_render_distance
    | SetSimulationDistance _ \<Rightarrow> decode_set_simulation_distance
    | PlayerDigging _ \<Rightarrow> decode_player_digging
    | UseItemOn _ \<Rightarrow> decode_use_item_on
    | BlockUpdate _ \<Rightarrow> decode_block_update
    | AcknowledgeBlockChange _ \<Rightarrow> decode_acknowledge_block_change
    | MoveEntityPos _ \<Rightarrow> decode_move_entity_pos
    | MoveEntityPosRot _ \<Rightarrow> decode_move_entity_pos_rot
    | MoveEntityRot _ \<Rightarrow> decode_move_entity_rot
    | EntityTeleport _ \<Rightarrow> decode_entity_teleport
    | SetContainerContent _ \<Rightarrow> decode_set_container_content fuel
    | SetContainerSlot _ \<Rightarrow> decode_set_container_slot fuel
    | OpenScreen _ \<Rightarrow> decode_open_screen
    | ClickContainer _ \<Rightarrow> decode_click_container fuel
    | CloseContainerServerbound _ \<Rightarrow> decode_close_container_serverbound
    | SetHealth _ \<Rightarrow> decode_set_health
    | Respawn _ \<Rightarrow> decode_respawn
    | _ \<Rightarrow> (\<lambda>_ inp. (Inr PlayIncomplete, inp)))"

text \<open>
  The packets carried unchanged: strings are UTF-8, positions within the 26, 12 and 26 bits of the
  wire form, NBT fields compounds of the grammar of \<open>Nbt\<close> with enough fuel for their length, absent
  optional parts have their default, and a click has at most 256 changed slots.
\<close>

definition play_packet_ok :: "nat \<Rightarrow> play_packet \<Rightarrow> bool" where
  "play_packet_ok fuel p \<longleftrightarrow> (case p of
      JoinGame q \<Rightarrow> join_game_ok fuel q
    | KeepAliveClientbound _ \<Rightarrow> True
    | KeepAliveServerbound _ \<Rightarrow> True
    | SetPlayerPosition _ \<Rightarrow> True
    | SetPlayerPositionAndRotation _ \<Rightarrow> True
    | SetPlayerRotation _ \<Rightarrow> True
    | SynchronizePlayerPosition _ \<Rightarrow> True
    | DisconnectPlay q \<Rightarrow> utf8_valid (dp_reason q)
    | ChunkData q \<Rightarrow> nbt_root (chd_heightmaps q) \<and> length (chd_heightmaps q) \<le> fuel
    | ConfirmTeleportation _ \<Rightarrow> True
    | ClientInformation q \<Rightarrow> utf8_valid (ci_locale q)
    | PluginMessageClientbound q \<Rightarrow> utf8_valid (pmc_channel q)
    | ChangeDifficulty _ \<Rightarrow> True
    | PlayerAbilities _ \<Rightarrow> True
    | SetHeldItem _ \<Rightarrow> True
    | EntityEvent _ \<Rightarrow> True
    | GameEvent _ \<Rightarrow> True
    | SetDefaultSpawnPosition q \<Rightarrow> in_position_range (sds_location q)
    | SetCenterChunk _ \<Rightarrow> True
    | UnloadChunk _ \<Rightarrow> True
    | CombatDeath q \<Rightarrow> utf8_valid (cbd_message q)
    | SetBlockDestroyStage q \<Rightarrow> in_position_range (sbd_position q)
    | SetRenderDistance _ \<Rightarrow> True
    | SetSimulationDistance _ \<Rightarrow> True
    | PlayerDigging q \<Rightarrow> in_position_range (pd_position q)
    | UseItemOn q \<Rightarrow> in_position_range (uio_position q)
    | BlockUpdate q \<Rightarrow> in_position_range (bu_position q)
    | AcknowledgeBlockChange _ \<Rightarrow> True
    | MoveEntityPos _ \<Rightarrow> True
    | MoveEntityPosRot _ \<Rightarrow> True
    | MoveEntityRot _ \<Rightarrow> True
    | EntityTeleport _ \<Rightarrow> True
    | SetContainerContent q \<Rightarrow> (\<forall>s\<in>set (scn_slots q). slot_ok fuel s) \<and> slot_ok fuel (scn_carried_item q)
    | SetContainerSlot q \<Rightarrow> slot_ok fuel (scs_item q)
    | OpenScreen q \<Rightarrow> utf8_valid (os_title q)
    | ClickContainer q \<Rightarrow> click_container_ok fuel q
    | CloseContainerServerbound _ \<Rightarrow> True
    | SetHealth _ \<Rightarrow> True
    | Respawn q \<Rightarrow> respawn_ok q
    | _ \<Rightarrow> False)"

text \<open>The round trips of the single packets.\<close>

lemmas play_wires =
  join_game.wire keep_alive_clientbound.wire keep_alive_serverbound.wire set_player_position.wire
  set_player_position_and_rotation.wire set_player_rotation.wire synchronize_player_position.wire
  disconnect_play.wire chunk_data.wire confirm_teleportation.wire client_information.wire
  plugin_message.wire change_difficulty.wire player_abilities.wire set_held_item.wire
  entity_event.wire game_event.wire set_default_spawn_position.wire set_center_chunk.wire
  unload_chunk.wire combat_death.wire set_block_destroy_stage.wire set_render_distance.wire
  set_simulation_distance.wire player_digging.wire use_item_on.wire block_update.wire
  acknowledge_block_change.wire move_entity_pos.wire move_entity_pos_rot.wire move_entity_rot.wire
  entity_teleport.wire set_container_content.wire set_container_slot.wire open_screen.wire
  click_container.wire close_container_serverbound.wire set_health.wire respawn.wire

lemma play_packet_carried:
  assumes "play_packet_ok fuel p"
  shows "case play_encoder p m out of
      (Inl e, out') \<Rightarrow> out' = out
    | (Inr _, out') \<Rightarrow> \<exists>f. out' = out @ f \<and> play_decoder fuel p m (f @ rest) = (Inr (PlayComplete p), rest)
        \<and> play_decoder fuel p m (take n f) =
          (if n < length f then (Inr PlayIncomplete, take n f) else (Inr (PlayComplete p), []))"
  by (insert assms, cases p;
      simp only: play_encoder_def play_decoder_def play_packet_ok_def play_packet.case simp_thms;
      (rule play_wires, assumption) | (rule play_wires, rule TrueI))

text \<open>What holds of every packet, carried unchanged or not: an encoder adds one frame or nothing, and a decoder waits for a frame.\<close>

lemmas play_encoder_defs =
  encode_join_game_def encode_keep_alive_clientbound_def encode_keep_alive_serverbound_def encode_set_player_position_def
  encode_set_player_position_and_rotation_def encode_set_player_rotation_def encode_synchronize_player_position_def
  encode_disconnect_play_def encode_chunk_data_def encode_confirm_teleportation_def encode_client_information_def
  encode_plugin_message_clientbound_def encode_change_difficulty_def encode_player_abilities_def encode_set_held_item_def
  encode_entity_event_def encode_game_event_def encode_set_default_spawn_position_def encode_set_center_chunk_def
  encode_unload_chunk_def encode_combat_death_def encode_set_block_destroy_stage_def encode_set_render_distance_def
  encode_set_simulation_distance_def encode_player_digging_def encode_use_item_on_def encode_block_update_def
  encode_acknowledge_block_change_def encode_move_entity_pos_def encode_move_entity_pos_rot_def
  encode_move_entity_rot_def encode_entity_teleport_def encode_set_container_content_def encode_set_container_slot_def
  encode_open_screen_def encode_click_container_def encode_close_container_serverbound_def encode_set_health_def
  encode_respawn_def

lemmas play_decoder_defs =
  decode_join_game_def decode_keep_alive_clientbound_def decode_keep_alive_serverbound_def decode_set_player_position_def
  decode_set_player_position_and_rotation_def decode_set_player_rotation_def decode_synchronize_player_position_def
  decode_disconnect_play_def decode_chunk_data_def decode_confirm_teleportation_def decode_client_information_def
  decode_plugin_message_clientbound_def decode_change_difficulty_def decode_player_abilities_def decode_set_held_item_def
  decode_entity_event_def decode_game_event_def decode_set_default_spawn_position_def decode_set_center_chunk_def
  decode_unload_chunk_def decode_combat_death_def decode_set_block_destroy_stage_def decode_set_render_distance_def
  decode_set_simulation_distance_def decode_player_digging_def decode_use_item_on_def decode_block_update_def
  decode_acknowledge_block_change_def decode_move_entity_pos_def decode_move_entity_pos_rot_def
  decode_move_entity_rot_def decode_entity_teleport_def decode_set_container_content_def decode_set_container_slot_def
  decode_open_screen_def decode_click_container_def decode_close_container_serverbound_def decode_set_health_def
  decode_respawn_def decode_keep_alive_def

lemma play_encoder_frame:
  assumes "play_encoder p m out = (Inr u, out')"
  shows "\<exists>pid b. out' = out @ frame_bytes pid b \<and> var_int_length pid + length b \<le> effective_max_length m"
  using assms by (cases p) (auto simp: play_encoder_def play_encoder_defs encode_packet_Inr)

lemma play_encoder_refuses: "play_encoder p m out = (Inl e, out') \<Longrightarrow> out' = out"
  by (cases p) (auto simp: play_encoder_def play_encoder_defs dest: encode_packet_Inl)

lemma play_decoder_waits:
  assumes "decode_frame m inp = (Inr FrameIncomplete, inp)"
  shows "play_decoder fuel p m inp = (Inr PlayIncomplete, inp)"
  using assms by (cases p) (simp_all add: play_decoder_def play_decoder_defs decode_packet_def)

text \<open>
  C19: The packets of the Play state that have an encoder and a decoder, on the wire. Of any of them: when the encoder
  refuses the packet, the output is untouched; when it accepts it, the output grows by one frame, and while only a part
  of that frame has arrived the decoder waits, with the input untouched. Of a packet that the wire form can carry: the
  decoder reads the frame back as the packet, at any place in the input. The wire form carries strings that are UTF-8,
  positions within 26, 12 and 26 bits, NBT that is a compound of \<open>nbt_root\<close>, so without the byte arrays of tag 7 (an item
  may also have none), for which the decoder's walk is given at least as many steps as it has bytes, slots and death
  locations whose absent parts are empty, and clicks with at most 256 changed slots. A packet outside of this may be
  accepted by the encoder and come back as another packet or an error.
\<close>

theorem play_packets_wire:
  "case play_encoder p m out of
      (Inl e, out') \<Rightarrow> out' = out
    | (Inr _, out') \<Rightarrow> \<exists>f. out' = out @ f
        \<and> (n < length f \<longrightarrow> play_decoder fuel p m (take n f) = (Inr PlayIncomplete, take n f))
        \<and> (play_packet_ok fuel p \<longrightarrow> play_decoder fuel p m (f @ rest) = (Inr (PlayComplete p), rest))"
proof (cases "play_encoder p m out")
  case (Pair r out')
  show ?thesis
  proof (cases r)
    case (Inl e)
    with Pair show ?thesis by (simp add: play_encoder_refuses)
  next
    case (Inr u)
    from play_encoder_frame [OF Pair [unfolded Inr]] obtain pid b where f: "out' = out @ frame_bytes pid b"
      and fits: "var_int_length pid + length b \<le> effective_max_length m" by blast
    have "play_decoder fuel p m (take n (frame_bytes pid b)) = (Inr PlayIncomplete, take n (frame_bytes pid b))"
      if "n < length (frame_bytes pid b)"
      using decode_frame_truncated [OF fits, of "take n (frame_bytes pid b)" "drop n (frame_bytes pid b)"] that
      by (intro play_decoder_waits) simp
    moreover have "play_decoder fuel p m (frame_bytes pid b @ rest) = (Inr (PlayComplete p), rest)" if "play_packet_ok fuel p"
      using play_packet_carried [OF that, where m = m and out = out and rest = rest] Pair Inr f by simp
    ultimately show ?thesis using Pair Inr f by simp
  qed
qed

text \<open>A click with one changed slot that holds an item with an empty compound as its NBT.\<close>

definition sample_click :: play_packet where
  "sample_click = ClickContainer \<lparr>clc_window_id = 1, clc_state_id = 3, clc_slot = 36, clc_button = 0, clc_mode = 0,
    clc_changed_slots = [\<lparr>ccs_slot = 36, ccs_item = slot_empty\<rparr>], clc_cursor = slot_with_nbt 1 64 [10, 0, 0, 0]\<rparr>"

theorem play_packets_wire_witness:
  "case play_encoder sample_click 64 [] of
      (Inl e, out') \<Rightarrow> False
    | (Inr _, out') \<Rightarrow> play_decoder 4 sample_click 64 (take 5 out') = (Inr PlayIncomplete, take 5 out')
        \<and> play_decoder 4 sample_click 64 (out' @ [9]) = (Inr (PlayComplete sample_click), [9])"
proof -
  have "fst (play_encoder sample_click 64 []) = Inr () \<and> 5 < length (snd (play_encoder sample_click 64 []))"
    by (simp add: packet_eval play_encoder_def sample_click_def encode_click_container_def click_container_body_def
        changed_slot_body_def encode_slot_def slot_empty_def slot_with_nbt_def encode_bool_def encode_u8_def
        encode_i8_def encode_i16_def CLICK_CONTAINER_PACKET_ID_def)
  then obtain out' where out': "play_encoder sample_click 64 [] = (Inr (), out')" "5 < length out'"
    by (cases "play_encoder sample_click 64 []") auto
  have "nbt_root [10, 0, 0, 0]"
    unfolding nbt_root_def
    by (rule exI [of _ "[]"], rule exI [of _ "[0]"]) (simp add: nbt_end to_be_bytes_def to_le_bytes_def numeral_2_eq_2)
  then have "play_packet_ok 4 sample_click"
    by (simp add: play_packet_ok_def sample_click_def click_container_ok_def slot_ok_def slot_with_nbt_def
        MAX_CONTAINER_SLOTS_def slot_empty_def)
  with play_packets_wire [where p = sample_click and m = 64 and out = "[]" and n = 5 and fuel = 4 and rest = "[9]"] out' show ?thesis by simp
qed

end
