(* ===== verification/Text_Format.thy ===== *)
theory Text_Format
  imports Bytes
begin

section \<open>Formatting of numbers\<close>

text \<open>\<open>{}\<close> on an integer, as ASCII bytes, for the messages the source formats.\<close>

fun dec_nat :: "nat \<Rightarrow> rstring" where
  "dec_nat n = (if n < 10 then [word_of_nat (48 + n)] else dec_nat (n div 10) @ [word_of_nat (48 + n mod 10)])"

declare dec_nat.simps [simp del]

definition dec_int :: "int \<Rightarrow> rstring" where
  "dec_int i = (if i < 0 then 45 # dec_nat (nat (- i)) else dec_nat (nat i))"

end
