(* ===== verification/Play_Machine.thy ===== *)
theory Play_Machine
  imports Play_Player Text_Format
begin

section \<open>The play state machine (\<open>play_state_machine.rs\<close>)\<close>

text \<open>
  The machine of a connection in the Play state: the join and teleport packets it starts with, the
  keep-alive handshake, the position the client reports, and the disconnect. The registry codec,
  a fixture the build includes, is a parameter.
\<close>

datatype play_phase = AwaitingTeleportConfirm | PlayActive | PlayDisconnected

datatype play_step_result = PlayContinue "bytes list" play_phase | PlayDisconnect bytes protocol_state

datatype play_machine_error =
    PlayErr play_error
  | PlayTerminal
  | UnexpectedEvent play_phase string
  | Custom rstring

record play_config =
  pc_max_frame_length :: nat
  pc_entity_id :: i32
  pc_gamemode :: game_mode
  pc_username :: rstring
  pc_uuid :: uuid
  pc_dimension_name :: rstring
  pc_hashed_seed :: i64
  pc_max_players :: i32
  pc_view_distance :: i32
  pc_simulation_distance :: i32

record play_machine =
  pm_phase :: play_phase
  pm_config :: play_config
  pm_last_keep_alive :: "i64 option"
  pm_x :: f64bits
  pm_y :: f64bits
  pm_z :: f64bits
  pm_yaw :: f32bits
  pm_pitch :: f32bits

text \<open>\<open>64.0_f64\<close>.\<close>

definition f64_64 :: f64bits where "f64_64 = 0x4050000000000000"

definition pm_join_game :: "bytes \<Rightarrow> play_config \<Rightarrow> join_game" where
  "pm_join_game registry_codec c =
    \<lparr>jg_entity_id = pc_entity_id c, jg_is_hardcore = False, jg_gamemode = pc_gamemode c,
     jg_previous_gamemode = None, jg_dimension_names = [pc_dimension_name c],
     jg_registry_codec = registry_codec, jg_dimension_type = pc_dimension_name c,
     jg_dimension_name = pc_dimension_name c, jg_hashed_seed = pc_hashed_seed c,
     jg_max_players = pc_max_players c, jg_view_distance = pc_view_distance c,
     jg_simulation_distance = pc_simulation_distance c, jg_reduce_debug_info = False,
     jg_enable_respawn_screen = True, jg_is_debug = False, jg_is_flat = False,
     jg_has_death_location = False, jg_death_dimension_name = [], jg_death_location = (0, 0, 0),
     jg_portal_cooldown = 0\<rparr>"

definition pm_spawn_sync :: synchronize_player_position where
  "pm_spawn_sync = \<lparr>syn_x = 0, syn_y = f64_64, syn_z = 0, syn_yaw = 0, syn_pitch = 0, syn_flags = 0, syn_teleport_id = 0\<rparr>"

definition pm_new :: "bytes \<Rightarrow> play_config \<Rightarrow> play_machine_error + play_machine \<times> bytes list" where
  "pm_new registry_codec c =
    (case encode_join_game (pm_join_game registry_codec c) (pc_max_frame_length c) [] of
       (Inl e, _) \<Rightarrow> Inl (PlayErr e)
     | (Inr _, join_wire) \<Rightarrow>
       (case encode_synchronize_player_position pm_spawn_sync (pc_max_frame_length c) [] of
          (Inl e, _) \<Rightarrow> Inl (PlayErr e)
        | (Inr _, sync_wire) \<Rightarrow>
          Inr (\<lparr>pm_phase = AwaitingTeleportConfirm, pm_config = c, pm_last_keep_alive = None,
                pm_x = 0, pm_y = f64_64, pm_z = 0, pm_yaw = 0, pm_pitch = 0\<rparr>, [join_wire, sync_wire])))"

definition send_keep_alive :: "i64 \<Rightarrow> play_machine \<Rightarrow> (play_machine_error + bytes) \<times> play_machine" where
  "send_keep_alive payload m =
    (if pm_phase m = PlayDisconnected then (Inl PlayTerminal, m)
     else let m' = m\<lparr>pm_last_keep_alive := Some payload\<rparr> in
       case encode_keep_alive_clientbound \<lparr>ka_payload = payload\<rparr> (pc_max_frame_length (pm_config m)) [] of
         (Inl e, _) \<Rightarrow> (Inl (PlayErr e), m')
       | (Inr _, wire) \<Rightarrow> (Inr wire, m'))"

definition keep_alive_mismatch :: "i64 \<Rightarrow> i64 \<Rightarrow> rstring" where
  "keep_alive_mismatch expected payload =
    ascii ''keep alive mismatch: expected '' @ dec_int (sint expected) @ ascii '', got '' @ dec_int (sint payload)"

definition handle_keep_alive_response :: "i64 \<Rightarrow> play_machine \<Rightarrow> (play_machine_error + unit) \<times> play_machine" where
  "handle_keep_alive_response payload m =
    (if pm_phase m = PlayDisconnected then (Inl PlayTerminal, m)
     else case pm_last_keep_alive m of
        Some expected \<Rightarrow>
          if expected = payload then (Inr (), m\<lparr>pm_last_keep_alive := None\<rparr>)
          else (Inl (Custom (keep_alive_mismatch expected payload)), m)
      | None \<Rightarrow> (Inl (UnexpectedEvent (pm_phase m) ''no pending keep alive''), m))"

definition handle_player_position ::
  "f64bits \<Rightarrow> f64bits \<Rightarrow> f64bits \<Rightarrow> bool \<Rightarrow> play_machine \<Rightarrow> (play_machine_error + unit) \<times> play_machine" where
  "handle_player_position x y z on_ground m =
    (if pm_phase m = PlayDisconnected then (Inl PlayTerminal, m)
     else (Inr (), m\<lparr>pm_x := x, pm_y := y, pm_z := z\<rparr>))"

definition handle_player_position_and_rotation ::
  "f64bits \<Rightarrow> f64bits \<Rightarrow> f64bits \<Rightarrow> f32bits \<Rightarrow> f32bits \<Rightarrow> bool \<Rightarrow> play_machine \<Rightarrow> (play_machine_error + unit) \<times> play_machine" where
  "handle_player_position_and_rotation x y z yaw pitch on_ground m =
    (if pm_phase m = PlayDisconnected then (Inl PlayTerminal, m)
     else (Inr (), m\<lparr>pm_x := x, pm_y := y, pm_z := z, pm_yaw := yaw, pm_pitch := pitch\<rparr>))"

definition handle_player_rotation ::
  "f32bits \<Rightarrow> f32bits \<Rightarrow> bool \<Rightarrow> play_machine \<Rightarrow> (play_machine_error + unit) \<times> play_machine" where
  "handle_player_rotation yaw pitch on_ground m =
    (if pm_phase m = PlayDisconnected then (Inl PlayTerminal, m)
     else (Inr (), m\<lparr>pm_yaw := yaw, pm_pitch := pitch\<rparr>))"

definition confirm_teleport :: "play_machine \<Rightarrow> (play_machine_error + unit) \<times> play_machine" where
  "confirm_teleport m =
    (if pm_phase m = PlayDisconnected then (Inl PlayTerminal, m)
     else if pm_phase m \<noteq> AwaitingTeleportConfirm
     then (Inl (UnexpectedEvent (pm_phase m) ''teleport confirmation''), m)
     else (Inr (), m\<lparr>pm_phase := PlayActive\<rparr>))"

definition pm_disconnect :: "rstring \<Rightarrow> play_machine \<Rightarrow> (play_machine_error + play_step_result) \<times> play_machine" where
  "pm_disconnect reason m =
    (if pm_phase m = PlayDisconnected then (Inl PlayTerminal, m)
     else case encode_disconnect_play \<lparr>dp_reason = reason\<rparr> (pc_max_frame_length (pm_config m)) [] of
        (Inl e, _) \<Rightarrow> (Inl (PlayErr e), m)
      | (Inr _, wire) \<Rightarrow> (Inr (PlayDisconnect wire Closed), m\<lparr>pm_phase := PlayDisconnected\<rparr>))"

definition player_position :: "play_machine \<Rightarrow> f64bits \<times> f64bits \<times> f64bits" where
  "player_position m = (pm_x m, pm_y m, pm_z m)"

definition player_rotation :: "play_machine \<Rightarrow> f32bits \<times> f32bits" where
  "player_rotation m = (pm_yaw m, pm_pitch m)"

subsection \<open>Calls in sequence\<close>

datatype play_call =
    SendKeepAlive i64
  | KeepAliveResponse i64
  | Position f64bits f64bits f64bits bool
  | PositionRotation f64bits f64bits f64bits f32bits f32bits bool
  | Rotation f32bits f32bits bool
  | ConfirmTeleport
  | DisconnectWith rstring

definition pm_step :: "play_call \<Rightarrow> play_machine \<Rightarrow> play_machine" where
  "pm_step c m =
    (case c of
       SendKeepAlive p \<Rightarrow> snd (send_keep_alive p m)
     | KeepAliveResponse p \<Rightarrow> snd (handle_keep_alive_response p m)
     | Position x y z g \<Rightarrow> snd (handle_player_position x y z g m)
     | PositionRotation x y z w p g \<Rightarrow> snd (handle_player_position_and_rotation x y z w p g m)
     | Rotation w p g \<Rightarrow> snd (handle_player_rotation w p g m)
     | ConfirmTeleport \<Rightarrow> snd (confirm_teleport m)
     | DisconnectWith r \<Rightarrow> snd (pm_disconnect r m))"

inductive pm_step_rel :: "play_machine \<Rightarrow> play_machine \<Rightarrow> bool" where
  pm_call: "pm_step_rel m (pm_step c m)"

inductive_cases pm_step_relE: "pm_step_rel m m'"

lemmas pm_ops = send_keep_alive_def handle_keep_alive_response_def handle_player_position_def
  handle_player_position_and_rotation_def handle_player_rotation_def confirm_teleport_def pm_disconnect_def

text \<open>How far a connection is; no call goes back.\<close>

definition phase_rank :: "play_phase \<Rightarrow> nat" where
  "phase_rank p = (case p of AwaitingTeleportConfirm \<Rightarrow> 0 | PlayActive \<Rightarrow> 1 | PlayDisconnected \<Rightarrow> 2)"

lemma pm_step_disconnected: "pm_phase m = PlayDisconnected \<Longrightarrow> pm_step c m = m"
  by (cases c) (simp_all add: pm_step_def pm_ops)

lemma pm_step_rank: "phase_rank (pm_phase m) \<le> phase_rank (pm_phase (pm_step c m))"
proof (cases "pm_phase m")
  case AwaitingTeleportConfirm
  then show ?thesis by (simp add: phase_rank_def)
next
  case PlayActive
  then show ?thesis
    by (cases c) (auto simp: pm_step_def pm_ops phase_rank_def Let_def split: option.splits prod.splits sum.splits)
next
  case PlayDisconnected
  then show ?thesis by (simp add: pm_step_disconnected)
qed

lemma pm_step_config: "pm_config (pm_step c m) = pm_config m"
  by (cases c) (auto simp: pm_step_def pm_ops Let_def split: option.splits prod.splits sum.splits)

lemma pm_reach_rank: "pm_step_rel\<^sup>*\<^sup>* m m' \<Longrightarrow>
    phase_rank (pm_phase m) \<le> phase_rank (pm_phase m') \<and> pm_config m' = pm_config m
    \<and> (pm_phase m = PlayDisconnected \<longrightarrow> m' = m)"
proof (induction rule: rtranclp_induct)
  case (step y z)
  from step.hyps(2) obtain c where "z = pm_step c y" by (elim pm_step_relE) blast
  with step.IH pm_step_rank [of y c] pm_step_config [of c y] pm_step_disconnected [of y c] show ?case by auto
qed simp

subsection \<open>Properties\<close>

text \<open>
  C31: The phases of a play session only go forward: from waiting for the teleport confirmation to
  active play to disconnected, whatever calls are made in whatever order; the configuration never
  changes, and a disconnected machine stays exactly as it is.
\<close>

theorem play_machine_phases_forward:
  assumes "pm_step_rel\<^sup>*\<^sup>* m m'"
  shows "phase_rank (pm_phase m) \<le> phase_rank (pm_phase m') \<and> pm_config m' = pm_config m
    \<and> (pm_phase m = PlayDisconnected \<longrightarrow> m' = m)"
  using assms by (rule pm_reach_rank)

definition sample_machine :: play_machine where
  "sample_machine = \<lparr>pm_phase = AwaitingTeleportConfirm,
    pm_config = \<lparr>pc_max_frame_length = 64, pc_entity_id = 1, pc_gamemode = Survival, pc_username = [], pc_uuid = uuid_new 0 0,
      pc_dimension_name = [], pc_hashed_seed = 0, pc_max_players = 1, pc_view_distance = 2, pc_simulation_distance = 2\<rparr>,
    pm_last_keep_alive = None, pm_x = 0, pm_y = 0, pm_z = 0, pm_yaw = 0, pm_pitch = 0\<rparr>"

theorem play_machine_phases_forward_witness:
  "pm_phase (pm_step ConfirmTeleport sample_machine) = PlayActive
   \<and> phase_rank (pm_phase sample_machine) \<le> phase_rank (pm_phase (pm_step ConfirmTeleport sample_machine))
   \<and> pm_config (pm_step ConfirmTeleport sample_machine) = pm_config sample_machine"
proof -
  have "pm_step_rel\<^sup>*\<^sup>* sample_machine (pm_step ConfirmTeleport sample_machine)"
    by (rule r_into_rtranclp, rule pm_call)
  from play_machine_phases_forward [OF this] show ?thesis
    by (simp add: pm_step_def confirm_teleport_def sample_machine_def)
qed

text \<open>
  The keep-alive handshake. After \<open>send_keep_alive\<close> of a payload, exactly that payload is
  accepted, once: another payload is refused and stays pending, and a second answer is refused as
  unexpected. The frame sent is the one the client decodes as that payload.
\<close>

theorem keep_alive_handshake:
  "case send_keep_alive p m of
     (Inl PlayTerminal, m') \<Rightarrow> pm_phase m = PlayDisconnected \<and> m' = m
   | (Inl _, m') \<Rightarrow> m' = m\<lparr>pm_last_keep_alive := Some p\<rparr>
   | (Inr wire, m') \<Rightarrow>
       decode_keep_alive_clientbound (pc_max_frame_length (pm_config m)) (wire @ rest) =
         (Inr (PlayComplete (KeepAliveClientbound \<lparr>ka_payload = p\<rparr>)), rest)
       \<and> handle_keep_alive_response q m' =
         (if q = p then (Inr (), m\<lparr>pm_last_keep_alive := None\<rparr>)
          else (Inl (Custom (keep_alive_mismatch p q)), m'))
       \<and> handle_keep_alive_response q (m\<lparr>pm_last_keep_alive := None\<rparr>) =
         (Inl (UnexpectedEvent (pm_phase m) ''no pending keep alive''), m\<lparr>pm_last_keep_alive := None\<rparr>)"
proof (cases "pm_phase m = PlayDisconnected")
  case False
  show ?thesis
  proof (cases "encode_keep_alive_clientbound \<lparr>ka_payload = p\<rparr> (pc_max_frame_length (pm_config m)) []")
    case (Pair r wire)
    show ?thesis
    proof (cases r)
      case (Inr u)
      with Pair False keep_alive_clientbound.roundtrip [OF TrueI Pair [unfolded Inr]] show ?thesis
        by (simp add: send_keep_alive_def handle_keep_alive_response_def Let_def)
    qed (use Pair False in \<open>simp add: send_keep_alive_def Let_def\<close>)
  qed
qed (simp add: send_keep_alive_def)

end
