(* ===== verification/Registry.thy ===== *)
theory Registry
  imports Bytes
begin

section \<open>Items and block states (\<open>registry.rs\<close>)\<close>

text \<open>
  The table that maps the item IDs of the protocol to the block states placed for them, and its four
  lookups, each the first matching entry.
\<close>

record block_item_entry =
  bie_item_id :: i32
  bie_block_state_id :: i32
  bie_name :: rstring

abbreviation entry :: "i32 \<Rightarrow> i32 \<Rightarrow> string \<Rightarrow> block_item_entry" where
  "entry i b n \<equiv> \<lparr>bie_item_id = i, bie_block_state_id = b, bie_name = ascii n\<rparr>"

definition REGISTRY :: "block_item_entry list" where
  "REGISTRY =
  [entry 0 0 ''air'',
   entry 1 1 ''stone'',
   entry 43 79 ''bedrock'',
   entry 14 9 ''grass_block'',
   entry 15 10 ''dirt'',
   entry 23 15 ''oak_planks'',
   entry 44 112 ''sand'',
   entry 303 5850 ''netherrack'',
   entry 304 5851 ''soul_sand'',
   entry 310 5864 ''glowstone'',
   entry 355 7415 ''end_stone'',
   entry 68 10604 ''coal_block'',
   entry 77 4276 ''diamond_block'',
   entry 360 7665 ''emerald_block'',
   entry 869 80 ''water'',
   entry 870 96 ''lava'',
   entry 277 2955 ''chest'',
   entry 7 79 ''bedrock_stub'',
   entry 8 9 ''grass_block_stub'',
   entry 10 10 ''dirt_stub'',
   entry 11 11 ''coarse_dirt'',
   entry 24 112 ''sand_stub'',
   entry 326 80 ''water_legacy'',
   entry 327 96 ''lava_legacy'']"

definition item_to_block_state :: "i32 \<Rightarrow> i32 option" where
  "item_to_block_state item_id = map_option bie_block_state_id (find (\<lambda>e. bie_item_id e = item_id) REGISTRY)"

definition block_state_to_item :: "i32 \<Rightarrow> i32 option" where
  "block_state_to_item block_state_id = map_option bie_item_id (find (\<lambda>e. bie_block_state_id e = block_state_id) REGISTRY)"

definition item_name :: "i32 \<Rightarrow> rstring option" where
  "item_name item_id = map_option bie_name (find (\<lambda>e. bie_item_id e = item_id) REGISTRY)"

definition block_state_name :: "i32 \<Rightarrow> rstring option" where
  "block_state_name block_state_id = map_option bie_name (find (\<lambda>e. bie_block_state_id e = block_state_id) REGISTRY)"

text \<open>What is dug drops an item that places the same block again, whatever alias the table lists first.\<close>

lemma registry_reverse_consistent:
  "\<forall>e\<in>set REGISTRY. \<exists>i. block_state_to_item (bie_block_state_id e) = Some i
      \<and> item_to_block_state i = Some (bie_block_state_id e)"
  by (simp add: REGISTRY_def item_to_block_state_def block_state_to_item_def)

text \<open>
  A block dug and placed again is the same block: the item that a known block state drops is a
  block item, and placing it gives that block state back. The reverse lookup knows exactly the states
  that some item places.
\<close>

theorem dig_then_place:
  "(case block_state_to_item b of None \<Rightarrow> \<nexists>i. item_to_block_state i = Some b
    | Some i \<Rightarrow> item_to_block_state i = Some b)"
proof (cases "find (\<lambda>e. bie_block_state_id e = b) REGISTRY")
  case None
  then have "\<forall>e\<in>set REGISTRY. bie_block_state_id e \<noteq> b" by (auto simp: find_None_iff)
  with None show ?thesis
    by (auto simp: block_state_to_item_def item_to_block_state_def dest: find_SomeD)
next
  case (Some e)
  with registry_reverse_consistent find_SomeD [OF Some] show ?thesis by fastforce
qed

end
