(* ===== verification/Chunk.thy ===== *)
theory Chunk
  imports Hakoniwa Play_World
begin

section \<open>The flat chunk generator (\<open>chunk.rs\<close>)\<close>

text \<open>
  Chunk Data payloads of the flat plateau: heightmaps as NBT, 24 single-valued sections, the light
  blob. The last part reads the sections back with the protocol's decoders and compares them with
  the block function the server itself uses.
\<close>

definition NUM_SECTIONS :: nat where "NUM_SECTIONS = 24"
definition SECTION_BLOCK_COUNT :: nat where "SECTION_BLOCK_COUNT = 4096"
definition AIR_BLOCK_STATE :: i32 where "AIR_BLOCK_STATE = 0"
definition STONE_BLOCK_STATE :: i32 where "STONE_BLOCK_STATE = 1"
definition BEDROCK_BLOCK_STATE :: i32 where "BEDROCK_BLOCK_STATE = 79"
definition GRASS_BLOCK_STATE :: i32 where "GRASS_BLOCK_STATE = 9"
definition DIRT_BLOCK_STATE :: i32 where "DIRT_BLOCK_STATE = 10"
definition SAND_BLOCK_STATE :: i32 where "SAND_BLOCK_STATE = 112"
definition NETHERRACK_BLOCK_STATE :: i32 where "NETHERRACK_BLOCK_STATE = 5850"
definition SOUL_SAND_BLOCK_STATE :: i32 where "SOUL_SAND_BLOCK_STATE = 5851"
definition GLOWSTONE_BLOCK_STATE :: i32 where "GLOWSTONE_BLOCK_STATE = 5864"
definition END_STONE_BLOCK_STATE :: i32 where "END_STONE_BLOCK_STATE = 7415"
definition DIAMOND_BLOCK_STATE :: i32 where "DIAMOND_BLOCK_STATE = 4276"
definition EMERALD_BLOCK_STATE :: i32 where "EMERALD_BLOCK_STATE = 7665"
definition COAL_BLOCK_STATE :: i32 where "COAL_BLOCK_STATE = 10604"
definition FLAT_STONE_MIN_Y :: i32 where "FLAT_STONE_MIN_Y = - 64"
definition FLAT_STONE_MAX_Y :: i32 where "FLAT_STONE_MAX_Y = 63"

definition plateau_block_for :: "dimension_id \<Rightarrow> i32" where
  "plateau_block_for d = (case d of Overworld \<Rightarrow> STONE_BLOCK_STATE | Nether \<Rightarrow> NETHERRACK_BLOCK_STATE
    | TheEnd \<Rightarrow> END_STONE_BLOCK_STATE)"

definition generated_flat_block :: "dimension_id \<Rightarrow> i32 \<Rightarrow> i32 \<Rightarrow> i32 \<Rightarrow> i32" where
  "generated_flat_block d x y z =
    (if FLAT_STONE_MIN_Y \<le>s y \<and> y \<le>s FLAT_STONE_MAX_Y then plateau_block_for d else AIR_BLOCK_STATE)"

definition PLAINS_BIOME_ID :: i32 where "PLAINS_BIOME_ID = 0"
definition TAG_LONG_ARRAY :: u8 where "TAG_LONG_ARRAY = 12"
definition TAG_COMPOUND :: u8 where "TAG_COMPOUND = 10"
definition TAG_END :: u8 where "TAG_END = 0"
definition HEIGHTMAP_LONGS :: nat where "HEIGHTMAP_LONGS = 37"
definition NUM_LIGHT_SECTIONS :: nat where "NUM_LIGHT_SECTIONS = 26"
definition LIGHT_ARRAY_SIZE :: nat where "LIGHT_ARRAY_SIZE = 2048"

lemmas chunk_consts = NUM_SECTIONS_def SECTION_BLOCK_COUNT_def AIR_BLOCK_STATE_def STONE_BLOCK_STATE_def
  NETHERRACK_BLOCK_STATE_def END_STONE_BLOCK_STATE_def FLAT_STONE_MIN_Y_def FLAT_STONE_MAX_Y_def
  PLAINS_BIOME_ID_def HEIGHTMAP_LONGS_def NUM_LIGHT_SECTIONS_def LIGHT_ARRAY_SIZE_def

subsection \<open>Light and heightmaps\<close>

definition encode_bitset :: "i64 list \<Rightarrow> bytes \<Rightarrow> bytes" where
  "encode_bitset longs buf =
    fold (\<lambda>val b. b @ to_be_bytes val) longs (encode_var_int (word_of_nat (length longs)) buf)"

definition build_light_data :: bytes where
  "build_light_data =
    (let sky_mask = 0x3FFFFFF;
         buf = encode_bitset [sky_mask] [];
         buf = encode_bitset [] buf;
         buf = encode_bitset [] buf;
         buf = encode_bitset [sky_mask] buf;
         buf = encode_var_int (word_of_nat NUM_LIGHT_SECTIONS) buf;
         buf = fold (\<lambda>_ b. encode_var_int (word_of_nat LIGHT_ARRAY_SIZE) b @ replicate LIGHT_ARRAY_SIZE 0xFF)
                 [0..<NUM_LIGHT_SECTIONS] buf
     in encode_var_int 0 buf)"

definition write_nbt_string :: "rstring \<Rightarrow> bytes \<Rightarrow> bytes" where
  "write_nbt_string value buf = (buf @ to_be_bytes (word_of_nat (length value) :: u16)) @ value"

definition write_nbt_int :: "i32 \<Rightarrow> bytes \<Rightarrow> bytes" where
  "write_nbt_int value buf = buf @ to_be_bytes value"

definition pack_heightmap_long :: "u32 \<Rightarrow> i64" where
  "pack_heightmap_long value =
    (let v = ucast (value AND 0x1FF) in fold (\<lambda>i result. result OR push_bit (9 * i) v) [0..<7] 0)"

definition build_heightmaps_nbt :: bytes where
  "build_heightmaps_nbt =
    (let surface_height = 128; packed = pack_heightmap_long surface_height;
         longs = (\<lambda>buf. fold (\<lambda>_ b. b @ to_be_bytes packed) [0..<HEIGHTMAP_LONGS] buf);
         buf = write_nbt_string (ascii '''') [TAG_COMPOUND];
         buf = write_nbt_string (ascii ''MOTION_BLOCKING'') (buf @ [TAG_LONG_ARRAY]);
         buf = longs (write_nbt_int (word_of_nat HEIGHTMAP_LONGS) buf);
         buf = write_nbt_string (ascii ''WORLD_SURFACE'') (buf @ [TAG_LONG_ARRAY]);
         buf = longs (write_nbt_int (word_of_nat HEIGHTMAP_LONGS) buf)
     in buf @ [TAG_END])"

subsection \<open>Sections\<close>

definition encode_section :: "i16 \<Rightarrow> i32 \<Rightarrow> i32 \<Rightarrow> bytes \<Rightarrow> bytes" where
  "encode_section block_count block_state biome_id buf =
    (let buf = encode_i16 block_count buf;
         buf = encode_var_int 0 (encode_var_int block_state (encode_u8 0 buf))
     in encode_var_int 0 (encode_var_int biome_id (encode_u8 0 buf)))"

definition build_section_data :: "i32 \<Rightarrow> bytes" where
  "build_section_data fill_block =
    fold (\<lambda>section_idx buf.
        if section_idx \<le> 7 then encode_section (word_of_nat SECTION_BLOCK_COUNT) fill_block PLAINS_BIOME_ID buf
        else encode_section 0 AIR_BLOCK_STATE PLAINS_BIOME_ID buf) [0..<NUM_SECTIONS] []"

definition generate_chunk :: "i32 \<Rightarrow> i32 \<Rightarrow> dimension_id \<Rightarrow> bytes \<times> bytes \<times> bytes list \<times> bytes" where
  "generate_chunk chunk_x chunk_z d =
    (build_heightmaps_nbt, build_section_data (plateau_block_for d), [], build_light_data)"

definition build_chunk_data_packet :: "i32 \<Rightarrow> i32 \<Rightarrow> dimension_id \<Rightarrow> chunk_data" where
  "build_chunk_data_packet chunk_x chunk_z d =
    (let (heightmaps, data, block_entities, light_data) = generate_chunk chunk_x chunk_z d in
     \<lparr>chd_chunk_x = chunk_x, chd_chunk_z = chunk_z, chd_heightmaps = heightmaps, chd_data = data,
      chd_block_entities = block_entities, chd_light_data = light_data\<rparr>)"

subsection \<open>Lengths\<close>

lemma fold_append_const: "fold (\<lambda>_ b. b @ c) xs b0 = b0 @ concat (map (\<lambda>_. c) xs)"
  by (induction xs arbitrary: b0) simp_all

lemma replicate_items: "map (\<lambda>_. c) [0..<n] = replicate n c"
  by (induction n) (simp_all add: replicate_append_same)

lemma length_be_64 [simp]: "length (to_be_bytes (w :: i64)) = 8"
  by (simp add: to_be_bytes_def)

lemma build_heightmaps_nbt_eq:
  "build_heightmaps_nbt = 10 # to_be_bytes (word_of_nat (length ([] :: bytes)) :: u16) @ [] @
    (12 # to_be_bytes (word_of_nat (length (ascii ''MOTION_BLOCKING'')) :: u16) @ ascii ''MOTION_BLOCKING'' @
      (to_be_bytes (word_of_nat 37 :: i32) @ concat (replicate 37 (to_be_bytes (pack_heightmap_long 128)))) @
    (12 # to_be_bytes (word_of_nat (length (ascii ''WORLD_SURFACE'')) :: u16) @ ascii ''WORLD_SURFACE'' @
      (to_be_bytes (word_of_nat 37 :: i32) @ concat (replicate 37 (to_be_bytes (pack_heightmap_long 128)))) @
     [0]))"
  unfolding build_heightmaps_nbt_def Let_def write_nbt_string_def write_nbt_int_def fold_append_const
    replicate_items HEIGHTMAP_LONGS_def TAG_COMPOUND_def TAG_LONG_ARRAY_def TAG_END_def
  by (simp add: ascii_def)

lemma length_concat_replicate: "length (concat (replicate n xs)) = n * length xs"
  by (induction n) simp_all

lemma nbt_entries_longs:
  assumes "length name < 2 ^ 16" "nbt_entries c"
  shows "nbt_entries (12 # to_be_bytes (word_of_nat (length name) :: u16) @ name @
    (to_be_bytes (word_of_nat 37 :: i32) @ concat (replicate 37 (to_be_bytes (v :: i64)))) @ c)"
proof (rule nbt_entry [OF _ assms])
  show "nbt_value 12 (to_be_bytes (word_of_nat 37 :: i32) @ concat (replicate 37 (to_be_bytes v)))"
    by (rule nbt_array [where width = 8]) (simp_all add: length_concat_replicate i32_max_def)
qed

lemma heightmap_sample:
  "map (\<lambda>i. take_bit 9 (drop_bit (9 * i) (pack_heightmap_long v))) [0..<7] = replicate 7 (ucast (v AND 0x1FF))"
proof -
  have nine: "(0x1FF :: u32) = mask 9" by (simp add: mask_eq_exp_minus_1)
  define w :: i64 where "w = ucast (v AND 0x1FF)"
  have small: "bit w n \<Longrightarrow> n < 9" for n
    unfolding w_def nine by (auto simp: bit_simps)
  have packed: "bit (fold (\<lambda>i r. r OR push_bit (9 * i) w) [0..<k] 0) m \<longleftrightarrow>
      (\<exists>j<k. 9 * j \<le> m \<and> m < 64 \<and> bit w (m - 9 * j))" for k m
    by (induction k) (auto simp: bit_simps less_Suc_eq)
  have "take_bit 9 (drop_bit (9 * i) (pack_heightmap_long v)) = w" if "i < 7" for i
  proof (rule bit_word_eqI)
    fix n assume "n < LENGTH(64)"
    have shift: "j = i" if "n < 9" "9 * j \<le> 9 * i + n" "9 * i + n - 9 * j < 9" for j
      using that by arith
    show "bit (take_bit 9 (drop_bit (9 * i) (pack_heightmap_long v))) n = bit w n"
      using that small [of n] unfolding pack_heightmap_long_def Let_def w_def [symmetric]
      by (auto simp: bit_simps packed dest: shift [OF _ _ small] intro!: exI [of _ i])
  qed
  then have "map (\<lambda>i. take_bit 9 (drop_bit (9 * i) (pack_heightmap_long v))) [0..<7] = map (\<lambda>_. w) [0..<7]"
    by (intro map_cong) simp_all
  then show ?thesis by (simp add: map_replicate_const w_def del: upt_rec_numeral)
qed

text \<open>
  The heightmaps of a generated chunk are a compound of the NBT grammar, so a client's walk over
  them ends at their last byte; each of the two arrays has the 37 longs a 16 by 16 map needs, and
  the seven 9-bit samples of a long are the height that was packed.
\<close>

theorem heightmaps_are_nbt:
  "nbt_root build_heightmaps_nbt \<and> length build_heightmaps_nbt = 638
   \<and> map (\<lambda>i. take_bit 9 (drop_bit (9 * i) (pack_heightmap_long v))) [0..<7] = replicate 7 (ucast (v AND 0x1FF))"
proof (intro conjI heightmap_sample)
  show "nbt_root build_heightmaps_nbt"
    unfolding nbt_root_def
    by (rule exI [where x = "[]"], rule exI, rule conjI [OF build_heightmaps_nbt_eq])
      (intro conjI nbt_entries_longs nbt_end; simp)
  show "length build_heightmaps_nbt = 638"
    unfolding build_heightmaps_nbt_eq by (simp add: length_concat_replicate)
qed


subsection \<open>What a client reads\<close>

text \<open>
  The chunk format with single-valued palettes, over the protocol's decoders: the number of non-air
  blocks, the block state and the biome of one section.
\<close>

definition read_section :: "(codec_error, i16 \<times> i32 \<times> i32) decoder" where
  "read_section =
    st_bind decode_i16 (\<lambda>count.
    st_bind decode_u8 (\<lambda>_. st_bind decode_var_int (\<lambda>state. st_bind decode_var_int (\<lambda>_.
    st_bind decode_u8 (\<lambda>_. st_bind decode_var_int (\<lambda>biome. st_bind decode_var_int (\<lambda>_.
    st_ret (count, state, biome))))))))"

definition section_bytes :: "i16 \<times> i32 \<times> i32 \<Rightarrow> bytes" where
  "section_bytes = (\<lambda>(c, b, m). encode_section c b m [])"

lemma encode_section_appends:
  "encode_section c b m buf = buf @ encode_i16 c [] @ encode_u8 0 [] @ encode_var_int b [] @ encode_var_int 0 []
    @ encode_u8 0 [] @ encode_var_int m [] @ encode_var_int 0 []"
  using var_int.enc_appends [of b "encode_u8 0 (encode_i16 c buf)"]
    var_int.enc_appends [of 0 "encode_var_int b (encode_u8 0 (encode_i16 c buf))"]
    var_int.enc_appends [of m "encode_u8 0 (encode_var_int 0 (encode_var_int b (encode_u8 0 (encode_i16 c buf))))"]
    var_int.enc_appends [of 0 "encode_var_int m (encode_u8 0 (encode_var_int 0 (encode_var_int b (encode_u8 0 (encode_i16 c buf)))))"]
  by (simp add: encode_section_def encode_u8_def encode_i16_def)

lemma read_section_decodes: "decodes read_section (section_bytes s) s"
proof -
  obtain c b m where s: "s = (c, b, m)" by (cases s)
  show ?thesis
    unfolding s section_bytes_def prod.case encode_section_appends append_Nil read_section_def
    by ((rule decodes_bind, rule be_i16.decodes_enc u8.decodes_enc var_int.decodes_enc, rule TrueI)+,
        rule decodes_bind_last, rule var_int.decodes_enc, rule TrueI, rule decodes_ret)
qed

definition plateau_sections :: "i32 \<Rightarrow> (i16 \<times> i32 \<times> i32) list" where
  "plateau_sections fill = replicate 8 (4096, fill, 0) @ replicate 16 (0, 0, 0)"

lemma section_data_eq:
  "build_section_data fill = concat (map section_bytes (plateau_sections fill))"
proof -
  have app: "encode_section c b m buf = buf @ section_bytes (c, b, m)" for c b m buf
    using encode_section_appends [of c b m buf] encode_section_appends [of c b m "[]"] by (simp add: section_bytes_def)
  have "fold (\<lambda>i buf. if i \<le> 7 then encode_section 4096 fill 0 buf else encode_section 0 0 0 buf) xs buf =
      buf @ concat (map (\<lambda>i. section_bytes (if i \<le> 7 then (4096, fill, 0) else (0, 0, 0))) xs)" for xs :: "nat list" and buf
    by (induction xs arbitrary: buf) (simp_all add: app)
  moreover have "map (\<lambda>i. section_bytes (if i \<le> 7 then (4096, fill, 0) else (0, 0, 0))) [0..<24] =
      map section_bytes (plateau_sections fill)"
    by (simp add: plateau_sections_def upt_rec numeral_nat)
  ultimately show ?thesis unfolding build_section_data_def chunk_consts of_nat_numeral by simp
qed

lemma concat_replicates: "concat (replicate n (replicate m b)) = replicate (n * m) b"
  by (induction n) (simp_all add: replicate_add)

lemma plateau_column:
  "map (\<lambda>y. generated_flat_block d x (word_of_nat y - 64) z) [0..<384] =
    concat (map (\<lambda>(c, b, m). replicate 16 b) (plateau_sections (plateau_block_for d)))"
proof -
  have sy: "sint (word_of_nat y - 64 :: i32) = int y - 64" if "y < 384" for y
  proof -
    have "(word_of_nat y - 64 :: i32) = word_of_int (int y - 64)" by simp
    then show ?thesis using that by (simp only: sint_sbintrunc') (simp add: signed_take_bit_int_eq_self)
  qed
  have block: "generated_flat_block d x (word_of_nat y - 64) z = (if y < 128 then plateau_block_for d else 0)"
    if "y < 384" for y
    using sy [OF that] by (auto simp: generated_flat_block_def chunk_consts word_sle_eq)
  have "map (\<lambda>y. generated_flat_block d x (word_of_nat y - 64) z) [0..<384] =
      map (\<lambda>y. if y < 128 then plateau_block_for d else 0) [0..<384]"
    using block by (intro map_cong) simp_all
  also have "\<dots> = replicate 128 (plateau_block_for d) @ replicate 256 0"
    by (simp add: list_eq_iff_nth_eq nth_append del: upt_rec_numeral)
  finally show ?thesis
    by (simp add: plateau_sections_def concat_replicates del: upt_rec_numeral)
qed

text \<open>
  C26: What a client shows of a generated chunk is what the server believes is there: the section data
  of any chunk, followed by anything, reads as 24 sections, and the column of 384 blocks they
  describe (from -64 to 319) is \<open>generated_flat_block\<close> at each height, for every dimension.
\<close>

theorem client_sees_the_plateau:
  "\<exists>sections. dec_times NUM_SECTIONS read_section (chd_data (build_chunk_data_packet cx cz d) @ rest) = (Inr sections, rest)
    \<and> concat (map (\<lambda>(count, state, biome). replicate 16 state) sections)
        = map (\<lambda>y. generated_flat_block d x (word_of_nat y - 64) z) [0..<384]"
proof (intro exI conjI)
  let ?s = "plateau_sections (plateau_block_for d)"
  have "length ?s = NUM_SECTIONS" by (simp add: plateau_sections_def chunk_consts)
  then show "dec_times NUM_SECTIONS read_section (chd_data (build_chunk_data_packet cx cz d) @ rest) = (Inr ?s, rest)"
    using decodesD [OF dec_times_concat [of ?s read_section section_bytes, OF read_section_decodes], of rest]
    by (simp add: build_chunk_data_packet_def generate_chunk_def section_data_eq)
  show "concat (map (\<lambda>(count, state, biome). replicate 16 state) ?s) =
      map (\<lambda>y. generated_flat_block d x (word_of_nat y - 64) z) [0..<384]"
    by (simp add: plateau_column del: upt_rec_numeral)
qed

end
