(* ===== verification/World.thy ===== *)
theory World
  imports Chunk "HOL-Library.Product_Lexorder"
begin

section \<open>The world (\<open>world.rs\<close>)\<close>

text \<open>
  Loaded chunks, players and blocks. A \<open>HashMap\<close> is a partial map; where the code returns a list in
  the map's iteration order, which Rust leaves open, that order is a parameter \<open>ord\<close> of the model,
  and \<open>iterates\<close> says what any order is: every entry once. The second half refines the three layers of
  blocks (overrides, decorations, plateau) to one function from positions to block states, gives the
  invariant of the world under its operations, and shows that a client told of a chunk and its deltas
  sees exactly that function.
\<close>

type_synonym block_pos = "i32 \<times> i32 \<times> i32"
type_synonym block_map = "block_pos \<rightharpoonup> i32"

definition iterates :: "('k \<times> 'v) list \<Rightarrow> ('k \<rightharpoonup> 'v) \<Rightarrow> bool" where
  "iterates es m \<longleftrightarrow> distinct (map fst es) \<and> map_of es = m"

subsection \<open>Chunks\<close>

record chunk_pos =
  cp_x :: i32
  cp_z :: i32

definition chunk_pos_new :: "i32 \<Rightarrow> i32 \<Rightarrow> chunk_pos" where
  "chunk_pos_new x z = \<lparr>cp_x = x, cp_z = z\<rparr>"

record chunk =
  ck_pos :: chunk_pos
  ck_generated :: bool
  ck_heightmaps :: bytes
  ck_data :: bytes
  ck_block_entities :: "bytes list"
  ck_light_data :: bytes

definition chunk_new :: "chunk_pos \<Rightarrow> chunk" where
  "chunk_new pos = \<lparr>ck_pos = pos, ck_generated = False, ck_heightmaps = [], ck_data = [],
    ck_block_entities = [], ck_light_data = []\<rparr>"

definition chunk_generate :: "chunk_pos \<Rightarrow> dimension_id \<Rightarrow> chunk" where
  "chunk_generate pos d =
    (let (heightmaps, data, block_entities, light_data) = generate_chunk (cp_x pos) (cp_z pos) d in
     \<lparr>ck_pos = pos, ck_generated = True, ck_heightmaps = heightmaps, ck_data = data,
      ck_block_entities = block_entities, ck_light_data = light_data\<rparr>)"

definition to_chunk_data :: "chunk \<Rightarrow> chunk_data" where
  "to_chunk_data c = \<lparr>chd_chunk_x = cp_x (ck_pos c), chd_chunk_z = cp_z (ck_pos c),
    chd_heightmaps = ck_heightmaps c, chd_data = ck_data c, chd_block_entities = ck_block_entities c,
    chd_light_data = ck_light_data c\<rparr>"

subsection \<open>Players\<close>

record player_handle =
  ph_entity_id :: i32
  ph_uuid :: uuid
  ph_username :: rstring
  ph_x :: f64bits
  ph_y :: f64bits
  ph_z :: f64bits
  ph_yaw :: f32bits
  ph_pitch :: f32bits
  ph_gamemode :: u8
  ph_dimension :: dimension_id

definition player_handle_new :: "i32 \<Rightarrow> uuid \<Rightarrow> rstring \<Rightarrow> u8 \<Rightarrow> player_handle" where
  "player_handle_new entity_id u username gamemode =
    \<lparr>ph_entity_id = entity_id, ph_uuid = u, ph_username = username, ph_x = 0, ph_y = f64_lit 64 1, ph_z = 0,
     ph_yaw = 0, ph_pitch = 0, ph_gamemode = gamemode, ph_dimension = Overworld\<rparr>"

definition set_position :: "f64bits \<Rightarrow> f64bits \<Rightarrow> f64bits \<Rightarrow> player_handle \<Rightarrow> player_handle" where
  "set_position x y z p = p\<lparr>ph_x := x, ph_y := y, ph_z := z\<rparr>"

definition set_rotation :: "f32bits \<Rightarrow> f32bits \<Rightarrow> player_handle \<Rightarrow> player_handle" where
  "set_rotation yaw pitch p = p\<lparr>ph_yaw := yaw, ph_pitch := pitch\<rparr>"

definition handle_position :: "player_handle \<Rightarrow> f64bits \<times> f64bits \<times> f64bits" where
  "handle_position p = (ph_x p, ph_y p, ph_z p)"

definition handle_rotation :: "player_handle \<Rightarrow> f32bits \<times> f32bits" where
  "handle_rotation p = (ph_yaw p, ph_pitch p)"

subsection \<open>The world and its operations\<close>

record world =
  w_chunks :: "chunk_pos \<rightharpoonup> chunk"
  w_players :: "i32 \<rightharpoonup> player_handle"
  w_next_entity_id :: i32
  w_spawn_x :: f64bits
  w_spawn_y :: f64bits
  w_spawn_z :: f64bits
  w_overrides_by_dim :: "dimension_id \<rightharpoonup> block_map"
  w_pack_by_dim :: "dimension_id \<rightharpoonup> block_map"
  w_garden :: garden_spec
  w_enabled_dimensions :: dimension_set

definition empty_by_dim :: "dimension_id \<rightharpoonup> block_map" where
  "empty_by_dim = fold (\<lambda>d m. m(d \<mapsto> Map.empty)) dimension_all Map.empty"

definition with_garden :: "garden_spec \<Rightarrow> world" where
  "with_garden garden =
    \<lparr>w_chunks = Map.empty, w_players = Map.empty, w_next_entity_id = 1,
     w_spawn_x = f64_half, w_spawn_y = gs_surface_y garden, w_spawn_z = f64_half,
     w_overrides_by_dim = empty_by_dim, w_pack_by_dim = empty_by_dim,
     w_garden = garden, w_enabled_dimensions = gs_dimensions garden\<rparr>"

definition world_new :: world where
  "world_new = with_garden (garden_from_size Tiny)"

definition set_enabled_dimensions :: "dimension_set \<Rightarrow> world \<Rightarrow> world" where
  "set_enabled_dimensions dims w =
    w\<lparr>w_enabled_dimensions := dims, w_garden := (w_garden w)\<lparr>gs_dimensions := dims\<rparr>\<rparr>"

definition load_pack_blocks_for :: "dimension_id \<Rightarrow> block_map \<Rightarrow> world \<Rightarrow> world" where
  "load_pack_blocks_for d blocks w = w\<lparr>w_pack_by_dim := (w_pack_by_dim w)(d \<mapsto> blocks)\<rparr>"

definition load_block_overrides_for :: "dimension_id \<Rightarrow> block_map \<Rightarrow> world \<Rightarrow> world" where
  "load_block_overrides_for d overrides w = w\<lparr>w_overrides_by_dim := (w_overrides_by_dim w)(d \<mapsto> overrides)\<rparr>"

definition block_overrides_for :: "world \<Rightarrow> dimension_id \<Rightarrow> block_map" where
  "block_overrides_for w d = (case w_overrides_by_dim w d of None \<Rightarrow> Map.empty | Some m \<Rightarrow> m)"

definition allocate_entity_id :: "world \<Rightarrow> i32 \<times> world" where
  "allocate_entity_id w = (w_next_entity_id w, w\<lparr>w_next_entity_id := w_next_entity_id w + 1\<rparr>)"

definition spawn_point :: "world \<Rightarrow> f64bits \<times> f64bits \<times> f64bits" where
  "spawn_point w = (w_spawn_x w, w_spawn_y w, w_spawn_z w)"

definition set_spawn_point :: "f64bits \<Rightarrow> f64bits \<Rightarrow> f64bits \<Rightarrow> world \<Rightarrow> world" where
  "set_spawn_point x y z w = w\<lparr>w_spawn_x := x, w_spawn_y := y, w_spawn_z := z\<rparr>"

definition load_chunk :: "chunk_pos \<Rightarrow> dimension_id \<Rightarrow> world \<Rightarrow> world" where
  "load_chunk pos d w = w\<lparr>w_chunks := (w_chunks w)(pos \<mapsto> chunk_generate pos d)\<rparr>"

definition world_unload_chunk :: "chunk_pos \<Rightarrow> world \<Rightarrow> world" where
  "world_unload_chunk pos w = w\<lparr>w_chunks := (w_chunks w)(pos := None)\<rparr>"

definition is_chunk_loaded :: "world \<Rightarrow> chunk_pos \<Rightarrow> bool" where
  "is_chunk_loaded w pos \<longleftrightarrow> w_chunks w pos \<noteq> None"

definition get_chunk :: "world \<Rightarrow> chunk_pos \<Rightarrow> chunk option" where
  "get_chunk w pos = w_chunks w pos"

text \<open>\<open>-radius..=radius\<close> is empty for a negative radius; the sums wrap, as in a release build.\<close>

definition i32_range :: "i32 \<Rightarrow> i32 \<Rightarrow> i32 list" where
  "i32_range lo hi = map word_of_int [sint lo..sint hi]"

definition desired_chunks :: "i32 \<Rightarrow> i32 \<Rightarrow> i32 \<Rightarrow> chunk_pos list" where
  "desired_chunks center_x center_z radius =
    concat (map (\<lambda>dx. map (\<lambda>dz. chunk_pos_new (center_x + dx) (center_z + dz)) (i32_range (- radius) radius))
      (i32_range (- radius) radius))"

definition loaded_chunk_count :: "world \<Rightarrow> nat" where
  "loaded_chunk_count w = card (dom (w_chunks w))"

definition add_player :: "player_handle \<Rightarrow> world \<Rightarrow> world" where
  "add_player p w = w\<lparr>w_players := (w_players w)(ph_entity_id p \<mapsto> p)\<rparr>"

definition remove_player :: "i32 \<Rightarrow> world \<Rightarrow> player_handle option \<times> world" where
  "remove_player entity_id w = (w_players w entity_id, w\<lparr>w_players := (w_players w)(entity_id := None)\<rparr>)"

definition player_count :: "world \<Rightarrow> nat" where
  "player_count w = card (dom (w_players w))"

definition world_players :: "((i32 \<rightharpoonup> player_handle) \<Rightarrow> (i32 \<times> player_handle) list) \<Rightarrow> world \<Rightarrow> player_handle list" where
  "world_players ord w = map snd (ord (w_players w))"

definition get_player :: "world \<Rightarrow> i32 \<Rightarrow> player_handle option" where
  "get_player w entity_id = w_players w entity_id"

text \<open>\<open>if let Some(p) = world.get_player_mut(id) \<dots>\<close>: a change of one player, if there.\<close>

definition update_player :: "i32 \<Rightarrow> (player_handle \<Rightarrow> player_handle) \<Rightarrow> world \<Rightarrow> world" where
  "update_player entity_id f w = w\<lparr>w_players := (w_players w)(entity_id := map_option f (w_players w entity_id))\<rparr>"

definition set_block :: "dimension_id \<Rightarrow> i32 \<Rightarrow> i32 \<Rightarrow> i32 \<Rightarrow> i32 \<Rightarrow> world \<Rightarrow> world" where
  "set_block d x y z block_state w =
    w\<lparr>w_overrides_by_dim := (w_overrides_by_dim w)(d \<mapsto> (block_overrides_for w d)((x, y, z) \<mapsto> block_state))\<rparr>"

definition get_block :: "world \<Rightarrow> dimension_id \<Rightarrow> i32 \<Rightarrow> i32 \<Rightarrow> i32 \<Rightarrow> i32" where
  "get_block w d x y z =
    (case Option.bind (w_overrides_by_dim w d) (\<lambda>m. m (x, y, z)) of
       Some state \<Rightarrow> state
     | None \<Rightarrow>
       (case Option.bind (w_pack_by_dim w d) (\<lambda>m. m (x, y, z)) of
          Some state \<Rightarrow> state
        | None \<Rightarrow> if contains_block (w_garden w) x z then generated_flat_block d x y z else AIR_BLOCK_STATE))"

definition block_override_count :: "world \<Rightarrow> nat" where
  "block_override_count w = (\<Sum>d\<in>dom (w_overrides_by_dim w). card (dom (block_overrides_for w d)))"

definition load_block_overrides :: "block_map \<Rightarrow> world \<Rightarrow> world" where
  "load_block_overrides overrides w = load_block_overrides_for Overworld overrides w"

definition in_chunk_square :: "i32 \<Rightarrow> i32 \<Rightarrow> block_pos \<Rightarrow> bool" where
  "in_chunk_square chunk_x chunk_z pos =
    (let x_min = chunk_x * 16; x_max = x_min + 15; z_min = chunk_z * 16; z_max = z_min + 15; (x, _, z) = pos in
     x_min \<le>s x \<and> x \<le>s x_max \<and> z_min \<le>s z \<and> z \<le>s z_max)"

definition get_block_overrides_for_chunk ::
  "(block_map \<Rightarrow> (block_pos \<times> i32) list) \<Rightarrow> world \<Rightarrow> dimension_id \<Rightarrow> i32 \<Rightarrow> i32 \<Rightarrow> (block_pos \<times> i32) list" where
  "get_block_overrides_for_chunk ord w d chunk_x chunk_z =
    filter (\<lambda>(pos, _). in_chunk_square chunk_x chunk_z pos)
      (case w_overrides_by_dim w d of None \<Rightarrow> [] | Some m \<Rightarrow> ord m)"

definition merge_in_chunk :: "(block_pos \<Rightarrow> bool) \<Rightarrow> (block_pos \<times> i32) list \<Rightarrow> block_map \<Rightarrow> block_map" where
  "merge_in_chunk in_chunk es merged =
    fold (\<lambda>(pos, state) m. if in_chunk pos then m(pos \<mapsto> state) else m) es merged"

definition get_client_block_deltas_for_chunk ::
  "(block_map \<Rightarrow> (block_pos \<times> i32) list) \<Rightarrow> world \<Rightarrow> dimension_id \<Rightarrow> i32 \<Rightarrow> i32 \<Rightarrow> (block_pos \<times> i32) list" where
  "get_client_block_deltas_for_chunk ord w d chunk_x chunk_z =
    (let in_chunk = in_chunk_square chunk_x chunk_z;
         merged = (case w_pack_by_dim w d of None \<Rightarrow> Map.empty | Some pack \<Rightarrow> merge_in_chunk in_chunk (ord pack) Map.empty);
         merged = (case w_overrides_by_dim w d of None \<Rightarrow> merged | Some over \<Rightarrow> merge_in_chunk in_chunk (ord over) merged)
     in ord merged)"

subsection \<open>A block store\<close>

text \<open>
  What a client of the blocks relies on: a block written is read back and no other block changes.
  Writing a list of positions, one after the other, then sets exactly those.
\<close>

locale block_store =
  fixes block_at :: "'s \<Rightarrow> 'd \<Rightarrow> 'p \<Rightarrow> 'b"
    and put_block :: "'d \<Rightarrow> 'p \<Rightarrow> 'b \<Rightarrow> 's \<Rightarrow> 's"
  assumes put_same: "block_at (put_block d p b s) d p = b"
    and put_other: "(d', p') \<noteq> (d, p) \<Longrightarrow> block_at (put_block d p b s) d' p' = block_at s d' p'"
begin

lemma refines_update: "block_at (put_block d p b s) = (block_at s)(d := (block_at s d)(p := b))"
  using put_same put_other by (intro ext) (auto simp: fun_upd_def)

lemma put_all: "block_at (fold (\<lambda>p. put_block d p b) ps s) d' p' =
    (if d' = d \<and> p' \<in> set ps then b else block_at s d' p')"
  by (induction ps arbitrary: s) (auto simp: put_same put_other)

lemma put_twice: "block_at (put_block d p b' (put_block d p b s)) = block_at (put_block d p b' s)"
  by (simp add: refines_update)

end

definition block_at :: "world \<Rightarrow> dimension_id \<Rightarrow> block_pos \<Rightarrow> i32" where
  "block_at w d = (\<lambda>(x, y, z). get_block w d x y z)"

definition put_block :: "dimension_id \<Rightarrow> block_pos \<Rightarrow> i32 \<Rightarrow> world \<Rightarrow> world" where
  "put_block d = (\<lambda>(x, y, z) b. set_block d x y z b)"

lemma get_set_block:
  "get_block (set_block d x y z b w) d' x' y' z' =
    (if (d', x', y', z') = (d, x, y, z) then b else get_block w d' x' y' z')"
  by (auto simp: get_block_def set_block_def block_overrides_for_def split: option.splits)

interpretation blocks: block_store block_at put_block
  by unfold_locales (auto simp: block_at_def put_block_def get_set_block split: prod.splits)

subsection \<open>The blocks refine a function\<close>

text \<open>The layers below the overrides: the decorations of a pack over the plateau of the garden.\<close>

definition base_block :: "garden_spec \<Rightarrow> block_map \<Rightarrow> dimension_id \<Rightarrow> block_pos \<Rightarrow> i32" where
  "base_block g pack d = (\<lambda>(x, y, z). case pack (x, y, z) of Some state \<Rightarrow> state
     | None \<Rightarrow> if contains_block g x z then generated_flat_block d x y z else AIR_BLOCK_STATE)"

definition over :: "block_map \<Rightarrow> (block_pos \<Rightarrow> i32) \<Rightarrow> block_pos \<Rightarrow> i32" where
  "over m f p = (case m p of Some state \<Rightarrow> state | None \<Rightarrow> f p)"

lemma over_empty [simp]: "over Map.empty f = f"
  by (rule ext) (simp add: over_def)

definition pack_for :: "world \<Rightarrow> dimension_id \<Rightarrow> block_map" where
  "pack_for w d = (case w_pack_by_dim w d of None \<Rightarrow> Map.empty | Some m \<Rightarrow> m)"

lemma block_at_layers: "block_at w d = over (block_overrides_for w d) (base_block (w_garden w) (pack_for w d) d)"
  by (rule ext) (auto simp: block_at_def get_block_def over_def base_block_def block_overrides_for_def pack_for_def
      split: option.splits)

lemma empty_by_dim: "empty_by_dim d = Some Map.empty"
  by (cases d) (simp_all add: empty_by_dim_def dimension_all_def)

lemma contains_block_dimensions: "contains_block (g\<lparr>gs_dimensions := dims\<rparr>) = contains_block g"
  by (rule ext)+ (simp add: contains_block_def)

lemma base_block_dimensions: "base_block (g\<lparr>gs_dimensions := dims\<rparr>) = base_block g"
  unfolding base_block_def contains_block_dimensions ..

lemma layers_of_others:
  "block_overrides_for (load_chunk pos d w) = block_overrides_for w" "pack_for (load_chunk pos d w) = pack_for w"
  "block_overrides_for (world_unload_chunk pos w) = block_overrides_for w" "pack_for (world_unload_chunk pos w) = pack_for w"
  "block_overrides_for (add_player p w) = block_overrides_for w" "pack_for (add_player p w) = pack_for w"
  "block_overrides_for (snd (remove_player i w)) = block_overrides_for w" "pack_for (snd (remove_player i w)) = pack_for w"
  "block_overrides_for (update_player i f w) = block_overrides_for w" "pack_for (update_player i f w) = pack_for w"
  "block_overrides_for (snd (allocate_entity_id w)) = block_overrides_for w" "pack_for (snd (allocate_entity_id w)) = pack_for w"
  "block_overrides_for (set_spawn_point x y z w) = block_overrides_for w" "pack_for (set_spawn_point x y z w) = pack_for w"
  "block_overrides_for (set_enabled_dimensions dims w) = block_overrides_for w" "pack_for (set_enabled_dimensions dims w) = pack_for w"
  "block_overrides_for (load_pack_blocks_for e m w) = block_overrides_for w"
  "pack_for (load_block_overrides_for e m w) = pack_for w"
  by (rule ext, simp add: block_overrides_for_def pack_for_def load_chunk_def world_unload_chunk_def add_player_def
      remove_player_def update_player_def allocate_entity_id_def set_spawn_point_def set_enabled_dimensions_def
      load_pack_blocks_for_def load_block_overrides_for_def)+

lemma garden_of_others:
  "w_garden (load_chunk pos d w) = w_garden w" "w_garden (world_unload_chunk pos w) = w_garden w"
  "w_garden (add_player p w) = w_garden w" "w_garden (snd (remove_player i w)) = w_garden w"
  "w_garden (update_player i f w) = w_garden w" "w_garden (snd (allocate_entity_id w)) = w_garden w"
  "w_garden (set_spawn_point x y z w) = w_garden w" "w_garden (load_pack_blocks_for e m w) = w_garden w"
  "w_garden (load_block_overrides_for e m w) = w_garden w" "w_garden (set_block d bx by bz b w) = w_garden w"
  by (simp_all add: load_chunk_def world_unload_chunk_def add_player_def remove_player_def update_player_def
      allocate_entity_id_def set_spawn_point_def load_pack_blocks_for_def load_block_overrides_for_def set_block_def)

lemma layers_loaded:
  "block_overrides_for (load_block_overrides_for d m w) = (block_overrides_for w)(d := m)"
  "pack_for (load_pack_blocks_for d m w) = (pack_for w)(d := m)"
  by (rule ext, simp add: block_overrides_for_def pack_for_def load_pack_blocks_for_def load_block_overrides_for_def)+

lemma block_at_eqI:
  "block_overrides_for w' = block_overrides_for w \<Longrightarrow> pack_for w' = pack_for w \<Longrightarrow>
    base_block (w_garden w') = base_block (w_garden w) \<Longrightarrow> block_at w' = block_at w"
  by (rule ext) (simp add: block_at_layers)

text \<open>
  C15: The blocks of the world refine one function from dimensions and positions to block states. A new
  world is the plateau of its garden; a block set is an update of the function at one point and
  nothing else; loading saved overrides or the decorations of a pack replaces that layer of one
  dimension, with the overrides on top; no operation on chunks, players, entity ids or the spawn
  point changes a block.
\<close>

theorem world_refines_block_function:
  "block_at (with_garden g) = base_block g Map.empty
   \<and> block_at (set_block d x y z b w) = (block_at w)(d := (block_at w d)((x, y, z) := b))
   \<and> block_at (load_block_overrides_for d m w) =
      (block_at w)(d := over m (base_block (w_garden w) (pack_for w d) d))
   \<and> block_at (load_pack_blocks_for d m w) =
      (block_at w)(d := over (block_overrides_for w d) (base_block (w_garden w) m d))
   \<and> block_at (load_chunk pos d w) = block_at w \<and> block_at (world_unload_chunk pos w) = block_at w
   \<and> block_at (add_player p w) = block_at w \<and> block_at (snd (remove_player i w)) = block_at w
   \<and> block_at (update_player i f w) = block_at w \<and> block_at (snd (allocate_entity_id w)) = block_at w
   \<and> block_at (set_spawn_point sx sy sz w) = block_at w \<and> block_at (set_enabled_dimensions dims w) = block_at w"
proof (intro conjI)
  show "block_at (with_garden g) = base_block g Map.empty"
    by (rule ext) (simp add: block_at_layers block_overrides_for_def pack_for_def with_garden_def empty_by_dim)
  show "block_at (set_block d x y z b w) = (block_at w)(d := (block_at w d)((x, y, z) := b))"
    using blocks.refines_update [where d = d and p = "(x, y, z)"] by (simp add: put_block_def)
  show "block_at (load_block_overrides_for d m w) =
      (block_at w)(d := over m (base_block (w_garden w) (pack_for w d) d))"
    "block_at (load_pack_blocks_for d m w) =
      (block_at w)(d := over (block_overrides_for w d) (base_block (w_garden w) m d))"
    by (rule ext, simp add: block_at_layers layers_loaded layers_of_others garden_of_others)+
  show "block_at (set_enabled_dimensions dims w) = block_at w"
    by (rule block_at_eqI) (simp_all add: layers_of_others, simp add: set_enabled_dimensions_def base_block_dimensions)
qed (rule block_at_eqI; simp add: layers_of_others garden_of_others)+

subsection \<open>The invariant of the world\<close>

text \<open>
  Every operation of the tick thread on the world is a step. A step that changes a player changes its
  position, rotation, game mode or dimension, never its entity id; a player joins under the entity id
  just allocated.
\<close>

inductive world_step :: "world \<Rightarrow> world \<Rightarrow> bool" where
  enable: "world_step w (set_enabled_dimensions dims w)"
| load_pack: "finite (dom m) \<Longrightarrow> world_step w (load_pack_blocks_for d m w)"
| load_overrides: "finite (dom m) \<Longrightarrow> world_step w (load_block_overrides_for d m w)"
| allocate: "world_step w (snd (allocate_entity_id w))"
| spawn: "world_step w (set_spawn_point x y z w)"
| load: "world_step w (load_chunk pos d w)"
| unload: "world_step w (world_unload_chunk pos w)"
| join: "ph_entity_id p = fst (allocate_entity_id w) \<Longrightarrow> world_step w (add_player p (snd (allocate_entity_id w)))"
| leave: "world_step w (snd (remove_player i w))"
| move: "world_step w (update_player i (set_position x y z) w)"
| rotate: "world_step w (update_player i (set_rotation yaw pitch) w)"
| change_gamemode: "world_step w (update_player i (\<lambda>p. p\<lparr>ph_gamemode := gm\<rparr>) w)"
| travel: "world_step w (update_player i (\<lambda>p. p\<lparr>ph_dimension := d\<rparr>) w)"
| set: "world_step w (set_block d x y z b w)"

inductive_cases world_stepE: "world_step w w'"

definition world_inv :: "world \<Rightarrow> bool" where
  "world_inv w \<longleftrightarrow>
    finite (dom (w_chunks w)) \<and> finite (dom (w_players w))
    \<and> (\<forall>d. \<exists>m. w_overrides_by_dim w d = Some m \<and> finite (dom m))
    \<and> (\<forall>d. \<exists>m. w_pack_by_dim w d = Some m \<and> finite (dom m))
    \<and> gs_dimensions (w_garden w) = w_enabled_dimensions w
    \<and> (\<forall>i p. w_players w i = Some p \<longrightarrow> ph_entity_id p = i)
    \<and> (\<forall>pos c. w_chunks w pos = Some c \<longrightarrow> (\<exists>d. c = chunk_generate pos d))"

lemma world_inv_init: "world_inv (with_garden g)"
  by (simp add: world_inv_def with_garden_def empty_by_dim)

lemma dom_update_player: "dom (w_players (update_player i f w)) = dom (w_players w)"
  by (auto simp: update_player_def split: if_splits)

lemma update_player_inv:
  assumes "world_inv w" "\<And>p. ph_entity_id (f p) = ph_entity_id p"
  shows "world_inv (update_player i f w)"
proof -
  have "finite (dom (w_players (update_player i f w)))"
    unfolding dom_update_player using assms(1) by (simp add: world_inv_def)
  moreover have "\<forall>j p. w_players (update_player i f w) j = Some p \<longrightarrow> ph_entity_id p = j"
  proof (intro allI impI)
    fix j p assume p: "w_players (update_player i f w) j = Some p"
    then obtain q where "w_players w j = Some q" "ph_entity_id p = ph_entity_id q"
      using assms(2) by (cases "j = i") (auto simp: update_player_def)
    with assms(1) show "ph_entity_id p = j" unfolding world_inv_def by metis
  qed
  moreover have "w_chunks (update_player i f w) = w_chunks w" "w_garden (update_player i f w) = w_garden w"
    "w_overrides_by_dim (update_player i f w) = w_overrides_by_dim w" "w_pack_by_dim (update_player i f w) = w_pack_by_dim w"
    "w_enabled_dimensions (update_player i f w) = w_enabled_dimensions w"
    by (simp_all add: update_player_def)
  ultimately show ?thesis using assms(1) unfolding world_inv_def by simp
qed

lemma inv_enable: "world_inv w \<Longrightarrow> world_inv (set_enabled_dimensions dims w)"
  by (simp add: world_inv_def set_enabled_dimensions_def)

lemma inv_load_pack: "world_inv w \<Longrightarrow> finite (dom m) \<Longrightarrow> world_inv (load_pack_blocks_for d m w)"
  by (simp add: world_inv_def load_pack_blocks_for_def)

lemma inv_load_overrides: "world_inv w \<Longrightarrow> finite (dom m) \<Longrightarrow> world_inv (load_block_overrides_for d m w)"
  by (simp add: world_inv_def load_block_overrides_for_def)

lemma inv_allocate: "world_inv w \<Longrightarrow> world_inv (snd (allocate_entity_id w))"
  by (simp add: world_inv_def allocate_entity_id_def)

lemma inv_spawn: "world_inv w \<Longrightarrow> world_inv (set_spawn_point x y z w)"
  by (simp add: world_inv_def set_spawn_point_def)

lemma inv_load_chunk: "world_inv w \<Longrightarrow> world_inv (load_chunk pos d w)"
  unfolding world_inv_def load_chunk_def by (auto split: if_splits)

lemma inv_unload_chunk: "world_inv w \<Longrightarrow> world_inv (world_unload_chunk pos w)"
  by (simp add: world_inv_def world_unload_chunk_def)

lemma inv_add_player: "world_inv w \<Longrightarrow> world_inv (add_player p w)"
  by (simp add: world_inv_def add_player_def)

lemma inv_remove_player: "world_inv w \<Longrightarrow> world_inv (snd (remove_player i w))"
  by (simp add: world_inv_def remove_player_def)

lemma inv_set_block: "world_inv w \<Longrightarrow> world_inv (set_block d x y z b w)"
proof -
  assume w: "world_inv w"
  then have "finite (dom (block_overrides_for w d))"
    by (auto simp: world_inv_def block_overrides_for_def split: option.splits)
  with w show ?thesis by (simp add: world_inv_def set_block_def)
qed

lemma world_inv_step: "world_step w w' \<Longrightarrow> world_inv w \<Longrightarrow> world_inv w'"
  by (induction rule: world_step.induct)
    (simp_all add: inv_enable inv_load_pack inv_load_overrides inv_allocate inv_spawn inv_load_chunk inv_unload_chunk
      inv_add_player inv_remove_player inv_set_block update_player_inv set_position_def set_rotation_def)

text \<open>
  C21: In every world reached from a new one by the operations of the tick thread, all three dimensions
  have their layers of blocks, every player is filed under its own entity id and every loaded chunk
  under its own position with the generated contents of some dimension, the garden's set of dimensions is the
  enabled one, and chunks, players and blocks are finitely many.
\<close>

theorem reachable_worlds_are_well_formed:
  assumes "world_step\<^sup>*\<^sup>* (with_garden g) w"
  shows "world_inv w"
  using assms by (induction rule: rtranclp_induct) (auto intro: world_inv_init world_inv_step)

theorem reachable_worlds_are_well_formed_witness:
  "world_inv (set_block Nether 1 70 (- 3) 5864 (load_chunk (chunk_pos_new 0 (- 1)) Nether world_new))"
  unfolding world_new_def
  by (rule reachable_worlds_are_well_formed [where g = "garden_from_size Tiny"])
    (rule rtranclp.rtrancl_into_rtrancl [OF r_into_rtranclp], (rule world_step.intros)+)

subsection \<open>What a client sees of a chunk\<close>

text \<open>One iteration order: by key.\<close>

definition sorted_entries :: "('k::linorder \<rightharpoonup> 'v) \<Rightarrow> ('k \<times> 'v) list" where
  "sorted_entries m = map (\<lambda>k. (k, the (m k))) (sorted_list_of_set (dom m))"

lemma iterates_sorted: "finite (dom m) \<Longrightarrow> iterates (sorted_entries m) m"
proof -
  assume fin: "finite (dom m)"
  have "map_of (map (\<lambda>k. (k, the (m k))) ks) k = (if k \<in> set ks then Some (the (m k)) else None)" for ks k
    by (induction ks) auto
  then have "map_of (sorted_entries m) = m"
    using fin by (intro ext) (auto simp: sorted_entries_def dom_def)
  moreover have "map fst (sorted_entries m) = sorted_list_of_set (dom m)"
    by (simp add: sorted_entries_def comp_def)
  ultimately show ?thesis by (simp add: iterates_def)
qed

lemma iterates_get: "iterates es m \<Longrightarrow> (k, v) \<in> set es \<longleftrightarrow> m k = Some v"
  by (auto simp: iterates_def)

lemma merge_in_chunk:
  assumes "distinct (map fst es)"
  shows "merge_in_chunk P es m p = (if P p \<and> map_of es p \<noteq> None then map_of es p else m p)"
  using assms
proof (induction es arbitrary: m)
  case Nil
  then show ?case by (simp add: merge_in_chunk_def)
next
  case (Cons e es)
  obtain q b where e: "e = (q, b)" by (cases e)
  have step: "merge_in_chunk P (e # es) m = merge_in_chunk P es (if P q then m(q \<mapsto> b) else m)"
    by (simp add: merge_in_chunk_def e)
  have "q \<in> fst ` set es \<longleftrightarrow> map_of es q \<noteq> None" by (simp add: map_of_eq_None_iff)
  with Cons.prems have "map_of es q = None" by (auto simp: e)
  with Cons.IH [of "if P q then m(q \<mapsto> b) else m"] Cons.prems show ?case
    unfolding step by (auto simp: e)
qed

locale iteration_order =
  fixes ord :: "('k \<rightharpoonup> 'v) \<Rightarrow> ('k \<times> 'v) list"
  assumes iterates: "finite (dom m) \<Longrightarrow> iterates (ord m) m"
begin

lemma distinct_ord: "finite (dom m) \<Longrightarrow> distinct (map fst (ord m))"
  and map_of_ord: "finite (dom m) \<Longrightarrow> map_of (ord m) = m"
  using iterates by (simp_all add: iterates_def)

end

interpretation sorted: iteration_order sorted_entries
  by unfold_locales (rule iterates_sorted)

definition client_deltas :: "world \<Rightarrow> dimension_id \<Rightarrow> i32 \<Rightarrow> i32 \<Rightarrow> block_map" where
  "client_deltas w d cx cz p = (if in_chunk_square cx cz p then (pack_for w d ++ block_overrides_for w d) p else None)"

lemma finite_layers:
  "world_inv w \<Longrightarrow> finite (dom (block_overrides_for w d))" "world_inv w \<Longrightarrow> finite (dom (pack_for w d))"
  by (auto simp: world_inv_def block_overrides_for_def pack_for_def split: option.splits)

lemma finite_client_deltas: "world_inv w \<Longrightarrow> finite (dom (client_deltas w d cx cz))"
  by (rule finite_subset [of _ "dom (pack_for w d ++ block_overrides_for w d)"])
    (auto simp: client_deltas_def finite_layers split: if_splits)

lemma deltas_iterate:
  assumes "iteration_order ord" "world_inv w"
  shows "iterates (get_client_block_deltas_for_chunk ord w d cx cz) (client_deltas w d cx cz)"
proof -
  note ord = iteration_order.distinct_ord [OF assms(1)] iteration_order.map_of_ord [OF assms(1)]
  have some: "w_pack_by_dim w d = Some (pack_for w d)" "w_overrides_by_dim w d = Some (block_overrides_for w d)"
    using assms(2) by (auto simp: world_inv_def pack_for_def block_overrides_for_def split: option.splits)
  note fin = finite_layers [OF assms(2), of d]
  have "merge_in_chunk P (ord (block_overrides_for w d)) (merge_in_chunk P (ord (pack_for w d)) Map.empty) p =
      (if P p then (pack_for w d ++ block_overrides_for w d) p else None)" for P p
    by (simp add: merge_in_chunk ord fin map_add_def split: option.splits)
  then have "merge_in_chunk (in_chunk_square cx cz) (ord (block_overrides_for w d))
      (merge_in_chunk (in_chunk_square cx cz) (ord (pack_for w d)) Map.empty) = client_deltas w d cx cz"
    by (intro ext) (simp add: client_deltas_def)
  then have "get_client_block_deltas_for_chunk ord w d cx cz = ord (client_deltas w d cx cz)"
    by (simp add: get_client_block_deltas_for_chunk_def some)
  with iteration_order.iterates [OF assms(1) finite_client_deltas [OF assms(2)]] show ?thesis by simp
qed

text \<open>
  C16: A client told of a chunk of the garden as generated, and then of the chunk's deltas, sees the
  server's world: the deltas list no block twice, and only blocks of the chunk, and each of the chunk's
  blocks inside the border is the delta for it, or else the generated block, in any order the hash
  map iterates.
\<close>

theorem client_view_of_chunk:
  fixes d :: dimension_id and cx cz :: i32
  assumes "iteration_order ord" "world_inv w"
  defines "deltas \<equiv> get_client_block_deltas_for_chunk ord w d cx cz"
  shows "distinct (map fst deltas) \<and> fst ` set deltas \<subseteq> Collect (in_chunk_square cx cz)
    \<and> (in_chunk_square cx cz (x, y, z) \<longrightarrow> contains_block (w_garden w) x z \<longrightarrow>
        over (map_of deltas) (\<lambda>(x, y, z). generated_flat_block d x y z) (x, y, z) = get_block w d x y z)"
proof (intro conjI impI)
  have it: "distinct (map fst deltas)" "map_of deltas = client_deltas w d cx cz"
    using deltas_iterate [OF assms(1,2), of d cx cz] by (simp_all add: iterates_def deltas_def)
  show "distinct (map fst deltas)" by (rule it(1))
  show "fst ` set deltas \<subseteq> Collect (in_chunk_square cx cz)"
    unfolding dom_map_of_conv_image_fst [symmetric] it(2) by (auto simp: client_deltas_def split: if_splits)
  assume "in_chunk_square cx cz (x, y, z)" "contains_block (w_garden w) x z"
  moreover have "get_block w d x y z = over (block_overrides_for w d) (base_block (w_garden w) (pack_for w d) d) (x, y, z)"
    using fun_cong [OF block_at_layers, of w d "(x, y, z)"] by (simp add: block_at_def)
  ultimately show "over (map_of deltas) (\<lambda>(x, y, z). generated_flat_block d x y z) (x, y, z) = get_block w d x y z"
    by (simp add: it(2) over_def client_deltas_def base_block_def map_add_def split: option.splits)
qed

theorem client_view_of_chunk_witness:
  "over (map_of (get_client_block_deltas_for_chunk sorted_entries (set_block Overworld 5 64 7 15 world_new) Overworld 0 0))
     (\<lambda>(x, y, z). generated_flat_block Overworld x y z) (5, 64, 7) = 15"
proof -
  have "world_inv (set_block Overworld 5 64 7 15 world_new)"
    unfolding world_new_def by (intro inv_set_block world_inv_init)
  note view = client_view_of_chunk [where ord = sorted_entries, OF sorted.iteration_order_axioms this,
      where d = Overworld and cx = 0 and cz = 0 and x = 5 and y = 64 and z = 7]
  have "in_chunk_square 0 0 (5, 64, 7)" by (simp add: in_chunk_square_def Let_def word_sle_eq)
  moreover have "contains_block (w_garden (set_block Overworld 5 64 7 15 world_new)) 5 7"
    by (simp add: garden_of_others world_new_def with_garden_def contains_block_def garden_from_size_def
        chunk_radius_def Let_def word_sle_eq)
  moreover have "get_block (set_block Overworld 5 64 7 15 world_new) Overworld 5 64 7 = 15"
    by (simp add: get_set_block)
  ultimately show ?thesis using view by simp
qed

text \<open>The square of a chunk of any garden, by the coordinates shifted right by four.\<close>

lemma in_chunk_square_shift:
  assumes "\<bar>sint cx\<bar> < 2 ^ 26" "\<bar>sint cz\<bar> < 2 ^ 26"
  shows "in_chunk_square cx cz (x, y, z) \<longleftrightarrow> signed_drop_bit 4 x = cx \<and> signed_drop_bit 4 z = cz"
proof -
  have one: "c * 16 \<le>s v \<and> v \<le>s c * 16 + 15 \<longleftrightarrow> signed_drop_bit 4 v = c" if "\<bar>sint c\<bar> < 2 ^ 26" for c v :: i32
  proof -
    have small: "sint (word_of_int k :: i32) = k" if "\<bar>k\<bar> < 2 ^ 31" for k
      using that by (simp add: sint_sbintrunc' signed_take_bit_int_eq_self)
    have lo: "sint (c * 16) = sint c * 16" "sint (c * 16 + 15) = sint c * 16 + 15"
      using small [of "sint c * 16"] small [of "sint c * 16 + 15"] that by simp_all
    have "signed_drop_bit 4 v = c \<longleftrightarrow> sint v div 16 = sint c"
      by (metis sint_chunk signed_word_eqI)
    moreover have "sint c * 16 \<le> sint v \<and> sint v \<le> sint c * 16 + 15 \<longleftrightarrow> sint v div 16 = sint c" by presburger
    ultimately show ?thesis by (simp add: word_sle_eq lo)
  qed
  show ?thesis using one [OF assms(1), of x] one [OF assms(2), of z] by (auto simp: in_chunk_square_def Let_def)
qed

subsection \<open>The chunks around a player\<close>

lemma sint_small: "\<bar>k\<bar> < 2 ^ 31 \<Longrightarrow> sint (word_of_int k :: i32) = k"
  by (simp add: sint_sbintrunc' signed_take_bit_int_eq_self)

lemma i32_range:
  shows "length (i32_range lo hi) = nat (sint hi - sint lo + 1)" and "distinct (i32_range lo hi)"
    and "set (i32_range lo hi) = {v. lo \<le>s v \<and> v \<le>s hi}"
proof -
  show "length (i32_range lo hi) = nat (sint hi - sint lo + 1)" by (simp add: i32_range_def)
  have b: "sint (word_of_int k :: i32) = k" if "k \<in> set [sint lo..sint hi]" for k
  proof (rule sint_sbintrunc' [THEN trans], rule signed_take_bit_int_eq_self)
    show "- (2 ^ (LENGTH(32) - 1)) \<le> k" using that sint_ge [of lo] by simp
    show "k < 2 ^ (LENGTH(32) - 1)" using that sint_lt [of hi] by simp
  qed
  show "distinct (i32_range lo hi)"
    unfolding i32_range_def distinct_map by (auto intro!: inj_onI dest: arg_cong [where f = sint] simp: b)
  have "v \<in> word_of_int ` {sint lo..sint hi}" if "lo \<le>s v" "v \<le>s hi" for v
    using that by (intro image_eqI [where x = "sint v"]) (auto simp: word_sle_eq)
  then show "set (i32_range lo hi) = {v. lo \<le>s v \<and> v \<le>s hi}"
    by (auto simp: i32_range_def word_sle_eq b)
qed

text \<open>
  The chunks a player wants are the square around it, each once: for a non-negative radius \<open>desired_chunks\<close>
  has \<open>(2r + 1)\<^sup>2\<close> entries, all different, and a chunk is among them exactly when both offsets from
  the centre, read as signed numbers, are within the radius; for a negative radius there are none.
\<close>

theorem desired_chunks_square:
  assumes "r \<noteq> 0x80000000"
  shows "distinct (desired_chunks cx cz r)
    \<and> length (desired_chunks cx cz r) = (if sint r < 0 then 0 else nat (2 * sint r + 1) ^ 2)
    \<and> set (desired_chunks cx cz r) = {p. \<bar>sint (cp_x p - cx)\<bar> \<le> sint r \<and> \<bar>sint (cp_z p - cz)\<bar> \<le> sint r}"
proof -
  have neg: "sint (- r) = - sint r"
  proof -
    have "sint r \<noteq> - (2 ^ 31)"
    proof
      assume "sint r = - (2 ^ 31)"
      then have "sint r = sint (0x80000000 :: i32)" by simp
      then have "r = 0x80000000" by (rule signed_word_eqI)
      with assms show False ..
    qed
    with sint_ge [of r] sint_lt [of r] have "\<bar>- sint r\<bar> < 2 ^ 31" by simp
    from sint_small [OF this] show ?thesis by simp
  qed
  let ?I = "i32_range (- r) r"
  have pairs: "desired_chunks cx cz r = map (\<lambda>(dx, dz). chunk_pos_new (cx + dx) (cz + dz)) (List.product ?I ?I)"
    by (simp add: desired_chunks_def product_concat_map map_concat comp_def)
  have "inj_on (\<lambda>(dx, dz). chunk_pos_new (cx + dx) (cz + dz)) (set (List.product ?I ?I))"
    by (rule inj_onI) (auto simp: chunk_pos_new_def)
  then have "distinct (desired_chunks cx cz r)"
    unfolding pairs distinct_map using i32_range(2) by (simp add: distinct_product)
  moreover have "length (desired_chunks cx cz r) = (if sint r < 0 then 0 else nat (2 * sint r + 1) ^ 2)"
    by (simp add: pairs i32_range(1) neg power2_eq_square)
  moreover have "set ?I = {v. \<bar>sint v\<bar> \<le> sint r}"
    by (auto simp: i32_range(3) word_sle_eq neg)
  then have "set (desired_chunks cx cz r) = (\<lambda>(dx, dz). chunk_pos_new (cx + dx) (cz + dz)) `
      ({v. \<bar>sint v\<bar> \<le> sint r} \<times> {v. \<bar>sint v\<bar> \<le> sint r})"
    by (simp add: pairs)
  then have "set (desired_chunks cx cz r) = {p. \<bar>sint (cp_x p - cx)\<bar> \<le> sint r \<and> \<bar>sint (cp_z p - cz)\<bar> \<le> sint r}"
    by (auto simp: chunk_pos_new_def intro!: image_eqI [where x = "(cp_x p - cx, cp_z p - cz)" for p])
  ultimately show ?thesis by simp
qed

theorem desired_chunks_square_witness:
  "length (desired_chunks 0x7FFFFFFF 0 2) = 25"
  using desired_chunks_square [where r = 2 and cx = "0x7FFFFFFF" and cz = 0] by simp

end
