(* ===== verification/Mutation.thy ===== *)
theory Mutation
  imports World
begin

section \<open>The facade for world mutations (\<open>mutation.rs\<close>)\<close>

text \<open>
  A \<open>WorldFacade\<close> holds the sending end of the tick loop's channel. Its state here is the list of
  messages sent so far; whether the loop still listens makes no difference to the sender, which drops
  the result of a send. Only \<open>SetBlock\<close> messages are sent.
\<close>

record set_block_message =
  sb_entity_id :: "i32 option"
  sb_position :: block_pos
  sb_block_state :: i32

type_synonym world_facade = "set_block_message list"

definition world_facade_new :: "set_block_message list \<Rightarrow> world_facade" where
  "world_facade_new sender = sender"

definition facade_set_block :: "i32 \<Rightarrow> i32 \<Rightarrow> i32 \<Rightarrow> i32 \<Rightarrow> world_facade \<Rightarrow> world_facade" where
  "facade_set_block x y z block_state sender =
    sender @ [\<lparr>sb_entity_id = None, sb_position = (x, y, z), sb_block_state = block_state\<rparr>]"

definition signed_min :: "i32 \<Rightarrow> i32 \<Rightarrow> i32" where "signed_min a b = (if a \<le>s b then a else b)"
definition signed_max :: "i32 \<Rightarrow> i32 \<Rightarrow> i32" where "signed_max a b = (if a \<le>s b then b else a)"

definition fill_block :: "i32 \<Rightarrow> i32 \<Rightarrow> i32 \<Rightarrow> i32 \<Rightarrow> i32 \<Rightarrow> i32 \<Rightarrow> i32 \<Rightarrow> world_facade \<Rightarrow> world_facade" where
  "fill_block x1 y1 z1 x2 y2 z2 block_state sender =
    (let x_min = signed_min x1 x2; x_max = signed_max x1 x2; y_min = signed_min y1 y2; y_max = signed_max y1 y2;
         z_min = signed_min z1 z2; z_max = signed_max z1 z2 in
     fold (\<lambda>y s. fold (\<lambda>z s. fold (\<lambda>x s. facade_set_block x y z block_state s) (i32_range x_min x_max) s)
        (i32_range z_min z_max) s) (i32_range y_min y_max) sender)"

definition set_column :: "i32 \<Rightarrow> i32 \<Rightarrow> i32 \<Rightarrow> i32 \<Rightarrow> i32 \<Rightarrow> world_facade \<Rightarrow> world_facade" where
  "set_column x y_min y_max z block_state sender =
    fold (\<lambda>y s. facade_set_block x y z block_state s) (i32_range y_min y_max) sender"

subsection \<open>What the tick loop then does to the blocks\<close>

definition sent_block :: "i32 \<Rightarrow> block_pos \<Rightarrow> set_block_message" where
  "sent_block b p = \<lparr>sb_entity_id = None, sb_position = p, sb_block_state = b\<rparr>"

definition box_positions :: "i32 \<Rightarrow> i32 \<Rightarrow> i32 \<Rightarrow> i32 \<Rightarrow> i32 \<Rightarrow> i32 \<Rightarrow> block_pos list" where
  "box_positions x1 y1 z1 x2 y2 z2 =
    concat (map (\<lambda>y. concat (map (\<lambda>z. map (\<lambda>x. (x, y, z)) (i32_range (signed_min x1 x2) (signed_max x1 x2)))
      (i32_range (signed_min z1 z2) (signed_max z1 z2)))) (i32_range (signed_min y1 y2) (signed_max y1 y2)))"

lemma fold_append: "(\<And>x s. f x s = s @ g x) \<Longrightarrow> fold f xs s = s @ concat (map g xs)"
  by (induction xs arbitrary: s) simp_all

lemma fill_block_sends:
  "fill_block x1 y1 z1 x2 y2 z2 b sender = sender @ map (sent_block b) (box_positions x1 y1 z1 x2 y2 z2)"
proof -
  have row: "fold (\<lambda>x s. facade_set_block x y z b s) xs s = s @ map (\<lambda>x. sent_block b (x, y, z)) xs" for xs y z s
    by (subst fold_append [where g = "\<lambda>x. [sent_block b (x, y, z)]"])
      (simp_all add: facade_set_block_def sent_block_def)
  show ?thesis
    unfolding fill_block_def Let_def row
    by (subst fold_append, rule fold_append, rule refl)
      (simp add: box_positions_def map_concat comp_def)
qed

text \<open>The messages of a facade, one after the other, on the blocks of the overworld.\<close>

definition apply_messages :: "set_block_message list \<Rightarrow> world \<Rightarrow> world" where
  "apply_messages ms w = fold (\<lambda>m. put_block Overworld (sb_position m) (sb_block_state m)) ms w"

lemma apply_sent: "apply_messages (map (sent_block b) ps) w = fold (\<lambda>p. put_block Overworld p b) ps w"
  by (simp add: apply_messages_def fold_map comp_def sent_block_def)

text \<open>
  Filling a box sends one message per block of it, whatever corners it is given by; when the
  messages are applied in order, every block of the box has the state and no other block of any
  dimension has changed.
\<close>

theorem fill_block_fills_the_box:
  assumes "ms = drop (length sent) (fill_block x1 y1 z1 x2 y2 z2 b sent)"
  shows "distinct (map sb_position ms)
    \<and> block_at (apply_messages ms w) d (x, y, z) =
      (if d = Overworld \<and> signed_min x1 x2 \<le>s x \<and> x \<le>s signed_max x1 x2 \<and> signed_min y1 y2 \<le>s y \<and> y \<le>s signed_max y1 y2
          \<and> signed_min z1 z2 \<le>s z \<and> z \<le>s signed_max z1 z2
       then b else block_at w d (x, y, z))"
proof -
  let ?ps = "box_positions x1 y1 z1 x2 y2 z2"
  have ms: "ms = map (sent_block b) ?ps" using assms by (simp add: fill_block_sends)
  have "?ps = map (\<lambda>(y, z, x). (x, y, z)) (List.product (i32_range (signed_min y1 y2) (signed_max y1 y2))
      (List.product (i32_range (signed_min z1 z2) (signed_max z1 z2)) (i32_range (signed_min x1 x2) (signed_max x1 x2))))"
    by (simp add: box_positions_def product_concat_map map_concat comp_def)
  then have "distinct ?ps"
    by (simp add: distinct_map distinct_product i32_range(2) inj_on_def)
  then have "distinct (map sb_position ms)" by (simp add: ms sent_block_def comp_def)
  moreover have "(x, y, z) \<in> set ?ps \<longleftrightarrow> signed_min x1 x2 \<le>s x \<and> x \<le>s signed_max x1 x2 \<and> signed_min y1 y2 \<le>s y
      \<and> y \<le>s signed_max y1 y2 \<and> signed_min z1 z2 \<le>s z \<and> z \<le>s signed_max z1 z2"
    by (auto simp: box_positions_def i32_range(3))
  ultimately show ?thesis by (simp add: ms apply_sent blocks.put_all)
qed

theorem fill_block_fills_the_box_witness:
  "block_at (apply_messages (drop 0 (fill_block 10 64 0 8 60 0 5 [])) world_new) Overworld (9, 62, 0) = 5"
  using fill_block_fills_the_box [where sent = "[]" and ?x1.0 = 10 and ?y1.0 = 64 and ?z1.0 = 0 and ?x2.0 = 8 and ?y2.0 = 60
      and ?z2.0 = 0 and b = 5 and w = world_new and d = Overworld and x = 9 and y = 62 and z = 0]
  by (simp add: signed_min_def signed_max_def word_sle_eq)

end
