(* ===== verification/Session_Events.thy ===== *)
theory Session_Events
  imports World
begin

section \<open>What the tick loop tells a session (\<open>session.rs\<close>)\<close>

text \<open>
  The events the tick thread sends to the thread of a connection. A sender of Rust's
  \<open>mpsc\<close> is the number of its channel; a channel is the list of what was sent on it, whether or not
  the session still listens, since the loop drops the result of every send.
\<close>

type_synonym channel = nat

record entity_movement =
  em_entity_id :: i32
  em_old_x :: f64bits
  em_old_y :: f64bits
  em_old_z :: f64bits
  em_new_x :: f64bits
  em_new_y :: f64bits
  em_new_z :: f64bits
  em_new_yaw :: f32bits
  em_new_pitch :: f32bits
  em_on_ground :: bool

record respawn_player =
  rsp_dimension_type :: rstring
  rsp_dimension_name :: rstring
  rsp_hashed_seed :: i64
  rsp_gamemode :: u8
  rsp_previous_gamemode :: i8
  rsp_is_debug :: bool
  rsp_is_flat :: bool
  rsp_has_death_location :: bool
  rsp_death_dimension_name :: rstring
  rsp_death_location :: block_pos
  rsp_portal_cooldown :: i32
  rsp_data_kept :: u8
  rsp_x :: f64bits
  rsp_y :: f64bits
  rsp_z :: f64bits
  rsp_defer_position_sync :: bool

record spawn_mob =
  spm_entity_id :: i32
  spm_uuid :: uuid
  spm_entity_type :: i32
  spm_x :: f64bits
  spm_y :: f64bits
  spm_z :: f64bits
  spm_yaw :: f32bits
  spm_pitch :: f32bits

text \<open>The constructors have the names of the source with the suffix \<open>_ev\<close>; their arguments are its fields, in order.\<close>

datatype session_event =
    KeepAlive_ev i64
  | PlayerJoined_ev i32 uuid rstring u8 f64bits f64bits f64bits
  | PlayerLeft_ev i32 uuid
  | BlockUpdate_ev block_pos i32
  | ChunkBlockOverrides_ev "(block_pos \<times> i32) list"
  | EntityMovement_ev entity_movement
  | SetCenterChunk_ev i32 i32
  | LoadChunk_ev i32 i32
  | UnloadChunk_ev i32 i32
  | CombatDeath_ev i32 rstring
  | SetBlockDestroyStage_ev i32 block_pos i8
  | SetContainerContent_ev u8 i32 "slot list" slot
  | SetContainerSlot_ev i8 i32 i16 slot
  | OpenScreen_ev i32 i32 rstring
  | CloseContainer_ev u8
  | SetHeldItemClientbound_ev u8
  | SystemChat_ev rstring
  | SetHealth_ev f32bits i32 f32bits
  | RespawnPlayer_ev respawn_player
  | SynchronizePosition_ev f64bits f64bits f64bits
  | SpawnMob_ev spawn_mob
  | RemoveEntities_ev "i32 list"

text \<open>What a log of sends holds for one channel.\<close>

definition sent_on :: "channel \<Rightarrow> (channel \<times> session_event) list \<Rightarrow> session_event list" where
  "sent_on ch sent = map snd (filter (\<lambda>e. fst e = ch) sent)"

lemma sent_on_append [simp]: "sent_on ch (xs @ ys) = sent_on ch xs @ sent_on ch ys"
  and sent_on_Nil [simp]: "sent_on ch [] = []"
  and sent_on_Cons [simp]: "sent_on ch ((c, e) # xs) = (if c = ch then [e] else []) @ sent_on ch xs"
  and sent_on_map [simp]: "sent_on ch (map (Pair c) es) = (if c = ch then es else [])"
  by (simp_all add: sent_on_def comp_def)

end
