(* ===== verification/Player_State.thy ===== *)
theory Player_State
  imports Session_Events
begin

section \<open>The state the tick loop keeps for a player (\<open>tick.rs\<close>)\<close>

text \<open>
  The inventory with the vitals, the progress of breaking a block, and the chunks the client has
  loaded. The iteration order of a set of chunks is a parameter \<open>cord\<close>.
\<close>

definition TPS :: u64 where "TPS = 20"
definition TICK_DURATION_MILLIS :: u64 where "TICK_DURATION_MILLIS = 1000 div TPS"
definition KEEP_ALIVE_INTERVAL_TICKS :: u64 where "KEEP_ALIVE_INTERVAL_TICKS = 300"
definition INITIAL_CHUNK_RADIUS :: i32 where "INITIAL_CHUNK_RADIUS = 2"
definition PLAYER_INVENTORY_SIZE :: nat where "PLAYER_INVENTORY_SIZE = 46"
definition DEFAULT_HEALTH :: f32bits where "DEFAULT_HEALTH = f32_lit 20 1"
definition DEFAULT_FOOD :: i32 where "DEFAULT_FOOD = 20"
definition DEFAULT_FOOD_SATURATION :: f32bits where "DEFAULT_FOOD_SATURATION = f32_lit 5 1"
definition VOID_DEATH_Y :: f64bits where "VOID_DEATH_Y = f64_minus (f64_lit 64 1)"
definition FOOD_DRAIN_INTERVAL_TICKS :: u64 where "FOOD_DRAIN_INTERVAL_TICKS = 80"
definition STARVATION_DAMAGE :: f32bits where "STARVATION_DAMAGE = f32_lit 1 1"
definition GAMEMODE_CREATIVE :: u8 where "GAMEMODE_CREATIVE = 1"
definition GAMEMODE_SPECTATOR :: u8 where "GAMEMODE_SPECTATOR = 3"
definition DEFAULT_BLOCK_HARDNESS_TICKS :: u64 where "DEFAULT_BLOCK_HARDNESS_TICKS = 30"
definition MAX_DESTROY_STAGE :: i8 where "MAX_DESTROY_STAGE = 9"

subsection \<open>Inventory and vitals\<close>

record player_inventory =
  inv_slots :: "slot list"
  inv_held_slot :: u8
  inv_state_id :: i32
  inv_health :: f32bits
  inv_food :: i32
  inv_food_saturation :: f32bits
  inv_is_dead :: bool

definition inventory_new :: player_inventory where
  "inventory_new = \<lparr>inv_slots = replicate PLAYER_INVENTORY_SIZE slot_empty, inv_held_slot = 0, inv_state_id = 0,
    inv_health = DEFAULT_HEALTH, inv_food = DEFAULT_FOOD, inv_food_saturation = DEFAULT_FOOD_SATURATION, inv_is_dead = False\<rparr>"

definition creative_starter :: player_inventory where
  "creative_starter =
    fold (\<lambda>(i, item_id, count) inven. inven\<lparr>inv_slots := (inv_slots inven)[i := slot_item item_id count]\<rparr>)
      (enumerate 0 [(1, 64), (10, 64), (8, 64), (11, 64), (7, 64)]) inventory_new"

definition set_slot :: "nat \<Rightarrow> slot \<Rightarrow> player_inventory \<Rightarrow> bool \<times> player_inventory" where
  "set_slot index item inven =
    (if index \<ge> length (inv_slots inven) then (False, inven)
     else if inv_slots inven ! index \<noteq> item
       then (True, inven\<lparr>inv_slots := (inv_slots inven)[index := item], inv_state_id := inv_state_id inven + 1\<rparr>)
     else (False, inven))"

definition set_held_slot :: "i16 \<Rightarrow> player_inventory \<Rightarrow> bool \<times> player_inventory" where
  "set_held_slot slot inven =
    (if \<not> (0 \<le>s slot \<and> slot \<le>s 8) then (False, inven)
     else let new_slot = ucast slot in
       if inv_held_slot inven \<noteq> new_slot then (True, inven\<lparr>inv_held_slot := new_slot\<rparr>) else (False, inven))"

definition kill :: "player_inventory \<Rightarrow> player_inventory" where
  "kill inven = inven\<lparr>inv_health := 0, inv_is_dead := True\<rparr>"

definition inv_respawn :: "player_inventory \<Rightarrow> player_inventory" where
  "inv_respawn inven = inven\<lparr>inv_health := DEFAULT_HEALTH, inv_food := DEFAULT_FOOD,
    inv_food_saturation := DEFAULT_FOOD_SATURATION, inv_is_dead := False\<rparr>"

definition drain_food :: "player_inventory \<Rightarrow> bool \<times> player_inventory" where
  "drain_food inven =
    (if f32_lt 0 (inv_food_saturation inven)
     then (True, inven\<lparr>inv_food_saturation := f32_max (f32_sub (inv_food_saturation inven) (f32_lit 1 1)) 0\<rparr>)
     else if 0 <s inv_food inven then (True, inven\<lparr>inv_food := inv_food inven - 1\<rparr>)
     else (False, inven))"

definition starve :: "player_inventory \<Rightarrow> bool \<times> player_inventory" where
  "starve inven =
    (if inv_food inven = 0 \<and> \<not> inv_is_dead inven then
       let inven = inven\<lparr>inv_health := f32_max (f32_sub (inv_health inven) STARVATION_DAMAGE) 0\<rparr>
       in (True, if f32_le (inv_health inven) 0 then inven\<lparr>inv_is_dead := True\<rparr> else inven)
     else (False, inven))"

subsection \<open>Breaking a block\<close>

record block_break_progress =
  bbp_position :: block_pos
  bbp_ticks_elapsed :: u64
  bbp_total_ticks :: u64
  bbp_last_stage :: i8

subsection \<open>The chunks a client has\<close>

record player_chunk_state =
  pcs_center_x :: i32
  pcs_center_z :: i32
  pcs_view_distance :: i32
  pcs_loaded_chunks :: "chunk_pos set"
  pcs_garden_chunk_radius :: i32

definition i32_min :: "i32 \<Rightarrow> i32 \<Rightarrow> i32" where "i32_min a b = (if b <s a then b else a)"
definition i32_max_of :: "i32 \<Rightarrow> i32 \<Rightarrow> i32" where "i32_max_of a b = (if b <s a then a else b)"

definition i32_clamp :: "i32 \<Rightarrow> i32 \<Rightarrow> i32 \<Rightarrow> i32" where
  "i32_clamp lo hi v = (if v <s lo then lo else if hi <s v then hi else v)"

definition in_garden_radius :: "i32 \<Rightarrow> chunk_pos \<Rightarrow> bool" where
  "in_garden_radius r pos \<longleftrightarrow> - r \<le>s cp_x pos \<and> cp_x pos \<le>s r \<and> - r \<le>s cp_z pos \<and> cp_z pos \<le>s r"

definition chunk_state_new :: "i32 \<Rightarrow> i32 \<Rightarrow> player_chunk_state" where
  "chunk_state_new server_view_distance garden_chunk_radius =
    \<lparr>pcs_center_x = 0, pcs_center_z = 0,
     pcs_view_distance = i32_min (i32_clamp 0 INITIAL_CHUNK_RADIUS server_view_distance) garden_chunk_radius,
     pcs_loaded_chunks = set (filter (in_garden_radius garden_chunk_radius)
       (desired_chunks 0 0 (i32_min INITIAL_CHUNK_RADIUS garden_chunk_radius))),
     pcs_garden_chunk_radius = garden_chunk_radius\<rparr>"

definition desired_chunk_set :: "player_chunk_state \<Rightarrow> chunk_pos set" where
  "desired_chunk_set cs =
    (let r = pcs_garden_chunk_radius cs in
     set (filter (in_garden_radius r) (desired_chunks (pcs_center_x cs) (pcs_center_z cs) (pcs_view_distance cs))))"

text \<open>The part the two updates share: what to load and unload to go from the loaded to the desired chunks.\<close>

definition retarget_chunks ::
  "(chunk_pos set \<Rightarrow> chunk_pos list) \<Rightarrow> player_chunk_state \<Rightarrow> chunk_pos list \<times> chunk_pos list \<times> player_chunk_state" where
  "retarget_chunks cord cs =
    (let desired = desired_chunk_set cs;
         new_chunks = filter (\<lambda>pos. pos \<notin> pcs_loaded_chunks cs) (cord desired);
         unloaded_chunks = filter (\<lambda>pos. pos \<notin> desired) (cord (pcs_loaded_chunks cs))
     in (new_chunks, unloaded_chunks, cs\<lparr>pcs_loaded_chunks := desired\<rparr>))"

definition update_center ::
  "(chunk_pos set \<Rightarrow> chunk_pos list) \<Rightarrow> i32 \<Rightarrow> i32 \<Rightarrow> player_chunk_state \<Rightarrow>
    (bool \<times> chunk_pos list \<times> chunk_pos list) \<times> player_chunk_state" where
  "update_center cord new_cx new_cz cs =
    (if pcs_center_x cs = new_cx \<and> pcs_center_z cs = new_cz then ((False, [], []), cs)
     else let (new_chunks, unloaded_chunks, cs) = retarget_chunks cord (cs\<lparr>pcs_center_x := new_cx, pcs_center_z := new_cz\<rparr>)
       in ((True, new_chunks, unloaded_chunks), cs))"

definition update_view_distance ::
  "(chunk_pos set \<Rightarrow> chunk_pos list) \<Rightarrow> i32 \<Rightarrow> player_chunk_state \<Rightarrow>
    (chunk_pos list \<times> chunk_pos list) \<times> player_chunk_state" where
  "update_view_distance cord new_vd cs =
    (let new_vd = i32_min (i32_max_of new_vd 0) (pcs_garden_chunk_radius cs) in
     if pcs_view_distance cs = new_vd then (([], []), cs)
     else let (new_chunks, unloaded_chunks, cs) = retarget_chunks cord (cs\<lparr>pcs_view_distance := new_vd\<rparr>)
       in ((new_chunks, unloaded_chunks), cs))"

definition chunk_x_from_world :: "f64bits \<Rightarrow> i32" where
  "chunk_x_from_world x = signed_drop_bit 4 (floor_i32 x)"

definition chunk_z_from_world :: "f64bits \<Rightarrow> i32" where
  "chunk_z_from_world z = signed_drop_bit 4 (floor_i32 z)"

subsection \<open>Sets of chunks in any order\<close>

text \<open>What the tracking relies on from an order: each chunk of a finite set once.\<close>

locale chunk_order =
  fixes cord :: "chunk_pos set \<Rightarrow> chunk_pos list"
  assumes cord: "finite S \<Longrightarrow> set (cord S) = S \<and> distinct (cord S)"
begin

lemma set_cord: "finite S \<Longrightarrow> set (cord S) = S"
  and distinct_cord: "finite S \<Longrightarrow> distinct (cord S)"
  using cord by blast+

text \<open>
  A change of the loaded chunks is told exactly: the client that loads the new ones and unloads the old ones
  has the desired set, nothing is loaded twice, and only loaded chunks are unloaded.
\<close>

lemma retarget_exact:
  assumes "finite (pcs_loaded_chunks cs)" "retarget_chunks cord cs = (new, gone, cs')"
  shows "pcs_loaded_chunks cs' = (pcs_loaded_chunks cs \<union> set new) - set gone"
    "set new \<inter> pcs_loaded_chunks cs = {}" "set gone \<subseteq> pcs_loaded_chunks cs" "set new \<inter> set gone = {}"
    "distinct new" "distinct gone" "pcs_loaded_chunks cs' = desired_chunk_set cs" "finite (pcs_loaded_chunks cs')"
  using assms set_cord [OF assms(1)] distinct_cord [OF assms(1)] set_cord [of "desired_chunk_set cs"]
    distinct_cord [of "desired_chunk_set cs"]
  by (auto simp: retarget_chunks_def Let_def desired_chunk_set_def)

end

text \<open>One order: by the coordinates.\<close>

definition chunk_key :: "chunk_pos \<Rightarrow> i32 \<times> i32" where
  "chunk_key p = (cp_x p, cp_z p)"

definition sorted_chunks :: "chunk_pos set \<Rightarrow> chunk_pos list" where
  "sorted_chunks S = map (\<lambda>(x, z). chunk_pos_new x z) (sorted_list_of_set (chunk_key ` S))"

interpretation by_key: chunk_order sorted_chunks
proof
  fix S :: "chunk_pos set" assume S: "finite S"
  have key: "(\<lambda>(x, z). chunk_pos_new x z) (chunk_key p) = p" for p
    by (simp add: chunk_key_def chunk_pos_new_def)
  have "inj_on (\<lambda>(x, z). chunk_pos_new x z) A" for A
    by (rule inj_onI) (auto simp: chunk_pos_new_def)
  then show "set (sorted_chunks S) = S \<and> distinct (sorted_chunks S)"
    using S by (simp add: sorted_chunks_def distinct_map image_image key [simplified])
qed

subsection \<open>Lemmas\<close>

lemma inventory_sizes:
  "length (inv_slots inventory_new) = 46" "length (inv_slots creative_starter) = 46"
  by (simp_all add: creative_starter_def inventory_new_def PLAYER_INVENTORY_SIZE_def)

lemma set_slot_length: "length (inv_slots (snd (set_slot i item inven))) = length (inv_slots inven)"
  by (simp add: set_slot_def)

text \<open>The desired chunks lie in the garden and within the view distance of the centre.\<close>

lemma desired_in_garden: "p \<in> desired_chunk_set cs \<Longrightarrow> in_garden_radius (pcs_garden_chunk_radius cs) p"
  by (simp add: desired_chunk_set_def Let_def)

lemma finite_desired [simp]: "finite (desired_chunk_set cs)"
  by (simp add: desired_chunk_set_def Let_def)

end
