(* ===== verification/Text_Trim.thy ===== *)
theory Text_Trim
  imports Bytes
begin

section \<open>Trimming of text\<close>

text \<open>\<open>str::trim\<close> and \<open>strip_prefix\<close>, for the commands and settings the source reads.\<close>

text \<open>The UTF-8 encodings of the characters with the Unicode property \<open>White_Space\<close>.\<close>

definition white_space :: "bytes list" where
  "white_space = map (\<lambda>b. [b]) [9, 10, 11, 12, 13, 32] @ [[0xC2, 0x85], [0xC2, 0xA0], [0xE1, 0x9A, 0x80]]
    @ map (\<lambda>k. [0xE2, 0x80, k]) [0x80, 0x81, 0x82, 0x83, 0x84, 0x85, 0x86, 0x87, 0x88, 0x89, 0x8A, 0xA8, 0xA9, 0xAF]
    @ [[0xE2, 0x81, 0x9F], [0xE3, 0x80, 0x80]]"

definition strip_prefix :: "bytes \<Rightarrow> rstring \<Rightarrow> rstring option" where
  "strip_prefix p s = (if take (length p) s = p then Some (drop (length p) s) else None)"

lemma white_space_nonempty: "w \<in> set white_space \<Longrightarrow> w \<noteq> []"
  by (auto simp: white_space_def)

lemma strip_prefix_shorter: "strip_prefix p s = Some r \<Longrightarrow> p \<noteq> [] \<Longrightarrow> length r < length s"
  by (cases s) (auto simp: strip_prefix_def split: if_splits)

text \<open>Strip the words of a list from the front for as long as one is there.\<close>

function strip_while :: "bytes list \<Rightarrow> rstring \<Rightarrow> rstring" where
  "strip_while ws s =
    (case find (\<lambda>w. w \<noteq> [] \<and> strip_prefix w s \<noteq> None) ws of
       None \<Rightarrow> s
     | Some w \<Rightarrow> strip_while ws (drop (length w) s))"
  by pat_completeness auto
termination
  by (relation "measure (\<lambda>(_, s). length s)")
    (auto simp: find_Some_iff strip_prefix_def split: if_splits intro: diff_less)

declare strip_while.simps [simp del]

definition trim_start :: "rstring \<Rightarrow> rstring" where
  "trim_start s = strip_while white_space s"

definition trim_end :: "rstring \<Rightarrow> rstring" where
  "trim_end s = rev (strip_while (map rev white_space) (rev s))"

definition trim :: "rstring \<Rightarrow> rstring" where
  "trim s = trim_end (trim_start s)"

text \<open>Trimmed text neither starts nor ends with white space.\<close>

lemma strip_while_stops: "find (\<lambda>w. w \<noteq> [] \<and> strip_prefix w (strip_while ws s) \<noteq> None) ws = None"
proof (induction ws s rule: strip_while.induct)
  case (1 ws s)
  show ?case
  proof (cases "find (\<lambda>w. w \<noteq> [] \<and> strip_prefix w s \<noteq> None) ws")
    case None
    then show ?thesis by (simp add: strip_while.simps [of ws s])
  next
    case (Some w)
    with 1 [OF Some] show ?thesis by (simp add: strip_while.simps [of ws s])
  qed
qed

lemma strip_while_id: "find (\<lambda>w. w \<noteq> [] \<and> strip_prefix w s \<noteq> None) ws = None \<Longrightarrow> strip_while ws s = s"
  by (simp add: strip_while.simps [of ws s])

end
