(* ===== verification/Dimension.thy ===== *)
theory Dimension
  imports World Text_Trim
begin

section \<open>Travel between dimensions (\<open>dimension.rs\<close>)\<close>

text \<open>Portal pads, the place of arrival and the \<open>/dim\<close> command.\<close>

definition PORTAL_GLOWSTONE :: i32 where "PORTAL_GLOWSTONE = GLOWSTONE_BLOCK_STATE"
definition PORTAL_END_STONE :: i32 where "PORTAL_END_STONE = END_STONE_BLOCK_STATE"
definition PORTAL_COOLDOWN_TICKS :: u64 where "PORTAL_COOLDOWN_TICKS = 40"
definition DIMENSION_ARRIVAL_Y :: f64bits where "DIMENSION_ARRIVAL_Y = f64_lit 65 1"

definition portal_destination :: "dimension_id \<Rightarrow> i32 \<Rightarrow> dimension_id option" where
  "portal_destination current block_under_feet =
    (case current of
       Overworld \<Rightarrow> if block_under_feet = PORTAL_GLOWSTONE then Some Nether
         else if block_under_feet = PORTAL_END_STONE then Some TheEnd else None
     | Nether \<Rightarrow> if block_under_feet = PORTAL_GLOWSTONE then Some Overworld else None
     | TheEnd \<Rightarrow> if block_under_feet = PORTAL_GLOWSTONE then Some Overworld else None)"

definition arrival_position :: "world \<Rightarrow> f64bits \<times> f64bits \<times> f64bits" where
  "arrival_position w = (let (x, _, z) = spawn_point w in (x, DIMENSION_ARRIVAL_Y, z))"

definition block_under_feet :: "world \<Rightarrow> dimension_id \<Rightarrow> f64bits \<Rightarrow> f64bits \<Rightarrow> f64bits \<Rightarrow> i32" where
  "block_under_feet w d x y z =
    (let bx = floor_i32 x; by = floor_i32 (f64_sub y (f64_lit 5 100)); bz = floor_i32 z in get_block w d bx by bz)"

definition parse_dim_command :: "rstring \<Rightarrow> dimension_id option" where
  "parse_dim_command message =
    (let trimmed = trim message in
     case strip_prefix (ascii ''/dim '') trimmed of None \<Rightarrow> None | Some rest \<Rightarrow> dimension_parse (trim rest))"

lemmas portal_blocks = PORTAL_GLOWSTONE_def PORTAL_END_STONE_def GLOWSTONE_BLOCK_STATE_def END_STONE_BLOCK_STATE_def

text \<open>
  A portal leads to another dimension, and there is a pad there that leads back; the plateau a
  player arrives on is never itself a portal of its dimension, so nobody bounces between dimensions.
\<close>

theorem portals_lead_back:
  "(case portal_destination d b of None \<Rightarrow> True
    | Some e \<Rightarrow> e \<noteq> d \<and> (\<exists>pad. portal_destination e pad = Some d))
   \<and> portal_destination d (plateau_block_for d) = None"
proof
  have pads: "\<exists>pad. portal_destination Nether pad = Some Overworld" "\<exists>pad. portal_destination TheEnd pad = Some Overworld"
    "\<exists>pad. portal_destination Overworld pad = Some Nether" "\<exists>pad. portal_destination Overworld pad = Some TheEnd"
    by (rule exI [where x = PORTAL_GLOWSTONE], simp add: portal_destination_def)
      (rule exI [where x = PORTAL_GLOWSTONE], simp add: portal_destination_def,
       rule exI [where x = PORTAL_GLOWSTONE], simp add: portal_destination_def,
       rule exI [where x = PORTAL_END_STONE], simp add: portal_destination_def portal_blocks)
  show "case portal_destination d b of None \<Rightarrow> True
    | Some e \<Rightarrow> e \<noteq> d \<and> (\<exists>pad. portal_destination e pad = Some d)"
    using pads by (cases d) (auto simp: portal_destination_def split: option.splits if_splits)
  show "portal_destination d (plateau_block_for d) = None"
    by (cases d) (simp_all add: portal_destination_def portal_blocks plateau_block_for_def chunk_consts)
qed

lemma dim_command: "parse_dim_command (ascii '' /dim  nether '') = Some Nether"
  by code_simp

end
