(* ===== verification/Fluid.thy ===== *)
theory Fluid
  imports World
begin

section \<open>Static fluids (\<open>fluid.rs\<close>)\<close>

text \<open>Which block states are water and lava, and the fluid a player is in.\<close>

definition WATER_BLOCK_STATE :: i32 where "WATER_BLOCK_STATE = 80"
definition LAVA_BLOCK_STATE :: i32 where "LAVA_BLOCK_STATE = 96"
definition WATER_STATE_MAX :: i32 where "WATER_STATE_MAX = 95"
definition LAVA_STATE_MAX :: i32 where "LAVA_STATE_MAX = 111"
definition LAVA_DAMAGE_INTERVAL_TICKS :: u64 where "LAVA_DAMAGE_INTERVAL_TICKS = 10"
definition LAVA_DAMAGE :: f32bits where "LAVA_DAMAGE = f32_lit 4 1"

definition is_water :: "i32 \<Rightarrow> bool" where
  "is_water block_state \<longleftrightarrow> WATER_BLOCK_STATE \<le>s block_state \<and> block_state \<le>s WATER_STATE_MAX"

definition is_lava :: "i32 \<Rightarrow> bool" where
  "is_lava block_state \<longleftrightarrow> LAVA_BLOCK_STATE \<le>s block_state \<and> block_state \<le>s LAVA_STATE_MAX"

definition is_fluid :: "i32 \<Rightarrow> bool" where
  "is_fluid block_state \<longleftrightarrow> is_water block_state \<or> is_lava block_state"

definition fluid_at_feet :: "world \<Rightarrow> dimension_id \<Rightarrow> f64bits \<Rightarrow> f64bits \<Rightarrow> f64bits \<Rightarrow> i32" where
  "fluid_at_feet w d x y z = (let bx = floor_i32 x; by = floor_i32 y; bz = floor_i32 z in get_block w d bx by bz)"

definition touching_lava :: "world \<Rightarrow> dimension_id \<Rightarrow> f64bits \<Rightarrow> f64bits \<Rightarrow> f64bits \<Rightarrow> bool" where
  "touching_lava w d x y z =
    (let half = f64_lit 3 10;
         min_x = floor_i32 (f64_sub x half); max_x = floor_i32 (f64_add x half);
         min_y = floor_i32 y; max_y = floor_i32 (f64_add y (f64_lit 18 10));
         min_z = floor_i32 (f64_sub z half); max_z = floor_i32 (f64_add z half)
     in list_ex (\<lambda>by. list_ex (\<lambda>bx. list_ex (\<lambda>bz. is_lava (get_block w d bx by bz))
          (i32_range min_z max_z)) (i32_range min_x max_x)) (i32_range min_y max_y))"

lemmas fluid_ranges = is_water_def is_lava_def is_fluid_def WATER_BLOCK_STATE_def LAVA_BLOCK_STATE_def
  WATER_STATE_MAX_def LAVA_STATE_MAX_def

text \<open>The fluids are the 32 states from 80 to 111, and no state is both.\<close>

lemma is_fluid_range: "is_fluid b \<longleftrightarrow> 80 \<le> sint b \<and> sint b \<le> 111"
  by (auto simp: fluid_ranges word_sle_eq)

lemma water_not_lava: "\<not> (is_water b \<and> is_lava b)"
  by (auto simp: fluid_ranges word_sle_eq)

end
