(* ===== verification/Collision.thy ===== *)
theory Collision
  imports Fluid
begin

section \<open>Collision of a moving player with blocks (\<open>collision.rs\<close>)\<close>

text \<open>
  A proposed move is resolved axis by axis: X, then Z, then Y, each undone (or, falling, seated on the
  ground) when the player's box would hit a solid block. The loops over block ranges end at their first
  hit, so they are \<open>list_ex\<close> and \<open>find\<close> over the range.
\<close>

definition COLLISION_SPECTATOR :: u8 where "COLLISION_SPECTATOR = 3"
definition PLAYER_HALF_WIDTH :: f64bits where "PLAYER_HALF_WIDTH = f64_lit 3 10"
definition PLAYER_HEIGHT :: f64bits where "PLAYER_HEIGHT = f64_lit 18 10"
definition SURFACE_EPS :: f64bits where "SURFACE_EPS = f64_lit 1 10000"
definition MAX_HORIZONTAL_STEP :: f64bits where "MAX_HORIZONTAL_STEP = f64_lit 32 1"
definition MAX_FALL :: f64bits where "MAX_FALL = f64_lit 64 1"
definition MAX_RISE :: f64bits where "MAX_RISE = f64_lit 2 1"

record collision_result =
  cr_x :: f64bits
  cr_y :: f64bits
  cr_z :: f64bits
  cr_on_ground :: bool
  cr_corrected :: bool

definition is_solid :: "i32 \<Rightarrow> bool" where
  "is_solid block_state \<longleftrightarrow> block_state \<noteq> AIR_BLOCK_STATE \<and> \<not> is_fluid block_state"

record aabb =
  bb_min_x :: f64bits
  bb_min_y :: f64bits
  bb_min_z :: f64bits
  bb_max_x :: f64bits
  bb_max_y :: f64bits
  bb_max_z :: f64bits

definition from_feet :: "f64bits \<Rightarrow> f64bits \<Rightarrow> f64bits \<Rightarrow> aabb" where
  "from_feet x y z =
    \<lparr>bb_min_x = f64_sub x PLAYER_HALF_WIDTH, bb_min_y = y, bb_min_z = f64_sub z PLAYER_HALF_WIDTH,
     bb_max_x = f64_add x PLAYER_HALF_WIDTH, bb_max_y = f64_add y PLAYER_HEIGHT, bb_max_z = f64_add z PLAYER_HALF_WIDTH\<rparr>"

definition overlaps_block :: "aabb \<Rightarrow> i32 \<Rightarrow> i32 \<Rightarrow> i32 \<Rightarrow> bool" where
  "overlaps_block b bx by bz =
    (let bmin_x = f64_of_int (sint bx); bmin_y = f64_of_int (sint by); bmin_z = f64_of_int (sint bz);
         bmax_x = f64_add bmin_x (f64_lit 1 1); bmax_y = f64_add bmin_y (f64_lit 1 1); bmax_z = f64_add bmin_z (f64_lit 1 1)
     in f64_lt (bb_min_x b) bmax_x \<and> f64_lt bmin_x (bb_max_x b) \<and> f64_lt (bb_min_y b) bmax_y
       \<and> f64_lt bmin_y (bb_max_y b) \<and> f64_lt (bb_min_z b) bmax_z \<and> f64_lt bmin_z (bb_max_z b))"

definition block_range :: "f64bits \<Rightarrow> f64bits \<Rightarrow> i32 list" where
  "block_range lo hi =
    (let start = floor_i32 lo;
         last = (if f64_lt (f64_abs (f64_sub hi (f64_round hi))) (f64_lit 1 1000000000)
                then round_i32 hi - 1 else floor_i32 hi)
     in i32_range start (if last \<le>s start then start else last))"

definition aabb_hits_solid :: "world \<Rightarrow> dimension_id \<Rightarrow> aabb \<Rightarrow> bool" where
  "aabb_hits_solid w d b =
    list_ex (\<lambda>by. list_ex (\<lambda>bx. list_ex (\<lambda>bz. is_solid (get_block w d bx by bz) \<and> overlaps_block b bx by bz)
      (block_range (bb_min_z b) (bb_max_z b))) (block_range (bb_min_x b) (bb_max_x b))) (block_range (bb_min_y b) (bb_max_y b))"

definition standing_on_ground :: "world \<Rightarrow> dimension_id \<Rightarrow> f64bits \<Rightarrow> f64bits \<Rightarrow> f64bits \<Rightarrow> bool" where
  "standing_on_ground w d x y z =
    (let probe_y = f64_sub y (f64_lit 5 100); by = floor_i32 probe_y; half = PLAYER_HALF_WIDTH in
     list_ex (\<lambda>bx. list_ex (\<lambda>bz. is_solid (get_block w d bx by bz)) (block_range (f64_sub z half) (f64_add z half)))
       (block_range (f64_sub x half) (f64_add x half)))"

text \<open>The three nested loops of \<open>snap_to_ground\<close>, from the top down, as the list of cells they visit.\<close>

definition snap_cells :: "f64bits \<Rightarrow> f64bits \<Rightarrow> f64bits \<Rightarrow> (i32 \<times> i32 \<times> i32) list" where
  "snap_cells x from_y z =
    (let start = floor_i32 from_y; min_y = start - 64 in
     concat (map (\<lambda>by. concat (map (\<lambda>bx. map (\<lambda>bz. (bx, by, bz))
         (block_range (f64_sub z PLAYER_HALF_WIDTH) (f64_add z PLAYER_HALF_WIDTH)))
       (block_range (f64_sub x PLAYER_HALF_WIDTH) (f64_add x PLAYER_HALF_WIDTH))))
     (rev (i32_range min_y start))))"

definition snap_candidate :: "i32 \<Rightarrow> f64bits" where
  "snap_candidate by = (let top = f64_add (f64_of_int (sint by)) (f64_lit 1 1) in f64_add top SURFACE_EPS)"

definition snap_to_ground :: "world \<Rightarrow> dimension_id \<Rightarrow> f64bits \<Rightarrow> f64bits \<Rightarrow> f64bits \<Rightarrow> f64bits" where
  "snap_to_ground w d x from_y z =
    (case find (\<lambda>(bx, by, bz). is_solid (get_block w d bx by bz)
             \<and> \<not> aabb_hits_solid w d (from_feet x (snap_candidate by) z)) (snap_cells x from_y z) of
       Some (bx, by, bz) \<Rightarrow> snap_candidate by
     | None \<Rightarrow> from_y)"

abbreviation moved :: "f64bits \<Rightarrow> f64bits \<Rightarrow> bool" where
  "moved a b \<equiv> f64_lt f64_epsilon (f64_abs (f64_sub a b))"

definition resolve_movement ::
  "world \<Rightarrow> dimension_id \<Rightarrow> f64bits \<Rightarrow> f64bits \<Rightarrow> f64bits \<Rightarrow> f64bits \<Rightarrow> f64bits \<Rightarrow> f64bits \<Rightarrow> u8 \<Rightarrow> collision_result" where
  "resolve_movement w d old_x old_y old_z new_x new_y new_z gamemode =
    (if gamemode = COLLISION_SPECTATOR
     then \<lparr>cr_x = new_x, cr_y = new_y, cr_z = new_z, cr_on_ground = False, cr_corrected = False\<rparr>
     else
       let dx = f64_clamp (f64_minus MAX_HORIZONTAL_STEP) MAX_HORIZONTAL_STEP (f64_sub new_x old_x);
           dy = f64_clamp (f64_minus MAX_FALL) MAX_RISE (f64_sub new_y old_y);
           dz = f64_clamp (f64_minus MAX_HORIZONTAL_STEP) MAX_HORIZONTAL_STEP (f64_sub new_z old_z);
           x = f64_add old_x dx; y = f64_add old_y dy; z = f64_add old_z dz;
           x = (if moved x old_x \<and> aabb_hits_solid w d (from_feet x old_y old_z) then old_x else x);
           z = (if moved z old_z \<and> aabb_hits_solid w d (from_feet x old_y z) then old_z else z);
           y = (if moved y old_y \<and> aabb_hits_solid w d (from_feet x y z)
                then if f64_lt y old_y then snap_to_ground w d x old_y z else old_y
                else y);
           y = (if aabb_hits_solid w d (from_feet x y z) then snap_to_ground w d x (f64_add y PLAYER_HEIGHT) z else y)
       in \<lparr>cr_x = x, cr_y = y, cr_z = z, cr_on_ground = standing_on_ground w d x y z,
           cr_corrected = moved x new_x \<or> moved y new_y \<or> moved z new_z\<rparr>)"

subsection \<open>Properties\<close>

text \<open>
  Snapping seats the player free of solids on top of a solid block, or no solid top below is free
  and nothing changes.
\<close>

definition no_seat :: "world \<Rightarrow> dimension_id \<Rightarrow> f64bits \<Rightarrow> f64bits \<Rightarrow> f64bits \<Rightarrow> bool" where
  "no_seat w d x from_y z \<longleftrightarrow> list_all (\<lambda>(bx, by, bz). is_solid (get_block w d bx by bz) \<longrightarrow>
      aabb_hits_solid w d (from_feet x (snap_candidate by) z)) (snap_cells x from_y z)"

lemma snap_to_ground_cases:
  "no_seat w d x from_y z \<and> snap_to_ground w d x from_y z = from_y
   \<or> \<not> no_seat w d x from_y z \<and> \<not> aabb_hits_solid w d (from_feet x (snap_to_ground w d x from_y z) z)"
proof (cases "find (\<lambda>(bx, by, bz). is_solid (get_block w d bx by bz)
             \<and> \<not> aabb_hits_solid w d (from_feet x (snap_candidate by) z)) (snap_cells x from_y z)")
  case None
  then have "no_seat w d x from_y z"
    by (auto simp: find_None_iff no_seat_def list_all_iff)
  with None show ?thesis by (simp add: snap_to_ground_def)
next
  case (Some c)
  obtain bx y' bz where c: "c = (bx, y', bz)" by (cases c)
  from find_SomeD [OF Some] have "(bx, y', bz) \<in> set (snap_cells x from_y z)" "is_solid (get_block w d bx y' bz)"
    "\<not> aabb_hits_solid w d (from_feet x (snap_candidate y') z)"
    by (auto simp: c)
  moreover from this have "\<not> no_seat w d x from_y z" by (force simp: no_seat_def list_all_iff)
  ultimately show ?thesis using Some by (simp add: snap_to_ground_def c)
qed

text \<open>
  C22: A resolved move never leaves a player inside a solid block for want of looking: for everyone but
  spectators the player's box at the resolved position touches no solid, or the player is buried,
  that is, it touched a solid a body's height lower and none of the solid tops of the 65 levels
  searched from the resolved height down had room; spectators go where they propose.
\<close>

theorem resolved_move_is_free:
  "(if gamemode = COLLISION_SPECTATOR
    then resolve_movement w d ox oy oz nx ny nz gamemode =
      \<lparr>cr_x = nx, cr_y = ny, cr_z = nz, cr_on_ground = False, cr_corrected = False\<rparr>
    else let r = resolve_movement w d ox oy oz nx ny nz gamemode in
      if aabb_hits_solid w d (from_feet (cr_x r) (cr_y r) (cr_z r))
      then \<exists>y. cr_y r = f64_add y PLAYER_HEIGHT \<and> aabb_hits_solid w d (from_feet (cr_x r) y (cr_z r))
            \<and> no_seat w d (cr_x r) (cr_y r) (cr_z r)
      else True)"
proof (cases "gamemode = COLLISION_SPECTATOR")
  case True
  then show ?thesis by (simp add: resolve_movement_def)
next
  case False
  obtain x y z where r: "resolve_movement w d ox oy oz nx ny nz gamemode =
    (let y' = (if aabb_hits_solid w d (from_feet x y z) then snap_to_ground w d x (f64_add y PLAYER_HEIGHT) z else y)
     in \<lparr>cr_x = x, cr_y = y', cr_z = z, cr_on_ground = standing_on_ground w d x y' z,
         cr_corrected = moved x nx \<or> moved y' ny \<or> moved z nz\<rparr>)"
    using False unfolding resolve_movement_def Let_def by simp
  show ?thesis
    using False snap_to_ground_cases [of w d x "f64_add y PLAYER_HEIGHT" z] unfolding r Let_def
    by auto
qed











end
