(* ===== verification/Mob.thy ===== *)
theory Mob
  imports World
begin

section \<open>Mobs (\<open>mob.rs\<close>)\<close>

text \<open>
  The kinds of mob, their state and one tick of their behaviour: a hostile mob chases a player in
  range, any other wanders to a random point of the garden. The direction a mob faces needs
  \<open>atan2\<close> and \<open>to_degrees\<close> of the platform's mathematics library, which Rust does not specify to the last
  bit: the angle in degrees of a vector is a parameter \<open>heading\<close>, cast to \<open>f32\<close>.
\<close>

definition PIG :: i32 where "PIG = 72"
definition COW :: i32 where "COW = 18"
definition ZOMBIE :: i32 where "ZOMBIE = 118"
definition ZOMBIFIED_PIGLIN :: i32 where "ZOMBIFIED_PIGLIN = 121"
definition ENDERMAN :: i32 where "ENDERMAN = 29"

datatype mob_kind = Pig | Cow | Zombie | ZombifiedPiglin | Enderman

definition entity_type_id :: "mob_kind \<Rightarrow> i32" where
  "entity_type_id k = (case k of Pig \<Rightarrow> PIG | Cow \<Rightarrow> COW | Zombie \<Rightarrow> ZOMBIE | ZombifiedPiglin \<Rightarrow> ZOMBIFIED_PIGLIN
    | Enderman \<Rightarrow> ENDERMAN)"

definition mob_max_health :: "mob_kind \<Rightarrow> f32bits" where
  "mob_max_health k = (case k of Pig \<Rightarrow> f32_lit 10 1 | Cow \<Rightarrow> f32_lit 10 1 | Zombie \<Rightarrow> f32_lit 20 1
    | ZombifiedPiglin \<Rightarrow> f32_lit 20 1 | Enderman \<Rightarrow> f32_lit 40 1)"

definition mob_speed :: "mob_kind \<Rightarrow> f64bits" where
  "mob_speed k = (case k of Pig \<Rightarrow> f64_lit 8 100 | Cow \<Rightarrow> f64_lit 8 100 | Zombie \<Rightarrow> f64_lit 12 100
    | ZombifiedPiglin \<Rightarrow> f64_lit 11 100 | Enderman \<Rightarrow> f64_lit 14 100)"

definition is_hostile :: "mob_kind \<Rightarrow> bool" where
  "is_hostile k \<longleftrightarrow> k \<in> {Zombie, ZombifiedPiglin, Enderman}"

definition contact_damage :: "mob_kind \<Rightarrow> f32bits" where
  "contact_damage k = (case k of Pig \<Rightarrow> 0 | Cow \<Rightarrow> 0 | Zombie \<Rightarrow> f32_lit 2 1 | ZombifiedPiglin \<Rightarrow> f32_lit 3 1
    | Enderman \<Rightarrow> f32_lit 4 1)"

definition home_dimension :: "mob_kind \<Rightarrow> dimension_id" where
  "home_dimension k = (case k of Pig \<Rightarrow> Overworld | Cow \<Rightarrow> Overworld | Zombie \<Rightarrow> Overworld
    | ZombifiedPiglin \<Rightarrow> Nether | Enderman \<Rightarrow> TheEnd)"

record mob =
  mob_entity_id :: i32
  mob_uuid :: uuid
  mob_kind :: mob_kind
  mob_dimension :: dimension_id
  mob_x :: f64bits
  mob_y :: f64bits
  mob_z :: f64bits
  mob_yaw :: f32bits
  mob_pitch :: f32bits
  mob_health :: f32bits
  mob_wander_target :: "(f64bits \<times> f64bits) option"
  mob_retarget_ticks :: u32
  mob_attack_cooldown :: u32

definition mob_new :: "i32 \<Rightarrow> mob_kind \<Rightarrow> f64bits \<Rightarrow> f64bits \<Rightarrow> f64bits \<Rightarrow> mob" where
  "mob_new entity_id kind x y z =
    \<lparr>mob_entity_id = entity_id, mob_uuid = uuid_new 0x4D4F4200 (scast entity_id), mob_kind = kind,
     mob_dimension = home_dimension kind, mob_x = x, mob_y = y, mob_z = z, mob_yaw = 0, mob_pitch = 0,
     mob_health = mob_max_health kind, mob_wander_target = None, mob_retarget_ticks = 0, mob_attack_cooldown = 0\<rparr>"

definition mob_is_dead :: "mob \<Rightarrow> bool" where
  "mob_is_dead m \<longleftrightarrow> f32_le (mob_health m) 0"

definition mob_hurt :: "f32bits \<Rightarrow> mob \<Rightarrow> bool \<times> mob" where
  "mob_hurt amount m = (let m = m\<lparr>mob_health := f32_sub (mob_health m) amount\<rparr> in (mob_is_dead m, m))"

definition initial_spawns :: "(mob_kind \<times> f64bits \<times> f64bits \<times> f64bits) list" where
  "initial_spawns =
    [(Pig, f64_lit 45 10, f64_lit 64 1, f64_lit 45 10),
     (Pig, f64_minus (f64_lit 35 10), f64_lit 64 1, f64_lit 55 10),
     (Cow, f64_lit 75 10, f64_lit 64 1, f64_minus (f64_lit 35 10)),
     (Zombie, f64_lit 145 10, f64_lit 64 1, f64_lit 145 10),
     (ZombifiedPiglin, f64_lit 35 10, f64_lit 64 1, f64_lit 35 10),
     (Enderman, f64_lit 85 10, f64_lit 64 1, f64_lit 85 10)]"

definition initial_garden_mobs :: "i32 \<Rightarrow> mob list \<times> i32" where
  "initial_garden_mobs next_entity_id =
    fold (\<lambda>(kind, x, y, z) (out, i). (out @ [mob_new i kind x y z], i + 1)) initial_spawns ([], next_entity_id)"

definition next_u32 :: "u32 \<Rightarrow> u32 \<times> u32" where
  "next_u32 rng = (let s = rng * 1664525 + 1013904223 in (s, s))"

definition next_f64 :: "u32 \<Rightarrow> f64bits \<times> u32" where
  "next_f64 rng = (let (v, rng) = next_u32 rng in (f64_div (f64_of_int (uint v)) (f64_of_int 0xFFFFFFFF), rng))"

subsection \<open>One tick of a mob\<close>

text \<open>The move both branches make: a step of the kind's speed along the vector, facing it.\<close>

definition mob_step :: "(f64bits \<Rightarrow> f64bits \<Rightarrow> f64bits) \<Rightarrow> f64bits \<Rightarrow> f64bits \<Rightarrow> f64bits \<Rightarrow> mob \<Rightarrow> mob" where
  "mob_step heading dx dz dist_sq m =
    (let dist = f64_sqrt dist_sq; speed = mob_speed (mob_kind m) in
     m\<lparr>mob_x := f64_add (mob_x m) (f64_mul (f64_div dx dist) speed),
       mob_z := f64_add (mob_z m) (f64_mul (f64_div dz dist) speed),
       mob_yaw := f32_sub (f32_of_f64 (heading dz dx)) (f32_lit 90 1)\<rparr>)"

definition mob_chase ::
  "(f64bits \<Rightarrow> f64bits \<Rightarrow> f64bits) \<Rightarrow> (f64bits \<times> f64bits \<times> f64bits) option \<Rightarrow> mob \<Rightarrow> bool \<times> mob" where
  "mob_chase heading nearest_player m =
    (if is_hostile (mob_kind m) then
       (case nearest_player of None \<Rightarrow> (False, m)
        | Some (px, _, pz) \<Rightarrow>
          let dx = f64_sub px (mob_x m); dz = f64_sub pz (mob_z m);
              dist_sq = f64_add (f64_mul dx dx) (f64_mul dz dz);
              aggro = (case mob_kind m of Enderman \<Rightarrow> f64_lit 8 1 | _ \<Rightarrow> f64_lit 16 1)
          in if f64_lt dist_sq (f64_mul aggro aggro) \<and> f64_lt (f64_lit 1 100) dist_sq
             then (True, (mob_step heading dx dz dist_sq m)\<lparr>mob_wander_target := None\<rparr>)
             else (False, m))
     else (False, m))"

definition mob_retarget :: "garden_spec \<Rightarrow> u32 \<Rightarrow> mob \<Rightarrow> mob \<times> u32" where
  "mob_retarget garden rng m =
    (if mob_retarget_ticks m = 0 \<or> mob_wander_target m = None then
       let (r, rng) = next_u32 rng;
           min_x = f64_add (f64_of_int (sint (gs_min_block_x garden))) (f64_lit 3 2);
           max_x = f64_sub (f64_of_int (sint (gs_max_block_x garden))) (f64_lit 1 2);
           min_z = f64_add (f64_of_int (sint (gs_min_block_z garden))) (f64_lit 3 2);
           max_z = f64_sub (f64_of_int (sint (gs_max_block_z garden))) (f64_lit 1 2);
           (u, rng) = next_f64 rng;
           tx = f64_add min_x (f64_mul u (f64_sub max_x min_x));
           (v, rng) = next_f64 rng;
           tz = f64_add min_z (f64_mul v (f64_sub max_z min_z))
       in (m\<lparr>mob_retarget_ticks := 40 + r mod 60, mob_wander_target := Some (tx, tz)\<rparr>, rng)
     else (m\<lparr>mob_retarget_ticks := mob_retarget_ticks m - 1\<rparr>, rng))"

definition mob_wander :: "(f64bits \<Rightarrow> f64bits \<Rightarrow> f64bits) \<Rightarrow> mob \<Rightarrow> mob" where
  "mob_wander heading m =
    (case mob_wander_target m of None \<Rightarrow> m
     | Some (tx, tz) \<Rightarrow>
       let dx = f64_sub tx (mob_x m); dz = f64_sub tz (mob_z m); dist_sq = f64_add (f64_mul dx dx) (f64_mul dz dz)
       in if f64_lt dist_sq (f64_lit 1 4) then m\<lparr>mob_wander_target := None\<rparr> else mob_step heading dx dz dist_sq m)"

text \<open>\<open>old != new\<close> on a tuple of floats: some component compares unequal.\<close>

definition mob_changed :: "mob \<Rightarrow> mob \<Rightarrow> bool" where
  "mob_changed a b \<longleftrightarrow> \<not> (f64_eq (mob_x a) (mob_x b) \<and> f64_eq (mob_y a) (mob_y b) \<and> f64_eq (mob_z a) (mob_z b)
     \<and> f32_eq (mob_yaw a) (mob_yaw b))"

definition tick_mob ::
  "(f64bits \<Rightarrow> f64bits \<Rightarrow> f64bits) \<Rightarrow> garden_spec \<Rightarrow> (f64bits \<times> f64bits \<times> f64bits) option \<Rightarrow> mob \<Rightarrow> u32 \<Rightarrow> bool \<times> mob \<times> u32" where
  "tick_mob heading garden nearest_player m0 rng =
    (let m = (if mob_attack_cooldown m0 > 0 then m0\<lparr>mob_attack_cooldown := mob_attack_cooldown m0 - 1\<rparr> else m0);
         (chasing, m) = mob_chase heading nearest_player m;
         (m, rng) = (if chasing then (m, rng) else let (m, rng) = mob_retarget garden rng m in (mob_wander heading m, rng));
         (cx, _, cz) = clamp_horizontal garden (mob_x m) (mob_y m) (mob_z m);
         m = m\<lparr>mob_x := cx, mob_z := cz, mob_y := gs_surface_y garden\<rparr>
     in (mob_changed m0 m, m, rng))"

definition in_melee_range :: "mob \<Rightarrow> f64bits \<Rightarrow> f64bits \<Rightarrow> f64bits \<Rightarrow> bool" where
  "in_melee_range m px py pz =
    (let dx = f64_sub px (mob_x m); dy = f64_sub py (mob_y m); dz = f64_sub pz (mob_z m) in
     f64_lt (f64_add (f64_add (f64_mul dx dx) (f64_mul dy dy)) (f64_mul dz dz)) (f64_lit 225 100))"

end
