(* ===== verification/Storage.thy ===== *)
theory Storage
  imports World
begin

section \<open>Files and the stores kept in them\<close>

text \<open>
  What the store formats of \<open>persist.rs\<close>, \<open>container.rs\<close> and \<open>map_pack.rs\<close> share.
  \<^item> The file system: a map from paths to contents, and the outcome the operating system gives to each
    step of a save. A crash is a step that does not return; it leaves the same files as a failure there.
  \<^item> Reading an integer at an offset, and the loop that reads \<open>count\<close> entries one after the other.
  \<^item> The locale \<open>file_store\<close>: a format whose reader gives back what its writer was given, saved by writing
    a temporary file and renaming it.
\<close>

subsection \<open>Files\<close>

type_synonym path = "rstring list"
type_synonym files = "path \<rightharpoonup> bytes"
type_synonym io_error = rstring

record io_outcomes =
  io_mkdir :: "io_error option"
  io_create :: "io_error option"
  io_write :: "(nat \<times> io_error) option"
  io_sync :: "io_error option"
  io_rename :: "io_error option"

definition io_fine :: io_outcomes where
  "io_fine = \<lparr>io_mkdir = None, io_create = None, io_write = None, io_sync = None, io_rename = None\<rparr>"

text \<open>
  \<open>create_dir_all\<close>, \<open>File::create\<close>, \<open>write_all\<close>, \<open>sync_all\<close> and \<open>rename\<close>, each with \<open>?\<close>: the file
  is emptied when created, a failed write has written some prefix.
\<close>

definition save_file :: "io_outcomes \<Rightarrow> path \<Rightarrow> path \<Rightarrow> bytes \<Rightarrow> files \<Rightarrow> (io_error + unit) \<times> files" where
  "save_file io tmp_path final_path data fs =
    (case io_mkdir io of Some e \<Rightarrow> (Inl e, fs)
     | None \<Rightarrow> case io_create io of Some e \<Rightarrow> (Inl e, fs)
     | None \<Rightarrow> case io_write io of Some (n, e) \<Rightarrow> (Inl e, fs(tmp_path \<mapsto> take n data))
     | None \<Rightarrow> let fs = fs(tmp_path \<mapsto> data) in
       case io_sync io of Some e \<Rightarrow> (Inl e, fs)
     | None \<Rightarrow> case io_rename io of Some e \<Rightarrow> (Inl e, fs)
     | None \<Rightarrow> (Inr (), fs(final_path \<mapsto> data, tmp_path := None)))"

lemma save_file_cases:
  assumes "tmp \<noteq> final"
  shows "case save_file io tmp final data fs of
      (Inl e, fs') \<Rightarrow> fs' final = fs final
    | (Inr _, fs') \<Rightarrow> fs' final = Some data"
  using assms by (auto simp: save_file_def Let_def split: option.splits)

lemma save_file_others:
  "p \<noteq> tmp \<Longrightarrow> p \<noteq> final \<Longrightarrow> snd (save_file io tmp final data fs) p = fs p"
  by (auto simp: save_file_def Let_def split: option.splits)

lemma save_file_fine: "save_file io_fine tmp final data fs = (Inr (), fs(final \<mapsto> data, tmp := None))"
  by (simp add: save_file_def io_fine_def Let_def)

text \<open>\<open>fs::read\<close>: a file that is not there, or one the system refuses to give.\<close>

definition not_found_error :: io_error where
  "not_found_error = ascii ''No such file or directory (os error 2)''"

definition fs_read :: "(path \<Rightarrow> io_error option) \<Rightarrow> files \<Rightarrow> path \<Rightarrow> io_error + bytes" where
  "fs_read rd fs path =
    (case fs path of None \<Rightarrow> Inl not_found_error
     | Some data \<Rightarrow> (case rd path of Some e \<Rightarrow> Inl e | None \<Rightarrow> Inr data))"

text \<open>\<open>fs::write\<close>: all of the data, or an error after some prefix; not atomic.\<close>

definition fs_write :: "(path \<Rightarrow> (nat \<times> io_error) option) \<Rightarrow> path \<Rightarrow> bytes \<Rightarrow> files \<Rightarrow> (io_error + unit) \<times> files" where
  "fs_write wr path data fs =
    (case wr path of None \<Rightarrow> (Inr (), fs(path \<mapsto> data)) | Some (n, e) \<Rightarrow> (Inl e, fs(path \<mapsto> take n data)))"

subsection \<open>A store in a file\<close>

text \<open>
  \<open>writer\<close> is the file's contents for a value, \<open>reader\<close> the value a load takes from contents (its
  fallback for corrupt files included), \<open>fresh\<close> the value when there is no file.
\<close>

locale file_store =
  fixes writer :: "'m \<Rightarrow> bytes" and reader :: "bytes \<Rightarrow> 'm" and fresh :: 'm and valid :: "'m \<Rightarrow> bool"
    and tmp_path :: path and final_path :: path
  assumes reads_back: "valid m \<Longrightarrow> reader (writer m) = m"
    and two_files: "tmp_path \<noteq> final_path"
begin

definition load :: "files \<Rightarrow> 'm" where
  "load fs = (case fs final_path of None \<Rightarrow> fresh | Some data \<Rightarrow> reader data)"

definition save :: "io_outcomes \<Rightarrow> 'm \<Rightarrow> files \<Rightarrow> (io_error + unit) \<times> files" where
  "save io m fs = save_file io tmp_path final_path (writer m) fs"

lemma load_after_save:
  assumes "valid m"
  shows "case save io m fs of (Inl e, fs') \<Rightarrow> load fs' = load fs | (Inr _, fs') \<Rightarrow> load fs' = m"
  using save_file_cases [OF two_files, where io = io and data = "writer m" and fs = fs] reads_back [OF assms]
  by (auto simp: save_def load_def split: prod.splits sum.splits)

lemma save_all_or_nothing:
  assumes "valid m"
  shows "load (snd (save io m fs)) \<in> {load fs, m}"
  using load_after_save [OF assms, where io = io and fs = fs] by (auto split: prod.splits sum.splits)

lemma saves_in_a_row:
  assumes "list_all valid (m # ms)"
  shows "load (fold (\<lambda>m fs. snd (save io_fine m fs)) (m # ms) fs) = last (m # ms)"
  using assms
proof (induction ms arbitrary: m fs)
  case Nil
  then have "valid m" by simp
  from load_after_save [OF this, where io = io_fine and fs = fs] show ?case
    by (simp add: save_def save_file_fine del: fun_upd_apply)
next
  case (Cons m' ms)
  then show ?case by simp
qed

end

subsection \<open>Entries at an offset\<close>

definition le_at :: "bytes \<Rightarrow> nat \<Rightarrow> nat \<Rightarrow> 'a::len word" where
  "le_at data offset width = from_le_bytes (take width (drop offset data))"

lemma le_at_here:
  "data = pre @ to_le_bytes (w :: 'a::len word) @ post \<Longrightarrow> 8 dvd LENGTH('a) \<Longrightarrow> width = LENGTH('a) div 8 \<Longrightarrow>
    offset = length pre \<Longrightarrow> le_at data offset width = w"
  by (simp add: le_at_def from_le_to_le)

lemma le_at_skip: "length a \<le> k \<Longrightarrow> le_at (a @ rest) k width = le_at rest (k - length a) width"
  by (simp add: le_at_def)

lemma le_at_Cons: "0 < k \<Longrightarrow> le_at (b # rest) k width = le_at rest (k - 1) width"
  by (cases k) (simp_all add: le_at_def)

lemma le_at_first: "8 dvd LENGTH('a) \<Longrightarrow> le_at (to_le_bytes (w :: 'a::len word) @ rest) 0 (LENGTH('a) div 8) = w"
  by (simp add: le_at_def from_le_to_le)

lemma le_at_word:
  "le_at (to_le_bytes (w :: 32 word) @ rest) 0 4 = w" "le_at (to_le_bytes (v :: 64 word) @ rest) 0 8 = v"
  using le_at_first [of w rest] le_at_first [of v rest] by simp_all

text \<open>
  \<open>for _ in 0..count\<close>, each round reading an entry into the map or stopping; the error and the
  entries read so far are the result.
\<close>

fun read_entries :: "(nat \<Rightarrow> 'e + ('k \<times> 'v) \<times> nat) \<Rightarrow> nat \<Rightarrow> nat \<Rightarrow> ('k \<rightharpoonup> 'v) \<Rightarrow> 'e option \<times> ('k \<rightharpoonup> 'v)" where
  "read_entries entry 0 offset m = (None, m)"
| "read_entries entry (Suc n) offset m =
    (case entry offset of
       Inl e \<Rightarrow> (Some e, m)
     | Inr ((k, v), offset') \<Rightarrow> read_entries entry n offset' (m(k \<mapsto> v)))"

lemma read_entries_written:
  assumes "\<And>k v pre post. (k, v) \<in> set es \<Longrightarrow> data = pre @ enc (k, v) @ post \<Longrightarrow>
      entry (length pre) = Inr ((k, v), length pre + length (enc (k, v)))"
    and "data = pre @ concat (map enc es) @ post" "distinct (map fst es)"
  shows "read_entries entry (length es) (length pre) m = (None, m ++ map_of es)"
  using assms
proof (induction es arbitrary: m pre)
  case Nil
  then show ?case by simp
next
  case (Cons e es)
  obtain k v where e: "e = (k, v)" by (cases e)
  have here: "data = pre @ enc (k, v) @ concat (map enc es) @ post" using Cons.prems(2) by (simp add: e)
  have now: "entry (length pre) = Inr ((k, v), length (pre @ enc (k, v)))"
    using Cons.prems(1) [of k v pre, OF _ here] by (simp add: e)
  have "read_entries entry (length es) (length (pre @ enc (k, v))) (m(k \<mapsto> v)) = (None, m(k \<mapsto> v) ++ map_of es)"
  proof (rule Cons.IH)
    show "data = (pre @ enc (k, v)) @ concat (map enc es) @ post" using here by simp
    show "distinct (map fst es)" using Cons.prems(3) by simp
    show "entry (length p) = Inr ((k', v'), length p + length (enc (k', v')))"
      if "(k', v') \<in> set es" "data = p @ enc (k', v') @ q" for k' v' p q
      using Cons.prems(1) [of k' v' p q] that by simp
  qed
  then have "read_entries entry (length (e # es)) (length pre) m = (None, m(k \<mapsto> v) ++ map_of es)"
    using now by simp
  also have "m(k \<mapsto> v) ++ map_of es = m ++ map_of (e # es)"
    using Cons.prems(3) by (simp add: e dom_map_of_conv_image_fst map_add_upd_left)
  finally show ?case .
qed

text \<open>The number of entries as the format stores it.\<close>

definition u32_count :: "nat \<Rightarrow> u32" where
  "u32_count n = (if n < 2 ^ 32 then word_of_nat n else - 1)"

lemma unat_u32_count: "n < 2 ^ 32 \<Longrightarrow> unat (u32_count n) = n"
  by (simp add: u32_count_def unsigned_of_nat take_bit_nat_eq_self)

text \<open>The header every format starts with.\<close>

lemma store_header:
  assumes "data = magic @ to_le_bytes (v :: u32) @ to_le_bytes (c :: u32) @ body" "length magic = 4"
  shows "take 4 data = magic" "le_at data 4 4 = v" "le_at data 8 4 = c" "12 \<le> length data"
proof -
  show "take 4 data = magic" "12 \<le> length data" using assms by simp_all
  show "le_at data 4 4 = v" by (rule le_at_here [OF assms(1)]) (simp_all add: assms(2))
  show "le_at data 8 4 = c"
    by (rule le_at_here [where pre = "magic @ to_le_bytes v" and post = body]) (simp_all add: assms)
qed

lemma card_iterates: "iterates es m \<Longrightarrow> length es = card (dom m)"
  unfolding iterates_def by (metis distinct_card dom_map_of_conv_image_fst length_map list.set_map)

lemma fold_entry_bytes: "fold (\<lambda>e buf. buf @ enc e) es buf = buf @ concat (map enc es)"
  by (induction es arbitrary: buf) simp_all

end
