(* ===== verification/Persist.thy ===== *)
theory Persist
  imports Storage Text_Format
begin

section \<open>Saved blocks and players (\<open>persist.rs\<close>)\<close>

text \<open>
  The two binary formats, their readers with every error, and saving and loading. A \<open>HashMap\<close> is
  written in its iteration order \<open>ord\<close>. Each format is an interpretation of \<open>file_store\<close>. Opening or
  reading a file that is there may fail: \<open>rd\<close> says how.
\<close>

datatype persist_error = PersistIo io_error | FileNotFound | CorruptFile | UnsupportedVersion u32

definition persist_error_message :: "persist_error \<Rightarrow> rstring" where
  "persist_error_message e = (case e of
      PersistIo e \<Rightarrow> ascii ''I/O error: '' @ e
    | FileNotFound \<Rightarrow> ascii ''file not found''
    | CorruptFile \<Rightarrow> ascii ''corrupt file''
    | UnsupportedVersion v \<Rightarrow> ascii ''unsupported version '' @ dec_nat (unat v))"

definition RBOV_MAGIC :: bytes where "RBOV_MAGIC = ascii ''RBOV''"
definition OVERRIDES_FORMAT_VERSION :: u32 where "OVERRIDES_FORMAT_VERSION = 1"

subsection \<open>Paths\<close>

definition world_dir :: "rstring \<Rightarrow> path" where
  "world_dir level_name = [level_name]"

definition blocks_file :: "rstring \<Rightarrow> path" where
  "blocks_file level_name = world_dir level_name @ [ascii ''blocks.bin'']"

definition blocks_file_for :: "rstring \<Rightarrow> dimension_id \<Rightarrow> path" where
  "blocks_file_for level_name d = (case d of Overworld \<Rightarrow> blocks_file level_name
    | Nether \<Rightarrow> world_dir level_name @ [ascii ''blocks-nether.bin'']
    | TheEnd \<Rightarrow> world_dir level_name @ [ascii ''blocks-end.bin''])"

definition blocks_tmp_file :: "rstring \<Rightarrow> path" where
  "blocks_tmp_file level_name = world_dir level_name @ [ascii ''blocks.tmp'']"

definition blocks_tmp_file_for :: "rstring \<Rightarrow> dimension_id \<Rightarrow> path" where
  "blocks_tmp_file_for level_name d = (case d of Overworld \<Rightarrow> blocks_tmp_file level_name
    | Nether \<Rightarrow> world_dir level_name @ [ascii ''blocks-nether.tmp'']
    | TheEnd \<Rightarrow> world_dir level_name @ [ascii ''blocks-end.tmp''])"

subsection \<open>Block overrides\<close>

definition override_bytes :: "block_pos \<times> i32 \<Rightarrow> bytes" where
  "override_bytes = (\<lambda>((x, y, z), block_state). to_le_bytes x @ to_le_bytes y @ to_le_bytes z @ to_le_bytes block_state)"

definition serialize_overrides :: "(block_map \<Rightarrow> (block_pos \<times> i32) list) \<Rightarrow> block_map \<Rightarrow> bytes" where
  "serialize_overrides ord overrides =
    (let buf = RBOV_MAGIC @ to_le_bytes OVERRIDES_FORMAT_VERSION; count = u32_count (card (dom overrides)) in
     fold (\<lambda>e buf. buf @ override_bytes e) (ord overrides) (buf @ to_le_bytes count))"

definition override_entry :: "bytes \<Rightarrow> nat \<Rightarrow> persist_error + (block_pos \<times> i32) \<times> nat" where
  "override_entry data offset =
    Inr (((le_at data offset 4, le_at data (offset + 4) 4, le_at data (offset + 8) 4), le_at data (offset + 12) 4), offset + 16)"

definition deserialize_overrides :: "bytes \<Rightarrow> persist_error + block_map" where
  "deserialize_overrides data =
    (if length data < 12 then Inl CorruptFile
     else if take 4 data \<noteq> RBOV_MAGIC then Inl CorruptFile
     else let version = le_at data 4 4 in
       if version \<noteq> OVERRIDES_FORMAT_VERSION then Inl (UnsupportedVersion version)
       else let count = unat (le_at data 8 4 :: u32); expected_len = 12 + count * 16 in
         if length data < expected_len then Inl CorruptFile
         else case read_entries (override_entry data) count 12 Map.empty of
             (Some e, _) \<Rightarrow> Inl e
           | (None, overrides) \<Rightarrow> Inr overrides)"

definition persist_result :: "(io_error + unit) \<times> files \<Rightarrow> (persist_error + unit) \<times> files" where
  "persist_result r = (case r of (Inl e, fs) \<Rightarrow> (Inl (PersistIo e), fs) | (Inr u, fs) \<Rightarrow> (Inr u, fs))"

definition save_overrides_for ::
  "(block_map \<Rightarrow> (block_pos \<times> i32) list) \<Rightarrow> io_outcomes \<Rightarrow> rstring \<Rightarrow> dimension_id \<Rightarrow> block_map \<Rightarrow> files \<Rightarrow>
    (persist_error + unit) \<times> files" where
  "save_overrides_for ord io level_name d overrides fs =
    persist_result (save_file io (blocks_tmp_file_for level_name d) (blocks_file_for level_name d)
      (serialize_overrides ord overrides) fs)"

definition save_overrides ::
  "(block_map \<Rightarrow> (block_pos \<times> i32) list) \<Rightarrow> io_outcomes \<Rightarrow> rstring \<Rightarrow> block_map \<Rightarrow> files \<Rightarrow>
    (persist_error + unit) \<times> files" where
  "save_overrides ord io level_name overrides fs = save_overrides_for ord io level_name Overworld overrides fs"

definition load_overrides_from_path :: "(path \<Rightarrow> io_error option) \<Rightarrow> files \<Rightarrow> path \<Rightarrow> persist_error + block_map" where
  "load_overrides_from_path rd fs path =
    (case fs path of None \<Rightarrow> Inl FileNotFound
     | Some data \<Rightarrow> (case rd path of Some e \<Rightarrow> Inl (PersistIo e) | None \<Rightarrow> deserialize_overrides data))"

definition load_overrides_for :: "(path \<Rightarrow> io_error option) \<Rightarrow> files \<Rightarrow> rstring \<Rightarrow> dimension_id \<Rightarrow> block_map" where
  "load_overrides_for rd fs level_name d =
    (case load_overrides_from_path rd fs (blocks_file_for level_name d) of
       Inr overrides \<Rightarrow> overrides
     | Inl FileNotFound \<Rightarrow> Map.empty
     | Inl e \<Rightarrow> Map.empty)"

definition load_overrides :: "(path \<Rightarrow> io_error option) \<Rightarrow> files \<Rightarrow> rstring \<Rightarrow> block_map" where
  "load_overrides rd fs level_name = load_overrides_for rd fs level_name Overworld"

subsection \<open>Players\<close>

type_synonym saved_slot = "bool \<times> i32 \<times> i8 \<times> bytes"

record player_data =
  pld_x :: f64bits
  pld_y :: f64bits
  pld_z :: f64bits
  pld_yaw :: f32bits
  pld_pitch :: f32bits
  pld_gamemode :: u8
  pld_held_slot :: u8
  pld_health :: f32bits
  pld_food :: i32
  pld_food_saturation :: f32bits
  pld_slots :: "saved_slot list"

type_synonym player_map = "uuid \<rightharpoonup> player_data"

definition PLAYER_MAGIC :: bytes where "PLAYER_MAGIC = ascii ''RBPD''"
definition PLAYER_FORMAT_VERSION :: u32 where "PLAYER_FORMAT_VERSION = 1"

definition players_file :: "rstring \<Rightarrow> path" where
  "players_file level_name = world_dir level_name @ [ascii ''players.bin'']"

definition players_tmp_file :: "rstring \<Rightarrow> path" where
  "players_tmp_file level_name = world_dir level_name @ [ascii ''players.tmp'']"

definition saved_slot_bytes :: "saved_slot \<Rightarrow> bytes" where
  "saved_slot_bytes = (\<lambda>(present, item_id, count, nbt).
    [if present then 1 else 0] @ to_le_bytes item_id @ to_le_bytes count @ to_le_bytes (u32_count (length nbt)) @ nbt)"

definition player_bytes :: "uuid \<times> player_data \<Rightarrow> bytes" where
  "player_bytes = (\<lambda>(u, d).
    uuid_to_be_bytes u @ to_le_bytes (pld_x d) @ to_le_bytes (pld_y d) @ to_le_bytes (pld_z d)
    @ to_le_bytes (pld_yaw d) @ to_le_bytes (pld_pitch d) @ [pld_gamemode d] @ [pld_held_slot d]
    @ to_le_bytes (pld_health d) @ to_le_bytes (pld_food_saturation d) @ to_le_bytes (pld_food d)
    @ to_le_bytes (u32_count (length (pld_slots d))) @ concat (map saved_slot_bytes (pld_slots d)))"

definition serialize_players :: "(player_map \<Rightarrow> (uuid \<times> player_data) list) \<Rightarrow> player_map \<Rightarrow> bytes" where
  "serialize_players ord players =
    (let buf = PLAYER_MAGIC @ to_le_bytes PLAYER_FORMAT_VERSION; count = u32_count (card (dom players)) in
     fold (\<lambda>e buf. buf @ player_bytes e) (ord players) (buf @ to_le_bytes count))"

definition saved_slot_entry :: "bytes \<Rightarrow> nat \<Rightarrow> persist_error + saved_slot \<times> nat" where
  "saved_slot_entry data offset =
    (if offset + 1 + 4 + 1 + 4 > length data then Inl CorruptFile
     else let present = (data ! offset \<noteq> 0); item_id = le_at data (offset + 1) 4; count = data ! (offset + 5);
              nbt_len = unat (le_at data (offset + 6) 4 :: u32); offset = offset + 10 in
       if offset + nbt_len > length data then Inl CorruptFile
       else Inr ((present, item_id, count, take nbt_len (drop offset data)), offset + nbt_len))"

fun read_saved_slots :: "bytes \<Rightarrow> nat \<Rightarrow> nat \<Rightarrow> saved_slot list \<Rightarrow> persist_error + saved_slot list \<times> nat" where
  "read_saved_slots data 0 offset slots = Inr (slots, offset)"
| "read_saved_slots data (Suc n) offset slots =
    (case saved_slot_entry data offset of
       Inl e \<Rightarrow> Inl e
     | Inr (slot, offset') \<Rightarrow> read_saved_slots data n offset' (slots @ [slot]))"

definition player_entry :: "bytes \<Rightarrow> nat \<Rightarrow> persist_error + (uuid \<times> player_data) \<times> nat" where
  "player_entry data offset =
    (if offset + 66 > length data then Inl CorruptFile
     else let u = uuid_from_be_bytes (take 16 (drop offset data));
              x = le_at data (offset + 16) 8; y = le_at data (offset + 24) 8; z = le_at data (offset + 32) 8;
              yaw = le_at data (offset + 40) 4; pitch = le_at data (offset + 44) 4;
              gamemode = data ! (offset + 48); held_slot = data ! (offset + 49);
              health = le_at data (offset + 50) 4; food_saturation = le_at data (offset + 54) 4;
              food = le_at data (offset + 58) 4 in
       if offset + 62 + 4 > length data then Inl CorruptFile
       else let slot_count = unat (le_at data (offset + 62) 4 :: u32) in
         case read_saved_slots data slot_count (offset + 66) [] of
           Inl e \<Rightarrow> Inl e
         | Inr (slots, offset') \<Rightarrow>
             Inr ((u, \<lparr>pld_x = x, pld_y = y, pld_z = z, pld_yaw = yaw, pld_pitch = pitch, pld_gamemode = gamemode,
               pld_held_slot = held_slot, pld_health = health, pld_food = food, pld_food_saturation = food_saturation,
               pld_slots = slots\<rparr>), offset'))"

definition deserialize_players :: "bytes \<Rightarrow> persist_error + player_map" where
  "deserialize_players data =
    (if length data < 12 then Inl CorruptFile
     else if take 4 data \<noteq> PLAYER_MAGIC then Inl CorruptFile
     else let version = le_at data 4 4 in
       if version \<noteq> PLAYER_FORMAT_VERSION then Inl (UnsupportedVersion version)
       else let count = unat (le_at data 8 4 :: u32) in
         case read_entries (player_entry data) count 12 Map.empty of
             (Some e, _) \<Rightarrow> Inl e
           | (None, players) \<Rightarrow> Inr players)"

definition save_players ::
  "(player_map \<Rightarrow> (uuid \<times> player_data) list) \<Rightarrow> io_outcomes \<Rightarrow> rstring \<Rightarrow> player_map \<Rightarrow> files \<Rightarrow>
    (persist_error + unit) \<times> files" where
  "save_players ord io level_name players fs =
    persist_result (save_file io (players_tmp_file level_name) (players_file level_name) (serialize_players ord players) fs)"

definition load_players_from_path :: "(path \<Rightarrow> io_error option) \<Rightarrow> files \<Rightarrow> path \<Rightarrow> persist_error + player_map" where
  "load_players_from_path rd fs path =
    (case fs path of None \<Rightarrow> Inl FileNotFound
     | Some data \<Rightarrow> (case rd path of Some e \<Rightarrow> Inl (PersistIo e) | None \<Rightarrow> deserialize_players data))"

definition load_players :: "(path \<Rightarrow> io_error option) \<Rightarrow> files \<Rightarrow> rstring \<Rightarrow> player_map" where
  "load_players rd fs level_name =
    (case load_players_from_path rd fs (players_file level_name) of
       Inr players \<Rightarrow> players
     | Inl FileNotFound \<Rightarrow> Map.empty
     | Inl e \<Rightarrow> Map.empty)"

subsection \<open>Overrides read back\<close>

definition overrides_storable :: "(block_map \<Rightarrow> (block_pos \<times> i32) list) \<Rightarrow> block_map \<Rightarrow> bool" where
  "overrides_storable ord m \<longleftrightarrow> iteration_order ord \<and> finite (dom m) \<and> card (dom m) < 2 ^ 32"

lemma override_entry_written:
  assumes "data = pre @ override_bytes (k, v) @ post"
  shows "override_entry data (length pre) = Inr ((k, v), length pre + length (override_bytes (k, v)))"
proof -
  obtain x y z where k: "k = (x, y, z)" by (cases k)
  have data: "data = pre @ to_le_bytes x @ to_le_bytes y @ to_le_bytes z @ to_le_bytes v @ post"
    using assms by (simp add: override_bytes_def k)
  have "le_at data (length pre) 4 = x" by (rule le_at_here [OF data]) simp_all
  moreover have "le_at data (length pre + 4) 4 = y"
    by (rule le_at_here [where pre = "pre @ to_le_bytes x" and post = "to_le_bytes z @ to_le_bytes v @ post"])
      (simp_all add: data)
  moreover have "le_at data (length pre + 8) 4 = z"
    by (rule le_at_here [where pre = "pre @ to_le_bytes x @ to_le_bytes y" and post = "to_le_bytes v @ post"])
      (simp_all add: data)
  moreover have "le_at data (length pre + 12) 4 = v"
    by (rule le_at_here [where pre = "pre @ to_le_bytes x @ to_le_bytes y @ to_le_bytes z" and post = post])
      (simp_all add: data)
  ultimately show ?thesis by (simp add: override_entry_def override_bytes_def k)
qed

lemma length_override_bytes [simp]: "length (override_bytes e) = 16"
  by (cases e; cases "fst e") (simp add: override_bytes_def)

lemma deserialize_serialize_overrides:
  assumes "overrides_storable ord m"
  shows "deserialize_overrides (serialize_overrides ord m) = Inr m"
proof -
  let ?c = "card (dom m)" and ?data = "serialize_overrides ord m"
  have ord: "iteration_order ord" "finite (dom m)" and small: "?c < 2 ^ 32"
    using assms unfolding overrides_storable_def by blast+
  note it = iteration_order.iterates [OF ord]
  have len: "length (ord m) = ?c" and dist: "distinct (map fst (ord m))" and map: "map_of (ord m) = m"
    using it card_iterates [OF it] by (simp_all add: iterates_def)
  have data: "?data = RBOV_MAGIC @ to_le_bytes OVERRIDES_FORMAT_VERSION @ to_le_bytes (u32_count ?c)
      @ concat (map override_bytes (ord m))"
    by (simp add: serialize_overrides_def Let_def fold_entry_bytes)
  note header = store_header [OF data]
  have "length ?data = 12 + ?c * 16"
    using len by (simp add: data RBOV_MAGIC_def length_concat comp_def sum_list_triv)
  moreover have "read_entries (override_entry ?data) ?c 12 Map.empty = (None, m)"
    using read_entries_written [where entry = "override_entry ?data" and data = ?data and enc = override_bytes
        and pre = "RBOV_MAGIC @ to_le_bytes OVERRIDES_FORMAT_VERSION @ to_le_bytes (u32_count ?c)"
        and post = "[]" and es = "ord m" and m = Map.empty, OF override_entry_written]
    by (simp add: data dist map len RBOV_MAGIC_def)
  ultimately show ?thesis
    using header by (simp add: deserialize_overrides_def RBOV_MAGIC_def unat_u32_count [OF small] Let_def)
qed

definition read_overrides :: "bytes \<Rightarrow> block_map" where
  "read_overrides data = (case deserialize_overrides data of Inl e \<Rightarrow> Map.empty | Inr m \<Rightarrow> m)"

interpretation overrides: file_store "serialize_overrides ord" read_overrides Map.empty "overrides_storable ord"
    "blocks_tmp_file_for level d" "blocks_file_for level d" for ord level d
proof
  show "overrides_storable ord m \<Longrightarrow> read_overrides (serialize_overrides ord m) = m" for m
    by (simp add: read_overrides_def deserialize_serialize_overrides)
  show "blocks_tmp_file_for level d \<noteq> blocks_file_for level d"
    by (cases d) (simp_all add: blocks_tmp_file_for_def blocks_file_for_def blocks_tmp_file_def blocks_file_def ascii_def)
qed

lemma load_overrides_is_load: "load_overrides_for (\<lambda>_. None) fs level d = overrides.load level d fs"
  by (simp add: load_overrides_for_def load_overrides_from_path_def overrides.load_def read_overrides_def
      split: option.splits sum.splits persist_error.splits)

lemma save_overrides_is_save:
  "save_overrides_for ord io level d m fs = persist_result (overrides.save ord level d io m fs)"
  by (simp add: save_overrides_for_def overrides.save_def)

text \<open>
  C17: Saved blocks survive: after a save that succeeds, loading gives exactly the overrides that were
  saved, whatever order the hash map was written in; after one that fails at any step, by an error
  or a crash, loading gives what it gave before.
\<close>

theorem saved_overrides_load_back:
  assumes "iteration_order ord" "finite (dom m)" "card (dom m) < 2 ^ 32"
  shows "case save_overrides_for ord io level d m fs of
      (Inl e, fs') \<Rightarrow> load_overrides_for (\<lambda>_. None) fs' level d = load_overrides_for (\<lambda>_. None) fs level d
    | (Inr _, fs') \<Rightarrow> load_overrides_for (\<lambda>_. None) fs' level d = m"
proof -
  have "overrides_storable ord m" using assms by (simp add: overrides_storable_def)
  from overrides.load_after_save [OF this, where io = io and fs = fs and level = level and d = d] show ?thesis
    by (auto simp: save_overrides_is_save load_overrides_is_load persist_result_def split: prod.splits sum.splits)
qed

theorem saved_overrides_load_back_witness:
  "load_overrides_for (\<lambda>_. None)
     (snd (save_overrides_for sorted_entries io_fine [119] Nether [(1, 64, 2) \<mapsto> 10] Map.empty)) [119] Nether
   = [(1, 64, 2) \<mapsto> 10]"
  using saved_overrides_load_back [where ord = sorted_entries and m = "[(1, 64, 2) \<mapsto> 10]" and io = io_fine
      and level = "[119]" and d = Nether and fs = Map.empty, OF sorted.iteration_order_axioms]
  by (simp add: save_overrides_for_def save_file_fine persist_result_def del: fun_upd_apply)

subsection \<open>Players read back\<close>

definition saved_slot_ok :: "saved_slot \<Rightarrow> bool" where
  "saved_slot_ok s \<longleftrightarrow> (case s of (present, item_id, count, nbt) \<Rightarrow> length nbt < 2 ^ 32)"

definition player_data_ok :: "player_data \<Rightarrow> bool" where
  "player_data_ok d \<longleftrightarrow> length (pld_slots d) < 2 ^ 32 \<and> list_all saved_slot_ok (pld_slots d)"

lemma saved_slot_entry_written:
  assumes "data = pre @ saved_slot_bytes s @ post" "saved_slot_ok s"
  shows "saved_slot_entry data (length pre) = Inr (s, length pre + length (saved_slot_bytes s))"
proof -
  obtain present i c nbt where s: "s = (present, i, c, nbt)" by (cases s)
  let ?p = "if present then 1 else 0 :: u8"
  have one: "to_le_bytes c = [c]" by (simp add: to_le_bytes_def)
  have data: "data = pre @ [?p] @ to_le_bytes i @ [c] @ to_le_bytes (u32_count (length nbt)) @ nbt @ post"
    using assms(1) by (simp add: saved_slot_bytes_def s one)
  have "le_at data (Suc (length pre)) 4 = i"
    by (rule le_at_here [where pre = "pre @ [?p]" and post = "[c] @ to_le_bytes (u32_count (length nbt)) @ nbt @ post"])
      (simp_all add: data)
  moreover have "le_at data (length pre + 6) 4 = u32_count (length nbt)"
    by (rule le_at_here [where pre = "pre @ [?p] @ to_le_bytes i @ [c]" and post = "nbt @ post"]) (simp_all add: data)
  moreover have "data ! length pre = ?p" "data ! (length pre + 5) = c"
    by (simp_all add: data nth_append)
  ultimately show ?thesis
    using assms(2) unat_u32_count [of "length nbt"]
    by (simp add: saved_slot_entry_def Let_def data s saved_slot_bytes_def one saved_slot_ok_def)
qed

lemma read_saved_slots_written:
  assumes "data = pre @ concat (map saved_slot_bytes ss) @ post" "list_all saved_slot_ok ss"
  shows "read_saved_slots data (length ss) (length pre) acc =
    Inr (acc @ ss, length pre + length (concat (map saved_slot_bytes ss)))"
  using assms
proof (induction ss arbitrary: pre acc)
  case Nil
  then show ?case by simp
next
  case (Cons s ss)
  have here: "data = pre @ saved_slot_bytes s @ concat (map saved_slot_bytes ss) @ post" using Cons.prems(1) by simp
  have rest: "data = (pre @ saved_slot_bytes s) @ concat (map saved_slot_bytes ss) @ post" using here by simp
  show ?case
    using saved_slot_entry_written [OF here] Cons.IH [OF rest, of "acc @ [s]"] Cons.prems(2) by simp
qed

lemma player_entry_written:
  assumes "data = pre @ player_bytes (u, d) @ post" "player_data_ok d"
  shows "player_entry data (length pre) = Inr ((u, d), length pre + length (player_bytes (u, d)))"
proof -
  define slots where "slots = concat (map saved_slot_bytes (pld_slots d))"
  define fields where "fields = uuid_to_be_bytes u @ to_le_bytes (pld_x d) @ to_le_bytes (pld_y d) @ to_le_bytes (pld_z d)
    @ to_le_bytes (pld_yaw d) @ to_le_bytes (pld_pitch d) @ [pld_gamemode d] @ [pld_held_slot d]
    @ to_le_bytes (pld_health d) @ to_le_bytes (pld_food_saturation d) @ to_le_bytes (pld_food d)
    @ to_le_bytes (u32_count (length (pld_slots d)))"
  have bytes: "player_bytes (u, d) = fields @ slots" by (simp add: player_bytes_def fields_def slots_def)
  have len: "length fields = 66" by (simp add: fields_def)
  have data: "data = pre @ fields @ slots @ post" using assms(1) by (simp add: bytes)
  have at: "le_at data (length pre + k) w = le_at (fields @ slots @ post) k w" for k w
    by (simp add: data le_at_def)
  have nth: "data ! (length pre + k) = (fields @ slots @ post) ! k" for k
    by (simp add: data nth_append)
  have le: "le_at data (length pre + 16) 8 = pld_x d" "le_at data (length pre + 24) 8 = pld_y d"
    "le_at data (length pre + 32) 8 = pld_z d" "le_at data (length pre + 40) 4 = pld_yaw d"
    "le_at data (length pre + 44) 4 = pld_pitch d" "le_at data (length pre + 50) 4 = pld_health d"
    "le_at data (length pre + 54) 4 = pld_food_saturation d" "le_at data (length pre + 58) 4 = pld_food d"
    "le_at data (length pre + 62) 4 = u32_count (length (pld_slots d))"
    unfolding at fields_def append_assoc by (simp_all add: le_at_skip le_at_Cons le_at_word)
  have single: "data ! (length pre + 48) = pld_gamemode d" "data ! (length pre + 49) = pld_held_slot d"
    unfolding nth fields_def append_assoc by (simp_all add: nth_append)
  have u: "uuid_from_be_bytes (take 16 (drop (length pre) data)) = u"
    by (simp add: data fields_def)
  have "read_saved_slots data (length (pld_slots d)) (length (pre @ fields)) [] =
      Inr ([] @ pld_slots d, length (pre @ fields) + length slots)"
    unfolding slots_def using assms(2)
    by (intro read_saved_slots_written [where post = post]) (simp_all add: data slots_def player_data_ok_def)
  then have rd: "read_saved_slots data (length (pld_slots d)) (length pre + 66) [] =
      Inr (pld_slots d, length pre + 66 + length slots)"
    by (simp add: len)
  have count: "unat (u32_count (length (pld_slots d))) = length (pld_slots d)"
    using assms(2) by (simp add: player_data_ok_def unat_u32_count)
  have enough: "\<not> length pre + 66 > length data" "\<not> length pre + 62 + 4 > length data"
    by (simp_all add: data len)
  show ?thesis
    unfolding player_entry_def Let_def le single u count rd
    using enough by (simp add: bytes len)
qed

definition players_storable :: "(player_map \<Rightarrow> (uuid \<times> player_data) list) \<Rightarrow> player_map \<Rightarrow> bool" where
  "players_storable ord m \<longleftrightarrow> iteration_order ord \<and> finite (dom m) \<and> card (dom m) < 2 ^ 32
    \<and> (\<forall>d\<in>ran m. player_data_ok d)"

lemma deserialize_serialize_players:
  assumes "players_storable ord m"
  shows "deserialize_players (serialize_players ord m) = Inr m"
proof -
  let ?c = "card (dom m)" and ?data = "serialize_players ord m"
  have ord: "iteration_order ord" "finite (dom m)" and small: "?c < 2 ^ 32" and ok: "\<forall>d\<in>ran m. player_data_ok d"
    using assms unfolding players_storable_def by blast+
  note it = iteration_order.iterates [OF ord]
  have len: "length (ord m) = ?c" and dist: "distinct (map fst (ord m))" and map: "map_of (ord m) = m"
    using it card_iterates [OF it] by (simp_all add: iterates_def)
  have data: "?data = PLAYER_MAGIC @ to_le_bytes PLAYER_FORMAT_VERSION @ to_le_bytes (u32_count ?c)
      @ concat (map player_bytes (ord m))"
    by (simp add: serialize_players_def Let_def fold_entry_bytes)
  have "read_entries (player_entry ?data) (length (ord m))
      (length (PLAYER_MAGIC @ to_le_bytes PLAYER_FORMAT_VERSION @ to_le_bytes (u32_count ?c))) Map.empty
      = (None, Map.empty ++ map_of (ord m))"
  proof (rule read_entries_written [where enc = player_bytes and post = "[]", OF _ _ dist])
    show "player_entry ?data (length pre) = Inr ((u, d), length pre + length (player_bytes (u, d)))"
      if "(u, d) \<in> set (ord m)" "?data = pre @ player_bytes (u, d) @ post" for u d pre post
      using that ok iterates_get [OF it] by (intro player_entry_written) (auto simp: ran_def)
  qed (simp add: data)
  then have "read_entries (player_entry ?data) ?c 12 Map.empty = (None, m)"
    by (simp add: map len PLAYER_MAGIC_def)
  then show ?thesis
    using store_header [OF data] by (simp add: deserialize_players_def PLAYER_MAGIC_def unat_u32_count [OF small] Let_def)
qed

definition read_players :: "bytes \<Rightarrow> player_map" where
  "read_players data = (case deserialize_players data of Inl e \<Rightarrow> Map.empty | Inr m \<Rightarrow> m)"

interpretation players: file_store "serialize_players ord" read_players Map.empty "players_storable ord"
    "players_tmp_file level" "players_file level" for ord level
  by unfold_locales
    (simp_all add: read_players_def deserialize_serialize_players players_tmp_file_def players_file_def ascii_def)

lemma load_players_is_load: "load_players (\<lambda>_. None) fs level = players.load level fs"
  by (simp add: load_players_def load_players_from_path_def players.load_def read_players_def
      split: option.splits sum.splits persist_error.splits)

lemma save_players_is_save: "save_players ord io level m fs = persist_result (players.save ord level io m fs)"
  by (simp add: save_players_def players.save_def)

text \<open>
  C18: Saved players survive: positions, vitals and every inventory slot with its NBT come back exactly
  after a save that succeeds, and a save that fails at any step leaves the players that were there.
\<close>

theorem saved_players_load_back:
  assumes "players_storable ord m"
  shows "case save_players ord io level m fs of
      (Inl e, fs') \<Rightarrow> load_players (\<lambda>_. None) fs' level = load_players (\<lambda>_. None) fs level
    | (Inr _, fs') \<Rightarrow> load_players (\<lambda>_. None) fs' level = m"
  using players.load_after_save [OF assms, where io = io and fs = fs and level = level]
  by (auto simp: save_players_is_save load_players_is_load persist_result_def split: prod.splits sum.splits)

text \<open>Players can be listed by their UUID.\<close>

instantiation uuid_ext :: (linorder) linorder
begin

definition less_eq_uuid_ext :: "'a uuid_scheme \<Rightarrow> 'a uuid_scheme \<Rightarrow> bool" where
  "less_eq_uuid_ext u v \<longleftrightarrow>
    (most_significant u, least_significant u, uuid.more u) \<le> (most_significant v, least_significant v, uuid.more v)"

definition less_uuid_ext :: "'a uuid_scheme \<Rightarrow> 'a uuid_scheme \<Rightarrow> bool" where
  "less_uuid_ext u v \<longleftrightarrow> u \<le> v \<and> \<not> v \<le> (u :: 'a uuid_scheme)"

instance
proof
  fix u v w :: "'a uuid_scheme"
  show "(u < v) = (u \<le> v \<and> \<not> v \<le> u)" by (rule less_uuid_ext_def)
  show "u \<le> u" by (simp add: less_eq_uuid_ext_def)
  show "u \<le> v \<Longrightarrow> v \<le> w \<Longrightarrow> u \<le> w" unfolding less_eq_uuid_ext_def by (rule order_trans)
  show "u \<le> v \<Longrightarrow> v \<le> u \<Longrightarrow> u = v"
    unfolding less_eq_uuid_ext_def by (drule (1) order_antisym) simp
  show "u \<le> v \<or> v \<le> u" unfolding less_eq_uuid_ext_def by (rule linear)
qed

end

theorem saved_players_load_back_witness:
  "load_players (\<lambda>_. None) (snd (save_players sorted_entries io_fine [119]
      [uuid_new 1 2 \<mapsto> \<lparr>pld_x = 1, pld_y = 2, pld_z = 3, pld_yaw = 4, pld_pitch = 5, pld_gamemode = 1, pld_held_slot = 8,
        pld_health = 6, pld_food = 20, pld_food_saturation = 7, pld_slots = [(True, 10, 64, []), (False, 0, 0, [])]\<rparr>]
      Map.empty)) [119]
   = [uuid_new 1 2 \<mapsto> \<lparr>pld_x = 1, pld_y = 2, pld_z = 3, pld_yaw = 4, pld_pitch = 5, pld_gamemode = 1, pld_held_slot = 8,
        pld_health = 6, pld_food = 20, pld_food_saturation = 7, pld_slots = [(True, 10, 64, []), (False, 0, 0, [])]\<rparr>]"
proof -
  let ?d = "\<lparr>pld_x = 1, pld_y = 2, pld_z = 3, pld_yaw = 4, pld_pitch = 5, pld_gamemode = 1, pld_held_slot = 8,
        pld_health = 6, pld_food = 20, pld_food_saturation = 7, pld_slots = [(True, 10, 64, []), (False, 0, 0, [])]\<rparr>"
  have "players_storable sorted_entries [uuid_new 1 2 \<mapsto> ?d]"
    using sorted.iteration_order_axioms
    by (simp add: players_storable_def player_data_ok_def saved_slot_ok_def)
  from saved_players_load_back [OF this, where io = io_fine and fs = Map.empty and level = "[119]"] show ?thesis
    by (simp add: save_players_def save_file_fine persist_result_def del: fun_upd_apply)
qed

text \<open>
  C28: A cut-off file is never taken for a smaller world: every proper prefix of a written overrides file is
  refused as corrupt, and then loading gives no overrides at all.
\<close>

theorem truncated_overrides_are_refused:
  assumes "iteration_order ord" "finite (dom m)" "card (dom m) < 2 ^ 32" "n < length (serialize_overrides ord m)"
  shows "deserialize_overrides (take n (serialize_overrides ord m)) = Inl CorruptFile
    \<and> load_overrides_for rd [blocks_file_for level d \<mapsto> take n (serialize_overrides ord m)] level d = Map.empty"
proof -
  let ?c = "card (dom m)" and ?data = "serialize_overrides ord m"
  note it = iteration_order.iterates [OF assms(1,2)]
  let ?body = "concat (map override_bytes (ord m))"
  have data: "?data = RBOV_MAGIC @ to_le_bytes OVERRIDES_FORMAT_VERSION @ to_le_bytes (u32_count ?c) @ ?body"
    by (simp add: serialize_overrides_def Let_def fold_entry_bytes)
  have body: "length ?body = ?c * 16"
    by (simp add: length_concat comp_def sum_list_triv card_iterates [OF it])
  have refused: "deserialize_overrides (take n ?data) = Inl CorruptFile"
  proof (cases "n < 12")
    case True
    then have "length (take n ?data) < 12" by simp
    then show ?thesis by (simp only: deserialize_overrides_def if_True)
  next
    case False
    then have cut: "take n ?data = RBOV_MAGIC @ to_le_bytes OVERRIDES_FORMAT_VERSION @ to_le_bytes (u32_count ?c)
        @ take (n - 12) ?body"
      by (simp add: data RBOV_MAGIC_def)
    have short: "length (take n ?data) < 12 + ?c * 16"
      using assms(4) body by (simp add: data RBOV_MAGIC_def)
    show ?thesis
      using store_header [OF cut] short
      by (simp add: deserialize_overrides_def Let_def unat_u32_count [OF assms(3)] RBOV_MAGIC_def)
  qed
  then show ?thesis
    by (simp add: load_overrides_for_def load_overrides_from_path_def split: option.splits)
qed

theorem truncated_overrides_are_refused_witness:
  "deserialize_overrides (take 20 (serialize_overrides sorted_entries [(1, 64, 2) \<mapsto> 10])) = Inl CorruptFile"
proof -
  have "length (serialize_overrides sorted_entries [(1, 64, 2) \<mapsto> 10]) = 28"
    by (simp add: serialize_overrides_def Let_def fold_entry_bytes RBOV_MAGIC_def sorted_entries_def)
  then show ?thesis
    using truncated_overrides_are_refused [where ord = sorted_entries and m = "[(1, 64, 2) \<mapsto> 10]" and n = 20,
        OF sorted.iteration_order_axioms] by simp
qed

end
