(* ===== verification/Container.thy ===== *)
theory Container
  imports Persist
begin

section \<open>Chests (\<open>container.rs\<close>)\<close>

text \<open>
  The window of an open chest over the chest and the player's inventory, the store of chests, and its
  file. A \<open>[Slot; 27]\<close> is a list of length 27. The window's contents refine a list of 63 slots.
\<close>

definition CHEST_BLOCK_STATE :: i32 where "CHEST_BLOCK_STATE = 2955"
definition CHEST_STATE_MAX :: i32 where "CHEST_STATE_MAX = 2977"
definition CHEST_STATE_MIN :: i32 where "CHEST_STATE_MIN = 2954"
definition CHEST_ITEM_ID :: i32 where "CHEST_ITEM_ID = 277"
definition MENU_TYPE_GENERIC_9X3 :: i32 where "MENU_TYPE_GENERIC_9X3 = 2"
definition CHEST_SLOT_COUNT :: nat where "CHEST_SLOT_COUNT = 27"
definition CHEST_WINDOW_SLOT_COUNT :: nat where "CHEST_WINDOW_SLOT_COUNT = 63"
definition CHEST_TITLE :: rstring where
  "CHEST_TITLE = [123, 34] @ ascii ''text'' @ [34, 58, 34] @ ascii ''Chest'' @ [34, 125]"
definition RCHS_MAGIC :: bytes where "RCHS_MAGIC = ascii ''RCHS''"
definition CHESTS_FORMAT_VERSION :: u32 where "CHESTS_FORMAT_VERSION = 1"

type_synonym container_pos = "dimension_id \<times> i32 \<times> i32 \<times> i32"
type_synonym container_store = "container_pos \<rightharpoonup> slot list"

definition is_chest :: "i32 \<Rightarrow> bool" where
  "is_chest block_state \<longleftrightarrow> CHEST_STATE_MIN \<le>s block_state \<and> block_state \<le>s CHEST_STATE_MAX"

subsection \<open>The window\<close>

definition window_slot_to_player_slot :: "i16 \<Rightarrow> nat option" where
  "window_slot_to_player_slot window_slot =
    (if 27 \<le>s window_slot \<and> window_slot \<le>s 53 then Some (nat (sint (window_slot - 27 + 9)))
     else if 54 \<le>s window_slot \<and> window_slot \<le>s 62 then Some (nat (sint (window_slot - 54)))
     else None)"

definition is_chest_window_slot :: "i16 \<Rightarrow> bool" where
  "is_chest_window_slot window_slot \<longleftrightarrow> 0 \<le>s window_slot \<and> window_slot <s word_of_nat CHEST_SLOT_COUNT"

definition build_chest_window_slots :: "slot list \<Rightarrow> slot list \<Rightarrow> slot list" where
  "build_chest_window_slots chest player =
    (let get = (\<lambda>i. case slice_get player i of Some s \<Rightarrow> s | None \<Rightarrow> slot_empty) in
     chest @ map get [9..<36] @ map get [0..<9])"

definition apply_window_slot :: "slot list \<Rightarrow> slot list \<Rightarrow> i16 \<Rightarrow> slot \<Rightarrow> slot list \<times> slot list" where
  "apply_window_slot chest player window_slot item =
    (if is_chest_window_slot window_slot then (chest[nat (sint window_slot) := item], player)
     else case window_slot_to_player_slot window_slot of
       Some player_slot \<Rightarrow> if player_slot < length player then (chest, player[player_slot := item]) else (chest, player)
     | None \<Rightarrow> (chest, player))"

definition empty_chest :: "slot list" where
  "empty_chest = replicate CHEST_SLOT_COUNT slot_empty"

definition starter_chest_loot :: "slot list" where
  "starter_chest_loot =
    empty_chest[0 := slot_item 10 16, 1 := slot_item 1 16, 2 := slot_item 23 8, 13 := slot_item CHEST_ITEM_ID 1]"

subsection \<open>The store\<close>

definition container_store_new :: container_store where
  "container_store_new = Map.empty"

definition or_insert_with :: "'v \<Rightarrow> 'k \<Rightarrow> ('k \<rightharpoonup> 'v) \<Rightarrow> 'v \<times> ('k \<rightharpoonup> 'v)" where
  "or_insert_with v k m = (case m k of Some w \<Rightarrow> (w, m) | None \<Rightarrow> (v, m(k \<mapsto> v)))"

text \<open>\<open>chest_mut\<close>: the slots and the store they are now in; what the caller writes goes back with \<open>store(pos \<mapsto> slots)\<close>.\<close>

definition chest_mut :: "container_pos \<Rightarrow> bool \<Rightarrow> container_store \<Rightarrow> slot list \<times> container_store" where
  "chest_mut pos seed store = or_insert_with (if seed then starter_chest_loot else empty_chest) pos store"

definition store_chest :: "container_store \<Rightarrow> container_pos \<Rightarrow> slot list option" where
  "store_chest store pos = store pos"

definition store_remove :: "container_pos \<Rightarrow> container_store \<Rightarrow> container_store" where
  "store_remove pos store = store(pos := None)"

definition ensure_seeded :: "container_pos \<Rightarrow> container_store \<Rightarrow> container_store" where
  "ensure_seeded pos store = snd (or_insert_with starter_chest_loot pos store)"

definition store_len :: "container_store \<Rightarrow> nat" where
  "store_len store = card (dom store)"

definition store_is_empty :: "container_store \<Rightarrow> bool" where
  "store_is_empty store \<longleftrightarrow> store = Map.empty"

subsection \<open>The file\<close>

definition chests_file :: "rstring \<Rightarrow> path" where
  "chests_file level_name = world_dir level_name @ [ascii ''chests.bin'']"

definition u16_count :: "nat \<Rightarrow> u16" where
  "u16_count n = (if n < 2 ^ 16 then word_of_nat n else - 1)"

definition encode_slot_bytes :: "slot \<Rightarrow> bytes \<Rightarrow> bytes" where
  "encode_slot_bytes s buf =
    (if slot_present s then
       let buf = (buf @ [1]) @ to_le_bytes (slot_item_id s); buf = buf @ [slot_count s];
           nbt_len = u16_count (length (slot_nbt s)); buf = buf @ to_le_bytes nbt_len; n = unat nbt_len
       in buf @ take (min n (length (slot_nbt s))) (slot_nbt s)
     else buf @ [0])"

definition decode_slot_bytes :: "bytes \<Rightarrow> (slot \<times> bytes) option" where
  "decode_slot_bytes input =
    (case input of [] \<Rightarrow> None
     | present # input \<Rightarrow>
       if present = 0 then Some (slot_empty, input)
       else if length input < 4 + 1 + 2 then None
       else let item_id = le_at input 0 4; count = input ! 4; nbt_len = unat (le_at input 5 2 :: u16); input = drop 7 input in
         if length input < nbt_len then None
         else Some (slot_with_nbt item_id count (take nbt_len input), drop nbt_len input))"

definition dimension_to_byte :: "dimension_id \<Rightarrow> u8" where
  "dimension_to_byte d = (case d of Overworld \<Rightarrow> 0 | Nether \<Rightarrow> 1 | TheEnd \<Rightarrow> 2)"

definition byte_to_dimension :: "u8 \<Rightarrow> dimension_id option" where
  "byte_to_dimension byte =
    (if byte = 0 then Some Overworld else if byte = 1 then Some Nether else if byte = 2 then Some TheEnd else None)"

definition chest_bytes :: "container_pos \<times> slot list \<Rightarrow> bytes \<Rightarrow> bytes" where
  "chest_bytes = (\<lambda>((d, x, y, z), slots) buf.
    fold encode_slot_bytes slots (buf @ [dimension_to_byte d] @ to_le_bytes x @ to_le_bytes y @ to_le_bytes z))"

definition serialize_chests :: "(container_store \<Rightarrow> (container_pos \<times> slot list) list) \<Rightarrow> container_store \<Rightarrow> bytes" where
  "serialize_chests ord store =
    (let buf = RCHS_MAGIC @ to_le_bytes CHESTS_FORMAT_VERSION; count = u32_count (card (dom store)) in
     fold chest_bytes (ord store) (buf @ to_le_bytes count))"

fun decode_slots :: "nat \<Rightarrow> bytes \<Rightarrow> (slot list \<times> bytes) option" where
  "decode_slots 0 input = Some ([], input)"
| "decode_slots (Suc n) input =
    (case decode_slot_bytes input of None \<Rightarrow> None
     | Some (s, input) \<Rightarrow> (case decode_slots n input of None \<Rightarrow> None | Some (ss, input) \<Rightarrow> Some (s # ss, input)))"

text \<open>The loop over the chests: any chest that does not read ends it, with the chests so far.\<close>

fun read_chests :: "nat \<Rightarrow> bytes \<Rightarrow> container_store \<Rightarrow> container_store" where
  "read_chests 0 input store = store"
| "read_chests (Suc n) input store =
    (case input of [] \<Rightarrow> store
     | b # input \<Rightarrow>
       (case byte_to_dimension b of None \<Rightarrow> store
        | Some d \<Rightarrow>
          if length input < 12 then store
          else let x = le_at input 0 4; y = le_at input 4 4; z = le_at input 8 4 in
            (case decode_slots CHEST_SLOT_COUNT (drop 12 input) of None \<Rightarrow> store
             | Some (slots, input) \<Rightarrow> read_chests n input (store((d, x, y, z) \<mapsto> slots)))))"

definition deserialize_chests :: "bytes \<Rightarrow> container_store" where
  "deserialize_chests data =
    (if length data < 12 \<or> take 4 data \<noteq> RCHS_MAGIC then container_store_new
     else let version = (le_at data 4 4 :: u32) in
       if version \<noteq> CHESTS_FORMAT_VERSION then container_store_new
       else let count = unat (le_at data 8 4 :: u32) in read_chests count (drop 12 data) container_store_new)"

definition load_chests :: "(path \<Rightarrow> io_error option) \<Rightarrow> files \<Rightarrow> rstring \<Rightarrow> container_store" where
  "load_chests rd fs level_name =
    (case fs (chests_file level_name) of
       Some data \<Rightarrow> (case rd (chests_file level_name) of None \<Rightarrow> deserialize_chests data | Some _ \<Rightarrow> container_store_new)
     | None \<Rightarrow> container_store_new)"

definition save_chests ::
  "(container_store \<Rightarrow> (container_pos \<times> slot list) list) \<Rightarrow> io_outcomes \<Rightarrow> rstring \<Rightarrow> container_store \<Rightarrow> files \<Rightarrow>
    (io_error + unit) \<times> files" where
  "save_chests ord io level_name store fs =
    save_file io (world_dir level_name @ [ascii ''chests.tmp'']) (chests_file level_name) (serialize_chests ord store) fs"

definition bundled_packs_dir :: path where
  "bundled_packs_dir = [ascii ''data'', ascii ''hakoniwa'', ascii ''packs'']"

definition resolve_pack_file :: "files \<Rightarrow> rstring \<Rightarrow> rstring \<Rightarrow> path option" where
  "resolve_pack_file fs level_name file_name =
    (let level_path = [level_name, ascii ''packs'', file_name]; bundled = bundled_packs_dir @ [file_name] in
     if fs level_path \<noteq> None then Some level_path
     else if fs bundled \<noteq> None then Some bundled
     else None)"

subsection \<open>The window refines a list of 63 slots\<close>

lemma sint_i16: "- (2 ^ 15) \<le> k \<Longrightarrow> k < 2 ^ 15 \<Longrightarrow> sint (word_of_int k :: i16) = k"
  by (simp add: sint_sbintrunc' signed_take_bit_int_eq_self)

lemma window_slots:
  "is_chest_window_slot ws \<longleftrightarrow> 0 \<le> sint ws \<and> sint ws < 27"
  "window_slot_to_player_slot ws =
    (if 27 \<le> sint ws \<and> sint ws \<le> 53 then Some (nat (sint ws) - 18)
     else if 54 \<le> sint ws \<and> sint ws \<le> 62 then Some (nat (sint ws) - 54) else None)"
proof -
  show "is_chest_window_slot ws \<longleftrightarrow> 0 \<le> sint ws \<and> sint ws < 27"
    by (simp add: is_chest_window_slot_def CHEST_SLOT_COUNT_def word_sle_eq word_sless_alt)
  have "sint (ws - 27 + 9) = sint ws - 18" if "27 \<le> sint ws" "sint ws \<le> 53"
    using sint_i16 [of "sint ws - 18"] that by (simp add: algebra_simps)
  moreover have "sint (ws - 54) = sint ws - 54" if "54 \<le> sint ws" "sint ws \<le> 62"
    using sint_i16 [of "sint ws - 54"] that by simp
  ultimately show "window_slot_to_player_slot ws =
    (if 27 \<le> sint ws \<and> sint ws \<le> 53 then Some (nat (sint ws) - 18)
     else if 54 \<le> sint ws \<and> sint ws \<le> 62 then Some (nat (sint ws) - 54) else None)"
    by (auto simp: window_slot_to_player_slot_def word_sle_eq nat_diff_distrib)
qed

lemma window_nth:
  assumes "length chest = 27" "36 \<le> length player"
  shows "build_chest_window_slots chest player = chest @ take 27 (drop 9 player) @ take 9 player"
proof -
  have get: "map (\<lambda>i. case slice_get player i of Some s \<Rightarrow> s | None \<Rightarrow> slot_empty) [a..<b] = take (b - a) (drop a player)"
    if "a \<le> b" "b \<le> 36" for a b
    using that assms(2) by (intro nth_equalityI) (auto simp: slice_get_def)
  show ?thesis using get [of 9 36] get [of 0 9] by (simp add: build_chest_window_slots_def Let_def del: upt_rec_numeral)
qed

text \<open>
  C24: Writing a slot of an open chest's window is one update of the 63 slots the client sees: whatever the
  slot number, the window built after the write is the window built before with that entry replaced, and
  for a number outside the window nothing changes.
\<close>

theorem window_write_refines_update:
  assumes "length chest = 27" "36 \<le> length player"
  shows "(let (chest', player') = apply_window_slot chest player ws item in
      build_chest_window_slots chest' player' =
        (if 0 \<le> sint ws \<and> sint ws < 63 then (build_chest_window_slots chest player)[nat (sint ws) := item]
         else build_chest_window_slots chest player)
      \<and> length chest' = 27 \<and> length player' = length player)"
proof -
  define n where "n = nat (sint ws)"
  consider (chest) "0 \<le> sint ws" "sint ws < 27" | (main) "27 \<le> sint ws" "sint ws \<le> 53" | (hotbar) "54 \<le> sint ws" "sint ws \<le> 62"
    | (outside) "sint ws < 0 \<or> 63 \<le> sint ws" by linarith
  then show ?thesis
  proof cases
    case chest
    then show ?thesis using assms
      by (simp add: apply_window_slot_def window_slots window_nth list_update_append nat_less_iff)
  next
    case main
    then have n: "27 \<le> n" "n \<le> 53" "sint ws = int n" by (simp_all add: n_def)
    then have in_range: "n - 18 < length player" using assms(2) by simp
    have "(take 9 player)[n - 18 := item] = take 9 player"
      using n(1) by (intro list_update_beyond) simp
    moreover have "n - 27 < 27" using n(1,2) by arith
    ultimately have "take 27 (drop 9 (player[n - 18 := item])) @ take 9 (player[n - 18 := item]) =
        (take 27 (drop 9 player) @ take 9 player)[n - 27 := item]"
      using n(1,2) assms(2) by (simp add: drop_update_swap take_update_swap list_update_append take_update_cancel)
    then show ?thesis using assms n in_range
      by (simp add: apply_window_slot_def window_slots window_nth list_update_append)
  next
    case hotbar
    then have n: "54 \<le> n" "n \<le> 62" "sint ws = int n" by (simp_all add: n_def)
    have M: "length (take 27 (drop 9 player)) = 27" using assms(2) by simp
    have k: "\<not> n - 27 < 27" "n - 27 - 27 = n - 54" "n - 54 < 9" "n - 54 < length player" using n(1,2) assms(2) by arith+
    have "take 27 (drop 9 (player[n - 54 := item])) @ take 9 (player[n - 54 := item]) =
        (take 27 (drop 9 player) @ take 9 player)[n - 27 := item]"
      unfolding list_update_append M using k by (simp add: take_update_swap)
    then show ?thesis using assms n k(4)
      by (simp add: apply_window_slot_def window_slots window_nth list_update_append)
  next
    case outside
    then show ?thesis using assms by (auto simp: apply_window_slot_def window_slots)
  qed
qed

theorem window_write_refines_update_witness:
  "(let (chest', player') = apply_window_slot starter_chest_loot (replicate 41 slot_empty) 54 (slot_item 5 3) in
     build_chest_window_slots chest' player' =
       (build_chest_window_slots starter_chest_loot (replicate 41 slot_empty))[54 := slot_item 5 3])"
  using window_write_refines_update [where chest = starter_chest_loot and player = "replicate 41 slot_empty" and ws = 54
      and item = "slot_item 5 3"]
  by (simp add: starter_chest_loot_def empty_chest_def CHEST_SLOT_COUNT_def Let_def split: prod.splits)

subsection \<open>Chests read back\<close>

definition chest_slot_ok :: "slot \<Rightarrow> bool" where
  "chest_slot_ok s \<longleftrightarrow> (if slot_present s then length (slot_nbt s) < 2 ^ 16 else s = slot_empty)"

lemma unat_u16_count: "n < 2 ^ 16 \<Longrightarrow> unat (u16_count n) = n"
  by (simp add: u16_count_def unat_u16)

lemma le_at_u16: "le_at (to_le_bytes (w :: u16) @ rest) 0 2 = w"
  using le_at_first [of w rest] by simp

lemma encode_slot_appends: "encode_slot_bytes s buf = buf @ encode_slot_bytes s []"
  by (simp add: encode_slot_bytes_def Let_def)

text \<open>
  What a chest's file keeps of a slot and of a chest: the length of the NBT is a \<open>u16\<close>, so of a longer one the first 65535
  bytes are written (\<open>encode_slot_bytes\<close>), and an absent slot comes back as the empty one.
\<close>

definition slot_on_file :: "slot \<Rightarrow> slot" where
  "slot_on_file s = (if slot_present s then s\<lparr>slot_nbt := take 65535 (slot_nbt s)\<rparr> else slot_empty)"

definition chests_on_file :: "container_store \<Rightarrow> container_store" where
  "chests_on_file m = (\<lambda>p. map_option (map slot_on_file) (m p))"

lemma slot_on_file_ok: "chest_slot_ok s \<Longrightarrow> slot_on_file s = s"
  by (cases "slot_present s") (simp_all add: chest_slot_ok_def slot_on_file_def)

lemma slot_on_file_same: "slot_on_file s = s \<longleftrightarrow> chest_slot_ok s"
proof
  have "length (take 65535 (slot_nbt s)) < 2 ^ 16" by simp
  then show "slot_on_file s = s \<Longrightarrow> chest_slot_ok s"
    by (metis chest_slot_ok_def slot.select_convs(4) slot.surjective slot.update_convs(4) slot_on_file_def)
qed (rule slot_on_file_ok)

lemma slots_on_file_same: "map slot_on_file slots = slots \<longleftrightarrow> list_all chest_slot_ok slots"
  by (induction slots) (simp_all add: slot_on_file_same)

lemma chests_on_file_ok: "\<forall>ss\<in>ran m. list_all chest_slot_ok ss \<Longrightarrow> chests_on_file m = m"
proof
  fix p
  assume ok: "\<forall>ss\<in>ran m. list_all chest_slot_ok ss"
  have "map slot_on_file ss = ss" if "m p = Some ss" for ss
    using ok ranI [where m = m and a = p and b = ss, OF that] by (intro map_idI) (simp add: list_all_iff slot_on_file_ok)
  then show "chests_on_file m p = m p" by (cases "m p") (simp_all add: chests_on_file_def)
qed

lemma u16_count_takes: "take (unat (u16_count (length xs))) xs = take 65535 xs" "unat (u16_count n) \<le> n"
  by (auto simp: u16_count_def unat_u16 unsigned_minus_1_eq_mask mask_eq_exp_minus_1)

lemma decode_encode_slot: "decode_slot_bytes (encode_slot_bytes s [] @ rest) = Some (slot_on_file s, rest)"
proof (cases "slot_present s")
  case False
  then show ?thesis by (simp add: slot_on_file_def encode_slot_bytes_def decode_slot_bytes_def)
next
  case True
  let ?c = "u16_count (length (slot_nbt s))" and ?nbt = "take 65535 (slot_nbt s)"
  let ?tail = "to_le_bytes (slot_item_id s) @ [slot_count s] @ to_le_bytes ?c @ ?nbt @ rest"
  have n: "min (unat ?c) (length (slot_nbt s)) = unat ?c" using u16_count_takes(2) by simp
  have len: "length ?nbt = unat ?c" by (simp add: u16_count_takes(2) min_absorb2 flip: u16_count_takes(1))
  have enc: "encode_slot_bytes s [] @ rest = 1 # ?tail"
    using True by (simp add: encode_slot_bytes_def Let_def n u16_count_takes(1))
  have at: "le_at ?tail 0 4 = slot_item_id s" "?tail ! 4 = slot_count s" "le_at ?tail 5 2 = ?c"
    by (simp_all add: le_at_word le_at_skip le_at_Cons le_at_u16 nth_append)
  have drop: "drop 7 ?tail = ?nbt @ rest" by simp
  have "slot_on_file s = slot_with_nbt (slot_item_id s) (slot_count s) ?nbt"
    using True by (simp add: slot_on_file_def slot_with_nbt_def)
  then show ?thesis
    unfolding enc decode_slot_bytes_def list.case Let_def at drop using len by (simp add: u16_count_takes(1))
qed

lemma decode_encode_slots:
  "decode_slots (length ss) (concat (map (\<lambda>s. encode_slot_bytes s []) ss) @ rest) = Some (map slot_on_file ss, rest)"
  by (induction ss) (simp_all add: decode_encode_slot)

definition stored_chest :: "container_pos \<times> slot list \<Rightarrow> bytes" where
  "stored_chest e = chest_bytes e []"

lemma chest_bytes_appends: "chest_bytes e buf = buf @ stored_chest e"
proof -
  obtain d x y z slots where e: "e = ((d, x, y, z), slots)" by (cases e) auto
  show ?thesis
    unfolding stored_chest_def e chest_bytes_def prod.case
    by (subst (1 2) fold_enc_concat [of encode_slot_bytes, OF encode_slot_appends]) simp
qed

lemma read_stored_chests:
  assumes "list_all (\<lambda>ss. length ss = CHEST_SLOT_COUNT) (map snd es)" "distinct (map fst es)"
  shows "read_chests (length es) (concat (map stored_chest es)) m = m ++ chests_on_file (map_of es)"
  using assms
proof (induction es arbitrary: m)
  case Nil
  then show ?case by (simp add: chests_on_file_def)
next
  case (Cons e es)
  obtain d x y z ss where e: "e = ((d, x, y, z), ss)" by (cases e) auto
  have ss: "length ss = CHEST_SLOT_COUNT" using Cons.prems(1) by (simp_all add: e)
  let ?rest = "concat (map stored_chest es)"
  let ?slots = "concat (map (\<lambda>s. encode_slot_bytes s []) ss)"
  have dim: "byte_to_dimension (dimension_to_byte d) = Some d"
    by (cases d) (simp_all add: byte_to_dimension_def dimension_to_byte_def)
  have bytes: "concat (map stored_chest (e # es)) =
      dimension_to_byte d # to_le_bytes x @ to_le_bytes y @ to_le_bytes z @ ?slots @ ?rest"
    by (simp add: e stored_chest_def chest_bytes_def
        fold_enc_concat [of encode_slot_bytes, OF encode_slot_appends])
  have at: "le_at (to_le_bytes x @ to_le_bytes y @ to_le_bytes z @ ?slots @ ?rest) 0 4 = x"
    "le_at (to_le_bytes x @ to_le_bytes y @ to_le_bytes z @ ?slots @ ?rest) 4 4 = y"
    "le_at (to_le_bytes x @ to_le_bytes y @ to_le_bytes z @ ?slots @ ?rest) 8 4 = z"
    by (simp_all add: le_at_skip le_at_word)
  have slots: "decode_slots CHEST_SLOT_COUNT (?slots @ ?rest) = Some (map slot_on_file ss, ?rest)"
    using decode_encode_slots [of ss ?rest] by (simp add: ss)
  have "read_chests (length (e # es)) (concat (map stored_chest (e # es))) m = read_chests (length es) ?rest (m((d, x, y, z) \<mapsto> map slot_on_file ss))"
    unfolding bytes by (simp add: dim at slots Let_def)
  also have "\<dots> = m((d, x, y, z) \<mapsto> map slot_on_file ss) ++ chests_on_file (map_of es)"
    using Cons.prems by (intro Cons.IH) (simp_all add: e)
  also have "\<dots> = m ++ chests_on_file (map_of (e # es))"
  proof -
    have "(d, x, y, z) \<notin> dom (chests_on_file (map_of es))"
      using Cons.prems(2) by (force simp: e chests_on_file_def dest: map_of_SomeD)
    moreover have "chests_on_file (map_of (e # es)) = (chests_on_file (map_of es))((d, x, y, z) \<mapsto> map slot_on_file ss)"
      by (auto simp: e chests_on_file_def)
    ultimately show ?thesis by (simp add: map_add_upd_left)
  qed
  finally show ?case .
qed

text \<open>A store the file has room for, and one it keeps whole.\<close>

definition chests_fit :: "(container_store \<Rightarrow> (container_pos \<times> slot list) list) \<Rightarrow> container_store \<Rightarrow> bool" where
  "chests_fit ord m \<longleftrightarrow> iteration_order ord \<and> finite (dom m) \<and> card (dom m) < 2 ^ 32
    \<and> (\<forall>ss\<in>ran m. length ss = CHEST_SLOT_COUNT)"

definition chests_storable :: "(container_store \<Rightarrow> (container_pos \<times> slot list) list) \<Rightarrow> container_store \<Rightarrow> bool" where
  "chests_storable ord m \<longleftrightarrow> chests_fit ord m \<and> (\<forall>ss\<in>ran m. list_all chest_slot_ok ss)"

lemma deserialize_serialize_on_file:
  assumes "chests_fit ord m"
  shows "deserialize_chests (serialize_chests ord m) = chests_on_file m"
proof -
  let ?c = "card (dom m)" and ?data = "serialize_chests ord m"
  have ord: "iteration_order ord" "finite (dom m)" and small: "?c < 2 ^ 32"
    and ok: "\<forall>ss\<in>ran m. length ss = CHEST_SLOT_COUNT"
    using assms unfolding chests_fit_def by blast+
  note it = iteration_order.iterates [OF ord]
  have data: "?data = RCHS_MAGIC @ to_le_bytes CHESTS_FORMAT_VERSION @ to_le_bytes (u32_count ?c)
      @ concat (map stored_chest (ord m))"
    by (simp add: serialize_chests_def Let_def fold_enc_concat [of chest_bytes] chest_bytes_appends flip: stored_chest_def)
  have "read_chests (length (ord m)) (concat (map stored_chest (ord m))) Map.empty = Map.empty ++ chests_on_file (map_of (ord m))"
  proof (rule read_stored_chests)
    show "distinct (map fst (ord m))" using it by (simp add: iterates_def)
    have "snd e \<in> ran m" if "e \<in> set (ord m)" for e
      using that iterates_get [OF it, of "fst e" "snd e"] by (auto intro: ranI)
    then show "list_all (\<lambda>ss. length ss = CHEST_SLOT_COUNT) (map snd (ord m))"
      using ok by (auto simp: list_all_iff)
  qed
  then have "read_chests ?c (drop 12 ?data) Map.empty = chests_on_file m"
    using it by (simp add: card_iterates [OF it] iterates_def data RCHS_MAGIC_def)
  then show ?thesis
    using store_header [OF data]
    by (simp add: deserialize_chests_def RCHS_MAGIC_def unat_u32_count [OF small] Let_def container_store_new_def)
qed

corollary deserialize_serialize_chests:
  "chests_storable ord m \<Longrightarrow> deserialize_chests (serialize_chests ord m) = m"
  by (simp add: chests_storable_def deserialize_serialize_on_file chests_on_file_ok)

interpretation chests: file_store "serialize_chests ord" deserialize_chests Map.empty "chests_storable ord"
    "world_dir level @ [ascii ''chests.tmp'']" "chests_file level" for ord level
  by unfold_locales (simp_all add: deserialize_serialize_chests chests_file_def ascii_def)

text \<open>
  Saved chests survive: every chest comes back slot by slot after a save that succeeds, and a
  failed save changes nothing, for stores of 27 slots whose items have less than 64 KiB of NBT.
\<close>

theorem saved_chests_load_back:
  assumes "chests_storable ord m"
  shows "case save_chests ord io level m fs of
      (Inl e, fs') \<Rightarrow> load_chests (\<lambda>_. None) fs' level = load_chests (\<lambda>_. None) fs level
    | (Inr _, fs') \<Rightarrow> load_chests (\<lambda>_. None) fs' level = m"
proof -
  have load: "load_chests (\<lambda>_. None) fs level = chests.load level fs" for fs
    by (simp add: load_chests_def chests.load_def container_store_new_def split: option.splits)
  have save: "save_chests ord io level m fs = chests.save ord level io m fs"
    by (simp add: save_chests_def chests.save_def)
  show ?thesis unfolding load save by (rule chests.load_after_save [OF assms])
qed

instantiation dimension_id :: linorder
begin

definition less_eq_dimension_id :: "dimension_id \<Rightarrow> dimension_id \<Rightarrow> bool" where
  "less_eq_dimension_id d e \<longleftrightarrow> dimension_to_byte d \<le> dimension_to_byte e"

definition less_dimension_id :: "dimension_id \<Rightarrow> dimension_id \<Rightarrow> bool" where
  "less_dimension_id d e \<longleftrightarrow> dimension_to_byte d < dimension_to_byte e"

instance
proof
  fix d e f :: dimension_id
  show "d \<le> e \<Longrightarrow> e \<le> d \<Longrightarrow> d = e"
    by (cases d; cases e) (simp_all add: less_eq_dimension_id_def dimension_to_byte_def word_le_nat_alt)
qed (auto simp: less_eq_dimension_id_def less_dimension_id_def)

end

theorem saved_chests_load_back_witness:
  "load_chests (\<lambda>_. None) (snd (save_chests sorted_entries io_fine [119] [(Nether, 0, 64, 4) \<mapsto> starter_chest_loot] Map.empty)) [119]
   = [(Nether, 0, 64, 4) \<mapsto> starter_chest_loot]"
proof -
  have "chests_storable sorted_entries [(Nether, 0, 64, 4) \<mapsto> starter_chest_loot]"
    unfolding chests_storable_def chests_fit_def
  proof (intro conjI sorted.iteration_order_axioms)
    show "\<forall>ss\<in>ran [(Nether, 0, 64, 4) \<mapsto> starter_chest_loot]. list_all chest_slot_ok ss"
      by (simp add: starter_chest_loot_def empty_chest_def CHEST_SLOT_COUNT_def chest_slot_ok_def
          slot_item_def slot_empty_def list_all_length nth_list_update)
  qed (simp_all add: starter_chest_loot_def empty_chest_def)
  from saved_chests_load_back [OF this, where io = io_fine and fs = Map.empty and level = "[119]"] show ?thesis
    by (simp add: save_chests_def save_file_fine del: fun_upd_apply)
qed

end
