(* ===== verification/Tick.thy ===== *)
theory Tick
  imports Player_State Dimension Collision Mob Container Registry Text_Format
begin

section \<open>The messages to the tick loop and its state (\<open>tick.rs\<close>)\<close>

text \<open>
  The tick thread owns the world and everything that lives in it. This theory holds its messages, the
  state of \<open>run_tick_loop\<close> as a record, and the functions the loop calls; the handlers of the messages and
  the periodic tasks follow in the next theories. Iteration orders of hash maps and the outcomes
  of the file system are in \<open>tick_env\<close>, with the directions and distances of \<open>libm\<close>; the \<open>n\<close>-th save of the
  process meets the outcome \<open>te_io n\<close>.
\<close>

datatype tick_message =
    Shutdown_msg
  | PlayerJoined_msg i32 uuid rstring u8 i32 channel
  | PlayerLeft_msg i32
  | PlayerPositionUpdate_msg i32 f64bits f64bits f64bits f32bits f32bits bool
  | SetBlock_msg "i32 option" block_pos i32
  | PlaceBlock_msg i32 block_pos i32
  | SetClientViewDistance_msg i32 i32
  | DigBlock_msg i32 i32 block_pos
  | SetCreativeSlot_msg i32 i16 slot
  | SetHeldItem_msg i32 i16
  | ChatMessage_msg i32 uuid rstring rstring
  | ClientStatus_msg i32 i32
  | InteractEntity_msg i32 i32 i32
  | ClickContainer_msg i32 u8 i32 "click_container_changed_slot list" slot
  | CloseContainer_msg i32 u8

datatype tick_event = Shutdown_te | PlayerAdded_te i32 | PlayerRemoved_te i32

record open_container =
  oc_window_id :: u8
  oc_position :: block_pos
  oc_dimension :: dimension_id
  oc_carried :: slot

text \<open>The hash maps of the loop that are keyed by entity ids and iterated.\<close>

datatype id_map = SessionIds | InventoryIds | BreakIds | WindowIds

record tick_env =
  te_level_name :: rstring
  te_garden :: garden_spec
  te_autosave_interval_secs :: u64
  te_heading :: "f64bits \<Rightarrow> f64bits \<Rightarrow> f64bits"
  te_hypot :: "f64bits \<Rightarrow> f64bits \<Rightarrow> f64bits"
  te_io :: "nat \<Rightarrow> io_outcomes"
  te_ids :: "id_map \<Rightarrow> i32 set \<Rightarrow> i32 list"
  te_players :: "(i32 \<rightharpoonup> player_handle) \<Rightarrow> (i32 \<times> player_handle) list"
  te_blocks :: "block_map \<Rightarrow> (block_pos \<times> i32) list"
  te_chunks :: "chunk_pos set \<Rightarrow> chunk_pos list"
  te_saved :: "player_map \<Rightarrow> (uuid \<times> player_data) list"
  te_chests :: "container_store \<Rightarrow> (container_pos \<times> slot list) list"

record tick_state =
  ts_world :: world
  ts_saved_players :: player_map
  ts_containers :: container_store
  ts_senders :: "i32 \<rightharpoonup> channel"
  ts_chunk_states :: "i32 \<rightharpoonup> player_chunk_state"
  ts_inventories :: "i32 \<rightharpoonup> player_inventory"
  ts_break_progress :: "i32 \<rightharpoonup> block_break_progress"
  ts_open_windows :: "i32 \<rightharpoonup> open_container"
  ts_next_window_id :: u8
  ts_portal_cooldowns :: "i32 \<rightharpoonup> u64"
  ts_mobs :: "mob list"
  ts_mob_rng :: u32
  ts_tick_count :: u64
  ts_last_keep_alive_tick :: u64
  ts_last_autosave_tick :: u64
  ts_player_count :: u64
  ts_files :: files
  ts_saves :: nat
  ts_sent :: "(channel \<times> session_event) list"
  ts_events :: "tick_event list"

subsection \<open>Sending\<close>

text \<open>\<open>if let Some(sender) = session_senders.get(&id) { sender.send(...); ... }\<close>\<close>

definition send_to :: "i32 \<Rightarrow> session_event list \<Rightarrow> tick_state \<Rightarrow> tick_state" where
  "send_to entity_id evs s =
    (case ts_senders s entity_id of None \<Rightarrow> s
     | Some ch \<Rightarrow> s\<lparr>ts_sent := ts_sent s @ map (Pair ch) evs\<rparr>)"

text \<open>\<open>for (&eid, sender) in &session_senders { if condition { sender.send(event) } }\<close>\<close>

definition broadcast :: "tick_env \<Rightarrow> (i32 \<Rightarrow> bool) \<Rightarrow> session_event \<Rightarrow> tick_state \<Rightarrow> tick_state" where
  "broadcast env cond ev s =
    fold (\<lambda>eid s. if cond eid then send_to eid [ev] s else s) (te_ids env SessionIds (dom (ts_senders s))) s"

definition player_dimension :: "world \<Rightarrow> i32 \<Rightarrow> dimension_id option" where
  "player_dimension w entity_id = map_option ph_dimension (get_player w entity_id)"

text \<open>\<open>world.get_player(id).map(|p| p.dimension).unwrap_or_default()\<close>; the default is the overworld.\<close>

definition dimension_or_default :: "world \<Rightarrow> i32 \<Rightarrow> dimension_id" where
  "dimension_or_default w entity_id =
    (case player_dimension w entity_id of Some d \<Rightarrow> d | None \<Rightarrow> Overworld)"

definition broadcast_block_update :: "tick_env \<Rightarrow> dimension_id \<Rightarrow> block_pos \<Rightarrow> i32 \<Rightarrow> tick_state \<Rightarrow> tick_state" where
  "broadcast_block_update env d position block_state s =
    broadcast env (\<lambda>eid. player_dimension (ts_world s) eid = Some d) (BlockUpdate_ev position block_state) s"

definition send_chunk_to_session :: "tick_env \<Rightarrow> world \<Rightarrow> dimension_id \<Rightarrow> i32 \<Rightarrow> i32 \<Rightarrow> session_event list" where
  "send_chunk_to_session env w d chunk_x chunk_z =
    (let deltas = get_client_block_deltas_for_chunk (te_blocks env) w d chunk_x chunk_z
     in LoadChunk_ev chunk_x chunk_z # (if deltas \<noteq> [] then [ChunkBlockOverrides_ev deltas] else []))"

subsection \<open>Texts\<close>

text \<open>\<open>str::replace\<close> of one ASCII character.\<close>

definition replace_char :: "8 word \<Rightarrow> rstring \<Rightarrow> rstring \<Rightarrow> rstring" where
  "replace_char c by s = concat (map (\<lambda>b. if b = c then by else [b]) s)"

definition format_chat_message :: "rstring \<Rightarrow> rstring \<Rightarrow> rstring" where
  "format_chat_message username message =
    (let escaped = replace_char 9 [92, 116] (replace_char 13 [92, 114] (replace_char 10 [92, 110]
       (replace_char 34 [92, 34] (replace_char 92 [92, 92] ([60] @ username @ [62, 32] @ message)))))
     in [123, 34] @ ascii ''text'' @ [34, 58, 34] @ escaped @ [34, 125])"

definition combat_death_message :: "rstring \<Rightarrow> rstring \<Rightarrow> rstring" where
  "combat_death_message username reason =
    (let escaped = concat (map (\<lambda>ch. if ch = 92 then [92, 92] else if ch = 34 then [92, 34] else [ch]) username)
     in [123, 34] @ ascii ''text'' @ [34, 58, 34] @ escaped @ [32] @ reason @ [34, 125])"

definition warped_message :: "dimension_id \<Rightarrow> rstring" where
  "warped_message d =
    [123, 34] @ ascii ''text'' @ [34, 58, 34] @ ascii ''Warped to '' @ dimension_as_str d @ [34, 125]"

subsection \<open>Breaking, windows and blocks\<close>

definition face_offset :: "i32 \<Rightarrow> block_pos \<Rightarrow> block_pos" where
  "face_offset face = (\<lambda>(x, y, z).
    if face = 0 then (x, y - 1, z) else if face = 1 then (x, y + 1, z)
    else if face = 2 then (x, y, z - 1) else if face = 3 then (x, y, z + 1)
    else if face = 4 then (x - 1, y, z) else if face = 5 then (x + 1, y, z) else (x, y, z))"

definition clear_break_animation :: "i32 \<Rightarrow> tick_state \<Rightarrow> tick_state" where
  "clear_break_animation entity_id s =
    (case ts_break_progress s entity_id of None \<Rightarrow> s
     | Some progress \<Rightarrow> send_to entity_id [SetBlockDestroyStage_ev entity_id (bbp_position progress) (- 1)]
         (s\<lparr>ts_break_progress := (ts_break_progress s)(entity_id := None)\<rparr>))"

definition close_open_window :: "i32 \<Rightarrow> bool \<Rightarrow> tick_state \<Rightarrow> tick_state" where
  "close_open_window entity_id notify_client s =
    (case ts_open_windows s entity_id of None \<Rightarrow> s
     | Some w \<Rightarrow> let s = s\<lparr>ts_open_windows := (ts_open_windows s)(entity_id := None)\<rparr>
       in if notify_client then send_to entity_id [CloseContainer_ev (oc_window_id w)] s else s)"

definition container_key :: "dimension_id \<Rightarrow> block_pos \<Rightarrow> container_pos" where
  "container_key d = (\<lambda>(x, y, z). (d, x, y, z))"

definition open_chest_for_player :: "i32 \<Rightarrow> dimension_id \<Rightarrow> block_pos \<Rightarrow> tick_state \<Rightarrow> tick_state" where
  "open_chest_for_player entity_id d position s =
    (case ts_inventories s entity_id of None \<Rightarrow> s
     | Some inven \<Rightarrow> case ts_senders s entity_id of None \<Rightarrow> s
     | Some _ \<Rightarrow>
       let n = ts_next_window_id s + 1; window_id = (if n = 0 then 1 else n);
           (chest, store) = chest_mut (container_key d position) True (ts_containers s);
           slots = build_chest_window_slots chest (inv_slots inven);
           state_id = inv_state_id inven + 1;
           s = s\<lparr>ts_next_window_id := window_id, ts_containers := store,
             ts_inventories := (ts_inventories s)(entity_id \<mapsto> inven\<lparr>inv_state_id := state_id\<rparr>),
             ts_open_windows := (ts_open_windows s)(entity_id \<mapsto>
               \<lparr>oc_window_id = window_id, oc_position = position, oc_dimension = d, oc_carried = slot_empty\<rparr>)\<rparr>
       in send_to entity_id
            [OpenScreen_ev (ucast window_id) MENU_TYPE_GENERIC_9X3 CHEST_TITLE,
             SetContainerContent_ev window_id state_id slots slot_empty] s)"

text \<open>The chest at a block that becomes air is lost, and the windows over it close.\<close>

definition close_viewers :: "tick_env \<Rightarrow> dimension_id \<Rightarrow> block_pos \<Rightarrow> tick_state \<Rightarrow> tick_state" where
  "close_viewers env d position s =
    (let viewers = filter (\<lambda>eid. case ts_open_windows s eid of None \<Rightarrow> False
           | Some w \<Rightarrow> oc_dimension w = d \<and> oc_position w = position)
         (te_ids env WindowIds (dom (ts_open_windows s)))
     in fold (\<lambda>eid. close_open_window eid True) viewers s)"

definition map_world :: "(world \<Rightarrow> world) \<Rightarrow> tick_state \<Rightarrow> tick_state" where
  "map_world f s = s\<lparr>ts_world := f (ts_world s)\<rparr>"

definition map_containers :: "(container_store \<Rightarrow> container_store) \<Rightarrow> tick_state \<Rightarrow> tick_state" where
  "map_containers f s = s\<lparr>ts_containers := f (ts_containers s)\<rparr>"

subsection \<open>Saving\<close>

text \<open>\<open>if let Err(e) = save(...) { eprintln!(...) }\<close>: the error is only logged.\<close>

definition do_save :: "tick_env \<Rightarrow> (io_outcomes \<Rightarrow> files \<Rightarrow> 'r \<times> files) \<Rightarrow> tick_state \<Rightarrow> tick_state" where
  "do_save env save s =
    s\<lparr>ts_files := snd (save (te_io env (ts_saves s)) (ts_files s)), ts_saves := Suc (ts_saves s)\<rparr>"

definition save_all_overrides :: "tick_env \<Rightarrow> tick_state \<Rightarrow> tick_state" where
  "save_all_overrides env s =
    fold (\<lambda>d s. do_save env (\<lambda>io. save_overrides_for (te_blocks env) io (te_level_name env) d
        (block_overrides_for (ts_world s) d)) s) dimension_all s"

definition save_containers :: "tick_env \<Rightarrow> tick_state \<Rightarrow> tick_state" where
  "save_containers env s =
    do_save env (\<lambda>io. save_chests (te_chests env) io (te_level_name env) (ts_containers s)) s"

definition save_cached_players :: "tick_env \<Rightarrow> tick_state \<Rightarrow> tick_state" where
  "save_cached_players env s =
    do_save env (\<lambda>io. save_players (te_saved env) io (te_level_name env) (ts_saved_players s)) s"

definition collect_one_player_data :: "world \<Rightarrow> (i32 \<rightharpoonup> player_inventory) \<Rightarrow> i32 \<Rightarrow> player_data option" where
  "collect_one_player_data w inventories entity_id =
    Option.bind (get_player w entity_id) (\<lambda>player. Option.bind (inventories entity_id) (\<lambda>inven.
      Some \<lparr>pld_x = ph_x player, pld_y = ph_y player, pld_z = ph_z player, pld_yaw = ph_yaw player,
        pld_pitch = ph_pitch player, pld_gamemode = ph_gamemode player, pld_held_slot = inv_held_slot inven,
        pld_health = inv_health inven, pld_food = inv_food inven, pld_food_saturation = inv_food_saturation inven,
        pld_slots = map (\<lambda>sl. (slot_present sl, slot_item_id sl, slot_count sl, slot_nbt sl)) (inv_slots inven)\<rparr>))"

definition collect_player_data :: "tick_env \<Rightarrow> world \<Rightarrow> (i32 \<rightharpoonup> player_inventory) \<Rightarrow> player_map" where
  "collect_player_data env w inventories =
    fold (\<lambda>player result. case collect_one_player_data w inventories (ph_entity_id player) of
        Some data \<Rightarrow> result(ph_uuid player \<mapsto> data) | None \<Rightarrow> result)
      (world_players (te_players env) w) Map.empty"

text \<open>The loop over the collected map inserts each of its entries: a union.\<close>

definition merge_online_into_saved :: "tick_env \<Rightarrow> tick_state \<Rightarrow> tick_state" where
  "merge_online_into_saved env s =
    s\<lparr>ts_saved_players := ts_saved_players s ++ collect_player_data env (ts_world s) (ts_inventories s)\<rparr>"

end
