(* ===== verification/Session.thy ===== *)
theory Session
  imports Tick Play_Wire Connection
begin

section \<open>A player's session: what it sends (\<open>session.rs\<close>)\<close>

text \<open>
  A connection in play has a session: it turns the events of the tick loop into packets, and the packets
  of the client into messages to the tick loop. Here are its state, its errors and everything it sends. What was
  written to the socket and what was sent to the tick loop are part of the state. Zlib, the registry codec fixture and
  the socket's write errors are parameters; time is a number given with each call, \<open>Instant::now()\<close>.
\<close>

subsection \<open>Errors, environment and state\<close>

datatype session_error =
    SessIo io_error
  | SessDisconnected
  | SessPlay play_error
  | SessFraming framing_error
  | SessUnexpectedPacket i32
  | TeleportTimeout
  | InvalidPosition
  | KeepAliveTimeout

definition session_error_from_io :: "std_io_error \<Rightarrow> session_error" where
  "session_error_from_io e = (if fst e then SessDisconnected else SessIo (snd e))"

definition session_error_from_play :: "play_error \<Rightarrow> session_error" where
  "session_error_from_play = SessPlay"

definition session_error_from_framing :: "framing_error \<Rightarrow> session_error" where
  "session_error_from_framing = SessFraming"

record session_env =
  sx_deflate :: "bytes \<Rightarrow> io_error + bytes"
  sx_inflate :: "bytes \<Rightarrow> io_error + bytes"
  sx_registry_codec :: bytes
  sx_write_fails :: "bytes \<Rightarrow> bytes \<Rightarrow> std_io_error option"
  sx_timeout_fails :: "io_error option"
  sx_tick_gone :: bool
  sx_fuel :: nat

record player_session =
  ses_entity_id :: i32
  ses_uuid :: uuid
  ses_username :: rstring
  ses_gamemode :: game_mode
  ses_next_teleport_id :: i32
  ses_max_frame_length :: nat
  ses_compression_threshold :: i32
  ses_last_x :: f64bits
  ses_last_y :: f64bits
  ses_last_z :: f64bits
  ses_last_yaw :: f32bits
  ses_last_pitch :: f32bits
  ses_view_distance :: i32
  ses_simulation_distance :: i32
  ses_max_players :: i32
  ses_keep_alive_timeout :: nat
  ses_last_keep_alive_payload :: i64
  ses_last_keep_alive_sent :: "nat option"
  ses_last_keep_alive_response :: nat
  ses_dimension :: dimension_id
  ses_enabled_dimensions :: dimension_set
  ses_written :: bytes
  ses_told :: "tick_message list"

type_synonym 'a session_op = "(session_error, 'a, player_session) st"

text \<open>\<open>PlayerSession::new\<close>, with the channel it made; the tick loop may be gone.\<close>

definition session_new :: "session_env \<Rightarrow> session_config \<Rightarrow> i32 \<Rightarrow> channel \<Rightarrow> nat \<Rightarrow> session_error + player_session" where
  "session_new env config entity_id event_tx now =
    (case game_mode_from_wire (sc_gamemode config) of
       None \<Rightarrow> Inl (SessPlay (play_error.Codec InvalidBoolean))
     | Some gamemode \<Rightarrow>
       if sx_tick_gone env then Inl SessDisconnected
       else Inr
         \<lparr>ses_entity_id = entity_id, ses_uuid = sc_uuid config, ses_username = sc_username config, ses_gamemode = gamemode,
          ses_next_teleport_id = 0, ses_max_frame_length = sc_max_frame_length config,
          ses_compression_threshold = sc_compression_threshold config,
          ses_last_x = 0, ses_last_y = f64_lit 64 1, ses_last_z = 0, ses_last_yaw = 0, ses_last_pitch = 0,
          ses_view_distance = sc_view_distance config, ses_simulation_distance = sc_simulation_distance config,
          ses_max_players = sc_max_players config, ses_keep_alive_timeout = sc_keep_alive_timeout config,
          ses_last_keep_alive_payload = 0, ses_last_keep_alive_sent = None, ses_last_keep_alive_response = now,
          ses_dimension = Overworld, ses_enabled_dimensions = sc_enabled_dimensions config, ses_written = [],
          ses_told = [PlayerJoined_msg entity_id (sc_uuid config) (sc_username config) (sc_gamemode config)
            (sc_view_distance config) event_tx]\<rparr>)"

subsection \<open>Writing packets\<close>

definition sess_write :: "session_env \<Rightarrow> bytes \<Rightarrow> unit session_op" where
  "sess_write env wire s =
    (case sx_write_fails env (ses_written s) wire of
       Some e \<Rightarrow> (Inl (session_error_from_io e), s)
     | None \<Rightarrow> (Inr (), s\<lparr>ses_written := ses_written s @ wire\<rparr>))"

definition send_wire :: "session_env \<Rightarrow> bytes \<Rightarrow> unit session_op" where
  "send_wire env wire s =
    (if sint (ses_compression_threshold s) < 0 then sess_write env wire s
     else case decode_frame (ses_max_frame_length s) wire of
       (Inl e, _) \<Rightarrow> (Inl (SessPlay (play_error_from_framing e)), s)
     | (Inr FrameIncomplete, _) \<Rightarrow> (Inl (SessPlay (play_error.Codec IncompleteInput)), s)
     | (Inr (FrameComplete f), _) \<Rightarrow>
       (case encode_compressed_frame (sx_deflate env) (pf_packet_id f) (pf_payload f) (ses_compression_threshold s)
           (ses_max_frame_length s) [] of
          (Inl e, _) \<Rightarrow> (Inl (SessPlay (play_error_from_compression e)), s)
        | (Inr _, compressed) \<Rightarrow> sess_write env compressed s))"

text \<open>\<open>let mut wire = Vec::new(); encode_\<dots>(&packet, self.max_frame_length, &mut wire)?; self.send_wire(stream, &wire)?\<close>\<close>

definition send_packet :: "session_env \<Rightarrow> (nat \<Rightarrow> play_error encoder) \<Rightarrow> unit session_op" where
  "send_packet env enc s =
    (case enc (ses_max_frame_length s) [] of
       (Inl e, _) \<Rightarrow> (Inl (session_error_from_play e), s)
     | (Inr _, wire) \<Rightarrow> send_wire env wire s)"

text \<open>An error ends the sequence; what was written stays written.\<close>

definition send_packets :: "session_env \<Rightarrow> (nat \<Rightarrow> play_error encoder) list \<Rightarrow> unit session_op" where
  "send_packets env encs = enc_all (map (send_packet env) encs)"

subsection \<open>The join sequence\<close>

definition player_abilities_flags :: "game_mode \<Rightarrow> u8" where
  "player_abilities_flags g = (case g of Creative \<Rightarrow> 0x0D | Spectator \<Rightarrow> 0x07 | Survival \<Rightarrow> 0 | Adventure \<Rightarrow> 0)"

definition join_game_packet :: "session_env \<Rightarrow> player_session \<Rightarrow> join_game" where
  "join_game_packet env s =
    (let dim = dimension_protocol_name (ses_dimension s) in
     \<lparr>jg_entity_id = ses_entity_id s, jg_is_hardcore = False, jg_gamemode = ses_gamemode s,
      jg_previous_gamemode = None, jg_dimension_names = protocol_names (ses_enabled_dimensions s),
      jg_registry_codec = sx_registry_codec env, jg_dimension_type = dim, jg_dimension_name = dim, jg_hashed_seed = 0,
      jg_max_players = ses_max_players s, jg_view_distance = ses_view_distance s,
      jg_simulation_distance = ses_simulation_distance s, jg_reduce_debug_info = False, jg_enable_respawn_screen = True,
      jg_is_debug = False, jg_is_flat = True, jg_has_death_location = False, jg_death_dimension_name = [],
      jg_death_location = (0, 0, 0), jg_portal_cooldown = 0\<rparr>)"

definition send_join_game :: "session_env \<Rightarrow> unit session_op" where
  "send_join_game env s = send_packet env (encode_join_game (join_game_packet env s)) s"

definition player_info_add :: "uuid \<Rightarrow> rstring \<Rightarrow> u8 \<Rightarrow> player_info_update" where
  "player_info_add u username gamemode =
    \<lparr>piu_actions = ADD_PLAYER OR UPDATE_GAMEMODE OR UPDATE_LISTED OR UPDATE_LATENCY,
     piu_entries = [\<lparr>pie_uuid = u, pie_name = username, pie_properties = [], pie_gamemode = ucast gamemode,
       pie_listed = True, pie_latency = 0, pie_display_name = None\<rparr>]\<rparr>"

definition send_player_info_add :: "session_env \<Rightarrow> uuid \<Rightarrow> rstring \<Rightarrow> u8 \<Rightarrow> unit session_op" where
  "send_player_info_add env u username gamemode =
    send_packet env (encode_player_info_update (player_info_add u username gamemode))"

definition join_sequence :: "player_session \<Rightarrow> (nat \<Rightarrow> play_error encoder) list" where
  "join_sequence s =
    [encode_plugin_message_clientbound \<lparr>pmc_channel = ascii ''minecraft:brand'', pmc_data = ascii ''rustbound''\<rparr>,
     encode_change_difficulty \<lparr>cd_difficulty = 1, cd_locked = False\<rparr>,
     encode_player_abilities \<lparr>pa_flags = player_abilities_flags (ses_gamemode s), pa_flying_speed = f32_lit 5 100,
       pa_fov_modifier = f32_lit 1 10\<rparr>,
     encode_set_held_item \<lparr>shi_slot = 0\<rparr>,
     encode_entity_event \<lparr>ee_entity_id = ses_entity_id s, ee_entity_status = 28\<rparr>,
     encode_update_recipes_empty,
     encode_update_tags_empty,
     encode_player_info_update (player_info_add (ses_uuid s) (ses_username s) (game_mode_to_wire (ses_gamemode s))),
     encode_set_default_spawn_position \<lparr>sds_location = (0, 64, 0), sds_angle = 0\<rparr>,
     encode_set_center_chunk \<lparr>scc_chunk_x = 0, scc_chunk_z = 0\<rparr>,
     encode_set_render_distance \<lparr>srd_view_distance = ses_view_distance s\<rparr>,
     encode_set_simulation_distance \<lparr>ssd_simulation_distance = ses_simulation_distance s\<rparr>,
     encode_game_event \<lparr>ge_event_type = 13, ge_value = 0\<rparr>]"

definition send_join_sequence :: "session_env \<Rightarrow> unit session_op" where
  "send_join_sequence env s = send_packets env (join_sequence s) s"

definition send_initial_chunks :: "session_env \<Rightarrow> i32 \<Rightarrow> unit session_op" where
  "send_initial_chunks env radius s =
    send_packets env (map (\<lambda>p. encode_chunk_data (build_chunk_data_packet (cp_x p) (cp_z p) (ses_dimension s)))
      (desired_chunks 0 0 radius)) s"

text \<open>The next teleport id is taken even if the packet then fails to encode.\<close>

definition take_teleport_id :: "i32 session_op" where
  "take_teleport_id s = (Inr (ses_next_teleport_id s), s\<lparr>ses_next_teleport_id := ses_next_teleport_id s + 1\<rparr>)"

definition send_synchronize_position :: "session_env \<Rightarrow> i32 session_op" where
  "send_synchronize_position env =
    st_bind take_teleport_id (\<lambda>teleport_id.
    st_bind (send_packet env (encode_synchronize_player_position
      \<lparr>syn_x = 0, syn_y = f64_lit 64 1, syn_z = 0, syn_yaw = 0, syn_pitch = 0, syn_flags = 0, syn_teleport_id = teleport_id\<rparr>))
    (\<lambda>_. st_ret teleport_id))"

subsection \<open>One packet each\<close>

definition send_single_chunk :: "session_env \<Rightarrow> i32 \<Rightarrow> i32 \<Rightarrow> unit session_op" where
  "send_single_chunk env chunk_x chunk_z s =
    send_packet env (encode_chunk_data (build_chunk_data_packet chunk_x chunk_z (ses_dimension s))) s"

definition send_set_center_chunk :: "session_env \<Rightarrow> i32 \<Rightarrow> i32 \<Rightarrow> unit session_op" where
  "send_set_center_chunk env chunk_x chunk_z =
    send_packet env (encode_set_center_chunk \<lparr>scc_chunk_x = chunk_x, scc_chunk_z = chunk_z\<rparr>)"

definition send_system_chat :: "session_env \<Rightarrow> rstring \<Rightarrow> unit session_op" where
  "send_system_chat env content = send_packet env (encode_system_chat_message \<lparr>sym_content = content, sym_overlay = False\<rparr>)"

definition send_player_info_remove :: "session_env \<Rightarrow> uuid \<Rightarrow> unit session_op" where
  "send_player_info_remove env u = send_packet env (encode_player_info_remove \<lparr>pir_uuids = [u]\<rparr>)"

definition send_spawn_player :: "session_env \<Rightarrow> i32 \<Rightarrow> uuid \<Rightarrow> f64bits \<Rightarrow> f64bits \<Rightarrow> f64bits \<Rightarrow> unit session_op" where
  "send_spawn_player env entity_id u x y z = send_packet env (encode_spawn_player
    \<lparr>spl_entity_id = entity_id, spl_uuid = u, spl_x = x, spl_y = y, spl_z = z, spl_yaw = 0, spl_pitch = 0\<rparr>)"

definition send_remove_entities :: "session_env \<Rightarrow> i32 \<Rightarrow> unit session_op" where
  "send_remove_entities env entity_id = send_packet env (encode_remove_entities \<lparr>re_entity_ids = [entity_id]\<rparr>)"

definition send_block_update :: "session_env \<Rightarrow> block_pos \<Rightarrow> i32 \<Rightarrow> unit session_op" where
  "send_block_update env position block_state =
    send_packet env (encode_block_update \<lparr>bu_position = position, bu_block_state = block_state\<rparr>)"

definition send_set_container_content :: "session_env \<Rightarrow> u8 \<Rightarrow> i32 \<Rightarrow> slot list \<Rightarrow> slot \<Rightarrow> unit session_op" where
  "send_set_container_content env window_id state_id slots carried_item = send_packet env (encode_set_container_content
    \<lparr>scn_window_id = window_id, scn_state_id = state_id, scn_slots = slots, scn_carried_item = carried_item\<rparr>)"

definition send_set_container_slot :: "session_env \<Rightarrow> i8 \<Rightarrow> i32 \<Rightarrow> i16 \<Rightarrow> slot \<Rightarrow> unit session_op" where
  "send_set_container_slot env window_id state_id slot item = send_packet env (encode_set_container_slot
    \<lparr>scs_window_id = window_id, scs_state_id = state_id, scs_slot = slot, scs_item = item\<rparr>)"

definition send_set_health :: "session_env \<Rightarrow> f32bits \<Rightarrow> i32 \<Rightarrow> f32bits \<Rightarrow> unit session_op" where
  "send_set_health env health food food_saturation =
    send_packet env (encode_set_health \<lparr>sh_health = health, sh_food = food, sh_food_saturation = food_saturation\<rparr>)"

definition send_respawn :: "session_env \<Rightarrow> respawn_player \<Rightarrow> unit session_op" where
  "send_respawn env r = send_packet env (encode_respawn
    \<lparr>rs_dimension_type = rsp_dimension_type r, rs_dimension_name = rsp_dimension_name r, rs_hashed_seed = rsp_hashed_seed r,
     rs_gamemode = rsp_gamemode r, rs_previous_gamemode = rsp_previous_gamemode r, rs_is_debug = rsp_is_debug r,
     rs_is_flat = rsp_is_flat r, rs_has_death_location = rsp_has_death_location r,
     rs_death_dimension_name = rsp_death_dimension_name r, rs_death_location = rsp_death_location r,
     rs_portal_cooldown = rsp_portal_cooldown r, rs_data_kept = rsp_data_kept r\<rparr>)"

definition send_acknowledge_block_change :: "session_env \<Rightarrow> i32 \<Rightarrow> unit session_op" where
  "send_acknowledge_block_change env sequence =
    send_packet env (encode_acknowledge_block_change \<lparr>abc_sequence = sequence\<rparr>)"

definition session_keep_alive :: "session_env \<Rightarrow> nat \<Rightarrow> i64 \<Rightarrow> unit session_op" where
  "session_keep_alive env now payload =
    st_bind (send_packet env (encode_keep_alive_clientbound \<lparr>ka_payload = payload\<rparr>)) (\<lambda>_.
    st_mod (\<lambda>s. s\<lparr>ses_last_keep_alive_payload := payload, ses_last_keep_alive_sent := Some now\<rparr>))"

text \<open>\<open>sent_at.elapsed()\<close> is zero for a time that has not come.\<close>

definition is_keep_alive_timed_out :: "nat \<Rightarrow> player_session \<Rightarrow> bool" where
  "is_keep_alive_timed_out now s =
    (case ses_last_keep_alive_sent s of None \<Rightarrow> False | Some sent_at \<Rightarrow> now - sent_at > ses_keep_alive_timeout s)"

text \<open>Errors are ignored, and the packet is written without \<open>send_wire\<close>.\<close>

definition send_disconnect :: "session_env \<Rightarrow> rstring \<Rightarrow> player_session \<Rightarrow> player_session" where
  "send_disconnect env reason s =
    (case encode_disconnect_play \<lparr>dp_reason = [123, 34] @ ascii ''text'' @ [34, 58, 34] @ reason @ [34, 125]\<rparr>
        (ses_max_frame_length s) [] of
       (Inl _, _) \<Rightarrow> s
     | (Inr _, wire) \<Rightarrow> snd (sess_write env wire s))"

subsection \<open>Movement of entities\<close>

text \<open>\<open>%\<close> on \<open>f32\<close>: the exact remainder, with the sign of the dividend; \<open>rem_euclid\<close> and \<open>round() as u8\<close>.\<close>

definition f32_rem :: "f32bits \<Rightarrow> f32bits \<Rightarrow> f32bits" where
  "f32_rem x y =
    (if f32_nan x \<or> f32_nan y \<or> fl_inf 23 8 (unat x) \<or> f32_units y = 0 then word_of_nat (fl_qnan 23 8)
     else if fl_inf 23 8 (unat y) then x
     else word_of_nat (fl_of_units 23 8 (fl_neg 23 8 (unat x)) (sgn (f32_units x) * (\<bar>f32_units x\<bar> mod \<bar>f32_units y\<bar>))))"

definition f32_rem_euclid :: "f32bits \<Rightarrow> f32bits \<Rightarrow> f32bits" where
  "f32_rem_euclid x y = (let r = f32_rem x y in if f32_lt r 0 then f32_add r (f32_abs y) else r)"

definition f32_round_u8 :: "f32bits \<Rightarrow> u8" where
  "f32_round_u8 x = (if f32_nan x then 0
     else word_of_int (max 0 (min 255 (sgn (f32_units x) * ((2 * \<bar>f32_units x\<bar> + 2 ^ 149) div 2 ^ 150)))))"

definition degrees_to_angle_byte :: "f32bits \<Rightarrow> u8" where
  "degrees_to_angle_byte degrees =
    (let normalized = f32_rem_euclid degrees (f32_lit 360 1);
         steps = f32_mul (f32_div normalized (f32_lit 360 1)) (f32_lit 256 1)
     in f32_round_u8 steps)"

text \<open>\<open>(d * 4096.0).round() as i16\<close>\<close>

definition f64_round_i16 :: "f64bits \<Rightarrow> i16" where
  "f64_round_i16 x = (if f64_nan x then 0 else word_of_int (max (- (2 ^ 15)) (min (2 ^ 15 - 1) (f64_round_int x))))"

definition DELTA_SCALE :: f64bits where "DELTA_SCALE = f64_lit 4096 1"
definition MAX_DELTA :: f64bits where "MAX_DELTA = f64_div (f64_lit 32767 1) DELTA_SCALE"

definition send_entity_movement :: "session_env \<Rightarrow> entity_movement \<Rightarrow> unit session_op" where
  "send_entity_movement env m =
    (let dx = f64_sub (em_new_x m) (em_old_x m); dy = f64_sub (em_new_y m) (em_old_y m);
         dz = f64_sub (em_new_z m) (em_old_z m);
         pos_changed = (\<not> f64_eq dx 0 \<or> \<not> f64_eq dy 0 \<or> \<not> f64_eq dz 0);
         yaw_byte = degrees_to_angle_byte (em_new_yaw m);
         pitch_byte = degrees_to_angle_byte (em_new_pitch m)
     in if \<not> pos_changed then
          send_packet env (encode_move_entity_rot
            \<lparr>mer_entity_id = em_entity_id m, mer_yaw = yaw_byte, mer_pitch = pitch_byte, mer_on_ground = em_on_ground m\<rparr>)
        else if f64_lt MAX_DELTA (f64_abs dx) \<or> f64_lt MAX_DELTA (f64_abs dy) \<or> f64_lt MAX_DELTA (f64_abs dz) then
          send_packet env (encode_entity_teleport
            \<lparr>et_entity_id = em_entity_id m, et_x = em_new_x m, et_y = em_new_y m, et_z = em_new_z m,
             et_yaw = yaw_byte, et_pitch = pitch_byte, et_on_ground = em_on_ground m\<rparr>)
        else
          send_packet env (encode_move_entity_pos_rot
            \<lparr>mpr_entity_id = em_entity_id m, mpr_delta_x = f64_round_i16 (f64_mul dx DELTA_SCALE),
             mpr_delta_y = f64_round_i16 (f64_mul dy DELTA_SCALE), mpr_delta_z = f64_round_i16 (f64_mul dz DELTA_SCALE),
             mpr_yaw = yaw_byte, mpr_pitch = pitch_byte, mpr_on_ground = em_on_ground m\<rparr>))"

subsection \<open>The events of the tick loop\<close>

definition sync_to :: "session_env \<Rightarrow> f64bits \<Rightarrow> f64bits \<Rightarrow> f64bits \<Rightarrow> unit session_op" where
  "sync_to env x y z =
    st_bind (st_mod (\<lambda>s. s\<lparr>ses_last_x := x, ses_last_y := y, ses_last_z := z\<rparr>)) (\<lambda>_.
    st_bind take_teleport_id (\<lambda>teleport_id.
    send_packet env (encode_synchronize_player_position
      \<lparr>syn_x = x, syn_y = y, syn_z = z, syn_yaw = 0, syn_pitch = 0, syn_flags = 0x18, syn_teleport_id = teleport_id\<rparr>)))"

definition spawn_mob_packet :: "spawn_mob \<Rightarrow> spawn_entity" where
  "spawn_mob_packet m =
    (let yaw_b = degrees_to_angle_byte (spm_yaw m); pitch_b = degrees_to_angle_byte (spm_pitch m) in
     \<lparr>se_entity_id = spm_entity_id m, se_uuid = spm_uuid m, se_entity_type = spm_entity_type m,
      se_x = spm_x m, se_y = spm_y m, se_z = spm_z m, se_pitch = pitch_b, se_yaw = yaw_b, se_head_yaw = yaw_b,
      se_data = 0, se_velocity_x = 0, se_velocity_y = 0, se_velocity_z = 0\<rparr>)"

fun handle_event :: "session_env \<Rightarrow> nat \<Rightarrow> session_event \<Rightarrow> unit session_op" where
  "handle_event env now (KeepAlive_ev payload) = session_keep_alive env now payload"
| "handle_event env now (PlayerJoined_ev i u name gm x y z) =
    st_bind (send_player_info_add env u name gm) (\<lambda>_. send_spawn_player env i u x y z)"
| "handle_event env now (PlayerLeft_ev i u) =
    st_bind (send_player_info_remove env u) (\<lambda>_. send_remove_entities env i)"
| "handle_event env now (BlockUpdate_ev position b) = send_block_update env position b"
| "handle_event env now (ChunkBlockOverrides_ev overrides) =
    enc_all (map (\<lambda>(position, b). send_block_update env position b) overrides)"
| "handle_event env now (EntityMovement_ev m) = send_entity_movement env m"
| "handle_event env now (SetCenterChunk_ev cx cz) = send_set_center_chunk env cx cz"
| "handle_event env now (LoadChunk_ev cx cz) = send_single_chunk env cx cz"
| "handle_event env now (UnloadChunk_ev cx cz) =
    send_packet env (encode_unload_chunk \<lparr>uc_chunk_x = cx, uc_chunk_z = cz\<rparr>)"
| "handle_event env now (CombatDeath_ev i msg) =
    send_packet env (encode_combat_death \<lparr>cbd_player_id = i, cbd_message = msg\<rparr>)"
| "handle_event env now (SetBlockDestroyStage_ev i position stage) =
    send_packet env (encode_set_block_destroy_stage \<lparr>sbd_entity_id = i, sbd_position = position, sbd_destroy_stage = stage\<rparr>)"
| "handle_event env now (SetContainerContent_ev w state_id slots carried) =
    send_set_container_content env w state_id slots carried"
| "handle_event env now (SetContainerSlot_ev w state_id slot item) = send_set_container_slot env w state_id slot item"
| "handle_event env now (OpenScreen_ev w t title) =
    send_packet env (encode_open_screen \<lparr>os_window_id = w, os_window_type = t, os_title = title\<rparr>)"
| "handle_event env now (CloseContainer_ev w) = send_packet env (encode_close_container_clientbound \<lparr>cc_window_id = w\<rparr>)"
| "handle_event env now (SetHeldItemClientbound_ev slot) = send_packet env (encode_set_held_item \<lparr>shi_slot = slot\<rparr>)"
| "handle_event env now (SystemChat_ev content) = send_system_chat env content"
| "handle_event env now (SetHealth_ev health food saturation) = send_set_health env health food saturation"
| "handle_event env now (RespawnPlayer_ev r) =
    st_bind (st_mod (\<lambda>s. case dimension_parse_protocol (rsp_dimension_name r) of
        Some d \<Rightarrow> s\<lparr>ses_dimension := d\<rparr> | None \<Rightarrow> s)) (\<lambda>_.
    st_bind (send_respawn env r) (\<lambda>_.
    if \<not> rsp_defer_position_sync r then sync_to env (rsp_x r) (rsp_y r) (rsp_z r) else st_ret ()))"
| "handle_event env now (SynchronizePosition_ev x y z) = sync_to env x y z"
| "handle_event env now (SpawnMob_ev m) = send_packet env (encode_spawn_entity (spawn_mob_packet m))"
| "handle_event env now (RemoveEntities_ev ids) = send_packet env (encode_remove_entities \<lparr>re_entity_ids = ids\<rparr>)"

text \<open>The events that are there, each with the time it is handled at; the result says whether there were any.\<close>

fun poll_events :: "session_env \<Rightarrow> (nat \<times> session_event) list \<Rightarrow> bool session_op" where
  "poll_events env [] = st_ret False"
| "poll_events env ((now, ev) # evs) =
    st_bind (handle_event env now ev) (\<lambda>_. st_bind (poll_events env evs) (\<lambda>_. st_ret True))"

end
