(* ===== verification/Session_Run.thy ===== *)
theory Session_Run
  imports Session Connection_Run
begin

section \<open>A player's session: what it receives, and its loop (\<open>session.rs\<close>)\<close>

text \<open>
  The packets a client may send in play, what each tells the tick loop, and the play loop: poll the tick
  loop's events, check the keep-alive, take a packet off the buffer, or read. One pass of the loop is \<open>play_pass\<close>; its
  inputs, the events that are there, the times, and the outcome of a read, come from outside.
\<close>

subsection \<open>Packets from the client\<close>

definition f32_finite :: "f32bits \<Rightarrow> bool" where
  "f32_finite x \<longleftrightarrow> fl_exp 23 8 (unat x) \<noteq> 255"

definition is_finite_position :: "f64bits \<Rightarrow> f64bits \<Rightarrow> f64bits \<Rightarrow> bool" where
  "is_finite_position x y z \<longleftrightarrow> f64_finite x \<and> f64_finite y \<and> f64_finite z"

definition tell :: "tick_message \<Rightarrow> player_session \<Rightarrow> player_session" where
  "tell msg s = s\<lparr>ses_told := ses_told s @ [msg]\<rparr>"

definition digging_message :: "player_session \<Rightarrow> player_digging \<Rightarrow> tick_message option" where
  "digging_message s dig =
    (if ses_gamemode s = Creative \<and> pd_action dig = StartDestroy
     then Some (SetBlock_msg (Some (ses_entity_id s)) (pd_position dig) 0)
     else if ses_gamemode s \<noteq> Creative then
       (case pd_action dig of
          StartDestroy \<Rightarrow> Some (DigBlock_msg (ses_entity_id s) 0 (pd_position dig))
        | AbortDestroy \<Rightarrow> Some (DigBlock_msg (ses_entity_id s) 1 (pd_position dig))
        | StopDestroy \<Rightarrow> Some (DigBlock_msg (ses_entity_id s) 2 (pd_position dig))
        | _ \<Rightarrow> None)
     else None)"

text \<open>The result is the sequence number to acknowledge, if any.\<close>

definition handle_play_packet :: "nat \<Rightarrow> play_packet \<Rightarrow> i32 option session_op" where
  "handle_play_packet now packet s =
    (let i = ses_entity_id s in
     case packet of
       ConfirmTeleportation _ \<Rightarrow> (Inr None, s)
     | KeepAliveServerbound k \<Rightarrow>
       (Inr None, if ses_last_keep_alive_sent s \<noteq> None \<and> ka_payload k = ses_last_keep_alive_payload s
         then s\<lparr>ses_last_keep_alive_sent := None, ses_last_keep_alive_response := now\<rparr> else s)
     | ClientInformation ci \<Rightarrow> (Inr None, tell (SetClientViewDistance_msg i (ucast (ci_view_distance ci))) s)
     | SetPlayerPosition p \<Rightarrow>
       if \<not> is_finite_position (spp_x p) (spp_y p) (spp_z p) then (Inl InvalidPosition, s)
       else (Inr None, tell (PlayerPositionUpdate_msg i (spp_x p) (spp_y p) (spp_z p) (ses_last_yaw s) (ses_last_pitch s)
           (spp_on_ground p)) (s\<lparr>ses_last_x := spp_x p, ses_last_y := spp_y p, ses_last_z := spp_z p\<rparr>))
     | SetPlayerPositionAndRotation p \<Rightarrow>
       if \<not> is_finite_position (spr_x p) (spr_y p) (spr_z p) \<or> \<not> f32_finite (spr_yaw p) \<or> \<not> f32_finite (spr_pitch p)
       then (Inl InvalidPosition, s)
       else (Inr None, tell (PlayerPositionUpdate_msg i (spr_x p) (spr_y p) (spr_z p) (spr_yaw p) (spr_pitch p)
           (spr_on_ground p)) (s\<lparr>ses_last_x := spr_x p, ses_last_y := spr_y p, ses_last_z := spr_z p,
             ses_last_yaw := spr_yaw p, ses_last_pitch := spr_pitch p\<rparr>))
     | SetPlayerRotation r \<Rightarrow>
       if \<not> f32_finite (sro_yaw r) \<or> \<not> f32_finite (sro_pitch r) then (Inl InvalidPosition, s)
       else (Inr None, tell (PlayerPositionUpdate_msg i (ses_last_x s) (ses_last_y s) (ses_last_z s) (sro_yaw r) (sro_pitch r)
           (sro_on_ground r)) (s\<lparr>ses_last_yaw := sro_yaw r, ses_last_pitch := sro_pitch r\<rparr>))
     | PlayerDigging dig \<Rightarrow>
       (Inr (Some (pd_sequence dig)), case digging_message s dig of None \<Rightarrow> s | Some msg \<Rightarrow> tell msg s)
     | UseItemOn place \<Rightarrow>
       (Inr (Some (uio_sequence place)), tell (PlaceBlock_msg i (uio_position place) (ucast (uio_face place))) s)
     | ClickContainer click \<Rightarrow>
       (Inr None, tell (ClickContainer_msg i (clc_window_id click) (clc_state_id click) (clc_changed_slots click)
         (clc_cursor click)) s)
     | CloseContainerServerbound close \<Rightarrow> (Inr None, tell (CloseContainer_msg i (cc_window_id close)) s)
     | SetCreativeModeSlot creative \<Rightarrow> (Inr None, tell (SetCreativeSlot_msg i (scm_slot creative) (scm_item creative)) s)
     | SetHeldItemServerbound held \<Rightarrow> (Inr None, tell (SetHeldItem_msg i (shs_slot held)) s)
     | ChatMessageServerbound chat \<Rightarrow>
       (Inr None, tell (ChatMessage_msg i (ses_uuid s) (ses_username s) (cms_message chat)) s)
     | ClientStatus status \<Rightarrow> (Inr None, tell (ClientStatus_msg i (cs_action status)) s)
     | InteractEntity interact \<Rightarrow>
       (Inr None, tell (InteractEntity_msg i (ie_entity_id interact) (ie_action interact)) s)
     | _ \<Rightarrow> (Inl (SessUnexpectedPacket (- 1)), s))"

subsection \<open>Decoding\<close>

text \<open>The decoders in the order they are tried.\<close>

definition play_decoders :: "nat \<Rightarrow> (nat \<Rightarrow> (play_error, play_decode_outcome) decoder) list" where
  "play_decoders fuel =
    [decode_confirm_teleportation, decode_keep_alive_serverbound, decode_client_information, decode_set_player_position,
     decode_set_player_position_and_rotation, decode_set_player_rotation, decode_player_digging, decode_interact_entity,
     decode_use_item_on, decode_click_container fuel, decode_close_container_serverbound,
     decode_set_held_item_serverbound, decode_set_creative_mode_slot fuel, decode_chat_message_serverbound,
     decode_client_status]"

text \<open>
  A packet, more bytes needed or a frame skipped, or an error; with the buffer after it. A decoder that meets
  another packet's id leaves the input to the next one.
\<close>

fun try_decoders ::
  "nat \<Rightarrow> (nat \<Rightarrow> (play_error, play_decode_outcome) decoder) list \<Rightarrow> bytes \<Rightarrow> (session_error + play_packet option) \<times> bytes" where
  "try_decoders m [] source =
    (case decode_frame m source of
       (Inr (FrameComplete _), input) \<Rightarrow> (Inr None, drop (length source - length input) source)
     | (Inr FrameIncomplete, _) \<Rightarrow> (Inr None, source)
     | (Inl e, _) \<Rightarrow> (Inl (session_error_from_play (play_error_from_framing e)), source))"
| "try_decoders m (d # ds) source =
    (case d m source of
       (Inr (PlayComplete packet), input) \<Rightarrow> (Inr (Some packet), drop (length source - length input) source)
     | (Inr PlayIncomplete, _) \<Rightarrow> (Inr None, source)
     | (Inl (play_error.WrongPacketId _ _), _) \<Rightarrow> try_decoders m ds source
     | (Inl e, _) \<Rightarrow> (Inl (session_error_from_play e), source))"

definition try_decode_play_packet_inner :: "nat \<Rightarrow> nat \<Rightarrow> bytes \<Rightarrow> (session_error + play_packet option) \<times> bytes" where
  "try_decode_play_packet_inner fuel m buffer = try_decoders m (play_decoders fuel) buffer"

definition try_decode_play_packet ::
  "session_env \<Rightarrow> bytes \<Rightarrow> nat \<Rightarrow> i32 \<Rightarrow> (session_error + play_packet option) \<times> bytes" where
  "try_decode_play_packet env buffer m threshold =
    (if sint threshold < 0 then try_decode_play_packet_inner (sx_fuel env) m buffer
     else case decode_compressed_frame (sx_inflate env) threshold m buffer of
       (Inl e, _) \<Rightarrow> (Inl (SessPlay (play_error_from_compression e)), buffer)
     | (Inr CompressedIncomplete, _) \<Rightarrow> (Inr None, buffer)
     | (Inr (CompressedComplete p), input) \<Rightarrow>
       let rest = drop (length buffer - length input) buffer in
       case encode_frame (dp_packet_id p) (dp_payload p) m [] of
         (Inl e, _) \<Rightarrow> (Inl (SessPlay (play_error_from_framing e)), rest)
       | (Inr _, temp) \<Rightarrow> (fst (try_decode_play_packet_inner (sx_fuel env) m temp), rest))"

subsection \<open>The loop\<close>

text \<open>
  A pass is given the events that are there with their times, the time of the check, and what a read
  would give. \<open>StillRunning\<close>, the fuel of a decoder run out, is not an error of the code: the session hangs.
\<close>

record pass_input =
  pas_events :: "(nat \<times> session_event) list"
  pas_now :: nat
  pas_read :: read_event

datatype pass_result = Passed player_session bytes | Stopped session_error player_session | Hanging player_session

definition take_packet :: "session_env \<Rightarrow> session_config \<Rightarrow> pass_input \<Rightarrow> bytes \<Rightarrow> player_session \<Rightarrow> pass_result" where
  "take_packet env config inp buffer s =
    (case try_decode_play_packet env buffer (sc_max_frame_length config) (sc_compression_threshold config) of
       (Inr (Some packet), buffer) \<Rightarrow>
         (case handle_play_packet (pas_now inp) packet s of
            (Inr (Some ack_sequence), s) \<Rightarrow>
              (case send_acknowledge_block_change env ack_sequence s of
                 (Inl e, s) \<Rightarrow> Stopped e s | (Inr _, s) \<Rightarrow> Passed s buffer)
          | (Inr None, s) \<Rightarrow> Passed s buffer
          | (Inl e, s) \<Rightarrow> Stopped e
              (case e of InvalidPosition \<Rightarrow> send_disconnect env (ascii ''Invalid position'') s
               | SessUnexpectedPacket _ \<Rightarrow> send_disconnect env (ascii ''Unexpected packet'') s
               | _ \<Rightarrow> s))
     | (Inr None, buffer) \<Rightarrow>
         (case pas_read inp of
            ReadBytes [] \<Rightarrow> Stopped SessDisconnected s
          | ReadBytes bs \<Rightarrow> Passed s (buffer @ bs)
          | ReadRetry \<Rightarrow> Passed s buffer
          | ReadFail e \<Rightarrow> Stopped (SessIo (snd e)) s)
     | (Inl e, _) \<Rightarrow>
         if e = SessPlay StillRunning then Hanging s
         else Stopped e (send_disconnect env (ascii ''Protocol error'') s))"

definition play_pass :: "session_env \<Rightarrow> session_config \<Rightarrow> pass_input \<Rightarrow> bytes \<Rightarrow> player_session \<Rightarrow> pass_result" where
  "play_pass env config inp buffer s =
    (case poll_events env (pas_events inp) s of
       (Inl e, s) \<Rightarrow> Stopped e s
     | (Inr _, s) \<Rightarrow>
       if is_keep_alive_timed_out (pas_now inp) s
       then Stopped KeepAliveTimeout (send_disconnect env (ascii ''Timed out (no KeepAlive response)'') s)
       else take_packet env config inp buffer s)"

fun play_passes :: "session_env \<Rightarrow> session_config \<Rightarrow> pass_input list \<Rightarrow> bytes \<Rightarrow> player_session \<Rightarrow> pass_result" where
  "play_passes env config [] buffer s = Passed s buffer"
| "play_passes env config (inp # inps) buffer s =
    (case play_pass env config inp buffer s of
       Passed s buffer \<Rightarrow> play_passes env config inps buffer s | r \<Rightarrow> r)"

text \<open>\<open>shutdown\<close>, which \<open>drop\<close> calls.\<close>

definition session_shutdown :: "player_session \<Rightarrow> player_session" where
  "session_shutdown s = tell (PlayerLeft_msg (ses_entity_id s)) s"

definition play_handshake :: "session_env \<Rightarrow> unit session_op" where
  "play_handshake env =
    st_bind (send_join_game env) (\<lambda>_. st_bind (send_join_sequence env) (\<lambda>_. st_bind (send_initial_chunks env 2) (\<lambda>_.
    st_bind (send_synchronize_position env) (\<lambda>_. st_ret ()))))"

text \<open>
  What became of a session: it never was one, it is over with an error and has told the tick loop so, it
  hangs, or it goes on, as far as the inputs go.
\<close>

datatype play_outcome = NoSession session_error | SessionOver session_error player_session | SessionHangs player_session
  | SessionOn player_session bytes

definition run_play_loop ::
  "session_env \<Rightarrow> session_config \<Rightarrow> i32 \<Rightarrow> channel \<Rightarrow> nat \<Rightarrow> pass_input list \<Rightarrow> play_outcome" where
  "run_play_loop env config entity_id event_tx now inps =
    (case sx_timeout_fails env of Some e \<Rightarrow> NoSession (SessIo e)
     | None \<Rightarrow>
     (case session_new env config entity_id event_tx now of
        Inl e \<Rightarrow> NoSession e
      | Inr s \<Rightarrow>
        (case play_handshake env s of
           (Inl e, s) \<Rightarrow> SessionOver e (session_shutdown s)
         | (Inr _, s) \<Rightarrow>
           (case play_passes env config inps [] s of
              Passed s buffer \<Rightarrow> SessionOn s buffer
            | Stopped e s \<Rightarrow> SessionOver e (session_shutdown s)
            | Hanging s \<Rightarrow> SessionHangs s))))"

subsection \<open>Entity ids\<close>

text \<open>\<open>EntityIdAllocator\<close>: a shared counter; its clones share it.\<close>

definition entity_id_allocator_default :: i32 where "entity_id_allocator_default = 1"

definition allocate_id :: "i32 \<Rightarrow> i32 \<times> i32" where
  "allocate_id counter = (counter, counter + 1)"

end
