(* ===== verification/Session_Dispatch.thy ===== *)
theory Session_Dispatch
  imports Session_Run
begin

section \<open>What a session does with a frame (\<open>session.rs\<close>)\<close>

text \<open>
  The session finds the decoder of a packet by trying fifteen of them in a row, each of which starts from the
  length prefix again. That is a dispatch on the packet id of one frame: the table below is the reference. From it
  follows that every packet a client may send reaches its handler as it was sent.
\<close>

subsection \<open>A decoder that refuses only other packets\<close>

definition wrong_id :: "play_error \<Rightarrow> bool" where
  "wrong_id e = (case e of play_error.WrongPacketId _ _ \<Rightarrow> True | _ \<Rightarrow> False)"

definition own_errors :: "(play_error, 'a) decoder \<Rightarrow> bool" where
  "own_errors d \<longleftrightarrow> (\<forall>bs e rest. d bs = (Inl e, rest) \<longrightarrow> \<not> wrong_id e)"

named_theorems own_intros

lemma own_errorsI: "(\<And>bs e rest. d bs = (Inl e, rest) \<Longrightarrow> \<not> wrong_id e) \<Longrightarrow> own_errors d"
  by (simp add: own_errors_def)

lemma own_errorsD: "own_errors d \<Longrightarrow> d bs = (Inl e, rest) \<Longrightarrow> \<not> wrong_id e"
  by (auto simp: own_errors_def)

lemma wrong_id_conversions [simp]:
  "\<not> wrong_id (play_error_from_codec c)" "\<not> wrong_id (play_error_from_nbt n)" "\<not> wrong_id (play_error_from_framing f)"
  by (auto simp: wrong_id_def play_error_from_codec_def play_error_from_nbt_def play_error_from_framing_def
      split: codec_error.splits nbt_error.splits framing_error.splits)

lemma own_errors_conv [own_intros]:
  "own_errors (play_codec p)" "own_errors (play_nbt q)"
  by (auto simp: own_errors_def st_map_err_def split: prod.splits sum.splits)

lemma own_errors_ret [own_intros]: "own_errors (st_ret a)"
  by (simp add: own_errors_def)

lemma own_errors_bind [own_intros]: "own_errors d \<Longrightarrow> (\<And>a. own_errors (f a)) \<Longrightarrow> own_errors (st_bind d f)"
  by (auto simp: own_errors_def st_bind_def split: prod.splits sum.splits)

lemma own_errors_fail [own_intros]: "own_errors (st_fail (play_error.Codec c))"
  by (simp add: own_errors_def st_fail_def wrong_id_def)

lemma own_errors_if [own_intros]: "own_errors a \<Longrightarrow> own_errors b \<Longrightarrow> own_errors (if c then a else b)"
  by simp

lemma own_errors_option [own_intros]:
  "own_errors a \<Longrightarrow> (\<And>x. own_errors (b x)) \<Longrightarrow> own_errors (case v of None \<Rightarrow> a | Some x \<Rightarrow> b x)"
  by (cases v) simp_all

lemma own_errors_times [own_intros]: "own_errors d \<Longrightarrow> own_errors (dec_times n d)"
  by (induction n) (auto intro!: own_intros)

lemma own_errors_enum [own_intros]: "own_errors (play_enum d from_wire)"
  unfolding play_enum_def by (intro own_intros)

text \<open>The fields of every packet a client may send.\<close>

lemmas serverbound_fields = confirm_teleportation_fields_def keep_alive_fields_def client_information_fields_def
  set_player_position_fields_def set_player_position_and_rotation_fields_def set_player_rotation_fields_def
  player_digging_fields_def interact_entity_fields_def use_item_on_fields_def click_container_fields_def
  changed_slot_fields_def decode_slot_list_def close_container_fields_def set_held_item_serverbound_fields_def
  set_creative_mode_slot_fields_def client_status_fields_def

lemma own_errors_fields [simp]:
  "own_errors confirm_teleportation_fields" "own_errors keep_alive_fields" "own_errors client_information_fields"
  "own_errors set_player_position_fields" "own_errors set_player_position_and_rotation_fields"
  "own_errors set_player_rotation_fields" "own_errors player_digging_fields" "own_errors interact_entity_fields"
  "own_errors use_item_on_fields" "own_errors (click_container_fields fuel)" "own_errors close_container_fields"
  "own_errors set_held_item_serverbound_fields" "own_errors (set_creative_mode_slot_fields fuel)"
  "own_errors client_status_fields"
  unfolding serverbound_fields by (intro own_intros)+

subsection \<open>The table\<close>

type_synonym payload_parser = "bytes \<Rightarrow> play_error + play_packet"

abbreviation fields_parser :: "(play_error, 'a) decoder \<Rightarrow> ('a \<Rightarrow> play_packet) \<Rightarrow> payload_parser" where
  "fields_parser reader con \<equiv> \<lambda>payload. map_sum id con (decode_exact play_error.TrailingBytes reader payload)"

text \<open>A chat message is the only packet whose trailing bytes are not looked at.\<close>

definition chat_parser :: payload_parser where
  "chat_parser payload =
    (case decode_string 256 payload of
       (Inl e, _) \<Rightarrow> Inl (play_error.Codec e)
     | (Inr message, _) \<Rightarrow> Inr (ChatMessageServerbound \<lparr>cms_message = message\<rparr>))"

definition serverbound_table :: "nat \<Rightarrow> (i32 \<times> payload_parser) list" where
  "serverbound_table fuel =
    [(0x00, fields_parser confirm_teleportation_fields ConfirmTeleportation),
     (0x12, fields_parser keep_alive_fields KeepAliveServerbound),
     (0x08, fields_parser client_information_fields ClientInformation),
     (0x14, fields_parser set_player_position_fields SetPlayerPosition),
     (0x15, fields_parser set_player_position_and_rotation_fields SetPlayerPositionAndRotation),
     (0x16, fields_parser set_player_rotation_fields SetPlayerRotation),
     (0x1D, fields_parser player_digging_fields PlayerDigging),
     (0x10, fields_parser interact_entity_fields InteractEntity),
     (0x31, fields_parser use_item_on_fields UseItemOn),
     (0x0B, fields_parser (click_container_fields fuel) ClickContainer),
     (0x0C, fields_parser close_container_fields CloseContainerServerbound),
     (0x28, fields_parser set_held_item_serverbound_fields SetHeldItemServerbound),
     (0x2B, fields_parser (set_creative_mode_slot_fields fuel) SetCreativeModeSlot),
     (0x05, chat_parser),
     (0x07, fields_parser client_status_fields ClientStatus)]"

definition dispatch_frame ::
  "(i32 \<times> payload_parser) list \<Rightarrow> nat \<Rightarrow> bytes \<Rightarrow> (session_error + play_packet option) \<times> bytes" where
  "dispatch_frame table m source =
    (case decode_frame m source of
       (Inl e, _) \<Rightarrow> (Inl (SessPlay (play_error_from_framing e)), source)
     | (Inr FrameIncomplete, _) \<Rightarrow> (Inr None, source)
     | (Inr (FrameComplete f), rest) \<Rightarrow>
       (case map_of table (pf_packet_id f) of
          None \<Rightarrow> (Inr None, rest)
        | Some parse \<Rightarrow>
          (case parse (pf_payload f) of
             Inl e \<Rightarrow> (Inl (SessPlay e), source)
           | Inr packet \<Rightarrow> (Inr (Some packet), rest))))"

lemma list_all2_in_left: "list_all2 P xs ys \<Longrightarrow> x \<in> set xs \<Longrightarrow> \<exists>y \<in> set ys. P x y"
  by (induction rule: list_all2_induct) auto

text \<open>A decoder of the chain stands for a row of the table.\<close>

definition stands_for :: "(nat \<Rightarrow> (play_error, play_decode_outcome) decoder) \<Rightarrow> i32 \<times> payload_parser \<Rightarrow> bool" where
  "stands_for d row \<longleftrightarrow>
    (\<forall>m source. d m source =
      (case decode_frame m source of
         (Inl e, _) \<Rightarrow> (Inl (play_error_from_framing e), source)
       | (Inr FrameIncomplete, _) \<Rightarrow> (Inr PlayIncomplete, source)
       | (Inr (FrameComplete f), rest) \<Rightarrow>
         if pf_packet_id f \<noteq> fst row then (Inl (play_error.WrongPacketId (pf_packet_id f) (fst row)), source)
         else (case snd row (pf_payload f) of Inl e \<Rightarrow> (Inl e, source) | Inr p \<Rightarrow> (Inr (PlayComplete p), rest))))
    \<and> (\<forall>payload e. snd row payload = Inl e \<longrightarrow> \<not> wrong_id e)"

lemma stands_for_fields:
  assumes "\<And>m. d m = decode_play_fields pid reader con m" and "own_errors reader"
  shows "stands_for d (pid, fields_parser reader con)"
  using assms
  by (auto simp: stands_for_def decode_packet_def parse_fields_def decode_exact_def wrong_id_def
      dest: own_errorsD split: prod.splits sum.splits decode_outcome.splits)

lemma stands_for_chat: "stands_for decode_chat_message_serverbound (CHAT_MESSAGE_SERVERBOUND_PACKET_ID, chat_parser)"
  by (auto simp: stands_for_def decode_chat_message_serverbound_def decode_packet_def parse_chat_message_def
      chat_parser_def wrong_id_def split: prod.splits sum.splits decode_outcome.splits)

lemma try_decoders_dispatch:
  assumes "list_all2 stands_for ds table"
  shows "try_decoders m ds source = dispatch_frame table m source"
  using assms
proof (induction rule: list_all2_induct)
  case Nil
  then show ?case
    by (auto simp: dispatch_frame_def session_error_from_play_def split: prod.splits sum.splits decode_outcome.splits
        dest!: frame.consumes_prefix)
next
  case (Cons d ds row table)
  show ?case
  proof (cases "decode_frame m source")
    case (Pair r rest)
    then show ?thesis
      using Cons.hyps Cons.IH
      by (auto simp: stands_for_def dispatch_frame_def session_error_from_play_def wrong_id_def
          split: prod.splits sum.splits decode_outcome.splits play_error.splits dest: frame.consumes_prefix)
  qed
qed

lemmas serverbound_decoders = decode_confirm_teleportation_def decode_keep_alive_serverbound_def decode_keep_alive_def
  decode_client_information_def decode_set_player_position_def decode_set_player_position_and_rotation_def
  decode_set_player_rotation_def decode_player_digging_def decode_interact_entity_def decode_use_item_on_def
  decode_click_container_def decode_close_container_serverbound_def decode_set_held_item_serverbound_def
  decode_set_creative_mode_slot_def decode_client_status_def

lemmas serverbound_ids = CONFIRM_TELEPORTATION_PACKET_ID_def KEEP_ALIVE_SERVERBOUND_PACKET_ID_def
  CLIENT_INFORMATION_PACKET_ID_def SET_PLAYER_POSITION_PACKET_ID_def SET_PLAYER_POSITION_AND_ROTATION_PACKET_ID_def
  SET_PLAYER_ROTATION_PACKET_ID_def PLAYER_DIGGING_PACKET_ID_def INTERACT_ENTITY_PACKET_ID_def USE_ITEM_ON_PACKET_ID_def
  CLICK_CONTAINER_PACKET_ID_def CLOSE_CONTAINER_SERVERBOUND_PACKET_ID_def SET_HELD_ITEM_SERVERBOUND_PACKET_ID_def
  SET_CREATIVE_MODE_SLOT_PACKET_ID_def CHAT_MESSAGE_SERVERBOUND_PACKET_ID_def CLIENT_STATUS_PACKET_ID_def

lemma chain_stands_for_table: "list_all2 stands_for (play_decoders fuel) (serverbound_table fuel)"
  unfolding play_decoders_def serverbound_table_def
  using stands_for_chat
  by (simp add: CHAT_MESSAGE_SERVERBOUND_PACKET_ID_def)
    (intro conjI stands_for_fields own_errors_fields; simp add: serverbound_decoders serverbound_ids)

text \<open>
  The chain of decoders is a dispatch on the packet id of one frame: a frame with the id of a packet a
  client may send is parsed as that packet, with its parser's error if there is one; a frame with any other id is
  taken off the buffer and dropped; a broken or incomplete frame stays where it is. No decoder ever sees, or hides the
  error of, another packet's frame.
\<close>

theorem packets_dispatch_on_id:
  "try_decode_play_packet_inner fuel m buffer = dispatch_frame (serverbound_table fuel) m buffer"
  unfolding try_decode_play_packet_inner_def by (rule try_decoders_dispatch [OF chain_stands_for_table])

subsection \<open>From the client's encoder to the handler\<close>

text \<open>The packets of the chain for which the protocol crate has an encoder as well.\<close>

definition serverbound :: "play_packet \<Rightarrow> bool" where
  "serverbound p = (case p of
      ConfirmTeleportation _ \<Rightarrow> True | KeepAliveServerbound _ \<Rightarrow> True | ClientInformation _ \<Rightarrow> True
    | SetPlayerPosition _ \<Rightarrow> True | SetPlayerPositionAndRotation _ \<Rightarrow> True | SetPlayerRotation _ \<Rightarrow> True
    | PlayerDigging _ \<Rightarrow> True | UseItemOn _ \<Rightarrow> True | ClickContainer _ \<Rightarrow> True
    | CloseContainerServerbound _ \<Rightarrow> True | _ \<Rightarrow> False)"

lemma serverbound_row:
  assumes "serverbound p"
  shows "\<exists>row \<in> set (serverbound_table fuel). stands_for (play_decoder fuel p) row"
proof -
  have "play_decoder fuel p \<in> set (play_decoders fuel)"
    using assms by (simp add: serverbound_def play_decoder_def play_decoders_def split: play_packet.splits)
  then show ?thesis
    using list_all2_in_left [OF chain_stands_for_table] by blast
qed

lemma table_lookup: "row \<in> set (serverbound_table fuel) \<Longrightarrow> map_of (serverbound_table fuel) (fst row) = Some (snd row)"
  by (rule map_of_is_SomeI) (simp_all add: serverbound_table_def)

lemma stands_for_complete:
  assumes "stands_for d row" "d m source = (Inr (PlayComplete p), rest)"
  shows "\<exists>f. decode_frame m source = (Inr (FrameComplete f), rest) \<and> pf_packet_id f = fst row
    \<and> snd row (pf_payload f) = Inr p"
  using assms by (auto simp: stands_for_def split: prod.splits sum.splits decode_outcome.splits if_splits)

lemmas serverbound_roundtrips = keep_alive_serverbound.roundtrip set_player_position.roundtrip
  set_player_position_and_rotation.roundtrip set_player_rotation.roundtrip confirm_teleportation.roundtrip
  client_information.roundtrip player_digging.roundtrip use_item_on.roundtrip click_container.roundtrip
  close_container_serverbound.roundtrip

lemmas serverbound_encoders = encode_confirm_teleportation_def encode_keep_alive_serverbound_def
  encode_client_information_def encode_set_player_position_def encode_set_player_position_and_rotation_def
  encode_set_player_rotation_def encode_player_digging_def encode_use_item_on_def encode_click_container_def
  encode_close_container_serverbound_def

lemma serverbound_cases [consumes 1]:
  assumes "serverbound p"
  obtains q where "p = ConfirmTeleportation q" | q where "p = KeepAliveServerbound q" | q where "p = ClientInformation q"
    | q where "p = SetPlayerPosition q" | q where "p = SetPlayerPositionAndRotation q" | q where "p = SetPlayerRotation q"
    | q where "p = PlayerDigging q" | q where "p = UseItemOn q" | q where "p = ClickContainer q"
    | q where "p = CloseContainerServerbound q"
  using assms by (cases p) (simp_all add: serverbound_def)

lemma serverbound_reads_back:
  assumes "serverbound p" "play_packet_ok fuel p" "play_encoder p m [] = (Inr u, w)"
  shows "play_decoder fuel p m (w @ rest) = (Inr (PlayComplete p), rest)"
  using assms
  by (cases rule: serverbound_cases) (simp_all add: play_encoder_def play_decoder_def play_packet_ok_def serverbound_roundtrips)

text \<open>The body of a packet's frame.\<close>

lemma serverbound_body:
  assumes "serverbound p" "play_encoder p m [] = (Inr u, w)"
  shows "\<exists>pid b. w = frame_bytes pid b \<and> var_int_length pid + length b \<le> effective_max_length m"
  using assms
  by (cases rule: serverbound_cases) (auto simp: play_encoder_def serverbound_encoders encode_packet_Inr)

lemma serverbound_frame:
  assumes "serverbound p" "play_packet_ok fuel p" "play_encoder p m [] = (Inr u, w)"
  shows "\<exists>f parse. (\<forall>rest. decode_frame m (w @ rest) = (Inr (FrameComplete f), rest))
    \<and> map_of (serverbound_table fuel) (pf_packet_id f) = Some parse \<and> parse (pf_payload f) = Inr p"
proof -
  from serverbound_row [OF assms(1)] obtain row where row: "row \<in> set (serverbound_table fuel)"
    and d: "stands_for (play_decoder fuel p) row" by blast
  have dec: "play_decoder fuel p m (w @ rest) = (Inr (PlayComplete p), rest)" for rest
    by (rule serverbound_reads_back [OF assms])
  from stands_for_complete [OF d dec [of "[]"]] obtain f
    where f: "decode_frame m (w @ []) = (Inr (FrameComplete f), [])" "pf_packet_id f = fst row"
      "snd row (pf_payload f) = Inr p" by blast
  have "decode_frame m (w @ rest) = (Inr (FrameComplete f), rest)" for rest
    using frame_stable.stable [where a = w and b = rest and m = m] f(1) by fastforce
  then show ?thesis using f table_lookup [OF row] by auto
qed

text \<open>A client that has the environment's zlib writes a packet as the protocol says.\<close>

definition client_wire :: "session_env \<Rightarrow> i32 \<Rightarrow> nat \<Rightarrow> play_packet \<Rightarrow> bytes option" where
  "client_wire env threshold m p =
    (case play_encoder p m [] of
       (Inr _, w) \<Rightarrow>
       (case decode_frame m w of
          (Inr (FrameComplete f), _) \<Rightarrow>
          (case encode_compressed_frame (sx_deflate env) (pf_packet_id f) (pf_payload f) threshold m [] of
             (Inr _, w) \<Rightarrow> Some w | _ \<Rightarrow> None)
        | _ \<Rightarrow> None)
     | _ \<Rightarrow> None)"

definition zlib_ok :: "session_env \<Rightarrow> bool" where
  "zlib_ok env \<longleftrightarrow> (\<forall>b. zlib_reads_back (sx_deflate env) (sx_inflate env) b)"

lemma compressible_packet:
  assumes "zlib_ok env" "var_int_length pid + length payload \<le> effective_max_length m"
  shows "compressible (sx_deflate env) (sx_inflate env) \<lparr>dp_packet_id = pid, dp_payload = payload\<rparr>"
  using assms effective_max_le(1) [of m]
  by (simp add: compressible_def zlib_ok_def Let_def MAX_DECOMPRESSED_SIZE_def PROTOCOL_MAX_FRAME_LENGTH_def var_int_length_correct)

lemma try_decode_client_wire:
  assumes "serverbound p" "play_packet_ok (sx_fuel env) p" "zlib_ok env" "client_wire env threshold m p = Some w"
  shows "try_decode_play_packet env (w @ rest) m threshold = (Inr (Some p), rest)"
proof -
  from assms(4) obtain u w0 f rest0 v where w0: "play_encoder p m [] = (Inr u, w0)"
    and f: "decode_frame m w0 = (Inr (FrameComplete f), rest0)"
    and w: "encode_compressed_frame (sx_deflate env) (pf_packet_id f) (pf_payload f) threshold m [] = (Inr v, w)"
    by (auto simp: client_wire_def split: prod.splits sum.splits decode_outcome.splits)
  from serverbound_frame [OF assms(1,2) w0] obtain g parse
    where g: "\<And>rest. decode_frame m (w0 @ rest) = (Inr (FrameComplete g), rest)"
      and row: "map_of (serverbound_table (sx_fuel env)) (pf_packet_id g) = Some parse" "parse (pf_payload g) = Inr p" by blast
  have fg: "f = g" using f g [of "[]"] by simp
  from serverbound_body [OF assms(1) w0] obtain pid b where b: "w0 = frame_bytes pid b"
    and fits: "var_int_length pid + length b \<le> effective_max_length m" by blast
  have reread: "decode_frame m (frame_bytes pid b @ rest) = (Inr (FrameComplete \<lparr>pf_packet_id = pid, pf_payload = b\<rparr>), rest)" for rest
    by (rule decode_frame_bytes [OF fits])
  have fb: "f = \<lparr>pf_packet_id = pid, pf_payload = b\<rparr>" using f reread [of "[]"] b by simp
  note dispatch = try_decode_play_packet_inner_def try_decoders_dispatch [OF chain_stands_for_table]
  have temp: "encode_frame pid b m [] = (Inr (), frame_bytes pid b)"
    using fits by (simp add: encode_frame_Inr)
  show ?thesis
  proof (cases "sint threshold < 0")
    case True
    then have "w = frame_bytes pid b"
      using w by (simp add: fb encode_compressed_frame_def encode_frame_Inr)
    then show ?thesis using True row
      by (simp add: try_decode_play_packet_def dispatch dispatch_frame_def reread fg [symmetric] fb)
  next
    case False
    have "decode_compressed_frame (sx_inflate env) threshold m (w @ rest) =
        (Inr (CompressedComplete \<lparr>dp_packet_id = pid, dp_payload = b\<rparr>), rest)"
      using compressed.roundtrip [OF compressible_packet [OF assms(3) fits]] w by (simp add: fb)
    then show ?thesis using False row reread [of "[]"]
      by (simp add: try_decode_play_packet_def temp dispatch dispatch_frame_def fg [symmetric] fb)
  qed
qed

lemma try_decode_client_wire_cut:
  assumes "serverbound p" "zlib_ok env" "client_wire env threshold m p = Some w" "n < length w"
  shows "try_decode_play_packet env (take n w) m threshold = (Inr None, take n w)"
proof -
  from assms(3) obtain u w0 f rest0 v where w0: "play_encoder p m [] = (Inr u, w0)"
    and f: "decode_frame m w0 = (Inr (FrameComplete f), rest0)"
    and w: "encode_compressed_frame (sx_deflate env) (pf_packet_id f) (pf_payload f) threshold m [] = (Inr v, w)"
    by (auto simp: client_wire_def split: prod.splits sum.splits decode_outcome.splits)
  from serverbound_body [OF assms(1) w0] obtain pid b where b: "w0 = frame_bytes pid b"
    and fits: "var_int_length pid + length b \<le> effective_max_length m" by blast
  have fb: "f = \<lparr>pf_packet_id = pid, pf_payload = b\<rparr>"
    using f decode_frame_bytes [OF fits, of "[]"] b by simp
  show ?thesis
  proof (cases "sint threshold < 0")
    case True
    then have "frame_bytes pid b = take n w @ drop n w"
      using w by (simp add: fb encode_compressed_frame_def encode_frame_Inr)
    then have "decode_frame m (take n w) = (Inr FrameIncomplete, take n w)"
      by (rule decode_frame_truncated [OF fits]) (use assms(4) in simp)
    then show ?thesis using True
      by (simp add: try_decode_play_packet_def try_decode_play_packet_inner_def
          try_decoders_dispatch [OF chain_stands_for_table] dispatch_frame_def)
  next
    case False
    have "decode_compressed_frame (sx_inflate env) threshold m (take n w) = (Inr CompressedIncomplete, take n w)"
      using compressed.wire [OF compressible_packet [OF assms(2) fits], where t = threshold and m = m and out = "[]" and n = n]
        w assms(4) by (simp add: fb)
    then show ?thesis using False by (simp add: try_decode_play_packet_def)
  qed
qed

text \<open>
  C8: A client's packet reaches the session. Take one of the ten packets a client sends for which the protocol crate has an
  encoder (confirmed teleport, keep-alive, settings, the three forms of a move, digging, using an item on a block, a click
  in a container and closing it), accepted by that encoder and written in the format of the connection, with or without
  compression, by a zlib whose output inflates back. As long as only a part of it has arrived, the session
  waits and keeps the part. If the wire form can carry the packet (\<open>play_packet_ok\<close>: UTF-8 settings, positions in range,
  clicks with at most 256 changed slots and items without NBT or with NBT free of byte arrays, and enough steps for the walk
  over it), the session decodes the same packet, at the front of whatever the client has sent after it.
\<close>

theorem packets_reach_the_session:
  assumes "serverbound p" "zlib_ok env" "client_wire env threshold m p = Some w"
  shows "(n < length w \<longrightarrow> try_decode_play_packet env (take n w) m threshold = (Inr None, take n w))
    \<and> (play_packet_ok (sx_fuel env) p \<longrightarrow> try_decode_play_packet env (w @ rest) m threshold = (Inr (Some p), rest))"
  using try_decode_client_wire [OF assms(1) _ assms(2,3), of rest] try_decode_client_wire_cut [OF assms, of n] by blast

definition mirror_zlib :: session_env where
  "mirror_zlib = \<lparr>sx_deflate = \<lambda>b. Inr (rev b), sx_inflate = \<lambda>b. Inr (rev b), sx_registry_codec = [10, 0, 0, 0],
    sx_write_fails = \<lambda>_ _. None, sx_timeout_fails = None, sx_tick_gone = False, sx_fuel = 64\<rparr>"

lemma mirrored_confirmation: "client_wire mirror_zlib 1 64 (ConfirmTeleportation \<lparr>ct_teleport_id = 7\<rparr>) = Some [3, 2, 7, 0]"
proof -
  have "run_body (enc_all [st_mod (encode_var_int 7)]) = (Inr [7] :: play_error + bytes)"
    by (simp add: packet_eval)
  then have enc: "play_encoder (ConfirmTeleportation \<lparr>ct_teleport_id = 7\<rparr>) 64 [] = (Inr (), frame_bytes 0 [7])"
    by (simp add: play_encoder_def encode_confirm_teleportation_def confirm_teleportation_body_def encode_packet_Inr
        CONFIRM_TELEPORTATION_PACKET_ID_def var_int_length_def effective_max_length_def PROTOCOL_MAX_FRAME_LENGTH_def)
  have dec: "decode_frame 64 (frame_bytes 0 [7]) = (Inr (FrameComplete \<lparr>pf_packet_id = 0, pf_payload = [7]\<rparr>), [])"
    using decode_frame_bytes [where pid = 0 and payload = "[7]" and m = 64 and rest = "[]"]
    by (simp add: var_int_length_def effective_max_length_def PROTOCOL_MAX_FRAME_LENGTH_def)
  have "encode_compressed_frame (sx_deflate mirror_zlib) 0 [7] 1 64 [] = (Inr (), [3, 2, 7, 0])"
    by (simp add: encode_compressed_frame_def compressed_body_def packet_eval usize_of_i32_def encode_raw_frame_def
        mirror_zlib_def)
  then show ?thesis by (simp add: client_wire_def enc dec)
qed

theorem packets_reach_the_session_witness:
  "try_decode_play_packet mirror_zlib [3, 2, 7, 0, 1, 2] 64 1 = (Inr (Some (ConfirmTeleportation \<lparr>ct_teleport_id = 7\<rparr>)), [1, 2])
   \<and> try_decode_play_packet mirror_zlib [3, 2, 7] 64 1 = (Inr None, [3, 2, 7])"
proof -
  let ?p = "ConfirmTeleportation \<lparr>ct_teleport_id = 7\<rparr>"
  have "serverbound ?p" "play_packet_ok (sx_fuel mirror_zlib) ?p" "zlib_ok mirror_zlib"
    by (simp_all add: serverbound_def play_packet_ok_def zlib_ok_def zlib_reads_back_def mirror_zlib_def)
  with packets_reach_the_session [OF this(1,3) mirrored_confirmation, of 3 "[1, 2]"] show ?thesis by simp
qed

end
