(* ===== verification/Session_Safety.thy ===== *)
theory Session_Safety
  imports Session_Dispatch
begin

section \<open>What a session may tell the tick loop (\<open>session.rs\<close>)\<close>

text \<open>
  The tick loop believes its messages: it looks players up by the entity id in them and takes positions as they
  are. That is safe because a session only speaks for its own player. The invariant of a session is carried through its
  operations by a locale: whatever does not depend on what was written, on teleport ids, on the keep-alive and on the
  dimension is kept by everything a session sends.
\<close>

subsection \<open>Operations that keep a property of the session\<close>

definition keeps :: "(player_session \<Rightarrow> bool) \<Rightarrow> 'a session_op \<Rightarrow> bool" where
  "keeps I m \<longleftrightarrow> (\<forall>s. I s \<longrightarrow> I (snd (m s)))"

named_theorems keeps_intros

lemma keepsI: "(\<And>s. I s \<Longrightarrow> I (snd (m s))) \<Longrightarrow> keeps I m"
  by (simp add: keeps_def)

lemma keepsD: "keeps I m \<Longrightarrow> I s \<Longrightarrow> I (snd (m s))"
  by (simp add: keeps_def)

lemma keeps_result: "keeps I m \<Longrightarrow> I s \<Longrightarrow> m s = (r, s') \<Longrightarrow> I s'"
  using keepsD [of I m s] by simp

lemma keeps_ret [keeps_intros]: "keeps I (st_ret a)"
  by (simp add: keeps_def)

lemma keeps_bind [keeps_intros]: "keeps I m \<Longrightarrow> (\<And>a. keeps I (f a)) \<Longrightarrow> keeps I (st_bind m f)"
  by (auto simp: keeps_def st_bind_def split: prod.splits sum.splits)

lemma keeps_mod [keeps_intros]: "(\<And>s. I s \<Longrightarrow> I (h s)) \<Longrightarrow> keeps I (st_mod h)"
  by (simp add: keeps_def)

lemma keeps_all [keeps_intros]: "(\<And>m. m \<in> set ms \<Longrightarrow> keeps I m) \<Longrightarrow> keeps I (enc_all ms)"
  by (induction ms) (auto intro!: keeps_intros)

lemma keeps_if [keeps_intros]: "keeps I a \<Longrightarrow> keeps I b \<Longrightarrow> keeps I (if c then a else b)"
  by simp

text \<open>Positions in the events of the tick loop.\<close>

definition event_finite :: "session_event \<Rightarrow> bool" where
  "event_finite ev = (case ev of
      SynchronizePosition_ev x y z \<Rightarrow> is_finite_position x y z
    | RespawnPlayer_ev r \<Rightarrow> rsp_defer_position_sync r \<or> is_finite_position (rsp_x r) (rsp_y r) (rsp_z r)
    | _ \<Rightarrow> True)"

locale session_frame =
  fixes I :: "player_session \<Rightarrow> bool"
  assumes written: "I s \<Longrightarrow> I (s\<lparr>ses_written := w\<rparr>)"
    and teleport: "I s \<Longrightarrow> I (s\<lparr>ses_next_teleport_id := t\<rparr>)"
    and pinged: "I s \<Longrightarrow> I (s\<lparr>ses_last_keep_alive_payload := p, ses_last_keep_alive_sent := at\<rparr>)"
    and travelled: "I s \<Longrightarrow> I (s\<lparr>ses_dimension := d\<rparr>)"
    and synced: "I s \<Longrightarrow> is_finite_position x y z \<Longrightarrow> I (s\<lparr>ses_last_x := x, ses_last_y := y, ses_last_z := z\<rparr>)"
begin

lemma write_keeps: "keeps I (sess_write env wire)"
  by (rule keepsI) (auto simp: sess_write_def written split: option.splits)

lemma send_wire_keeps: "keeps I (send_wire env wire)"
  by (rule keepsI) (auto simp: send_wire_def keepsD [OF write_keeps] split: prod.splits sum.splits decode_outcome.splits)

lemma send_packet_keeps [keeps_intros]: "keeps I (send_packet env enc)"
  by (rule keepsI) (auto simp: send_packet_def keepsD [OF send_wire_keeps] split: prod.splits sum.splits)

lemma send_packets_keeps [keeps_intros]: "keeps I (send_packets env encs)"
  unfolding send_packets_def by (rule keeps_all) (auto intro: send_packet_keeps)

lemma teleport_keeps [keeps_intros]: "keeps I take_teleport_id"
  by (rule keepsI) (simp add: take_teleport_id_def teleport)

text \<open>Packets made from the state they are sent in.\<close>

lemma state_packets_keep [keeps_intros]:
  "keeps I (send_join_game env)" "keeps I (send_join_sequence env)" "keeps I (send_initial_chunks env radius)"
  "keeps I (send_single_chunk env cx cz)"
  by (rule keepsI, simp add: send_join_game_def send_join_sequence_def send_initial_chunks_def send_single_chunk_def
      keepsD [OF send_packet_keeps] keepsD [OF send_packets_keeps])+

lemma sync_keeps: "is_finite_position x y z \<Longrightarrow> keeps I (sync_to env x y z)"
  unfolding sync_to_def by (intro keeps_intros synced)

lemma handshake_keeps: "keeps I (play_handshake env)"
  unfolding play_handshake_def send_synchronize_position_def
  by (intro keeps_intros)

lemma event_keeps:
  assumes "event_finite ev"
  shows "keeps I (handle_event env now ev)"
proof -
  have respawn: "keeps I (handle_event env now (RespawnPlayer_ev r))" if "event_finite (RespawnPlayer_ev r)" for r
    using that by (cases "rsp_defer_position_sync r")
      (auto simp: event_finite_def send_respawn_def travelled intro!: keeps_intros sync_keeps split: option.splits)
  have moved: "keeps I (handle_event env now (EntityMovement_ev m))" for m
    by (rule keepsI) (simp add: send_entity_movement_def Let_def keepsD [OF send_packet_keeps])
  show ?thesis
    using assms
    by (cases ev) (auto simp: event_finite_def respawn moved sync_keeps pinged session_keep_alive_def send_player_info_add_def
        send_spawn_player_def send_player_info_remove_def send_remove_entities_def send_block_update_def
        send_set_center_chunk_def send_set_container_content_def send_set_container_slot_def
        send_system_chat_def send_set_health_def simp del: handle_event.simps(6,19) intro!: keeps_intros)
qed

lemma events_keep: "list_all (\<lambda>(_, ev). event_finite ev) evs \<Longrightarrow> keeps I (poll_events env evs)"
  by (induction evs) (auto intro!: keeps_intros event_keeps)

lemma disconnect_keeps: "I s \<Longrightarrow> I (send_disconnect env reason s)"
  by (auto simp: send_disconnect_def keepsD [OF write_keeps] split: prod.splits sum.splits)

end

subsection \<open>Messages of a session\<close>

text \<open>
  What the session of the player \<open>i\<close> may say between its join and its leave: about itself, with finite positions,
  under its own name, and dug blocks in the way of its game mode.
\<close>

fun session_message :: "session_config \<Rightarrow> i32 \<Rightarrow> tick_message \<Rightarrow> bool" where
  "session_message config i Shutdown_msg = False"
| "session_message config i (PlayerJoined_msg _ _ _ _ _ _) = False"
| "session_message config i (PlayerLeft_msg _) = False"
| "session_message config i (PlayerPositionUpdate_msg j x y z yaw pitch _) \<longleftrightarrow>
    j = i \<and> is_finite_position x y z \<and> f32_finite yaw \<and> f32_finite pitch"
| "session_message config i (SetBlock_msg who _ b) \<longleftrightarrow>
    who = Some i \<and> b = 0 \<and> game_mode_from_wire (sc_gamemode config) = Some Creative"
| "session_message config i (DigBlock_msg j action _) \<longleftrightarrow>
    j = i \<and> action \<in> {0, 1, 2} \<and> game_mode_from_wire (sc_gamemode config) \<noteq> Some Creative"
| "session_message config i (PlaceBlock_msg j _ _) \<longleftrightarrow> j = i"
| "session_message config i (SetClientViewDistance_msg j v) \<longleftrightarrow> j = i \<and> 0 \<le> sint v \<and> sint v \<le> 255"
| "session_message config i (SetCreativeSlot_msg j _ _) \<longleftrightarrow> j = i"
| "session_message config i (SetHeldItem_msg j _) \<longleftrightarrow> j = i"
| "session_message config i (ChatMessage_msg j u name _) \<longleftrightarrow> j = i \<and> u = sc_uuid config \<and> name = sc_username config"
| "session_message config i (ClientStatus_msg j _) \<longleftrightarrow> j = i"
| "session_message config i (InteractEntity_msg j _ _) \<longleftrightarrow> j = i"
| "session_message config i (ClickContainer_msg j _ _ _ _) \<longleftrightarrow> j = i"
| "session_message config i (CloseContainer_msg j _) \<longleftrightarrow> j = i"

definition joined_message :: "session_config \<Rightarrow> i32 \<Rightarrow> channel \<Rightarrow> tick_message" where
  "joined_message config i ch = PlayerJoined_msg i (sc_uuid config) (sc_username config) (sc_gamemode config)
    (sc_view_distance config) ch"

definition session_ok :: "session_config \<Rightarrow> i32 \<Rightarrow> channel \<Rightarrow> player_session \<Rightarrow> bool" where
  "session_ok config i ch s \<longleftrightarrow>
    ses_entity_id s = i \<and> ses_uuid s = sc_uuid config \<and> ses_username s = sc_username config
    \<and> game_mode_from_wire (sc_gamemode config) = Some (ses_gamemode s)
    \<and> is_finite_position (ses_last_x s) (ses_last_y s) (ses_last_z s)
    \<and> f32_finite (ses_last_yaw s) \<and> f32_finite (ses_last_pitch s)
    \<and> (\<exists>ms. ses_told s = joined_message config i ch # ms \<and> list_all (session_message config i) ms)"

interpretation own_session: session_frame "session_ok config i ch" for config i ch
  by unfold_locales (auto simp: session_ok_def)

lemma session_ok_tell: "session_ok config i ch s \<Longrightarrow> session_message config i m \<Longrightarrow> session_ok config i ch (tell m s)"
  by (auto simp: session_ok_def tell_def)

lemma session_ok_tell_moved:
  assumes "session_ok config i ch s" "is_finite_position x y z" "f32_finite yaw" "f32_finite pitch"
  shows "session_ok config i ch (tell (PlayerPositionUpdate_msg i x y z yaw pitch g)
    (s\<lparr>ses_last_x := x, ses_last_y := y, ses_last_z := z, ses_last_yaw := yaw, ses_last_pitch := pitch\<rparr>))"
  using assms by (auto simp: session_ok_def tell_def)

lemma finite_start: "is_finite_position 0 (f64_lit 64 1) 0" "f32_finite 0"
proof -
  have "fl_round_mag 52 11 (64 * 2 ^ 1074) 1 = 0x4050000000000000"
    by (subst fl_round_mag_by [where s = 1028]) (simp_all add: Let_def)
  then have "f64_lit 64 1 = 0x4050000000000000"
    by (simp add: f64_lit_def fl_round_def fl_sign_bit_def)
  then show "is_finite_position 0 (f64_lit 64 1) 0" "f32_finite 0"
    by (simp_all add: is_finite_position_def f64_finite_def f32_finite_def fl_exp_def)
qed

lemma session_new_ok: "session_new env config i ch now = Inr s \<Longrightarrow> session_ok config i ch s"
  using finite_start
  by (auto simp: session_new_def session_ok_def joined_message_def split: option.splits if_splits)

subsection \<open>Every packet, every pass\<close>

lemma view_distance_byte: "0 \<le> sint (ucast (v :: u8) :: i32)" "sint (ucast (v :: u8) :: i32) \<le> 255"
proof -
  have v: "0 \<le> uint v" "uint v < 256" using uint_lt2p [of v] by simp_all
  have "sint (ucast v :: i32) = signed_take_bit 31 (uint v)" by (simp add: signed_ucast_eq)
  moreover have "signed_take_bit 31 (uint v) = uint v"
    unfolding signed_take_bit_int_eq_self_iff
    by (intro conjI order_trans [OF _ v(1)] less_trans [OF v(2)]) simp_all
  ultimately have "sint (ucast v :: i32) = uint v" by simp
  then show "0 \<le> sint (ucast v :: i32)" "sint (ucast v :: i32) \<le> 255"
    using v by simp_all
qed

lemma packet_keeps: "keeps (session_ok config i ch) (handle_play_packet now packet)"
proof (rule keepsI)
  fix s assume ok: "session_ok config i ch s"
  then have f: "ses_entity_id s = i" "ses_uuid s = sc_uuid config" "ses_username s = sc_username config"
    "game_mode_from_wire (sc_gamemode config) = Some (ses_gamemode s)"
    "is_finite_position (ses_last_x s) (ses_last_y s) (ses_last_z s)" "f32_finite (ses_last_yaw s)" "f32_finite (ses_last_pitch s)"
    by (simp_all add: session_ok_def)
  show "session_ok config i ch (snd (handle_play_packet now packet s))"
  proof (cases packet)
    case (PlayerDigging dig)
    then show ?thesis using ok f
      by (auto simp: handle_play_packet_def Let_def digging_message_def intro!: session_ok_tell
          split: option.splits player_digging_action.splits if_splits)
  next
    case (SetPlayerPosition p)
    then show ?thesis using ok f session_ok_tell_moved [OF ok, where yaw = "ses_last_yaw s" and pitch = "ses_last_pitch s"]
      by (simp add: handle_play_packet_def Let_def)
  next
    case (SetPlayerPositionAndRotation p)
    then show ?thesis using ok f session_ok_tell_moved [OF ok] by (simp add: handle_play_packet_def Let_def)
  next
    case (SetPlayerRotation r)
    then show ?thesis using ok f session_ok_tell_moved [OF ok, of "ses_last_x s" "ses_last_y s" "ses_last_z s"]
      by (simp add: handle_play_packet_def Let_def)
  next
    case (KeepAliveServerbound k)
    then show ?thesis using ok by (auto simp: handle_play_packet_def session_ok_def)
  qed (use ok f view_distance_byte in \<open>simp_all add: handle_play_packet_def Let_def session_ok_tell\<close>)
qed

text \<open>What a pass leaves.\<close>

definition pass_ok :: "(player_session \<Rightarrow> bool) \<Rightarrow> pass_result \<Rightarrow> bool" where
  "pass_ok I r = (case r of Passed s _ \<Rightarrow> I s | Stopped _ s \<Rightarrow> I s | Hanging s \<Rightarrow> I s)"

lemma pass_ok_simps [simp]:
  "pass_ok I (Passed s b) = I s" "pass_ok I (Stopped e s) = I s" "pass_ok I (Hanging s) = I s"
  by (simp_all add: pass_ok_def)

abbreviation events_finite :: "pass_input \<Rightarrow> bool" where
  "events_finite inp \<equiv> list_all (\<lambda>(_, ev). event_finite ev) (pas_events inp)"

lemma handled_ok: "handle_play_packet now packet s = (r, s') \<Longrightarrow> session_ok config i ch s \<Longrightarrow> session_ok config i ch s'"
  by (rule keeps_result [OF packet_keeps])

lemma acknowledged_ok:
  "send_acknowledge_block_change env n s = (r, s') \<Longrightarrow> session_ok config i ch s \<Longrightarrow> session_ok config i ch s'"
  unfolding send_acknowledge_block_change_def by (rule keeps_result [OF own_session.send_packet_keeps])

lemma polled_ok:
  "poll_events env evs s = (r, s') \<Longrightarrow> list_all (\<lambda>(_, ev). event_finite ev) evs \<Longrightarrow> session_ok config i ch s \<Longrightarrow>
    session_ok config i ch s'"
  by (rule keeps_result [OF own_session.events_keep])

lemma take_packet_ok:
  "session_ok config i ch s \<Longrightarrow> pass_ok (session_ok config i ch) (take_packet env config inp buffer s)"
  by (auto simp: take_packet_def split: prod.splits sum.splits option.splits read_event.splits list.splits
      session_error.splits intro: own_session.disconnect_keeps handled_ok acknowledged_ok)

lemma play_pass_ok:
  "session_ok config i ch s \<Longrightarrow> events_finite inp \<Longrightarrow>
    pass_ok (session_ok config i ch) (play_pass env config inp buffer s)"
  by (auto simp: play_pass_def split: prod.splits sum.splits intro: own_session.disconnect_keeps polled_ok take_packet_ok)

lemma play_passes_ok:
  assumes "session_ok config i ch s" "list_all events_finite inps"
  shows "pass_ok (session_ok config i ch) (play_passes env config inps buffer s)"
  using assms
proof (induction inps arbitrary: buffer s)
  case Nil
  then show ?case by simp
next
  case (Cons inp inps)
  then have "pass_ok (session_ok config i ch) (play_pass env config inp buffer s)" by (simp add: play_pass_ok)
  then show ?case using Cons by (auto split: pass_result.splits)
qed

text \<open>
  C4: Whatever a client sends, and whatever the tick loop tells the session, all a session ever tells the tick loop
  is its join, then messages about its own player only (never another player's id, a non-finite position or angle, a
  view distance that is not a byte, another name, a dig in creative or a block set in survival), and, once it is over, its
  leave, last and once. A position the tick loop itself sends must be finite for that.
\<close>

theorem session_speaks_for_itself:
  assumes "list_all events_finite inps"
  shows "case run_play_loop env config i ch now inps of
      NoSession _ \<Rightarrow> True
    | SessionOver _ s \<Rightarrow> \<exists>ms. ses_told s = joined_message config i ch # ms @ [PlayerLeft_msg i] \<and> list_all (session_message config i) ms
    | SessionHangs s \<Rightarrow> \<exists>ms. ses_told s = joined_message config i ch # ms \<and> list_all (session_message config i) ms
    | SessionOn s _ \<Rightarrow> \<exists>ms. ses_told s = joined_message config i ch # ms \<and> list_all (session_message config i) ms"
proof -
  have told: "\<exists>ms. ses_told s = joined_message config i ch # ms \<and> list_all (session_message config i) ms"
    and left: "\<exists>ms. ses_told (session_shutdown s) = joined_message config i ch # ms @ [PlayerLeft_msg i]
      \<and> list_all (session_message config i) ms" if "session_ok config i ch s" for s
    using that by (auto simp: session_ok_def session_shutdown_def tell_def)
  show ?thesis
  proof (cases "session_new env config i ch now")
    case (Inr s0)
    obtain r s1 where hs: "play_handshake env s0 = (r, s1)" by (cases "play_handshake env s0")
    have ok: "session_ok config i ch s1"
      by (rule keeps_result [OF own_session.handshake_keeps session_new_ok [OF Inr] hs])
    have "pass_ok (session_ok config i ch) (play_passes env config inps [] s1)"
      by (rule play_passes_ok [OF ok assms])
    then show ?thesis
      using ok by (auto simp: run_play_loop_def Inr hs told left split: option.splits sum.splits pass_result.splits)
  qed (auto simp: run_play_loop_def split: option.splits)
qed

definition sample_session_config :: session_config where
  "sample_session_config = \<lparr>sc_uuid = uuid_new 1 2, sc_username = ascii ''Steve'', sc_gamemode = 0, sc_max_frame_length = 2097151,
    sc_read_timeout = 50, sc_compression_threshold = 256, sc_view_distance = 4, sc_simulation_distance = 4,
    sc_max_players = 8, sc_keep_alive_timeout = 30000, sc_enabled_dimensions = dimension_set_default\<rparr>"

text \<open>A correction of the position, and then eight bytes that are a whole packet with an unknown id.\<close>

theorem session_speaks_for_itself_witness:
  "case run_play_loop mirror_zlib sample_session_config 5 1 0
      [\<lparr>pas_events = [(1, SynchronizePosition_ev 0 (f64_lit 64 1) 0)], pas_now = 2, pas_read = ReadBytes [2, 0, 0x7F]\<rparr>] of
      NoSession _ \<Rightarrow> True
    | SessionOver _ s \<Rightarrow> \<exists>ms. ses_told s = joined_message sample_session_config 5 1 # ms @ [PlayerLeft_msg 5]
        \<and> list_all (session_message sample_session_config 5) ms
    | SessionHangs s \<Rightarrow> \<exists>ms. ses_told s = joined_message sample_session_config 5 1 # ms
        \<and> list_all (session_message sample_session_config 5) ms
    | SessionOn s _ \<Rightarrow> \<exists>ms. ses_told s = joined_message sample_session_config 5 1 # ms
        \<and> list_all (session_message sample_session_config 5) ms"
  by (rule session_speaks_for_itself) (simp add: event_finite_def finite_start [simplified])

end
