(* ===== verification/Tick_Messages.thy ===== *)
theory Tick_Messages
  imports Tick
begin

section \<open>The handlers of the tick loop's messages (\<open>tick.rs\<close>)\<close>

text \<open>
  One definition per arm of the \<open>match\<close> over the received message; a \<open>continue\<close> is the unchanged state.
  \<open>resync_player_chunks\<close>, \<open>transfer_player_dimension\<close> and \<open>sync_mobs_for_player\<close> are the functions
  several arms share.
\<close>

subsection \<open>Chunks and mobs of a player\<close>

definition resync_player_chunks :: "tick_env \<Rightarrow> i32 \<Rightarrow> f64bits \<Rightarrow> f64bits \<Rightarrow> tick_state \<Rightarrow> tick_state" where
  "resync_player_chunks env entity_id x z s =
    (let d = dimension_or_default (ts_world s) entity_id; cx = chunk_x_from_world x; cz = chunk_z_from_world z in
     case ts_chunk_states s entity_id of None \<Rightarrow> s
     | Some cs \<Rightarrow>
       let old_loaded = te_chunks env (pcs_loaded_chunks cs);
           cs = cs\<lparr>pcs_center_x := cx, pcs_center_z := cz\<rparr>;
           new_desired = desired_chunk_set cs;
           new_chunks = filter (\<lambda>pos. pos \<notin> pcs_loaded_chunks cs) (te_chunks env new_desired);
           unloaded = filter (\<lambda>pos. pos \<notin> new_desired) old_loaded;
           reload = filter (\<lambda>pos. pos \<in> set old_loaded) (te_chunks env new_desired);
           s = s\<lparr>ts_chunk_states := (ts_chunk_states s)(entity_id \<mapsto> cs\<lparr>pcs_loaded_chunks := new_desired\<rparr>)\<rparr>;
           chunk_events = (\<lambda>pos. send_chunk_to_session env (ts_world s) d (cp_x pos) (cp_z pos));
           unload = (\<lambda>pos. UnloadChunk_ev (cp_x pos) (cp_z pos))
       in send_to entity_id
            (SetCenterChunk_ev cx cz # map unload unloaded
             @ concat (map (\<lambda>pos. unload pos # chunk_events pos) reload)
             @ concat (map chunk_events new_chunks)) s)"

definition spawn_mob_event :: "mob \<Rightarrow> session_event" where
  "spawn_mob_event m = SpawnMob_ev \<lparr>spm_entity_id = mob_entity_id m, spm_uuid = mob_uuid m,
    spm_entity_type = entity_type_id (mob_kind m), spm_x = mob_x m, spm_y = mob_y m, spm_z = mob_z m,
    spm_yaw = mob_yaw m, spm_pitch = mob_pitch m\<rparr>"

definition sync_mobs_for_player :: "i32 \<Rightarrow> dimension_id \<Rightarrow> tick_state \<Rightarrow> tick_state" where
  "sync_mobs_for_player entity_id d s =
    (let all_ids = map mob_entity_id (ts_mobs s) in
     send_to entity_id
       ((if all_ids \<noteq> [] then [RemoveEntities_ev all_ids] else [])
        @ map spawn_mob_event (filter (\<lambda>m. mob_dimension m = d) (ts_mobs s))) s)"

definition transfer_player_dimension :: "tick_env \<Rightarrow> i32 \<Rightarrow> dimension_id \<Rightarrow> tick_state \<Rightarrow> tick_state" where
  "transfer_player_dimension env entity_id dest s =
    (if \<not> dimension_set_contains (w_enabled_dimensions (ts_world s)) dest then s
     else case get_player (ts_world s) entity_id of None \<Rightarrow> s
     | Some player \<Rightarrow>
       if ph_dimension player = dest then s
       else
         let s = close_open_window entity_id True s;
             gamemode = ph_gamemode player;
             (spawn_x, spawn_y, spawn_z) = arrival_position (ts_world s);
             name = dimension_protocol_name dest;
             s = map_world (update_player entity_id (\<lambda>p. set_position spawn_x spawn_y spawn_z (p\<lparr>ph_dimension := dest\<rparr>))) s;
             s = s\<lparr>ts_portal_cooldowns := (ts_portal_cooldowns s)(entity_id \<mapsto> PORTAL_COOLDOWN_TICKS)\<rparr>;
             s = send_to entity_id
               [RespawnPlayer_ev \<lparr>rsp_dimension_type = name, rsp_dimension_name = name, rsp_hashed_seed = 0,
                  rsp_gamemode = gamemode, rsp_previous_gamemode = - 1, rsp_is_debug = False, rsp_is_flat = True,
                  rsp_has_death_location = False, rsp_death_dimension_name = [], rsp_death_location = (0, 0, 0),
                  rsp_portal_cooldown = ucast PORTAL_COOLDOWN_TICKS, rsp_data_kept = 0,
                  rsp_x = spawn_x, rsp_y = spawn_y, rsp_z = spawn_z, rsp_defer_position_sync = True\<rparr>,
                SystemChat_ev (warped_message dest)] s;
             s = resync_player_chunks env entity_id spawn_x spawn_z s;
             s = send_to entity_id [SynchronizePosition_ev spawn_x spawn_y spawn_z] s
         in sync_mobs_for_player entity_id dest s)"

subsection \<open>Joining and leaving\<close>

definition saved_slot_to_slot :: "saved_slot \<Rightarrow> slot" where
  "saved_slot_to_slot = (\<lambda>(present, item_id, count, nbt).
    \<lparr>slot_present = present, slot_item_id = item_id, slot_count = count, slot_nbt = nbt\<rparr>)"

definition restore_inventory :: "player_data \<Rightarrow> player_inventory \<Rightarrow> player_inventory" where
  "restore_inventory d inven =
    inven\<lparr>inv_held_slot := pld_held_slot d, inv_health := pld_health d, inv_food := pld_food d,
      inv_food_saturation := pld_food_saturation d,
      inv_slots := fold (\<lambda>(i, sl) slots. if i < length slots then slots[i := saved_slot_to_slot sl] else slots)
        (enumerate 0 (pld_slots d)) (inv_slots inven)\<rparr>"

definition joined_event :: "player_handle \<Rightarrow> session_event" where
  "joined_event p = PlayerJoined_ev (ph_entity_id p) (ph_uuid p) (ph_username p) (ph_gamemode p) (ph_x p) (ph_y p) (ph_z p)"

definition handle_player_joined ::
  "tick_env \<Rightarrow> i32 \<Rightarrow> uuid \<Rightarrow> rstring \<Rightarrow> u8 \<Rightarrow> i32 \<Rightarrow> channel \<Rightarrow> tick_state \<Rightarrow> tick_state" where
  "handle_player_joined env entity_id u username gamemode0 view_distance event_sender s =
    (let saved = ts_saved_players s u;
         gamemode = (case saved of Some d \<Rightarrow> pld_gamemode d | None \<Rightarrow> gamemode0);
         player = player_handle_new entity_id u username gamemode;
         (sx, sy, sz) = spawn_point (ts_world s);
         player = (case saved of
             Some d \<Rightarrow>
               let (px, py, pz) = (if f64_lt (pld_y d) VOID_DEATH_Y then clamp_spawn_position (te_garden env) sx sy sz
                  else clamp_spawn_position (te_garden env) (pld_x d) (pld_y d) (pld_z d))
               in set_rotation (pld_yaw d) (pld_pitch d) (set_position px py pz player)
           | None \<Rightarrow>
               let (px, py, pz) = clamp_spawn_position (te_garden env) sx sy sz in set_position px py pz player);
         s = map_world (add_player player) s;
         s = s\<lparr>ts_senders := (ts_senders s)(entity_id \<mapsto> event_sender)\<rparr>;
         s = s\<lparr>ts_chunk_states := (ts_chunk_states s)(entity_id \<mapsto>
               chunk_state_new view_distance (chunk_radius (gs_size (te_garden env))))\<rparr>;
         inven = (if saved = None \<and> gamemode = GAMEMODE_CREATIVE then creative_starter else inventory_new);
         inven = (case saved of Some d \<Rightarrow> restore_inventory d inven | None \<Rightarrow> inven);
         s = s\<lparr>ts_inventories := (ts_inventories s)(entity_id \<mapsto> inven)\<rparr>;
         s = send_to entity_id
           [SetContainerContent_ev 0 (inv_state_id inven) (inv_slots inven) slot_empty,
            SetHealth_ev (inv_health inven) (inv_food inven) (inv_food_saturation inven)] s;
         s = broadcast env (\<lambda>eid. eid \<noteq> entity_id \<and> player_dimension (ts_world s) eid = Some Overworld) (joined_event player) s;
         s = send_to entity_id (map joined_event (filter (\<lambda>p. ph_entity_id p \<noteq> entity_id \<and> ph_dimension p = Overworld)
               (world_players (te_players env) (ts_world s)))) s;
         new_player_overrides = concat (map (\<lambda>cx. concat (map (\<lambda>cz.
               get_client_block_deltas_for_chunk (te_blocks env) (ts_world s) Overworld cx cz)
             (i32_range (- 2) 2))) (i32_range (- 2) 2));
         s = (if new_player_overrides \<noteq> [] then send_to entity_id [ChunkBlockOverrides_ev new_player_overrides] s else s);
         s = sync_mobs_for_player entity_id Overworld s
     in s\<lparr>ts_events := ts_events s @ [PlayerAdded_te entity_id], ts_player_count := ts_player_count s + 1\<rparr>)"

definition handle_player_left :: "tick_env \<Rightarrow> i32 \<Rightarrow> tick_state \<Rightarrow> tick_state" where
  "handle_player_left env entity_id s =
    (let s = (case collect_one_player_data (ts_world s) (ts_inventories s) entity_id of None \<Rightarrow> s
           | Some data \<Rightarrow> (case get_player (ts_world s) entity_id of None \<Rightarrow> s
             | Some player \<Rightarrow> save_cached_players env
                 (s\<lparr>ts_saved_players := (ts_saved_players s)(ph_uuid player \<mapsto> data)\<rparr>)));
         u = map_option ph_uuid (get_player (ts_world s) entity_id);
         s = s\<lparr>ts_open_windows := (ts_open_windows s)(entity_id := None),
               ts_portal_cooldowns := (ts_portal_cooldowns s)(entity_id := None)\<rparr>;
         s = map_world (\<lambda>w. snd (remove_player entity_id w)) s;
         s = s\<lparr>ts_senders := (ts_senders s)(entity_id := None),
               ts_chunk_states := (ts_chunk_states s)(entity_id := None),
               ts_inventories := (ts_inventories s)(entity_id := None),
               ts_break_progress := (ts_break_progress s)(entity_id := None),
               ts_player_count := ts_player_count s - 1\<rparr>;
         s = (case u of None \<Rightarrow> s | Some u \<Rightarrow> broadcast env (\<lambda>_. True) (PlayerLeft_ev entity_id u) s)
     in s\<lparr>ts_events := ts_events s @ [PlayerRemoved_te entity_id]\<rparr>)"

subsection \<open>Movement\<close>

text \<open>The chunks a client is told of when its player's chunk changes.\<close>

definition tell_chunks :: "tick_env \<Rightarrow> dimension_id \<Rightarrow> i32 \<Rightarrow> chunk_pos list \<Rightarrow> chunk_pos list \<Rightarrow> tick_state \<Rightarrow> tick_state" where
  "tell_chunks env d entity_id new_chunks unloaded_chunks s =
    send_to entity_id
      (concat (map (\<lambda>pos. send_chunk_to_session env (ts_world s) d (cp_x pos) (cp_z pos)) new_chunks)
       @ map (\<lambda>pos. UnloadChunk_ev (cp_x pos) (cp_z pos)) unloaded_chunks) s"

definition stream_chunks :: "tick_env \<Rightarrow> dimension_id \<Rightarrow> i32 \<Rightarrow> f64bits \<Rightarrow> f64bits \<Rightarrow> tick_state \<Rightarrow> tick_state" where
  "stream_chunks env d entity_id x z s =
    (let new_cx = chunk_x_from_world x; new_cz = chunk_z_from_world z in
     case ts_chunk_states s entity_id of None \<Rightarrow> s
     | Some cs \<Rightarrow>
       let ((center_changed, new_chunks, unloaded_chunks), cs) = update_center (te_chunks env) new_cx new_cz cs;
           s = s\<lparr>ts_chunk_states := (ts_chunk_states s)(entity_id \<mapsto> cs)\<rparr>;
           s = (if center_changed then send_to entity_id [SetCenterChunk_ev new_cx new_cz] s else s)
       in tell_chunks env d entity_id new_chunks unloaded_chunks s)"

abbreviation rotated :: "f32bits \<Rightarrow> f32bits \<Rightarrow> bool" where
  "rotated a b \<equiv> f32_lt (f32_lit 1 8388608) (f32_abs (f32_sub a b))"

text \<open>The position a proposed one is resolved to: position, whether corrected, whether on the ground.\<close>

definition resolve_position ::
  "tick_env \<Rightarrow> world \<Rightarrow> player_handle \<Rightarrow> f64bits \<Rightarrow> f64bits \<Rightarrow> f64bits \<Rightarrow> f64bits \<times> f64bits \<times> f64bits \<times> bool \<times> bool" where
  "resolve_position env w player raw_x raw_y raw_z =
    (let (old_x, old_y, old_z) = handle_position player;
         (x, y, z) = clamp_horizontal (te_garden env) raw_x raw_y raw_z;
         border_clamped = (moved x raw_x \<or> moved y raw_y \<or> moved z raw_z);
         (x, y, z, phys_corrected, server_on_ground) =
           (if f64_lt raw_y VOID_DEATH_Y then (x, y, z, False, False)
            else let c = resolve_movement w (ph_dimension player) old_x old_y old_z x y z (ph_gamemode player)
              in (cr_x c, cr_y c, cr_z c, cr_corrected c, cr_on_ground c))
     in (x, y, z, border_clamped \<or> phys_corrected, server_on_ground))"

definition handle_player_position_update ::
  "tick_env \<Rightarrow> i32 \<Rightarrow> f64bits \<Rightarrow> f64bits \<Rightarrow> f64bits \<Rightarrow> f32bits \<Rightarrow> f32bits \<Rightarrow> tick_state \<Rightarrow> tick_state" where
  "handle_player_position_update env entity_id raw_x raw_y raw_z yaw pitch s =
    (case get_player (ts_world s) entity_id of None \<Rightarrow> s
     | Some player \<Rightarrow>
       let (old_x, old_y, old_z) = handle_position player; d = ph_dimension player;
           (x, y, z, corrected, server_on_ground) = resolve_position env (ts_world s) player raw_x raw_y raw_z;
           (old_yaw, old_pitch) = handle_rotation player;
           s = map_world (update_player entity_id (\<lambda>p. set_rotation yaw pitch (set_position x y z p))) s;
           pos_changed = (moved x old_x \<or> moved y old_y \<or> moved z old_z);
           rot_changed = (rotated yaw old_yaw \<or> rotated pitch old_pitch);
           s = (if corrected then send_to entity_id [SynchronizePosition_ev x y z] s else s);
           s = (if pos_changed \<or> rot_changed
             then broadcast env (\<lambda>eid. eid \<noteq> entity_id \<and> player_dimension (ts_world s) eid = Some d)
               (EntityMovement_ev \<lparr>em_entity_id = entity_id, em_old_x = old_x, em_old_y = old_y, em_old_z = old_z,
                  em_new_x = x, em_new_y = y, em_new_z = z, em_new_yaw = yaw, em_new_pitch = pitch,
                  em_on_ground = server_on_ground\<rparr>) s
             else s)
       in if \<not> pos_changed then s
          else
            let s = stream_chunks env d entity_id x z s;
                under = block_under_feet (ts_world s) d x y z;
                on_cooldown = (case ts_portal_cooldowns s entity_id of None \<Rightarrow> False | Some t \<Rightarrow> 0 < t)
            in if on_cooldown then s
               else (case portal_destination d under of None \<Rightarrow> s
                 | Some dest \<Rightarrow> transfer_player_dimension env entity_id dest s))"

subsection \<open>Blocks\<close>

definition handle_set_block :: "tick_env \<Rightarrow> i32 option \<Rightarrow> block_pos \<Rightarrow> i32 \<Rightarrow> tick_state \<Rightarrow> tick_state" where
  "handle_set_block env entity_id position block_state s =
    (let d = (case Option.bind entity_id (player_dimension (ts_world s)) of Some d \<Rightarrow> d | None \<Rightarrow> Overworld);
         s = (if block_state = 0
              then close_viewers env d position (map_containers (store_remove (container_key d position)) s)
              else if is_chest block_state then map_containers (ensure_seeded (container_key d position)) s
              else s);
         s = map_world (put_block d position block_state) s
     in broadcast_block_update env d position block_state s)"

definition held_block :: "player_inventory \<Rightarrow> i32 option" where
  "held_block inven =
    Option.bind (slice_get (inv_slots inven) (unat (inv_held_slot inven))) (\<lambda>slot.
      if slot_present slot
      then Option.bind (item_to_block_state (slot_item_id slot)) (\<lambda>b. if b \<noteq> 0 then Some b else None)
      else None)"

definition handle_place_block :: "tick_env \<Rightarrow> i32 \<Rightarrow> block_pos \<Rightarrow> i32 \<Rightarrow> tick_state \<Rightarrow> tick_state" where
  "handle_place_block env entity_id position face s =
    (let d = dimension_or_default (ts_world s) entity_id;
         clicked = block_at (ts_world s) d position;
         gamemode = (case get_player (ts_world s) entity_id of Some p \<Rightarrow> ph_gamemode p | None \<Rightarrow> 0);
         holding_block = Option.bind (ts_inventories s entity_id) held_block
     in if is_chest clicked then open_chest_for_player entity_id d position s
        else if gamemode = GAMEMODE_CREATIVE then
          (case holding_block of None \<Rightarrow> s
           | Some block_state \<Rightarrow>
             let target = face_offset face position;
                 s = map_world (put_block d target block_state) s;
                 s = (if is_chest block_state then map_containers (ensure_seeded (container_key d target)) s else s)
             in broadcast_block_update env d target block_state s)
        else s)"

definition handle_set_client_view_distance :: "tick_env \<Rightarrow> i32 \<Rightarrow> i32 \<Rightarrow> tick_state \<Rightarrow> tick_state" where
  "handle_set_client_view_distance env entity_id view_distance s =
    (let d = dimension_or_default (ts_world s) entity_id in
     case ts_chunk_states s entity_id of None \<Rightarrow> s
     | Some cs \<Rightarrow>
       let ((new_chunks, unloaded_chunks), cs) = update_view_distance (te_chunks env) view_distance cs;
           s = s\<lparr>ts_chunk_states := (ts_chunk_states s)(entity_id \<mapsto> cs)\<rparr>
       in tell_chunks env d entity_id new_chunks unloaded_chunks s)"

definition handle_dig_block :: "i32 \<Rightarrow> i32 \<Rightarrow> block_pos \<Rightarrow> tick_state \<Rightarrow> tick_state" where
  "handle_dig_block entity_id action position s =
    (let is_dead = (case ts_inventories s entity_id of Some inven \<Rightarrow> inv_is_dead inven | None \<Rightarrow> True) in
     if is_dead then clear_break_animation entity_id s
     else if action = 0 then
       s\<lparr>ts_break_progress := (ts_break_progress s)(entity_id \<mapsto>
         \<lparr>bbp_position = position, bbp_ticks_elapsed = 0, bbp_total_ticks = DEFAULT_BLOCK_HARDNESS_TICKS,
          bbp_last_stage = - 1\<rparr>)\<rparr>
     else if action = 1 \<or> action = 2 then clear_break_animation entity_id s
     else s)"

subsection \<open>Items, chat and respawn\<close>

definition handle_set_creative_slot :: "i32 \<Rightarrow> i16 \<Rightarrow> slot \<Rightarrow> tick_state \<Rightarrow> tick_state" where
  "handle_set_creative_slot entity_id slot item s =
    (if 0 \<le>s slot then
       (case ts_inventories s entity_id of None \<Rightarrow> s
        | Some inven \<Rightarrow>
          let idx = nat (sint slot) in
          if idx < length (inv_slots inven) then
            let state_id = inv_state_id inven + 1;
                s = s\<lparr>ts_inventories := (ts_inventories s)(entity_id \<mapsto> snd (set_slot idx item inven))\<rparr>
            in send_to entity_id [SetContainerSlot_ev 0 state_id slot item] s
          else s)
     else s)"

definition handle_set_held_item :: "i32 \<Rightarrow> i16 \<Rightarrow> tick_state \<Rightarrow> tick_state" where
  "handle_set_held_item entity_id slot s =
    (case ts_inventories s entity_id of None \<Rightarrow> s
     | Some inven \<Rightarrow>
       let (changed, inven) = set_held_slot slot inven;
           s = s\<lparr>ts_inventories := (ts_inventories s)(entity_id \<mapsto> inven)\<rparr>
       in if changed then send_to entity_id [SetHeldItemClientbound_ev (inv_held_slot inven)] s else s)"

definition handle_chat_message :: "tick_env \<Rightarrow> i32 \<Rightarrow> rstring \<Rightarrow> rstring \<Rightarrow> tick_state \<Rightarrow> tick_state" where
  "handle_chat_message env entity_id username message s =
    (case parse_dim_command message of
       Some dest \<Rightarrow> transfer_player_dimension env entity_id dest s
     | None \<Rightarrow> broadcast env (\<lambda>_. True) (SystemChat_ev (format_chat_message username message)) s)"

definition handle_client_status :: "tick_env \<Rightarrow> i32 \<Rightarrow> i32 \<Rightarrow> tick_state \<Rightarrow> tick_state" where
  "handle_client_status env entity_id action s =
    (if action \<noteq> 0 then s
     else case ts_inventories s entity_id of None \<Rightarrow> s
     | Some inven \<Rightarrow>
       if \<not> inv_is_dead inven then s
       else
         let s = clear_break_animation entity_id s;
             inven = inv_respawn inven;
             s = s\<lparr>ts_inventories := (ts_inventories s)(entity_id \<mapsto> inven)\<rparr>;
             (spawn_x, spawn_y, spawn_z) = spawn_point (ts_world s);
             (gamemode, dim_name) = (case get_player (ts_world s) entity_id of
                 Some p \<Rightarrow> (ph_gamemode p, dimension_protocol_name (ph_dimension p))
               | None \<Rightarrow> (0, ascii ''minecraft:overworld''));
             s = send_to entity_id
               [RespawnPlayer_ev \<lparr>rsp_dimension_type = dim_name, rsp_dimension_name = dim_name, rsp_hashed_seed = 0,
                  rsp_gamemode = gamemode, rsp_previous_gamemode = - 1, rsp_is_debug = False, rsp_is_flat = True,
                  rsp_has_death_location = False, rsp_death_dimension_name = [], rsp_death_location = (0, 0, 0),
                  rsp_portal_cooldown = 0, rsp_data_kept = 0,
                  rsp_x = spawn_x, rsp_y = spawn_y, rsp_z = spawn_z, rsp_defer_position_sync = False\<rparr>,
                SetHealth_ev (inv_health inven) (inv_food inven) (inv_food_saturation inven),
                SetContainerContent_ev 0 (inv_state_id inven) (inv_slots inven) slot_empty,
                SetHeldItemClientbound_ev (inv_held_slot inven)] s;
             s = map_world (update_player entity_id (set_position spawn_x spawn_y spawn_z)) s;
             s = resync_player_chunks env entity_id spawn_x spawn_z s
         in sync_mobs_for_player entity_id (dimension_or_default (ts_world s) entity_id) s)"

subsection \<open>Entities and containers\<close>

text \<open>\<open>mobs.iter().position(\<dots>)\<close>\<close>

definition position_of :: "('a \<Rightarrow> bool) \<Rightarrow> 'a list \<Rightarrow> nat option" where
  "position_of P xs = find (\<lambda>i. P (xs ! i)) [0..<length xs]"

definition handle_interact_entity :: "tick_env \<Rightarrow> i32 \<Rightarrow> i32 \<Rightarrow> i32 \<Rightarrow> tick_state \<Rightarrow> tick_state" where
  "handle_interact_entity env entity_id target action s =
    (if action \<noteq> 1 then s
     else case get_player (ts_world s) entity_id of None \<Rightarrow> s
     | Some player \<Rightarrow>
       case position_of (\<lambda>m. mob_entity_id m = target) (ts_mobs s) of None \<Rightarrow> s
       | Some idx \<Rightarrow>
         let m = ts_mobs s ! idx; (px, py, pz) = handle_position player;
             dx = f64_sub px (mob_x m); dy = f64_sub py (mob_y m); dz = f64_sub pz (mob_z m)
         in if mob_dimension m \<noteq> ph_dimension player then s
            else if f64_lt (f64_lit 36 1) (f64_add (f64_add (f64_mul dx dx) (f64_mul dy dy)) (f64_mul dz dz)) then s
            else
              let damage = (if ph_gamemode player = GAMEMODE_CREATIVE then f32_lit 100 1 else f32_lit 4 1);
                  (died, m) = mob_hurt damage m
              in if died
                 then broadcast env (\<lambda>eid. player_dimension (ts_world s) eid = Some (mob_dimension m))
                   (RemoveEntities_ev [mob_entity_id m])
                   (s\<lparr>ts_mobs := take idx (ts_mobs s) @ drop (Suc idx) (ts_mobs s)\<rparr>)
                 else s\<lparr>ts_mobs := (ts_mobs s)[idx := m]\<rparr>)"

definition apply_changed_slots ::
  "click_container_changed_slot list \<Rightarrow> slot list \<times> slot list \<Rightarrow> slot list \<times> slot list" where
  "apply_changed_slots changed_slots =
    fold (\<lambda>c (chest, player). apply_window_slot chest player (ccs_slot c) (ccs_item c)) changed_slots"

definition handle_click_container ::
  "i32 \<Rightarrow> u8 \<Rightarrow> click_container_changed_slot list \<Rightarrow> slot \<Rightarrow> tick_state \<Rightarrow> tick_state" where
  "handle_click_container entity_id window_id changed_slots cursor s =
    (case ts_open_windows s entity_id of None \<Rightarrow> s
     | Some w \<Rightarrow>
       if oc_window_id w \<noteq> window_id then s
       else case ts_inventories s entity_id of None \<Rightarrow> s
       | Some inven \<Rightarrow>
         let pos_key = container_key (oc_dimension w) (oc_position w);
             (chest, store) = chest_mut pos_key True (ts_containers s);
             (chest, slots) = apply_changed_slots changed_slots (chest, inv_slots inven);
             inven = inven\<lparr>inv_slots := slots, inv_state_id := inv_state_id inven + 1\<rparr>
         in s\<lparr>ts_containers := store(pos_key \<mapsto> chest), ts_inventories := (ts_inventories s)(entity_id \<mapsto> inven),
              ts_open_windows := (ts_open_windows s)(entity_id \<mapsto> w\<lparr>oc_carried := cursor\<rparr>)\<rparr>)"

definition handle_close_container :: "i32 \<Rightarrow> u8 \<Rightarrow> tick_state \<Rightarrow> tick_state" where
  "handle_close_container entity_id window_id s =
    (case ts_open_windows s entity_id of None \<Rightarrow> s
     | Some w \<Rightarrow> if oc_window_id w = window_id then close_open_window entity_id False s else s)"

text \<open>\<open>TickMessage::Shutdown\<close>: everything is saved, and the loop returns.\<close>

definition handle_shutdown :: "tick_env \<Rightarrow> tick_state \<Rightarrow> tick_state" where
  "handle_shutdown env s =
    (let s = save_cached_players env (merge_online_into_saved env (save_containers env (save_all_overrides env s)))
     in s\<lparr>ts_events := ts_events s @ [Shutdown_te]\<rparr>)"

subsection \<open>The dispatch\<close>

text \<open>The result says whether the loop has returned.\<close>

fun handle_message :: "tick_env \<Rightarrow> tick_message \<Rightarrow> tick_state \<Rightarrow> bool \<times> tick_state" where
  "handle_message env Shutdown_msg s = (True, handle_shutdown env s)"
| "handle_message env (PlayerJoined_msg i u name gm vd ch) s = (False, handle_player_joined env i u name gm vd ch s)"
| "handle_message env (PlayerLeft_msg i) s = (False, handle_player_left env i s)"
| "handle_message env (PlayerPositionUpdate_msg i x y z yaw pitch on_ground) s =
    (False, handle_player_position_update env i x y z yaw pitch s)"
| "handle_message env (SetBlock_msg i position b) s = (False, handle_set_block env i position b s)"
| "handle_message env (PlaceBlock_msg i position face) s = (False, handle_place_block env i position face s)"
| "handle_message env (SetClientViewDistance_msg i vd) s = (False, handle_set_client_view_distance env i vd s)"
| "handle_message env (DigBlock_msg i action position) s = (False, handle_dig_block i action position s)"
| "handle_message env (SetCreativeSlot_msg i slot item) s = (False, handle_set_creative_slot i slot item s)"
| "handle_message env (SetHeldItem_msg i slot) s = (False, handle_set_held_item i slot s)"
| "handle_message env (ChatMessage_msg i u name message) s = (False, handle_chat_message env i name message s)"
| "handle_message env (ClientStatus_msg i action) s = (False, handle_client_status env i action s)"
| "handle_message env (InteractEntity_msg i target action) s = (False, handle_interact_entity env i target action s)"
| "handle_message env (ClickContainer_msg i w state_id changed cursor) s = (False, handle_click_container i w changed cursor s)"
| "handle_message env (CloseContainer_msg i w) s = (False, handle_close_container i w s)"

text \<open>\<open>while let Ok(msg) = msg_rx.try_recv()\<close> over the messages that are there.\<close>

fun drain_messages :: "tick_env \<Rightarrow> tick_message list \<Rightarrow> tick_state \<Rightarrow> bool \<times> tick_state" where
  "drain_messages env [] s = (False, s)"
| "drain_messages env (m # ms) s =
    (let (stop, s) = handle_message env m s in if stop then (True, s) else drain_messages env ms s)"

end
