(* ===== verification/Map_Pack.thy ===== *)
theory Map_Pack
  imports Container Fluid Dimension
begin

section \<open>Map packs (\<open>map_pack.rs\<close>)\<close>

text \<open>
  The pack format, the built-in gardens of the three dimensions, and the choice between a pack file
  and a built-in one. Loops over coordinates are folds over ranges, in the code's order; the lines written
  to the log are left out.
\<close>

definition RBPK_MAGIC :: bytes where "RBPK_MAGIC = ascii ''RBPK''"
definition PACK_FORMAT_VERSION :: u32 where "PACK_FORMAT_VERSION = 1"

record map_pack =
  mp_garden :: garden_spec
  mp_blocks :: block_map
  mp_id :: rstring

datatype map_pack_error = PackIo io_error | Corrupt | UnknownSize u8

definition map_pack_error_message :: "map_pack_error \<Rightarrow> rstring" where
  "map_pack_error_message e = (case e of
      PackIo e \<Rightarrow> ascii ''map pack i/o: '' @ e
    | Corrupt \<Rightarrow> ascii ''map pack is corrupt''
    | UnknownSize v \<Rightarrow> ascii ''unknown map pack size byte '' @ dec_nat (unat v))"

definition size_to_byte :: "map_size \<Rightarrow> u8" where
  "size_to_byte s = (case s of Tiny \<Rightarrow> 0 | Small \<Rightarrow> 1 | Medium \<Rightarrow> 2)"

definition byte_to_size :: "u8 \<Rightarrow> map_pack_error + map_size" where
  "byte_to_size byte =
    (if byte = 0 then Inr Tiny else if byte = 1 then Inr Small else if byte = 2 then Inr Medium
     else Inl (UnknownSize byte))"

subsection \<open>The format\<close>

definition pack_flags :: "dimension_set \<Rightarrow> u8" where
  "pack_flags ds =
    (let flags = 0;
         flags = (if ds_overworld ds then flags OR 1 else flags);
         flags = (if ds_nether ds then flags OR 2 else flags)
     in if ds_end ds then flags OR 4 else flags)"

definition serialize_pack :: "(block_map \<Rightarrow> (block_pos \<times> i32) list) \<Rightarrow> map_pack \<Rightarrow> bytes" where
  "serialize_pack ord pack =
    (let buf = RBPK_MAGIC @ to_le_bytes PACK_FORMAT_VERSION @ [size_to_byte (gs_size (mp_garden pack))]
           @ [pack_flags (gs_dimensions (mp_garden pack))] @ to_le_bytes (gs_surface_y (mp_garden pack));
         count = u32_count (card (dom (mp_blocks pack)))
     in fold (\<lambda>e buf. buf @ override_bytes e) (ord (mp_blocks pack)) (buf @ to_le_bytes count))"

definition pack_entry :: "bytes \<Rightarrow> nat \<Rightarrow> map_pack_error + (block_pos \<times> i32) \<times> nat" where
  "pack_entry data offset =
    (if offset + 16 > length data then Inl Corrupt
     else Inr (((le_at data offset 4, le_at data (offset + 4) 4, le_at data (offset + 8) 4), le_at data (offset + 12) 4),
       offset + 16))"

definition deserialize_pack :: "bytes \<Rightarrow> map_pack_error + map_pack" where
  "deserialize_pack data =
    (if length data < 4 + 4 + 1 + 1 + 8 + 4 then Inl Corrupt
     else if take 4 data \<noteq> RBPK_MAGIC then Inl Corrupt
     else if (le_at data 4 4 :: u32) \<noteq> PACK_FORMAT_VERSION then Inl Corrupt
     else case byte_to_size (data ! 8) of
         Inl e \<Rightarrow> Inl e
       | Inr preset \<Rightarrow>
         let flags = data ! 9; surface_y = le_at data 10 8; count = unat (le_at data 18 4 :: u32) in
         case read_entries (pack_entry data) count 22 Map.empty of
           (Some e, _) \<Rightarrow> Inl e
         | (None, blocks) \<Rightarrow>
             Inr \<lparr>mp_garden = (garden_from_size preset)\<lparr>gs_surface_y := surface_y,
                    gs_dimensions := \<lparr>ds_overworld = (flags AND 1 \<noteq> 0), ds_nether = (flags AND 2 \<noteq> 0), ds_end = (flags AND 4 \<noteq> 0)\<rparr>\<rparr>,
                  mp_blocks = blocks, mp_id = ascii ''file:'' @ map_size_as_str preset\<rparr>)"

definition load_pack_file :: "(path \<Rightarrow> io_error option) \<Rightarrow> files \<Rightarrow> path \<Rightarrow> map_pack_error + map_pack" where
  "load_pack_file rd fs path =
    (case fs_read rd fs path of Inl e \<Rightarrow> Inl (PackIo e) | Inr data \<Rightarrow> deserialize_pack data)"

definition save_pack_file ::
  "(block_map \<Rightarrow> (block_pos \<times> i32) list) \<Rightarrow> io_error option \<Rightarrow> (path \<Rightarrow> (nat \<times> io_error) option) \<Rightarrow> path \<Rightarrow> map_pack \<Rightarrow> files \<Rightarrow>
    (map_pack_error + unit) \<times> files" where
  "save_pack_file ord mkdir wr path pack fs =
    (case mkdir of Some e \<Rightarrow> (Inl (PackIo e), fs)
     | None \<Rightarrow> (case fs_write wr path (serialize_pack ord pack) fs of
         (Inl e, fs) \<Rightarrow> (Inl (PackIo e), fs) | (Inr u, fs) \<Rightarrow> (Inr u, fs)))"

definition pack_path :: "rstring \<Rightarrow> map_size \<Rightarrow> path" where
  "pack_path level_name preset = [level_name, ascii ''packs'', map_size_as_str preset @ ascii ''.rbpk'']"

subsection \<open>Decoration helpers\<close>

definition put :: "i32 \<Rightarrow> i32 \<Rightarrow> i32 \<Rightarrow> i32 \<Rightarrow> block_map \<Rightarrow> block_map" where
  "put x y z state blocks = blocks((x, y, z) \<mapsto> state)"

definition i32_below :: "i32 \<Rightarrow> i32 \<Rightarrow> i32 list" where
  "i32_below lo hi = map word_of_int [sint lo..sint hi - 1]"

definition fill_disk :: "i32 \<Rightarrow> i32 \<Rightarrow> i32 \<Rightarrow> i32 \<Rightarrow> i32 \<Rightarrow> block_map \<Rightarrow> block_map" where
  "fill_disk cx cy cz radius state blocks =
    fold (\<lambda>dx blocks. fold (\<lambda>dz blocks.
        if dx * dx + dz * dz \<le>s radius * radius then put (cx + dx) cy (cz + dz) state blocks else blocks)
      (i32_range (- radius) radius) blocks) (i32_range (- radius) radius) blocks"

definition border_wall :: "garden_spec \<Rightarrow> i32 \<Rightarrow> block_map \<Rightarrow> block_map" where
  "border_wall garden height blocks =
    fold (\<lambda>y blocks.
        let blocks = fold (\<lambda>x blocks. put x y (gs_max_block_z garden) BEDROCK_BLOCK_STATE
                (put x y (gs_min_block_z garden) BEDROCK_BLOCK_STATE blocks))
              (i32_range (gs_min_block_x garden) (gs_max_block_x garden)) blocks
        in fold (\<lambda>z blocks. put (gs_max_block_x garden) y z BEDROCK_BLOCK_STATE
                (put (gs_min_block_x garden) y z BEDROCK_BLOCK_STATE blocks))
              (i32_range (gs_min_block_z garden) (gs_max_block_z garden)) blocks)
      (i32_below 64 (64 + height)) blocks"

definition spawn_plaza :: "i32 \<Rightarrow> block_map \<Rightarrow> block_map" where
  "spawn_plaza radius blocks =
    (let inner = clamp_i32 (sint radius - 1); inner = (if inner \<le>s 1 then 1 else inner) in
     fill_disk 0 62 0 inner DIRT_BLOCK_STATE (fill_disk 0 63 0 radius GRASS_BLOCK_STATE blocks))"

definition path_east :: "i32 \<Rightarrow> block_map \<Rightarrow> block_map" where
  "path_east len blocks =
    fold (\<lambda>x blocks. put x 63 (- 1) DIRT_BLOCK_STATE (put x 63 1 DIRT_BLOCK_STATE (put x 63 0 DIRT_BLOCK_STATE blocks)))
      (i32_range 1 len) blocks"

definition water_pond :: "i32 \<Rightarrow> i32 \<Rightarrow> i32 \<Rightarrow> block_map \<Rightarrow> block_map" where
  "water_pond cx cz radius blocks =
    fold (\<lambda>dx blocks. fold (\<lambda>dz blocks.
        if radius * radius <s dx * dx + dz * dz then blocks
        else put (cx + dx) 61 (cz + dz) DIRT_BLOCK_STATE
              (put (cx + dx) 62 (cz + dz) WATER_BLOCK_STATE (put (cx + dx) 63 (cz + dz) WATER_BLOCK_STATE blocks)))
      (i32_range (- radius) radius) blocks) (i32_range (- radius) radius) blocks"

definition lava_pool :: "i32 \<Rightarrow> i32 \<Rightarrow> i32 \<Rightarrow> block_map \<Rightarrow> block_map" where
  "lava_pool cx cz radius blocks =
    fold (\<lambda>dx blocks. fold (\<lambda>dz blocks.
        if radius * radius <s dx * dx + dz * dz then blocks
        else put (cx + dx) 62 (cz + dz) NETHERRACK_BLOCK_STATE (put (cx + dx) 63 (cz + dz) LAVA_BLOCK_STATE blocks))
      (i32_range (- radius) radius) blocks) (i32_range (- radius) radius) blocks"

definition portal_pad :: "i32 \<Rightarrow> i32 \<Rightarrow> i32 \<Rightarrow> i32 \<Rightarrow> block_map \<Rightarrow> block_map" where
  "portal_pad cx cz surface_state pad_state blocks =
    fold (\<lambda>dx blocks. fold (\<lambda>dz blocks.
        put (cx + dx) 64 (cz + dz) pad_state (put (cx + dx) 63 (cz + dz) surface_state blocks))
      (i32_range (- 1) 1) blocks) (i32_range (- 1) 1) blocks"

subsection \<open>The built-in packs\<close>

definition tiny_overworld :: "garden_spec \<Rightarrow> block_map \<Rightarrow> block_map" where
  "tiny_overworld garden blocks =
    (let blocks = border_wall garden 2 (spawn_plaza 3 blocks);
         blocks = put 3 64 0 DIAMOND_BLOCK_STATE blocks;
         blocks = put 2 64 0 STONE_BLOCK_STATE blocks;
         blocks = put (- 2) 64 0 STONE_BLOCK_STATE blocks;
         blocks = put 0 64 2 STONE_BLOCK_STATE blocks
     in put 0 64 (- 2) STONE_BLOCK_STATE blocks)"

definition small_overworld :: "garden_spec \<Rightarrow> block_map \<Rightarrow> block_map" where
  "small_overworld garden blocks =
    (let blocks = path_east 24 (border_wall garden 2 (spawn_plaza 5 blocks));
         blocks = put 3 64 0 EMERALD_BLOCK_STATE blocks
     in fold (\<lambda>x blocks. fold (\<lambda>z blocks. put x 64 z SAND_BLOCK_STATE (put x 63 z SAND_BLOCK_STATE blocks))
          (i32_below 8 12) blocks) (i32_below 10 14) blocks)"

definition medium_overworld :: "garden_spec \<Rightarrow> block_map \<Rightarrow> block_map" where
  "medium_overworld garden blocks =
    (let blocks = path_east 48 (border_wall garden 3 (spawn_plaza 8 blocks));
         blocks = put 3 64 0 COAL_BLOCK_STATE blocks;
         blocks = fold (\<lambda>y blocks. put 20 y 20 STONE_BLOCK_STATE blocks) (i32_below 64 69) blocks;
         blocks = put 20 69 20 BEDROCK_BLOCK_STATE blocks
     in fill_disk (- 30) 63 30 4 GRASS_BLOCK_STATE blocks)"

definition builtin_overworld_pack :: "map_size \<Rightarrow> map_pack" where
  "builtin_overworld_pack preset =
    (let garden = garden_from_size preset;
         blocks = (case preset of Tiny \<Rightarrow> tiny_overworld garden Map.empty | Small \<Rightarrow> small_overworld garden Map.empty
           | Medium \<Rightarrow> medium_overworld garden Map.empty);
         blocks = portal_pad (- 6) 0 NETHERRACK_BLOCK_STATE GLOWSTONE_BLOCK_STATE blocks;
         blocks = portal_pad 6 0 END_STONE_BLOCK_STATE END_STONE_BLOCK_STATE blocks;
         blocks = water_pond 0 (- 12) 3 blocks;
         blocks = put 0 64 4 CHEST_BLOCK_STATE blocks
     in \<lparr>mp_garden = garden, mp_blocks = blocks,
         mp_id = ascii ''builtin:'' @ map_size_as_str preset @ ascii '':overworld''\<rparr>)"

definition clear_spawn_column :: "block_map \<Rightarrow> block_map" where
  "clear_spawn_column blocks =
    fold (\<lambda>y blocks. put 0 y (- 1) 0 (put (- 1) y 0 0 (put 1 y 0 0 (put 0 y 1 0 (put 0 y 0 0 blocks)))))
      (i32_range 64 68) blocks"

definition builtin_nether_pack :: "map_size \<Rightarrow> map_pack" where
  "builtin_nether_pack preset =
    (let garden = garden_from_size preset;
         blocks = fill_disk 0 63 0 4 SOUL_SAND_BLOCK_STATE (border_wall garden 2 Map.empty);
         blocks = clear_spawn_column blocks;
         blocks = portal_pad (- 6) 0 NETHERRACK_BLOCK_STATE GLOWSTONE_BLOCK_STATE blocks;
         blocks = put 3 64 0 GLOWSTONE_BLOCK_STATE blocks;
         blocks = lava_pool 10 0 2 blocks
     in \<lparr>mp_garden = garden, mp_blocks = blocks, mp_id = ascii ''builtin:'' @ map_size_as_str preset @ ascii '':nether''\<rparr>)"

definition builtin_end_pack :: "map_size \<Rightarrow> map_pack" where
  "builtin_end_pack preset =
    (let garden = garden_from_size preset;
         blocks = fill_disk 0 63 0 5 END_STONE_BLOCK_STATE (border_wall garden 2 Map.empty);
         blocks = clear_spawn_column blocks;
         blocks = portal_pad (- 6) 0 END_STONE_BLOCK_STATE GLOWSTONE_BLOCK_STATE blocks;
         blocks = fold (\<lambda>y blocks. put 14 y 14 END_STONE_BLOCK_STATE (put 12 y 14 END_STONE_BLOCK_STATE
             (put 14 y 12 END_STONE_BLOCK_STATE (put 12 y 12 END_STONE_BLOCK_STATE blocks)))) (i32_below 64 72) blocks;
         blocks = put 13 72 13 DIAMOND_BLOCK_STATE blocks
     in \<lparr>mp_garden = garden, mp_blocks = blocks, mp_id = ascii ''builtin:'' @ map_size_as_str preset @ ascii '':end''\<rparr>)"

definition builtin_pack :: "map_size \<Rightarrow> dimension_id \<Rightarrow> map_pack" where
  "builtin_pack preset d = (case d of Overworld \<Rightarrow> builtin_overworld_pack preset | Nether \<Rightarrow> builtin_nether_pack preset
    | TheEnd \<Rightarrow> builtin_end_pack preset)"

subsection \<open>Choosing a pack\<close>

definition pack_file_name :: "map_size \<Rightarrow> dimension_id \<Rightarrow> rstring" where
  "pack_file_name preset d = (case d of Overworld \<Rightarrow> map_size_as_str preset @ ascii ''.rbpk''
    | other \<Rightarrow> map_size_as_str preset @ ascii ''-'' @ dimension_as_str other @ ascii ''.rbpk'')"

definition pack_path_for :: "rstring \<Rightarrow> map_size \<Rightarrow> dimension_id \<Rightarrow> path" where
  "pack_path_for level_name preset d = [level_name, ascii ''packs'', pack_file_name preset d]"

definition resolve_pack :: "(path \<Rightarrow> io_error option) \<Rightarrow> files \<Rightarrow> rstring \<Rightarrow> map_size \<Rightarrow> map_pack" where
  "resolve_pack rd fs level_name preset =
    (case load_pack_file rd fs (pack_path level_name preset) of
       Inr pack \<Rightarrow> pack\<lparr>mp_garden := garden_from_size preset, mp_id := ascii ''file:'' @ map_size_as_str preset\<rparr>
     | Inl _ \<Rightarrow> builtin_overworld_pack preset)"

definition resolve_dimension_pack :: "(path \<Rightarrow> io_error option) \<Rightarrow> files \<Rightarrow> rstring \<Rightarrow> map_size \<Rightarrow> dimension_id \<Rightarrow> map_pack" where
  "resolve_dimension_pack rd fs level_name preset d =
    (case resolve_pack_file fs level_name (pack_file_name preset d) of
       Some path \<Rightarrow>
         (case load_pack_file rd fs path of
            Inr pack \<Rightarrow> pack\<lparr>mp_garden := garden_from_size preset,
              mp_id := ascii ''file:'' @ map_size_as_str preset @ ascii '':'' @ dimension_as_str d\<rparr>
          | Inl _ \<Rightarrow> builtin_pack preset d)
     | None \<Rightarrow> builtin_pack preset d)"

definition resolve_all_packs ::
  "(path \<Rightarrow> io_error option) \<Rightarrow> files \<Rightarrow> rstring \<Rightarrow> map_size \<Rightarrow> (dimension_id \<rightharpoonup> map_pack)" where
  "resolve_all_packs rd fs level_name preset =
    fold (\<lambda>d out. out(d \<mapsto> resolve_dimension_pack rd fs level_name preset d)) dimension_all Map.empty"

text \<open>Writing the nine built-in packs (\<open>container.rs\<close>): an error ends it, with the packs written so far in place.\<close>

fun write_packs ::
  "(block_map \<Rightarrow> (block_pos \<times> i32) list) \<Rightarrow> (path \<Rightarrow> (nat \<times> io_error) option) \<Rightarrow> path \<Rightarrow> (map_size \<times> dimension_id) list \<Rightarrow>
    nat \<Rightarrow> files \<Rightarrow> (io_error + nat) \<times> files" where
  "write_packs ord wr dir [] written fs = (Inr written, fs)"
| "write_packs ord wr dir ((preset, d) # rest) written fs =
    (case fs_write wr (dir @ [pack_file_name preset d]) (serialize_pack ord (builtin_pack preset d)) fs of
       (Inl e, fs) \<Rightarrow> (Inl e, fs)
     | (Inr _, fs) \<Rightarrow> write_packs ord wr dir rest (written + 1) fs)"

definition write_bundled_packs ::
  "(block_map \<Rightarrow> (block_pos \<times> i32) list) \<Rightarrow> io_error option \<Rightarrow> (path \<Rightarrow> (nat \<times> io_error) option) \<Rightarrow> path \<Rightarrow> files \<Rightarrow>
    (io_error + nat) \<times> files" where
  "write_bundled_packs ord mkdir wr dir fs =
    (case mkdir of Some e \<Rightarrow> (Inl e, fs)
     | None \<Rightarrow> write_packs ord wr dir (List.product [Tiny, Small, Medium] [Overworld, Nether, TheEnd]) 0 fs)"

subsection \<open>Packs read back\<close>

lemma pack_flags:
  "(pack_flags ds AND 1 \<noteq> 0) = ds_overworld ds" "(pack_flags ds AND 2 \<noteq> 0) = ds_nether ds" "(pack_flags ds AND 4 \<noteq> 0) = ds_end ds"
  by (cases "ds_overworld ds"; cases "ds_nether ds"; cases "ds_end ds"; simp add: pack_flags_def)+

lemma pack_entry_written:
  assumes "data = pre @ override_bytes (k, v) @ post"
  shows "pack_entry data (length pre) = Inr ((k, v), length pre + length (override_bytes (k, v)))"
  using override_entry_written [OF assms] by (simp add: pack_entry_def override_entry_def assms)

text \<open>
  C29: What a pack file keeps. A pack with fewer than 2^32 decorations, written to a file and read back, has every
  decoration, and a garden of the same size preset with the same surface height and the same dimensions; the border
  is the one of the preset again, whatever border the pack had, and the id is \<open>file:\<close> with the name of the preset. A
  pack whose garden is a preset with its surface height and dimensions set, which every garden of the program is, thus
  differs from what was written in its id alone.
\<close>

theorem pack_reads_back:
  assumes "overrides_storable ord (mp_blocks pack)"
  shows "deserialize_pack (serialize_pack ord pack) =
      Inr (pack\<lparr>mp_id := ascii ''file:'' @ map_size_as_str (gs_size (mp_garden pack)),
        mp_garden := (garden_from_size (gs_size (mp_garden pack)))
          \<lparr>gs_surface_y := gs_surface_y (mp_garden pack), gs_dimensions := gs_dimensions (mp_garden pack)\<rparr>\<rparr>)
    \<and> ((\<exists>preset y ds. mp_garden pack = (garden_from_size preset)\<lparr>gs_surface_y := y, gs_dimensions := ds\<rparr>) \<longrightarrow>
      deserialize_pack (serialize_pack ord pack) =
        Inr (pack\<lparr>mp_id := ascii ''file:'' @ map_size_as_str (gs_size (mp_garden pack))\<rparr>))"
proof -
  let ?m = "mp_blocks pack" and ?data = "serialize_pack ord pack"
  let ?c = "card (dom ?m)"
  have ord: "iteration_order ord" "finite (dom ?m)" and small: "?c < 2 ^ 32"
    using assms unfolding overrides_storable_def by blast+
  note it = iteration_order.iterates [OF ord]
  define preset y ds where g: "preset = gs_size (mp_garden pack)" "y = gs_surface_y (mp_garden pack)" "ds = gs_dimensions (mp_garden pack)"
  note g' = g [symmetric]
  let ?head = "RBPK_MAGIC @ to_le_bytes PACK_FORMAT_VERSION @ [size_to_byte preset] @ [pack_flags ds] @ to_le_bytes y
    @ to_le_bytes (u32_count ?c)"
  let ?body = "concat (map override_bytes (ord ?m))"
  have data: "?data = ?head @ ?body"
    by (simp add: serialize_pack_def Let_def fold_entry_bytes g')
  have head: "length ?head = 22" "length RBPK_MAGIC = 4" by (simp_all add: RBPK_MAGIC_def)
  have fields: "take 4 ?data = RBPK_MAGIC" "le_at ?data 4 4 = PACK_FORMAT_VERSION" "?data ! 8 = size_to_byte preset"
    "?data ! 9 = pack_flags ds" "le_at ?data 10 8 = y" "le_at ?data 18 4 = u32_count ?c"
    unfolding data append_assoc using head(2) by (simp_all add: le_at_skip le_at_Cons le_at_word nth_append)
  have "read_entries (pack_entry ?data) (length (ord ?m)) (length ?head) Map.empty = (None, Map.empty ++ map_of (ord ?m))"
    using it by (intro read_entries_written [where enc = override_bytes and post = "[]"] pack_entry_written)
      (simp_all add: data iterates_def)
  then have entries: "read_entries (pack_entry ?data) ?c 22 Map.empty = (None, ?m)"
    unfolding head(1) using it by (simp add: card_iterates [OF it] iterates_def)
  have "byte_to_size (size_to_byte preset) = Inr preset"
    by (cases preset) (simp_all add: byte_to_size_def size_to_byte_def)
  moreover have "\<not> length ?data < 22" using head(1) by (simp only: data length_append)
  ultimately have "deserialize_pack ?data = Inr \<lparr>mp_garden = (garden_from_size preset)\<lparr>gs_surface_y := y, gs_dimensions := ds\<rparr>,
      mp_blocks = ?m, mp_id = ascii ''file:'' @ map_size_as_str preset\<rparr>"
    using entries by (simp add: deserialize_pack_def fields unat_u32_count [OF small] pack_flags Let_def)
  then show ?thesis by (auto simp: g garden_from_size_def Let_def)
qed

theorem pack_reads_back_witness:
  "deserialize_pack (serialize_pack sorted_entries
      \<lparr>mp_garden = garden_from_size Small, mp_blocks = [(1, 64, 2) \<mapsto> 10], mp_id = []\<rparr>) =
    Inr \<lparr>mp_garden = garden_from_size Small, mp_blocks = [(1, 64, 2) \<mapsto> 10], mp_id = ascii ''file:small''\<rparr>"
proof -
  let ?p = "\<lparr>mp_garden = garden_from_size Small, mp_blocks = [(1, 64, 2) \<mapsto> 10], mp_id = []\<rparr>"
  have "overrides_storable sorted_entries (mp_blocks ?p)"
    unfolding overrides_storable_def by (intro conjI) (simp_all add: sorted.iteration_order_axioms)
  moreover have "mp_garden ?p = (garden_from_size Small)\<lparr>gs_surface_y := 0x4050000000000000, gs_dimensions := dimension_set_default\<rparr>"
    by (simp add: garden_from_size_def Let_def)
  ultimately have "deserialize_pack (serialize_pack sorted_entries ?p) = Inr (?p\<lparr>mp_id := ascii ''file:'' @ map_size_as_str (gs_size (mp_garden ?p))\<rparr>)"
    using pack_reads_back [of sorted_entries ?p] by blast
  then show ?thesis by (simp add: garden_from_size_def Let_def map_size_as_str_def ascii_def)
qed

subsection \<open>Arriving in a built-in garden\<close>

text \<open>Where each decoration does not reach.\<close>

lemma fold_keeps: "(\<And>x b. x \<in> set xs \<Longrightarrow> f x b p = b p) \<Longrightarrow> fold f xs b p = b p"
  by (induction xs arbitrary: b) simp_all

lemma put_other: "p \<noteq> (x, y, z) \<Longrightarrow> put x y z s b p = b p"
  by (simp add: put_def)

lemma fill_disk_other: "y \<noteq> cy \<Longrightarrow> fill_disk cx cy cz r s b (x, y, z) = b (x, y, z)"
  unfolding fill_disk_def by (intro fold_keeps) (simp add: put_def)

lemma spawn_plaza_other: "y \<noteq> 62 \<Longrightarrow> y \<noteq> 63 \<Longrightarrow> spawn_plaza r b (x, y, z) = b (x, y, z)"
  by (simp add: spawn_plaza_def Let_def fill_disk_other)

lemma path_east_other: "y \<noteq> 63 \<Longrightarrow> path_east n b (x, y, z) = b (x, y, z)"
  unfolding path_east_def by (intro fold_keeps) (simp add: put_def)

lemma water_pond_other: "y \<noteq> 61 \<Longrightarrow> y \<noteq> 62 \<Longrightarrow> y \<noteq> 63 \<Longrightarrow> water_pond cx cz r b (x, y, z) = b (x, y, z)"
  unfolding water_pond_def by (intro fold_keeps) (simp add: put_def)

lemma lava_pool_other: "y \<noteq> 62 \<Longrightarrow> y \<noteq> 63 \<Longrightarrow> lava_pool cx cz r b (x, y, z) = b (x, y, z)"
  unfolding lava_pool_def by (intro fold_keeps) (simp add: put_def)

lemma pad_offsets: "i32_range (- 1) 1 = [- 1, 0, 1]"
  by (simp add: i32_range_def upto.simps)

lemma portal_pad_other:
  "x \<noteq> cx - 1 \<Longrightarrow> x \<noteq> cx \<Longrightarrow> x \<noteq> cx + 1 \<Longrightarrow> portal_pad cx cz s t b (x, y, z) = b (x, y, z)"
  by (simp add: portal_pad_def pad_offsets put_def)

lemma border_wall_other:
  "x \<noteq> gs_min_block_x g \<Longrightarrow> x \<noteq> gs_max_block_x g \<Longrightarrow> z \<noteq> gs_min_block_z g \<Longrightarrow> z \<noteq> gs_max_block_z g \<Longrightarrow>
    border_wall g h b (x, y, z) = b (x, y, z)"
  unfolding border_wall_def Let_def
  by (rule fold_keeps, rule trans, rule fold_keeps, simp add: put_def, rule fold_keeps, simp add: put_def)

lemma border_far: "gs_min_block_x (garden_from_size s) \<noteq> 0" "gs_max_block_x (garden_from_size s) \<noteq> 0"
  by (cases s; simp add: garden_from_size_def chunk_radius_def Let_def)+

lemma border_wall_spawn: "border_wall (garden_from_size s) h b (0, y, 0) = b (0, y, 0)"
  using border_far [of s] by (intro border_wall_other) (auto simp: garden_bounds(4,5))

lemma clear_spawn_column_clears:
  "y \<in> {64, 65, 66, 67, 68} \<Longrightarrow> clear_spawn_column b (0, y, 0) = Some 0"
proof -
  have "i32_range 64 68 = [64, 65, 66, 67, 68]" by (simp add: i32_range_def upto.simps)
  then show "y \<in> {64, 65, 66, 67, 68} \<Longrightarrow> clear_spawn_column b (0, y, 0) = Some 0"
    by (auto simp: clear_spawn_column_def put_def)
qed

lemma overworld_spawn_column:
  assumes "y \<in> {64, 65, 66}"
  shows "mp_blocks (builtin_overworld_pack s) (0, y, 0) = None"
proof -
  have y: "y \<noteq> 61" "y \<noteq> 62" "y \<noteq> 63" using assms by auto
  have tiny: "tiny_overworld (garden_from_size s) Map.empty (0, y, 0) = None" for s
    using y by (simp add: tiny_overworld_def Let_def put_def border_wall_spawn spawn_plaza_other)
  have small: "small_overworld (garden_from_size s) Map.empty (0, y, 0) = None" for s
  proof -
    have "i32_below 10 14 = [10, 11, 12, 13]" by (simp add: i32_below_def upto.simps)
    then have "fold (\<lambda>x blocks. fold (\<lambda>z blocks. put x 64 z SAND_BLOCK_STATE (put x 63 z SAND_BLOCK_STATE blocks))
        (i32_below 8 12) blocks) (i32_below 10 14) b (0, y, 0) = b (0, y, 0)" for b
      by (intro fold_keeps) (auto simp: put_def)
    then show ?thesis
      using y by (simp add: small_overworld_def Let_def put_def border_wall_spawn spawn_plaza_other path_east_other)
  qed
  have medium: "medium_overworld (garden_from_size s) Map.empty (0, y, 0) = None" for s
  proof -
    have "fold (\<lambda>y blocks. put 20 y 20 STONE_BLOCK_STATE blocks) ys b (0, y, 0) = b (0, y, 0)" for ys b
      by (intro fold_keeps) (simp add: put_def)
    then show ?thesis
      using y by (simp add: medium_overworld_def Let_def put_other fill_disk_other border_wall_spawn spawn_plaza_other path_east_other)
  qed
  show ?thesis
    using y tiny small medium
    by (simp add: builtin_overworld_pack_def Let_def put_other water_pond_other portal_pad_other split: map_size.split)
qed

lemma other_spawn_columns:
  assumes "y \<in> {64, 65, 66}"
  shows "mp_blocks (builtin_nether_pack s) (0, y, 0) = Some 0" "mp_blocks (builtin_end_pack s) (0, y, 0) = Some 0"
proof -
  have y: "y \<noteq> 62" "y \<noteq> 63" "y \<in> {64, 65, 66, 67, 68}" using assms by auto
  show "mp_blocks (builtin_nether_pack s) (0, y, 0) = Some 0"
    using y(1,2) clear_spawn_column_clears [OF y(3)]
    by (simp add: builtin_nether_pack_def Let_def lava_pool_other put_other portal_pad_other)
  have "fold (\<lambda>y blocks. put 14 y 14 END_STONE_BLOCK_STATE (put 12 y 14 END_STONE_BLOCK_STATE
      (put 14 y 12 END_STONE_BLOCK_STATE (put 12 y 12 END_STONE_BLOCK_STATE blocks)))) ys b (0, y, 0) = b (0, y, 0)" for ys b
    by (intro fold_keeps) (simp add: put_def)
  then show "mp_blocks (builtin_end_pack s) (0, y, 0) = Some 0"
    using y(1,2) clear_spawn_column_clears [OF y(3)]
    by (simp add: builtin_end_pack_def Let_def put_other portal_pad_other)
qed

text \<open>The feet of an arriving player, as block coordinates.\<close>

text \<open>The feet of an arriving player, as block coordinates: \<open>0.5\<close> is column 0, \<open>65.0 - 0.05\<close> is height 64.\<close>

lemma arrival_literals: "DIMENSION_ARRIVAL_Y = 0x4050400000000000" "f64_lit 5 100 = 0x3FA999999999999A"
proof -
  have "fl_round_mag 52 11 (65 * 2 ^ 1074) 1 = 0x4050400000000000"
    by (subst fl_round_mag_by [where s = 1028]) (simp_all add: Let_def)
  then show "DIMENSION_ARRIVAL_Y = 0x4050400000000000"
    by (simp add: DIMENSION_ARRIVAL_Y_def f64_lit_def fl_round_def fl_sign_bit_def)
  have "fl_round_mag 52 11 (5 * 2 ^ 1074) 100 = 0x3FA999999999999A"
    by (subst fl_round_mag_by [where s = 1017]) (simp_all add: Let_def)
  then show "f64_lit 5 100 = 0x3FA999999999999A"
    by (simp add: f64_lit_def fl_round_def fl_sign_bit_def)
qed

lemma arrival_height: "floor_i32 (f64_sub DIMENSION_ARRIVAL_Y (f64_lit 5 100)) = 64"
proof -
  have u: "fl_units 52 11 0x4050400000000000 = 65 * 2 ^ 1074"
    "fl_units 52 11 (fl_minus 52 11 0x3FA999999999999A) = - (7205759403792794 * 2 ^ 1017)"
    by (simp_all add: fl_units_def fl_minus_def fl_neg_def fl_magnitude_def fl_exp_def fl_frac_def)
  have "fl_round_mag 52 11 ((65 * 2 ^ 57 - 7205759403792794) * 2 ^ 1017) 1 = 0x40503CCCCCCCCCCD"
    by (subst fl_round_mag_by [where s = 1028]) (simp_all add: Let_def)
  then have "fl_of_units 52 11 z (65 * 2 ^ 1074 + - (7205759403792794 * 2 ^ 1017)) = 0x40503CCCCCCCCCCD" for z
    by (simp add: fl_of_units_def fl_round_def fl_sign_bit_def)
  then have "f64_sub DIMENSION_ARRIVAL_Y (f64_lit 5 100) = 0x40503CCCCCCCCCCD"
    unfolding arrival_literals
    using u by (simp add: f64_sub_def fl_sub_def fl_add_def fl_nan_def fl_inf_def fl_exp_def fl_frac_def fl_minus_def fl_neg_def)
  moreover have "floor_i32 0x40503CCCCCCCCCCD = 64"
    by (simp add: floor_i32_def f64_nan_def fl_nan_def fl_exp_def fl_frac_def f64_units_def fl_units_def fl_neg_def
        fl_magnitude_def f64_one_def clamp_i32_def)
  ultimately show ?thesis by simp
qed

lemma arrival_column: "floor_i32 f64_half = 0"
proof -
  have "half_one div f64_one = 0" using half_one_pos by (simp add: f64_one_half)
  then show ?thesis
    using f64_half_units f64_finite_not(1) [OF f64_half_units(2)] by (simp add: floor_i32_def clamp_i32_def)
qed

definition builtin_world :: "map_size \<Rightarrow> dimension_id \<Rightarrow> world" where
  "builtin_world preset d = load_pack_blocks_for d (mp_blocks (builtin_pack preset d)) (with_garden (garden_from_size preset))"

lemma builtin_spawn_column:
  assumes "y \<in> {64, 65, 66}"
  shows "get_block (builtin_world preset d) d 0 y 0 = AIR_BLOCK_STATE"
proof -
  have "mp_blocks (builtin_pack preset d) (0, y, 0) \<in> {None, Some 0}"
    using overworld_spawn_column [OF assms] other_spawn_columns [OF assms] by (cases d) (simp_all add: builtin_pack_def)
  moreover have "\<not> y \<le>s FLAT_STONE_MAX_Y" using assms by (auto simp: chunk_consts word_sle_eq)
  ultimately show ?thesis
    by (auto simp: builtin_world_def get_block_def load_pack_blocks_for_def with_garden_def empty_by_dim
        generated_flat_block_def AIR_BLOCK_STATE_def)
qed

text \<open>
  C25: Arriving in a built-in garden is safe: in every size and dimension, with the built-in pack loaded, the
  block under a player who arrives is air, so no portal takes it on at once, and the two blocks its body
  is in are air too.
\<close>

theorem arrival_is_clear:
  "(case arrival_position (builtin_world preset d) of (x, y, z) \<Rightarrow>
      portal_destination d (block_under_feet (builtin_world preset d) d x y z) = None
      \<and> block_under_feet (builtin_world preset d) d x y z = AIR_BLOCK_STATE)
   \<and> get_block (builtin_world preset d) d 0 65 0 = AIR_BLOCK_STATE
   \<and> get_block (builtin_world preset d) d 0 66 0 = AIR_BLOCK_STATE"
proof -
  have "arrival_position (builtin_world preset d) = (f64_half, DIMENSION_ARRIVAL_Y, f64_half)"
    by (simp add: arrival_position_def spawn_point_def builtin_world_def load_pack_blocks_for_def with_garden_def)
  moreover have "block_under_feet (builtin_world preset d) d f64_half DIMENSION_ARRIVAL_Y f64_half = AIR_BLOCK_STATE"
    by (simp add: block_under_feet_def arrival_height arrival_column builtin_spawn_column)
  moreover have "portal_destination d AIR_BLOCK_STATE = None"
    by (cases d) (simp_all add: portal_destination_def portal_blocks AIR_BLOCK_STATE_def)
  ultimately show ?thesis by (simp add: builtin_spawn_column)
qed

end
