(* ===== verification/Mods.thy ===== *)
theory Mods
  imports Session_Events
begin

section \<open>The interface for mods (\<open>mod_api.rs\<close>)\<close>

text \<open>
  A mod is code the server does not contain: an identifier and three callbacks. What a callback may
  touch besides its context (its own state, and the channel of the tick loop it may send messages to) is
  the state \<open>'s\<close> it is given and returns. The host keeps the registered mods and calls them in order.
\<close>

datatype mod_error = DuplicateMod rstring | DuplicateRegistration rstring | InvalidIdentifier rstring | OtherModError rstring

definition mod_error_message :: "mod_error \<Rightarrow> rstring" where
  "mod_error_message e = (case e of
      DuplicateMod i \<Rightarrow> ascii ''duplicate mod: '' @ i
    | DuplicateRegistration i \<Rightarrow> ascii ''duplicate registration: '' @ i
    | InvalidIdentifier i \<Rightarrow> ascii ''invalid identifier: '' @ i
    | OtherModError m \<Rightarrow> ascii ''mod error: '' @ m)"

datatype break_action = DefaultBreak | InstantBreak | CancelBreak | CustomBreak u64
datatype place_action = DefaultPlace | CancelPlace
datatype use_action = DefaultUse | ConsumeUse
datatype item_use_action = DefaultItemUse | ConsumeItemUse | TransformItem i32

record player_info =
  pi_entity_id :: i32
  pi_uuid :: uuid
  pi_username :: rstring
  pi_gamemode :: u8
  pi_position :: "f64bits \<times> f64bits \<times> f64bits"
  pi_health :: f32bits
  pi_food :: i32

record player_view =
  pv_players :: "player_info list"

definition player_view_new :: "player_info list \<Rightarrow> player_view" where
  "player_view_new players = \<lparr>pv_players = players\<rparr>"

definition player_view_get :: "player_view \<Rightarrow> i32 \<Rightarrow> player_info option" where
  "player_view_get v entity_id = find (\<lambda>p. pi_entity_id p = entity_id) (pv_players v)"

definition player_view_count :: "player_view \<Rightarrow> nat" where
  "player_view_count v = length (pv_players v)"

text \<open>The context: the facade in it is the sending end of the channel, which is part of \<open>'s\<close>.\<close>

record mod_context =
  mc_players :: player_view
  mc_tick_count :: u64

definition mod_context_new :: "player_view \<Rightarrow> u64 \<Rightarrow> mod_context" where
  "mod_context_new players tick_count = \<lparr>mc_players = players, mc_tick_count = tick_count\<rparr>"

record 's game_mod =
  gm_id :: rstring
  gm_init :: "mod_context \<Rightarrow> 's \<Rightarrow> (mod_error + unit) \<times> 's"
  gm_tick :: "mod_context \<Rightarrow> 's \<Rightarrow> (mod_error + unit) \<times> 's"
  gm_shutdown :: "mod_context \<Rightarrow> 's \<Rightarrow> 's"

text \<open>The callbacks a mod does not override, and those of a block or item.\<close>

definition mod_defaults :: "rstring \<Rightarrow> 's game_mod" where
  "mod_defaults i = \<lparr>gm_id = i, gm_init = (\<lambda>_ s. (Inr (), s)), gm_tick = (\<lambda>_ s. (Inr (), s)), gm_shutdown = (\<lambda>_ s. s)\<rparr>"

record block_behavior =
  bhv_on_break_start :: "mod_context \<Rightarrow> i32 \<Rightarrow> block_pos \<Rightarrow> break_action"
  bhv_on_place :: "mod_context \<Rightarrow> i32 \<Rightarrow> block_pos \<Rightarrow> place_action"
  bhv_hardness :: f32bits
  bhv_on_use :: "mod_context \<Rightarrow> i32 \<Rightarrow> block_pos \<Rightarrow> use_action"

definition block_defaults :: block_behavior where
  "block_defaults = \<lparr>bhv_on_break_start = (\<lambda>_ _ _. DefaultBreak), bhv_on_place = (\<lambda>_ _ _. DefaultPlace),
    bhv_hardness = f32_lit 15 10, bhv_on_use = (\<lambda>_ _ _. DefaultUse)\<rparr>"

record item_behavior =
  ib_on_use :: "mod_context \<Rightarrow> i32 \<Rightarrow> item_use_action"
  ib_on_use_on_block :: "mod_context \<Rightarrow> i32 \<Rightarrow> block_pos \<Rightarrow> i32 \<Rightarrow> item_use_action"

definition item_defaults :: item_behavior where
  "item_defaults = \<lparr>ib_on_use = (\<lambda>_ _. DefaultItemUse), ib_on_use_on_block = (\<lambda>_ _ _ _. DefaultItemUse)\<rparr>"

subsection \<open>The registry and the host\<close>

type_synonym 's mod_registry = "'s game_mod list"

definition mod_registry_new :: "'s mod_registry" where
  "mod_registry_new = []"

definition mod_register :: "'s game_mod \<Rightarrow> 's mod_registry \<Rightarrow> (mod_error + unit) \<times> 's mod_registry" where
  "mod_register m registry =
    (let i = gm_id m in
     if list_ex (\<lambda>m. gm_id m = i) registry then (Inl (DuplicateMod i), registry)
     else (Inr (), registry @ [m]))"

definition mod_registry_len :: "'s mod_registry \<Rightarrow> nat" where
  "mod_registry_len registry = length registry"

definition mod_registry_is_empty :: "'s mod_registry \<Rightarrow> bool" where
  "mod_registry_is_empty registry \<longleftrightarrow> registry = []"

text \<open>\<open>for m in mods { m.callback(&ctx)?; }\<close>\<close>

fun for_mods :: "('s game_mod \<Rightarrow> mod_context \<Rightarrow> 's \<Rightarrow> (mod_error + unit) \<times> 's) \<Rightarrow> mod_context \<Rightarrow>
    's game_mod list \<Rightarrow> 's \<Rightarrow> (mod_error + unit) \<times> 's" where
  "for_mods cb ctx [] s = (Inr (), s)"
| "for_mods cb ctx (m # ms) s =
    (case cb m ctx s of (Inl e, s) \<Rightarrow> (Inl e, s) | (Inr _, s) \<Rightarrow> for_mods cb ctx ms s)"

definition init_all :: "'s mod_registry \<Rightarrow> player_view \<Rightarrow> u64 \<Rightarrow> 's \<Rightarrow> (mod_error + unit) \<times> 's" where
  "init_all host players tick_count s = for_mods gm_init (mod_context_new players tick_count) host s"

definition tick_all :: "'s mod_registry \<Rightarrow> player_view \<Rightarrow> u64 \<Rightarrow> 's \<Rightarrow> (mod_error + unit) \<times> 's" where
  "tick_all host players tick_count s = for_mods gm_tick (mod_context_new players tick_count) host s"

definition shutdown_all :: "'s mod_registry \<Rightarrow> player_view \<Rightarrow> u64 \<Rightarrow> 's \<Rightarrow> 's" where
  "shutdown_all host players tick_count s =
    (let ctx = mod_context_new players tick_count in fold (\<lambda>m s. gm_shutdown m ctx s) host s)"

subsection \<open>Properties\<close>

text \<open>The registration of a list of mods, as the server does at its start; refusals are logged and skipped.\<close>

definition register_mods :: "'s game_mod list \<Rightarrow> 's mod_registry \<Rightarrow> 's mod_registry" where
  "register_mods ms registry = fold (\<lambda>m r. snd (mod_register m r)) ms registry"

lemma mod_register_ids:
  "distinct (map gm_id r) \<Longrightarrow> distinct (map gm_id (snd (mod_register m r)))"
  "gm_id ` set (snd (mod_register m r)) = insert (gm_id m) (gm_id ` set r)"
  by (auto simp: mod_register_def Let_def list_ex_iff intro: rev_image_eqI)

lemma register_mods_ids:
  "distinct (map gm_id r) \<Longrightarrow> distinct (map gm_id (register_mods ms r))"
  "gm_id ` set (register_mods ms r) = gm_id ` set ms \<union> gm_id ` set r"
  by (induction ms arbitrary: r) (simp_all add: register_mods_def mod_register_ids)

lemma register_mods_keeps: "\<exists>new. register_mods ms r = r @ new"
proof (induction ms arbitrary: r)
  case Nil
  then show ?case by (simp add: register_mods_def)
next
  case (Cons m ms)
  have "\<exists>x. snd (mod_register m r) = r @ x" by (auto simp: mod_register_def Let_def)
  then obtain x where x: "snd (mod_register m r) = r @ x" ..
  from Cons.IH [of "r @ x"] show ?case by (auto simp: register_mods_def x)
qed

lemma for_mods_append:
  "for_mods cb ctx (ms @ ms') s =
    (case for_mods cb ctx ms s of (Inl e, s) \<Rightarrow> (Inl e, s) | (Inr _, s) \<Rightarrow> for_mods cb ctx ms' s)"
  by (induction ms arbitrary: s) (auto split: prod.splits sum.splits)

text \<open>A failing callback ends the round: the mods registered after it are not called.\<close>

lemma for_mods_stops:
  assumes "for_mods cb ctx ms s = (Inr (), s')" "cb m ctx s' = (Inl e, s'')"
  shows "for_mods cb ctx (ms @ m # later) s = (Inl e, s'')"
  using assms by (simp add: for_mods_append)

end
