(* ===== verification/Tick_Loop.thy ===== *)
theory Tick_Loop
  imports Tick_Messages Map_Pack Mods
begin

section \<open>The periodic tasks and the loop (\<open>tick.rs\<close>)\<close>

text \<open>
  One definition per periodic task, in the order of the loop, then one round of the loop, its start and
  its end. A round is given the messages that came since the last one; the list of rounds ends when
  the shutdown flag is seen. Mods send to the loop's own channel, so their messages come first in
  the next round. The pause at the end of a round has no effect on the state.
\<close>

definition health_event :: "player_inventory \<Rightarrow> session_event" where
  "health_event inven = SetHealth_ev (inv_health inven) (inv_food inven) (inv_food_saturation inven)"

definition put_inventory :: "i32 \<Rightarrow> player_inventory \<Rightarrow> tick_state \<Rightarrow> tick_state" where
  "put_inventory eid inven s = s\<lparr>ts_inventories := (ts_inventories s)(eid \<mapsto> inven)\<rparr>"

definition username_or_default :: "world \<Rightarrow> i32 \<Rightarrow> rstring" where
  "username_or_default w eid = (case get_player w eid of Some p \<Rightarrow> ph_username p | None \<Rightarrow> ascii ''Player'')"

subsection \<open>Mobs\<close>

record player_snapshot =
  sn_entity_id :: i32
  sn_dimension :: dimension_id
  sn_x :: f64bits
  sn_y :: f64bits
  sn_z :: f64bits
  sn_gamemode :: u8

definition player_snapshots :: "tick_env \<Rightarrow> world \<Rightarrow> player_snapshot list" where
  "player_snapshots env w = map (\<lambda>p. let (x, y, z) = handle_position p in
     \<lparr>sn_entity_id = ph_entity_id p, sn_dimension = ph_dimension p, sn_x = x, sn_y = y, sn_z = z, sn_gamemode = ph_gamemode p\<rparr>)
     (world_players (te_players env) w)"

text \<open>\<open>min_by\<close>: the first of the least; distances that do not compare are equal.\<close>

definition nearest_player :: "tick_env \<Rightarrow> mob \<Rightarrow> player_snapshot list \<Rightarrow> (f64bits \<times> f64bits \<times> f64bits) option" where
  "nearest_player env m snapshots =
    (let dist = (\<lambda>(x, _, z). te_hypot env (f64_sub x (mob_x m)) (f64_sub z (mob_z m))) in
     case map (\<lambda>p. (sn_x p, sn_y p, sn_z p)) (filter (\<lambda>p. sn_dimension p = mob_dimension m) snapshots) of
       [] \<Rightarrow> None
     | p # ps \<Rightarrow> Some (fold (\<lambda>b a. if f64_lt (dist b) (dist a) then b else a) ps p))"

text \<open>The contact damage of a mob whose cooldown is over, and the players it kills.\<close>

definition contact_hit :: "mob \<Rightarrow> f32bits \<Rightarrow> player_snapshot \<Rightarrow> tick_state \<times> mob \<times> i32 list \<Rightarrow> tick_state \<times> mob \<times> i32 list" where
  "contact_hit m0 dmg p = (\<lambda>(s, m, deaths).
    if sn_dimension p \<noteq> mob_dimension m0 \<or> sn_gamemode p = GAMEMODE_CREATIVE \<or> sn_gamemode p = GAMEMODE_SPECTATOR
    then (s, m, deaths)
    else if \<not> in_melee_range m0 (sn_x p) (sn_y p) (sn_z p) then (s, m, deaths)
    else case ts_inventories s (sn_entity_id p) of None \<Rightarrow> (s, m, deaths)
    | Some inven \<Rightarrow>
      if inv_is_dead inven then (s, m, deaths)
      else
        let inven = inven\<lparr>inv_health := f32_max (f32_sub (inv_health inven) dmg) 0\<rparr>;
            s = send_to (sn_entity_id p) [health_event inven] s
        in if f32_le (inv_health inven) 0
           then (put_inventory (sn_entity_id p) (kill inven) s, m\<lparr>mob_attack_cooldown := 20\<rparr>, deaths @ [sn_entity_id p])
           else (put_inventory (sn_entity_id p) inven s, m\<lparr>mob_attack_cooldown := 20\<rparr>, deaths))"

definition tell_mob_moved :: "player_snapshot list \<Rightarrow> mob \<Rightarrow> mob \<Rightarrow> tick_state \<Rightarrow> tick_state" where
  "tell_mob_moved snapshots m0 m s =
    fold (\<lambda>p s. if sn_dimension p \<noteq> mob_dimension m then s
      else send_to (sn_entity_id p) [EntityMovement_ev
        \<lparr>em_entity_id = mob_entity_id m, em_old_x = mob_x m0, em_old_y = mob_y m0, em_old_z = mob_z m0,
         em_new_x = mob_x m, em_new_y = mob_y m, em_new_z = mob_z m, em_new_yaw = mob_yaw m,
         em_new_pitch = mob_pitch m, em_on_ground = True\<rparr>] s) snapshots s"

definition contact_hits :: "mob \<Rightarrow> player_snapshot list \<Rightarrow> tick_state \<times> mob \<times> i32 list \<Rightarrow> tick_state \<times> mob \<times> i32 list" where
  "contact_hits m snapshots r =
    (let dmg = contact_damage (mob_kind m) in
     if is_hostile (mob_kind m) \<and> mob_attack_cooldown m = 0 \<and> f32_lt 0 dmg
     then fold (contact_hit m dmg) snapshots r else r)"

definition mob_turn :: "tick_env \<Rightarrow> player_snapshot list \<Rightarrow> nat \<Rightarrow> tick_state \<times> i32 list \<Rightarrow> tick_state \<times> i32 list" where
  "mob_turn env snapshots i = (\<lambda>(s, deaths).
    let m0 = ts_mobs s ! i;
        (has_moved, m, rng) = tick_mob (te_heading env) (te_garden env) (nearest_player env m0 snapshots) m0 (ts_mob_rng s);
        s = s\<lparr>ts_mobs := (ts_mobs s)[i := m], ts_mob_rng := rng\<rparr>;
        s = (if has_moved then tell_mob_moved snapshots m0 m s else s);
        (s, m, deaths) = contact_hits m snapshots (s, m, deaths)
    in (s\<lparr>ts_mobs := (ts_mobs s)[i := m]\<rparr>, deaths))"

text \<open>The death screens after a round of damage.\<close>

definition announce_deaths :: "rstring \<Rightarrow> i32 list \<Rightarrow> tick_state \<Rightarrow> tick_state" where
  "announce_deaths reason deaths s =
    fold (\<lambda>eid s. let s = clear_break_animation eid s in
      send_to eid [CombatDeath_ev eid (combat_death_message (username_or_default (ts_world s) eid) reason)] s) deaths s"

definition mobs_task :: "tick_env \<Rightarrow> tick_state \<Rightarrow> tick_state" where
  "mobs_task env s =
    (let snapshots = player_snapshots env (ts_world s);
         (s, deaths) = fold (mob_turn env snapshots) [0..<length (ts_mobs s)] (s, [])
     in announce_deaths (ascii ''was slain'') deaths s)"

subsection \<open>Keep-alive, void, lava, cooldowns and food\<close>

definition keep_alive_task :: "tick_env \<Rightarrow> tick_state \<Rightarrow> tick_state" where
  "keep_alive_task env s =
    (if KEEP_ALIVE_INTERVAL_TICKS \<le> ts_tick_count s - ts_last_keep_alive_tick s
     then (broadcast env (\<lambda>_. True) (KeepAlive_ev (ts_tick_count s)) s)\<lparr>ts_last_keep_alive_tick := ts_tick_count s\<rparr>
     else s)"

definition exempt :: "player_handle \<Rightarrow> bool" where
  "exempt p \<longleftrightarrow> ph_gamemode p = GAMEMODE_CREATIVE \<or> ph_gamemode p = GAMEMODE_SPECTATOR"

text \<open>\<open>for (&id, inv) in inventories.iter_mut()\<close>, with the players dead before their turn skipped.\<close>

definition for_living :: "tick_env \<Rightarrow> (i32 \<Rightarrow> player_inventory \<Rightarrow> tick_state \<Rightarrow> tick_state) \<Rightarrow> tick_state \<Rightarrow> tick_state" where
  "for_living env f s =
    fold (\<lambda>eid s. case ts_inventories s eid of None \<Rightarrow> s
        | Some inven \<Rightarrow> if inv_is_dead inven then s else f eid inven s)
      (te_ids env InventoryIds (dom (ts_inventories s))) s"

definition void_death :: "i32 \<Rightarrow> player_inventory \<Rightarrow> tick_state \<Rightarrow> tick_state" where
  "void_death eid inven s =
    (case get_player (ts_world s) eid of None \<Rightarrow> s
     | Some p \<Rightarrow>
       if exempt p then s
       else if f64_lt (ph_y p) VOID_DEATH_Y then
         let inven = kill inven; s = clear_break_animation eid (put_inventory eid inven s)
         in send_to eid [health_event inven,
              CombatDeath_ev eid (combat_death_message (ph_username p) (ascii ''fell out of the world''))] s
       else s)"

definition void_task :: "tick_env \<Rightarrow> tick_state \<Rightarrow> tick_state" where
  "void_task env s = for_living env void_death s"

definition lava_hit :: "i32 \<Rightarrow> player_inventory \<Rightarrow> tick_state \<Rightarrow> tick_state \<times> bool" where
  "lava_hit eid inven s =
    (case get_player (ts_world s) eid of None \<Rightarrow> (s, False)
     | Some p \<Rightarrow>
       if exempt p \<or> \<not> touching_lava (ts_world s) (ph_dimension p) (ph_x p) (ph_y p) (ph_z p) then (s, False)
       else
         let inven = inven\<lparr>inv_health := f32_max (f32_sub (inv_health inven) LAVA_DAMAGE) 0\<rparr>;
             s = send_to eid [health_event inven] s
         in if f32_le (inv_health inven) 0 then (put_inventory eid (kill inven) s, True)
            else (put_inventory eid inven s, False))"

definition lava_task :: "tick_env \<Rightarrow> tick_state \<Rightarrow> tick_state" where
  "lava_task env s =
    (if ts_tick_count s mod LAVA_DAMAGE_INTERVAL_TICKS = 0 \<and> 0 < ts_tick_count s then
       let (s, deaths) = fold (\<lambda>eid (s, deaths). case ts_inventories s eid of None \<Rightarrow> (s, deaths)
             | Some inven \<Rightarrow> if inv_is_dead inven then (s, deaths)
               else let (s, died) = lava_hit eid inven s in (s, if died then deaths @ [eid] else deaths))
           (te_ids env InventoryIds (dom (ts_inventories s))) (s, [])
       in announce_deaths (ascii ''tried to swim in lava'') deaths s
     else s)"

definition cooldown_task :: "tick_state \<Rightarrow> tick_state" where
  "cooldown_task s =
    s\<lparr>ts_portal_cooldowns := (\<lambda>eid. map_option (\<lambda>t. if 0 < t then t - 1 else t) (ts_portal_cooldowns s eid))\<rparr>"

definition food_tick :: "i32 \<Rightarrow> player_inventory \<Rightarrow> tick_state \<Rightarrow> tick_state" where
  "food_tick eid inven s =
    (let gamemode = (case get_player (ts_world s) eid of Some p \<Rightarrow> ph_gamemode p | None \<Rightarrow> 0) in
     if gamemode = GAMEMODE_CREATIVE then s
     else
       let (food_changed, inven) = drain_food inven; (damaged, inven) = starve inven;
           s = put_inventory eid inven s
       in if (food_changed \<or> damaged) \<and> ts_senders s eid \<noteq> None
          then let s = send_to eid [health_event inven] s
            in if inv_is_dead inven
               then let s = clear_break_animation eid s
                 in send_to eid [CombatDeath_ev eid
                      (combat_death_message (username_or_default (ts_world s) eid) (ascii ''starved to death''))] s
               else s
          else s)"

definition food_task :: "tick_env \<Rightarrow> tick_state \<Rightarrow> tick_state" where
  "food_task env s =
    (if ts_tick_count s mod FOOD_DRAIN_INTERVAL_TICKS = 0 \<and> 0 < ts_tick_count s then for_living env food_tick s else s)"

subsection \<open>Breaking blocks\<close>

definition destroy_stage :: "block_break_progress \<Rightarrow> i8" where
  "destroy_stage p =
    (if bbp_total_ticks p = 0 then MAX_DESTROY_STAGE
     else let v = bbp_ticks_elapsed p * (ucast MAX_DESTROY_STAGE + 1) div bbp_total_ticks p; stage = (ucast v :: i8)
       in if MAX_DESTROY_STAGE <s stage then MAX_DESTROY_STAGE else stage)"

definition advance_break :: "i32 \<Rightarrow> tick_state \<times> (i32 \<times> block_pos) list \<Rightarrow> tick_state \<times> (i32 \<times> block_pos) list" where
  "advance_break eid = (\<lambda>(s, completed).
    case ts_break_progress s eid of None \<Rightarrow> (s, completed)
    | Some p \<Rightarrow>
      let p = p\<lparr>bbp_ticks_elapsed := bbp_ticks_elapsed p + 1\<rparr>;
          stage = destroy_stage p;
          s = (if stage \<noteq> bbp_last_stage p
            then send_to eid [SetBlockDestroyStage_ev eid (bbp_position p) stage] s else s);
          p = p\<lparr>bbp_last_stage := stage\<rparr>;
          s = s\<lparr>ts_break_progress := (ts_break_progress s)(eid \<mapsto> p)\<rparr>
      in (s, if bbp_total_ticks p \<le> bbp_ticks_elapsed p then completed @ [(eid, bbp_position p)] else completed))"

definition complete_break :: "tick_env \<Rightarrow> i32 \<times> block_pos \<Rightarrow> tick_state \<Rightarrow> tick_state" where
  "complete_break env = (\<lambda>(eid, position) s.
    let s = s\<lparr>ts_break_progress := (ts_break_progress s)(eid := None)\<rparr>;
        d = dimension_or_default (ts_world s) eid;
        s = close_viewers env d position (map_containers (store_remove (container_key d position)) s);
        s = map_world (put_block d position 0) s
    in broadcast_block_update env d position 0 s)"

definition breaks_task :: "tick_env \<Rightarrow> tick_state \<Rightarrow> tick_state" where
  "breaks_task env s =
    (let (s, completed) = fold advance_break (te_ids env BreakIds (dom (ts_break_progress s))) (s, [])
     in fold (complete_break env) completed s)"

subsection \<open>Autosave\<close>

text \<open>\<open>saturating_mul(20)\<close>.\<close>

definition autosave_interval_ticks :: "u64 \<Rightarrow> u64" where
  "autosave_interval_ticks secs = (if uint secs * 20 < 2 ^ 64 then secs * 20 else - 1)"

definition autosave_task :: "tick_env \<Rightarrow> tick_state \<Rightarrow> tick_state" where
  "autosave_task env s =
    (let interval = autosave_interval_ticks (te_autosave_interval_secs env) in
     if 0 < interval \<and> interval \<le> ts_tick_count s - ts_last_autosave_tick s
     then let s = save_cached_players env (merge_online_into_saved env (save_containers env (save_all_overrides env s)))
       in s\<lparr>ts_last_autosave_tick := ts_tick_count s\<rparr>
     else s)"

definition periodic_tasks :: "tick_env \<Rightarrow> tick_state \<Rightarrow> tick_state" where
  "periodic_tasks env s =
    autosave_task env (breaks_task env (food_task env (cooldown_task (lava_task env (void_task env
      (keep_alive_task env (mobs_task env s)))))))"

subsection \<open>The loop\<close>

definition build_player_view :: "tick_env \<Rightarrow> tick_state \<Rightarrow> player_view" where
  "build_player_view env s =
    player_view_new (map (\<lambda>p. let inven = ts_inventories s (ph_entity_id p) in
      \<lparr>pi_entity_id = ph_entity_id p, pi_uuid = ph_uuid p, pi_username = ph_username p, pi_gamemode = ph_gamemode p,
       pi_position = handle_position p,
       pi_health = (case inven of Some i \<Rightarrow> inv_health i | None \<Rightarrow> DEFAULT_HEALTH),
       pi_food = (case inven of Some i \<Rightarrow> inv_food i | None \<Rightarrow> DEFAULT_FOOD)\<rparr>)
      (world_players (te_players env) (ts_world s)))"

text \<open>
  The mods' own state \<open>'m\<close> comes with the messages they have sent and the loop has not yet taken. The
  messages of a round are those and the ones of the sessions, in the order the channel got them:
  \<open>sched\<close> says from which the next one is.
\<close>

type_synonym 'm mods_state = "'m \<times> tick_message list"

fun interleave :: "bool list \<Rightarrow> 'a list \<Rightarrow> 'a list \<Rightarrow> 'a list" where
  "interleave (True # bs) (x # xs) ys = x # interleave bs xs ys"
| "interleave (False # bs) xs (y # ys) = y # interleave bs xs ys"
| "interleave bs xs ys = xs @ ys"

definition tick_round ::
  "tick_env \<Rightarrow> 'm mods_state mod_registry \<Rightarrow> bool list \<times> tick_message list \<Rightarrow> tick_state \<times> 'm mods_state \<Rightarrow>
    bool \<times> tick_state \<times> 'm mods_state" where
  "tick_round env mods = (\<lambda>(sched, msgs) (s, m, queued).
    let (stop, s) = drain_messages env (interleave sched queued msgs) s in
    if stop then (True, s, m, [])
    else
      let s = periodic_tasks env s;
          (_, ms) = tick_all mods (build_player_view env s) (ts_tick_count s) (m, [])
      in (False, s\<lparr>ts_tick_count := ts_tick_count s + 1\<rparr>, ms))"

fun tick_rounds ::
  "tick_env \<Rightarrow> 'm mods_state mod_registry \<Rightarrow> (bool list \<times> tick_message list) list \<Rightarrow> tick_state \<times> 'm mods_state \<Rightarrow>
    bool \<times> tick_state \<times> 'm mods_state" where
  "tick_rounds env mods [] s = (False, s)"
| "tick_rounds env mods (msgs # rest) s =
    (let (stop, s) = tick_round env mods msgs s in if stop then (True, s) else tick_rounds env mods rest s)"

text \<open>The flush after the loop, when the flag was seen before the message.\<close>

definition flush_on_flag :: "tick_env \<Rightarrow> 'm mods_state mod_registry \<Rightarrow> tick_state \<times> 'm mods_state \<Rightarrow> tick_state \<times> 'm mods_state" where
  "flush_on_flag env mods = (\<lambda>(s, m).
    let s = save_cached_players env (merge_online_into_saved env (save_all_overrides env s));
        m = shutdown_all mods (build_player_view env s) (ts_tick_count s) m
    in (s\<lparr>ts_events := ts_events s @ [Shutdown_te]\<rparr>, m))"

text \<open>Starter loot for the chests of a pack, in any order of its blocks.\<close>

definition seed_chests :: "(block_map \<Rightarrow> (block_pos \<times> i32) list) \<Rightarrow> dimension_id \<Rightarrow> block_map \<Rightarrow> container_store \<Rightarrow> container_store" where
  "seed_chests ord d blocks store =
    fold (\<lambda>(position, state) store. if is_chest state then ensure_seeded (container_key d position) store else store)
      (ord blocks) store"

definition load_world :: "(path \<Rightarrow> io_error option) \<Rightarrow> files \<Rightarrow> rstring \<Rightarrow> garden_spec \<Rightarrow> (dimension_id \<rightharpoonup> map_pack) \<Rightarrow> world" where
  "load_world rd fs level_name garden packs =
    fold (\<lambda>d w. let w = load_block_overrides_for d (load_overrides_for rd fs level_name d) w in
        case packs d of None \<Rightarrow> w | Some pack \<Rightarrow> load_pack_blocks_for d (mp_blocks pack) w) dimension_all
      (set_enabled_dimensions (gs_dimensions garden) (with_garden garden))"

definition load_containers ::
  "tick_env \<Rightarrow> (path \<Rightarrow> io_error option) \<Rightarrow> files \<Rightarrow> (dimension_id \<rightharpoonup> map_pack) \<Rightarrow> container_store" where
  "load_containers env rd fs packs =
    fold (\<lambda>d store. case packs d of None \<Rightarrow> store | Some pack \<Rightarrow> seed_chests (te_blocks env) d (mp_blocks pack) store)
      dimension_all (load_chests rd fs (te_level_name env))"

definition tick_start :: "tick_env \<Rightarrow> (path \<Rightarrow> io_error option) \<Rightarrow> files \<Rightarrow> u64 \<Rightarrow> tick_state" where
  "tick_start env rd fs count =
    (let level_name = te_level_name env; garden = te_garden env;
         packs = resolve_all_packs rd fs level_name (gs_size garden);
         (mobs, next_mob_id) = initial_garden_mobs 10000
     in \<lparr>ts_world = load_world rd fs level_name garden packs, ts_saved_players = load_players rd fs level_name,
         ts_containers = load_containers env rd fs packs,
         ts_senders = Map.empty, ts_chunk_states = Map.empty, ts_inventories = Map.empty,
         ts_break_progress = Map.empty, ts_open_windows = Map.empty, ts_next_window_id = 0,
         ts_portal_cooldowns = Map.empty, ts_mobs = mobs, ts_mob_rng = 0xC0FFEE01, ts_tick_count = 0,
         ts_last_keep_alive_tick = 0, ts_last_autosave_tick = 0, ts_player_count = count, ts_files = fs, ts_saves = 0,
         ts_sent = [], ts_events = []\<rparr>)"

text \<open>\<open>run_tick_loop\<close>, from its start to its return.\<close>

definition run_tick_loop ::
  "tick_env \<Rightarrow> (path \<Rightarrow> io_error option) \<Rightarrow> files \<Rightarrow> u64 \<Rightarrow> 'm mods_state mod_registry \<Rightarrow> 'm \<Rightarrow>
    (bool list \<times> tick_message list) list \<Rightarrow> tick_state \<times> 'm mods_state" where
  "run_tick_loop env rd fs count mods m rounds =
    (let s = tick_start env rd fs count;
         (_, ms) = init_all mods (build_player_view env s) 0 (m, []);
         (stop, s, ms) = tick_rounds env mods rounds (s, ms)
     in if stop then (s, ms) else flush_on_flag env mods (s, ms))"

datatype tick_start_error = ThreadSpawn io_error

definition tick_start_error_message :: "tick_start_error \<Rightarrow> rstring" where
  "tick_start_error_message e = (case e of ThreadSpawn e \<Rightarrow> ascii ''failed to spawn tick thread: '' @ e)"

text \<open>\<open>start_tick_loop\<close>: the mods are registered, a duplicate is logged and skipped, and the thread is started.\<close>

definition start_tick_loop ::
  "io_error option \<Rightarrow> tick_env \<Rightarrow> (path \<Rightarrow> io_error option) \<Rightarrow> files \<Rightarrow> u64 \<Rightarrow> 'm mods_state game_mod list \<Rightarrow> 'm \<Rightarrow>
    tick_start_error + ((bool list \<times> tick_message list) list \<Rightarrow> tick_state \<times> 'm mods_state)" where
  "start_tick_loop spawn env rd fs count mods m =
    (let host = register_mods mods mod_registry_new in
     case spawn of Some e \<Rightarrow> Inl (ThreadSpawn e) | None \<Rightarrow> Inr (run_tick_loop env rd fs count host m))"

end
