(* ===== verification/Tick_Invariant.thy ===== *)
theory Tick_Invariant
  imports Tick_Loop
begin

section \<open>The invariant of the tick loop's state\<close>

text \<open>
  The tables of the tick thread belong together: a player of the world has a sender, an inventory and a
  chunk state, and nothing is kept for anyone else. The invariant says that, with the sizes of inventories and
  chests, and every message and every periodic task keeps it.
\<close>

subsection \<open>What sending leaves alone\<close>

lemma send_to_sent: "\<exists>evs. send_to i es s = s\<lparr>ts_sent := ts_sent s @ evs\<rparr>"
  by (cases "ts_senders s i") (auto simp: send_to_def intro: exI [where x = "[]"])

lemma fold_sent:
  assumes "\<And>x s. \<exists>evs. f x s = s\<lparr>ts_sent := ts_sent s @ evs\<rparr>"
  shows "\<exists>evs. fold f xs s = s\<lparr>ts_sent := ts_sent s @ evs\<rparr>"
proof (induction xs arbitrary: s)
  case Nil
  then show ?case by (auto intro: exI [where x = "[]"])
next
  case (Cons x xs)
  from assms [of x s] obtain evs where "f x s = s\<lparr>ts_sent := ts_sent s @ evs\<rparr>" ..
  moreover from Cons.IH [of "f x s"] obtain evs' where "fold f xs (f x s) = (f x s)\<lparr>ts_sent := ts_sent (f x s) @ evs'\<rparr>" ..
  ultimately show ?case by auto
qed

lemma broadcast_sent: "\<exists>evs. broadcast env P ev s = s\<lparr>ts_sent := ts_sent s @ evs\<rparr>"
  unfolding broadcast_def
proof (rule fold_sent)
  fix x s
  show "\<exists>evs. (if P x then send_to x [ev] s else s) = s\<lparr>ts_sent := ts_sent s @ evs\<rparr>"
    using send_to_sent [of x "[ev]" s] by (cases "P x") (auto intro: exI [where x = "[]"])
qed

lemma sent_fields:
  assumes "\<exists>evs. s' = s\<lparr>ts_sent := ts_sent s @ evs\<rparr>"
  shows "ts_world s' = ts_world s" "ts_saved_players s' = ts_saved_players s" "ts_containers s' = ts_containers s"
    "ts_senders s' = ts_senders s" "ts_chunk_states s' = ts_chunk_states s" "ts_inventories s' = ts_inventories s"
    "ts_break_progress s' = ts_break_progress s" "ts_open_windows s' = ts_open_windows s"
    "ts_next_window_id s' = ts_next_window_id s" "ts_portal_cooldowns s' = ts_portal_cooldowns s"
    "ts_mobs s' = ts_mobs s" "ts_mob_rng s' = ts_mob_rng s" "ts_tick_count s' = ts_tick_count s"
    "ts_last_keep_alive_tick s' = ts_last_keep_alive_tick s" "ts_last_autosave_tick s' = ts_last_autosave_tick s"
    "ts_player_count s' = ts_player_count s" "ts_files s' = ts_files s" "ts_saves s' = ts_saves s" "ts_events s' = ts_events s"
  using assms by auto

lemmas send_to_fields [simp] = sent_fields [OF send_to_sent]
lemmas broadcast_fields [simp] = sent_fields [OF broadcast_sent]

lemma map_world_fields [simp]:
  "ts_world (map_world f s) = f (ts_world s)" "ts_saved_players (map_world f s) = ts_saved_players s"
  "ts_containers (map_world f s) = ts_containers s" "ts_senders (map_world f s) = ts_senders s"
  "ts_chunk_states (map_world f s) = ts_chunk_states s" "ts_inventories (map_world f s) = ts_inventories s"
  "ts_break_progress (map_world f s) = ts_break_progress s" "ts_open_windows (map_world f s) = ts_open_windows s"
  "ts_next_window_id (map_world f s) = ts_next_window_id s" "ts_portal_cooldowns (map_world f s) = ts_portal_cooldowns s"
  "ts_mobs (map_world f s) = ts_mobs s" "ts_files (map_world f s) = ts_files s" "ts_saves (map_world f s) = ts_saves s"
  "ts_sent (map_world f s) = ts_sent s" "ts_events (map_world f s) = ts_events s"
  "ts_tick_count (map_world f s) = ts_tick_count s" "ts_player_count (map_world f s) = ts_player_count s"
  by (simp_all add: map_world_def)

lemma map_containers_fields [simp]:
  "ts_world (map_containers f s) = ts_world s" "ts_saved_players (map_containers f s) = ts_saved_players s"
  "ts_containers (map_containers f s) = f (ts_containers s)" "ts_senders (map_containers f s) = ts_senders s"
  "ts_chunk_states (map_containers f s) = ts_chunk_states s" "ts_inventories (map_containers f s) = ts_inventories s"
  "ts_break_progress (map_containers f s) = ts_break_progress s" "ts_open_windows (map_containers f s) = ts_open_windows s"
  "ts_portal_cooldowns (map_containers f s) = ts_portal_cooldowns s"
  "ts_mobs (map_containers f s) = ts_mobs s" "ts_files (map_containers f s) = ts_files s" "ts_saves (map_containers f s) = ts_saves s"
  "ts_sent (map_containers f s) = ts_sent s" "ts_events (map_containers f s) = ts_events s"
  "ts_tick_count (map_containers f s) = ts_tick_count s" "ts_player_count (map_containers f s) = ts_player_count s"
  by (simp_all add: map_containers_def)

lemma do_save_fields [simp]:
  "ts_world (do_save env f s) = ts_world s" "ts_saved_players (do_save env f s) = ts_saved_players s"
  "ts_containers (do_save env f s) = ts_containers s" "ts_senders (do_save env f s) = ts_senders s"
  "ts_chunk_states (do_save env f s) = ts_chunk_states s" "ts_inventories (do_save env f s) = ts_inventories s"
  "ts_break_progress (do_save env f s) = ts_break_progress s" "ts_open_windows (do_save env f s) = ts_open_windows s"
  "ts_portal_cooldowns (do_save env f s) = ts_portal_cooldowns s" "ts_sent (do_save env f s) = ts_sent s"
  "ts_tick_count (do_save env f s) = ts_tick_count s" "ts_mobs (do_save env f s) = ts_mobs s"
  by (simp_all add: do_save_def)

subsection \<open>The invariant\<close>

abbreviation online :: "tick_state \<Rightarrow> i32 set" where
  "online s \<equiv> dom (w_players (ts_world s))"

definition chunk_state_ok :: "i32 \<Rightarrow> player_chunk_state \<Rightarrow> bool" where
  "chunk_state_ok r cs \<longleftrightarrow> pcs_garden_chunk_radius cs = r \<and> finite (pcs_loaded_chunks cs)
    \<and> (\<forall>p\<in>pcs_loaded_chunks cs. in_garden_radius r p)"

definition tick_inv :: "tick_env \<Rightarrow> tick_state \<Rightarrow> bool" where
  "tick_inv env s \<longleftrightarrow>
    world_inv (ts_world s)
    \<and> dom (ts_senders s) = online s \<and> dom (ts_inventories s) = online s \<and> dom (ts_chunk_states s) = online s
    \<and> dom (ts_break_progress s) \<subseteq> online s \<and> dom (ts_open_windows s) \<subseteq> online s \<and> dom (ts_portal_cooldowns s) \<subseteq> online s
    \<and> (\<forall>inven\<in>ran (ts_inventories s). length (inv_slots inven) = PLAYER_INVENTORY_SIZE)
    \<and> (\<forall>cs\<in>ran (ts_chunk_states s). chunk_state_ok (chunk_radius (gs_size (te_garden env))) cs)
    \<and> (\<forall>chest\<in>ran (ts_containers s). length chest = CHEST_SLOT_COUNT)"

lemma tick_invI:
  assumes "tick_inv env s"
    and "world_inv (ts_world s')" "online s' = online s"
    and "dom (ts_senders s') = dom (ts_senders s)" "dom (ts_inventories s') = dom (ts_inventories s)"
    and "dom (ts_chunk_states s') = dom (ts_chunk_states s)"
    and "dom (ts_break_progress s') \<subseteq> online s" "dom (ts_open_windows s') \<subseteq> online s" "dom (ts_portal_cooldowns s') \<subseteq> online s"
    and "\<And>i inven. ts_inventories s' i = Some inven \<Longrightarrow> length (inv_slots inven) = PLAYER_INVENTORY_SIZE"
    and "\<And>i cs. ts_chunk_states s' i = Some cs \<Longrightarrow> chunk_state_ok (chunk_radius (gs_size (te_garden env))) cs"
    and "\<And>k chest. ts_containers s' k = Some chest \<Longrightarrow> length chest = CHEST_SLOT_COUNT"
  shows "tick_inv env s'"
  using assms unfolding tick_inv_def ran_def by auto

lemma tick_invD:
  assumes "tick_inv env s"
  shows "world_inv (ts_world s)" "dom (ts_senders s) = online s" "dom (ts_inventories s) = online s"
    "dom (ts_chunk_states s) = online s" "dom (ts_break_progress s) \<subseteq> online s" "dom (ts_open_windows s) \<subseteq> online s"
    "dom (ts_portal_cooldowns s) \<subseteq> online s"
    "ts_inventories s i = Some inven \<Longrightarrow> length (inv_slots inven) = PLAYER_INVENTORY_SIZE"
    "ts_chunk_states s i = Some cs \<Longrightarrow> chunk_state_ok (chunk_radius (gs_size (te_garden env))) cs"
    "ts_containers s k = Some chest \<Longrightarrow> length chest = CHEST_SLOT_COUNT"
  using assms unfolding tick_inv_def by (auto intro: ranI)

lemma online_of:
  assumes "tick_inv env s"
  shows "ts_break_progress s i = Some b \<Longrightarrow> \<exists>p. w_players (ts_world s) i = Some p"
    "ts_open_windows s i = Some w \<Longrightarrow> \<exists>p. w_players (ts_world s) i = Some p"
    "ts_portal_cooldowns s i = Some t \<Longrightarrow> \<exists>p. w_players (ts_world s) i = Some p"
  using tick_invD(5-7) [OF assms] by (auto simp: dom_def)

text \<open>The tables the invariant speaks of; a change of others keeps it.\<close>

lemma tick_inv_same:
  assumes "ts_world s' = ts_world s" "ts_senders s' = ts_senders s" "ts_inventories s' = ts_inventories s"
    "ts_chunk_states s' = ts_chunk_states s" "ts_break_progress s' = ts_break_progress s"
    "ts_open_windows s' = ts_open_windows s" "ts_portal_cooldowns s' = ts_portal_cooldowns s" "ts_containers s' = ts_containers s"
  shows "tick_inv env s' = tick_inv env s"
  unfolding tick_inv_def assms ..

lemma inv_send [simp]: "tick_inv env (send_to i es s) = tick_inv env s"
  by (rule tick_inv_same) simp_all

lemma inv_broadcast [simp]: "tick_inv env (broadcast env' P ev s) = tick_inv env s"
  by (rule tick_inv_same) simp_all

lemma inv_do_save [simp]: "tick_inv env (do_save env' f s) = tick_inv env s"
  by (rule tick_inv_same) simp_all

lemma inv_scalar [simp]:
  "tick_inv env (s\<lparr>ts_events := a\<rparr>) = tick_inv env s" "tick_inv env (s\<lparr>ts_player_count := c\<rparr>) = tick_inv env s"
  "tick_inv env (s\<lparr>ts_tick_count := c\<rparr>) = tick_inv env s" "tick_inv env (s\<lparr>ts_last_keep_alive_tick := c\<rparr>) = tick_inv env s"
  "tick_inv env (s\<lparr>ts_last_autosave_tick := c\<rparr>) = tick_inv env s" "tick_inv env (s\<lparr>ts_saved_players := sp\<rparr>) = tick_inv env s"
  "tick_inv env (s\<lparr>ts_mobs := ms\<rparr>) = tick_inv env s" "tick_inv env (s\<lparr>ts_mob_rng := r\<rparr>) = tick_inv env s"
  "tick_inv env (s\<lparr>ts_next_window_id := w\<rparr>) = tick_inv env s"
  by (rule tick_inv_same; simp)+

lemma inv_fold:
  assumes "\<And>x s. tick_inv env s \<Longrightarrow> tick_inv env (f x s)"
  shows "tick_inv env s \<Longrightarrow> tick_inv env (fold f xs s)"
  by (induction xs arbitrary: s) (simp_all add: assms)

subsection \<open>The building blocks keep it\<close>

lemma inv_put_inventory:
  "tick_inv env s \<Longrightarrow> m = ts_inventories s \<Longrightarrow> m i \<noteq> None \<Longrightarrow> length (inv_slots inven) = PLAYER_INVENTORY_SIZE \<Longrightarrow>
    tick_inv env (s\<lparr>ts_inventories := m(i \<mapsto> inven)\<rparr>)"
  by (rule tick_invI [of env s]) (auto dest: tick_invD split: if_splits)

lemma inv_put_chunk_state:
  "tick_inv env s \<Longrightarrow> m = ts_chunk_states s \<Longrightarrow> m i \<noteq> None \<Longrightarrow> chunk_state_ok (chunk_radius (gs_size (te_garden env))) cs \<Longrightarrow>
    tick_inv env (s\<lparr>ts_chunk_states := m(i \<mapsto> cs)\<rparr>)"
  by (rule tick_invI [of env s]) (auto dest: tick_invD split: if_splits)

lemma inv_containers:
  "tick_inv env s \<Longrightarrow> (\<And>k chest. f (ts_containers s) k = Some chest \<Longrightarrow> length chest = CHEST_SLOT_COUNT) \<Longrightarrow>
    tick_inv env (map_containers f s)"
  by (rule tick_invI [of env s]) (auto dest: tick_invD)

lemma inv_world:
  "tick_inv env s \<Longrightarrow> world_inv (f (ts_world s)) \<Longrightarrow> dom (w_players (f (ts_world s))) = online s \<Longrightarrow> tick_inv env (map_world f s)"
  by (rule tick_invI [of env s]) (auto dest: tick_invD)

lemma players_set_block [simp]: "w_players (set_block d x y z b w) = w_players w"
  by (simp add: set_block_def)

lemma inv_put_block: "tick_inv env s \<Longrightarrow> tick_inv env (map_world (put_block d p b) s)"
  by (rule inv_world) (auto simp: put_block_def dest: tick_invD intro: inv_set_block split: prod.splits)

lemma inv_update_player:
  "tick_inv env s \<Longrightarrow> (\<And>p. ph_entity_id (f p) = ph_entity_id p) \<Longrightarrow> tick_inv env (map_world (update_player i f) s)"
  by (rule inv_world) (auto simp: dom_update_player dest: tick_invD intro: update_player_inv)

lemma inv_clear_break: "tick_inv env s \<Longrightarrow> tick_inv env (clear_break_animation i s)"
  by (cases "ts_break_progress s i")
    (auto simp: clear_break_animation_def intro!: tick_invI [of env s] dest: tick_invD online_of split: if_splits)

lemma inv_close_window: "tick_inv env s \<Longrightarrow> tick_inv env (close_open_window i b s)"
  by (cases "ts_open_windows s i")
    (auto simp: close_open_window_def Let_def intro!: tick_invI [of env s] dest: tick_invD online_of split: if_splits)

lemma inv_close_viewers: "tick_inv env s \<Longrightarrow> tick_inv env (close_viewers env' d p s)"
  unfolding close_viewers_def Let_def by (rule inv_fold) (rule inv_close_window)

lemma inv_remove_chest: "tick_inv env s \<Longrightarrow> tick_inv env (map_containers (store_remove k) s)"
  by (rule inv_containers) (auto simp: store_remove_def dest: tick_invD split: if_splits)

lemma starter_length [simp]: "length starter_chest_loot = CHEST_SLOT_COUNT" "length empty_chest = CHEST_SLOT_COUNT"
  by (simp_all add: starter_chest_loot_def empty_chest_def)

lemma chest_mut_lengths:
  assumes "\<forall>chest\<in>ran store. length chest = CHEST_SLOT_COUNT" "chest_mut p seed store = (chest, store')"
  shows "length chest = CHEST_SLOT_COUNT" "store' k = Some c \<Longrightarrow> length c = CHEST_SLOT_COUNT"
  using assms ranI [of store p chest] ranI [of store k c]
  by (auto simp: chest_mut_def or_insert_with_def split: option.splits if_splits)

lemma inv_seed_chest: "tick_inv env s \<Longrightarrow> tick_inv env (map_containers (ensure_seeded k) s)"
  by (rule inv_containers) (auto simp: ensure_seeded_def or_insert_with_def dest: tick_invD split: if_splits option.splits)

lemma inv_block_update: "tick_inv env s \<Longrightarrow> tick_inv env (broadcast_block_update env' d p b s)"
  by (simp add: broadcast_block_update_def)

lemma inv_save_all: "tick_inv env s \<Longrightarrow> tick_inv env (save_all_overrides env' s)"
  unfolding save_all_overrides_def by (rule inv_fold) simp

lemma inv_saves:
  "tick_inv env (save_containers env' s) = tick_inv env s" "tick_inv env (save_cached_players env' s) = tick_inv env s"
  "tick_inv env (merge_online_into_saved env' s) = tick_inv env s"
  by (simp_all add: save_containers_def save_cached_players_def merge_online_into_saved_def)

lemmas inv_blocks = inv_put_block inv_update_player inv_clear_break inv_close_window inv_close_viewers inv_remove_chest
  inv_seed_chest inv_block_update inv_save_all

subsection \<open>The handlers keep it\<close>

lemma chunk_state_new_ok: "chunk_state_ok r (chunk_state_new vd r)"
  by (auto simp: chunk_state_ok_def chunk_state_new_def)

lemma desired_ok:
  "chunk_state_ok r cs \<Longrightarrow> pcs_garden_chunk_radius cs' = pcs_garden_chunk_radius cs \<Longrightarrow>
    chunk_state_ok r (cs'\<lparr>pcs_loaded_chunks := desired_chunk_set cs'\<rparr>)"
  using desired_in_garden [of _ cs'] by (auto simp: chunk_state_ok_def)

lemma update_center_ok:
  "chunk_state_ok r cs \<Longrightarrow> chunk_state_ok r (snd (update_center cord x z cs))"
  by (auto simp: update_center_def retarget_chunks_def Let_def intro!: desired_ok [of r cs])

lemma update_view_distance_ok:
  "chunk_state_ok r cs \<Longrightarrow> chunk_state_ok r (snd (update_view_distance cord vd cs))"
  by (auto simp: update_view_distance_def retarget_chunks_def Let_def intro!: desired_ok [of r cs])

lemma inv_resync: "tick_inv env s \<Longrightarrow> tick_inv env (resync_player_chunks env' i x z s)"
  by (cases "ts_chunk_states s i")
    (auto simp: resync_player_chunks_def Let_def intro!: inv_put_chunk_state desired_ok dest: tick_invD)

lemma inv_sync_mobs [simp]: "tick_inv env (sync_mobs_for_player i d s) = tick_inv env s"
  by (simp add: sync_mobs_for_player_def)

lemma close_window_world [simp]:
  "ts_world (close_open_window i b s) = ts_world s" "ts_inventories (close_open_window i b s) = ts_inventories s"
  "ts_senders (close_open_window i b s) = ts_senders s" "ts_chunk_states (close_open_window i b s) = ts_chunk_states s"
  by (cases "ts_open_windows s i"; simp add: close_open_window_def Let_def)+

lemma inv_cooldown:
  "tick_inv env s \<Longrightarrow> m = ts_portal_cooldowns s \<Longrightarrow> w_players (ts_world s) i \<noteq> None \<Longrightarrow>
    tick_inv env (s\<lparr>ts_portal_cooldowns := m(i \<mapsto> t)\<rparr>)"
  by (rule tick_invI [of env s]) (auto dest: tick_invD online_of split: if_splits)

lemma inv_transfer: "tick_inv env s \<Longrightarrow> tick_inv env (transfer_player_dimension env' i d s)"
proof (cases "get_player (ts_world s) i")
  case None
  then show "tick_inv env s \<Longrightarrow> ?thesis" by (simp add: transfer_player_dimension_def)
next
  case (Some p)
  assume "tick_inv env s"
  then show ?thesis using Some
    by (cases "arrival_position (ts_world s)")
      (auto simp: transfer_player_dimension_def Let_def get_player_def dom_update_player update_player_def set_position_def
        intro!: inv_resync inv_cooldown inv_blocks)
qed

lemma restore_length [simp]: "length (inv_slots (restore_inventory d inven)) = length (inv_slots inven)"
proof -
  have "length (fold (\<lambda>(i, sl) slots. if i < length slots then slots[i := saved_slot_to_slot sl] else slots) es slots)
      = length slots" for es slots
    by (induction es arbitrary: slots) (auto split: prod.splits)
  then show ?thesis by (simp add: restore_inventory_def)
qed

lemma inv_join_tables:
  assumes "tick_inv env s" "ph_entity_id p = i" "length (inv_slots inven) = PLAYER_INVENTORY_SIZE"
    "chunk_state_ok (chunk_radius (gs_size (te_garden env))) cs"
  shows "tick_inv env (map_world (add_player p) s\<lparr>ts_senders := (ts_senders s)(i \<mapsto> ch),
    ts_chunk_states := (ts_chunk_states s)(i \<mapsto> cs), ts_inventories := (ts_inventories s)(i \<mapsto> inven)\<rparr>)"
  using assms tick_invD(1) [OF assms(1)] inv_add_player [of "ts_world s" p]
  unfolding tick_inv_def by (auto simp: add_player_def ran_def)

text \<open>Spawning and saved positions change nothing the invariant speaks of.\<close>

lemma placed_player_id [simp]:
  "ph_entity_id (set_position x y z p) = ph_entity_id p" "ph_entity_id (set_rotation yaw pitch p) = ph_entity_id p"
  "ph_entity_id (player_handle_new i u n gm) = i"
  by (simp_all add: set_position_def set_rotation_def player_handle_new_def)

lemma inv_joined: "tick_inv env s \<Longrightarrow> tick_inv env (handle_player_joined env i u name gm vd ch s)"
  unfolding handle_player_joined_def Let_def
  by (auto simp: inventory_sizes PLAYER_INVENTORY_SIZE_def split: prod.splits option.splits
      intro!: inv_join_tables chunk_state_new_ok)

lemma inv_left: "tick_inv env s \<Longrightarrow> tick_inv env (handle_player_left env' i s)"
proof -
  assume inv: "tick_inv env s"
  define s1 where "s1 = (case collect_one_player_data (ts_world s) (ts_inventories s) i of None \<Rightarrow> s
           | Some data \<Rightarrow> (case get_player (ts_world s) i of None \<Rightarrow> s
             | Some player \<Rightarrow> save_cached_players env'
                 (s\<lparr>ts_saved_players := (ts_saved_players s)(ph_uuid player \<mapsto> data)\<rparr>)))"
  have s1: "tick_inv env s1"
    using inv by (auto simp: s1_def inv_saves split: option.splits)
  have "tick_inv env (map_world (\<lambda>w. snd (remove_player i w)) (s1\<lparr>ts_open_windows := (ts_open_windows s1)(i := None),
         ts_portal_cooldowns := (ts_portal_cooldowns s1)(i := None)\<rparr>)
      \<lparr>ts_senders := (ts_senders s1)(i := None), ts_chunk_states := (ts_chunk_states s1)(i := None),
       ts_inventories := (ts_inventories s1)(i := None), ts_break_progress := (ts_break_progress s1)(i := None)\<rparr>)"
    using s1 inv_remove_player [of "ts_world s1" i] unfolding tick_inv_def
    by (auto simp: remove_player_def ran_def split: if_splits)
  then show ?thesis
    unfolding handle_player_left_def Let_def s1_def [symmetric] by (simp split: option.splits)
qed

lemma inv_tell [simp]: "tick_inv env (tell_chunks env' d i new gone s) = tick_inv env s"
  by (simp add: tell_chunks_def)

lemma inv_stream: "tick_inv env s \<Longrightarrow> tick_inv env (stream_chunks env' d i x z s)"
  using update_center_ok [where cord = "te_chunks env'" and x = "chunk_x_from_world x" and z = "chunk_z_from_world z"]
  by (cases "ts_chunk_states s i")
    (force simp: stream_chunks_def Let_def intro!: inv_put_chunk_state dest: tick_invD(9) split: prod.splits)+

lemma inv_position_update: "tick_inv env s \<Longrightarrow> tick_inv env (handle_player_position_update env' i x y z yaw pitch s)"
  unfolding handle_player_position_update_def Let_def
  by (auto simp: handle_position_def handle_rotation_def split: option.splits prod.splits
      intro!: inv_transfer inv_stream inv_update_player)

lemma inv_handle_set_block: "tick_inv env s \<Longrightarrow> tick_inv env (handle_set_block env' i p b s)"
  unfolding handle_set_block_def Let_def by (auto intro!: inv_blocks)

lemma inv_open_chest: "tick_inv env s \<Longrightarrow> tick_inv env (open_chest_for_player i d p s)"
proof (cases "ts_inventories s i")
  case None
  then show "tick_inv env s \<Longrightarrow> ?thesis" by (simp add: open_chest_for_player_def)
next
  case (Some inven)
  assume inv: "tick_inv env s"
  obtain chest store where chest: "chest_mut (container_key d p) True (ts_containers s) = (chest, store)" by fastforce
  have lengths: "store k = Some c \<Longrightarrow> length c = CHEST_SLOT_COUNT" for k c
    using chest_mut_lengths(2) [OF _ chest] inv unfolding tick_inv_def by blast
  have "w_players (ts_world s) i \<noteq> None" using tick_invD(3) [OF inv] Some by (auto simp: dom_def)
  with inv lengths show ?thesis
    unfolding open_chest_for_player_def Let_def
    using tick_invD(8) [OF inv] tick_invD(8) [OF inv Some]
    by (auto simp: Some chest split: option.splits intro!: tick_invI [OF inv] dest: tick_invD online_of split: if_splits)
qed

lemma inv_place_block: "tick_inv env s \<Longrightarrow> tick_inv env (handle_place_block env' i p f s)"
  unfolding handle_place_block_def Let_def by (auto split: option.splits intro!: inv_blocks inv_open_chest)

lemma inv_view_distance: "tick_inv env s \<Longrightarrow> tick_inv env (handle_set_client_view_distance env' i vd s)"
  using update_view_distance_ok [where cord = "te_chunks env'" and vd = vd]
  by (cases "ts_chunk_states s i")
    (force simp: handle_set_client_view_distance_def Let_def intro!: inv_put_chunk_state dest: tick_invD(9) split: prod.splits)+

lemma inv_dig: "tick_inv env s \<Longrightarrow> tick_inv env (handle_dig_block i a p s)"
proof (cases "ts_inventories s i")
  case None
  then show "tick_inv env s \<Longrightarrow> ?thesis" by (simp add: handle_dig_block_def inv_clear_break)
next
  case (Some inven)
  assume inv: "tick_inv env s"
  then have "w_players (ts_world s) i \<noteq> None" using tick_invD(3) [OF inv] Some by (auto simp: dom_def)
  with inv have "tick_inv env (s\<lparr>ts_break_progress := (ts_break_progress s)(i \<mapsto> b)\<rparr>)" for b
    by (auto intro!: tick_invI [OF inv] dest: tick_invD online_of split: if_splits)
  with inv show ?thesis by (simp add: handle_dig_block_def Let_def inv_clear_break)
qed

lemma set_held_slot_slots [simp]: "inv_slots (snd (set_held_slot i inven)) = inv_slots inven"
  by (simp add: set_held_slot_def Let_def)

lemma inv_creative_slot: "tick_inv env s \<Longrightarrow> tick_inv env (handle_set_creative_slot i sl item s)"
  unfolding handle_set_creative_slot_def Let_def
  by (auto split: option.splits simp: set_slot_length intro!: inv_put_inventory dest: tick_invD)

lemma inv_held_item: "tick_inv env s \<Longrightarrow> tick_inv env (handle_set_held_item i sl s)"
  using set_held_slot_slots [of sl "the (ts_inventories s i)"]
  unfolding handle_set_held_item_def Let_def
  by (auto split: option.splits prod.splits intro!: inv_put_inventory dest: tick_invD simp del: set_held_slot_slots)

lemma inv_chat: "tick_inv env s \<Longrightarrow> tick_inv env (handle_chat_message env' i n m s)"
  by (auto simp: handle_chat_message_def split: option.splits intro: inv_transfer)

lemma clear_break_fields [simp]:
  "ts_world (clear_break_animation i s) = ts_world s" "ts_inventories (clear_break_animation i s) = ts_inventories s"
  "ts_senders (clear_break_animation i s) = ts_senders s" "ts_chunk_states (clear_break_animation i s) = ts_chunk_states s"
  "ts_open_windows (clear_break_animation i s) = ts_open_windows s" "ts_tick_count (clear_break_animation i s) = ts_tick_count s"
  "ts_containers (clear_break_animation i s) = ts_containers s" "ts_mobs (clear_break_animation i s) = ts_mobs s"
  by (cases "ts_break_progress s i"; simp add: clear_break_animation_def)+

lemma respawn_slots [simp]: "inv_slots (inv_respawn inven) = inv_slots inven" "inv_slots (kill inven) = inv_slots inven"
  by (simp_all add: inv_respawn_def kill_def)

lemma inv_client_status: "tick_inv env s \<Longrightarrow> tick_inv env (handle_client_status env' i a s)"
  using tick_invD(8) [of env s i "the (ts_inventories s i)"] unfolding handle_client_status_def Let_def
  by (auto split: option.splits prod.splits intro!: inv_resync inv_update_player inv_put_inventory inv_clear_break)

lemma inv_interact: "tick_inv env s \<Longrightarrow> tick_inv env (handle_interact_entity env' i t a s)"
  unfolding handle_interact_entity_def Let_def by (auto split: option.splits prod.splits)

lemma apply_changed_lengths:
  "length (fst (apply_changed_slots cs p)) = length (fst p) \<and> length (snd (apply_changed_slots cs p)) = length (snd p)"
  unfolding apply_changed_slots_def
  by (induction cs arbitrary: p) (auto simp: apply_window_slot_def split: prod.splits option.splits)

lemma inv_click: "tick_inv env s \<Longrightarrow> tick_inv env (handle_click_container i w cs cursor s)"
proof -
  assume inv: "tick_inv env s"
  show ?thesis
  proof (cases "ts_open_windows s i"; cases "ts_inventories s i")
    fix oc inven assume some: "ts_open_windows s i = Some oc" "ts_inventories s i = Some inven"
    let ?k = "container_key (oc_dimension oc) (oc_position oc)"
    obtain chest store where chest: "chest_mut ?k True (ts_containers s) = (chest, store)" by fastforce
    obtain chest' slots where changed: "apply_changed_slots cs (chest, inv_slots inven) = (chest', slots)" by fastforce
    have len: "\<forall>c\<in>ran (ts_containers s). length c = CHEST_SLOT_COUNT" using inv by (simp add: tick_inv_def)
    have lengths: "length chest' = CHEST_SLOT_COUNT" "length slots = PLAYER_INVENTORY_SIZE"
      using apply_changed_lengths [of cs "(chest, inv_slots inven)"] changed chest_mut_lengths(1) [OF len chest]
        tick_invD(8) [OF inv some(2)] by simp_all
    note online_of(2) [OF inv some(1)]
    with inv lengths chest_mut_lengths(2) [OF len chest] show ?thesis
      unfolding handle_click_container_def Let_def
      by (auto simp: some chest changed intro!: tick_invI [OF inv] dest: tick_invD online_of split: if_splits)
  qed (use inv in \<open>auto simp: handle_click_container_def\<close>)
qed

lemma inv_close_container: "tick_inv env s \<Longrightarrow> tick_inv env (handle_close_container i w s)"
  by (auto simp: handle_close_container_def split: option.splits intro: inv_close_window)

lemma inv_shutdown: "tick_inv env s \<Longrightarrow> tick_inv env (handle_shutdown env' s)"
  by (simp add: handle_shutdown_def Let_def inv_saves inv_save_all)

lemma inv_message: "tick_inv env s \<Longrightarrow> tick_inv env (snd (handle_message env m s))"
  by (cases m) (simp_all add: inv_shutdown inv_joined inv_left inv_position_update inv_handle_set_block inv_place_block
      inv_view_distance inv_dig inv_creative_slot inv_held_item inv_chat inv_client_status inv_interact inv_click
      inv_close_container)

lemma inv_drain: "tick_inv env s \<Longrightarrow> tick_inv env (snd (drain_messages env ms s))"
proof (induction ms arbitrary: s)
  case Nil
  then show ?case by simp
next
  case (Cons m ms)
  from inv_message [OF Cons.prems, of m] Cons.IH show ?case by (cases "handle_message env m s") simp
qed

end
