(* ===== verification/Tick_Safety.thy ===== *)
theory Tick_Safety
  imports Tick_Invariant
begin

section \<open>The invariant over the whole loop\<close>

text \<open>The periodic tasks and the start of the loop keep and establish the invariant, so every run has it.\<close>

subsection \<open>The periodic tasks keep it\<close>

lemma inv_put: "tick_inv env s \<Longrightarrow> ts_inventories s i = Some inven \<Longrightarrow> inv_slots inven' = inv_slots inven \<Longrightarrow>
    tick_inv env (put_inventory i inven' s)"
  using tick_invD(8) [of env s i inven] by (simp add: put_inventory_def inv_put_inventory)

lemma inv_fold_fst:
  assumes "\<And>x r. tick_inv env (fst r) \<Longrightarrow> tick_inv env (fst (f x r))"
  shows "tick_inv env (fst r) \<Longrightarrow> tick_inv env (fst (fold f xs r))"
  by (induction xs arbitrary: r) (simp_all add: assms)

lemma inv_contact: "tick_inv env (fst r) \<Longrightarrow> tick_inv env (fst (contact_hit m dmg p r))"
  by (cases r) (auto simp: contact_hit_def Let_def split: option.splits intro!: inv_put)

lemma inv_contact_hits: "tick_inv env (fst r) \<Longrightarrow> tick_inv env (fst (contact_hits m sn r))"
  by (simp add: contact_hits_def Let_def inv_fold_fst inv_contact)

lemma inv_tell_mob: "tick_inv env s \<Longrightarrow> tick_inv env (tell_mob_moved sn m0 m s)"
  unfolding tell_mob_moved_def by (rule inv_fold) auto

lemma inv_mob_turn: "tick_inv env (fst r) \<Longrightarrow> tick_inv env (fst (mob_turn env' sn i r))"
proof (cases r)
  case (Pair s a)
  assume inv: "tick_inv env (fst r)"
  obtain mv m rng where t: "tick_mob (te_heading env') (te_garden env') (nearest_player env' (ts_mobs s ! i) sn)
      (ts_mobs s ! i) (ts_mob_rng s) = (mv, m, rng)" by (metis prod_cases3)
  let ?s = "s\<lparr>ts_mobs := (ts_mobs s)[i := m], ts_mob_rng := rng\<rparr>"
  let ?s' = "if mv then tell_mob_moved sn (ts_mobs s ! i) m ?s else ?s"
  have "tick_inv env ?s'" using inv Pair by (simp add: inv_tell_mob)
  then have "tick_inv env (fst (contact_hits m sn (?s', m, a)))" by (simp add: inv_contact_hits)
  then show ?thesis
    by (cases mv) (auto simp: mob_turn_def Pair t Let_def split: prod.splits)
qed

lemma inv_announce: "tick_inv env s \<Longrightarrow> tick_inv env (announce_deaths reason ds s)"
  unfolding announce_deaths_def by (rule inv_fold) (simp add: inv_clear_break)

lemma inv_mobs_task: "tick_inv env s \<Longrightarrow> tick_inv env (mobs_task env' s)"
  using inv_fold_fst [of env "mob_turn env' (player_snapshots env' (ts_world s))" "(s, [])", OF inv_mob_turn]
  by (auto simp: mobs_task_def Let_def intro!: inv_announce split: prod.splits) (metis fst_conv)

lemma inv_keep_alive: "tick_inv env s \<Longrightarrow> tick_inv env (keep_alive_task env' s)"
  by (simp add: keep_alive_task_def)

lemma inv_for_living:
  assumes "\<And>i inven s. tick_inv env s \<Longrightarrow> ts_inventories s i = Some inven \<Longrightarrow> tick_inv env (f i inven s)"
  shows "tick_inv env s \<Longrightarrow> tick_inv env (for_living env' f s)"
  unfolding for_living_def by (rule inv_fold) (auto split: option.splits intro: assms)

lemma inv_void: "tick_inv env s \<Longrightarrow> tick_inv env (void_task env' s)"
  unfolding void_task_def
  by (rule inv_for_living) (auto simp: void_death_def Let_def split: option.splits intro!: inv_clear_break inv_put)

lemma inv_lava_hit: "tick_inv env s \<Longrightarrow> ts_inventories s i = Some inven \<Longrightarrow> tick_inv env (fst (lava_hit i inven s))"
  by (auto simp: lava_hit_def Let_def split: option.splits intro!: inv_put)

text \<open>The step of the lava task for one player.\<close>

lemma inv_lava: "tick_inv env s \<Longrightarrow> tick_inv env (lava_task env' s)"
proof -
  assume inv: "tick_inv env s"
  let ?f = "\<lambda>eid (s, deaths). case ts_inventories s eid of None \<Rightarrow> (s, deaths)
             | Some inven \<Rightarrow> if inv_is_dead inven then (s, deaths)
               else let (s, died) = lava_hit eid inven s in (s, if died then deaths @ [eid] else deaths)"
  have step: "tick_inv env (fst (?f i r))" if "tick_inv env (fst r)" for i r
    using that inv_lava_hit [of env "fst r" i]
    by (cases r; cases "lava_hit i (the (ts_inventories (fst r) i)) (fst r)") (auto split: option.splits)
  obtain s' ds where run: "fold ?f (te_ids env' InventoryIds (dom (ts_inventories s))) (s, []) = (s', ds)" by fastforce
  have "tick_inv env (fst (fold ?f (te_ids env' InventoryIds (dom (ts_inventories s))) (s, [])))"
    by (rule inv_fold_fst) (use inv step in simp_all)
  then have "tick_inv env s'" by (simp add: run)
  then show ?thesis using inv by (simp add: lava_task_def run inv_announce)
qed

lemma inv_cooldown_task: "tick_inv env s \<Longrightarrow> tick_inv env (cooldown_task s)"
  by (rule tick_invI [of env s]) (auto simp: cooldown_task_def dest: tick_invD online_of)

lemma vitals_slots [simp]:
  "inv_slots (snd (drain_food inven)) = inv_slots inven" "inv_slots (snd (starve inven)) = inv_slots inven"
  by (simp_all add: drain_food_def starve_def Let_def)

lemma inv_food: "tick_inv env s \<Longrightarrow> tick_inv env (food_task env' s)"
proof -
  have "tick_inv env (food_tick i inven s)" if "tick_inv env s" "ts_inventories s i = Some inven" for i inven s
  proof -
    let ?inven = "snd (starve (snd (drain_food inven)))"
    have "tick_inv env (put_inventory i ?inven s)" using that by (rule inv_put) simp
    then show ?thesis using that(1)
      by (auto simp: food_tick_def Let_def split: prod.splits intro: inv_clear_break)
  qed
  note inv_for_living [of env food_tick, OF this]
  then show "tick_inv env s \<Longrightarrow> ?thesis" by (simp add: food_task_def)
qed

lemma inv_advance_break: "tick_inv env (fst r) \<Longrightarrow> tick_inv env (fst (advance_break i r))"
proof (cases r)
  case (Pair s c)
  moreover assume "tick_inv env (fst r)"
  ultimately have inv: "tick_inv env s" by simp
  show ?thesis
    using inv Pair by (auto simp: advance_break_def Let_def split: option.splits
        intro!: tick_invI [OF inv] dest: tick_invD online_of split: if_splits)
qed

lemma inv_stop_break: "tick_inv env s \<Longrightarrow> tick_inv env (s\<lparr>ts_break_progress := (ts_break_progress s)(i := None)\<rparr>)"
  by (rule tick_invI [of env s]) (auto dest: tick_invD online_of split: if_splits)

lemma inv_complete_break: "tick_inv env s \<Longrightarrow> tick_inv env (complete_break env' c s)"
  by (cases c) (simp add: complete_break_def Let_def inv_blocks inv_stop_break)

lemma inv_breaks: "tick_inv env s \<Longrightarrow> tick_inv env (breaks_task env' s)"
proof -
  assume inv: "tick_inv env s"
  obtain s1 completed where run: "fold advance_break (te_ids env' BreakIds (dom (ts_break_progress s))) (s, []) = (s1, completed)"
    by fastforce
  have "tick_inv env s1" using inv_fold_fst [of env advance_break "(s, [])", OF inv_advance_break] inv
    by (metis fst_conv run)
  then show ?thesis by (simp add: breaks_task_def run inv_fold inv_complete_break)
qed

lemma inv_autosave: "tick_inv env s \<Longrightarrow> tick_inv env (autosave_task env' s)"
  by (simp add: autosave_task_def Let_def inv_saves inv_save_all)

lemma inv_periodic: "tick_inv env s \<Longrightarrow> tick_inv env (periodic_tasks env s)"
  unfolding periodic_tasks_def
  by (intro inv_autosave inv_breaks inv_food inv_cooldown_task inv_lava inv_void inv_keep_alive inv_mobs_task)

subsection \<open>The start establishes it\<close>

lemma fold_preserves: "(\<And>x b. P b \<Longrightarrow> P (f x b)) \<Longrightarrow> P b \<Longrightarrow> P (fold f xs b)"
  by (induction xs arbitrary: b) simp_all

text \<open>Maps read from a file and the maps of the built-in packs are finite.\<close>

lemma read_entries_finite: "finite (dom m) \<Longrightarrow> finite (dom (snd (read_entries rd n offset m)))"
  by (induction rd n offset m rule: read_entries.induct) (simp_all split: sum.splits prod.splits)

lemma overrides_finite: "finite (dom (load_overrides_for rd fs level_name d))"
proof -
  have "finite (dom m)" if "deserialize_overrides data = Inr m" for data m
    using that read_entries_finite [of Map.empty "override_entry data" "unat (le_at data 8 4 :: u32)" 12]
    by (auto simp: deserialize_overrides_def Let_def split: if_splits prod.splits option.splits)
  then show ?thesis
    by (auto simp: load_overrides_for_def load_overrides_from_path_def split: option.splits sum.splits persist_error.splits)
qed

lemma put_finite: "finite (dom b) \<Longrightarrow> finite (dom (put x y z state b))"
  by (simp add: put_def)

lemma decoration_finite:
  assumes "finite (dom b)"
  shows "finite (dom (fill_disk cx cy cz r state b))" "finite (dom (border_wall g h b))" "finite (dom (spawn_plaza r b))"
    "finite (dom (path_east r b))" "finite (dom (water_pond cx cz r b))" "finite (dom (lava_pool cx cz r b))"
    "finite (dom (portal_pad cx cz s1 s2 b))" "finite (dom (clear_spawn_column b))"
proof -
  have disk: "finite (dom (fill_disk cx cy cz r state b))" if "finite (dom b)" for cx cy cz r state b
    unfolding fill_disk_def
    by (rule fold_preserves [where P = "\<lambda>b. finite (dom b)"], rule fold_preserves [where P = "\<lambda>b. finite (dom b)"])
      (use that in \<open>auto intro: put_finite\<close>)
  show "finite (dom (fill_disk cx cy cz r state b))" "finite (dom (spawn_plaza r b))"
    using assms disk by (simp_all add: spawn_plaza_def Let_def)
  show "finite (dom (border_wall g h b))"
    unfolding border_wall_def
    by (rule fold_preserves [where P = "\<lambda>b. finite (dom b)"], unfold Let_def,
        rule fold_preserves [where P = "\<lambda>b. finite (dom b)"], intro put_finite, assumption,
        rule fold_preserves [where P = "\<lambda>b. finite (dom b)"])
      (use assms in \<open>auto intro: put_finite\<close>)
  show "finite (dom (path_east r b))" "finite (dom (clear_spawn_column b))"
    unfolding path_east_def clear_spawn_column_def
    by (rule fold_preserves [where P = "\<lambda>b. finite (dom b)"], use assms in \<open>auto intro: put_finite\<close>)+
  show "finite (dom (water_pond cx cz r b))" "finite (dom (lava_pool cx cz r b))" "finite (dom (portal_pad cx cz s1 s2 b))"
    unfolding water_pond_def lava_pool_def portal_pad_def
    by (rule fold_preserves [where P = "\<lambda>b. finite (dom b)"], rule fold_preserves [where P = "\<lambda>b. finite (dom b)"],
        use assms in \<open>auto intro: put_finite\<close>)+
qed

lemma pillars_finite:
  "finite (dom b) \<Longrightarrow> (\<And>i b. finite (dom b) \<Longrightarrow> finite (dom (f i b))) \<Longrightarrow> finite (dom (fold f is b))"
  by (rule fold_preserves [where P = "\<lambda>b. finite (dom b)"])

lemma builtin_finite: "finite (dom (mp_blocks (builtin_pack preset d)))"
proof (cases d)
  case Overworld
  then show ?thesis
    by (cases preset) (auto simp: builtin_pack_def builtin_overworld_pack_def tiny_overworld_def small_overworld_def
        medium_overworld_def Let_def intro!: decoration_finite put_finite pillars_finite)
next
  case Nether
  then show ?thesis
    by (auto simp: builtin_pack_def builtin_nether_pack_def Let_def intro!: decoration_finite put_finite)
next
  case TheEnd
  then show ?thesis
    by (auto simp: builtin_pack_def builtin_end_pack_def Let_def intro!: decoration_finite put_finite pillars_finite)
qed

lemma pack_finite:
  assumes "resolve_all_packs rd fs level_name preset d = Some pack"
  shows "finite (dom (mp_blocks pack))"
proof -
  have loaded: "finite (dom (mp_blocks p))" if "load_pack_file rd fs path = Inr p" for path p
  proof -
    have "finite (dom (mp_blocks p))" if "deserialize_pack data = Inr p" for data
      using that read_entries_finite [of Map.empty "pack_entry data" "unat (le_at data 18 4 :: u32)" 22]
      by (auto simp: deserialize_pack_def Let_def split: if_splits prod.splits option.splits sum.splits)
    then show ?thesis using that by (auto simp: load_pack_file_def split: sum.splits)
  qed
  have "pack = resolve_dimension_pack rd fs level_name preset d"
    using assms by (cases d) (simp_all add: resolve_all_packs_def dimension_all_def)
  then show ?thesis
    by (auto simp: resolve_dimension_pack_def builtin_finite loaded split: option.splits sum.splits)
qed

lemma load_world_inv:
  assumes "\<And>d pack. packs d = Some pack \<Longrightarrow> finite (dom (mp_blocks pack))"
  shows "world_inv (load_world rd fs level_name garden packs)"
  unfolding load_world_def Let_def
  by (rule fold_preserves [where P = world_inv])
    (auto simp: inv_enable world_inv_init assms overrides_finite intro!: inv_load_pack inv_load_overrides split: option.splits)

lemma load_world_players: "w_players (load_world rd fs level_name garden packs) = Map.empty"
  unfolding load_world_def Let_def
  by (rule fold_preserves [where P = "\<lambda>w. w_players w = Map.empty"])
    (auto simp: load_block_overrides_for_def load_pack_blocks_for_def set_enabled_dimensions_def with_garden_def
      split: option.splits)

lemma ran_upd_subset: "ran (m(k \<mapsto> c)) \<subseteq> insert c (ran m)"
  by (auto simp: ran_def)

definition full_chests :: "container_store \<Rightarrow> bool" where
  "full_chests store \<longleftrightarrow> (\<forall>chest\<in>ran store. length chest = CHEST_SLOT_COUNT)"

lemma full_update: "full_chests store \<Longrightarrow> length c = CHEST_SLOT_COUNT \<Longrightarrow> full_chests (store(k \<mapsto> c))"
  using ran_upd_subset [of store k c] by (auto simp only: full_chests_def)

lemma decode_slots_length: "decode_slots n input = Some (ss, rest) \<Longrightarrow> length ss = n"
  by (induction n input arbitrary: ss rest rule: decode_slots.induct) (auto split: option.splits prod.splits)

lemma read_chests_full: "full_chests store \<Longrightarrow> full_chests (read_chests n input store)"
proof (induction n arbitrary: input store)
  case 0
  then show ?case by simp
next
  case (Suc n)
  then show ?case
    by (simp add: Let_def full_update decode_slots_length del: fun_upd_apply split: list.splits option.splits prod.splits)
qed

lemma load_containers_full: "full_chests (load_containers env rd fs packs)"
proof -
  have none: "full_chests Map.empty" by (simp add: full_chests_def)
  have load: "full_chests (load_chests rd fs (te_level_name env))"
    by (simp add: load_chests_def deserialize_chests_def container_store_new_def Let_def none read_chests_full split: option.splits)
  have "full_chests (ensure_seeded k store)" if "full_chests store" for k store
    using that by (cases "store k") (simp_all add: ensure_seeded_def or_insert_with_def full_update del: fun_upd_apply)
  then have "full_chests (seed_chests ord d blocks store)" if "full_chests store" for ord d blocks store
    unfolding seed_chests_def using that by (intro fold_preserves [where P = full_chests]) (simp_all split: prod.splits)
  with load show ?thesis
    unfolding load_containers_def
    by (intro fold_preserves [where P = full_chests]) (simp_all split: option.splits)
qed

lemma inv_start: "tick_inv env (tick_start env rd fs count)"
proof -
  have "world_inv (load_world rd fs (te_level_name env) (te_garden env)
      (resolve_all_packs rd fs (te_level_name env) (gs_size (te_garden env))))"
    by (rule load_world_inv) (rule pack_finite)
  then show ?thesis
    using load_containers_full [unfolded full_chests_def]
    by (simp add: tick_start_def tick_inv_def load_world_players Let_def split: prod.splits)
qed

lemma inv_round: "tick_inv env s \<Longrightarrow> tick_inv env (fst (snd (tick_round env mods msgs (s, ms))))"
  using inv_drain [of env s "interleave (fst msgs) (snd ms) (snd msgs)"]
  by (auto simp: tick_round_def Let_def inv_periodic split: prod.splits if_splits)

lemma inv_rounds: "tick_inv env s \<Longrightarrow> tick_inv env (fst (snd (tick_rounds env mods rounds (s, ms))))"
proof (induction rounds arbitrary: s ms)
  case Nil
  then show ?case by simp
next
  case (Cons msgs rounds)
  obtain stop s' ms' where round: "tick_round env mods msgs (s, ms) = (stop, s', ms')" by (metis prod_cases3)
  with inv_round [OF Cons.prems, of mods msgs ms] have "tick_inv env s'" by simp
  with Cons.IH show ?case by (simp add: round)
qed

text \<open>
  C10: The tables of the tick loop belong together in every run: whatever is in the files it starts from,
  whatever messages come in whatever rounds, whatever mods are there and whichever way it ends, each
  player of the world has exactly one sender, inventory and chunk state, nobody else has any table
  entry, inventories have 46 slots and chests 27, the chunks a client has lie in the garden, and the world
  is well-formed.
\<close>

theorem tick_tables_belong_together:
  "tick_inv env (fst (run_tick_loop env rd fs count mods m rounds))"
proof -
  let ?s = "tick_start env rd fs count"
  obtain r ms where init: "init_all mods (build_player_view env ?s) 0 (m, []) = (r, ms)" by (meson surj_pair)
  obtain stop s ms' where run: "tick_rounds env mods rounds (?s, ms) = (stop, s, ms')" by (metis prod_cases3)
  have "tick_inv env s" using inv_rounds [where s = ?s and env = env and mods = mods and rounds = rounds and ms = ms] inv_start by (simp add: run)
  then show ?thesis
    by (simp add: run_tick_loop_def init run flush_on_flag_def Let_def inv_saves inv_save_all)
qed

end
