(* ===== verification/Tick_View.thy ===== *)
theory Tick_View
  imports Tick_Safety
begin

section \<open>What a client sees of the world\<close>

text \<open>
  The tick loop tells every session of chunks and blocks one event at a time. Here the events on a
  session's channel are replayed by a client that knows only the flat generator, and the result is compared with
  the world: in every state the loop reaches, each client has exactly the chunks the loop thinks it has, in the dimension its
  player is in, and every block of them is the server's.
\<close>

subsection \<open>A client\<close>

record client_view =
  cv_dimension :: dimension_id
  cv_chunks :: "chunk_pos set"
  cv_blocks :: "block_pos \<Rightarrow> i32"

definition chunk_of :: "block_pos \<Rightarrow> chunk_pos" where
  "chunk_of = (\<lambda>(x, y, z). chunk_pos_new (signed_drop_bit 4 x) (signed_drop_bit 4 z))"

definition flat_block :: "dimension_id \<Rightarrow> block_pos \<Rightarrow> i32" where
  "flat_block d = (\<lambda>(x, y, z). generated_flat_block d x y z)"

definition apply_blocks :: "(block_pos \<times> i32) list \<Rightarrow> (block_pos \<Rightarrow> i32) \<Rightarrow> block_pos \<Rightarrow> i32" where
  "apply_blocks changes f = fold (\<lambda>(p, b) f. f(p := b)) changes f"

text \<open>
  A session sends a loaded chunk as generated for its dimension, and a respawn with the name
  of a dimension changes that; a client that changes dimension drops all its chunks.
\<close>

fun client_event :: "session_event \<Rightarrow> client_view \<Rightarrow> client_view" where
  "client_event (LoadChunk_ev cx cz) v = v\<lparr>cv_chunks := insert (chunk_pos_new cx cz) (cv_chunks v),
     cv_blocks := (\<lambda>p. if chunk_of p = chunk_pos_new cx cz then flat_block (cv_dimension v) p else cv_blocks v p)\<rparr>"
| "client_event (UnloadChunk_ev cx cz) v = v\<lparr>cv_chunks := cv_chunks v - {chunk_pos_new cx cz}\<rparr>"
| "client_event (ChunkBlockOverrides_ev changes) v = v\<lparr>cv_blocks := apply_blocks changes (cv_blocks v)\<rparr>"
| "client_event (BlockUpdate_ev p b) v = v\<lparr>cv_blocks := (cv_blocks v)(p := b)\<rparr>"
| "client_event (RespawnPlayer_ev r) v =
    (case dimension_parse_protocol (rsp_dimension_name r) of None \<Rightarrow> v
     | Some d \<Rightarrow> if d = cv_dimension v then v else v\<lparr>cv_dimension := d, cv_chunks := {}\<rparr>)"
| "client_event _ v = v"

fun neutral :: "session_event \<Rightarrow> bool" where
  "neutral (LoadChunk_ev _ _) = False"
| "neutral (UnloadChunk_ev _ _) = False"
| "neutral (ChunkBlockOverrides_ev _) = False"
| "neutral (BlockUpdate_ev _ _) = False"
| "neutral (RespawnPlayer_ev _) = False"
| "neutral _ = True"

text \<open>The join sequence of a session sends the chunks within two of the origin of the overworld, as generated.\<close>

definition client_start :: client_view where
  "client_start = \<lparr>cv_dimension = Overworld, cv_chunks = set (desired_chunks 0 0 INITIAL_CHUNK_RADIUS),
     cv_blocks = flat_block Overworld\<rparr>"

definition client_of :: "channel \<Rightarrow> (channel \<times> session_event) list \<Rightarrow> client_view" where
  "client_of ch sent = fold client_event (sent_on ch sent) client_start"

lemma neutral_event: "neutral e \<Longrightarrow> client_event e v = v"
  by (cases e) simp_all

lemma neutral_events: "list_all neutral es \<Longrightarrow> fold client_event es v = v"
  by (induction es) (simp_all add: neutral_event)

lemma apply_blocks_append: "apply_blocks (xs @ ys) f = apply_blocks ys (apply_blocks xs f)"
  by (simp add: apply_blocks_def)

lemma apply_blocks_over: "distinct (map fst es) \<Longrightarrow> apply_blocks es f p = over (map_of es) f p"
proof (induction es arbitrary: f)
  case Nil
  then show ?case by (simp add: apply_blocks_def)
next
  case (Cons e es)
  obtain q b where e: "e = (q, b)" by (cases e)
  then have "map_of es q = None" using Cons.prems by (simp add: map_of_eq_None_iff)
  then show ?case using Cons.IH [of "f(q := b)"] Cons.prems
    by (simp add: e apply_blocks_def over_def del: fun_upd_apply) (simp split: option.splits)
qed

subsection \<open>The scene\<close>

text \<open>The parts of the loop's state that decide what clients should see, and what they do see.\<close>

definition scene :: "tick_state \<Rightarrow> (i32 \<rightharpoonup> channel) \<times> (i32 \<rightharpoonup> player_chunk_state) \<times> (i32 \<rightharpoonup> dimension_id)
    \<times> (dimension_id \<Rightarrow> block_pos \<Rightarrow> i32) \<times> (i32 \<Rightarrow> i32 \<Rightarrow> bool) \<times> (channel \<Rightarrow> client_view)" where
  "scene s = (ts_senders s, ts_chunk_states s, player_dimension (ts_world s), block_at (ts_world s),
     contains_block (w_garden (ts_world s)), \<lambda>ch. client_of ch (ts_sent s))"

lemma client_of_append:
  "client_of ch (sent @ map (Pair c) es) = (if c = ch then fold client_event es (client_of ch sent) else client_of ch sent)"
  by (simp add: client_of_def)

lemma scene_send [simp]: "list_all neutral es \<Longrightarrow> scene (send_to i es s) = scene s"
  by (cases "ts_senders s i") (simp_all add: scene_def send_to_def client_of_append neutral_events fun_eq_iff)

lemma scene_fold: "(\<And>x s. scene (f x s) = scene s) \<Longrightarrow> scene (fold f xs s) = scene s"
  by (induction xs arbitrary: s) simp_all

lemma scene_fold_fst: "(\<And>x r. scene (fst (f x r)) = scene (fst r)) \<Longrightarrow> scene (fst (fold f xs r)) = scene (fst r)"
  by (induction xs arbitrary: r) simp_all

lemma scene_broadcast [simp]: "neutral ev \<Longrightarrow> scene (broadcast env P ev s) = scene s"
  unfolding broadcast_def by (rule scene_fold) simp

lemma scene_fields [simp]:
  "scene (s\<lparr>ts_saved_players := a1\<rparr>) = scene s" "scene (s\<lparr>ts_containers := a2\<rparr>) = scene s"
  "scene (s\<lparr>ts_inventories := a3\<rparr>) = scene s" "scene (s\<lparr>ts_break_progress := a4\<rparr>) = scene s"
  "scene (s\<lparr>ts_open_windows := a5\<rparr>) = scene s" "scene (s\<lparr>ts_next_window_id := a6\<rparr>) = scene s"
  "scene (s\<lparr>ts_portal_cooldowns := a7\<rparr>) = scene s" "scene (s\<lparr>ts_mobs := a8\<rparr>) = scene s"
  "scene (s\<lparr>ts_mob_rng := a9\<rparr>) = scene s" "scene (s\<lparr>ts_tick_count := a10\<rparr>) = scene s"
  "scene (s\<lparr>ts_last_keep_alive_tick := a10\<rparr>) = scene s" "scene (s\<lparr>ts_last_autosave_tick := a10\<rparr>) = scene s"
  "scene (s\<lparr>ts_player_count := a10\<rparr>) = scene s" "scene (s\<lparr>ts_files := a11\<rparr>) = scene s"
  "scene (s\<lparr>ts_saves := a12\<rparr>) = scene s" "scene (s\<lparr>ts_events := a13\<rparr>) = scene s"
  by (simp_all add: scene_def)

lemma scene_helpers [simp]:
  "scene (map_containers f s) = scene s" "scene (put_inventory i inven s) = scene s" "scene (do_save env sv s) = scene s"
  "scene (merge_online_into_saved env s) = scene s"
  by (simp_all add: map_containers_def put_inventory_def do_save_def merge_online_into_saved_def)

lemma scene_saves [simp]:
  "scene (save_containers env s) = scene s" "scene (save_cached_players env s) = scene s"
  "scene (save_all_overrides env s) = scene s"
  by (simp_all add: save_containers_def save_cached_players_def save_all_overrides_def scene_fold)

lemma scene_clear_break [simp]: "scene (clear_break_animation i s) = scene s"
  by (simp add: clear_break_animation_def split: option.splits)

lemma scene_close_window [simp]: "scene (close_open_window i b s) = scene s"
  by (simp add: close_open_window_def Let_def split: option.splits)

lemma scene_close_viewers [simp]: "scene (close_viewers env d p s) = scene s"
  unfolding close_viewers_def Let_def by (rule scene_fold) simp

lemma scene_open_chest [simp]: "scene (open_chest_for_player i d p s) = scene s"
  by (simp add: open_chest_for_player_def Let_def split: option.splits prod.splits)

lemma scene_sync_mobs [simp]: "scene (sync_mobs_for_player i d s) = scene s"
  by (simp add: sync_mobs_for_player_def Let_def list_all_iff spawn_mob_event_def)

text \<open>An update of a player that leaves its dimension.\<close>

lemma player_dimension_update:
  "(\<And>p. ph_dimension (f p) = ph_dimension p) \<Longrightarrow> player_dimension (update_player i f w) = player_dimension w"
  by (rule ext) (auto simp: player_dimension_def get_player_def update_player_def option.map_comp comp_def)

lemma scene_update_player:
  "(\<And>p. ph_dimension (f p) = ph_dimension p) \<Longrightarrow> scene (map_world (update_player i f) s) = scene s"
  using block_at_eqI [of "update_player i f (ts_world s)" "ts_world s"]
  by (simp add: scene_def player_dimension_update layers_of_others garden_of_others)

lemma placed_dimension [simp]:
  "ph_dimension (set_position x y z p) = ph_dimension p" "ph_dimension (set_rotation yaw pitch p) = ph_dimension p"
  by (simp_all add: set_position_def set_rotation_def)

subsection \<open>Chunks arriving and leaving\<close>

text \<open>
  What the comparison relies on from the environment: the orders list every key once, and the garden is
  one of the presets, with any dimensions enabled.
\<close>

locale tick_world =
  fixes env :: tick_env
  assumes blocks_order: "iteration_order (te_blocks env)"
    and chunks_order: "chunk_order (te_chunks env)"
    and ids_order: "finite S \<Longrightarrow> set (te_ids env m S) = S \<and> distinct (te_ids env m S)"
    and preset_garden: "\<exists>size dims. te_garden env = garden_from_size size\<lparr>gs_dimensions := dims\<rparr>"

text \<open>What a client with chunks of the right dimension shows of them is the server's.\<close>

definition shows_world :: "world \<Rightarrow> dimension_id \<Rightarrow> client_view \<Rightarrow> bool" where
  "shows_world w d v \<longleftrightarrow> cv_dimension v = d \<and> (\<forall>p. chunk_of p \<in> cv_chunks v \<longrightarrow> cv_blocks v p = block_at w d p)"

lemma shows_worldI:
  "cv_dimension v = d \<Longrightarrow> (\<And>p. chunk_of p \<in> cv_chunks v \<Longrightarrow> cv_blocks v p = block_at w d p) \<Longrightarrow> shows_world w d v"
  unfolding shows_world_def by blast

lemma shows_worldD:
  "shows_world w d v \<Longrightarrow> cv_dimension v = d" "shows_world w d v \<Longrightarrow> chunk_of p \<in> cv_chunks v \<Longrightarrow> cv_blocks v p = block_at w d p"
  unfolding shows_world_def by blast+

lemma chunk_pos_new_eta [simp]: "chunk_pos_new (cp_x p) (cp_z p) = p"
  by (simp add: chunk_pos_new_def)

lemma chunk_of_iff:
  "chunk_of p = c \<longleftrightarrow> signed_drop_bit 4 (fst p) = cp_x c \<and> signed_drop_bit 4 (snd (snd p)) = cp_z c"
  by (cases p; cases c) (auto simp: chunk_of_def chunk_pos_new_def)

lemma within_radius: "- chunk_radius preset \<le>s v \<Longrightarrow> v \<le>s chunk_radius preset \<Longrightarrow> \<bar>sint v\<bar> < 2 ^ 26"
proof -
  assume v: "- chunk_radius preset \<le>s v" "v \<le>s chunk_radius preset"
  have "sint (chunk_radius preset) \<le> 16" "- 16 \<le> sint (- chunk_radius preset)"
    by (cases preset; simp add: chunk_radius_def)+
  with v have "- 16 \<le> sint v" "sint v \<le> 16" unfolding word_sle_eq by linarith+
  then show ?thesis by simp
qed

lemma in_radius_square:
  assumes "in_garden_radius (chunk_radius preset) c"
  shows "in_chunk_square (cp_x c) (cp_z c) p \<longleftrightarrow> chunk_of p = c"
proof (cases p)
  case (fields x y z)
  have "\<bar>sint (cp_x c)\<bar> < 2 ^ 26" "\<bar>sint (cp_z c)\<bar> < 2 ^ 26"
    using assms unfolding in_garden_radius_def by (blast intro: within_radius)+
  from in_chunk_square_shift [OF this] show ?thesis by (simp add: chunk_of_iff fields)
qed

abbreviation garden_radius :: "tick_env \<Rightarrow> i32" where
  "garden_radius env \<equiv> chunk_radius (gs_size (te_garden env))"

context tick_world
begin

lemma garden_chunk:
  "in_garden_radius (garden_radius env) c \<Longrightarrow> in_chunk_square (cp_x c) (cp_z c) p \<longleftrightarrow> chunk_of p = c"
  by (rule in_radius_square)

lemma garden_column:
  assumes "in_garden_radius (garden_radius env) (chunk_of (x, y, z))"
  shows "contains_block (te_garden env) x z"
proof -
  obtain size dims where g: "te_garden env = garden_from_size size\<lparr>gs_dimensions := dims\<rparr>"
    using preset_garden by blast
  then have "gs_size (te_garden env) = size"
    by (simp add: garden_from_size_def Let_def)
  then show ?thesis using assms
    by (simp add: g contains_block_dimensions garden_blocks_are_chunks contains_chunk_def in_garden_radius_def Let_def
        chunk_of_def chunk_pos_new_def)
qed

text \<open>The deltas of chunks, laid over the generated blocks, give the server's.\<close>

lemma deltas_of_chunk:
  assumes "world_inv w" "in_garden_radius (garden_radius env) c"
  shows "apply_blocks (get_client_block_deltas_for_chunk (te_blocks env) w d (cp_x c) (cp_z c)) f p =
    (if chunk_of p = c then over (pack_for w d ++ block_overrides_for w d) f p else f p)"
proof -
  let ?deltas = "get_client_block_deltas_for_chunk (te_blocks env) w d (cp_x c) (cp_z c)"
  have "distinct (map fst ?deltas)" "map_of ?deltas = client_deltas w d (cp_x c) (cp_z c)"
    using deltas_iterate [OF blocks_order assms(1), of d "cp_x c" "cp_z c"] by (simp_all add: iterates_def)
  then show ?thesis using garden_chunk [OF assms(2), of p]
    by (simp add: apply_blocks_over over_def client_deltas_def)
qed

lemma deltas_show:
  assumes "world_inv w" "\<And>c. c \<in> set cs \<Longrightarrow> in_garden_radius (garden_radius env) c"
  shows "apply_blocks (concat (map (\<lambda>c. get_client_block_deltas_for_chunk (te_blocks env) w d (cp_x c) (cp_z c)) cs)) f p =
    (if chunk_of p \<in> set cs then over (pack_for w d ++ block_overrides_for w d) f p else f p)"
  using assms(2)
proof (induction cs arbitrary: f)
  case Nil
  then show ?case by (simp add: apply_blocks_def)
next
  case (Cons c cs)
  define m where "m = pack_for w d ++ block_overrides_for w d"
  note one = deltas_of_chunk [OF assms(1), where d = d, folded m_def]
  have "over m (apply_blocks (get_client_block_deltas_for_chunk (te_blocks env) w d (cp_x c) (cp_z c)) f) p = over m f p"
    using Cons.prems by (cases "m p") (simp_all add: over_def one)
  then show ?case using Cons by (simp add: apply_blocks_append one m_def [symmetric])
qed

lemma over_flat:
  assumes "contains_block (w_garden w) = contains_block (te_garden env)" "in_garden_radius (garden_radius env) (chunk_of p)"
  shows "over (pack_for w d ++ block_overrides_for w d) (flat_block d) p = block_at w d p"
  using assms garden_column
  by (cases p) (simp add: block_at_layers over_def base_block_def flat_block_def map_add_def split: option.splits)

lemma chunk_arrives:
  assumes "world_inv w" "contains_block (w_garden w) = contains_block (te_garden env)" "shows_world w d v"
    and "in_garden_radius (garden_radius env) c"
  defines "v' \<equiv> fold client_event (send_chunk_to_session env w d (cp_x c) (cp_z c)) v"
  shows "shows_world w d v'" "cv_chunks v' = insert c (cv_chunks v)"
proof -
  let ?deltas = "get_client_block_deltas_for_chunk (te_blocks env) w d (cp_x c) (cp_z c)"
  have v': "v' = client_event (ChunkBlockOverrides_ev ?deltas) (client_event (LoadChunk_ev (cp_x c) (cp_z c)) v)"
    by (simp add: v'_def send_chunk_to_session_def Let_def apply_blocks_def)
  show "cv_chunks v' = insert c (cv_chunks v)" by (simp add: v')
  have d: "cv_dimension v = d" using assms(3) by (rule shows_worldD)
  show "shows_world w d v'"
  proof (rule shows_worldI)
    show "cv_dimension v' = d" by (simp add: v' d)
    fix p assume p: "chunk_of p \<in> cv_chunks v'"
      show "cv_blocks v' p = block_at w d p"
      using p shows_worldD(2) [OF assms(3), of p] over_flat [OF assms(2), of p d] assms(4)
      by (cases "chunk_of p = c") (auto simp: v' d deltas_of_chunk [OF assms(1,4)] over_def split: option.splits)
  qed
qed

text \<open>Several chunks.\<close>

lemma chunk_leaves: "shows_world w d v \<Longrightarrow> shows_world w d (client_event (UnloadChunk_ev cx cz) v)"
  by (rule shows_worldI) (simp_all add: shows_worldD)

lemma chunks_leave:
  "shows_world w d v \<Longrightarrow> shows_world w d (fold client_event (map (\<lambda>c. UnloadChunk_ev (cp_x c) (cp_z c)) cs) v)"
  "cv_chunks (fold client_event (map (\<lambda>c. UnloadChunk_ev (cp_x c) (cp_z c)) cs) v) = cv_chunks v - set cs"
  by (induction cs arbitrary: v) (simp_all only: list.map fold_simps chunk_leaves, auto)

lemma chunks_arrive:
  assumes "world_inv w" "contains_block (w_garden w) = contains_block (te_garden env)"
    and "\<And>c. c \<in> set cs \<Longrightarrow> in_garden_radius (garden_radius env) c"
  shows "shows_world w d v \<Longrightarrow>
      shows_world w d (fold client_event (concat (map (\<lambda>c. send_chunk_to_session env w d (cp_x c) (cp_z c)) cs)) v)
      \<and> cv_chunks (fold client_event (concat (map (\<lambda>c. send_chunk_to_session env w d (cp_x c) (cp_z c)) cs)) v)
        = cv_chunks v \<union> set cs"
  using assms(3)
proof (induction cs arbitrary: v)
  case Nil
  then show ?case by simp
next
  case (Cons c cs)
  note arrived = chunk_arrives [OF assms(1,2) Cons.prems(1), of c]
  show ?case using Cons.IH [OF arrived(1)] arrived(2) Cons.prems(2) by (simp add: insert_commute)
qed

lemma chunks_reload:
  assumes "world_inv w" "contains_block (w_garden w) = contains_block (te_garden env)"
    and "\<And>c. c \<in> set cs \<Longrightarrow> in_garden_radius (garden_radius env) c"
  shows "shows_world w d v \<Longrightarrow>
      shows_world w d (fold client_event
        (concat (map (\<lambda>c. UnloadChunk_ev (cp_x c) (cp_z c) # send_chunk_to_session env w d (cp_x c) (cp_z c)) cs)) v)
      \<and> cv_chunks (fold client_event
        (concat (map (\<lambda>c. UnloadChunk_ev (cp_x c) (cp_z c) # send_chunk_to_session env w d (cp_x c) (cp_z c)) cs)) v)
        = cv_chunks v \<union> set cs"
  using assms(3)
proof (induction cs arbitrary: v)
  case Nil
  then show ?case by simp
next
  case (Cons c cs)
  note arrived = chunk_arrives [OF assms(1,2) chunk_leaves [OF Cons.prems(1)], of c "cp_x c" "cp_z c"]
  show ?case using Cons.IH [OF arrived(1)] arrived(2) Cons.prems(2) by (simp add: insert_Diff_single)
qed

end

subsection \<open>Every client is in step\<close>

definition synced :: "tick_state \<Rightarrow> i32 \<Rightarrow> bool" where
  "synced s i \<longleftrightarrow> (\<forall>ch d cs. ts_senders s i = Some ch \<longrightarrow> player_dimension (ts_world s) i = Some d \<longrightarrow>
    ts_chunk_states s i = Some cs \<longrightarrow>
    shows_world (ts_world s) d (client_of ch (ts_sent s)) \<and> cv_chunks (client_of ch (ts_sent s)) = pcs_loaded_chunks cs)"

text \<open>In the middle of a change of dimension a client may lack some chunks.\<close>

definition nearly_synced :: "tick_state \<Rightarrow> i32 \<Rightarrow> bool" where
  "nearly_synced s i \<longleftrightarrow> (\<forall>ch d cs. ts_senders s i = Some ch \<longrightarrow> player_dimension (ts_world s) i = Some d \<longrightarrow>
    ts_chunk_states s i = Some cs \<longrightarrow>
    shows_world (ts_world s) d (client_of ch (ts_sent s)) \<and> cv_chunks (client_of ch (ts_sent s)) \<subseteq> pcs_loaded_chunks cs)"

definition view_frame :: "tick_env \<Rightarrow> tick_state \<Rightarrow> bool" where
  "view_frame env s \<longleftrightarrow> inj_on (ts_senders s) (dom (ts_senders s))
    \<and> contains_block (w_garden (ts_world s)) = contains_block (te_garden env)"

definition view_ok :: "tick_env \<Rightarrow> tick_state \<Rightarrow> bool" where
  "view_ok env s \<longleftrightarrow> view_frame env s \<and> (\<forall>i. synced s i)"

definition view_but :: "tick_env \<Rightarrow> i32 \<Rightarrow> tick_state \<Rightarrow> bool" where
  "view_but env i s \<longleftrightarrow> view_frame env s \<and> (\<forall>j. j \<noteq> i \<longrightarrow> synced s j) \<and> nearly_synced s i"

lemma scene_eqD:
  assumes "scene s' = scene s"
  shows "ts_senders s' = ts_senders s" "ts_chunk_states s' = ts_chunk_states s"
    "player_dimension (ts_world s') = player_dimension (ts_world s)" "block_at (ts_world s') = block_at (ts_world s)"
    "contains_block (w_garden (ts_world s')) = contains_block (w_garden (ts_world s))"
    "client_of ch (ts_sent s') = client_of ch (ts_sent s)"
  using assms by (simp_all add: scene_def fun_eq_iff)

lemma shows_world_cong: "block_at w' d = block_at w d \<Longrightarrow> shows_world w' d v = shows_world w d v"
  by (simp add: shows_world_def)

lemma scene_view:
  assumes "scene s' = scene s"
  shows "view_ok env s' = view_ok env s" "view_but env i s' = view_but env i s"
  unfolding view_ok_def view_but_def view_frame_def synced_def nearly_synced_def scene_eqD [OF assms]
  using scene_eqD(4) [OF assms] by (simp_all add: shows_world_def)

lemma view_of_scene: "view_ok env s \<Longrightarrow> scene s' = scene s \<Longrightarrow> view_ok env s'"
  using scene_view(1) [where s = s and s' = s' and env = env] by blast

lemma view_butI: "view_ok env s \<Longrightarrow> view_but env i s"
  by (auto simp: view_ok_def view_but_def synced_def nearly_synced_def)

text \<open>A step that tells only one client, and changes what only that one should see.\<close>

lemma others_synced:
  assumes "view_frame env s" "ts_senders s i = Some ch" "\<And>j. j \<noteq> i \<Longrightarrow> synced s j"
    and "ts_senders s' = ts_senders s" "\<And>j. j \<noteq> i \<Longrightarrow> ts_chunk_states s' j = ts_chunk_states s j"
    and "\<And>j. j \<noteq> i \<Longrightarrow> player_dimension (ts_world s') j = player_dimension (ts_world s) j"
    and "block_at (ts_world s') = block_at (ts_world s)" "ts_sent s' = ts_sent s @ map (Pair ch) evs"
  shows "j \<noteq> i \<Longrightarrow> synced s' j"
proof -
  assume j: "j \<noteq> i"
  have "ts_senders s j \<noteq> Some ch"
    using assms(1,2) j by (auto simp: view_frame_def dom_def inj_on_def)
  with assms(3) [OF j] j show ?thesis
    by (auto simp: synced_def assms client_of_append shows_world_def)
qed

lemma view_one:
  assumes "view_frame env s" "ts_senders s i = Some ch" "\<And>j. j \<noteq> i \<Longrightarrow> synced s j"
    and "ts_senders s' = ts_senders s" "\<And>j. j \<noteq> i \<Longrightarrow> ts_chunk_states s' j = ts_chunk_states s j"
    and "\<And>j. j \<noteq> i \<Longrightarrow> player_dimension (ts_world s') j = player_dimension (ts_world s) j"
    and "block_at (ts_world s') = block_at (ts_world s)" "ts_sent s' = ts_sent s @ map (Pair ch) evs"
    and "contains_block (w_garden (ts_world s')) = contains_block (w_garden (ts_world s))"
  shows "synced s' i \<Longrightarrow> view_ok env s'" "nearly_synced s' i \<Longrightarrow> view_but env i s'"
  using others_synced [OF assms(1-8)] assms(1) unfolding view_ok_def view_but_def view_frame_def
  by (auto simp: assms(4,9)) metis

lemma fold_client_append: "client_of ch (sent @ map (Pair ch) es) = fold client_event es (client_of ch sent)"
  by (simp add: client_of_append)

lemma client_of_snoc: "client_of ch (sent @ [(c, e)]) = (if c = ch then client_event e (client_of ch sent) else client_of ch sent)"
  using client_of_append [of ch sent c "[e]"] by simp

lemma send_to_nil: "send_to i [] s = s"
  by (simp add: send_to_def split: option.splits)

lemma send_to_some: "ts_senders s i = Some ch \<Longrightarrow> ts_sent (send_to i es s) = ts_sent s @ map (Pair ch) es"
  by (simp add: send_to_def)

context tick_world
begin

text \<open>The chunks that a move or a new view distance brings.\<close>

lemma retargeted_view:
  assumes inv: "tick_inv env s" and view: "view_ok env s"
    and cs: "ts_chunk_states s i = Some cs" and d: "player_dimension (ts_world s) i = Some d"
    and re: "retarget_chunks (te_chunks env) cs0 = (new, gone, cs')" "pcs_loaded_chunks cs0 = pcs_loaded_chunks cs"
      "pcs_garden_chunk_radius cs0 = pcs_garden_chunk_radius cs"
    and s2: "ts_world s2 = ts_world s" "ts_senders s2 = ts_senders s" "ts_chunk_states s2 = (ts_chunk_states s)(i \<mapsto> cs')"
      "\<And>ch. client_of ch (ts_sent s2) = client_of ch (ts_sent s)"
  shows "view_ok env (tell_chunks env d i new gone s2)"
proof -
  let ?w = "ts_world s"
  note ok = tick_invD(9) [OF inv cs, unfolded chunk_state_ok_def]
  have fin: "finite (pcs_loaded_chunks cs0)" using ok re(2) by simp
  note exact = chunk_order.retarget_exact [OF chunks_order fin re(1)]
  have "i \<in> online s" using cs tick_invD(4) [OF inv] by blast
  then obtain ch where ch: "ts_senders s i = Some ch" using tick_invD(2) [OF inv] by (auto simp: dom_def)
  have garden: "contains_block (w_garden ?w) = contains_block (te_garden env)"
    using view by (simp add: view_ok_def view_frame_def)
  have w: "world_inv ?w" using inv by (rule tick_invD)
  have new: "in_garden_radius (garden_radius env) c" if "c \<in> set new" for c
    using that exact desired_in_garden [of c cs0] ok re(3) by auto
  have v: "shows_world ?w d (client_of ch (ts_sent s))" "cv_chunks (client_of ch (ts_sent s)) = pcs_loaded_chunks cs"
    using view ch d cs by (auto simp: view_ok_def synced_def)
  note arrive = chunks_arrive [OF w garden new, of new d, OF _ v(1)]
  let ?s2 = "s2\<lparr>ts_sent := ts_sent s\<rparr>"
  define evs where "evs = concat (map (\<lambda>c. send_chunk_to_session env ?w d (cp_x c) (cp_z c)) new)
    @ map (\<lambda>c. UnloadChunk_ev (cp_x c) (cp_z c)) gone"
  have sent: "ts_sent (send_to i evs ?s2) = ts_sent s @ map (Pair ch) evs" using ch by (simp add: send_to_some s2)
  have "view_ok env (send_to i evs ?s2)"
  proof (rule view_one(1))
    show "view_frame env s" "\<And>j. j \<noteq> i \<Longrightarrow> synced s j" using view by (simp_all add: view_ok_def)
    show "ts_sent (send_to i evs ?s2) = ts_sent s @ map (Pair ch) evs" by (rule sent)
    have "cv_chunks (fold client_event evs (client_of ch (ts_sent s))) = pcs_loaded_chunks cs'"
      using exact(1) re(2) arrive v by (simp add: evs_def chunks_leave(2))
    moreover have "shows_world ?w d (fold client_event evs (client_of ch (ts_sent s)))"
      using arrive chunks_leave(1) by (simp add: evs_def)
    ultimately show "synced (send_to i evs ?s2) i"
      using ch d by (simp add: synced_def sent fold_client_append s2)
  qed (use ch in \<open>simp_all add: s2\<close>)
  moreover have "tell_chunks env d i new gone s2 = send_to i evs s2" by (simp add: tell_chunks_def evs_def s2)
  then have "scene (tell_chunks env d i new gone s2) = scene (send_to i evs ?s2)"
    using ch by (simp add: scene_def s2 send_to_some client_of_append fun_eq_iff)
  ultimately show ?thesis by (rule view_of_scene)
qed

text \<open>A client that shows nothing wrong is in step after all its chunks are sent again.\<close>

lemma resync_view:
  assumes inv: "tick_inv env s" and view: "view_but env i s"
  shows "view_ok env (resync_player_chunks env i x z s)"
proof (cases "ts_chunk_states s i")
  case None
  then have "synced s i" by (simp add: synced_def)
  with view None show ?thesis by (auto simp: resync_player_chunks_def Let_def view_but_def view_ok_def)
next
  case (Some cs)
  let ?w = "ts_world s"
  note ok = tick_invD(9) [OF inv Some, unfolded chunk_state_ok_def]
  have "i \<in> online s" using Some tick_invD(4) [OF inv] by blast
  then obtain ch p where ch: "ts_senders s i = Some ch" and p: "get_player ?w i = Some p"
    using tick_invD(2) [OF inv] by (metis domD get_player_def)
  let ?d = "ph_dimension p"
  have d: "player_dimension ?w i = Some ?d" "dimension_or_default ?w i = ?d"
    by (simp_all add: player_dimension_def dimension_or_default_def p)
  have garden: "contains_block (w_garden ?w) = contains_block (te_garden env)"
    using view by (simp add: view_but_def view_frame_def)
  have w: "world_inv ?w" using inv by (rule tick_invD)
  let ?cx = "chunk_x_from_world x" and ?cz = "chunk_z_from_world z"
  define cs' where "cs' = cs\<lparr>pcs_center_x := ?cx, pcs_center_z := ?cz\<rparr>"
  define want where "want = desired_chunk_set cs'"
  have want: "in_garden_radius (garden_radius env) c" if "c \<in> want" for c
    using that desired_in_garden [of c cs'] ok by (simp add: want_def cs'_def)
  have lists: "set (te_chunks env want) = want" "set (te_chunks env (pcs_loaded_chunks cs)) = pcs_loaded_chunks cs"
    using chunk_order.set_cord [OF chunks_order] ok by (simp_all add: want_def)
  define gone where "gone = filter (\<lambda>c. c \<notin> want) (te_chunks env (pcs_loaded_chunks cs))"
  define reload where "reload = filter (\<lambda>c. c \<in> set (te_chunks env (pcs_loaded_chunks cs))) (te_chunks env want)"
  define new where "new = filter (\<lambda>c. c \<notin> pcs_loaded_chunks cs) (te_chunks env want)"
  let ?arrive = "\<lambda>c. send_chunk_to_session env ?w ?d (cp_x c) (cp_z c)"
  let ?leave = "\<lambda>c. UnloadChunk_ev (cp_x c) (cp_z c)"
  define evs where "evs = SetCenterChunk_ev ?cx ?cz # map ?leave gone @ concat (map (\<lambda>c. ?leave c # ?arrive c) reload)
    @ concat (map ?arrive new)"
  let ?s' = "s\<lparr>ts_chunk_states := (ts_chunk_states s)(i \<mapsto> cs'\<lparr>pcs_loaded_chunks := want\<rparr>)\<rparr>"
  have eq: "resync_player_chunks env i x z s = send_to i evs ?s'"
    by (simp add: resync_player_chunks_def Some d Let_def cs'_def want_def gone_def reload_def new_def evs_def)
  let ?v = "client_of ch (ts_sent s)"
  have v: "shows_world ?w ?d ?v" "cv_chunks ?v \<subseteq> pcs_loaded_chunks cs"
    using view ch d Some by (auto simp: view_but_def nearly_synced_def)
  note left = chunks_leave(1) [OF v(1), of gone]
  have reloads: "\<And>c. c \<in> set reload \<Longrightarrow> in_garden_radius (garden_radius env) c"
    and news: "\<And>c. c \<in> set new \<Longrightarrow> in_garden_radius (garden_radius env) c"
    using want by (auto simp: reload_def new_def lists)
  note reloaded = chunks_reload [OF w garden reloads, of reload ?d, OF _ left]
  note arrived = chunks_arrive [OF w garden news, of new ?d, OF _ conjunct1 [OF reloaded]]
  have chunks: "(cv_chunks ?v - set gone \<union> set reload) \<union> set new = want"
    using v(2) by (auto simp: gone_def reload_def new_def lists)
  show ?thesis unfolding eq
  proof (rule view_one(1))
    show "view_frame env s" "\<And>j. j \<noteq> i \<Longrightarrow> synced s j" using view by (simp_all add: view_but_def)
    show "ts_sent (send_to i evs ?s') = ts_sent s @ map (Pair ch) evs" using ch by (simp add: send_to_some)
    have "shows_world ?w ?d (fold client_event evs ?v)" "cv_chunks (fold client_event evs ?v) = want"
      using arrived reloaded chunks by (simp_all add: evs_def chunks_leave(2))
    then show "synced (send_to i evs ?s') i"
      using ch d by (simp add: synced_def send_to_some fold_client_append)
  qed (use ch in simp_all)
qed

subsection \<open>The handlers keep the clients in step\<close>

lemma finite_senders: "tick_inv env s \<Longrightarrow> finite (dom (ts_senders s))"
  using tick_invD(1,2) [of env s] by (simp add: world_inv_def)

lemma view_stream:
  assumes inv: "tick_inv env s" and view: "view_ok env s" and d: "player_dimension (ts_world s) i = Some d"
  shows "view_ok env (stream_chunks env d i x z s)"
proof (cases "ts_chunk_states s i")
  case None
  with view show ?thesis by (simp add: stream_chunks_def Let_def)
next
  case (Some cs)
  let ?cx = "chunk_x_from_world x" and ?cz = "chunk_z_from_world z"
  let ?center = "cs\<lparr>pcs_center_x := ?cx, pcs_center_z := ?cz\<rparr>"
  obtain new gone cs' where re: "retarget_chunks (te_chunks env) ?center = (new, gone, cs')" by (metis prod_cases3)
  show ?thesis
  proof (cases "pcs_center_x cs = ?cx \<and> pcs_center_z cs = ?cz")
    case True
    then have "stream_chunks env d i x z s = send_to i [] (s\<lparr>ts_chunk_states := (ts_chunk_states s)(i \<mapsto> cs)\<rparr>)"
      by (simp add: stream_chunks_def Let_def Some update_center_def tell_chunks_def)
    moreover have "scene (send_to i [] (s\<lparr>ts_chunk_states := (ts_chunk_states s)(i \<mapsto> cs)\<rparr>)) = scene s"
      using Some by (simp add: scene_def fun_upd_idem send_to_nil)
    ultimately show ?thesis using view_of_scene [OF view] by simp
  next
    case False
    let ?s2 = "send_to i [SetCenterChunk_ev ?cx ?cz] (s\<lparr>ts_chunk_states := (ts_chunk_states s)(i \<mapsto> cs')\<rparr>)"
    have "scene ?s2 = scene (s\<lparr>ts_chunk_states := (ts_chunk_states s)(i \<mapsto> cs')\<rparr>)" by simp
    then have sent: "client_of ch (ts_sent ?s2) = client_of ch (ts_sent s)" for ch
      by (simp add: scene_def fun_eq_iff)
    have "stream_chunks env d i x z s = tell_chunks env d i new gone ?s2"
      using False by (auto simp: stream_chunks_def Let_def Some update_center_def re)
    with retargeted_view [OF inv view Some d re, of ?s2] sent show ?thesis by simp
  qed
qed

lemma view_set_view_distance:
  assumes inv: "tick_inv env s" and view: "view_ok env s"
  shows "view_ok env (handle_set_client_view_distance env i vd s)"
proof (cases "ts_chunk_states s i")
  case None
  with view show ?thesis by (simp add: handle_set_client_view_distance_def Let_def)
next
  case (Some cs)
  then have "i \<in> online s" using tick_invD(4) [OF inv] by blast
  then obtain p where p: "get_player (ts_world s) i = Some p" by (auto simp: get_player_def)
  let ?d = "ph_dimension p"
  have d: "player_dimension (ts_world s) i = Some ?d" "dimension_or_default (ts_world s) i = ?d"
    by (simp_all add: player_dimension_def dimension_or_default_def p)
  let ?vd = "i32_min (i32_max_of vd 0) (pcs_garden_chunk_radius cs)"
  obtain new gone cs' where re: "retarget_chunks (te_chunks env) (cs\<lparr>pcs_view_distance := ?vd\<rparr>) = (new, gone, cs')"
    by (metis prod_cases3)
  let ?s2 = "\<lambda>cs'. s\<lparr>ts_chunk_states := (ts_chunk_states s)(i \<mapsto> cs')\<rparr>"
  show ?thesis
  proof (cases "pcs_view_distance cs = ?vd")
    case True
    then have "handle_set_client_view_distance env i vd s = send_to i [] (?s2 cs)"
      by (simp add: handle_set_client_view_distance_def Some Let_def update_view_distance_def tell_chunks_def)
    moreover have "scene (send_to i [] (?s2 cs)) = scene s"
      using Some by (simp add: scene_def fun_upd_idem send_to_nil)
    ultimately show ?thesis using view_of_scene [OF view] by simp
  next
    case False
    then have "handle_set_client_view_distance env i vd s = tell_chunks env ?d i new gone (?s2 cs')"
      by (simp add: handle_set_client_view_distance_def Some d Let_def update_view_distance_def re)
    with retargeted_view [OF inv view Some d(1) re, of "?s2 cs'"] show ?thesis by simp
  qed
qed

text \<open>A block that is set is told to everyone in its dimension.\<close>

lemma broadcast_client:
  assumes "finite (dom (ts_senders s))" "inj_on (ts_senders s) (dom (ts_senders s))" "ts_senders s j = Some ch"
  shows "client_of ch (ts_sent (broadcast env P ev s)) =
    (if P j then client_event ev (client_of ch (ts_sent s)) else client_of ch (ts_sent s))"
proof -
  let ?f = "\<lambda>eid s. if P eid then send_to eid [ev] s else s"
  have other: "client_of ch (ts_sent (fold ?f ids s')) = client_of ch (ts_sent s')"
    if "ts_senders s' = ts_senders s" "j \<notin> set ids" for ids s'
    using that
  proof (induction ids arbitrary: s')
    case Nil
    then show ?case by simp
  next
    case (Cons a ids)
    have "client_of ch (ts_sent (?f a s')) = client_of ch (ts_sent s')"
      using Cons.prems assms(2,3)
      by (cases "ts_senders s a") (auto simp: send_to_def client_of_snoc inj_on_def dom_def split: option.splits)
    with Cons show ?case by simp
  qed
  let ?ids = "te_ids env SessionIds (dom (ts_senders s))"
  have "j \<in> set ?ids" and dist: "distinct ?ids" using ids_order [OF assms(1), of SessionIds] assms(3) by auto
  then obtain xs ys where split: "?ids = xs @ j # ys" by (meson split_list)
  with dist have ids: "?ids = xs @ j # ys" "j \<notin> set xs" "j \<notin> set ys" by auto
  have senders: "ts_senders (fold ?f xs s) = ts_senders s"
    by (rule sent_fields(4) [OF fold_sent]) (use send_to_sent in \<open>auto intro: exI [where x = "[]"]\<close>)
  show ?thesis using assms(3) other [of "?f j (fold ?f xs s)" ys] other [of s xs] ids(2,3)
    by (simp add: broadcast_def ids(1) senders client_of_snoc send_to_some)
qed

lemma view_put_block:
  assumes inv: "tick_inv env s" and view: "view_ok env s"
    and s2: "ts_world s2 = put_block d p b (ts_world s)" "ts_senders s2 = ts_senders s"
      "ts_chunk_states s2 = ts_chunk_states s" "\<And>ch. client_of ch (ts_sent s2) = client_of ch (ts_sent s)"
  shows "view_ok env (broadcast_block_update env d p b s2)"
proof -
  let ?s' = "broadcast_block_update env d p b s2"
  have dims: "player_dimension (put_block d p b (ts_world s)) = player_dimension (ts_world s)"
    by (rule ext) (simp add: player_dimension_def get_player_def put_block_def split: prod.splits)
  have "view_frame env ?s'"
    using view by (cases p) (simp add: view_ok_def view_frame_def broadcast_block_update_def s2 put_block_def garden_of_others)
  moreover have "synced ?s' j" for j
    unfolding synced_def
  proof (intro allI impI)
    fix ch e cs assume j: "ts_senders ?s' j = Some ch" "player_dimension (ts_world ?s') j = Some e" "ts_chunk_states ?s' j = Some cs"
    then have old: "ts_senders s2 j = Some ch" "player_dimension (ts_world s) j = Some e" "ts_chunk_states s j = Some cs"
      by (simp_all add: broadcast_block_update_def s2 dims)
    have v: "shows_world (ts_world s) e (client_of ch (ts_sent s))" "cv_chunks (client_of ch (ts_sent s)) = pcs_loaded_chunks cs"
      using view old by (auto simp: view_ok_def synced_def s2)
    have "finite (dom (ts_senders s2))" "inj_on (ts_senders s2) (dom (ts_senders s2))"
      using finite_senders [OF inv] view by (simp_all add: s2 view_ok_def view_frame_def)
    from broadcast_client [OF this old(1), of "\<lambda>eid. player_dimension (ts_world s2) eid = Some d" "BlockUpdate_ev p b"]
    have "client_of ch (ts_sent ?s') = (if e = d then client_event (BlockUpdate_ev p b) (client_of ch (ts_sent s))
        else client_of ch (ts_sent s))"
      by (simp add: broadcast_block_update_def s2 dims old)
    with v show "shows_world (ts_world ?s') e (client_of ch (ts_sent ?s'))
        \<and> cv_chunks (client_of ch (ts_sent ?s')) = pcs_loaded_chunks cs"
      by (auto simp: shows_world_def broadcast_block_update_def s2 blocks.refines_update simp del: split_paired_All)
  qed
  ultimately show ?thesis by (simp add: view_ok_def)
qed

text \<open>Taking a player to another dimension, and its respawn.\<close>

lemma respawned_view:
  assumes view: "view_ok env s" and ch: "ts_senders s i = Some ch" and d: "player_dimension (ts_world s) i = Some e"
    and s2: "ts_senders s2 = ts_senders s" "ts_chunk_states s2 = ts_chunk_states s"
      "\<And>j. player_dimension (ts_world s2) j = (if j = i then Some dest else player_dimension (ts_world s) j)"
      "block_at (ts_world s2) = block_at (ts_world s)"
      "contains_block (w_garden (ts_world s2)) = contains_block (w_garden (ts_world s))"
      "ts_sent s2 = ts_sent s @ map (Pair ch) (RespawnPlayer_ev r # rest)"
    and r: "rsp_dimension_name r = dimension_protocol_name dest" and rest: "list_all neutral rest"
  shows "view_but env i s2"
proof (rule view_one(2) [where s = s and evs = "RespawnPlayer_ev r # rest", OF _ ch])
  show "view_frame env s" "\<And>j. j \<noteq> i \<Longrightarrow> synced s j" using view by (simp_all add: view_ok_def)
  show "ts_sent s2 = ts_sent s @ map (Pair ch) (RespawnPlayer_ev r # rest)" by (rule s2(6))
  have v: "synced s i" using view by (simp add: view_ok_def)
  have "dimension_parse_protocol (rsp_dimension_name r) = Some dest" using dimension_names r by simp
  then have c: "client_of ch (ts_sent s2) = (let v = client_of ch (ts_sent s) in
      if dest = cv_dimension v then v else v\<lparr>cv_dimension := dest, cv_chunks := {}\<rparr>)"
    by (simp add: s2(6) fold_client_append neutral_events [OF rest] Let_def del: list.map)
  show "nearly_synced s2 i"
    using v ch d by (auto simp: nearly_synced_def synced_def s2(1-5) c Let_def shows_world_def simp del: split_paired_All)
qed (simp_all add: s2(1-5))

lemma view_transfer:
  assumes inv: "tick_inv env s" and view: "view_ok env s"
  shows "view_ok env (transfer_player_dimension env i dest s)"
proof -
  consider (stay) "dimension_set_contains (w_enabled_dimensions (ts_world s)) dest \<longrightarrow>
        (\<forall>p. get_player (ts_world s) i = Some p \<longrightarrow> ph_dimension p = dest)"
    | (go) p where "dimension_set_contains (w_enabled_dimensions (ts_world s)) dest" "get_player (ts_world s) i = Some p"
        "ph_dimension p \<noteq> dest"
    by blast
  then show ?thesis
  proof cases
    case stay
    then have "transfer_player_dimension env i dest s = s"
      by (cases "get_player (ts_world s) i") (simp_all add: transfer_player_dimension_def)
    with view show ?thesis by simp
  next
    case go
    obtain x y z where arrive: "arrival_position (ts_world s) = (x, y, z)" by (metis prod_cases3)
    let ?f = "\<lambda>p. set_position x y z (p\<lparr>ph_dimension := dest\<rparr>)"
    let ?s1 = "close_open_window i True s"
    let ?s2 = "(map_world (update_player i ?f) ?s1)"
    let ?s3 = "?s2\<lparr>ts_portal_cooldowns := (ts_portal_cooldowns ?s2)(i \<mapsto> PORTAL_COOLDOWN_TICKS)\<rparr>"
    define r where "r = \<lparr>rsp_dimension_type = dimension_protocol_name dest, rsp_dimension_name = dimension_protocol_name dest,
      rsp_hashed_seed = 0, rsp_gamemode = ph_gamemode p, rsp_previous_gamemode = - 1, rsp_is_debug = False,
      rsp_is_flat = True, rsp_has_death_location = False, rsp_death_dimension_name = [], rsp_death_location = (0, 0, 0),
      rsp_portal_cooldown = ucast PORTAL_COOLDOWN_TICKS, rsp_data_kept = 0, rsp_x = x, rsp_y = y, rsp_z = z,
      rsp_defer_position_sync = True\<rparr>"
    let ?s4 = "send_to i [RespawnPlayer_ev r, SystemChat_ev (warped_message dest)] ?s3"
    have inv1: "tick_inv env ?s1" using inv by (rule inv_close_window)
    have inv4: "tick_inv env ?s4"
      using inv1 go(2) by (auto intro!: inv_cooldown inv_update_player simp: update_player_def get_player_def set_position_def)
    have view1: "view_ok env ?s1" using view scene_close_window by (rule view_of_scene)
    obtain ch where ch: "ts_senders s i = Some ch"
      using go(2) tick_invD(2) [OF inv] by (metis domD domI get_player_def)
    have "view_but env i ?s4"
    proof (rule respawned_view [where s = ?s1 and ch = ch and r = r and dest = dest and e = "ph_dimension p"])
      show "player_dimension (ts_world ?s4) j = (if j = i then Some dest else player_dimension (ts_world ?s1) j)" for j
        using go(2) by (simp add: player_dimension_def get_player_def update_player_def)
      show "block_at (ts_world ?s4) = block_at (ts_world ?s1)"
        using block_at_eqI [of "update_player i ?f (ts_world s)" "ts_world s"] by (simp add: layers_of_others garden_of_others)
      show "ts_sent ?s4 = ts_sent ?s1 @ map (Pair ch) (RespawnPlayer_ev r # [SystemChat_ev (warped_message dest)])"
        using ch by (simp add: send_to_def)
    qed (use go ch view1 in \<open>simp_all add: garden_of_others r_def player_dimension_def\<close>)
    then have "view_ok env (resync_player_chunks env i x z ?s4)" by (rule resync_view [OF inv4])
    then have view5: "view_ok env (send_to i [SynchronizePosition_ev x y z] (resync_player_chunks env i x z ?s4))"
      by (rule view_of_scene) simp
    have "transfer_player_dimension env i dest s =
        sync_mobs_for_player i dest (send_to i [SynchronizePosition_ev x y z] (resync_player_chunks env i x z ?s4))"
      using go arrive by (simp add: transfer_player_dimension_def Let_def r_def)
    then show ?thesis using view_of_scene [OF view5 scene_sync_mobs] by simp
  qed
qed

lemma view_position_update:
  assumes inv: "tick_inv env s" and view: "view_ok env s"
  shows "view_ok env (handle_player_position_update env i rx ry rz yaw pitch s)"
proof (cases "get_player (ts_world s) i")
  case None
  with view show ?thesis by (simp add: handle_player_position_update_def)
next
  case (Some p)
  let ?d = "ph_dimension p"
  obtain ox oy oz where old: "handle_position p = (ox, oy, oz)" by (metis prod_cases3)
  obtain x y z corrected ground where res: "resolve_position env (ts_world s) p rx ry rz = (x, y, z, corrected, ground)"
    by (metis prod_cases5)
  obtain oyaw opitch where rot: "handle_rotation p = (oyaw, opitch)" by fastforce
  let ?moved = "moved x ox \<or> moved y oy \<or> moved z oz"
  define s1 where "s1 = map_world (update_player i (\<lambda>p. set_rotation yaw pitch (set_position x y z p))) s"
  define s2 where "s2 = (if corrected then send_to i [SynchronizePosition_ev x y z] s1 else s1)"
  define s3 where "s3 = (if ?moved \<or> rotated yaw oyaw \<or> rotated pitch opitch
    then broadcast env (\<lambda>eid. eid \<noteq> i \<and> player_dimension (ts_world s2) eid = Some ?d)
      (EntityMovement_ev \<lparr>em_entity_id = i, em_old_x = ox, em_old_y = oy, em_old_z = oz,
        em_new_x = x, em_new_y = y, em_new_z = z, em_new_yaw = yaw, em_new_pitch = pitch, em_on_ground = ground\<rparr>) s2
    else s2)"
  define s4 where "s4 = stream_chunks env ?d i x z s3"
  have inv3: "tick_inv env s3"
    using inv by (auto simp: s1_def s2_def s3_def intro!: inv_update_player)
  have scene: "scene s3 = scene s" by (simp add: s3_def s2_def s1_def scene_update_player)
  note view3 = view_of_scene [OF view this]
  have "player_dimension (ts_world s3) i = Some ?d" using scene_eqD(3) [OF scene] Some by (simp add: player_dimension_def)
  then have view4: "view_ok env s4" and inv4: "tick_inv env s4"
    using view_stream [OF inv3 view3] inv_stream [OF inv3] by (simp_all add: s4_def)
  have "handle_player_position_update env i rx ry rz yaw pitch s =
    (if \<not> ?moved then s3
     else if (case ts_portal_cooldowns s4 i of None \<Rightarrow> False | Some t \<Rightarrow> 0 < t) then s4
     else case portal_destination ?d (block_under_feet (ts_world s4) ?d x y z) of None \<Rightarrow> s4
       | Some dest \<Rightarrow> transfer_player_dimension env i dest s4)"
    by (simp only: handle_player_position_update_def Some old res rot option.case prod.case Let_def s1_def [symmetric]
        s2_def [symmetric] s3_def [symmetric] s4_def [symmetric])
  then show ?thesis using view3 view4 view_transfer [OF inv4 view4] by (simp split: option.splits)
qed

lemma view_client_status:
  assumes inv: "tick_inv env s" and view: "view_ok env s"
  shows "view_ok env (handle_client_status env i a s)"
proof -
  consider (stay) "a = 0 \<longrightarrow> (\<forall>inven. ts_inventories s i = Some inven \<longrightarrow> \<not> inv_is_dead inven)"
    | (go) inven where "a = 0" "ts_inventories s i = Some inven" "inv_is_dead inven"
    by blast
  then show ?thesis
  proof cases
    case stay
    then have "handle_client_status env i a s = s"
      by (cases "ts_inventories s i") (simp_all add: handle_client_status_def)
    with view show ?thesis by simp
  next
    case go
    then have "i \<in> online s" using tick_invD(3) [OF inv] by blast
    then obtain p ch where p: "get_player (ts_world s) i = Some p" and ch: "ts_senders s i = Some ch"
      using tick_invD(2) [OF inv] by (metis domD domI get_player_def)
    obtain x y z where spawn: "spawn_point (ts_world s) = (x, y, z)" by (metis prod_cases3)
    let ?inven = "inv_respawn inven"
    let ?s1 = "clear_break_animation i s\<lparr>ts_inventories := (ts_inventories s)(i \<mapsto> ?inven)\<rparr>"
    define r where "r = \<lparr>rsp_dimension_type = dimension_protocol_name (ph_dimension p),
      rsp_dimension_name = dimension_protocol_name (ph_dimension p), rsp_hashed_seed = 0,
      rsp_gamemode = ph_gamemode p, rsp_previous_gamemode = - 1, rsp_is_debug = False, rsp_is_flat = True,
      rsp_has_death_location = False, rsp_death_dimension_name = [], rsp_death_location = (0, 0, 0),
      rsp_portal_cooldown = 0, rsp_data_kept = 0, rsp_x = x, rsp_y = y, rsp_z = z, rsp_defer_position_sync = False\<rparr>"
    define rest where "rest = [SetHealth_ev (inv_health ?inven) (inv_food ?inven) (inv_food_saturation ?inven),
      SetContainerContent_ev 0 (inv_state_id ?inven) (inv_slots ?inven) slot_empty,
      SetHeldItemClientbound_ev (inv_held_slot ?inven)]"
    let ?s2 = "send_to i (RespawnPlayer_ev r # rest) ?s1"
    let ?s3 = "map_world (update_player i (set_position x y z)) ?s2"
    have inv3: "tick_inv env ?s3"
      using go(2) inv tick_invD(8) [OF inv go(2)]
      by (auto intro!: inv_update_player inv_put_inventory inv_clear_break)
    have sent1: "view_ok env ?s1" using view by (rule view_of_scene) simp
    have "view_but env i ?s2"
    proof (rule respawned_view [where s = ?s1 and ch = ch and r = r and rest = rest and dest = "ph_dimension p" and e = "ph_dimension p"])
      show "player_dimension (ts_world ?s2) j = (if j = i then Some (ph_dimension p) else player_dimension (ts_world ?s1) j)" for j
        using p by (simp add: player_dimension_def)
      show "ts_sent ?s2 = ts_sent ?s1 @ map (Pair ch) (RespawnPlayer_ev r # rest)" using ch by (simp add: send_to_def)
    qed (use p ch sent1 in \<open>simp_all add: r_def rest_def player_dimension_def\<close>)
    then have "view_but env i ?s3" by (simp only: scene_view(2) [OF scene_update_player] placed_dimension)
    then have "view_ok env (resync_player_chunks env i x z ?s3)" by (rule resync_view [OF inv3])
    note view4 = this
    have "handle_client_status env i a s = sync_mobs_for_player i
        (dimension_or_default (ts_world (resync_player_chunks env i x z ?s3)) i) (resync_player_chunks env i x z ?s3)"
      using go p spawn by (simp add: handle_client_status_def Let_def r_def rest_def)
    then show ?thesis using view_of_scene [OF view4 scene_sync_mobs] by simp
  qed
qed

end

subsection \<open>Blocks, joining and leaving\<close>

lemma close_viewers_world [simp]: "ts_world (close_viewers env d p s) = ts_world s"
proof -
  have "ts_world (fold (\<lambda>i. close_open_window i True) is s) = ts_world s" for "is" s
    by (induction "is" arbitrary: s) simp_all
  then show ?thesis by (simp add: close_viewers_def Let_def)
qed

lemma scene_send_cong: "scene s' = scene s \<Longrightarrow> scene (send_to i es s') = scene (send_to i es s)"
  by (cases "ts_senders s i") (auto simp: scene_def send_to_def client_of_append fun_eq_iff)

lemma fresh_client: "sent_on ch sent = [] \<Longrightarrow> client_of ch sent = client_start"
  by (simp add: client_of_def)

text \<open>What joining comes to, as far as clients are concerned.\<close>

definition join_deltas :: "tick_env \<Rightarrow> world \<Rightarrow> (block_pos \<times> i32) list" where
  "join_deltas env w = concat (map (\<lambda>c. get_client_block_deltas_for_chunk (te_blocks env) w Overworld (cp_x c) (cp_z c))
    (desired_chunks 0 0 INITIAL_CHUNK_RADIUS))"

definition join_tables ::
  "tick_env \<Rightarrow> i32 \<Rightarrow> i32 \<Rightarrow> channel \<Rightarrow> player_handle \<Rightarrow> player_inventory \<Rightarrow> tick_state \<Rightarrow> tick_state" where
  "join_tables env i vd ch p inven s = map_world (add_player p) s\<lparr>ts_senders := (ts_senders s)(i \<mapsto> ch),
     ts_chunk_states := (ts_chunk_states s)(i \<mapsto> chunk_state_new vd (garden_radius env)),
     ts_inventories := (ts_inventories s)(i \<mapsto> inven)\<rparr>"

lemma join_tables_fields [simp]:
  "ts_senders (join_tables env i vd ch p inven s) = (ts_senders s)(i \<mapsto> ch)"
  "ts_chunk_states (join_tables env i vd ch p inven s) = (ts_chunk_states s)(i \<mapsto> chunk_state_new vd (garden_radius env))"
  "ts_world (join_tables env i vd ch p inven s) = add_player p (ts_world s)"
  "ts_sent (join_tables env i vd ch p inven s) = ts_sent s"
  by (simp_all add: join_tables_def)

lemma concat_grid:
  "concat (map f (concat (map (\<lambda>x. map (h x) ys) xs))) = concat (map (\<lambda>x. concat (map (\<lambda>y. f (h x y)) ys)) xs)"
  by (induction xs) (simp_all add: comp_def)

lemma joined_scene:
  "\<exists>p inven. ph_entity_id p = i \<and> ph_dimension p = Overworld \<and>
    scene (handle_player_joined env i u name gm vd ch s) =
    scene (send_to i [ChunkBlockOverrides_ev (join_deltas env (add_player p (ts_world s)))] (join_tables env i vd ch p inven s))"
proof -
  obtain sx sy sz where spawn: "spawn_point (ts_world s) = (sx, sy, sz)" by (metis prod_cases3)
  define saved where "saved = ts_saved_players s u"
  define gm' where "gm' = (case saved of Some d \<Rightarrow> pld_gamemode d | None \<Rightarrow> gm)"
  define p where "p = (case saved of
      Some d \<Rightarrow> let (px, py, pz) = (if f64_lt (pld_y d) VOID_DEATH_Y then clamp_spawn_position (te_garden env) sx sy sz
           else clamp_spawn_position (te_garden env) (pld_x d) (pld_y d) (pld_z d))
         in set_rotation (pld_yaw d) (pld_pitch d) (set_position px py pz (player_handle_new i u name gm'))
    | None \<Rightarrow> let (px, py, pz) = clamp_spawn_position (te_garden env) sx sy sz
         in set_position px py pz (player_handle_new i u name gm'))"
  define inven where "inven = (case saved of Some d \<Rightarrow> restore_inventory d
        (if saved = None \<and> gm' = GAMEMODE_CREATIVE then creative_starter else inventory_new)
      | None \<Rightarrow> (if saved = None \<and> gm' = GAMEMODE_CREATIVE then creative_starter else inventory_new))"
  have p: "ph_entity_id p = i" "ph_dimension p = Overworld"
    by (auto simp: p_def Let_def player_handle_new_def set_position_def set_rotation_def split: option.splits prod.splits)
  let ?T = "join_tables env i vd ch p inven s"
  let ?w = "add_player p (ts_world s)"
  have deltas: "concat (map (\<lambda>cx. concat (map (\<lambda>cz. get_client_block_deltas_for_chunk (te_blocks env) ?w Overworld cx cz)
      (i32_range (- 2) 2))) (i32_range (- 2) 2)) = join_deltas env ?w"
    by (simp add: join_deltas_def desired_chunks_def INITIAL_CHUNK_RADIUS_def concat_grid chunk_pos_new_def)
  define s1 where "s1 = send_to i
           [SetContainerContent_ev 0 (inv_state_id inven) (inv_slots inven) slot_empty,
            SetHealth_ev (inv_health inven) (inv_food inven) (inv_food_saturation inven)] ?T"
  define s2 where "s2 = send_to i (map joined_event (filter (\<lambda>p. ph_entity_id p \<noteq> i \<and> ph_dimension p = Overworld)
               (world_players (te_players env) ?w)))
     (broadcast env (\<lambda>eid. eid \<noteq> i \<and> player_dimension ?w eid = Some Overworld) (joined_event p) s1)"
  have world: "ts_world s1 = ?w" "ts_world s2 = ?w" by (simp_all add: s1_def s2_def)
  have scene2: "scene s2 = scene ?T" by (simp add: s2_def s1_def joined_event_def list_all_iff)
  have "handle_player_joined env i u name gm vd ch s = (let s3 = (if join_deltas env ?w \<noteq> []
      then send_to i [ChunkBlockOverrides_ev (join_deltas env ?w)] s2 else s2); s4 = sync_mobs_for_player i Overworld s3
      in s4\<lparr>ts_events := ts_events s4 @ [PlayerAdded_te i], ts_player_count := ts_player_count s4 + 1\<rparr>)"
    unfolding handle_player_joined_def Let_def spawn prod.case saved_def [symmetric] gm'_def [symmetric]
      p_def [unfolded Let_def, symmetric] inven_def [symmetric]
    using deltas by (simp add: s1_def s2_def join_tables_def)
  then have "scene (handle_player_joined env i u name gm vd ch s) =
      scene (if join_deltas env ?w \<noteq> [] then send_to i [ChunkBlockOverrides_ev (join_deltas env ?w)] s2 else s2)"
    by (simp add: Let_def)
  also have "\<dots> = scene (send_to i [ChunkBlockOverrides_ev (join_deltas env ?w)] s2)"
    by (cases "ts_senders s2 i") (auto simp: scene_def send_to_def client_of_snoc apply_blocks_def fun_eq_iff)
  also have "\<dots> = scene (send_to i [ChunkBlockOverrides_ev (join_deltas env ?w)] ?T)"
    by (rule scene_send_cong) (rule scene2)
  finally show ?thesis using p by blast
qed

text \<open>A session's channel is new: nothing was sent on it, and nobody else has it.\<close>

definition fresh_channel :: "channel \<Rightarrow> tick_state \<Rightarrow> bool" where
  "fresh_channel ch s \<longleftrightarrow> ch \<notin> ran (ts_senders s) \<and> sent_on ch (ts_sent s) = []"

context tick_world
begin

lemma start_chunks:
  "c \<in> set (desired_chunks 0 0 INITIAL_CHUNK_RADIUS) \<Longrightarrow> in_garden_radius (garden_radius env) c"
proof -
  assume "c \<in> set (desired_chunks 0 0 INITIAL_CHUNK_RADIUS)"
  then have near: "\<bar>sint (cp_x c)\<bar> \<le> 2" "\<bar>sint (cp_z c)\<bar> \<le> 2"
    using desired_chunks_square [where r = 2 and cx = 0 and cz = 0] by (simp_all add: INITIAL_CHUNK_RADIUS_def)
  have "4 \<le> sint (garden_radius env)" "sint (- garden_radius env) \<le> - 4"
    by (cases "gs_size (te_garden env)"; simp add: chunk_radius_def)+
  with near show ?thesis unfolding in_garden_radius_def word_sle_eq by linarith
qed

lemma start_chunk_state: "pcs_loaded_chunks (chunk_state_new vd (garden_radius env)) = cv_chunks client_start"
proof -
  have "i32_min INITIAL_CHUNK_RADIUS (garden_radius env) = INITIAL_CHUNK_RADIUS"
    by (cases "gs_size (te_garden env)") (simp_all add: i32_min_def chunk_radius_def INITIAL_CHUNK_RADIUS_def word_sless_alt)
  then show ?thesis using start_chunks by (auto simp: chunk_state_new_def client_start_def)
qed

lemma view_joined:
  assumes inv: "tick_inv env s" and view: "view_ok env s" and fresh: "fresh_channel ch s"
  shows "view_ok env (handle_player_joined env i u name gm vd ch s)"
proof -
  from joined_scene [of i env u name gm vd ch s] obtain p inven where p: "ph_entity_id p = i" "ph_dimension p = Overworld"
    and scene: "scene (handle_player_joined env i u name gm vd ch s) =
      scene (send_to i [ChunkBlockOverrides_ev (join_deltas env (add_player p (ts_world s)))] (join_tables env i vd ch p inven s))"
    (is "_ = scene ?s'") by blast
  let ?w = "add_player p (ts_world s)"
  have w: "world_inv ?w" using inv_add_player [OF tick_invD(1) [OF inv]] .
  have garden: "contains_block (w_garden ?w) = contains_block (te_garden env)"
    using view by (simp add: garden_of_others view_ok_def view_frame_def)
  have blocks: "block_at ?w = block_at (ts_world s)"
    by (rule block_at_eqI) (simp_all add: layers_of_others garden_of_others)
  have dims: "player_dimension ?w j = (if j = i then Some Overworld else player_dimension (ts_world s) j)" for j
    using p by (simp add: player_dimension_def get_player_def add_player_def)
  have sent: "ts_sent ?s' = ts_sent s @ [(ch, ChunkBlockOverrides_ev (join_deltas env ?w))]"
    by (simp add: send_to_def)
  have "view_frame env ?s'"
    using view garden fresh
    by (auto simp: view_ok_def view_frame_def fresh_channel_def inj_on_def ran_def)
  moreover have "synced ?s' i"
  proof -
    have "cv_blocks client_start = flat_block Overworld" by (simp add: client_start_def)
    then have "apply_blocks (join_deltas env ?w) (cv_blocks client_start) q = block_at ?w Overworld q"
      if "chunk_of q \<in> cv_chunks client_start" for q
      using deltas_show [OF w start_chunks, of "desired_chunks 0 0 INITIAL_CHUNK_RADIUS"] that
        over_flat [OF garden start_chunks, of q Overworld]
      by (simp add: join_deltas_def client_start_def)
    then have "shows_world ?w Overworld (client_of ch (ts_sent ?s'))"
        "cv_chunks (client_of ch (ts_sent ?s')) = cv_chunks client_start"
      using fresh by (auto simp: sent client_of_snoc fresh_channel_def fresh_client client_start_def intro!: shows_worldI)
    then show ?thesis by (simp add: synced_def dims start_chunk_state)
  qed
  moreover have "synced ?s' j" if "j \<noteq> i" for j
  proof -
    have "synced s j" using view by (simp add: view_ok_def)
    moreover have "ts_senders s j \<noteq> Some ch" using fresh by (auto simp: fresh_channel_def ran_def)
    ultimately show ?thesis using that
      by (auto simp: synced_def sent client_of_snoc dims blocks shows_world_def)
  qed
  ultimately have "view_ok env ?s'" unfolding view_ok_def by metis
  then show ?thesis using scene by (rule view_of_scene)
qed

lemma view_left:
  assumes view: "view_ok env s"
  shows "view_ok env (handle_player_left env i s)"
proof -
  define s1 where "s1 = (case collect_one_player_data (ts_world s) (ts_inventories s) i of None \<Rightarrow> s
           | Some data \<Rightarrow> (case get_player (ts_world s) i of None \<Rightarrow> s
             | Some player \<Rightarrow> save_cached_players env
                 (s\<lparr>ts_saved_players := (ts_saved_players s)(ph_uuid player \<mapsto> data)\<rparr>)))"
  have "scene s1 = scene s" by (simp add: s1_def split: option.splits)
  note view1 = view_of_scene [OF view this]
  define s2 where "s2 = map_world (\<lambda>w. snd (remove_player i w))
    (s1\<lparr>ts_open_windows := (ts_open_windows s1)(i := None), ts_portal_cooldowns := (ts_portal_cooldowns s1)(i := None)\<rparr>)"
  define s3 where "s3 = s2\<lparr>ts_senders := (ts_senders s2)(i := None), ts_chunk_states := (ts_chunk_states s2)(i := None),
    ts_inventories := (ts_inventories s2)(i := None), ts_break_progress := (ts_break_progress s2)(i := None),
    ts_player_count := ts_player_count s2 - 1\<rparr>"
  define s4 where "s4 = (case map_option ph_uuid (get_player (ts_world s1) i) of None \<Rightarrow> s3
    | Some u \<Rightarrow> broadcast env (\<lambda>_. True) (PlayerLeft_ev i u) s3)"
  have blocks: "block_at (snd (remove_player i (ts_world s1))) = block_at (ts_world s1)"
    by (rule block_at_eqI) (simp_all add: layers_of_others garden_of_others)
  have dims: "player_dimension (snd (remove_player i (ts_world s1))) j = player_dimension (ts_world s1) j" if "j \<noteq> i" for j
    using that by (simp add: player_dimension_def get_player_def remove_player_def)
  have fields: "ts_world s3 = snd (remove_player i (ts_world s1))" "ts_senders s3 = (ts_senders s1)(i := None)"
    "ts_chunk_states s3 = (ts_chunk_states s1)(i := None)" "ts_sent s3 = ts_sent s1"
    by (simp_all add: s3_def s2_def)
  have "view_frame env s3"
    using view1 by (auto simp: view_ok_def view_frame_def garden_of_others inj_on_def fields)
  moreover have "synced s3 j" for j
    using view1 by (cases "j = i") (auto simp: view_ok_def synced_def blocks dims shows_world_def fields)
  ultimately have "view_ok env s3" by (simp add: view_ok_def)
  moreover have "handle_player_left env i s = s4\<lparr>ts_events := ts_events s4 @ [PlayerRemoved_te i]\<rparr>"
    unfolding handle_player_left_def Let_def s1_def [symmetric] s2_def [symmetric] s3_def [symmetric] s4_def [symmetric] ..
  then have "scene (handle_player_left env i s) = scene s3" by (simp add: s4_def split: option.splits)
  ultimately show ?thesis by (rule view_of_scene)
qed

lemma view_handle_set_block:
  assumes inv: "tick_inv env s" and view: "view_ok env s"
  shows "view_ok env (handle_set_block env i p b s)"
proof -
  define d where "d = (case Option.bind i (player_dimension (ts_world s)) of Some d \<Rightarrow> d | None \<Rightarrow> Overworld)"
  define s1 where "s1 = (if b = 0
      then close_viewers env d p (map_containers (store_remove (container_key d p)) s)
      else if is_chest b then map_containers (ensure_seeded (container_key d p)) s else s)"
  have scene1: "scene s1 = scene s" and world1: "ts_world s1 = ts_world s" by (simp_all add: s1_def)
  have "handle_set_block env i p b s = broadcast_block_update env d p b (map_world (put_block d p b) s1)"
    by (simp add: handle_set_block_def Let_def d_def [symmetric] s1_def [symmetric])
  with view_put_block [OF inv view, of "map_world (put_block d p b) s1" d p b] scene_eqD [OF scene1] world1
  show ?thesis by simp
qed

lemma view_place_block:
  assumes inv: "tick_inv env s" and view: "view_ok env s"
  shows "view_ok env (handle_place_block env i p f s)"
proof -
  have put: "view_ok env (broadcast_block_update env d t b
      (if is_chest b then map_containers g (map_world (put_block d t b) s) else map_world (put_block d t b) s))" for d t b g
    by (rule view_put_block [OF inv view]) simp_all
  have "scene (open_chest_for_player i d p s) = scene s" for d by simp
  note opened = view_of_scene [OF view this]
  show ?thesis unfolding handle_place_block_def Let_def using opened put view by (auto split: option.splits)
qed

lemma scene_quiet_messages:
  "scene (handle_dig_block i a p s) = scene s" "scene (handle_set_creative_slot i sl item s) = scene s"
  "scene (handle_set_held_item i sl s) = scene s" "scene (handle_interact_entity env i t a s) = scene s"
  "scene (handle_click_container i w cs cursor s) = scene s" "scene (handle_close_container i w s) = scene s"
  "scene (handle_shutdown env s) = scene s"
  by (simp_all add: handle_dig_block_def handle_set_creative_slot_def handle_set_held_item_def handle_interact_entity_def
      handle_click_container_def handle_close_container_def handle_shutdown_def Let_def split: option.splits prod.splits)

lemma view_message:
  assumes "tick_inv env s" "view_ok env s"
    and "\<And>i u name gm vd ch. m = PlayerJoined_msg i u name gm vd ch \<Longrightarrow> fresh_channel ch s"
  shows "view_ok env (snd (handle_message env m s))"
proof -
  have chat: "view_ok env (handle_chat_message env i name msg s)" for i name msg
    using view_transfer [OF assms(1,2)] view_of_scene [OF assms(2)] by (simp add: handle_chat_message_def split: option.splits)
  note quiet = view_of_scene [OF assms(2)] scene_quiet_messages
  show ?thesis
    using assms(3) by (cases m) (simp_all add: quiet chat view_joined view_left view_position_update view_handle_set_block
        view_place_block view_set_view_distance view_client_status assms(1,2))
qed

subsection \<open>The periodic tasks keep the clients in step\<close>

lemma scene_contact: "scene (fst (contact_hit m dmg p r)) = scene (fst r)"
  by (cases r) (simp add: contact_hit_def Let_def health_event_def split: option.splits)

lemma scene_contact_hits: "scene (fst (contact_hits m sn r)) = scene (fst r)"
  by (simp add: contact_hits_def Let_def scene_fold_fst scene_contact)

lemma scene_tell_mob: "scene (tell_mob_moved sn m0 m s) = scene s"
  unfolding tell_mob_moved_def by (rule scene_fold) simp

lemma scene_mob_turn: "scene (fst (mob_turn env' sn i r)) = scene (fst r)"
proof (cases r)
  case (Pair s a)
  obtain mv m rng where t: "tick_mob (te_heading env') (te_garden env') (nearest_player env' (ts_mobs s ! i) sn)
      (ts_mobs s ! i) (ts_mob_rng s) = (mv, m, rng)" by (metis prod_cases3)
  let ?s = "s\<lparr>ts_mobs := (ts_mobs s)[i := m], ts_mob_rng := rng\<rparr>"
  let ?s' = "if mv then tell_mob_moved sn (ts_mobs s ! i) m ?s else ?s"
  have moved: "scene ?s' = scene s" by (simp add: scene_tell_mob)
  obtain s2 m2 a2 where hits: "contact_hits m sn (?s', m, a) = (s2, m2, a2)" by (metis prod_cases3)
  have "scene s2 = scene s" using scene_contact_hits [of m sn "(?s', m, a)"] moved by (simp add: hits)
  then show ?thesis by (simp only: mob_turn_def Pair prod.case Let_def t hits fst_conv scene_fields)
qed

lemma scene_announce: "scene (announce_deaths reason ds s) = scene s"
  unfolding announce_deaths_def by (rule scene_fold) simp

lemma scene_mobs: "scene (mobs_task env' s) = scene s"
proof -
  let ?sn = "player_snapshots env' (ts_world s)"
  obtain s1 ds where run: "fold (mob_turn env' ?sn) [0..<length (ts_mobs s)] (s, []) = (s1, ds)" by fastforce
  have "scene s1 = scene s" using scene_fold_fst [where f = "mob_turn env' ?sn" and xs = "[0..<length (ts_mobs s)]" and r = "(s, [])", OF scene_mob_turn]
    by (simp add: run)
  then show ?thesis by (simp add: mobs_task_def run scene_announce)
qed

lemma scene_for_living: "(\<And>i inven s. scene (f i inven s) = scene s) \<Longrightarrow> scene (for_living env' f s) = scene s"
  unfolding for_living_def by (rule scene_fold) (simp split: option.splits)

lemma scene_void: "scene (void_task env' s) = scene s"
  unfolding void_task_def
  by (rule scene_for_living) (simp add: void_death_def Let_def health_event_def split: option.splits)

lemma scene_lava_hit: "scene (fst (lava_hit i inven s)) = scene s"
  by (simp add: lava_hit_def Let_def health_event_def split: option.splits)

lemma scene_lava: "scene (lava_task env' s) = scene s"
proof -
  let ?f = "\<lambda>eid (s, deaths). case ts_inventories s eid of None \<Rightarrow> (s, deaths)
             | Some inven \<Rightarrow> if inv_is_dead inven then (s, deaths)
               else let (s, died) = lava_hit eid inven s in (s, if died then deaths @ [eid] else deaths)"
  have step: "scene (fst (?f i r)) = scene (fst r)" for i r
  proof (cases r)
    case (Pair s a)
    obtain s' died where "lava_hit i (the (ts_inventories s i)) s = (s', died)" by fastforce
    with scene_lava_hit [of i "the (ts_inventories s i)" s] show ?thesis by (auto simp: Pair split: option.splits)
  qed
  obtain s' ds where run: "fold ?f (te_ids env' InventoryIds (dom (ts_inventories s))) (s, []) = (s', ds)" by fastforce
  have "scene s' = scene s"
    using scene_fold_fst [where f = ?f and xs = "te_ids env' InventoryIds (dom (ts_inventories s))" and r = "(s, [])", OF step] by (simp add: run)
  then show ?thesis by (simp add: lava_task_def run scene_announce)
qed

lemma scene_food: "scene (food_task env' s) = scene s"
proof -
  have "scene (food_tick i inven s) = scene s" for i inven s
    by (simp add: food_tick_def Let_def health_event_def split: prod.splits)
  then show ?thesis by (simp add: food_task_def scene_for_living)
qed

lemma scene_other_tasks:
  "scene (keep_alive_task env' s) = scene s" "scene (cooldown_task s) = scene s" "scene (autosave_task env' s) = scene s"
  by (simp_all add: keep_alive_task_def cooldown_task_def autosave_task_def Let_def)

lemma scene_advance: "scene (fst (advance_break i r)) = scene (fst r)"
  by (cases r) (simp add: advance_break_def Let_def split: option.splits)

lemma view_complete_break:
  assumes inv: "tick_inv env s" and view: "view_ok env s"
  shows "view_ok env (complete_break env c s)"
proof -
  obtain i p where c: "c = (i, p)" by (meson surj_pair)
  define s1 where "s1 = s\<lparr>ts_break_progress := (ts_break_progress s)(i := None)\<rparr>"
  define d where "d = dimension_or_default (ts_world s) i"
  define s2 where "s2 = close_viewers env d p (map_containers (store_remove (container_key d p)) s1)"
  have scene2: "scene s2 = scene s" and world2: "ts_world s2 = ts_world s" by (simp_all add: s1_def s2_def)
  have "complete_break env c s = broadcast_block_update env d p 0 (map_world (put_block d p 0) s2)"
    by (simp add: c complete_break_def Let_def s1_def d_def s2_def)
  with view_put_block [OF inv view, of "map_world (put_block d p 0) s2" d p 0] scene_eqD [OF scene2] world2
  show ?thesis by simp
qed

lemma view_breaks:
  assumes inv: "tick_inv env s" and view: "view_ok env s"
  shows "view_ok env (breaks_task env s)"
proof -
  obtain s1 completed where run: "fold advance_break (te_ids env BreakIds (dom (ts_break_progress s))) (s, []) = (s1, completed)"
    by fastforce
  have "scene s1 = scene s"
    using scene_fold_fst [where f = advance_break and xs = "te_ids env BreakIds (dom (ts_break_progress s))" and r = "(s, [])",
        OF scene_advance] by (simp add: run)
  note view1 = view_of_scene [OF view this]
  have inv1: "tick_inv env s1"
    using inv_fold_fst [of env advance_break "(s, [])", OF inv_advance_break] inv by (metis fst_conv run)
  have "tick_inv env (fold (complete_break env) cs s') \<and> view_ok env (fold (complete_break env) cs s')"
    if "tick_inv env s'" "view_ok env s'" for cs s'
    using that by (induction cs arbitrary: s') (simp_all add: inv_complete_break view_complete_break)
  with inv1 view1 show ?thesis by (simp add: breaks_task_def run)
qed

lemma view_periodic:
  assumes inv: "tick_inv env s" and view: "view_ok env s"
  shows "view_ok env (periodic_tasks env s)"
proof -
  define s1 where "s1 = food_task env (cooldown_task (lava_task env (void_task env (keep_alive_task env (mobs_task env s)))))"
  have "scene s1 = scene s"
    by (simp add: s1_def scene_food scene_other_tasks scene_lava scene_void scene_mobs)
  note view1 = view_of_scene [OF view this]
  have "tick_inv env s1" unfolding s1_def
    by (intro inv_food inv_cooldown_task inv_lava inv_void inv_keep_alive inv_mobs_task inv)
  from view_breaks [OF this view1] have "view_ok env (breaks_task env s1)" .
  then show ?thesis unfolding periodic_tasks_def s1_def [symmetric]
    by (rule view_of_scene) (rule scene_other_tasks)
qed

lemma view_start: "view_ok env (tick_start env rd fs count)"
proof -
  have "contains_block (w_garden (load_world rd fs level g packs)) = contains_block g" for level g packs
    unfolding load_world_def Let_def
    by (rule fold_preserves [where P = "\<lambda>w. contains_block (w_garden w) = contains_block g"])
      (auto simp: garden_of_others set_enabled_dimensions_def with_garden_def contains_block_dimensions split: option.splits)
  then show ?thesis
    by (simp add: tick_start_def Let_def view_ok_def view_frame_def synced_def split: prod.splits)
qed

end

subsection \<open>Steps of the loop\<close>

text \<open>
  What the loop does is a sequence of messages and rounds of tasks; a session that joins brings a
  channel of its own.
\<close>

definition joins_fresh :: "tick_message \<Rightarrow> tick_state \<Rightarrow> bool" where
  "joins_fresh m s \<longleftrightarrow> (case m of PlayerJoined_msg _ _ _ _ _ ch \<Rightarrow> fresh_channel ch s | _ \<Rightarrow> True)"

inductive tick_step :: "tick_env \<Rightarrow> tick_state \<Rightarrow> tick_state \<Rightarrow> bool" for env where
  message: "joins_fresh m s \<Longrightarrow> handle_message env m s = (stop, s') \<Longrightarrow> tick_step env s s'"
| tasks: "tick_step env s (periodic_tasks env s)"
| count: "tick_step env s (s\<lparr>ts_tick_count := ts_tick_count s + 1\<rparr>)"

inductive_cases tick_stepE: "tick_step env s s'"

text \<open>A round of the loop is such a sequence, when each join in it brings a new channel.\<close>

fun joins_fresh_all :: "tick_env \<Rightarrow> tick_message list \<Rightarrow> tick_state \<Rightarrow> bool" where
  "joins_fresh_all env [] s = True"
| "joins_fresh_all env (m # ms) s \<longleftrightarrow> joins_fresh m s \<and> joins_fresh_all env ms (snd (handle_message env m s))"

lemma drain_steps: "joins_fresh_all env ms s \<Longrightarrow> (tick_step env)\<^sup>*\<^sup>* s (snd (drain_messages env ms s))"
proof (induction ms arbitrary: s)
  case Nil
  then show ?case by simp
next
  case (Cons m ms)
  obtain stop s' where m: "handle_message env m s = (stop, s')" by fastforce
  then have "tick_step env s s'" using Cons.prems by (auto intro: tick_step.message)
  moreover have "(tick_step env)\<^sup>*\<^sup>* s' (snd (drain_messages env ms s'))" using Cons by (simp add: m)
  ultimately show ?case by (auto simp: m intro: converse_rtranclp_into_rtranclp)
qed

lemma round_steps:
  assumes "joins_fresh_all env (interleave (fst msgs) (snd ms) (snd msgs)) s"
  shows "(tick_step env)\<^sup>*\<^sup>* s (fst (snd (tick_round env mods msgs (s, ms))))"
proof -
  obtain stop s' where drain: "drain_messages env (interleave (fst msgs) (snd ms) (snd msgs)) s = (stop, s')" by fastforce
  have steps: "(tick_step env)\<^sup>*\<^sup>* s s'" using drain_steps [OF assms] by (simp add: drain)
  let ?p = "periodic_tasks env s'"
  have round: "(tick_step env)\<^sup>*\<^sup>* s (?p\<lparr>ts_tick_count := ts_tick_count ?p + 1\<rparr>)"
    using steps tick_step.tasks tick_step.count by (meson rtranclp.rtrancl_into_rtrancl)
  show ?thesis
  proof (cases stop)
    case True
    with steps drain show ?thesis by (cases msgs; cases ms) (simp add: tick_round_def)
  next
    case False
    obtain r q where "tick_all mods (build_player_view env ?p) (ts_tick_count ?p) (fst ms, []) = (r, q)" by (meson surj_pair)
    with round drain False show ?thesis by (cases msgs; cases ms; cases q) (simp add: tick_round_def Let_def)
  qed
qed

context tick_world
begin

lemma step_keeps: "tick_step env s s' \<Longrightarrow> tick_inv env s \<and> view_ok env s \<Longrightarrow> tick_inv env s' \<and> view_ok env s'"
proof (induction rule: tick_step.induct)
  case (message m s stop s')
  then have "view_ok env (snd (handle_message env m s))"
    by (intro view_message) (auto simp: joins_fresh_def)
  with inv_message [of env s m] message show ?case by simp
next
  case (tasks s)
  then show ?case by (simp add: inv_periodic view_periodic)
next
  case (count s)
  then show ?case by (auto intro: view_of_scene)
qed

lemma reached_view: "(tick_step env)\<^sup>*\<^sup>* (tick_start env rd fs c) s \<Longrightarrow> tick_inv env s \<and> view_ok env s"
  by (induction rule: rtranclp_induct) (use inv_start view_start step_keeps in blast)+

end

text \<open>Orders that list by key, over any other environment, satisfy what is assumed.\<close>

definition sorted_env :: "map_size \<Rightarrow> dimension_set \<Rightarrow> tick_env \<Rightarrow> tick_env" where
  "sorted_env preset dims env = env\<lparr>te_garden := garden_from_size preset\<lparr>gs_dimensions := dims\<rparr>,
     te_ids := (\<lambda>_ S. sorted_list_of_set S), te_blocks := sorted_entries, te_chunks := sorted_chunks\<rparr>"

interpretation sorted_world: tick_world "sorted_env preset dims env" for preset dims env
  by (rule tick_world.intro) (auto simp: sorted_env_def sorted.iteration_order_axioms by_key.chunk_order_axioms)

text \<open>
  C9: Every client sees the world. In every state the tick loop reaches from its start, over any files,
  by messages in any order, from players or mods, and by rounds of its tasks, the events sent on the channel of a
  player leave a client that knows only the flat generator in the dimension of the player, with exactly the
  chunks the loop has recorded for it, and every block of those chunks is the server's: no change of
  a block, of the view, of the dimension, no respawn and no portal is missed, doubled or told in a wrong order.
\<close>

theorem client_sees_the_world:
  assumes "tick_world env" "(tick_step env)\<^sup>*\<^sup>* (tick_start env rd fs count) s"
    and "ts_senders s i = Some ch" "get_player (ts_world s) i = Some p" "ts_chunk_states s i = Some cs"
  shows "cv_dimension (client_of ch (ts_sent s)) = ph_dimension p
    \<and> cv_chunks (client_of ch (ts_sent s)) = pcs_loaded_chunks cs
    \<and> (\<forall>q. chunk_of q \<in> pcs_loaded_chunks cs \<longrightarrow>
        cv_blocks (client_of ch (ts_sent s)) q = block_at (ts_world s) (ph_dimension p) q)"
  using tick_world.reached_view [OF assms(1,2)] assms(3-5)
  by (auto simp: view_ok_def synced_def shows_world_def player_dimension_def simp del: split_paired_All)

theorem client_sees_the_world_witness:
  "\<forall>e rd fs u. cv_chunks (client_of 7 (ts_sent (handle_player_joined (sorted_env Small dimension_set_default e) 1 u [] 0 2 7
      (tick_start (sorted_env Small dimension_set_default e) rd fs 0)))) = set (desired_chunks 0 0 2)"
proof (intro allI)
  fix e rd fs u
  let ?env = "sorted_env Small dimension_set_default e"
  let ?start = "tick_start ?env rd fs 0"
  let ?s = "handle_player_joined ?env 1 u [] 0 2 7 ?start"
  obtain p inven where p: "ph_entity_id p = 1" and
    scene: "scene ?s = scene (send_to 1 [ChunkBlockOverrides_ev (join_deltas ?env (add_player p (ts_world ?start)))]
      (join_tables ?env 1 2 7 p inven ?start))"
    using joined_scene by blast
  have tables: "ts_senders ?s 1 = Some 7" "ts_chunk_states ?s 1 = Some (chunk_state_new 2 (garden_radius ?env))"
    "player_dimension (ts_world ?s) 1 = Some (ph_dimension p)"
    using scene_eqD(1-3) [OF scene] p by (simp_all add: player_dimension_def get_player_def add_player_def)
  then obtain q where q: "get_player (ts_world ?s) 1 = Some q" by (auto simp: player_dimension_def)
  have "fresh_channel 7 ?start" by (simp add: fresh_channel_def tick_start_def Let_def split: prod.splits)
  then have "tick_step ?env ?start ?s"
    by (intro tick_step.message [where m = "PlayerJoined_msg 1 u [] 0 2 7" and stop = False]) (simp_all add: joins_fresh_def)
  then have "(tick_step ?env)\<^sup>*\<^sup>* ?start ?s" by (rule r_into_rtranclp)
  from client_sees_the_world [OF sorted_world.tick_world_axioms this tables(1) q tables(2)]
  show "cv_chunks (client_of 7 (ts_sent ?s)) = set (desired_chunks 0 0 2)"
    by (simp add: sorted_world.start_chunk_state client_start_def INITIAL_CHUNK_RADIUS_def)
qed

end
