(* ===== verification/Session_View.thy ===== *)
theory Session_View
  imports Session_Safety Tick_View
begin

section \<open>What a client reads\<close>

text \<open>
  The bytes a session writes, read by a client: frame by frame with the protocol crate's decoders, chunks section
  by section, with or without compression. The client keeps the view of \<open>Tick_View\<close>, so that what it reads can be
  compared with the events the tick loop sent, and through them with the world of the server.
\<close>

subsection \<open>A client on the wire\<close>

text \<open>A column of blocks as the sections describe it; there is nothing above or below.\<close>

definition column_block :: "(i16 \<times> i32 \<times> i32) list \<Rightarrow> i32 \<Rightarrow> i32" where
  "column_block sections y =
    (let column = concat (map (\<lambda>(count, state, biome). replicate 16 state) sections); k = sint y + 64
     in if 0 \<le> k \<and> nat k < length column then column ! nat k else 0)"

definition client_chunk :: "chunk_data \<Rightarrow> client_view \<Rightarrow> client_view" where
  "client_chunk p v =
    (case dec_times NUM_SECTIONS read_section (chd_data p) of
       (Inr sections, []) \<Rightarrow>
       (let pos = chunk_pos_new (chd_chunk_x p) (chd_chunk_z p) in
        v\<lparr>cv_chunks := insert pos (cv_chunks v),
          cv_blocks := (\<lambda>q. if chunk_of q = pos then column_block sections (fst (snd q)) else cv_blocks v q)\<rparr>)
     | _ \<Rightarrow> v)"

definition client_respawn :: "rstring \<Rightarrow> client_view \<Rightarrow> client_view" where
  "client_respawn name v =
    (case dimension_parse_protocol name of None \<Rightarrow> v
     | Some d \<Rightarrow> if d = cv_dimension v then v else v\<lparr>cv_dimension := d, cv_chunks := {}\<rparr>)"

text \<open>A client that knows four packets; it drops a frame with another id, as it may.\<close>

definition completed :: "(play_error + play_decode_outcome) \<times> bytes \<Rightarrow> play_packet option" where
  "completed r = (case fst r of Inr (PlayComplete p) \<Rightarrow> Some p | _ \<Rightarrow> None)"

definition chunk_of_packet :: "play_packet \<Rightarrow> chunk_data option" where
  "chunk_of_packet p = (case p of ChunkData q \<Rightarrow> Some q | _ \<Rightarrow> None)"

definition unload_of_packet :: "play_packet \<Rightarrow> unload_chunk option" where
  "unload_of_packet p = (case p of UnloadChunk q \<Rightarrow> Some q | _ \<Rightarrow> None)"

definition update_of_packet :: "play_packet \<Rightarrow> block_update option" where
  "update_of_packet p = (case p of BlockUpdate q \<Rightarrow> Some q | _ \<Rightarrow> None)"

definition respawn_of_packet :: "play_packet \<Rightarrow> respawn option" where
  "respawn_of_packet p = (case p of Respawn q \<Rightarrow> Some q | _ \<Rightarrow> None)"

definition client_frame :: "nat \<Rightarrow> nat \<Rightarrow> bytes \<Rightarrow> client_view \<Rightarrow> client_view" where
  "client_frame fuel m frame v =
    (case Option.bind (completed (decode_chunk_data fuel m frame)) chunk_of_packet of Some p \<Rightarrow> client_chunk p v
     | None \<Rightarrow>
    (case Option.bind (completed (decode_unload_chunk m frame)) unload_of_packet of
       Some p \<Rightarrow> v\<lparr>cv_chunks := cv_chunks v - {chunk_pos_new (uc_chunk_x p) (uc_chunk_z p)}\<rparr>
     | None \<Rightarrow>
    (case Option.bind (completed (decode_block_update m frame)) update_of_packet of
       Some p \<Rightarrow> v\<lparr>cv_blocks := (cv_blocks v)(bu_position p := bu_block_state p)\<rparr>
     | None \<Rightarrow>
    (case Option.bind (completed (decode_respawn m frame)) respawn_of_packet of
       Some p \<Rightarrow> client_respawn (rs_dimension_name p) v
     | None \<Rightarrow> v))))"

function client_reads :: "session_env \<Rightarrow> i32 \<Rightarrow> nat \<Rightarrow> bytes \<Rightarrow> client_view \<Rightarrow> client_view" where
  "client_reads env threshold m inp v =
    (case decode_compressed_frame (sx_inflate env) threshold m inp of
       (Inr (CompressedComplete p), rest) \<Rightarrow>
       if length rest < length inp
       then client_reads env threshold m rest
         (case encode_frame (dp_packet_id p) (dp_payload p) m [] of
            (Inr _, frame) \<Rightarrow> client_frame (sx_fuel env) m frame v | _ \<Rightarrow> v)
       else v
     | _ \<Rightarrow> v)"
  by pat_completeness auto

termination
  by (relation "measure (\<lambda>(env, threshold, m, inp, v). length inp)") auto

declare client_reads.simps [simp del]

subsection \<open>What one packet shows\<close>

text \<open>An encoder whose frames a client takes for the change \<open>g\<close>.\<close>

definition displays :: "nat \<Rightarrow> (nat \<Rightarrow> play_error encoder) \<Rightarrow> (client_view \<Rightarrow> client_view) \<Rightarrow> bool" where
  "displays fuel enc g \<longleftrightarrow> (\<forall>m u w. enc m [] = (Inr u, w) \<longrightarrow>
    (\<exists>pid b. w = frame_bytes pid b \<and> var_int_length pid + length b \<le> effective_max_length m)
    \<and> (\<forall>v. client_frame fuel m w v = g v))"

lemma chunk_other:
  assumes "var_int_length pid + length b \<le> effective_max_length m" "pid \<noteq> CHUNK_DATA_PACKET_ID"
  shows "decode_chunk_data fuel m (frame_bytes pid b) = (Inl (play_error.WrongPacketId pid CHUNK_DATA_PACKET_ID), frame_bytes pid b)"
  using decode_frame_bytes [OF assms(1), of "[]"] assms(2)
  by (simp add: decode_chunk_data_def decode_packet_def parse_chunk_data_def)

lemma unload_other:
  assumes "var_int_length pid + length b \<le> effective_max_length m" "pid \<noteq> UNLOAD_CHUNK_PACKET_ID"
  shows "decode_unload_chunk m (frame_bytes pid b) = (Inl (play_error.WrongPacketId pid UNLOAD_CHUNK_PACKET_ID), frame_bytes pid b)"
  using decode_frame_bytes [OF assms(1), of "[]"] assms(2)
  by (simp add: decode_unload_chunk_def decode_packet_def parse_unload_chunk_def)

lemma update_other:
  assumes "var_int_length pid + length b \<le> effective_max_length m" "pid \<noteq> BLOCK_UPDATE_PACKET_ID"
  shows "decode_block_update m (frame_bytes pid b) = (Inl (play_error.WrongPacketId pid BLOCK_UPDATE_PACKET_ID), frame_bytes pid b)"
  using decode_frame_bytes [OF assms(1), of "[]"] assms(2)
  by (simp add: decode_block_update_def decode_packet_def parse_fields_def)

lemma respawn_other:
  assumes "var_int_length pid + length b \<le> effective_max_length m" "pid \<noteq> RESPAWN_PACKET_ID"
  shows "decode_respawn m (frame_bytes pid b) = (Inl (play_error.WrongPacketId pid RESPAWN_PACKET_ID), frame_bytes pid b)"
  using decode_frame_bytes [OF assms(1), of "[]"] assms(2)
  by (simp add: decode_respawn_def decode_packet_def parse_fields_def)

lemmas view_ids = CHUNK_DATA_PACKET_ID_def UNLOAD_CHUNK_PACKET_ID_def BLOCK_UPDATE_PACKET_ID_def RESPAWN_PACKET_ID_def

lemma displays_nothing:
  assumes "\<And>m. enc m = encode_play_frame pid body m"
    and "pid \<noteq> CHUNK_DATA_PACKET_ID" "pid \<noteq> UNLOAD_CHUNK_PACKET_ID" "pid \<noteq> BLOCK_UPDATE_PACKET_ID" "pid \<noteq> RESPAWN_PACKET_ID"
  shows "displays fuel enc id"
  using assms
  by (auto simp: displays_def encode_packet_Inr client_frame_def completed_def chunk_other unload_other update_other respawn_other)

lemma view_ids_distinct [simp]:
  "BLOCK_UPDATE_PACKET_ID \<noteq> CHUNK_DATA_PACKET_ID" "BLOCK_UPDATE_PACKET_ID \<noteq> UNLOAD_CHUNK_PACKET_ID"
  "UNLOAD_CHUNK_PACKET_ID \<noteq> CHUNK_DATA_PACKET_ID" "RESPAWN_PACKET_ID \<noteq> CHUNK_DATA_PACKET_ID"
  "RESPAWN_PACKET_ID \<noteq> UNLOAD_CHUNK_PACKET_ID" "RESPAWN_PACKET_ID \<noteq> BLOCK_UPDATE_PACKET_ID"
  by (simp_all add: view_ids)

lemma encoded_frame:
  assumes "enc m [] = (Inr u, w)" "\<And>m. enc m = encode_play_frame pid body m"
  shows "\<exists>b. w = frame_bytes pid b \<and> var_int_length pid + length b \<le> effective_max_length m"
  using assms by (auto simp: encode_packet_Inr)

lemma displays_update:
  assumes "in_position_range (bu_position p)"
  shows "displays fuel (encode_block_update p) (\<lambda>v. v\<lparr>cv_blocks := (cv_blocks v)(bu_position p := bu_block_state p)\<rparr>)"
  unfolding displays_def
proof (intro allI impI)
  fix m u w assume enc: "encode_block_update p m [] = (Inr u, w)"
  from encoded_frame [OF enc encode_block_update_def] obtain b where
    b: "w = frame_bytes BLOCK_UPDATE_PACKET_ID b" "var_int_length BLOCK_UPDATE_PACKET_ID + length b \<le> effective_max_length m" by blast
  have "decode_block_update m w = (Inr (PlayComplete (BlockUpdate p)), [])"
    using block_update.roundtrip [OF assms enc, of "[]"] by simp
  then show "(\<exists>pid b. w = frame_bytes pid b \<and> var_int_length pid + length b \<le> effective_max_length m) \<and>
      (\<forall>v. client_frame fuel m w v = v\<lparr>cv_blocks := (cv_blocks v)(bu_position p := bu_block_state p)\<rparr>)"
    using b by (auto simp: client_frame_def completed_def update_of_packet_def chunk_other [OF b(2)] unload_other [OF b(2)])
qed

lemma displays_unload:
  "displays fuel (encode_unload_chunk p) (\<lambda>v. v\<lparr>cv_chunks := cv_chunks v - {chunk_pos_new (uc_chunk_x p) (uc_chunk_z p)}\<rparr>)"
  unfolding displays_def
proof (intro allI impI)
  fix m u w assume enc: "encode_unload_chunk p m [] = (Inr u, w)"
  from encoded_frame [OF enc encode_unload_chunk_def] obtain b where
    b: "w = frame_bytes UNLOAD_CHUNK_PACKET_ID b" "var_int_length UNLOAD_CHUNK_PACKET_ID + length b \<le> effective_max_length m" by blast
  have "decode_unload_chunk m w = (Inr (PlayComplete (UnloadChunk p)), [])"
    using unload_chunk.roundtrip [OF TrueI enc, of "[]"] by simp
  then show "(\<exists>pid b. w = frame_bytes pid b \<and> var_int_length pid + length b \<le> effective_max_length m) \<and>
      (\<forall>v. client_frame fuel m w v = v\<lparr>cv_chunks := cv_chunks v - {chunk_pos_new (uc_chunk_x p) (uc_chunk_z p)}\<rparr>)"
    using b by (auto simp: client_frame_def completed_def unload_of_packet_def chunk_other [OF b(2)])
qed

lemma displays_respawn:
  assumes "respawn_ok p"
  shows "displays fuel (encode_respawn p) (client_respawn (rs_dimension_name p))"
  unfolding displays_def
proof (intro allI impI)
  fix m u w assume enc: "encode_respawn p m [] = (Inr u, w)"
  from encoded_frame [OF enc encode_respawn_def] obtain b where
    b: "w = frame_bytes RESPAWN_PACKET_ID b" "var_int_length RESPAWN_PACKET_ID + length b \<le> effective_max_length m" by blast
  have "decode_respawn m w = (Inr (PlayComplete (Respawn p)), [])"
    using respawn.roundtrip [OF assms enc, of "[]"] by simp
  then show "(\<exists>pid b. w = frame_bytes pid b \<and> var_int_length pid + length b \<le> effective_max_length m) \<and>
      (\<forall>v. client_frame fuel m w v = client_respawn (rs_dimension_name p) v)"
    using b by (auto simp: client_frame_def completed_def respawn_of_packet_def chunk_other [OF b(2)] unload_other [OF b(2)]
        update_other [OF b(2)])
qed

text \<open>The sections of a generated chunk are the flat world.\<close>

lemma plateau_column_block: "column_block (plateau_sections (plateau_block_for d)) y = generated_flat_block d x y z"
proof -
  let ?column = "map (\<lambda>y. generated_flat_block d x (word_of_nat y - 64) z) [0..<384]"
  have column: "concat (map (\<lambda>(c, b, m). replicate 16 b) (plateau_sections (plateau_block_for d))) = ?column"
    by (rule plateau_column [symmetric])
  show ?thesis
  proof (cases "0 \<le> sint y + 64 \<and> nat (sint y + 64) < 384")
    case True
    have "word_of_nat (nat (sint y + 64)) - 64 = (word_of_int (sint y + 64) - 64 :: i32)" using True by simp
    also have "\<dots> = y" by simp
    finally have "?column ! nat (sint y + 64) = generated_flat_block d x y z" using True by (simp del: upt_rec_numeral)
    then show ?thesis using True by (simp add: column_block_def column Let_def del: upt_rec_numeral)
  next
    case False
    then show ?thesis
      by (auto simp: column_block_def column Let_def generated_flat_block_def chunk_consts word_sle_eq simp del: upt_rec_numeral)
  qed
qed

lemma client_chunk_generated:
  "client_chunk (build_chunk_data_packet cx cz d) v =
    v\<lparr>cv_chunks := insert (chunk_pos_new cx cz) (cv_chunks v),
      cv_blocks := (\<lambda>q. if chunk_of q = chunk_pos_new cx cz then flat_block d q else cv_blocks v q)\<rparr>"
proof -
  let ?s = "plateau_sections (plateau_block_for d)"
  have "length ?s = NUM_SECTIONS" by (simp add: plateau_sections_def chunk_consts)
  then have read: "dec_times NUM_SECTIONS read_section (chd_data (build_chunk_data_packet cx cz d)) = (Inr ?s, [])"
    using decodesD [OF dec_times_concat [of ?s read_section section_bytes, OF read_section_decodes], of "[]"]
    by (simp add: build_chunk_data_packet_def generate_chunk_def section_data_eq)
  have blocks: "column_block ?s (fst (snd q)) = flat_block d q" for q
    by (cases q) (simp add: flat_block_def plateau_column_block)
  show ?thesis
    by (simp add: client_chunk_def read Let_def) (simp add: build_chunk_data_packet_def generate_chunk_def blocks cong: if_cong)
qed

lemma displays_chunk:
  assumes "638 \<le> fuel"
  shows "displays fuel (encode_chunk_data (build_chunk_data_packet cx cz d))
    (\<lambda>v. v\<lparr>cv_chunks := insert (chunk_pos_new cx cz) (cv_chunks v),
      cv_blocks := (\<lambda>q. if chunk_of q = chunk_pos_new cx cz then flat_block d q else cv_blocks v q)\<rparr>)"
  unfolding displays_def
proof (intro allI impI)
  let ?p = "build_chunk_data_packet cx cz d"
  fix m u w assume enc: "encode_chunk_data ?p m [] = (Inr u, w)"
  from encoded_frame [OF enc encode_chunk_data_def] obtain b where
    b: "w = frame_bytes CHUNK_DATA_PACKET_ID b" "var_int_length CHUNK_DATA_PACKET_ID + length b \<le> effective_max_length m" by blast
  have "nbt_root (chd_heightmaps ?p) \<and> length (chd_heightmaps ?p) \<le> fuel"
    using heightmaps_are_nbt assms by (simp add: build_chunk_data_packet_def generate_chunk_def)
  from chunk_data.roundtrip [OF this enc, of "[]"]
  have "decode_chunk_data fuel m w = (Inr (PlayComplete (ChunkData ?p)), [])" by simp
  then show "(\<exists>pid b. w = frame_bytes pid b \<and> var_int_length pid + length b \<le> effective_max_length m) \<and>
      (\<forall>v. client_frame fuel m w v = v\<lparr>cv_chunks := insert (chunk_pos_new cx cz) (cv_chunks v),
        cv_blocks := (\<lambda>q. if chunk_of q = chunk_pos_new cx cz then flat_block d q else cv_blocks v q)\<rparr>)"
    using b by (auto simp: client_frame_def completed_def chunk_of_packet_def client_chunk_generated)
qed

subsection \<open>What a written packet is read as\<close>

lemma send_wire_reads:
  assumes "zlib_ok env" "send_wire env (frame_bytes pid b) s = (Inr u, t)"
    and fits: "var_int_length pid + length b \<le> effective_max_length (ses_max_frame_length s)"
  shows "\<exists>w. t = s\<lparr>ses_written := ses_written s @ w\<rparr> \<and> w \<noteq> [] \<and> (\<forall>rest.
    decode_compressed_frame (sx_inflate env) (ses_compression_threshold s) (ses_max_frame_length s) (w @ rest) =
      (Inr (CompressedComplete \<lparr>dp_packet_id = pid, dp_payload = b\<rparr>), rest))"
proof (cases "sint (ses_compression_threshold s) < 0")
  case True
  have "frame_bytes pid b \<noteq> []" by (simp add: frame_bytes_def encode_var_int_Nil)
  then show ?thesis using assms(2) True
    by (auto simp: send_wire_def sess_write_def decode_compressed_frame_def decode_frame_bytes [OF fits] split: option.splits
        intro!: exI [of _ "frame_bytes pid b"])
next
  case False
  let ?p = "\<lparr>dp_packet_id = pid, dp_payload = b\<rparr>"
  from assms(2) False decode_frame_bytes [OF fits, of "[]"] obtain v w
    where enc: "encode_compressed_frame (sx_deflate env) (dp_packet_id ?p) (dp_payload ?p) (ses_compression_threshold s)
        (ses_max_frame_length s) [] = (Inr v, w)"
      and t: "sess_write env w s = (Inr u, t)"
    by (auto simp: send_wire_def split: prod.splits sum.splits)
  from compressed.enc_frame [OF compressible_packet [OF assms(1) fits] enc]
  show ?thesis using t by (auto simp: sess_write_def split: option.splits)
qed

lemma send_packet_reads:
  assumes "zlib_ok env" "displays (sx_fuel env) enc g" "send_packet env enc s = (Inr u, t)"
  shows "\<exists>w. t = s\<lparr>ses_written := ses_written s @ w\<rparr> \<and> (\<forall>rest v.
    client_reads env (ses_compression_threshold s) (ses_max_frame_length s) (w @ rest) v =
      client_reads env (ses_compression_threshold s) (ses_max_frame_length s) rest (g v))"
proof -
  from assms(3) obtain u' w0 where enc: "enc (ses_max_frame_length s) [] = (Inr u', w0)"
    and wire: "send_wire env w0 s = (Inr u, t)"
    by (auto simp: send_packet_def split: prod.splits sum.splits)
  from assms(2) enc obtain pid b where b: "w0 = frame_bytes pid b"
    and fits: "var_int_length pid + length b \<le> effective_max_length (ses_max_frame_length s)"
    and g: "\<And>v. client_frame (sx_fuel env) (ses_max_frame_length s) w0 v = g v"
    unfolding displays_def by metis
  from send_wire_reads [OF assms(1) wire [unfolded b] fits] obtain w
    where w: "t = s\<lparr>ses_written := ses_written s @ w\<rparr>" "w \<noteq> []"
      and dec: "\<And>rest. decode_compressed_frame (sx_inflate env) (ses_compression_threshold s) (ses_max_frame_length s) (w @ rest) =
        (Inr (CompressedComplete \<lparr>dp_packet_id = pid, dp_payload = b\<rparr>), rest)" by blast
  have frame: "encode_frame pid b (ses_max_frame_length s) [] = (Inr (), w0)"
    using fits b by (simp add: encode_frame_Inr)
  have "client_reads env (ses_compression_threshold s) (ses_max_frame_length s) (w @ rest) v =
      client_reads env (ses_compression_threshold s) (ses_max_frame_length s) rest (g v)" for rest v
    using w(2) by (subst client_reads.simps) (simp add: dec frame g)
  with w(1) show ?thesis by blast
qed

text \<open>From one state of a session to another it has written what a client reads as \<open>g\<close>, as long as both are in the same dimension.\<close>

definition relays :: "session_env \<Rightarrow> player_session \<Rightarrow> player_session \<Rightarrow> (client_view \<Rightarrow> client_view) \<Rightarrow> bool" where
  "relays env s t g \<longleftrightarrow>
    ses_compression_threshold t = ses_compression_threshold s \<and> ses_max_frame_length t = ses_max_frame_length s
    \<and> (\<exists>w. ses_written t = ses_written s @ w
      \<and> (\<forall>rest v. cv_dimension v = ses_dimension s \<longrightarrow>
          client_reads env (ses_compression_threshold s) (ses_max_frame_length s) (w @ rest) v =
            client_reads env (ses_compression_threshold s) (ses_max_frame_length s) rest (g v)
          \<and> cv_dimension (g v) = ses_dimension t))"

lemma relays_refl [simp]: "relays env s s id" "relays env s s (\<lambda>v. v)"
  by (simp_all add: relays_def)

lemma relays_silent:
  "ses_compression_threshold t = ses_compression_threshold s \<Longrightarrow> ses_max_frame_length t = ses_max_frame_length s \<Longrightarrow>
    ses_written t = ses_written s \<Longrightarrow> ses_dimension t = ses_dimension s \<Longrightarrow> relays env s t id"
  by (simp add: relays_def)

lemma relays_trans:
  assumes "relays env s t g" "relays env t u h"
  shows "relays env s u (h \<circ> g)"
proof -
  from assms obtain w w' where "ses_written t = ses_written s @ w" "ses_written u = ses_written t @ w'"
    and "\<And>rest v. cv_dimension v = ses_dimension s \<Longrightarrow>
        client_reads env (ses_compression_threshold s) (ses_max_frame_length s) (w @ rest) v =
          client_reads env (ses_compression_threshold s) (ses_max_frame_length s) rest (g v) \<and> cv_dimension (g v) = ses_dimension t"
    and "\<And>rest v. cv_dimension v = ses_dimension t \<Longrightarrow>
        client_reads env (ses_compression_threshold s) (ses_max_frame_length s) (w' @ rest) v =
          client_reads env (ses_compression_threshold s) (ses_max_frame_length s) rest (h v) \<and> cv_dimension (h v) = ses_dimension u"
    unfolding relays_def by auto
  then show ?thesis using assms by (auto simp: relays_def intro!: exI [of _ "w @ w'"])
qed

lemma relays_packet:
  assumes "zlib_ok env" "displays (sx_fuel env) enc g" "send_packet env enc s = (Inr u, t)"
    and "\<And>v. cv_dimension v = ses_dimension s \<Longrightarrow> cv_dimension (g v) = ses_dimension s"
  shows "relays env s t g"
  using send_packet_reads [OF assms(1-3)] assms(4) by (auto simp: relays_def)

lemma relays_nothing:
  assumes "zlib_ok env" "send_packet env enc s = (Inr u, t)" "displays (sx_fuel env) enc id"
  shows "relays env s t id"
  by (rule relays_packet [OF assms(1,3,2)]) simp

subsection \<open>Every other packet shows nothing\<close>

lemmas other_encoders = encode_keep_alive_clientbound_def encode_player_info_update_def encode_player_info_remove_def
  encode_spawn_player_def encode_remove_entities_def encode_move_entity_rot_def encode_entity_teleport_def
  encode_move_entity_pos_rot_def encode_set_center_chunk_def encode_combat_death_def encode_set_block_destroy_stage_def
  encode_set_container_content_def encode_set_container_slot_def encode_open_screen_def
  encode_close_container_clientbound_def encode_set_held_item_def encode_system_chat_message_def encode_set_health_def
  encode_synchronize_player_position_def encode_spawn_entity_def encode_acknowledge_block_change_def encode_join_game_def
  encode_plugin_message_clientbound_def encode_change_difficulty_def encode_player_abilities_def encode_entity_event_def
  encode_update_recipes_empty_def encode_update_tags_empty_def encode_set_default_spawn_position_def
  encode_set_render_distance_def encode_set_simulation_distance_def encode_game_event_def

lemmas other_ids = KEEP_ALIVE_CLIENTBOUND_PACKET_ID_def PLAYER_INFO_UPDATE_PACKET_ID_def PLAYER_INFO_REMOVE_PACKET_ID_def
  SPAWN_PLAYER_PACKET_ID_def REMOVE_ENTITIES_PACKET_ID_def MOVE_ENTITY_ROT_PACKET_ID_def ENTITY_TELEPORT_PACKET_ID_def
  MOVE_ENTITY_POS_ROT_PACKET_ID_def SET_CENTER_CHUNK_PACKET_ID_def COMBAT_DEATH_PACKET_ID_def
  SET_BLOCK_DESTROY_STAGE_PACKET_ID_def SET_CONTAINER_CONTENT_PACKET_ID_def SET_CONTAINER_SLOT_PACKET_ID_def
  OPEN_SCREEN_PACKET_ID_def CLOSE_CONTAINER_CLIENTBOUND_PACKET_ID_def SET_HELD_ITEM_PACKET_ID_def
  SYSTEM_CHAT_MESSAGE_PACKET_ID_def SET_HEALTH_PACKET_ID_def SYNCHRONIZE_PLAYER_POSITION_PACKET_ID_def
  SPAWN_ENTITY_PACKET_ID_def ACKNOWLEDGE_BLOCK_CHANGE_PACKET_ID_def JOIN_GAME_PACKET_ID_def
  PLUGIN_MESSAGE_CLIENTBOUND_PACKET_ID_def CHANGE_DIFFICULTY_PACKET_ID_def PLAYER_ABILITIES_PACKET_ID_def
  ENTITY_EVENT_PACKET_ID_def UPDATE_RECIPES_PACKET_ID_def UPDATE_TAGS_PACKET_ID_def SET_DEFAULT_SPAWN_POSITION_PACKET_ID_def
  SET_RENDER_DISTANCE_PACKET_ID_def SET_SIMULATION_DISTANCE_PACKET_ID_def GAME_EVENT_PACKET_ID_def

lemma displays_others:
  "displays fuel (encode_keep_alive_clientbound a1) id" "displays fuel (encode_player_info_update a2) id"
  "displays fuel (encode_player_info_remove a3) id" "displays fuel (encode_spawn_player a4) id"
  "displays fuel (encode_remove_entities a5) id" "displays fuel (encode_move_entity_rot a6) id"
  "displays fuel (encode_entity_teleport a7) id" "displays fuel (encode_move_entity_pos_rot a8) id"
  "displays fuel (encode_set_center_chunk a9) id" "displays fuel (encode_combat_death b1) id"
  "displays fuel (encode_set_block_destroy_stage b2) id" "displays fuel (encode_set_container_content b3) id"
  "displays fuel (encode_set_container_slot b4) id" "displays fuel (encode_open_screen b5) id"
  "displays fuel (encode_close_container_clientbound b6) id" "displays fuel (encode_set_held_item b7) id"
  "displays fuel (encode_system_chat_message b8) id" "displays fuel (encode_set_health b9) id"
  "displays fuel (encode_synchronize_player_position c1) id" "displays fuel (encode_spawn_entity c2) id"
  "displays fuel (encode_acknowledge_block_change c3) id" "displays fuel (encode_join_game c4) id"
  "displays fuel (encode_plugin_message_clientbound c5) id" "displays fuel (encode_change_difficulty c6) id"
  "displays fuel (encode_player_abilities c7) id" "displays fuel (encode_entity_event c8) id"
  "displays fuel encode_update_recipes_empty id" "displays fuel encode_update_tags_empty id"
  "displays fuel (encode_set_default_spawn_position c9) id" "displays fuel (encode_set_render_distance d1) id"
  "displays fuel (encode_set_simulation_distance d2) id" "displays fuel (encode_game_event d3) id"
  by (rule displays_nothing, rule other_encoders; simp add: view_ids other_ids)+

subsection \<open>Events\<close>

text \<open>Events whose packets carry them: block positions within the bits of the wire form, and names that are UTF-8.\<close>

definition event_carried :: "session_event \<Rightarrow> bool" where
  "event_carried ev = (case ev of
      BlockUpdate_ev p _ \<Rightarrow> in_position_range p
    | ChunkBlockOverrides_ev changes \<Rightarrow> list_all (\<lambda>(p, _). in_position_range p) changes
    | RespawnPlayer_ev r \<Rightarrow> utf8_valid (rsp_dimension_type r) \<and> utf8_valid (rsp_dimension_name r)
        \<and> death_location_ok (rsp_has_death_location r) (rsp_death_dimension_name r) (rsp_death_location r)
    | _ \<Rightarrow> True)"

lemma relays_cong:
  assumes "relays env s t g" "\<And>v. cv_dimension v = ses_dimension s \<Longrightarrow> g v = h v"
  shows "relays env s t h"
  using assms unfolding relays_def by metis

lemma relays_id_trans: "relays env s t id \<Longrightarrow> relays env t u g \<Longrightarrow> relays env s u g"
  using relays_trans [of env s t id u g] by simp

lemma relays_updates:
  assumes "zlib_ok env" "list_all (\<lambda>(p, _). in_position_range p) changes"
    and "enc_all (map (\<lambda>(position, b). send_block_update env position b) changes) s = (Inr u, t)"
  shows "relays env s t (\<lambda>v. v\<lparr>cv_blocks := apply_blocks changes (cv_blocks v)\<rparr>)"
  using assms(2,3)
proof (induction changes arbitrary: s)
  case Nil
  then show ?case by (simp add: apply_blocks_def)
next
  case (Cons c changes)
  obtain p b where c: "c = (p, b)" by (cases c)
  from Cons.prems c obtain u' s' where head: "send_block_update env p b s = (Inr u', s')"
    and tail: "enc_all (map (\<lambda>(position, b). send_block_update env position b) changes) s' = (Inr u, t)"
    by (auto simp: st_bind_Inr_iff)
  have "relays env s s' (\<lambda>v. v\<lparr>cv_blocks := (cv_blocks v)(p := b)\<rparr>)"
    using relays_packet [OF assms(1) displays_update head [unfolded send_block_update_def]] Cons.prems(1) c by simp
  from relays_trans [OF this Cons.IH [OF _ tail]] show ?case
    using Cons.prems(1) by (auto simp: c apply_blocks_def comp_def elim: relays_cong)
qed

lemma relays_sync:
  assumes "zlib_ok env" "sync_to env x y z s = (Inr u, t)"
  shows "relays env s t id"
proof -
  let ?s = "s\<lparr>ses_last_x := x, ses_last_y := y, ses_last_z := z, ses_next_teleport_id := ses_next_teleport_id s + 1\<rparr>"
  have "send_packet env (encode_synchronize_player_position
      \<lparr>syn_x = x, syn_y = y, syn_z = z, syn_yaw = 0, syn_pitch = 0, syn_flags = 0x18, syn_teleport_id = ses_next_teleport_id s\<rparr>) ?s = (Inr u, t)"
    using assms(2) by (simp add: sync_to_def st_bind_def take_teleport_id_def)
  from relays_nothing [OF assms(1) this displays_others(19)] have "relays env ?s t id" by simp
  then show ?thesis by (rule relays_id_trans [rotated]) (simp add: relays_silent)
qed

lemma relays_keep_alive:
  assumes "zlib_ok env" "session_keep_alive env now k s = (Inr u, t)"
  shows "relays env s t id"
proof -
  from assms(2) obtain u' s' where "send_packet env (encode_keep_alive_clientbound \<lparr>ka_payload = k\<rparr>) s = (Inr u', s')"
    and t: "t = s'\<lparr>ses_last_keep_alive_payload := k, ses_last_keep_alive_sent := Some now\<rparr>"
    by (auto simp: session_keep_alive_def st_bind_Inr_iff)
  from relays_nothing [OF assms(1) this(1) displays_others(1)] have "relays env s s' id" by simp
  then show ?thesis by (rule relays_id_trans) (simp add: relays_silent t)
qed

lemma relays_two:
  assumes "zlib_ok env" "st_bind (send_packet env a) (\<lambda>_. send_packet env b) s = (Inr u, t)"
    and "displays (sx_fuel env) a id" "displays (sx_fuel env) b id"
  shows "relays env s t id"
proof -
  from assms(2) obtain v s' where "send_packet env a s = (Inr v, s')" "send_packet env b s' = (Inr u, t)"
    by (auto simp: st_bind_Inr_iff)
  then show ?thesis
    using relays_id_trans relays_nothing [OF assms(1) _ assms(3)] relays_nothing [OF assms(1) _ assms(4)] by blast
qed

lemma relays_respawn:
  assumes "zlib_ok env" "event_carried (RespawnPlayer_ev r)" "handle_event env now (RespawnPlayer_ev r) s = (Inr u, t)"
  shows "relays env s t (client_event (RespawnPlayer_ev r))"
proof -
  define s0 where "s0 = (case dimension_parse_protocol (rsp_dimension_name r) of
      Some d \<Rightarrow> s\<lparr>ses_dimension := d\<rparr> | None \<Rightarrow> s)"
  from assms(3) obtain u' s1 where sent: "send_respawn env r s0 = (Inr u', s1)"
    and rest: "(if \<not> rsp_defer_position_sync r then sync_to env (rsp_x r) (rsp_y r) (rsp_z r) else st_ret ()) s1 = (Inr u, t)"
    by (auto simp: st_bind_Inr_iff s0_def)
  have d: "displays (sx_fuel env) (encode_respawn
      \<lparr>rs_dimension_type = rsp_dimension_type r, rs_dimension_name = rsp_dimension_name r, rs_hashed_seed = rsp_hashed_seed r,
       rs_gamemode = rsp_gamemode r, rs_previous_gamemode = rsp_previous_gamemode r, rs_is_debug = rsp_is_debug r,
       rs_is_flat = rsp_is_flat r, rs_has_death_location = rsp_has_death_location r,
       rs_death_dimension_name = rsp_death_dimension_name r, rs_death_location = rsp_death_location r,
       rs_portal_cooldown = rsp_portal_cooldown r, rs_data_kept = rsp_data_kept r\<rparr>) (client_respawn (rsp_dimension_name r))"
    using displays_respawn [of "\<lparr>rs_dimension_type = rsp_dimension_type r, rs_dimension_name = rsp_dimension_name r,
       rs_hashed_seed = rsp_hashed_seed r, rs_gamemode = rsp_gamemode r, rs_previous_gamemode = rsp_previous_gamemode r,
       rs_is_debug = rsp_is_debug r, rs_is_flat = rsp_is_flat r, rs_has_death_location = rsp_has_death_location r,
       rs_death_dimension_name = rsp_death_dimension_name r, rs_death_location = rsp_death_location r,
       rs_portal_cooldown = rsp_portal_cooldown r, rs_data_kept = rsp_data_kept r\<rparr>"] assms(2)
    by (simp add: respawn_ok_def event_carried_def)
  have "cv_dimension (client_respawn (rsp_dimension_name r) v) = ses_dimension s0" if "cv_dimension v = ses_dimension s" for v
    using that by (auto simp: s0_def client_respawn_def split: option.splits)
  moreover have "ses_compression_threshold s0 = ses_compression_threshold s" "ses_max_frame_length s0 = ses_max_frame_length s"
    "ses_written s0 = ses_written s" by (simp_all add: s0_def split: option.splits)
  ultimately have "relays env s s1 (client_respawn (rsp_dimension_name r))"
    using send_packet_reads [OF assms(1) d sent [unfolded send_respawn_def]] by (auto simp: relays_def)
  moreover have "relays env s1 t id"
    using rest relays_sync [OF assms(1)] by (auto split: if_splits)
  ultimately have "relays env s t (id \<circ> client_respawn (rsp_dimension_name r))" by (rule relays_trans)
  then show ?thesis by (rule relays_cong) (simp add: client_respawn_def)
qed

lemma relays_event:
  assumes "zlib_ok env" "638 \<le> sx_fuel env" "event_carried ev" "handle_event env now ev s = (Inr u, t)"
  shows "relays env s t (client_event ev)"
proof -
  note quiet = relays_nothing [OF assms(1)] relays_two [OF assms(1)] relays_sync [OF assms(1)] relays_keep_alive [OF assms(1)]
  have idle: "relays env s t (client_event e)" if "neutral e" "relays env s t id" for e
    using that(2) by (rule relays_cong) (simp add: neutral_event [OF that(1)])
  show ?thesis
  proof (cases ev)
    case (LoadChunk_ev cx cz)
    have "relays env s t (\<lambda>v. v\<lparr>cv_chunks := insert (chunk_pos_new cx cz) (cv_chunks v),
        cv_blocks := (\<lambda>q. if chunk_of q = chunk_pos_new cx cz then flat_block (ses_dimension s) q else cv_blocks v q)\<rparr>)"
      by (rule relays_packet [OF assms(1) displays_chunk [OF assms(2)]])
        (use assms(4) LoadChunk_ev in \<open>simp_all add: send_single_chunk_def\<close>)
    then show ?thesis by (rule relays_cong) (simp add: LoadChunk_ev cong: if_cong)
  next
    case (UnloadChunk_ev cx cz)
    have "relays env s t (\<lambda>v. v\<lparr>cv_chunks := cv_chunks v - {chunk_pos_new (uc_chunk_x \<lparr>uc_chunk_x = cx, uc_chunk_z = cz\<rparr>)
        (uc_chunk_z \<lparr>uc_chunk_x = cx, uc_chunk_z = cz\<rparr>)}\<rparr>)"
      by (rule relays_packet [OF assms(1) displays_unload]) (use assms(4) UnloadChunk_ev in simp_all)
    then show ?thesis by (rule relays_cong) (simp add: UnloadChunk_ev)
  next
    case (BlockUpdate_ev p b)
    have "relays env s t (\<lambda>v. v\<lparr>cv_blocks := (cv_blocks v)(p := b)\<rparr>)"
      using relays_packet [OF assms(1) displays_update [where p = "\<lparr>bu_position = p, bu_block_state = b\<rparr>"]] assms(3,4)
      by (simp add: BlockUpdate_ev send_block_update_def event_carried_def)
    then show ?thesis by (rule relays_cong) (simp add: BlockUpdate_ev)
  next
    case (ChunkBlockOverrides_ev changes)
    then have "relays env s t (\<lambda>v. v\<lparr>cv_blocks := apply_blocks changes (cv_blocks v)\<rparr>)"
      using assms(3,4) by (intro relays_updates [OF assms(1)]) (simp_all add: event_carried_def)
    then show ?thesis by (rule relays_cong) (simp add: ChunkBlockOverrides_ev)
  next
    case (RespawnPlayer_ev r)
    then show ?thesis using relays_respawn [OF assms(1)] assms(3,4) by blast
  next
    case (EntityMovement_ev m)
    then show ?thesis using assms(4)
      by (intro idle) (auto simp: send_entity_movement_def Let_def split: if_splits intro: quiet(1) displays_others)
  next
    case (KeepAlive_ev k)
    then show ?thesis using assms(4) by (intro idle quiet(4)) simp_all
  next
    case (SynchronizePosition_ev x y z)
    then show ?thesis using assms(4) by (intro idle quiet(3)) simp_all
  next
    case (PlayerJoined_ev i u n g x y z)
    then show ?thesis using assms(4)
      by (intro idle quiet(2) [where a = "encode_player_info_update (player_info_add u n g)"])
        (simp_all add: send_player_info_add_def send_spawn_player_def, (rule displays_others)+)
  next
    case (PlayerLeft_ev i u)
    then show ?thesis using assms(4)
      by (intro idle quiet(2)) (simp_all add: send_player_info_remove_def send_remove_entities_def, (rule displays_others)+)
  qed (use assms(4) in \<open>auto simp: send_set_center_chunk_def send_set_container_content_def send_set_container_slot_def
      send_system_chat_def send_set_health_def simp del: client_event.simps intro!: idle intro: quiet(1) displays_others\<close>)
qed

subsection \<open>A whole session\<close>

lemma relays_events:
  assumes "zlib_ok env" "638 \<le> sx_fuel env"
  shows "list_all (\<lambda>(_, ev). event_carried ev) evs \<Longrightarrow> poll_events env evs s = (Inr b, t) \<Longrightarrow>
    relays env s t (fold client_event (map snd evs))"
proof (induction evs arbitrary: s b)
  case Nil
  then show ?case by (simp add: id_def)
next
  case (Cons e evs)
  obtain now ev where e: "e = (now, ev)" by (cases e)
  from Cons.prems(2) obtain u s' b' where ev: "handle_event env now ev s = (Inr u, s')"
    and rest: "poll_events env evs s' = (Inr b', t)" by (auto simp: e st_bind_Inr_iff)
  have "relays env s s' (client_event ev)"
    by (rule relays_event [OF assms _ ev]) (use Cons.prems(1) e in simp)
  from relays_trans [OF this Cons.IH [OF _ rest]] show ?case using Cons.prems(1) by (simp add: e comp_def)
qed

lemma handled_silent:
  "handle_play_packet now packet s = (r, t) \<Longrightarrow> relays env s t id"
  by (rule relays_silent)
    (auto simp: handle_play_packet_def Let_def tell_def split: play_packet.splits if_splits option.splits)

lemma relays_acknowledged:
  assumes "zlib_ok env" "handle_play_packet now packet s = (r, s')" "send_acknowledge_block_change env n s' = (Inr u, t)"
  shows "relays env s t id"
  by (rule relays_id_trans [OF handled_silent [OF assms(2)] relays_nothing [OF assms(1)]])
    (use assms(3) in \<open>simp add: send_acknowledge_block_change_def\<close>, rule displays_others)

lemma relays_take_packet:
  assumes "zlib_ok env" "take_packet env config inp buffer s = Passed t buffer'"
  shows "relays env s t id"
  using assms(2)
  by (auto simp: take_packet_def split: prod.splits sum.splits option.splits read_event.splits list.splits if_splits
      intro: handled_silent relays_acknowledged [OF assms(1)])

abbreviation events_carried :: "pass_input \<Rightarrow> bool" where
  "events_carried inp \<equiv> list_all (\<lambda>(_, ev). event_carried ev) (pas_events inp)"

definition events_of :: "pass_input list \<Rightarrow> session_event list" where
  "events_of inps = concat (map (\<lambda>inp. map snd (pas_events inp)) inps)"

lemma relays_pass:
  assumes "zlib_ok env" "638 \<le> sx_fuel env" "events_carried inp" "play_pass env config inp buffer s = Passed t buffer'"
  shows "relays env s t (fold client_event (map snd (pas_events inp)))"
proof -
  from assms(4) obtain b s' where polled: "poll_events env (pas_events inp) s = (Inr b, s')"
    and taken: "take_packet env config inp buffer s' = Passed t buffer'"
    by (auto simp: play_pass_def split: prod.splits sum.splits if_splits)
  from relays_trans [OF relays_events [OF assms(1-3) polled] relays_take_packet [OF assms(1) taken]]
  show ?thesis by simp
qed

lemma relays_passes:
  assumes "zlib_ok env" "638 \<le> sx_fuel env"
  shows "list_all events_carried inps \<Longrightarrow> play_passes env config inps buffer s = Passed t buffer' \<Longrightarrow>
    relays env s t (fold client_event (events_of inps))"
proof (induction inps arbitrary: buffer s)
  case Nil
  then show ?case by (simp add: events_of_def id_def)
next
  case (Cons inp inps)
  from Cons.prems(2) obtain s' b' where pass: "play_pass env config inp buffer s = Passed s' b'"
    and rest: "play_passes env config inps b' s' = Passed t buffer'" by (auto split: pass_result.splits)
  from relays_trans [OF relays_pass [OF assms _ pass] Cons.IH [OF _ rest]] Cons.prems(1)
  show ?case by (simp add: events_of_def comp_def)
qed

subsection \<open>From the first byte\<close>

lemma relays_quiet_all:
  assumes "zlib_ok env"
  shows "(\<And>e. e \<in> set encs \<Longrightarrow> displays (sx_fuel env) e id) \<Longrightarrow> send_packets env encs s = (Inr u, t) \<Longrightarrow> relays env s t id"
proof (induction encs arbitrary: s)
  case Nil
  then show ?case by (simp add: send_packets_def)
next
  case (Cons e encs)
  from Cons.prems(2) obtain v s' where e: "send_packet env e s = (Inr v, s')" and rest: "send_packets env encs s' = (Inr u, t)"
    by (auto simp: send_packets_def st_bind_Inr_iff)
  have "relays env s s' id" by (rule relays_nothing [OF assms e]) (rule Cons.prems(1), simp)
  then show ?case by (rule relays_id_trans) (rule Cons.IH [OF _ rest], rule Cons.prems(1), simp)
qed

lemma join_sequence_quiet: "e \<in> set (join_sequence s) \<Longrightarrow> displays fuel e id"
  unfolding join_sequence_def set_simps by (elim insertE emptyE) (simp_all only:, (rule displays_others)+)

definition loads :: "chunk_pos list \<Rightarrow> session_event list" where
  "loads ps = map (\<lambda>p. LoadChunk_ev (cp_x p) (cp_z p)) ps"

lemma relays_loads:
  assumes "zlib_ok env" "638 \<le> sx_fuel env"
  shows "ses_dimension s = d \<Longrightarrow>
    send_packets env (map (\<lambda>p. encode_chunk_data (build_chunk_data_packet (cp_x p) (cp_z p) d)) ps) s = (Inr u, t) \<Longrightarrow>
    relays env s t (fold client_event (loads ps))"
proof (induction ps arbitrary: s)
  case Nil
  then show ?case by (simp add: send_packets_def loads_def id_def)
next
  case (Cons p ps)
  from Cons.prems(2) obtain v s' where
    head: "send_packet env (encode_chunk_data (build_chunk_data_packet (cp_x p) (cp_z p) d)) s = (Inr v, s')"
    and tail: "send_packets env (map (\<lambda>p. encode_chunk_data (build_chunk_data_packet (cp_x p) (cp_z p) d)) ps) s' = (Inr u, t)"
    by (auto simp: send_packets_def st_bind_Inr_iff)
  have "handle_event env 0 (LoadChunk_ev (cp_x p) (cp_z p)) s = (Inr v, s')"
    using head Cons.prems(1) by (simp add: send_single_chunk_def)
  then have "relays env s s' (client_event (LoadChunk_ev (cp_x p) (cp_z p)))"
    by (rule relays_event [OF assms, rotated]) (simp add: event_carried_def)
  moreover have "ses_dimension s' = d"
    using send_packet_reads [OF assms(1) displays_chunk [OF assms(2)] head] Cons.prems(1) by auto
  ultimately have "relays env s t (fold client_event (loads ps) \<circ> client_event (LoadChunk_ev (cp_x p) (cp_z p)))"
    by (rule relays_trans [OF _ Cons.IH [OF _ tail]])
  then show ?case by (simp add: loads_def comp_def)
qed

lemma relays_handshake:
  assumes "zlib_ok env" "638 \<le> sx_fuel env" "play_handshake env s = (Inr u, t)"
  shows "relays env s t (fold client_event (loads (desired_chunks 0 0 2)))"
proof -
  from assms(3) obtain u1 u2 u3 u4 s1 s2 s3 where join: "send_join_game env s = (Inr u1, s1)"
    and burst: "send_join_sequence env s1 = (Inr u2, s2)" and chunks: "send_initial_chunks env 2 s2 = (Inr u3, s3)"
    and sync: "send_synchronize_position env s3 = (Inr u4, t)"
    by (auto simp: play_handshake_def st_bind_Inr_iff)
  have "relays env s s1 id"
    by (rule relays_nothing [OF assms(1)]) (use join in \<open>simp add: send_join_game_def\<close>, rule displays_others)
  moreover have "relays env s1 s2 id"
    by (rule relays_quiet_all [OF assms(1) join_sequence_quiet]) (use burst in \<open>simp_all add: send_join_sequence_def\<close>)
  moreover have "relays env s2 s3 (fold client_event (loads (desired_chunks 0 0 2)))"
    by (rule relays_loads [OF assms(1,2) refl]) (use chunks in \<open>simp add: send_initial_chunks_def\<close>)
  moreover have "relays env s3 t id"
  proof -
    let ?s = "s3\<lparr>ses_next_teleport_id := ses_next_teleport_id s3 + 1\<rparr>"
    obtain v where "send_packet env (encode_synchronize_player_position
        \<lparr>syn_x = 0, syn_y = f64_lit 64 1, syn_z = 0, syn_yaw = 0, syn_pitch = 0, syn_flags = 0, syn_teleport_id = ses_next_teleport_id s3\<rparr>)
        ?s = (Inr v, t)"
      using sync by (auto simp: send_synchronize_position_def st_bind_Inr_iff take_teleport_id_def)
    from relays_nothing [OF assms(1) this displays_others(19)] have "relays env ?s t id" .
    then show ?thesis by (rule relays_id_trans [rotated]) (simp add: relays_silent)
  qed
  ultimately show ?thesis
    using relays_id_trans relays_trans [where h = id] by (metis id_comp)
qed

lemma client_reads_nothing: "client_reads env threshold m [] v = v"
proof -
  have d: "decode_var_int [] = (Inl IncompleteInput, [])" by (simp add: decode_var_int_spec var_width_def)
  then have "decode_frame m [] = (Inr FrameIncomplete, [])" by (simp add: decode_frame_def)
  then show ?thesis
    by (subst client_reads.simps) (simp add: decode_compressed_frame_def d decode_raw_frame_def)
qed

text \<open>A client before its first packet; what it holds where it has no chunk does not matter.\<close>

definition client_blank :: "(block_pos \<Rightarrow> i32) \<Rightarrow> client_view" where
  "client_blank f = \<lparr>cv_dimension = Overworld, cv_chunks = {}, cv_blocks = f\<rparr>"

lemma session_reads:
  assumes "zlib_ok env" "638 \<le> sx_fuel env" "list_all events_carried inps"
    and "run_play_loop env config i ch now inps = SessionOn t buffer"
  shows "client_reads env (sc_compression_threshold config) (sc_max_frame_length config) (ses_written t) (client_blank f) =
    fold client_event (loads (desired_chunks 0 0 2) @ events_of inps) (client_blank f)"
proof -
  from assms(4) obtain s0 u s1 where new: "session_new env config i ch now = Inr s0"
    and shake: "play_handshake env s0 = (Inr u, s1)" and run: "play_passes env config inps [] s1 = Passed t buffer"
    by (auto simp: run_play_loop_def split: option.splits sum.splits prod.splits pass_result.splits)
  from new have s0: "ses_written s0 = []" "ses_dimension s0 = Overworld"
    "ses_compression_threshold s0 = sc_compression_threshold config" "ses_max_frame_length s0 = sc_max_frame_length config"
    by (auto simp: session_new_def split: option.splits if_splits)
  from relays_trans [OF relays_handshake [OF assms(1,2) shake] relays_passes [OF assms(1-3) run]]
  have "relays env s0 t (fold client_event (loads (desired_chunks 0 0 2) @ events_of inps))"
    by (simp add: comp_def)
  then show ?thesis
    unfolding relays_def using s0 client_reads_nothing by (metis append_Nil append_Nil2 client_blank_def client_view.select_convs(1))
qed

end
