(* ===== verification/Session_Screen.thy ===== *)
theory Session_Screen
  imports Session_View
begin

section \<open>From the world of the server to the screen of a client\<close>

text \<open>
  The composition of the tick loop, the session and the codecs: what a client has read of the bytes of its
  session is what the tick loop has in its world.
\<close>

subsection \<open>What is on the screen\<close>

text \<open>Views that differ only where they have no chunk stay so.\<close>

definition agree :: "client_view \<Rightarrow> client_view \<Rightarrow> bool" where
  "agree v w \<longleftrightarrow> cv_dimension v = cv_dimension w \<and> cv_chunks v = cv_chunks w
    \<and> (\<forall>q. chunk_of q \<in> cv_chunks v \<longrightarrow> cv_blocks v q = cv_blocks w q)"

lemma apply_blocks_local: "f q = g q \<Longrightarrow> apply_blocks changes f q = apply_blocks changes g q"
proof (induction changes arbitrary: f g)
  case Nil
  then show ?case by (simp add: apply_blocks_def)
next
  case (Cons c changes)
  obtain p b where c: "c = (p, b)" by (cases c)
  have "apply_blocks changes (f(p := b)) q = apply_blocks changes (g(p := b)) q"
    by (rule Cons.IH) (simp add: Cons.prems)
  then show ?case by (simp add: c apply_blocks_def del: fun_upd_apply)
qed

lemma agree_event:
  assumes "agree v w"
  shows "agree (client_event e v) (client_event e w)"
proof (cases e)
  case (ChunkBlockOverrides_ev changes)
  have "apply_blocks changes (cv_blocks v) q = apply_blocks changes (cv_blocks w) q" if "chunk_of q \<in> cv_chunks v" for q
    using assms that by (intro apply_blocks_local) (simp add: agree_def del: split_paired_All)
  then show ?thesis using assms by (simp add: agree_def ChunkBlockOverrides_ev del: split_paired_All)
qed (use assms in \<open>auto simp: agree_def simp del: split_paired_All split: option.splits\<close>)

lemma agree_events: "agree v w \<Longrightarrow> agree (fold client_event es v) (fold client_event es w)"
  by (induction es arbitrary: v w) (simp_all add: agree_event)

lemma loaded_chunks:
  "fold client_event (loads ps) v = v\<lparr>cv_chunks := cv_chunks v \<union> set ps,
    cv_blocks := (\<lambda>q. if chunk_of q \<in> set ps then flat_block (cv_dimension v) q else cv_blocks v q)\<rparr>"
proof (induction ps arbitrary: v)
  case Nil
  then show ?case by (simp add: loads_def)
next
  case (Cons p ps)
  have p: "chunk_pos_new (cp_x p) (cp_z p) = p" by (simp add: chunk_pos_new_def)
  have "fold client_event (loads (p # ps)) v = fold client_event (loads ps) (client_event (LoadChunk_ev (cp_x p) (cp_z p)) v)"
    by (simp add: loads_def)
  also have "\<dots> = v\<lparr>cv_chunks := cv_chunks v \<union> set (p # ps),
      cv_blocks := (\<lambda>q. if chunk_of q \<in> set (p # ps) then flat_block (cv_dimension v) q else cv_blocks v q)\<rparr>"
    by (auto simp: Cons.IH p fun_eq_iff simp del: split_paired_All)
  finally show ?case .
qed

lemma loads_agree: "agree (fold client_event (loads (desired_chunks 0 0 2)) (client_blank f)) client_start"
  by (simp add: loaded_chunks agree_def client_blank_def client_start_def INITIAL_CHUNK_RADIUS_def)

text \<open>
  C1: From the first byte to the screen. A client that starts with nothing and reads all the bytes a session has
  written so far, frame by frame and with or without compression, has, once the session has passed on every event the tick
  loop sent it, exactly the world of the server on its screen: the dimension of its player, the chunks the loop has
  recorded for it, and the server's block at every position of them. Zlib has to read back what it wrote, and positions must
  fit the wire format.
\<close>

theorem screen_shows_the_world:
  assumes "tick_world tenv" "(tick_step tenv)\<^sup>*\<^sup>* (tick_start tenv rd fs count) s"
    and "ts_senders s i = Some ch" "get_player (ts_world s) i = Some p" "ts_chunk_states s i = Some cs"
    and "events_of inps = sent_on ch (ts_sent s)"
    and "zlib_ok env" "638 \<le> sx_fuel env" "list_all events_carried inps"
  shows "case run_play_loop env config i ch now inps of
      SessionOn t _ \<Rightarrow>
        (let v = client_reads env (sc_compression_threshold config) (sc_max_frame_length config) (ses_written t) (client_blank f)
         in cv_dimension v = ph_dimension p \<and> cv_chunks v = pcs_loaded_chunks cs
          \<and> (\<forall>q. chunk_of q \<in> pcs_loaded_chunks cs \<longrightarrow> cv_blocks v q = block_at (ts_world s) (ph_dimension p) q))
    | _ \<Rightarrow> True"
proof (cases "run_play_loop env config i ch now inps")
  case (SessionOn t buffer)
  define v where "v = client_reads env (sc_compression_threshold config) (sc_max_frame_length config) (ses_written t) (client_blank f)"
  have "agree (fold client_event (events_of inps) (fold client_event (loads (desired_chunks 0 0 2)) (client_blank f)))
      (fold client_event (events_of inps) client_start)"
    by (rule agree_events [OF loads_agree])
  then have "agree v (client_of ch (ts_sent s))"
    using session_reads [OF assms(7-9) SessionOn, of f] assms(6) by (simp add: v_def client_of_def)
  moreover have "cv_dimension (client_of ch (ts_sent s)) = ph_dimension p
      \<and> cv_chunks (client_of ch (ts_sent s)) = pcs_loaded_chunks cs
      \<and> (\<forall>q. chunk_of q \<in> pcs_loaded_chunks cs \<longrightarrow>
          cv_blocks (client_of ch (ts_sent s)) q = block_at (ts_world s) (ph_dimension p) q)"
    using tick_world.reached_view [OF assms(1,2)] assms(3-5)
    by (auto simp: view_ok_def synced_def shows_world_def player_dimension_def simp del: split_paired_All)
  ultimately show ?thesis by (simp add: agree_def SessionOn v_def Let_def del: split_paired_All)
qed simp_all

text \<open>
  For a witness: all files are a pack with no block in it, which every loader of another format refuses, and the
  player is the first to join.
\<close>

definition empty_pack_file :: bytes where
  "empty_pack_file = [82, 66, 80, 75, 1, 0, 0, 0, size_to_byte Small, 7, 0, 0, 0, 0, 0, 0, 0x50, 0x40, 0, 0, 0, 0]"

abbreviation empty_files :: files where "empty_files \<equiv> \<lambda>_. Some empty_pack_file"

lemma empty_pack_read: "\<exists>p. deserialize_pack empty_pack_file = Inr p \<and> mp_blocks p = Map.empty"
  by (simp add: deserialize_pack_def empty_pack_file_def RBPK_MAGIC_def ascii_def le_at_def PACK_FORMAT_VERSION_def
      size_to_byte_def byte_to_size_def Let_def)

lemma empty_pack_resolved:
  "\<exists>p. resolve_all_packs (\<lambda>_. None) empty_files level preset d = Some p \<and> mp_blocks p = Map.empty"
  using empty_pack_read
  by (cases d) (auto simp: resolve_all_packs_def dimension_all_def resolve_dimension_pack_def resolve_pack_file_def
      load_pack_file_def fs_read_def builtin_pack_def)

lemma no_overrides_read: "load_overrides_for (\<lambda>_. None) empty_files level d = Map.empty"
  by (simp add: load_overrides_for_def load_overrides_from_path_def deserialize_overrides_def empty_pack_file_def
      RBOV_MAGIC_def ascii_def)

lemma no_deltas:
  assumes "w_pack_by_dim w d = Some Map.empty" "w_overrides_by_dim w d = Some Map.empty" "ord Map.empty = []"
  shows "get_client_block_deltas_for_chunk ord w d cx cz = []"
  using assms by (simp add: get_client_block_deltas_for_chunk_def merge_in_chunk_def)

lemma empty_world_layers:
  assumes "\<And>d. \<exists>p. packs d = Some p \<and> mp_blocks p = Map.empty"
  shows "w_pack_by_dim (load_world (\<lambda>_. None) empty_files level garden packs) d = Some Map.empty"
    and "w_overrides_by_dim (load_world (\<lambda>_. None) empty_files level garden packs) d = Some Map.empty"
proof -
  obtain f where f: "\<And>d. packs d = Some (f d)" "\<And>d. mp_blocks (f d) = Map.empty" using assms by metis
  show "w_pack_by_dim (load_world (\<lambda>_. None) empty_files level garden packs) d = Some Map.empty"
    and "w_overrides_by_dim (load_world (\<lambda>_. None) empty_files level garden packs) d = Some Map.empty"
    by (cases d; simp add: load_world_def Let_def dimension_all_def f no_overrides_read load_pack_blocks_for_def
        load_block_overrides_for_def)+
qed

text \<open>Events that are carried, on all channels.\<close>

definition log_carried :: "tick_state \<Rightarrow> bool" where
  "log_carried s \<longleftrightarrow> list_all (\<lambda>e. event_carried (snd e)) (ts_sent s)"

lemma log_carried_send: "log_carried s \<Longrightarrow> list_all event_carried evs \<Longrightarrow> log_carried (send_to i evs s)"
  by (auto simp: log_carried_def send_to_def list_all_iff split: option.splits)

lemma log_carried_broadcast:
  assumes "log_carried s" "event_carried ev"
  shows "log_carried (broadcast env P ev s)"
proof -
  have "log_carried (fold (\<lambda>eid s. if P eid then send_to eid [ev] s else s) ids s)" if "log_carried s" for ids s
    using that by (induction ids arbitrary: s) (simp_all add: log_carried_send assms(2))
  then show ?thesis using assms(1) by (simp add: broadcast_def)
qed

lemma log_carried_fields [simp]:
  "log_carried (map_world f s) = log_carried s" "log_carried (s\<lparr>ts_senders := a1\<rparr>) = log_carried s"
  "log_carried (s\<lparr>ts_chunk_states := a2\<rparr>) = log_carried s" "log_carried (s\<lparr>ts_inventories := a3\<rparr>) = log_carried s"
  "log_carried (s\<lparr>ts_events := a4, ts_player_count := a5\<rparr>) = log_carried s" "log_carried (s\<lparr>ts_world := a6\<rparr>) = log_carried s"
  by (simp_all add: log_carried_def map_world_def)

lemma send_world [simp]: "ts_world (send_to i evs s) = ts_world s"
  by (simp add: send_to_def split: option.splits)

lemma broadcast_world [simp]: "ts_world (broadcast env P ev s) = ts_world s"
proof -
  have "ts_world (fold (\<lambda>eid s. if P eid then send_to eid [ev] s else s) ids s) = ts_world s" for ids s
    by (induction ids arbitrary: s) simp_all
  then show ?thesis by (simp add: broadcast_def)
qed

lemma quiet_events [simp]:
  "list_all event_carried (map spawn_mob_event ms)" "list_all event_carried (map joined_event ps)"
  "event_carried (joined_event p)" "event_carried (SetContainerContent_ev a1 a2 a3 a4)" "event_carried (SetHealth_ev a5 a6 a7)"
  "event_carried (RemoveEntities_ev a8)"
  by (simp_all add: list_all_iff spawn_mob_event_def joined_event_def event_carried_def)

lemma events_of_joining_carried:
  assumes "log_carried s" "\<And>p cx cz. get_client_block_deltas_for_chunk (te_blocks env) (add_player p (ts_world s)) Overworld cx cz = []"
  shows "log_carried (handle_player_joined env i u name gm vd ch s)"
  unfolding handle_player_joined_def Let_def sync_mobs_for_player_def
  by (auto simp: assms map_world_def [of _ s] split: prod.splits option.splits
      intro!: log_carried_send log_carried_broadcast)

theorem screen_shows_the_world_witness:
  "\<forall>e u. let env = sorted_env Small dimension_set_default e;
      s = handle_player_joined env 1 u [] 0 2 7 (tick_start env (\<lambda>_. None) empty_files 0)
    in case run_play_loop (mirror_zlib\<lparr>sx_fuel := 638\<rparr>) sample_session_config 1 7 0
        [\<lparr>pas_events = map (Pair 1) (sent_on 7 (ts_sent s)), pas_now = 2, pas_read = ReadRetry\<rparr>] of
      SessionOn t _ \<Rightarrow> cv_chunks (client_reads (mirror_zlib\<lparr>sx_fuel := 638\<rparr>) 256 2097151 (ses_written t) (client_blank (\<lambda>_. 0))) =
        set (desired_chunks 0 0 2)
    | _ \<Rightarrow> True"
proof (intro allI)
  fix e u
  define env where "env = sorted_env Small dimension_set_default e"
  define start where "start = tick_start env (\<lambda>_. None) empty_files 0"
  define s where "s = handle_player_joined env 1 u [] 0 2 7 start"
  define zenv where "zenv = mirror_zlib\<lparr>sx_fuel := 638\<rparr>"
  define inp where "inp = \<lparr>pas_events = map (Pair 1) (sent_on 7 (ts_sent s)), pas_now = 2, pas_read = ReadRetry\<rparr>"
  obtain p inven where p: "ph_entity_id p = 1" and
    scene: "scene s = scene (send_to 1 [ChunkBlockOverrides_ev (join_deltas env (add_player p (ts_world start)))]
      (join_tables env 1 2 7 p inven start))"
    unfolding s_def using joined_scene by blast
  have tables: "ts_senders s 1 = Some 7" "ts_chunk_states s 1 = Some (chunk_state_new 2 (garden_radius env))"
    "player_dimension (ts_world s) 1 = Some (ph_dimension p)"
    using scene_eqD(1-3) [OF scene] p by (simp_all add: player_dimension_def get_player_def add_player_def)
  then obtain q where q: "get_player (ts_world s) 1 = Some q" by (auto simp: player_dimension_def)
  have "fresh_channel 7 start" by (simp add: start_def fresh_channel_def tick_start_def Let_def split: prod.splits)
  then have "tick_step env start s"
    unfolding s_def by (intro tick_step.message [where m = "PlayerJoined_msg 1 u [] 0 2 7" and stop = False]) (simp_all add: joins_fresh_def)
  then have reached: "(tick_step env)\<^sup>*\<^sup>* start s" by (rule r_into_rtranclp)
  have deltas: "get_client_block_deltas_for_chunk (te_blocks env) (add_player p (ts_world start)) Overworld cx cz = []" for p cx cz
  proof (rule no_deltas)
    note layers = empty_world_layers [OF empty_pack_resolved]
    show "w_pack_by_dim (add_player p (ts_world start)) Overworld = Some Map.empty"
      "w_overrides_by_dim (add_player p (ts_world start)) Overworld = Some Map.empty"
      by (simp_all add: start_def tick_start_def Let_def add_player_def layers split: prod.splits)
    show "te_blocks env Map.empty = []" by (simp add: env_def sorted_env_def sorted_entries_def)
  qed
  have "log_carried start" by (simp add: start_def log_carried_def tick_start_def Let_def split: prod.splits)
  then have "log_carried s" unfolding s_def by (rule events_of_joining_carried) (rule deltas)
  then have carried: "list_all events_carried [inp]"
    by (simp add: inp_def log_carried_def sent_on_def list_all_iff)
  have "events_of [inp] = sent_on 7 (ts_sent s)" by (simp add: events_of_def inp_def comp_def)
  moreover have "zlib_ok zenv" "638 \<le> sx_fuel zenv"
    by (simp_all add: zenv_def mirror_zlib_def zlib_ok_def zlib_reads_back_def)
  moreover have "tick_world env" unfolding env_def by (rule sorted_world.tick_world_axioms)
  moreover have "pcs_loaded_chunks (chunk_state_new 2 (garden_radius env)) = set (desired_chunks 0 0 2)"
    unfolding env_def sorted_world.start_chunk_state by (simp add: client_start_def INITIAL_CHUNK_RADIUS_def)
  ultimately have "case run_play_loop zenv sample_session_config 1 7 0 [inp] of
      SessionOn t _ \<Rightarrow> cv_chunks (client_reads zenv 256 2097151 (ses_written t) (client_blank (\<lambda>_. 0))) = set (desired_chunks 0 0 2)
    | _ \<Rightarrow> True"
    using screen_shows_the_world [OF _ reached [unfolded start_def] tables(1) q tables(2), where inps = "[inp]" and env = zenv
        and config = sample_session_config and now = 0 and f = "\<lambda>_. 0"] carried
    by (simp add: Let_def sample_session_config_def split: play_outcome.splits)
  then show "let env = sorted_env Small dimension_set_default e;
      s = handle_player_joined env 1 u [] 0 2 7 (tick_start env (\<lambda>_. None) empty_files 0)
    in case run_play_loop (mirror_zlib\<lparr>sx_fuel := 638\<rparr>) sample_session_config 1 7 0
        [\<lparr>pas_events = map (Pair 1) (sent_on 7 (ts_sent s)), pas_now = 2, pas_read = ReadRetry\<rparr>] of
      SessionOn t _ \<Rightarrow> cv_chunks (client_reads (mirror_zlib\<lparr>sx_fuel := 638\<rparr>) 256 2097151 (ses_written t) (client_blank (\<lambda>_. 0))) =
        set (desired_chunks 0 0 2)
    | _ \<Rightarrow> True"
    by (simp only: Let_def env_def s_def start_def zenv_def inp_def)
qed

end
