(* ===== verification/Config.thy ===== *)
theory Config
  imports Storage Hakoniwa Text_Format Text_Trim Packets "HOL-Library.Multiset"
begin

section \<open>The configuration (\<open>config.rs\<close>)\<close>

text \<open>
  The settings of the server, from a properties file and the command line. A file is lines of \<open>key=value\<close>; a later line
  for a key wins, a key nobody knows is ignored, and the first line that is no setting, comment or blank refuses the file.
\<close>

subsection \<open>The settings\<close>

record server_config =
  cfg_host :: rstring
  cfg_port :: u16
  cfg_max_players :: i32
  cfg_online_mode :: bool
  cfg_view_distance :: i32
  cfg_simulation_distance :: i32
  cfg_motd :: rstring
  cfg_white_list :: bool
  cfg_level_name :: rstring
  cfg_default_gamemode :: u8
  cfg_pvp :: bool
  cfg_allow_nether :: bool
  cfg_connection_timeout_secs :: u64
  cfg_network_compression_threshold :: i32
  cfg_keep_alive_timeout_secs :: u64
  cfg_autosave_interval_secs :: u64
  cfg_hakoniwa_size :: map_size

definition server_config_default :: server_config where
  "server_config_default =
    \<lparr>cfg_host = ascii ''0.0.0.0'', cfg_port = 25565, cfg_max_players = 20, cfg_online_mode = False,
     cfg_view_distance = 10, cfg_simulation_distance = 10, cfg_motd = ascii ''A Rust Minecraft Server'',
     cfg_white_list = False, cfg_level_name = ascii ''world'', cfg_default_gamemode = 0, cfg_pvp = True,
     cfg_allow_nether = True, cfg_connection_timeout_secs = 30, cfg_network_compression_threshold = 256,
     cfg_keep_alive_timeout_secs = 30, cfg_autosave_interval_secs = 600, cfg_hakoniwa_size = Tiny\<rparr>"

datatype config_error =
    ConfigRead io_error
  | InvalidValue rstring rstring
  | InvalidLine nat rstring

definition config_error_message :: "config_error \<Rightarrow> rstring" where
  "config_error_message e =
    (case e of
       ConfigRead error \<Rightarrow> ascii ''failed to read config: '' @ error
     | InvalidValue key message \<Rightarrow> ascii ''invalid value for '' @ [39] @ key @ [39] @ ascii '': '' @ message
     | InvalidLine line content \<Rightarrow> ascii ''invalid line '' @ dec_nat line @ ascii '': '' @ content)"

subsection \<open>Values\<close>

text \<open>
  \<open>str::parse\<close> for an integer type: digits, after a plus or, if the type is signed, a minus; the value has to be in the
  range of the type.
\<close>

fun digits_value :: "nat \<Rightarrow> rstring \<Rightarrow> nat option" where
  "digits_value acc [] = Some acc"
| "digits_value acc (b # bs) = (if 48 \<le> b \<and> b \<le> 57 then digits_value (acc * 10 + (unat b - 48)) bs else None)"

definition parse_int :: "bool \<Rightarrow> int \<Rightarrow> int \<Rightarrow> rstring \<Rightarrow> int option" where
  "parse_int has_sign lo hi value =
    (let (negative, digits) =
        (case value of [] \<Rightarrow> (False, []) | b # bs \<Rightarrow>
          if b = 43 then (False, bs) else if b = 45 \<and> has_sign then (True, bs) else (False, b # bs))
     in if digits = [] then None
     else case digits_value 0 digits of None \<Rightarrow> None
     | Some n \<Rightarrow> let i = (if negative then - int n else int n) in if lo \<le> i \<and> i \<le> hi then Some i else None)"

definition expected_got :: "string \<Rightarrow> rstring \<Rightarrow> rstring \<Rightarrow> config_error" where
  "expected_got what value key = InvalidValue key (ascii ''expected '' @ ascii what @ ascii '', got '' @ [39] @ value @ [39])"

definition parse_number :: "bool \<Rightarrow> int \<Rightarrow> int \<Rightarrow> string \<Rightarrow> rstring \<Rightarrow> rstring \<Rightarrow> config_error + 'a::len word" where
  "parse_number has_sign lo hi what value key =
    (case parse_int has_sign lo hi value of None \<Rightarrow> Inl (expected_got what value key) | Some i \<Rightarrow> Inr (word_of_int i))"

definition parse_i32 :: "rstring \<Rightarrow> rstring \<Rightarrow> config_error + i32" where
  "parse_i32 = parse_number True (- (2 ^ 31)) (2 ^ 31 - 1) ''an integer''"

definition parse_u16 :: "rstring \<Rightarrow> rstring \<Rightarrow> config_error + u16" where
  "parse_u16 = parse_number False 0 (2 ^ 16 - 1) ''a port number (0-65535)''"

definition parse_u8 :: "rstring \<Rightarrow> rstring \<Rightarrow> config_error + u8" where
  "parse_u8 = parse_number False 0 (2 ^ 8 - 1) ''a byte (0-255)''"

definition parse_u64 :: "rstring \<Rightarrow> rstring \<Rightarrow> config_error + u64" where
  "parse_u64 = parse_number False 0 (2 ^ 64 - 1) ''a non-negative integer''"

text \<open>
  \<open>to_lowercase\<close> works on all of Unicode, but no character outside of ASCII has a letter of these two words as
  its lower case.
\<close>

definition parse_bool :: "rstring \<Rightarrow> rstring \<Rightarrow> config_error + bool" where
  "parse_bool value key =
    (if ascii_lowercase value = ascii ''true'' then Inr True
     else if ascii_lowercase value = ascii ''false'' then Inr False
     else Inl (InvalidValue key (ascii ''expected '' @ [39] @ ascii ''true'' @ [39] @ ascii '' or '' @ [39] @ ascii ''false''
       @ [39] @ ascii '', got '' @ [39] @ value @ [39])))"

definition parse_size :: "rstring \<Rightarrow> rstring \<Rightarrow> config_error + map_size" where
  "parse_size value key =
    (case map_size_parse value of None \<Rightarrow> Inl (expected_got ''tiny|small|medium'' value key) | Some s \<Rightarrow> Inr s)"

definition parse_text :: "rstring \<Rightarrow> rstring \<Rightarrow> config_error + rstring" where
  "parse_text value key = Inr value"

subsection \<open>The file\<close>

text \<open>\<open>if let Some(v) = map.get(key) { config.field = parse(v, key)?; }\<close>\<close>

definition setting :: "string \<Rightarrow> (rstring \<Rightarrow> rstring \<Rightarrow> config_error + 'a) \<Rightarrow> ('a \<Rightarrow> server_config \<Rightarrow> server_config) \<Rightarrow>
    (rstring \<rightharpoonup> rstring) \<Rightarrow> (config_error, unit, server_config) st" where
  "setting key parse put m config =
    (case m (ascii key) of None \<Rightarrow> (Inr (), config)
     | Some v \<Rightarrow> (case parse v (ascii key) of Inl e \<Rightarrow> (Inl e, config) | Inr a \<Rightarrow> (Inr (), put a config)))"

definition apply_config_values :: "(rstring \<rightharpoonup> rstring) \<Rightarrow> (config_error, unit, server_config) st" where
  "apply_config_values m = enc_all
    [setting ''server-ip'' parse_text (\<lambda>v c. c\<lparr>cfg_host := v\<rparr>) m,
     setting ''server-port'' parse_u16 (\<lambda>v c. c\<lparr>cfg_port := v\<rparr>) m,
     setting ''max-players'' parse_i32 (\<lambda>v c. c\<lparr>cfg_max_players := v\<rparr>) m,
     setting ''online-mode'' parse_bool (\<lambda>v c. c\<lparr>cfg_online_mode := v\<rparr>) m,
     setting ''view-distance'' parse_i32 (\<lambda>v c. c\<lparr>cfg_view_distance := v\<rparr>) m,
     setting ''simulation-distance'' parse_i32 (\<lambda>v c. c\<lparr>cfg_simulation_distance := v\<rparr>) m,
     setting ''motd'' parse_text (\<lambda>v c. c\<lparr>cfg_motd := v\<rparr>) m,
     setting ''white-list'' parse_bool (\<lambda>v c. c\<lparr>cfg_white_list := v\<rparr>) m,
     setting ''level-name'' parse_text (\<lambda>v c. c\<lparr>cfg_level_name := v\<rparr>) m,
     setting ''gamemode'' parse_u8 (\<lambda>v c. c\<lparr>cfg_default_gamemode := v\<rparr>) m,
     setting ''pvp'' parse_bool (\<lambda>v c. c\<lparr>cfg_pvp := v\<rparr>) m,
     setting ''allow-nether'' parse_bool (\<lambda>v c. c\<lparr>cfg_allow_nether := v\<rparr>) m,
     setting ''connection-timeout'' parse_u64 (\<lambda>v c. c\<lparr>cfg_connection_timeout_secs := v\<rparr>) m,
     setting ''network-compression-threshold'' parse_i32 (\<lambda>v c. c\<lparr>cfg_network_compression_threshold := v\<rparr>) m,
     setting ''keep-alive-timeout'' parse_u64 (\<lambda>v c. c\<lparr>cfg_keep_alive_timeout_secs := v\<rparr>) m,
     setting ''autosave-interval'' parse_u64 (\<lambda>v c. c\<lparr>cfg_autosave_interval_secs := v\<rparr>) m,
     setting ''hakoniwa-size'' parse_size (\<lambda>v c. c\<lparr>cfg_hakoniwa_size := v\<rparr>) m]"

text \<open>\<open>str::lines\<close>: cut after each line feed, which goes with a carriage return before it; nothing follows the last one.\<close>

definition strip_cr :: "rstring \<Rightarrow> rstring" where
  "strip_cr line = (if line \<noteq> [] \<and> last line = 13 then butlast line else line)"

lemma dropWhile_shorter: "dropWhile P s = x # rest \<Longrightarrow> length rest < length s"
  using length_dropWhile_le [of P s] by simp

function str_lines :: "rstring \<Rightarrow> rstring list" where
  "str_lines s =
    (if s = [] then []
     else case dropWhile (\<lambda>b. b \<noteq> 10) s of
       [] \<Rightarrow> [s]
     | _ # rest \<Rightarrow> strip_cr (takeWhile (\<lambda>b. b \<noteq> 10) s) # str_lines rest)"
  by pat_completeness auto
termination
  by (relation "measure length") (auto dest: dropWhile_shorter)

declare str_lines.simps [simp del]

text \<open>\<open>split_once\<close>, at the first \<open>=\<close>.\<close>

definition split_once :: "u8 \<Rightarrow> rstring \<Rightarrow> (rstring \<times> rstring) option" where
  "split_once b s = (case dropWhile (\<lambda>x. x \<noteq> b) s of [] \<Rightarrow> None | _ # rest \<Rightarrow> Some (takeWhile (\<lambda>x. x \<noteq> b) s, rest))"

fun config_map :: "nat \<Rightarrow> rstring list \<Rightarrow> (rstring \<rightharpoonup> rstring) \<Rightarrow> config_error + (rstring \<rightharpoonup> rstring)" where
  "config_map i [] m = Inr m"
| "config_map i (line # lines) m =
    (let line = trim line in
     if line = [] \<or> hd line = 35 then config_map (i + 1) lines m
     else case split_once 61 line of None \<Rightarrow> Inl (InvalidLine (i + 1) line)
     | Some (key, value) \<Rightarrow> config_map (i + 1) lines (m(trim key \<mapsto> trim value)))"

definition parse_config_string :: "rstring \<Rightarrow> config_error + server_config" where
  "parse_config_string content =
    (case config_map 0 (str_lines content) Map.empty of Inl e \<Rightarrow> Inl e
     | Inr m \<Rightarrow> (case apply_config_values m server_config_default of (Inl e, _) \<Rightarrow> Inl e | (Inr _, config) \<Rightarrow> Inr config))"

text \<open>\<open>fs::read_to_string\<close> refuses a file that is not UTF-8.\<close>

definition invalid_utf8_error :: io_error where
  "invalid_utf8_error = ascii ''stream did not contain valid UTF-8''"

definition parse_config_file :: "(path \<Rightarrow> io_error option) \<Rightarrow> files \<Rightarrow> path \<Rightarrow> config_error + server_config" where
  "parse_config_file rd fs path =
    (case fs_read rd fs path of Inl e \<Rightarrow> Inl (ConfigRead e)
     | Inr content \<Rightarrow> if utf8_valid content then parse_config_string content else Inl (ConfigRead invalid_utf8_error))"

subsection \<open>The command line\<close>

record server_args =
  sa_config_path :: "rstring option"
  sa_host :: "rstring option"
  sa_port :: "u16 option"

definition server_args_default :: server_args where
  "server_args_default = \<lparr>sa_config_path = None, sa_host = None, sa_port = None\<rparr>"

fun parse_args_from :: "nat \<Rightarrow> rstring list \<Rightarrow> server_args \<Rightarrow> config_error + server_args" where
  "parse_args_from i [] a = Inr a"
| "parse_args_from i (arg # args) a =
    (if arg = ascii ''--config'' then
       (case args of [] \<Rightarrow> Inl (InvalidValue (ascii ''--config'') (ascii ''missing path argument''))
        | v # args \<Rightarrow> parse_args_from (i + 2) args (a\<lparr>sa_config_path := Some v\<rparr>))
     else if arg = ascii ''--host'' then
       (case args of [] \<Rightarrow> Inl (InvalidValue (ascii ''--host'') (ascii ''missing address argument''))
        | v # args \<Rightarrow> parse_args_from (i + 2) args (a\<lparr>sa_host := Some v\<rparr>))
     else if arg = ascii ''--port'' then
       (case args of [] \<Rightarrow> Inl (InvalidValue (ascii ''--port'') (ascii ''missing port argument''))
        | v # args \<Rightarrow> (case parse_u16 v (ascii ''--port'') of Inl e \<Rightarrow> Inl e
          | Inr port \<Rightarrow> parse_args_from (i + 2) args (a\<lparr>sa_port := Some port\<rparr>)))
     else Inl (InvalidLine (i + 1) arg))"

definition parse_args :: "rstring list \<Rightarrow> config_error + server_args" where
  "parse_args args = parse_args_from 0 args server_args_default"

text \<open>A path is one component here; what it means is the operating system's affair.\<close>

definition load_config :: "(path \<Rightarrow> io_error option) \<Rightarrow> files \<Rightarrow> server_args \<Rightarrow> config_error + server_config" where
  "load_config rd fs args =
    (case (case sa_config_path args of Some path \<Rightarrow> parse_config_file rd fs [path] | None \<Rightarrow> Inr server_config_default) of
       Inl e \<Rightarrow> Inl e
     | Inr config \<Rightarrow>
       let config = (case sa_host args of Some host \<Rightarrow> config\<lparr>cfg_host := host\<rparr> | None \<Rightarrow> config);
           config = (case sa_port args of Some port \<Rightarrow> config\<lparr>cfg_port := port\<rparr> | None \<Rightarrow> config)
       in Inr config)"

subsection \<open>Numbers read back\<close>

lemma ascii_inject [simp]: "ascii s = ascii t \<longleftrightarrow> s = t"
proof -
  have "inj (\<lambda>c :: char. word_of_nat (of_char c) :: u8)"
  proof (rule injI)
    fix c d :: char assume "(word_of_nat (of_char c) :: u8) = word_of_nat (of_char d)"
    then have "(of_char c :: nat) mod 2 ^ 8 = of_char d mod 2 ^ 8" by (simp add: word_of_nat_eq_iff take_bit_eq_mod)
    then show "c = d" by simp
  qed
  then show ?thesis by (simp add: ascii_def inj_map_eq_map)
qed

lemma digits_value_append: "digits_value a (x @ y) = (case digits_value a x of None \<Rightarrow> None | Some n \<Rightarrow> digits_value n y)"
  by (induction x arbitrary: a) simp_all

lemma digit_byte: "d < 10 \<Longrightarrow> 48 \<le> (word_of_nat (48 + d) :: u8) \<and> (word_of_nat (48 + d) :: u8) \<le> 57 \<and> unat (word_of_nat (48 + d) :: u8) = 48 + d"
proof -
  assume "d < 10"
  then have "unat (word_of_nat (48 + d) :: u8) = 48 + d" by (subst unat_of_nat) simp
  with \<open>d < 10\<close> show ?thesis unfolding word_le_nat_alt by simp
qed

lemma digits_of_dec_nat: "digits_value 0 (dec_nat n) = Some n"
proof (induction n rule: dec_nat.induct)
  case (1 n)
  show ?case
  proof (cases "n < 10")
    case True
    then show ?thesis using digit_byte [of n] by (simp add: dec_nat.simps [of n])
  next
    case False
    then show ?thesis using 1 digit_byte [of "n mod 10"] by (simp add: dec_nat.simps [of n] digits_value_append)
  qed
qed

lemma dec_nat_hd: "dec_nat n \<noteq> [] \<and> (\<forall>b \<in> set (dec_nat n). 48 \<le> b \<and> b \<le> 57)"
proof (induction n rule: dec_nat.induct)
  case (1 n)
  then show ?case using digit_byte [of n] digit_byte [of "n mod 10"]
    by (cases "n < 10") (auto simp: dec_nat.simps [of n])
qed

lemma parse_int_dec:
  assumes "lo \<le> i" "i \<le> hi" "0 \<le> i \<or> has_sign"
  shows "parse_int has_sign lo hi (dec_int i) = Some i"
proof (cases "i < 0")
  case True
  then show ?thesis using assms dec_nat_hd [of "nat (- i)"] by (simp add: parse_int_def dec_int_def digits_of_dec_nat)
next
  case False
  obtain b bs where b: "dec_nat (nat i) = b # bs" "48 \<le> b" using dec_nat_hd [of "nat i"] by (cases "dec_nat (nat i)") auto
  then have "b \<noteq> 43" "b \<noteq> 45" by auto
  then show ?thesis using False assms b digits_of_dec_nat [of "nat i"] by (simp add: parse_int_def dec_int_def)
qed

subsection \<open>Lines\<close>

definition unlines :: "rstring list \<Rightarrow> rstring" where
  "unlines ls = concat (map (\<lambda>l. l @ [10]) ls)"

lemma str_lines_unlines: "\<forall>l \<in> set ls. 10 \<notin> set l \<Longrightarrow> str_lines (unlines ls) = map strip_cr ls"
proof (induction ls)
  case Nil
  then show ?case by (simp add: unlines_def str_lines.simps)
next
  case (Cons l ls)
  have "takeWhile (\<lambda>b. b \<noteq> 10) (l @ 10 # unlines ls) = l" "dropWhile (\<lambda>b. b \<noteq> 10) (l @ 10 # unlines ls) = 10 # unlines ls"
    using Cons.prems by (auto simp: takeWhile_tail dropWhile_append)
  then show ?case using Cons by (subst str_lines.simps) (simp add: unlines_def)
qed

subsection \<open>Trimmed text\<close>

definition clean_front :: "bytes list \<Rightarrow> rstring \<Rightarrow> bool" where
  "clean_front ws s \<longleftrightarrow> (\<forall>w \<in> set ws. w \<noteq> [] \<longrightarrow> strip_prefix w s = None)"

lemma strip_while_clean: "clean_front ws s \<Longrightarrow> strip_while ws s = s"
  by (rule strip_while_id) (auto simp: clean_front_def find_None_iff)

lemma strip_while_shrinks: "length (strip_while ws s) \<le> length s"
proof (induction ws s rule: strip_while.induct)
  case (1 ws s)
  then show ?case by (subst strip_while.simps) (auto split: option.splits intro: order_trans)
qed

lemma strip_while_is_clean: "strip_while ws s = s \<Longrightarrow> clean_front ws s"
  using strip_while_stops [of ws s] by (auto simp: clean_front_def find_None_iff)

lemma trimmed_iff: "trim v = v \<longleftrightarrow> clean_front white_space v \<and> clean_front (map rev white_space) (rev v)"
proof
  assume t: "trim v = v"
  have "length (trim v) \<le> length (trim_start v)"
    using strip_while_shrinks [of "map rev white_space" "rev (trim_start v)"] by (simp add: trim_def trim_end_def)
  then have len: "length (trim_start v) = length v"
    using t strip_while_shrinks [of white_space v] by (simp add: trim_start_def)
  have "strip_while ws s = s" if "length (strip_while ws s) = length s" for ws s
  proof (cases "find (\<lambda>w. w \<noteq> [] \<and> strip_prefix w s \<noteq> None) ws")
    case None
    then show ?thesis by (rule strip_while_id)
  next
    case (Some w)
    then have w: "w \<noteq> []" "take (length w) s = w" by (auto simp: find_Some_iff strip_prefix_def split: if_splits)
    moreover have "length (take (length w) s) \<le> length s" by simp
    ultimately have "w \<noteq> []" "length w \<le> length s" by simp_all
    moreover have "strip_while ws s = strip_while ws (drop (length w) s)" by (subst strip_while.simps) (simp only: Some option.case)
    ultimately have "length (strip_while ws s) < length s"
      using strip_while_shrinks [of ws "drop (length w) s"] by (cases w) simp_all
    with that show ?thesis by simp
  qed
  with len have start: "trim_start v = v" by (simp add: trim_start_def)
  then have "rev (strip_while (map rev white_space) (rev v)) = v" using t by (simp add: trim_def trim_end_def)
  then have "strip_while (map rev white_space) (rev v) = rev v" by (simp add: rev_swap)
  with start show "clean_front white_space v \<and> clean_front (map rev white_space) (rev v)"
    by (auto simp: trim_start_def intro: strip_while_is_clean)
qed (simp add: trim_def trim_start_def trim_end_def strip_while_clean)

text \<open>No white space has a byte of ASCII from \<open>!\<close> on, so text may stand beside one without becoming white space.\<close>

definition visible :: "u8 \<Rightarrow> bool" where
  "visible b \<longleftrightarrow> 33 \<le> b \<and> b < 0x80"

lemma white_space_invisible: "w \<in> set white_space \<Longrightarrow> b \<in> set w \<Longrightarrow> \<not> visible b"
  by (auto simp: white_space_def visible_def)

lemma clean_front_visible:
  assumes "\<And>w b. w \<in> set ws \<Longrightarrow> b \<in> set w \<Longrightarrow> \<not> visible b" "visible b"
  shows "clean_front ws (a @ b # s) \<longleftrightarrow> clean_front ws a"
proof -
  have "strip_prefix w (a @ b # s) = None \<longleftrightarrow> strip_prefix w a = None" if "w \<in> set ws" for w
  proof (cases "length w \<le> length a")
    case True
    then show ?thesis by (simp add: strip_prefix_def)
  next
    case False
    then have "take (length w) (a @ b # s) = a @ b # take (length w - length a - 1) s"
      by (simp add: take_Cons split: nat.splits) (metis Suc_diff_Suc diff_Suc_Suc minus_nat.diff_0 not_le)
    then have "b \<in> set (take (length w) (a @ b # s))" by (simp only: set_append) simp
    moreover have "b \<notin> set w" using assms that by blast
    ultimately have "take (length w) (a @ b # s) \<noteq> w" by metis
    moreover have "take (length w) a \<noteq> w" using False by auto
    ultimately show ?thesis by (simp add: strip_prefix_def)
  qed
  then show ?thesis by (simp add: clean_front_def)
qed

lemma rev_white_space_invisible: "w \<in> set (map rev white_space) \<Longrightarrow> b \<in> set w \<Longrightarrow> \<not> visible b"
  using white_space_invisible by auto

lemma trimmed_key: "k \<noteq> [] \<Longrightarrow> \<forall>b \<in> set k. visible b \<Longrightarrow> trim k = k"
proof -
  assume k: "k \<noteq> []" "\<forall>b \<in> set k. visible b"
  have "clean_front ws (b # s)" if "\<And>w b. w \<in> set ws \<Longrightarrow> b \<in> set w \<Longrightarrow> \<not> visible b" "visible b" for ws b s
    using clean_front_visible [of ws b "[]" s] that by (simp add: clean_front_def strip_prefix_def)
  moreover have "visible (hd k)" "visible (hd (rev k))" using k by (auto simp: hd_rev)
  moreover have "k = hd k # tl k" "rev k = hd (rev k) # tl (rev k)" using k by simp_all
  ultimately show ?thesis
    unfolding trimmed_iff using white_space_invisible rev_white_space_invisible by metis
qed

subsection \<open>A configuration in a file\<close>

definition bool_text :: "bool \<Rightarrow> rstring" where
  "bool_text b = (if b then ascii ''true'' else ascii ''false'')"

text \<open>A reference writer: each key with its value.\<close>

definition setting_pairs :: "server_config \<Rightarrow> (rstring \<times> rstring) list" where
  "setting_pairs c =
    [(ascii ''server-ip'', cfg_host c), (ascii ''server-port'', dec_int (uint (cfg_port c))),
     (ascii ''max-players'', dec_int (sint (cfg_max_players c))), (ascii ''online-mode'', bool_text (cfg_online_mode c)),
     (ascii ''view-distance'', dec_int (sint (cfg_view_distance c))),
     (ascii ''simulation-distance'', dec_int (sint (cfg_simulation_distance c))), (ascii ''motd'', cfg_motd c),
     (ascii ''white-list'', bool_text (cfg_white_list c)), (ascii ''level-name'', cfg_level_name c),
     (ascii ''gamemode'', dec_int (uint (cfg_default_gamemode c))), (ascii ''pvp'', bool_text (cfg_pvp c)),
     (ascii ''allow-nether'', bool_text (cfg_allow_nether c)),
     (ascii ''connection-timeout'', dec_int (uint (cfg_connection_timeout_secs c))),
     (ascii ''network-compression-threshold'', dec_int (sint (cfg_network_compression_threshold c))),
     (ascii ''keep-alive-timeout'', dec_int (uint (cfg_keep_alive_timeout_secs c))),
     (ascii ''autosave-interval'', dec_int (uint (cfg_autosave_interval_secs c))),
     (ascii ''hakoniwa-size'', map_size_as_str (cfg_hakoniwa_size c))]"

definition setting_line :: "rstring \<times> rstring \<Rightarrow> rstring" where
  "setting_line = (\<lambda>(k, v). k @ 61 # v)"

definition is_setting :: "rstring \<Rightarrow> bool" where
  "is_setting line \<longleftrightarrow> trim line \<noteq> [] \<and> hd (trim line) \<noteq> 35"

definition setting_ok :: "rstring \<times> rstring \<Rightarrow> bool" where
  "setting_ok = (\<lambda>(k, v). k \<noteq> [] \<and> (\<forall>b \<in> set k. visible b) \<and> 61 \<notin> set k \<and> trim v = v)"

lemma setting_line_trimmed:
  assumes "setting_ok (k, v)"
  shows "trim (setting_line (k, v)) = setting_line (k, v)"
proof -
  from assms obtain b ks where k: "k = b # ks" "visible b" by (cases k) (auto simp: setting_ok_def)
  have front: "clean_front white_space (b # ks @ 61 # v)"
    using clean_front_visible [of white_space b "[]" "ks @ 61 # v"] white_space_invisible k(2)
    by (simp add: clean_front_def strip_prefix_def)
  have "clean_front (map rev white_space) (rev v)" using assms by (simp add: setting_ok_def trimmed_iff)
  moreover have "visible 61" by (simp add: visible_def)
  ultimately have "clean_front (map rev white_space) (rev v @ 61 # rev k)"
    using clean_front_visible [of "map rev white_space" 61 "rev v" "rev k"] rev_white_space_invisible by blast
  with front k(1) show ?thesis by (simp add: trimmed_iff setting_line_def)
qed

lemma setting_line_split: "setting_ok (k, v) \<Longrightarrow> split_once 61 (setting_line (k, v)) = Some (k, v)"
  by (auto simp: setting_ok_def split_once_def setting_line_def dropWhile_append takeWhile_tail split: list.splits)

lemma config_map_settings:
  assumes "filter is_setting ls = map setting_line ps" "\<forall>p \<in> set ps. setting_ok p"
  shows "config_map i ls m = Inr (fold (\<lambda>(k, v) m. m(k \<mapsto> v)) ps m)"
  using assms
proof (induction ls arbitrary: i ps m)
  case (Cons l ls)
  show ?case
  proof (cases "is_setting l")
    case False
    then show ?thesis using Cons by (auto simp: is_setting_def Let_def)
  next
    case True
    then obtain k v ps' where ps: "ps = (k, v) # ps'" "l = setting_line (k, v)" "filter is_setting ls = map setting_line ps'"
      using Cons.prems(1) by (cases ps) auto
    have ok: "setting_ok (k, v)" "\<forall>p \<in> set ps'. setting_ok p" using Cons.prems(2) ps(1) by auto
    then have "trim k = k" "trim v = v" using trimmed_key by (auto simp: setting_ok_def)
    then show ?thesis
      using True Cons.IH [OF ps(3) ok(2)] setting_line_trimmed [OF ok(1)] setting_line_split [OF ok(1)]
      by (simp add: is_setting_def Let_def ps(1,2) cong: if_cong)
  qed
qed simp

lemma fold_updates_other: "k \<notin> fst ` set ps \<Longrightarrow> fold (\<lambda>(k, v) m. m(k \<mapsto> v)) ps m k = m k"
  by (induction ps arbitrary: m) auto

lemma fold_updates: "distinct (map fst ps) \<Longrightarrow> (k, v) \<in> set ps \<Longrightarrow> fold (\<lambda>(k, v) m. m(k \<mapsto> v)) ps m k = Some v"
  by (induction ps arbitrary: m) (auto simp: fold_updates_other image_iff)

lemma parse_written:
  "parse_u8 (dec_int (uint a)) key = Inr a" "parse_u16 (dec_int (uint b)) key = Inr b"
  "parse_u64 (dec_int (uint n)) key = Inr n" "parse_i32 (dec_int (sint i)) key = Inr i"
proof -
  have "uint a \<le> 255" "uint b \<le> 65535" "uint n \<le> 18446744073709551615" "- 2147483648 \<le> sint i" "sint i \<le> 2147483647"
    using uint_lt2p [of a] uint_lt2p [of b] uint_lt2p [of n] sint_ge [of i] sint_lt [of i] by simp_all
  then show "parse_u8 (dec_int (uint a)) key = Inr a" "parse_u16 (dec_int (uint b)) key = Inr b"
    "parse_u64 (dec_int (uint n)) key = Inr n" "parse_i32 (dec_int (sint i)) key = Inr i"
    by (simp_all add: parse_u8_def parse_u16_def parse_u64_def parse_i32_def parse_number_def parse_int_dec)
qed

lemma parse_written_words:
  "parse_bool (bool_text b) key = Inr b" "parse_size (map_size_as_str z) key = Inr z" "parse_text v key = Inr v"
proof -
  show "parse_bool (bool_text b) key = Inr b"
    by (simp add: parse_bool_def bool_text_def ascii_lowercase_def ascii_def)
  show "parse_size (map_size_as_str z) key = Inr z"
    by (cases z) (simp_all add: parse_size_def map_size_parse_def map_size_as_str_def ascii_lowercase_def ascii_def)
qed (simp add: parse_text_def)

lemma setting_put: "m (ascii key) = Some v \<Longrightarrow> parse v (ascii key) = Inr a \<Longrightarrow>
    setting key parse put m c = (Inr (), put a c)"
  by (simp add: setting_def)

lemma apply_settings:
  assumes "\<forall>(k, v) \<in> set (setting_pairs c). m k = Some v"
  shows "apply_config_values m c0 = (Inr (), c)"
proof -
  note found = assms [unfolded setting_pairs_def, simplified]
  show ?thesis
    unfolding apply_config_values_def enc_all.simps
    by (simp add: st_bind_def setting_put found parse_written parse_written_words)
qed

lemma written_settings_ok:
  assumes "trim (cfg_host c) = cfg_host c" "trim (cfg_motd c) = cfg_motd c" "trim (cfg_level_name c) = cfg_level_name c"
  shows "\<forall>p \<in> set (setting_pairs c). setting_ok p" "distinct (map fst (setting_pairs c))"
proof -
  have visible: "trim v = v" if "v \<noteq> []" "\<forall>b \<in> set v. 45 \<le> b \<and> b < 0x80" for v
  proof (rule trimmed_key [OF that(1)])
    show "\<forall>b \<in> set v. visible b"
      using that(2) by (auto simp: visible_def intro: order_trans [of 33 "45 :: u8"])
  qed
  have "trim (dec_int i) = dec_int i" for i
  proof (rule visible)
    show "dec_int i \<noteq> []" using dec_nat_hd by (simp add: dec_int_def)
    have "45 \<le> b \<and> b < 0x80" if "48 \<le> b \<and> b \<le> 57" for b :: u8
      using that by (auto intro: order_trans [of 45 "48 :: u8"] order.strict_trans1 [of b 57])
    then show "\<forall>b \<in> set (dec_int i). 45 \<le> b \<and> b < 0x80" using dec_nat_hd by (auto simp: dec_int_def)
  qed
  moreover have "trim (bool_text b) = bool_text b" for b
    by (rule visible) (auto simp: bool_text_def ascii_def)
  moreover have "trim (map_size_as_str z) = map_size_as_str z" for z
    by (rule visible) (cases z; simp add: map_size_as_str_def ascii_def)+
  ultimately show "\<forall>p \<in> set (setting_pairs c). setting_ok p"
    using assms by (simp add: setting_pairs_def setting_ok_def visible_def ascii_def)
  show "distinct (map fst (setting_pairs c))" by (simp add: setting_pairs_def)
qed

text \<open>
  C34: A configuration is what its file says. Take any configuration whose texts have no white space at their ends, and
  a file that has one line \<open>key=value\<close> for each setting, in any order, and otherwise only comments and blank lines. Then
  \<open>load_config\<close> gives that configuration, with the host and port of the command line in place of its own if they are there.
\<close>

theorem configuration_reads_back:
  assumes "trim (cfg_host c) = cfg_host c" "trim (cfg_motd c) = cfg_motd c" "trim (cfg_level_name c) = cfg_level_name c"
    and "filter is_setting ls = map setting_line ps" "mset ps = mset (setting_pairs c)"
    and "\<forall>l \<in> set ls. 10 \<notin> set l \<and> 13 \<notin> set l"
    and "fs [path] = Some (unlines ls)" "rd [path] = None" "utf8_valid (unlines ls)"
  shows "load_config rd fs \<lparr>sa_config_path = Some path, sa_host = host, sa_port = port\<rparr> =
    Inr (c\<lparr>cfg_host := case host of Some h \<Rightarrow> h | None \<Rightarrow> cfg_host c,
      cfg_port := case port of Some p \<Rightarrow> p | None \<Rightarrow> cfg_port c\<rparr>)"
proof -
  have "map strip_cr ls = ls" using assms(6) by (intro map_idI) (auto simp: strip_cr_def dest: last_in_set)
  then have lines: "str_lines (unlines ls) = ls" using str_lines_unlines [of ls] assms(6) by simp
  have ok: "\<forall>p \<in> set ps. setting_ok p" "distinct (map fst ps)" "set ps = set (setting_pairs c)"
    using written_settings_ok [OF assms(1-3)] assms(5) mset_eq_setD [OF assms(5)]
      mset_eq_imp_distinct_iff [of "map fst ps" "map fst (setting_pairs c)"] by auto
  have "apply_config_values (fold (\<lambda>(k, v) m. m(k \<mapsto> v)) ps Map.empty) server_config_default = (Inr (), c)"
    by (rule apply_settings) (use fold_updates [OF ok(2)] ok(3) in auto)
  then have "parse_config_string (unlines ls) = Inr c"
    by (simp add: parse_config_string_def lines config_map_settings [OF assms(4) ok(1)])
  then show ?thesis using assms(7-9) by (simp add: load_config_def parse_config_file_def fs_read_def split: option.splits)
qed

text \<open>The default settings in reverse order, with a comment and a blank line, and a port on the command line.\<close>

theorem configuration_reads_back_witness:
  "\<exists>ls. load_config (\<lambda>_. None) (\<lambda>_. Some (unlines ([35, 33] # [] # ls)))
      \<lparr>sa_config_path = Some (ascii ''server.properties''), sa_host = None, sa_port = Some 25566\<rparr> =
    Inr (server_config_default\<lparr>cfg_port := 25566\<rparr>)"
proof -
  define ps where "ps = rev (setting_pairs server_config_default)"
  define ls where "ls = [35, 33] # [] # map setting_line ps"
  have texts: "trim (cfg_host server_config_default) = cfg_host server_config_default"
    "trim (cfg_motd server_config_default) = cfg_motd server_config_default"
    "trim (cfg_level_name server_config_default) = cfg_level_name server_config_default"
    by (simp_all add: trimmed_iff clean_front_def strip_prefix_def server_config_default_def white_space_def ascii_def)
  have "setting_ok p" "is_setting (setting_line p)" if "p \<in> set ps" for p
  proof -
    show ok: "setting_ok p" using written_settings_ok(1) [OF texts] that by (simp add: ps_def)
    obtain k v where p: "p = (k, v)" by (cases p)
    have "fst p \<in> set (map fst (setting_pairs server_config_default))" using that by (simp add: ps_def)
    then have "hd k \<noteq> 35" using p by (auto simp: setting_pairs_def ascii_def)
    then show "is_setting (setting_line p)"
      using setting_line_trimmed [of k v] ok p by (cases k) (auto simp: is_setting_def setting_line_def setting_ok_def)
  qed
  moreover have "\<not> is_setting [35, 33]" "\<not> is_setting []"
    by (simp_all add: is_setting_def trimmed_iff [THEN iffD2] clean_front_def strip_prefix_def white_space_def)
  ultimately have settings: "filter is_setting ls = map setting_line ps" by (simp add: ls_def filter_map comp_def)
  have plain: "\<forall>l \<in> set ls. \<forall>b \<in> set l. b \<noteq> 10 \<and> b \<noteq> 13 \<and> b < 0x80"
    by (simp add: ls_def ps_def setting_pairs_def setting_line_def server_config_default_def ascii_def bool_text_def
        map_size_as_str_def dec_int_def dec_nat.simps)
  then have "\<forall>b \<in> set (unlines ls). b < 0x80" by (auto simp: unlines_def)
  then have "utf8_valid (unlines ls)" using utf8_scan_ascii [of "unlines ls"] by (simp add: utf8_valid_def)
  with configuration_reads_back [OF texts settings, where fs = "\<lambda>_. Some (unlines ls)" and path = "ascii ''server.properties''"
      and rd = "\<lambda>_. None" and host = None and port = "Some 25566"] plain show ?thesis by (auto simp: ls_def ps_def)
qed

end
