(* ===== verification/Session_Faults.thy ===== *)
theory Session_Faults
  imports Session_Safety
begin

section \<open>Two faults of the session (\<open>session.rs\<close>)\<close>

text \<open>
  A client that never answers a keep-alive is never timed out, since each new keep-alive restarts the clock; and the
  reason of a disconnect is written without the compression the client expects. Both are theorems about the model, which
  follows the code.
\<close>

subsection \<open>The keep-alive clock\<close>

definition writes_succeed :: "session_env \<Rightarrow> bool" where
  "writes_succeed env \<longleftrightarrow> (\<forall>before wire. sx_write_fails env before wire = None)"

text \<open>A keep-alive is nine bytes, which no threshold of nine or more compresses.\<close>

definition room_for_keep_alive :: "player_session \<Rightarrow> bool" where
  "room_for_keep_alive s \<longleftrightarrow> 10 \<le> effective_max_length (ses_max_frame_length s)
    \<and> (sint (ses_compression_threshold s) < 0 \<or> 9 \<le> sint (ses_compression_threshold s))"

lemma small_body_uncompressed:
  assumes "9 \<le> sint (t :: i32)" "length b \<le> 9"
  shows "compressed_body deflate t b = Inr (0 # b)"
proof -
  have "usize_of_i32 t = Some (nat (sint t))" using assms(1) by (simp add: usize_of_i32_def)
  moreover have "\<not> nat (sint t) < length b" using assms by linarith
  ultimately show ?thesis by (simp add: compressed_body_def packet_eval)
qed

lemma keep_alive_goes_out:
  assumes "writes_succeed env" "room_for_keep_alive s"
  shows "\<exists>w. session_keep_alive env now k s =
    (Inr (), s\<lparr>ses_written := w, ses_last_keep_alive_payload := k, ses_last_keep_alive_sent := Some now\<rparr>)"
proof -
  let ?m = "ses_max_frame_length s" and ?t = "ses_compression_threshold s" and ?b = "encode_i64 k []"
  have len: "length ?b = 8" by (simp add: encode_i64_def)
  have pid: "var_int_length 35 = 1" "encode_var_int 35 [] = [35]" by (simp_all add: packet_eval)
  have fits: "var_int_length 35 + length ?b \<le> effective_max_length ?m"
    using assms(2) by (simp add: len pid room_for_keep_alive_def)
  have enc: "encode_keep_alive_clientbound \<lparr>ka_payload = k\<rparr> ?m [] = (Inr (), frame_bytes 35 ?b)"
    using fits by (simp add: encode_keep_alive_clientbound_def KEEP_ALIVE_CLIENTBOUND_PACKET_ID_def encode_packet_Inr run_body_def)
  have wire: "\<exists>w. send_wire env (frame_bytes 35 ?b) s = (Inr (), s\<lparr>ses_written := w\<rparr>)"
  proof (cases "sint ?t < 0")
    case True
    then show ?thesis using assms(1) by (auto simp: send_wire_def sess_write_def writes_succeed_def)
  next
    case False
    then have t: "9 \<le> sint ?t" using assms(2) by (simp add: room_for_keep_alive_def)
    have body: "compressed_body (sx_deflate env) ?t (encode_var_int 35 [] @ ?b) = Inr (0 # encode_var_int 35 [] @ ?b)"
      by (rule small_body_uncompressed [OF t]) (simp add: len pid)
    obtain w where "encode_compressed_frame (sx_deflate env) 35 ?b ?t ?m [] = (Inr (), w)"
      using False body assms(2) len pid
      by (simp add: encode_compressed_frame_def Let_def encode_raw_frame_Inr room_for_keep_alive_def)
    then show ?thesis
      using False assms(1) decode_frame_bytes [OF fits, of "[]"]
      by (auto simp: send_wire_def sess_write_def writes_succeed_def)
  qed
  then show ?thesis
    by (auto simp: session_keep_alive_def send_packet_def enc st_bind_def)
qed

text \<open>What a silent client is sent: only keep-alives, each pass within the timeout of the last one sent.\<close>

definition last_ping :: "nat option \<Rightarrow> (nat \<times> session_event) list \<Rightarrow> nat option" where
  "last_ping sent evs = fold (\<lambda>(now, _) _. Some now) evs sent"

fun is_keep_alive :: "session_event \<Rightarrow> bool" where
  "is_keep_alive (KeepAlive_ev _) = True"
| "is_keep_alive _ = False"

fun pinged_in_time :: "nat \<Rightarrow> nat option \<Rightarrow> pass_input list \<Rightarrow> bool" where
  "pinged_in_time timeout sent [] = True"
| "pinged_in_time timeout sent (inp # inps) =
    (list_all (\<lambda>(_, ev). is_keep_alive ev) (pas_events inp) \<and> pas_read inp = ReadRetry
     \<and> (let sent = last_ping sent (pas_events inp) in
        (case sent of None \<Rightarrow> True | Some at \<Rightarrow> pas_now inp - at \<le> timeout) \<and> pinged_in_time timeout sent inps))"

definition untouched :: "player_session \<Rightarrow> player_session \<Rightarrow> bool" where
  "untouched s t \<longleftrightarrow> ses_told t = ses_told s \<and> ses_last_keep_alive_response t = ses_last_keep_alive_response s
    \<and> ses_keep_alive_timeout t = ses_keep_alive_timeout s \<and> room_for_keep_alive t = room_for_keep_alive s"

lemma untouched_trans: "untouched s t \<Longrightarrow> untouched t u \<Longrightarrow> untouched s u"
  by (simp add: untouched_def)

lemma pings_go_out:
  assumes "writes_succeed env" "room_for_keep_alive s" "list_all (\<lambda>(_, ev). is_keep_alive ev) evs"
  shows "\<exists>b t. poll_events env evs s = (Inr b, t) \<and> untouched s t \<and> ses_last_keep_alive_sent t = last_ping (ses_last_keep_alive_sent s) evs"
  using assms(2,3)
proof (induction evs arbitrary: s)
  case Nil
  then show ?case by (auto simp: untouched_def last_ping_def)
next
  case (Cons e evs)
  then obtain now k where e: "e = (now, KeepAlive_ev k)" by (cases e; cases "snd e") auto
  from keep_alive_goes_out [OF assms(1) Cons.prems(1), of now k] obtain w
    where ka: "session_keep_alive env now k s =
      (Inr (), s\<lparr>ses_written := w, ses_last_keep_alive_payload := k, ses_last_keep_alive_sent := Some now\<rparr>)" by blast
  let ?s = "s\<lparr>ses_written := w, ses_last_keep_alive_payload := k, ses_last_keep_alive_sent := Some now\<rparr>"
  have u: "untouched s ?s" by (simp add: untouched_def room_for_keep_alive_def)
  have "room_for_keep_alive ?s" using Cons.prems(1) by (simp add: room_for_keep_alive_def)
  from Cons.IH [OF this] Cons.prems(2) obtain b t where t: "poll_events env evs ?s = (Inr b, t)" "untouched ?s t"
    "ses_last_keep_alive_sent t = last_ping (Some now) evs" by auto
  show ?case
    using ka t(1,3) untouched_trans [OF u t(2)] by (auto simp: e st_bind_def last_ping_def)
qed

lemma nothing_to_decode: "try_decode_play_packet env [] m threshold = (Inr None, [])"
proof -
  have v: "decode_var_int [] = (Inl IncompleteInput, [])" by (simp add: decode_var_int_spec var_width_def)
  then have "decode_frame m [] = (Inr FrameIncomplete, [])" by (simp add: decode_frame_def)
  then show ?thesis
    by (simp add: try_decode_play_packet_def try_decode_play_packet_inner_def decode_compressed_frame_def v
        try_decoders_dispatch [OF chain_stands_for_table] dispatch_frame_def decode_raw_frame_def)
qed

lemma silent_passes:
  assumes "writes_succeed env"
  shows "room_for_keep_alive s \<Longrightarrow> pinged_in_time (ses_keep_alive_timeout s) (ses_last_keep_alive_sent s) inps \<Longrightarrow>
    \<exists>t. play_passes env config inps [] s = Passed t [] \<and> untouched s t"
proof (induction inps arbitrary: s)
  case Nil
  then show ?case by (simp add: untouched_def)
next
  case (Cons inp inps)
  from pings_go_out [OF assms Cons.prems(1), of "pas_events inp"] Cons.prems(2) obtain b t
    where t: "poll_events env (pas_events inp) s = (Inr b, t)" "untouched s t"
      "ses_last_keep_alive_sent t = last_ping (ses_last_keep_alive_sent s) (pas_events inp)" by auto
  have "\<not> is_keep_alive_timed_out (pas_now inp) t"
    using Cons.prems(2) t(2,3)
    by (auto simp: is_keep_alive_timed_out_def untouched_def Let_def split: option.splits)
  then have pass: "play_pass env config inp [] s = Passed t []"
    using Cons.prems(2) by (simp add: play_pass_def t(1) take_packet_def nothing_to_decode)
  have "\<exists>u. play_passes env config inps [] t = Passed u [] \<and> untouched t u"
    by (rule Cons.IH) (use Cons.prems t(2,3) in \<open>simp_all add: untouched_def Let_def\<close>)
  then show ?case using pass untouched_trans [OF t(2)] by auto
qed

text \<open>A client that is sent a keep-alive every \<open>interval\<close> and says nothing; the session looks once per unit of time.\<close>

definition silence :: "nat \<Rightarrow> nat \<Rightarrow> nat \<Rightarrow> pass_input list" where
  "silence interval start n = map (\<lambda>now. \<lparr>pas_events = (if now mod interval = 0 then [(now, KeepAlive_ev (word_of_nat now))] else []),
    pas_now = now, pas_read = ReadRetry\<rparr>) [start..<start + n]"

lemma silence_pinged:
  assumes "0 < interval" "interval \<le> timeout" "\<And>at. sent = Some at \<Longrightarrow> start mod interval \<noteq> 0 \<Longrightarrow> start - at \<le> start mod interval"
  shows "pinged_in_time timeout sent (silence interval start n)"
  using assms(3)
proof (induction n arbitrary: start sent)
  case 0
  then show ?case by (simp add: silence_def)
next
  case (Suc n)
  define now_sent where "now_sent = (if start mod interval = 0 then Some start else sent)"
  have step: "silence interval start (Suc n) =
      \<lparr>pas_events = (if start mod interval = 0 then [(start, KeepAlive_ev (word_of_nat start))] else []),
        pas_now = start, pas_read = ReadRetry\<rparr> # silence interval (Suc start) n"
    by (simp add: silence_def upt_conv_Cons del: upt_Suc)
  have old: "start - at \<le> start mod interval" if "now_sent = Some at" for at
    using that Suc.prems by (auto simp: now_sent_def split: if_splits)
  have new: "Suc start - at \<le> Suc start mod interval" if "now_sent = Some at" "Suc start mod interval \<noteq> 0" for at
    using old [OF that(1)] that(2) by (auto simp: mod_Suc split: if_splits)
  have "start - at \<le> timeout" if "now_sent = Some at" for at
    using old [OF that] mod_less_divisor [OF assms(1), of start] assms(2) by linarith
  moreover have "pinged_in_time timeout now_sent (silence interval (Suc start) n)"
    by (rule Suc.IH) (rule new)
  ultimately show ?case
    unfolding step now_sent_def by (cases "start mod interval = 0") (auto simp: last_ping_def split: option.splits)
qed

text \<open>
  C36: With keep-alives sent at least as often as the timeout, as the defaults of 15 and 30 seconds have it, a client
  that has fallen silent is never timed out, however long it stays so: each keep-alive restarts the clock of the one that
  was not answered. The session tells the tick loop nothing and has no newer answer, but it goes on.
\<close>

theorem silent_client_never_timed_out:
  assumes "writes_succeed env" "room_for_keep_alive s" "ses_last_keep_alive_sent s = None"
    and "0 < interval" "interval \<le> ses_keep_alive_timeout s"
  shows "\<exists>t. play_passes env config (silence interval start n) [] s = Passed t [] \<and> ses_told t = ses_told s
    \<and> ses_last_keep_alive_response t = ses_last_keep_alive_response s"
proof -
  have "pinged_in_time (ses_keep_alive_timeout s) (ses_last_keep_alive_sent s) (silence interval start n)"
    by (rule silence_pinged) (use assms in simp_all)
  from silent_passes [OF assms(1,2) this] show ?thesis by (auto simp: untouched_def)
qed

text \<open>A session with the default configuration, 30 seconds of timeout, in an hour of silence (milliseconds).\<close>

definition sample_session :: player_session where
  "sample_session = \<lparr>ses_entity_id = 5, ses_uuid = uuid_new 1 2, ses_username = ascii ''Steve'', ses_gamemode = Survival,
    ses_next_teleport_id = 1, ses_max_frame_length = 2097151, ses_compression_threshold = 256, ses_last_x = 0,
    ses_last_y = 0, ses_last_z = 0, ses_last_yaw = 0, ses_last_pitch = 0, ses_view_distance = 4,
    ses_simulation_distance = 4, ses_max_players = 8, ses_keep_alive_timeout = 30000, ses_last_keep_alive_payload = 0,
    ses_last_keep_alive_sent = None, ses_last_keep_alive_response = 0, ses_dimension = Overworld,
    ses_enabled_dimensions = dimension_set_default, ses_written = [], ses_told = []\<rparr>"

theorem silent_client_never_timed_out_witness:
  "\<exists>t. play_passes mirror_zlib sample_session_config (silence 15000 1 3600000) [] sample_session = Passed t [] \<and>
    ses_told t = [] \<and> ses_last_keep_alive_response t = 0"
  using silent_client_never_timed_out [where env = mirror_zlib and s = sample_session and interval = 15000 and start = 1
      and n = 3600000 and config = sample_session_config]
  by (simp add: writes_succeed_def mirror_zlib_def room_for_keep_alive_def sample_session_def effective_max_length_def
      PROTOCOL_MAX_FRAME_LENGTH_def)

subsection \<open>The disconnect packet\<close>

definition disconnect_json :: "rstring \<Rightarrow> rstring" where
  "disconnect_json reason = [123, 34] @ ascii ''text'' @ [34, 58, 34] @ reason @ [34, 125]"

definition disconnect_payload :: "rstring \<Rightarrow> bytes" where
  "disconnect_payload reason =
    encode_var_int (word_of_nat (length (disconnect_json reason))) [] @ disconnect_json reason"

lemma disconnect_written:
  assumes "ses_written (send_disconnect env reason s) = ses_written s @ w" "w \<noteq> []"
  shows "w = frame_bytes 26 (disconnect_payload reason)"
    and "var_int_length 26 + length (disconnect_payload reason) \<le> effective_max_length (ses_max_frame_length s)"
  using assms
  by (auto simp: send_disconnect_def encode_disconnect_play_def disconnect_play_body_def DISCONNECT_PLAY_PACKET_ID_def
      encode_packet_Inr run_body_Inr encode_string_Inr sess_write_def disconnect_payload_def disconnect_json_def
      st_map_err_def split: prod.splits sum.splits option.splits)

text \<open>
  C37: A disconnect reason reaches the client exactly when compression is off: with a threshold negotiated the
  frame is not in the compressed form, and whatever zlib makes of the bytes, the client does not read the packet that was
  sent. All reasons the session gives are long enough for this.
\<close>

theorem disconnect_read_iff_uncompressed:
  assumes "ses_written (send_disconnect env reason s) = ses_written s @ w" "w \<noteq> []" "14 \<le> length reason"
  shows "fst (decode_compressed_frame (sx_inflate env) (ses_compression_threshold s) (ses_max_frame_length s) (w @ rest)) =
      Inr (CompressedComplete \<lparr>dp_packet_id = DISCONNECT_PLAY_PACKET_ID, dp_payload = disconnect_payload reason\<rparr>)
    \<longleftrightarrow> sint (ses_compression_threshold s) < 0"
proof (cases "sint (ses_compression_threshold s) < 0")
  case True
  then show ?thesis
    by (simp add: disconnect_written(1) [OF assms(1,2)] decode_compressed_frame_def DISCONNECT_PLAY_PACKET_ID_def
        decode_frame_bytes [OF disconnect_written(2) [OF assms(1,2)]])
next
  case False
  let ?b = "disconnect_payload reason"
  have pid: "encode_var_int 26 [] = [26]" "var_int_length 26 = 1" by (simp_all add: packet_eval)
  have fits: "length (26 # ?b) \<le> effective_max_length (ses_max_frame_length s)"
    using disconnect_written(2) [OF assms(1,2)] by (simp add: pid)
  have prefix: "1 \<le> length (encode_var_int v [])" for v
    by (cases "encode_var_int v []") (simp_all add: encode_var_int_Nil)
  have long: "26 \<le> length ?b"
    using assms(3) prefix [of "word_of_nat (length (disconnect_json reason))"]
    by (simp add: disconnect_payload_def disconnect_json_def ascii_def)
  have w: "w = encode_var_int (word_of_nat (length (26 # ?b))) [] @ 26 # ?b"
    using disconnect_written(1) [OF assms(1,2)] by (simp add: frame_bytes_def pid)
  have raw: "decode_raw_frame (ses_max_frame_length s) (w @ rest) = (Inr (RawComplete (26 # ?b)), rest)"
    using decode_raw_frame_bytes [OF fits, of rest] by (simp add: w)
  have len: "decode_var_int (26 # ?b) = (Inr 26, ?b)"
    using var_int.roundtrip [of 26 ?b] by (simp add: pid)
  have short: "length payload < 26" if "decode_var_int d = (Inr v, payload)" "length d = 26" for d v payload
    using decode_var_int_shorter [OF that(1)] that(2) by simp
  have "parse_compressed_body (sx_inflate env) (26 # ?b) \<noteq>
      Inr \<lparr>dp_packet_id = DISCONNECT_PLAY_PACKET_ID, dp_payload = ?b\<rparr>"
    using long
    by (auto simp: parse_compressed_body_def len usize_of_i32_def split: sum.splits prod.splits dest!: short)
  then show ?thesis using False by (auto simp: decode_compressed_frame_def raw split: sum.splits)
qed

theorem disconnect_read_iff_uncompressed_witness:
  "fst (decode_compressed_frame (sx_inflate mirror_zlib) 256 2097151
      (ses_written (send_disconnect mirror_zlib (ascii ''Protocol error'') sample_session) @ [])) \<noteq>
    Inr (CompressedComplete \<lparr>dp_packet_id = DISCONNECT_PLAY_PACKET_ID,
      dp_payload = disconnect_payload (ascii ''Protocol error'')\<rparr>)"
proof -
  let ?w = "ses_written (send_disconnect mirror_zlib (ascii ''Protocol error'') sample_session)"
  have "?w \<noteq> []"
    by (simp add: send_disconnect_def encode_disconnect_play_def disconnect_play_body_def DISCONNECT_PLAY_PACKET_ID_def
        packet_eval sess_write_def mirror_zlib_def sample_session_def MAX_CHAT_COMPONENT_LENGTH_def)
  then show ?thesis
    using disconnect_read_iff_uncompressed [where env = mirror_zlib and s = sample_session and w = ?w
        and reason = "ascii ''Protocol error''" and rest = "[]"]
    by (simp add: sample_session_def ascii_def)
qed

end
