(* ===== verification/Session_Join.thy ===== *)
theory Session_Join
  imports Session_View Session_Faults
begin

section \<open>A session gets through its join (\<open>session.rs\<close>)\<close>

text \<open>
  The join is forty packets in a row, each built by an encoder that may refuse and written by a socket that may fail.
  Here is that the encoders never refuse: if the writes succeed, the session reaches its loop, and the client reads
  the forty packets in the order the protocol asks for.
\<close>

subsection \<open>Encoders that do not refuse\<close>

text \<open>An encoder that appends at most \<open>n\<close> bytes, the same to any output.\<close>

definition appends :: "nat \<Rightarrow> 'e encoder \<Rightarrow> bool" where
  "appends n body \<longleftrightarrow> (\<exists>w. length w \<le> n \<and> (\<forall>out. body out = (Inr (), out @ w)))"

named_theorems appends_intros

lemma appendsI: "(\<And>out. body out = (Inr (), out @ w)) \<Longrightarrow> length w \<le> n \<Longrightarrow> appends n body"
  by (auto simp: appends_def)

lemma appends_more: "appends n body \<Longrightarrow> n \<le> m \<Longrightarrow> appends m body"
  by (auto simp: appends_def)

lemma var_int_short: "length (encode_var_int v []) \<le> 5"
  by (simp add: encode_var_int_Nil var_int_groups_length)

lemma appends_bytes [appends_intros]: "appends (length bs) (st_mod (\<lambda>body. body @ bs))"
  by (rule appendsI [where w = bs]) simp_all

lemma appends_writer: "(\<And>out. f out = out @ w) \<Longrightarrow> length w \<le> n \<Longrightarrow> appends n (st_mod f)"
  by (rule appendsI [where w = w]) simp_all

lemma appends_prims [appends_intros]:
  "appends 1 (st_mod (encode_u8 a))" "appends 1 (st_mod (encode_i8 b))" "appends 1 (st_mod (encode_bool c))"
  "appends 4 (st_mod (encode_i32 d))" "appends 8 (st_mod (encode_i64 e))" "appends 4 (st_mod (encode_f32 f))"
  "appends 8 (st_mod (encode_f64 g))" "appends 5 (st_mod (encode_var_int v))"
proof -
  show "appends 1 (st_mod (encode_u8 a))" by (rule appends_writer [where w = "[a]"]) (simp_all add: encode_u8_def)
  show "appends 1 (st_mod (encode_i8 b))" by (rule appends_writer [where w = "encode_i8 b []"]) (simp_all add: encode_i8_def)
  show "appends 1 (st_mod (encode_bool c))"
    by (rule appends_writer [where w = "encode_bool c []"]) (simp_all add: encode_bool_def)
  show "appends 4 (st_mod (encode_i32 d))" by (rule appends_writer [where w = "to_be_bytes d"]) (simp_all add: encode_i32_def)
  show "appends 8 (st_mod (encode_i64 e))" by (rule appends_writer [where w = "to_be_bytes e"]) (simp_all add: encode_i64_def)
  show "appends 4 (st_mod (encode_f32 f))" by (rule appends_writer [where w = "to_be_bytes f"]) (simp_all add: encode_f32_def)
  show "appends 8 (st_mod (encode_f64 g))" by (rule appends_writer [where w = "to_be_bytes g"]) (simp_all add: encode_f64_def)
  show "appends 5 (st_mod (encode_var_int v))"
    by (rule appends_writer [where w = "encode_var_int v []"]) (rule encode_var_int_app, rule var_int_short)
qed

lemma appends_ret [appends_intros]: "appends 0 (st_ret ())" "appends 0 (enc_all [])"
  by (auto intro: appendsI [where w = "[]"])

lemma appends_bind [appends_intros]: "appends n a \<Longrightarrow> appends m b \<Longrightarrow> appends (n + m) (st_bind a (\<lambda>_. b))"
  unfolding appends_def by (elim exE conjE, rule_tac x = "w @ wa" in exI) (simp add: st_bind_def)

lemma appends_all [appends_intros]: "appends n a \<Longrightarrow> appends m (enc_all as) \<Longrightarrow> appends (n + m) (enc_all (a # as))"
  by (simp add: appends_bind)

lemma appends_map: "(\<And>x. x \<in> set xs \<Longrightarrow> appends n (f x)) \<Longrightarrow> appends (length xs * n) (enc_all (map f xs))"
  by (induction xs) (auto intro!: appends_intros simp del: enc_all.simps)

lemma appends_string: "str_ok n s \<Longrightarrow> appends (5 + length s) (st_map_err conv (encode_string s n))"
  by (rule appendsI [where w = "encode_var_int (word_of_nat (length s)) [] @ s"])
    (simp_all add: st_map_err_def var_int_short encode_string_ok)

lemma plain_ascii: "\<forall>b \<in> set s. b < 0x80 \<Longrightarrow> length s \<le> n \<Longrightarrow> length s \<le> i32_max \<Longrightarrow> str_ok n s"
  using utf8_scan_ascii [of s] by (simp add: str_ok_def utf8_valid_def utf16_units_def)

lemma names_ok:
  "str_ok 32767 (dimension_protocol_name d)" "length (dimension_protocol_name d) \<le> 20"
  "str_ok 32767 (ascii ''minecraft:brand'')"
proof -
  show "str_ok 32767 (dimension_protocol_name d)" "length (dimension_protocol_name d) \<le> 20"
    by (cases d; simp add: dimension_protocol_name_def plain_ascii ascii_def i32_max_def)+
  show "str_ok 32767 (ascii ''minecraft:brand'')" by (simp add: plain_ascii ascii_def i32_max_def)
qed

lemma tag_registries_ok: "r \<in> set tag_registries \<Longrightarrow> str_ok 32767 r \<and> length r \<le> 22"
  by (auto simp: tag_registries_def plain_ascii ascii_def i32_max_def)

subsection \<open>The packets of the join\<close>

text \<open>An encoder of one packet with a payload of at most \<open>n\<close> bytes.\<close>

definition emits :: "i32 \<Rightarrow> nat \<Rightarrow> (nat \<Rightarrow> play_error encoder) \<Rightarrow> bool" where
  "emits pid n enc \<longleftrightarrow> (\<forall>m. n + 5 \<le> effective_max_length m \<longrightarrow>
    (\<exists>b. enc m [] = (Inr (), frame_bytes pid b) \<and> length b \<le> n))"

lemma var_int_length_short: "var_int_length pid \<le> 5"
  by (simp add: var_int_length_correct var_int_short)

lemma emitsI:
  assumes "\<And>m. enc m = encode_play_frame pid body m" "appends k body" "k \<le> n"
  shows "emits pid n enc"
  unfolding emits_def
proof (intro allI impI)
  fix m assume "n + 5 \<le> effective_max_length m"
  moreover from assms(2) obtain b where b: "length b \<le> k" "body [] = (Inr (), b)" by (auto simp: appends_def)
  ultimately have "enc m [] = (Inr (), frame_bytes pid b)"
    using var_int_length_short [of pid] assms(3) by (simp add: assms(1) encode_packet_Inr run_body_def)
  then show "\<exists>b. enc m [] = (Inr (), frame_bytes pid b) \<and> length b \<le> n" using b assms(3) by auto
qed

text \<open>The bodies, each within the sum of its fields.\<close>

lemma appends_position [appends_intros]: "appends 8 (st_mod (encode_position3 p))"
  by (cases p, rule appends_writer [where w = "encode_position3 p []"])
    (simp_all add: encode_position3_def encode_position_def encode_i64_def)

lemma fixed_bodies:
  "emits CHANGE_DIFFICULTY_PACKET_ID 1000 (encode_change_difficulty p1)"
  "emits PLAYER_ABILITIES_PACKET_ID 1000 (encode_player_abilities p2)"
  "emits SET_HELD_ITEM_PACKET_ID 1000 (encode_set_held_item p3)"
  "emits ENTITY_EVENT_PACKET_ID 1000 (encode_entity_event p4)"
  "emits SET_DEFAULT_SPAWN_POSITION_PACKET_ID 1000 (encode_set_default_spawn_position p5)"
  "emits SET_CENTER_CHUNK_PACKET_ID 1000 (encode_set_center_chunk p6)"
  "emits SET_RENDER_DISTANCE_PACKET_ID 1000 (encode_set_render_distance p7)"
  "emits SET_SIMULATION_DISTANCE_PACKET_ID 1000 (encode_set_simulation_distance p8)"
  "emits GAME_EVENT_PACKET_ID 1000 (encode_game_event p9)"
  "emits SYNCHRONIZE_PLAYER_POSITION_PACKET_ID 1000 (encode_synchronize_player_position p10)"
  by (rule emitsI, rule other_encoders, unfold change_difficulty_body_def player_abilities_body_def set_held_item_body_def
      entity_event_body_def set_default_spawn_position_body_def set_center_chunk_body_def set_render_distance_body_def
      set_simulation_distance_body_def game_event_body_def synchronize_player_position_body_def,
      (rule appends_intros)+, simp)+

lemma emits_recipes: "emits UPDATE_RECIPES_PACKET_ID 1000 encode_update_recipes_empty"
  by (rule emitsI [OF encode_update_recipes_empty_def], (rule appends_intros)+) simp

lemma emits_brand:
  "emits PLUGIN_MESSAGE_CLIENTBOUND_PACKET_ID 1000
    (encode_plugin_message_clientbound \<lparr>pmc_channel = ascii ''minecraft:brand'', pmc_data = ascii ''rustbound''\<rparr>)"
  by (rule emitsI, rule encode_plugin_message_clientbound_def, unfold plugin_message_head_def plugin_message_clientbound.simps,
      (rule appends_intros appends_string names_ok(3) [folded MAX_CHAT_COMPONENT_LENGTH_def])+) simp

lemma emits_tags: "emits UPDATE_TAGS_PACKET_ID 1000 encode_update_tags_empty"
proof (rule emitsI [OF encode_update_tags_empty_def])
  have "appends 32 (enc_all [play_codec (encode_string r MAX_IDENTIFIER_LENGTH), st_mod (encode_var_int 0)])"
    if "r \<in> set tag_registries" for r
    by (rule appends_more [OF appends_all [OF appends_string appends_all [OF appends_prims(8) appends_ret(2)]]])
      (use tag_registries_ok [OF that] in \<open>simp_all add: MAX_IDENTIFIER_LENGTH_def\<close>)
  then show "appends (5 + (length tag_registries * 32 + 0)) (enc_all [st_mod (encode_var_int (word_of_nat (length tag_registries))),
      enc_all (map (\<lambda>registry. enc_all [play_codec (encode_string registry MAX_IDENTIFIER_LENGTH),
        st_mod (encode_var_int 0)]) tag_registries)])"
    by (intro appends_all appends_map appends_prims appends_ret)
qed (simp add: tag_registries_def)

lemma str_ok_more: "str_ok n s \<Longrightarrow> n \<le> m \<Longrightarrow> str_ok m s"
  by (simp add: str_ok_def)

lemma emits_player_info:
  assumes "str_ok 16 name"
  shows "emits PLAYER_INFO_UPDATE_PACKET_ID 1000 (encode_player_info_update (player_info_add u name gm))"
proof (rule emitsI [OF encode_player_info_update_def])
  have name: "appends 53 (play_codec (encode_string name MAX_CHAT_COMPONENT_LENGTH))"
    by (rule appends_more [OF appends_string])
      (use assms str_ok_bytes [OF assms] in \<open>simp_all add: str_ok_def MAX_CHAT_COMPONENT_LENGTH_def saturating_mul_def usize_max_def\<close>)
  have count: "encode_count n = st_mod (encode_var_int (word_of_nat n))" if "n \<le> 1" for n
    using that by (simp add: encode_count_def i32_of_usize_def i32_max_def)
  show "appends 200 (enc_all [st_mod (encode_u8 (piu_actions (player_info_add u name gm))),
      encode_count (length (piu_entries (player_info_add u name gm))),
      enc_all (map (player_info_entry_body (piu_actions (player_info_add u name gm))) (piu_entries (player_info_add u name gm)))])"
    unfolding player_info_add_def player_info_entry_body_def when_action_def
    by (simp add: count actions_has_def ADD_PLAYER_def INITIALIZE_CHAT_def UPDATE_GAMEMODE_def UPDATE_LISTED_def
        UPDATE_LATENCY_def UPDATE_DISPLAY_NAME_def del: enc_all.simps)
      (rule appends_more, (rule appends_intros name)+, simp)
qed simp

text \<open>The light of a chunk is most of it: two masks and 26 arrays of 2048 bytes.\<close>

lemma length_var_int_app: "length (encode_var_int v out) \<le> length out + 5"
  using var_int_short [of v] by (subst encode_var_int_app) simp

lemma length_bitset: "length (encode_bitset longs buf) \<le> length buf + 5 + 8 * length longs"
proof -
  have "length (fold (\<lambda>val b. b @ to_be_bytes val) longs out) = length out + 8 * length longs" for out :: bytes
    by (induction longs arbitrary: out) simp_all
  then show ?thesis unfolding encode_bitset_def using length_var_int_app by simp
qed

lemma length_light_arrays:
  "length (fold (\<lambda>_ b. encode_var_int (word_of_nat LIGHT_ARRAY_SIZE) b @ replicate LIGHT_ARRAY_SIZE 0xFF) xs buf)
    \<le> length buf + 2053 * length xs"
proof (induction xs arbitrary: buf)
  case (Cons x xs)
  show ?case using Cons [of "encode_var_int (word_of_nat LIGHT_ARRAY_SIZE) buf @ replicate LIGHT_ARRAY_SIZE 0xFF"]
    length_var_int_app [of "word_of_nat LIGHT_ARRAY_SIZE" buf]
    by (simp add: LIGHT_ARRAY_SIZE_def)
qed simp

lemma length_light_data: "length build_light_data \<le> 53424"
proof -
  define b1 where "b1 = encode_bitset [0x3FFFFFF] []"
  define b2 where "b2 = encode_bitset [] b1"
  define b3 where "b3 = encode_bitset [] b2"
  define b4 where "b4 = encode_bitset [0x3FFFFFF] b3"
  define b5 where "b5 = encode_var_int (word_of_nat NUM_LIGHT_SECTIONS) b4"
  define b6 where "b6 = fold (\<lambda>_ b. encode_var_int (word_of_nat LIGHT_ARRAY_SIZE) b @ replicate LIGHT_ARRAY_SIZE 0xFF)
      [0..<NUM_LIGHT_SECTIONS] b5"
  have "build_light_data = encode_var_int 0 b6"
    unfolding build_light_data_def Let_def b1_def b2_def b3_def b4_def b5_def b6_def ..
  moreover have "length b1 \<le> 13" "length b2 \<le> length b1 + 5" "length b3 \<le> length b2 + 5" "length b4 \<le> length b3 + 13"
    using length_bitset [of "[0x3FFFFFF]" "[]"] length_bitset [of "[]" b1] length_bitset [of "[]" b2]
      length_bitset [of "[0x3FFFFFF]" b3] by (simp_all add: b1_def b2_def b3_def b4_def)
  moreover have "length b5 \<le> length b4 + 5" unfolding b5_def by (rule length_var_int_app)
  moreover have "length b6 \<le> length b5 + 2053 * 26"
    using length_light_arrays [of "[0..<NUM_LIGHT_SECTIONS]" b5] by (simp add: b6_def NUM_LIGHT_SECTIONS_def del: upt_rec_numeral)
  ultimately show ?thesis using length_var_int_app [of 0 b6] by simp
qed

lemma length_section_data: "length (build_section_data fill) \<le> 600"
proof -
  have sec: "length (section_bytes s) \<le> 24" for s
    using var_int_short [of 0] var_int_short [of "fst (snd s)"] var_int_short [of "snd (snd s)"]
    by (cases s) (simp add: section_bytes_def encode_section_appends encode_u8_def encode_i16_def)
  have "length (concat (map section_bytes xs)) \<le> 24 * length xs" for xs
    by (induction xs) (use sec in \<open>auto intro: order_trans add_mono\<close>)
  from this [of "plateau_sections fill"] show ?thesis by (simp add: section_data_eq plateau_sections_def)
qed

lemma emits_chunk: "emits CHUNK_DATA_PACKET_ID 55000 (encode_chunk_data (build_chunk_data_packet cx cz d))"
proof (rule emitsI [OF encode_chunk_data_def])
  let ?p = "build_chunk_data_packet cx cz d"
  have p: "chd_heightmaps ?p = build_heightmaps_nbt" "chd_data ?p = build_section_data (plateau_block_for d)"
    "chd_block_entities ?p = []" "chd_light_data ?p = build_light_data"
    by (simp_all add: build_chunk_data_packet_def generate_chunk_def)
  have heights: "appends 638 (if length (chd_heightmaps ?p) > MAX_CHUNK_DATA_SIZE then st_fail (play_error.Codec StringTooLong)
      else st_mod (\<lambda>body. body @ chd_heightmaps ?p))"
    using heightmaps_are_nbt [of 0] appends_bytes [of build_heightmaps_nbt] by (simp add: p MAX_CHUNK_DATA_SIZE_def)
  have sections: "appends 605 (play_codec (encode_byte_array (chd_data ?p) MAX_CHUNK_DATA_SIZE))"
  proof (rule appendsI)
    fix out
    show "play_codec (encode_byte_array (chd_data ?p) MAX_CHUNK_DATA_SIZE) out =
        (Inr (), out @ encode_var_int (word_of_nat (length (chd_data ?p))) [] @ chd_data ?p)"
      using length_section_data [of "plateau_block_for d"] encode_var_int_app [of "word_of_nat (length (chd_data ?p))" out]
      by (simp add: p encode_byte_array_def st_map_err_def MAX_CHUNK_DATA_SIZE_def i32_of_usize_def i32_max_def)
    show "length (encode_var_int (word_of_nat (length (chd_data ?p))) [] @ chd_data ?p) \<le> 605"
      using length_section_data [of "plateau_block_for d"] var_int_short [of "word_of_nat (length (chd_data ?p))"]
      by (simp add: p)
  qed
  have entities: "appends 5 (encode_byte_arrays (chd_block_entities ?p) MAX_BLOCK_ENTITIES MAX_CHUNK_DATA_SIZE)"
  proof -
    have "encode_byte_arrays (chd_block_entities ?p) MAX_BLOCK_ENTITIES MAX_CHUNK_DATA_SIZE =
        enc_all [st_mod (encode_var_int 0), enc_all []]"
      by (simp add: p encode_byte_arrays_def i32_of_usize_def del: enc_all.simps)
    then show ?thesis
      using appends_all [OF appends_prims(8) appends_all [OF appends_ret(2) appends_ret(2)], of 0]
      by (simp del: enc_all.simps)
  qed
  have light: "appends 53424 (chunk_data_light ?p)"
    using length_light_data appends_more [OF appends_bytes [of build_light_data]]
    by (simp add: p chunk_data_light_def MAX_CHUNK_DATA_SIZE_def)
  show "appends (4 + (4 + (638 + (605 + (5 + 0)))) + 53424) (st_bind (chunk_data_head ?p) (\<lambda>_. chunk_data_light ?p))"
    unfolding chunk_data_head_def by (intro appends_bind appends_all appends_prims appends_ret heights sections entities light)
qed simp

lemma length_protocol_names: "length (protocol_names ds) \<le> 3"
  by (simp add: protocol_names_def dimension_all_def)

lemma protocol_names_ok: "n \<in> set (protocol_names ds) \<Longrightarrow> str_ok MAX_IDENTIFIER_LENGTH n \<and> length n \<le> 20"
  by (auto simp: protocol_names_def MAX_IDENTIFIER_LENGTH_def names_ok)

lemma appends_names: "appends 80 (encode_string_list (protocol_names ds) MAX_DIMENSION_NAMES MAX_IDENTIFIER_LENGTH)"
proof -
  have "appends 25 (play_codec (encode_string n MAX_IDENTIFIER_LENGTH))" if "n \<in> set (protocol_names ds)" for n
    using appends_more [OF appends_string, of MAX_IDENTIFIER_LENGTH n 25] protocol_names_ok [OF that] by simp
  then have "appends (5 + (length (protocol_names ds) * 25 + 0)) (enc_all [st_mod (encode_var_int (word_of_nat (length (protocol_names ds)))),
      enc_all (map (\<lambda>n. play_codec (encode_string n MAX_IDENTIFIER_LENGTH)) (protocol_names ds))])"
    by (intro appends_all appends_map appends_prims appends_ret)
  from appends_more [OF this, of 80] show ?thesis
    using length_protocol_names [of ds]
    by (simp add: encode_string_list_def i32_of_usize_def i32_max_def MAX_DIMENSION_NAMES_def del: enc_all.simps)
qed

lemma emits_join_game:
  assumes "length (sx_registry_codec env) \<le> 54000"
  shows "emits JOIN_GAME_PACKET_ID 55000 (encode_join_game (join_game_packet env s))"
proof (rule emitsI [OF encode_join_game_def])
  have codec: "appends 54000 (encode_bounded_nbt (sx_registry_codec env) MAX_REGISTRY_CODEC_SIZE)"
    using assms appends_more [OF appends_bytes [of "sx_registry_codec env"]]
    by (simp add: encode_bounded_nbt_def MAX_REGISTRY_CODEC_SIZE_def)
  have name: "appends 25 (play_codec (encode_string (dimension_protocol_name d) MAX_IDENTIFIER_LENGTH))" for d
    by (rule appends_more [OF appends_string]) (simp_all add: names_ok MAX_IDENTIFIER_LENGTH_def)
  have death: "appends 0 (encode_death_location False n loc k)" for n loc k
    using appends_ret(1) by (simp add: encode_death_location_def)
  show "appends 54500 (join_game_body (join_game_packet env s))"
    unfolding join_game_body_def join_game_packet_def Let_def join_game.simps
    by (rule appends_more, (rule appends_intros appends_names codec name death)+, simp)
qed simp

subsection \<open>Frames on the wire\<close>

text \<open>The packet ids of the frames a client finds in what it was sent.\<close>

function frame_ids :: "session_env \<Rightarrow> i32 \<Rightarrow> nat \<Rightarrow> bytes \<Rightarrow> i32 list" where
  "frame_ids env threshold m inp =
    (case decode_compressed_frame (sx_inflate env) threshold m inp of
       (Inr (CompressedComplete p), rest) \<Rightarrow>
       if length rest < length inp then dp_packet_id p # frame_ids env threshold m rest else []
     | _ \<Rightarrow> [])"
  by pat_completeness auto

termination
  by (relation "measure (\<lambda>(env, threshold, m, inp). length inp)") auto

declare frame_ids.simps [simp del]

lemma frame_ids_Nil [simp]: "frame_ids env threshold m [] = []"
  by (subst frame_ids.simps) (simp split: prod.splits sum.splits compressed_decode_outcome.splits)

text \<open>
  A compressor may make its input longer, by a tenth and a little: the bound its library documents. The largest packet of the
  join is a chunk, so it fits the 65536 bytes the server sets as the limit of a frame.
\<close>

definition zlib_bounded :: "(bytes \<Rightarrow> 'e + bytes) \<Rightarrow> bool" where
  "zlib_bounded deflate \<longleftrightarrow>
    (\<forall>b. case deflate b of Inr c \<Rightarrow> length c \<le> length b + length b div 10 + 128 | Inl _ \<Rightarrow> False)"

definition JOIN_ROOM :: nat where "JOIN_ROOM = 65536"

lemma compressed_frame_succeeds:
  assumes "zlib_bounded deflate" and room: "JOIN_ROOM \<le> effective_max_length m" "length b \<le> 55000"
  shows "\<exists>w. encode_compressed_frame deflate pid b t m [] = (Inr (), w)"
proof -
  let ?body = "encode_var_int pid [] @ b"
  have body: "length ?body \<le> 55005" using room(2) var_int_short [of pid] by simp
  have fits: "var_int_length pid + length b \<le> effective_max_length m"
    using room var_int_length_short [of pid] by (simp add: JOIN_ROOM_def)
  obtain c where c: "compressed_body deflate t ?body = Inr c" "length c \<le> JOIN_ROOM"
  proof (cases "length ?body > (case usize_of_i32 t of Some n \<Rightarrow> n | None \<Rightarrow> 0)")
    case True
    have "case deflate ?body of Inr c \<Rightarrow> length c \<le> length ?body + length ?body div 10 + 128 | Inl _ \<Rightarrow> False"
      using assms(1) unfolding zlib_bounded_def by (rule spec)
    then obtain z where z: "deflate ?body = Inr z" "length z \<le> length ?body + length ?body div 10 + 128"
      by (cases "deflate ?body") auto
    show thesis
    proof
      show "compressed_body deflate t ?body = Inr (encode_var_int (word_of_nat (length ?body)) [] @ z)"
        using True z(1) by (simp add: compressed_body_def)
      show "length (encode_var_int (word_of_nat (length ?body)) [] @ z) \<le> JOIN_ROOM"
        using z(2) body var_int_short [of "word_of_nat (length ?body)"] by (simp add: JOIN_ROOM_def)
    qed
  next
    case False
    show thesis
    proof
      show "compressed_body deflate t ?body = Inr (encode_var_int 0 [] @ ?body)"
        using False by (simp add: compressed_body_def)
      show "length (encode_var_int 0 [] @ ?body) \<le> JOIN_ROOM"
        using body var_int_short [of 0] by (simp add: JOIN_ROOM_def)
    qed
  qed
  have "encode_raw_frame c m [] = (Inr (), encode_var_int (word_of_nat (length c)) [] @ c)"
    using c(2) room(1) effective_max_le(1) [of m] by (simp add: encode_raw_frame_def Let_def i32_of_usize_def i32_max_def)
  moreover have "encode_frame pid b m [] = (Inr (), frame_bytes pid b)" using fits by (simp add: encode_frame_Inr)
  ultimately show ?thesis using c(1) by (simp add: encode_compressed_frame_def Let_def st_map_err_def)
qed

text \<open>A packet and its frame, in the format of a connection with a threshold.\<close>

definition wire_frame :: "(bytes \<Rightarrow> io_error + bytes) \<Rightarrow> i32 \<Rightarrow> nat \<Rightarrow> decompressed_packet \<Rightarrow> bytes \<Rightarrow> bool" where
  "wire_frame deflate t m p w \<longleftrightarrow> var_int_length (dp_packet_id p) + length (dp_payload p) \<le> effective_max_length m
    \<and> encode_compressed_frame deflate (dp_packet_id p) (dp_payload p) t m [] = (Inr (), w)"

lemma send_wire_frame:
  assumes env: "writes_succeed env" "zlib_bounded (sx_deflate env)"
    and room: "JOIN_ROOM \<le> effective_max_length (ses_max_frame_length s)" "length b \<le> 55000"
  shows "\<exists>w. send_wire env (frame_bytes pid b) s = (Inr (), s\<lparr>ses_written := ses_written s @ w\<rparr>)
    \<and> wire_frame (sx_deflate env) (ses_compression_threshold s) (ses_max_frame_length s) \<lparr>dp_packet_id = pid, dp_payload = b\<rparr> w"
proof -
  have fits: "var_int_length pid + length b \<le> effective_max_length (ses_max_frame_length s)"
    using room var_int_length_short [of pid] by (simp add: JOIN_ROOM_def)
  have wrote: "sess_write env w s = (Inr (), s\<lparr>ses_written := ses_written s @ w\<rparr>)" for w
    using env(1) by (simp add: sess_write_def writes_succeed_def)
  obtain w where w: "encode_compressed_frame (sx_deflate env) pid b (ses_compression_threshold s) (ses_max_frame_length s) [] = (Inr (), w)"
    using compressed_frame_succeeds [OF env(2) room] by blast
  moreover have "w = frame_bytes pid b" if "sint (ses_compression_threshold s) < 0"
    using w that fits by (auto simp: encode_compressed_frame_def st_map_err_def encode_frame_Inr split: prod.splits sum.splits)
  ultimately show ?thesis using decode_frame_bytes [OF fits, of "[]"] fits
    by (intro exI [of _ w]) (simp add: send_wire_def wrote wire_frame_def)
qed

lemma wire_frame_reads:
  assumes "zlib_ok env" "wire_frame (sx_deflate env) t m p w"
  shows "w \<noteq> []" "decode_compressed_frame (sx_inflate env) t m (w @ rest) = (Inr (CompressedComplete p), rest)"
    "frame_ids env t m (w @ rest) = dp_packet_id p # frame_ids env t m rest"
proof -
  have "compressible (sx_deflate env) (sx_inflate env) p"
    using compressible_packet [OF assms(1), of "dp_packet_id p" "dp_payload p" m] assms(2) by (cases p) (simp add: wire_frame_def)
  from compressed.enc_frame [OF this, of t m "[]" "()" w] assms(2)
  show w: "w \<noteq> []" and dec: "decode_compressed_frame (sx_inflate env) t m (w @ rest) = (Inr (CompressedComplete p), rest)"
    by (auto simp: wire_frame_def)
  show "frame_ids env t m (w @ rest) = dp_packet_id p # frame_ids env t m rest"
    using w by (subst frame_ids.simps) (simp add: dec)
qed

lemma frame_ids_frames:
  assumes "zlib_ok env" "list_all2 (wire_frame (sx_deflate env) t m) ps ws"
  shows "frame_ids env t m (concat ws) = map dp_packet_id ps"
  using assms(2) by (induction rule: list_all2_induct) (simp_all add: wire_frame_reads [OF assms(1)])

subsection \<open>One packet, then many\<close>

text \<open>What a packet sent is: its encoder's payload in a frame.\<close>

definition sent_as :: "session_env \<Rightarrow> player_session \<Rightarrow> (nat \<Rightarrow> play_error encoder) \<Rightarrow> decompressed_packet \<Rightarrow> bytes \<Rightarrow> bool" where
  "sent_as env s enc p w \<longleftrightarrow> enc (ses_max_frame_length s) [] = (Inr (), frame_bytes (dp_packet_id p) (dp_payload p))
    \<and> wire_frame (sx_deflate env) (ses_compression_threshold s) (ses_max_frame_length s) p w"

lemma send_packet_goes:
  assumes env: "writes_succeed env" "zlib_bounded (sx_deflate env)"
    and room: "JOIN_ROOM \<le> effective_max_length (ses_max_frame_length s)" and "emits pid n enc" "n \<le> 55000"
  shows "\<exists>b w. send_packet env enc s = (Inr (), s\<lparr>ses_written := ses_written s @ w\<rparr>)
    \<and> sent_as env s enc \<lparr>dp_packet_id = pid, dp_payload = b\<rparr> w"
proof -
  have "n + 5 \<le> effective_max_length (ses_max_frame_length s)" using assms(5) room by (simp add: JOIN_ROOM_def)
  with assms(4) obtain b where enc: "enc (ses_max_frame_length s) [] = (Inr (), frame_bytes pid b)" "length b \<le> n"
    unfolding emits_def by blast
  moreover from this(2) assms(5) have "length b \<le> 55000" by simp
  from send_wire_frame [OF env room this, of pid] obtain w
    where "send_wire env (frame_bytes pid b) s = (Inr (), s\<lparr>ses_written := ses_written s @ w\<rparr>)"
      "wire_frame (sx_deflate env) (ses_compression_threshold s) (ses_max_frame_length s) \<lparr>dp_packet_id = pid, dp_payload = b\<rparr> w"
    by blast
  ultimately show ?thesis by (intro exI [of _ b] exI [of _ w]) (simp add: send_packet_def sent_as_def)
qed

lemma send_packets_go:
  assumes env: "writes_succeed env" "zlib_bounded (sx_deflate env)"
    and room: "JOIN_ROOM \<le> effective_max_length (ses_max_frame_length s)"
    and "list_all2 (\<lambda>pid enc. \<exists>n\<le>55000. emits pid n enc) pids encs"
  shows "\<exists>ps ws. send_packets env encs s = (Inr (), s\<lparr>ses_written := ses_written s @ concat ws\<rparr>)
    \<and> list_all2 (wire_frame (sx_deflate env) (ses_compression_threshold s) (ses_max_frame_length s)) ps ws
    \<and> map dp_packet_id ps = pids"
  using assms(4) room
proof (induction pids encs arbitrary: s rule: list_all2_induct)
  case Nil
  then show ?case by (auto simp: send_packets_def intro!: exI [of _ "[]"])
next
  case (Cons pid pids enc encs)
  from Cons.hyps(1) obtain n where n: "emits pid n enc" "n \<le> 55000" by blast
  from send_packet_goes [OF env Cons.prems n] obtain b w
    where w: "send_packet env enc s = (Inr (), s\<lparr>ses_written := ses_written s @ w\<rparr>)"
      "sent_as env s enc \<lparr>dp_packet_id = pid, dp_payload = b\<rparr> w" by blast
  from Cons.IH [of "s\<lparr>ses_written := ses_written s @ w\<rparr>"] Cons.prems obtain ps ws
    where v: "send_packets env encs (s\<lparr>ses_written := ses_written s @ w\<rparr>) =
        (Inr (), s\<lparr>ses_written := ses_written s @ w @ concat ws\<rparr>)"
      "list_all2 (wire_frame (sx_deflate env) (ses_compression_threshold s) (ses_max_frame_length s)) ps ws"
      "map dp_packet_id ps = pids" by auto
  show ?case
    by (rule exI [of _ "\<lparr>dp_packet_id = pid, dp_payload = b\<rparr> # ps"], rule exI [of _ "w # ws"])
      (use w v in \<open>simp add: send_packets_def st_bind_def sent_as_def\<close>)
qed

subsection \<open>The join\<close>

definition join_ids :: "i32 list" where
  "join_ids = [PLUGIN_MESSAGE_CLIENTBOUND_PACKET_ID, CHANGE_DIFFICULTY_PACKET_ID, PLAYER_ABILITIES_PACKET_ID,
    SET_HELD_ITEM_PACKET_ID, ENTITY_EVENT_PACKET_ID, UPDATE_RECIPES_PACKET_ID, UPDATE_TAGS_PACKET_ID,
    PLAYER_INFO_UPDATE_PACKET_ID, SET_DEFAULT_SPAWN_POSITION_PACKET_ID, SET_CENTER_CHUNK_PACKET_ID,
    SET_RENDER_DISTANCE_PACKET_ID, SET_SIMULATION_DISTANCE_PACKET_ID, GAME_EVENT_PACKET_ID]"

lemma emits_small: "emits pid 1000 enc \<Longrightarrow> \<exists>n\<le>55000. emits pid n enc"
  by (rule exI [of _ 1000]) simp

lemma join_sequence_emits:
  assumes "str_ok 16 (ses_username s)"
  shows "list_all2 (\<lambda>pid enc. \<exists>n\<le>55000. emits pid n enc) join_ids (join_sequence s)"
  unfolding join_ids_def join_sequence_def
  by (intro list.rel_intros emits_small fixed_bodies emits_brand emits_recipes emits_tags emits_player_info assms)

lemma chunks_emit:
  "list_all2 (\<lambda>pid enc. \<exists>n\<le>55000. emits pid n enc) (replicate (length ps) CHUNK_DATA_PACKET_ID)
    (map (\<lambda>p. encode_chunk_data (build_chunk_data_packet (cp_x p) (cp_z p) d)) ps)"
  by (auto simp: list_all2_conv_all_nth intro!: exI [of _ 55000] emits_chunk)

definition sync_packet :: "i32 \<Rightarrow> synchronize_player_position" where
  "sync_packet teleport_id = \<lparr>syn_x = 0, syn_y = f64_lit 64 1, syn_z = 0, syn_yaw = 0, syn_pitch = 0,
      syn_flags = 0, syn_teleport_id = teleport_id\<rparr>"

lemma play_handshake_goes:
  assumes env: "writes_succeed env" "zlib_bounded (sx_deflate env)" "length (sx_registry_codec env) \<le> 54000"
    and room: "JOIN_ROOM \<le> effective_max_length (ses_max_frame_length s)" and name: "str_ok 16 (ses_username s)"
  shows "\<exists>join w1 ps ws sync w2. play_handshake env s =
      (Inr (), s\<lparr>ses_written := ses_written s @ w1 @ concat ws @ w2, ses_next_teleport_id := ses_next_teleport_id s + 1\<rparr>)
    \<and> sent_as env s (encode_join_game (join_game_packet env s)) join w1 \<and> dp_packet_id join = JOIN_GAME_PACKET_ID
    \<and> list_all2 (wire_frame (sx_deflate env) (ses_compression_threshold s) (ses_max_frame_length s)) ps ws
    \<and> map dp_packet_id ps = join_ids @ replicate (length (desired_chunks 0 0 2)) CHUNK_DATA_PACKET_ID
    \<and> sent_as env s (encode_synchronize_player_position (sync_packet (ses_next_teleport_id s))) sync w2
    \<and> dp_packet_id sync = SYNCHRONIZE_PLAYER_POSITION_PACKET_ID"
proof -
  let ?chunks = "map (\<lambda>p. encode_chunk_data (build_chunk_data_packet (cp_x p) (cp_z p) (ses_dimension s))) (desired_chunks 0 0 2)"
  from send_packet_goes [OF env(1,2) room emits_join_game [OF env(3)]] obtain b1 w1
    where w1: "send_packet env (encode_join_game (join_game_packet env s)) s = (Inr (), s\<lparr>ses_written := ses_written s @ w1\<rparr>)"
      "sent_as env s (encode_join_game (join_game_packet env s)) \<lparr>dp_packet_id = JOIN_GAME_PACKET_ID, dp_payload = b1\<rparr> w1"
    by (metis le_refl)
  define s1 where "s1 = s\<lparr>ses_written := ses_written s @ w1\<rparr>"
  have room1: "JOIN_ROOM \<le> effective_max_length (ses_max_frame_length s1)" "str_ok 16 (ses_username s1)"
    using room name by (simp_all add: s1_def)
  let ?frame = "wire_frame (sx_deflate env) (ses_compression_threshold s) (ses_max_frame_length s)"
  from send_packets_go [OF env(1,2) room1(1) join_sequence_emits [OF room1(2)]] obtain ps2 ws2
    where w2: "send_packets env (join_sequence s1) s1 = (Inr (), s1\<lparr>ses_written := ses_written s1 @ concat ws2\<rparr>)"
      "list_all2 ?frame ps2 ws2" "map dp_packet_id ps2 = join_ids" by (auto simp: s1_def)
  define s2 where "s2 = s1\<lparr>ses_written := ses_written s1 @ concat ws2\<rparr>"
  have room2: "JOIN_ROOM \<le> effective_max_length (ses_max_frame_length s2)" using room by (simp add: s2_def s1_def)
  from send_packets_go [OF env(1,2) room2 chunks_emit [of "desired_chunks 0 0 2" "ses_dimension s"]] obtain ps3 ws3
    where w3: "send_packets env ?chunks s2 = (Inr (), s2\<lparr>ses_written := ses_written s2 @ concat ws3\<rparr>)"
      "list_all2 ?frame ps3 ws3" "map dp_packet_id ps3 = replicate (length (desired_chunks 0 0 2)) CHUNK_DATA_PACKET_ID"
    by (auto simp: s1_def s2_def)
  define s3 where "s3 = s2\<lparr>ses_written := ses_written s2 @ concat ws3, ses_next_teleport_id := ses_next_teleport_id s + 1\<rparr>"
  have room3: "JOIN_ROOM \<le> effective_max_length (ses_max_frame_length s3)" using room by (simp add: s3_def s2_def s1_def)
  let ?sync = "encode_synchronize_player_position (sync_packet (ses_next_teleport_id s))"
  from send_packet_goes [OF env(1,2) room3 fixed_bodies(10) [of "sync_packet (ses_next_teleport_id s)"]] obtain b4 w4
    where w4: "send_packet env ?sync s3 = (Inr (), s3\<lparr>ses_written := ses_written s3 @ w4\<rparr>)"
      "sent_as env s ?sync \<lparr>dp_packet_id = SYNCHRONIZE_PLAYER_POSITION_PACKET_ID, dp_payload = b4\<rparr> w4"
    by (auto simp: s1_def s2_def s3_def sent_as_def)
  have "send_join_game env s = (Inr (), s1)" using w1(1) by (simp add: send_join_game_def s1_def)
  moreover have "send_join_sequence env s1 = (Inr (), s2)" using w2(1) by (simp add: send_join_sequence_def s2_def)
  moreover have "send_initial_chunks env 2 s2 = (Inr (), s2\<lparr>ses_written := ses_written s2 @ concat ws3\<rparr>)"
    using w3(1) by (simp add: send_initial_chunks_def s2_def s1_def)
  moreover have "send_synchronize_position env (s2\<lparr>ses_written := ses_written s2 @ concat ws3\<rparr>) =
      (Inr (ses_next_teleport_id s), s3\<lparr>ses_written := ses_written s3 @ w4\<rparr>)"
    using w4(1) by (simp add: send_synchronize_position_def st_bind_def take_teleport_id_def sync_packet_def s3_def s2_def s1_def)
  ultimately have "play_handshake env s = (Inr (), s3\<lparr>ses_written := ses_written s3 @ w4\<rparr>)"
    by (simp add: play_handshake_def st_bind_def)
  then show ?thesis
    by (intro exI [of _ "\<lparr>dp_packet_id = JOIN_GAME_PACKET_ID, dp_payload = b1\<rparr>"] exI [of _ w1] exI [of _ "ps2 @ ps3"]
        exI [of _ "ws2 @ ws3"] exI [of _ "\<lparr>dp_packet_id = SYNCHRONIZE_PLAYER_POSITION_PACKET_ID, dp_payload = b4\<rparr>"] exI [of _ w4])
      (use w1(2) w2(2,3) w3(2,3) w4(2) in \<open>simp add: s1_def s2_def s3_def list_all2_appendI\<close>)
qed

text \<open>
  If the socket takes what is written and zlib does not fail, the session has told the tick loop of the player and is in its
  loop, with no teleport id used but 0, and has written the forty packets of the join.
\<close>

lemma join_completes:
  assumes "writes_succeed env" "zlib_bounded (sx_deflate env)" "length (sx_registry_codec env) \<le> 54000"
    and "sx_timeout_fails env = None" "\<not> sx_tick_gone env"
    and "game_mode_from_wire (sc_gamemode config) \<noteq> None" "str_ok 16 (sc_username config)"
    and "JOIN_ROOM \<le> effective_max_length (sc_max_frame_length config)"
  shows "\<exists>s t join w1 ps ws sync w2. session_new env config i ch now = Inr s \<and> run_play_loop env config i ch now [] = SessionOn t []
    \<and> ses_told t = [PlayerJoined_msg i (sc_uuid config) (sc_username config) (sc_gamemode config) (sc_view_distance config) ch]
    \<and> ses_next_teleport_id t = 1
    \<and> ses_written t = w1 @ concat ws @ w2
    \<and> sent_as env s (encode_join_game (join_game_packet env s)) join w1 \<and> dp_packet_id join = JOIN_GAME_PACKET_ID
    \<and> list_all2 (wire_frame (sx_deflate env) (sc_compression_threshold config) (sc_max_frame_length config)) ps ws
    \<and> map dp_packet_id ps = join_ids @ replicate 25 CHUNK_DATA_PACKET_ID
    \<and> sent_as env s (encode_synchronize_player_position (sync_packet 0)) sync w2
    \<and> dp_packet_id sync = SYNCHRONIZE_PLAYER_POSITION_PACKET_ID"
proof -
  obtain s where s: "session_new env config i ch now = Inr s" "ses_written s = []" "ses_next_teleport_id s = 0"
    and told: "ses_told s = [PlayerJoined_msg i (sc_uuid config) (sc_username config) (sc_gamemode config) (sc_view_distance config) ch]"
    and same: "ses_max_frame_length s = sc_max_frame_length config" "ses_username s = sc_username config"
      "ses_compression_threshold s = sc_compression_threshold config"
    using assms(5,6) by (auto simp: session_new_def)
  have n: "length (desired_chunks 0 0 2) = 25" by code_simp
  from assms(7,8) same have "JOIN_ROOM \<le> effective_max_length (ses_max_frame_length s)" "str_ok 16 (ses_username s)" by simp_all
  from play_handshake_goes [OF assms(1-3) this] obtain join w1 ps ws sync w2
    where h: "play_handshake env s =
        (Inr (), s\<lparr>ses_written := w1 @ concat ws @ w2, ses_next_teleport_id := ses_next_teleport_id s + 1\<rparr>)"
      and r: "sent_as env s (encode_join_game (join_game_packet env s)) join w1" "dp_packet_id join = JOIN_GAME_PACKET_ID"
        "list_all2 (wire_frame (sx_deflate env) (ses_compression_threshold s) (ses_max_frame_length s)) ps ws"
        "map dp_packet_id ps = join_ids @ replicate 25 CHUNK_DATA_PACKET_ID"
        "sent_as env s (encode_synchronize_player_position (sync_packet (ses_next_teleport_id s))) sync w2"
        "dp_packet_id sync = SYNCHRONIZE_PLAYER_POSITION_PACKET_ID"
    unfolding s(2) n append_Nil by blast
  show ?thesis
    by (rule exI [of _ s], rule exI [of _ "s\<lparr>ses_written := w1 @ concat ws @ w2, ses_next_teleport_id := ses_next_teleport_id s + 1\<rparr>"],
        rule exI [of _ join], rule exI [of _ w1], rule exI [of _ ps], rule exI [of _ ws], rule exI [of _ sync], rule exI [of _ w2])
      (use h r s told same in \<open>simp add: run_play_loop_def assms(4)\<close>)
qed

text \<open>What a client finds in it.\<close>

lemma join_frame_ids:
  assumes "zlib_ok env" "sent_as env s enc1 join w1" "sent_as env s enc2 sync w2"
    and "list_all2 (wire_frame (sx_deflate env) (ses_compression_threshold s) (ses_max_frame_length s)) ps ws"
  shows "frame_ids env (ses_compression_threshold s) (ses_max_frame_length s) (w1 @ concat ws @ w2) =
    dp_packet_id join # map dp_packet_id ps @ [dp_packet_id sync]"
proof -
  have "list_all2 (wire_frame (sx_deflate env) (ses_compression_threshold s) (ses_max_frame_length s)) (join # ps @ [sync]) (w1 # ws @ [w2])"
    using assms(2-4) by (auto simp: sent_as_def intro: list_all2_appendI)
  from frame_ids_frames [OF assms(1) this] show ?thesis by simp
qed

end
