(* ===== verification/Server.thy ===== *)
theory Server
  imports Config Session_Join Tick_Loop
begin

section \<open>The listener and the server (\<open>listener.rs\<close>, \<open>server.rs\<close>)\<close>

text \<open>
  How the server is put together from its configuration: the garden and the distances, the tick loop, what every connection is
  given, and the listener. The operating system's answers are parameters, and so is the parser of socket addresses.
\<close>

subsection \<open>The listener\<close>

record listener_config =
  lsc_host :: rstring
  lsc_port :: u16
  lsc_connection_timeout :: nat
  lsc_tcp_nodelay :: bool

definition listener_config_default :: listener_config where
  "listener_config_default = \<lparr>lsc_host = ascii ''0.0.0.0'', lsc_port = 25565, lsc_connection_timeout = 30000, lsc_tcp_nodelay = True\<rparr>"

datatype listener_error = BindFailed io_error | SocketOptionFailed io_error | ListenerDown

definition listener_error_message :: "listener_error \<Rightarrow> rstring" where
  "listener_error_message e =
    (case e of
       BindFailed error \<Rightarrow> ascii ''failed to bind: '' @ error
     | SocketOptionFailed error \<Rightarrow> ascii ''socket option error: '' @ error
     | ListenerDown \<Rightarrow> ascii ''listener has been shut down'')"

record 'addr listener_env =
  le_parse :: "rstring \<Rightarrow> io_error + 'addr"
  le_bind :: "'addr \<Rightarrow> io_error option"
  le_nonblocking :: "io_error option"
  le_local_addr :: "io_error + 'addr"
  le_spawn :: "io_error option"

text \<open>Up to the start of the thread; the handle knows the address the listener is bound to.\<close>

definition start_listener :: "'addr listener_env \<Rightarrow> listener_config \<Rightarrow> listener_error + 'addr" where
  "start_listener le config =
    (case le_parse le (lsc_host config @ ascii '':'' @ dec_nat (unat (lsc_port config))) of
       Inl e \<Rightarrow> Inl (BindFailed e)
     | Inr addr \<Rightarrow>
    (case le_bind le addr of Some e \<Rightarrow> Inl (BindFailed e)
     | None \<Rightarrow>
    (case le_nonblocking le of Some e \<Rightarrow> Inl (SocketOptionFailed e)
     | None \<Rightarrow>
    (case le_local_addr le of Inl e \<Rightarrow> Inl (SocketOptionFailed e)
     | Inr bind_addr \<Rightarrow>
    (case le_spawn le of Some e \<Rightarrow> Inl (BindFailed e)
     | None \<Rightarrow> Inr bind_addr)))))"

text \<open>
  One turn of the accept loop is given the shutdown flag and what \<open>accept\<close> returned. A connection is set up, blocking and with
  its time-outs, and given to the handler.
\<close>

datatype 'conn accept_result = Accepted 'conn | AcceptWouldBlock | AcceptFailed io_error

datatype 'conn accept_action = SetNonblocking 'conn bool | SetTimeouts 'conn nat | SetNodelay 'conn | Handle 'conn | PollPause

definition setup_connection :: "'conn \<Rightarrow> nat \<Rightarrow> bool \<Rightarrow> 'conn accept_action list" where
  "setup_connection stream connection_timeout tcp_nodelay =
    [SetNonblocking stream False, SetTimeouts stream connection_timeout] @ (if tcp_nodelay then [SetNodelay stream] else [])"

fun run_accept_loop :: "nat \<Rightarrow> bool \<Rightarrow> (bool \<times> 'conn accept_result) list \<Rightarrow> 'conn accept_action list" where
  "run_accept_loop timeout nodelay [] = []"
| "run_accept_loop timeout nodelay ((shutdown, r) # rs) =
    (if shutdown then []
     else (case r of
         Accepted stream \<Rightarrow> setup_connection stream timeout nodelay @ [Handle stream]
       | AcceptWouldBlock \<Rightarrow> [PollPause]
       | AcceptFailed _ \<Rightarrow> [PollPause]) @ run_accept_loop timeout nodelay rs)"

subsection \<open>The server\<close>

datatype server_error = ServerListener listener_error | ServerTick tick_start_error

definition server_error_message :: "server_error \<Rightarrow> rstring" where
  "server_error_message e =
    (case e of
       ServerListener error \<Rightarrow> ascii ''listener error: '' @ listener_error_message error
     | ServerTick error \<Rightarrow> ascii ''tick error: '' @ tick_start_error_message error)"

definition server_garden :: "server_config \<Rightarrow> garden_spec" where
  "server_garden config =
    (let garden = garden_from_size (cfg_hakoniwa_size config) in
     garden\<lparr>gs_dimensions := (gs_dimensions garden)\<lparr>ds_nether := cfg_allow_nether config, ds_end := True\<rparr>\<rparr>)"

definition server_view_distance :: "server_config \<Rightarrow> i32" where
  "server_view_distance config = i32_min (cfg_view_distance config) (recommended_view_distance (server_garden config))"

definition server_simulation_distance :: "server_config \<Rightarrow> i32" where
  "server_simulation_distance config = i32_min (cfg_simulation_distance config) (server_view_distance config)"

text \<open>The number of players, the channel to the tick loop and the counter of entity ids come with each connection; times in milliseconds.\<close>

definition server_connection_config :: "server_config \<Rightarrow> connection_config" where
  "server_connection_config config =
    \<lparr>cnf_status_response = status_response_from_config (cfg_motd config) (cfg_max_players config),
     cnf_online_mode = cfg_online_mode config, cnf_max_frame_length = 65536,
     cnf_compression_threshold = cfg_network_compression_threshold config, cnf_play_read_timeout = 30 * 1000,
     cnf_max_players = cfg_max_players config, cnf_default_gamemode = cfg_default_gamemode config,
     cnf_view_distance = server_view_distance config, cnf_simulation_distance = server_simulation_distance config,
     cnf_keep_alive_timeout = unat (cfg_keep_alive_timeout_secs config) * 1000,
     cnf_enabled_dimensions = gs_dimensions (server_garden config)\<rparr>"

definition server_listener_config :: "server_config \<Rightarrow> listener_config" where
  "server_listener_config config =
    \<lparr>lsc_host = cfg_host config, lsc_port = cfg_port config,
     lsc_connection_timeout = unat (cfg_connection_timeout_secs config) * 1000, lsc_tcp_nodelay = True\<rparr>"

definition server_tick_env :: "server_config \<Rightarrow> tick_env \<Rightarrow> tick_env" where
  "server_tick_env config tenv =
    tenv\<lparr>te_level_name := cfg_level_name config, te_autosave_interval_secs := cfg_autosave_interval_secs config,
      te_garden := server_garden config\<rparr>"

text \<open>
  The tick loop is started first, with no players and no mods, then the listener. The result is what the parts are: where the
  listener is bound, what each connection is handled with, and the tick loop as a function of its rounds.
\<close>

record ('addr, 'm) server =
  srv_bind_addr :: 'addr
  srv_connections :: connection_config
  srv_listener :: listener_config
  srv_tick :: "(bool list \<times> tick_message list) list \<Rightarrow> tick_state \<times> 'm mods_state"

definition server_start :: "io_error option \<Rightarrow> 'addr listener_env \<Rightarrow> tick_env \<Rightarrow> (path \<Rightarrow> io_error option) \<Rightarrow> files \<Rightarrow> 'm \<Rightarrow>
    server_config \<Rightarrow> server_error + ('addr, 'm) server" where
  "server_start spawn le tenv rd fs m config =
    (case start_tick_loop spawn (server_tick_env config tenv) rd fs 0 [] m of
       Inl e \<Rightarrow> Inl (ServerTick e)
     | Inr tick \<Rightarrow>
    (case start_listener le (server_listener_config config) of
       Inl e \<Rightarrow> Inl (ServerListener e)
     | Inr addr \<Rightarrow> Inr \<lparr>srv_bind_addr = addr, srv_connections = server_connection_config config,
         srv_listener = server_listener_config config, srv_tick = tick\<rparr>))"

subsection \<open>The distances of a server\<close>

lemma server_distances:
  "sint (server_view_distance c) \<le> sint (chunk_radius (cfg_hakoniwa_size c))"
  "sint (server_simulation_distance c) \<le> sint (server_view_distance c)"
  by (auto simp: server_view_distance_def server_simulation_distance_def i32_min_def recommended_view_distance_def
      server_garden_def garden_from_size_def Let_def word_sless_alt)

subsection \<open>A login on a running server\<close>

text \<open>The Login Success of a name the login accepts, and how long it is.\<close>

definition login_success_payload :: "uuid \<Rightarrow> rstring \<Rightarrow> bytes" where
  "login_success_payload i name = uuid_to_be_bytes i @ (encode_var_int (word_of_nat (length name)) [] @ name) @ [0]"

lemma accepted_login:
  assumes "utf8_valid (lst_username p)" "encode_login_start p m [] = (Inr u, w)"
  shows "str_ok 16 (lst_username p)" "length (login_success_payload i (lst_username p)) \<le> 100"
    and "encode_login_success \<lparr>lsu_uuid = i, lsu_username = lst_username p, lsu_properties = []\<rparr> m [] =
        (Inr (), frame_bytes LOGIN_SUCCESS_PACKET_ID (login_success_payload i (lst_username p)))"
proof -
  let ?s = "lst_username p" and ?q = "\<lparr>lsu_uuid = i, lsu_username = lst_username p, lsu_properties = []\<rparr>"
  let ?b = "login_success_payload i ?s"
  have ok: "str_ok MAX_USERNAME_LENGTH ?s"
    using assms by (auto simp: encode_login_start_def encode_packet_Inr run_body_Inr login_start_body_def st_bind_Inr_iff
        encode_string_Inr_ok [OF assms(1)])
  then show name: "str_ok 16 ?s" by (simp add: MAX_USERNAME_LENGTH_def)
  have body: "run_body (login_success_body ?q) = Inr ?b"
    by (auto simp: run_body_Inr login_success_body_def st_bind_Inr_iff encode_string_Inr_ok [OF assms(1)] ok
        encode_uuid_bytes empty_properties_body login_success_payload_def)
  have "length ?s \<le> 48" using str_ok_bytes [OF name] by (simp add: saturating_mul_def usize_max_def)
  then show "length ?b \<le> 100"
    using var_int_short [of "word_of_nat (length ?s)"] by (simp add: uuid_to_be_bytes_def login_success_payload_def)
  obtain wire where "encode_login_success ?q m [] = (Inr (), wire)"
    using login_success_fits [OF assms] by blast
  with body show "encode_login_success ?q m [] = (Inr (), frame_bytes LOGIN_SUCCESS_PACKET_ID ?b)"
    by (auto simp: encode_login_success_def encode_packet_Inr)
qed

text \<open>What the server sends for it: one frame, or Set Compression and a frame in the new format.\<close>

definition login_wire :: "connection_env \<Rightarrow> connection_config \<Rightarrow> bytes \<Rightarrow> bytes \<Rightarrow> bool" where
  "login_wire env config b wire \<longleftrightarrow>
    (if sint (cnf_compression_threshold config) < 0 then wire = frame_bytes LOGIN_SUCCESS_PACKET_ID b
     else \<exists>w. wire = frame_bytes SET_COMPRESSION_PACKET_ID (encode_var_int (cnf_compression_threshold config) []) @ w
       \<and> wire_frame (env_deflate env) (cnf_compression_threshold config) (cnf_max_frame_length config)
         \<lparr>dp_packet_id = LOGIN_SUCCESS_PACKET_ID, dp_payload = b\<rparr> w)"

lemma set_compression_frame:
  assumes "JOIN_ROOM \<le> effective_max_length m"
  shows "encode_set_compression t m [] = (Inr (), frame_bytes SET_COMPRESSION_PACKET_ID (encode_var_int t []))"
proof -
  have "length (encode_var_int t []) + var_int_length SET_COMPRESSION_PACKET_ID \<le> effective_max_length m"
    using assms var_int_short [of t] var_int_length_short [of SET_COMPRESSION_PACKET_ID] by (simp add: JOIN_ROOM_def)
  then show ?thesis by (auto simp: encode_set_compression_def encode_packet_Inr run_body_def add.commute)
qed

lemma send_login_success_goes:
  assumes "\<And>a b. env_write_fails env a b = None" "zlib_bounded (env_deflate env)"
    and room: "JOIN_ROOM \<le> effective_max_length (cnf_max_frame_length config)" and b: "length b \<le> 100"
  shows "\<exists>more. send_login_success env config (frame_bytes LOGIN_SUCCESS_PACKET_ID b) sent = (Inr (), sent @ more)
    \<and> login_wire env config b more"
proof -
  let ?m = "cnf_max_frame_length config" and ?t = "cnf_compression_threshold config"
  have fits: "var_int_length LOGIN_SUCCESS_PACKET_ID + length b \<le> effective_max_length ?m"
    using room b var_int_length_short [of LOGIN_SUCCESS_PACKET_ID] by (simp add: JOIN_ROOM_def)
  obtain cw where cw: "encode_compressed_frame (env_deflate env) LOGIN_SUCCESS_PACKET_ID b ?t ?m [] = (Inr (), cw)"
    using compressed_frame_succeeds [OF assms(2) room, of b] b by auto
  show ?thesis
    using decode_frame_bytes [OF fits, of "[]"] fits
    by (simp add: send_login_success_def Let_def encode_fresh_def set_compression_frame [OF room] cw st_bind_def conn_write_ok [OF assms(1)] login_wire_def wire_frame_def)
qed

lemma login_reaches_play:
  assumes h: "utf8_valid (hs_server_address h)" "hs_next_state h = NextLogin" "encode_handshake h (cnf_max_frame_length config) [] = (Inr u1, hw)"
    and p: "utf8_valid (lst_username p)" "encode_login_start p (cnf_max_frame_length config) [] = (Inr u2, lw)"
    and env: "\<And>a b. env_write_fails env a b = None" "zlib_bounded (env_deflate env)"
    and config: "\<not> cnf_online_mode config" "JOIN_ROOM \<le> effective_max_length (cnf_max_frame_length config)"
    and reads: "read_bytes evs = Some (hw @ lw @ extra)"
  shows "\<exists>sent. handle_connection env config evs =
      EnterPlay (play_session_config env config (lst_username p)) (env_next_entity_id env) sent
    \<and> login_wire env config (login_success_payload (uuid_new 0 0) (lst_username p)) sent"
proof -
  let ?m = "cnf_max_frame_length config"
  let ?b = "login_success_payload (uuid_new 0 0) (lst_username p)"
  let ?c = "\<lambda>s b w. \<lparr>cn_state = s, cn_buffer = b, cn_sent = w\<rparr>"
  let ?lc = "\<lparr>lc_online_mode = cnf_online_mode config, lc_compression_threshold = cnf_compression_threshold config,
    lc_max_frame_length = ?m, lc_offline_uuid = uuid_new 0 0\<rparr>"
  have hd: "decode_handshake ?m (hw @ lw @ extra) = (Inr h, lw @ extra)" by (rule handshake.roundtrip [OF h(1,3)])
  have ld: "decode_login_start ?m (lw @ rest) = (Inr (LoginComplete (LoginStart p)), rest)" for rest
    by (rule login_start.roundtrip [OF p])
  from send_login_success_goes [OF env config(2) accepted_login(2) [OF p]] obtain sent
    where sent: "send_login_success env config (frame_bytes LOGIN_SUCCESS_PACKET_ID ?b) [] = (Inr (), sent)"
      "login_wire env config ?b sent" by (metis append_Nil)
  have "handle_login_start (lm_new ?lc) lw = (Inr (Success (frame_bytes LOGIN_SUCCESS_PACKET_ID ?b) Play),
      \<lparr>lm_phase = LoginDone, lm_config = ?lc, lm_username = Some (lst_username p)\<rparr>, [])"
    using ld [of "[]"] accepted_login(3) [OF p, of "uuid_new 0 0"] config(1)
    by (simp add: handle_login_start_def lm_accept_start_def lm_terminal_def lm_new_def)
  then have login: "conn_login env config p (?c Login extra []) =
      EnterPlay (play_session_config env config (lst_username p)) (env_next_entity_id env) sent"
    by (simp add: conn_login_def Let_def encode_fresh_def p(2) sent(1))
  have "conn_drain env config (?c Handshaking (hw @ lw @ extra) []) = conn_drain env config (?c Login (lw @ extra) [])"
    by (rule conn_drain_Again) (use hd h(2) in \<open>simp add: round_handshake target_state_def\<close>)
  also have "\<dots> = EnterPlay (play_session_config env config (lst_username p)) (env_next_entity_id env) sent"
    using round_login_start [of "?c Login (lw @ extra) []" config p extra env] ld by (simp add: conn_drain_stop login)
  finally show ?thesis using sent(2) by (simp add: handle_connection_def conn_run_read_bytes [OF reads] conn_feed_def)
qed

text \<open>
  C14: An offline login. Take a server in offline mode, a socket that takes what is written, and, if the compression threshold
  is not negative, a zlib whose streams read back and grow the data by a tenth and 128 bytes at most, and a frame limit of
  at least 65536 bytes, as the server has. A handshake for Login and a Login Start, in any reads, bring the connection
  into the play loop as that name with the UUID derived from it. What was sent is, with a negative threshold, one Login Success and
  nothing else; otherwise Set Compression with the threshold and then one frame in the compressed format, which
  holds the Login Success. In both the name is the client's own, and the UUID is the placeholder
  \<open>Uuid::new(0, 0)\<close>, not the player's. Whatever the client sent after the Login Start is dropped, since the play loop
  begins with a buffer of its own.
\<close>

theorem offline_login_exchange:
  assumes "utf8_valid (hs_server_address h)" "hs_next_state h = NextLogin"
    and "encode_handshake h (cnf_max_frame_length config) [] = (Inr u1, hw)"
    and "utf8_valid (lst_username p)" "encode_login_start p (cnf_max_frame_length config) [] = (Inr u2, lw)"
    and "\<not> cnf_online_mode config" "\<And>a b. env_write_fails env a b = None"
    and "0 \<le> sint (cnf_compression_threshold config) \<Longrightarrow> JOIN_ROOM \<le> effective_max_length (cnf_max_frame_length config)
      \<and> zlib_bounded (env_deflate env) \<and> (\<forall>b. zlib_reads_back (env_deflate env) inflate b)"
    and "read_bytes evs = Some (hw @ lw @ extra)"
  shows "\<exists>sc sent. handle_connection env config evs = EnterPlay sc (env_next_entity_id env) sent
    \<and> sc_username sc = lst_username p
    \<and> sc_uuid sc = offline_uuid_from_username (env_md5 env) (lst_username p)
    \<and> (let m = cnf_max_frame_length config; t = cnf_compression_threshold config;
          success = LoginSuccess \<lparr>lsu_uuid = uuid_new 0 0, lsu_username = lst_username p, lsu_properties = []\<rparr>
       in if sint t < 0 then decode_login_success m sent = (Inr (LoginComplete success), [])
          else \<exists>w b. decode_set_compression m sent = (Inr (Some t), w)
            \<and> decode_compressed_frame inflate t m w =
              (Inr (CompressedComplete \<lparr>dp_packet_id = LOGIN_SUCCESS_PACKET_ID, dp_payload = b\<rparr>), [])
            \<and> decode_login_success m (frame_bytes LOGIN_SUCCESS_PACKET_ID b) = (Inr (LoginComplete success), []))"
proof (cases "sint (cnf_compression_threshold config) < 0")
  case True
  then show ?thesis using offline_login_plain [OF assms(1-6) _ assms(7,9)] by simp
next
  case False
  let ?m = "cnf_max_frame_length config" and ?t = "cnf_compression_threshold config"
  let ?b = "login_success_payload (uuid_new 0 0) (lst_username p)"
  let ?frame = "frame_bytes LOGIN_SUCCESS_PACKET_ID ?b" and ?p = "\<lparr>dp_packet_id = LOGIN_SUCCESS_PACKET_ID, dp_payload = ?b\<rparr>"
  from False assms(8) have room: "JOIN_ROOM \<le> effective_max_length ?m" and z: "zlib_bounded (env_deflate env)"
    "\<And>b. zlib_reads_back (env_deflate env) inflate b" by simp_all
  from login_reaches_play [OF assms(1-5,7) z(1) assms(6) room assms(9)] False obtain sent w
    where play: "handle_connection env config evs =
        EnterPlay (play_session_config env config (lst_username p)) (env_next_entity_id env) sent"
      and sent: "sent = frame_bytes SET_COMPRESSION_PACKET_ID (encode_var_int ?t []) @ w" "wire_frame (env_deflate env) ?t ?m ?p w"
    by (auto simp: login_wire_def)
  have comp: "compressible (env_deflate env) inflate ?p"
    using accepted_login(2) [OF assms(4,5), of "uuid_new 0 0"] z(2) var_int_short [of LOGIN_SUCCESS_PACKET_ID]
    by (simp add: compressible_def MAX_DECOMPRESSED_SIZE_def PROTOCOL_MAX_FRAME_LENGTH_def Let_def)
  have "decode_compressed_frame inflate ?t ?m (w @ []) = (Inr (CompressedComplete ?p), [])"
    by (rule compressed.roundtrip [OF comp]) (use sent(2) in \<open>simp add: wire_frame_def\<close>)
  moreover have "decode_set_compression ?m sent = (Inr (Some ?t), w)"
    using set_compression.roundtrip [OF _ set_compression_frame [OF room], of ?t w] by (simp add: sent(1))
  moreover have "decode_login_success ?m ?frame =
      (Inr (LoginComplete (LoginSuccess \<lparr>lsu_uuid = uuid_new 0 0, lsu_username = lst_username p, lsu_properties = []\<rparr>)), [])"
    using login_success.roundtrip [OF _ accepted_login(3) [OF assms(4,5), of "uuid_new 0 0"], of "[]"] assms(4) by simp
  ultimately show ?thesis
    using False play by (simp add: Let_def) (auto simp: play_session_config_def)
qed

text \<open>With the default threshold, and with none.\<close>

theorem offline_login_exchange_witness:
  "(\<exists>evs sc sent w b. handle_connection sample_env (sample_config\<lparr>cnf_compression_threshold := 256\<rparr>) evs = EnterPlay sc 7 sent
      \<and> sc_username sc = ascii ''Steve''
      \<and> (decode_set_compression 65536 sent :: (io_error compression_error + i32 option) \<times> bytes) = (Inr (Some 256), w)
      \<and> decode_compressed_frame (Inr :: bytes \<Rightarrow> io_error + bytes) 256 65536 w =
        (Inr (CompressedComplete \<lparr>dp_packet_id = 2, dp_payload = b\<rparr>), []))
   \<and> (\<exists>evs sc sent. handle_connection sample_env (sample_config\<lparr>cnf_compression_threshold := -1\<rparr>) evs = EnterPlay sc 7 sent
      \<and> decode_login_success 65536 sent =
        (Inr (LoginComplete (LoginSuccess \<lparr>lsu_uuid = uuid_new 0 0, lsu_username = ascii ''Steve'', lsu_properties = []\<rparr>)), []))"
proof -
  let ?config = "\<lambda>t. sample_config\<lparr>cnf_compression_threshold := t\<rparr>"
  have "fst (encode_handshake login_handshake 65536 []) = Inr ()"
    by (simp add: packet_eval encode_handshake_def handshake_body_def login_handshake_def encode_u16_def
        MAX_SERVER_ADDRESS_UTF16_UNITS_def HANDSHAKE_PACKET_ID_def next_state_wire_value_def to_be_bytes_def to_le_bytes_def)
  then obtain hw where h: "encode_handshake login_handshake (cnf_max_frame_length (?config t)) [] = (Inr (), hw)" for t
    using encoded_ex by (auto simp: sample_config_def)
  have "fst (encode_login_start steve_start 65536 []) = Inr ()"
    by (simp add: packet_eval encode_login_start_def login_start_body_def steve_start_def encode_bool_def
        encode_uuid_bytes MAX_USERNAME_LENGTH_def LOGIN_START_PACKET_ID_def)
  then obtain lw where l: "encode_login_start steve_start (cnf_max_frame_length (?config t)) [] = (Inr (), lw)" for t
    using encoded_ex by (auto simp: sample_config_def)
  have hyps: "utf8_valid (hs_server_address login_handshake)" "hs_next_state login_handshake = NextLogin"
    "utf8_valid (lst_username steve_start)" "\<not> cnf_online_mode (?config t)" "\<And>a b. env_write_fails sample_env a b = None"
    "JOIN_ROOM \<le> effective_max_length (cnf_max_frame_length (?config t))
      \<and> zlib_bounded (env_deflate sample_env) \<and> (\<forall>b. zlib_reads_back (env_deflate sample_env) Inr b)"
    "read_bytes [ReadBytes (hw @ lw @ [1])] = Some (hw @ lw @ [1])" for t
    by (simp_all add: JOIN_ROOM_def effective_max_length_def PROTOCOL_MAX_FRAME_LENGTH_def login_handshake_def steve_start_def packet_eval sample_config_def sample_env_def zlib_bounded_def zlib_reads_back_def)
  note login = offline_login_exchange [OF hyps(1,2) h hyps(3) l hyps(4-7)]
  have "(2::i32) = LOGIN_SUCCESS_PACKET_ID" by (simp add: LOGIN_SUCCESS_PACKET_ID_def)
  then show ?thesis
    using login [of 256] login [of "-1"] by (simp add: Let_def sample_config_def sample_env_def steve_start_def) blast
qed

lemma game_mode_known: "game_mode_from_wire g \<noteq> None \<longleftrightarrow> unat g < 4"
proof -
  have "unat g < 4 \<longleftrightarrow> g = 0 \<or> g = 1 \<or> g = 2 \<or> g = 3"
    using word_less_nat_alt [of g 4] by (auto simp: word_unat_eq_iff)
  then show ?thesis by (auto simp: game_mode_from_wire_def split: if_splits)
qed

text \<open>What the server makes of its configuration for a session.\<close>

lemma server_session:
  "sc_gamemode (play_session_config cenv (server_connection_config c) name) = cfg_default_gamemode c"
  "sc_username (play_session_config cenv (server_connection_config c) name) = name"
  "sc_max_frame_length (play_session_config cenv (server_connection_config c) name) = 65536"
  "sc_uuid (play_session_config cenv (server_connection_config c) name) = offline_uuid_from_username (env_md5 cenv) name"
  "sc_view_distance (play_session_config cenv (server_connection_config c) name) = server_view_distance c"
  "sc_compression_threshold (play_session_config cenv (server_connection_config c) name) = cfg_network_compression_threshold c"
  by (simp_all add: play_session_config_def server_connection_config_def)

lemma server_frame_limit:
  "cnf_max_frame_length (server_connection_config c) = 65536" "JOIN_ROOM \<le> effective_max_length 65536"
  "cnf_compression_threshold (server_connection_config c) = cfg_network_compression_threshold c"
  "cnf_online_mode (server_connection_config c) = cfg_online_mode c"
  by (simp_all add: server_connection_config_def JOIN_ROOM_def effective_max_length_def PROTOCOL_MAX_FRAME_LENGTH_def)

text \<open>
  C2: From a configuration to a player in the game. On a server in offline mode, with any other settings, take a client
  that sends a handshake and a Login Start, in any reads, and sockets that work. The connection enters play; and if the
  configured game mode is one of the four there are, the session tells the tick loop that the player, under the name and
  the UUID of its name, has joined with the view distance the garden allows, sends the forty packets of the join within the
  frame limit of 65536 bytes, as a client that reads it finds, and is in its loop. Any other game mode is
  accepted by the configuration and breaks every login: the client has its Login Success, and then there is no session.
\<close>

theorem a_login_is_in_the_game:
  assumes "utf8_valid (hs_server_address h)" "hs_next_state h = NextLogin" "encode_handshake h 65536 [] = (Inr u1, hw)"
    and "utf8_valid (lst_username p)" "encode_login_start p 65536 [] = (Inr u2, lw)"
    and "\<not> cfg_online_mode c" "read_bytes evs = Some (hw @ lw @ extra)"
    and "\<And>a b. env_write_fails cenv a b = None" "sx_deflate senv = env_deflate cenv"
    and "writes_succeed senv" "zlib_ok senv" "zlib_bounded (sx_deflate senv)" "length (sx_registry_codec senv) \<le> 54000"
    and "sx_timeout_fails senv = None" "\<not> sx_tick_gone senv"
  shows "case handle_connection cenv (server_connection_config c) evs of
      EnterPlay sc i sent \<Rightarrow> i = env_next_entity_id cenv \<and>
       (if unat (cfg_default_gamemode c) < 4
        then \<exists>t. run_play_loop senv sc i ch now [] = SessionOn t []
          \<and> ses_told t = [PlayerJoined_msg i (offline_uuid_from_username (env_md5 cenv) (lst_username p)) (lst_username p)
              (cfg_default_gamemode c) (server_view_distance c) ch]
          \<and> frame_ids senv (cfg_network_compression_threshold c) 65536 (ses_written t) =
              JOIN_GAME_PACKET_ID # join_ids @ replicate 25 CHUNK_DATA_PACKET_ID @ [SYNCHRONIZE_PLAYER_POSITION_PACKET_ID]
        else run_play_loop senv sc i ch now [] = NoSession (SessPlay (play_error.Codec InvalidBoolean)))
    | _ \<Rightarrow> False"
proof -
  let ?config = "server_connection_config c"
  let ?sc = "play_session_config cenv ?config (lst_username p)"
  have "zlib_bounded (env_deflate cenv)" using assms(9,12) by simp
  from login_reaches_play [of h ?config u1 hw p u2 lw cenv evs extra] this assms(1-8) obtain sent
    where play: "handle_connection cenv ?config evs = EnterPlay ?sc (env_next_entity_id cenv) sent"
    by (auto simp: server_frame_limit)
  show ?thesis
  proof (cases "unat (cfg_default_gamemode c) < 4")
    case True
    then have "game_mode_from_wire (sc_gamemode ?sc) \<noteq> None" by (simp only: game_mode_known server_session)
    moreover have "str_ok 16 (sc_username ?sc)" using accepted_login(1) [OF assms(4,5)] by (simp add: server_session)
    ultimately obtain s t join w1 ps ws sync w2 where
      s: "session_new senv ?sc (env_next_entity_id cenv) ch now = Inr s"
      and t: "run_play_loop senv ?sc (env_next_entity_id cenv) ch now [] = SessionOn t []"
        "ses_told t = [PlayerJoined_msg (env_next_entity_id cenv) (sc_uuid ?sc) (sc_username ?sc) (sc_gamemode ?sc) (sc_view_distance ?sc) ch]"
        "ses_written t = w1 @ concat ws @ w2"
      and frames: "sent_as senv s (encode_join_game (join_game_packet senv s)) join w1" "dp_packet_id join = JOIN_GAME_PACKET_ID"
        "list_all2 (wire_frame (sx_deflate senv) (sc_compression_threshold ?sc) (sc_max_frame_length ?sc)) ps ws"
        "map dp_packet_id ps = join_ids @ replicate 25 CHUNK_DATA_PACKET_ID"
        "sent_as senv s (encode_synchronize_player_position (sync_packet 0)) sync w2"
        "dp_packet_id sync = SYNCHRONIZE_PLAYER_POSITION_PACKET_ID"
      using join_completes [OF assms(10,12-15), of ?sc "env_next_entity_id cenv" ch now] server_frame_limit(2)
      unfolding server_session(3) by blast
    have same: "ses_compression_threshold s = sc_compression_threshold ?sc" "ses_max_frame_length s = sc_max_frame_length ?sc"
      using s by (auto simp: session_new_def split: option.splits if_splits)
    from join_frame_ids [OF assms(11) frames(1,5)] frames same t(3)
    have "frame_ids senv (sc_compression_threshold ?sc) (sc_max_frame_length ?sc) (ses_written t) =
        JOIN_GAME_PACKET_ID # join_ids @ replicate 25 CHUNK_DATA_PACKET_ID @ [SYNCHRONIZE_PLAYER_POSITION_PACKET_ID]"
      by simp
    then show ?thesis using True t by (simp add: play server_session)
  next
    case False
    then have "game_mode_from_wire (cfg_default_gamemode c) = None" using game_mode_known by metis
    then show ?thesis using False assms(14) by (simp add: play run_play_loop_def session_new_def server_session)
  qed
qed

theorem a_login_is_in_the_game_witness:
  "\<exists>evs sc sent t. handle_connection (sample_env\<lparr>env_deflate := sx_deflate mirror_zlib\<rparr>) (server_connection_config server_config_default) evs =
      EnterPlay sc 7 sent
    \<and> run_play_loop mirror_zlib sc 7 1 0 [] = SessionOn t []
    \<and> frame_ids mirror_zlib 256 65536 (ses_written t) =
      [0x28] @ [0x17, 0x0C, 0x34, 0x4D, 0x1C, 0x6D, 0x6E, 0x3A, 0x50, 0x4E, 0x4F, 0x5C, 0x1F] @ replicate 25 0x24 @ [0x3C]"
proof -
  let ?env = "sample_env\<lparr>env_deflate := sx_deflate mirror_zlib\<rparr>"
  have "fst (encode_handshake login_handshake 65536 []) = Inr ()"
    by (simp add: packet_eval encode_handshake_def handshake_body_def login_handshake_def encode_u16_def
        MAX_SERVER_ADDRESS_UTF16_UNITS_def HANDSHAKE_PACKET_ID_def next_state_wire_value_def to_be_bytes_def to_le_bytes_def)
  then obtain hw where h: "encode_handshake login_handshake 65536 [] = (Inr (), hw)" using encoded_ex by blast
  have "fst (encode_login_start steve_start 65536 []) = Inr ()"
    by (simp add: packet_eval encode_login_start_def login_start_body_def steve_start_def encode_bool_def
        encode_uuid_bytes MAX_USERNAME_LENGTH_def LOGIN_START_PACKET_ID_def)
  then obtain lw where l: "encode_login_start steve_start 65536 [] = (Inr (), lw)" using encoded_ex by blast
  have env: "zlib_ok mirror_zlib" "writes_succeed mirror_zlib" "zlib_bounded (sx_deflate mirror_zlib)"
    "length (sx_registry_codec mirror_zlib) \<le> 54000" "sx_timeout_fails mirror_zlib = None" "\<not> sx_tick_gone mirror_zlib"
    by (simp_all add: zlib_ok_def zlib_reads_back_def writes_succeed_def zlib_bounded_def mirror_zlib_def)
  have ids: "JOIN_GAME_PACKET_ID # join_ids @ replicate 25 CHUNK_DATA_PACKET_ID @ [SYNCHRONIZE_PLAYER_POSITION_PACKET_ID] =
      [0x28] @ [0x17, 0x0C, 0x34, 0x4D, 0x1C, 0x6D, 0x6E, 0x3A, 0x50, 0x4E, 0x4F, 0x5C, 0x1F] @ replicate 25 0x24 @ [0x3C]"
    by (simp add: join_ids_def other_ids view_ids)
  have "utf8_valid (hs_server_address login_handshake)" "hs_next_state login_handshake = NextLogin" "utf8_valid (lst_username steve_start)"
    "read_bytes [ReadBytes (hw @ lw @ [1])] = Some (hw @ lw @ [1])" "\<And>a b. env_write_fails ?env a b = None"
    "sx_deflate mirror_zlib = env_deflate ?env" "\<not> cfg_online_mode server_config_default"
    by (simp_all add: login_handshake_def steve_start_def packet_eval sample_env_def server_config_default_def)
  from a_login_is_in_the_game [OF this(1,2) h this(3) l this(7,4,5,6) env(2,1,3,4,5,6), of 1 0]
  show ?thesis
    by (intro exI [of _ "[ReadBytes (hw @ lw @ [1])]"])
      (auto simp: ids server_config_default_def sample_env_def split: conn_outcome.splits)
qed

end
