(* ===== verification/Tick_Restart.thy ===== *)
theory Tick_Restart
  imports Tick_Safety Config
begin

section \<open>Stopping the tick loop and starting it again (\<open>tick.rs\<close>)\<close>

text \<open>
  What a player built, carries and stores has to be there when the server comes back. The loop stops in two ways, by
  the Shutdown message and by the flag; here is what a loop that is started on the files of a stopped one knows.
\<close>

subsection \<open>A start from files\<close>

definition restarted :: "tick_env \<Rightarrow> files \<Rightarrow> tick_state" where
  "restarted env fs = tick_start env (\<lambda>_. None) fs 0"

lemma load_world_overrides:
  "block_overrides_for (load_world rd fs level garden packs) d = load_overrides_for rd fs level d"
  by (cases d) (auto simp: load_world_def dimension_all_def block_overrides_for_def load_block_overrides_for_def
      load_pack_blocks_for_def Let_def split: option.splits)

lemma restarted_world: "block_overrides_for (ts_world (restarted env fs)) d = load_overrides_for (\<lambda>_. None) fs (te_level_name env) d"
  by (simp add: restarted_def tick_start_def Let_def load_world_overrides split: prod.splits)

lemma restarted_players: "ts_saved_players (restarted env fs) = load_players (\<lambda>_. None) fs (te_level_name env)"
  by (simp add: restarted_def tick_start_def Let_def split: prod.splits)

lemma ensure_seeded_keeps: "store q = Some c \<Longrightarrow> ensure_seeded p store q = Some c"
  by (auto simp: ensure_seeded_def or_insert_with_def split: option.splits)

lemma seed_chests_keeps: "store q = Some c \<Longrightarrow> seed_chests ord d blocks store q = Some c"
proof -
  have "store q = Some c \<Longrightarrow> fold (\<lambda>(position, state) store. if is_chest state then ensure_seeded (container_key d position) store else store)
      xs store q = Some c" for xs
    by (induction xs arbitrary: store) (auto simp: ensure_seeded_keeps)
  then show "store q = Some c \<Longrightarrow> ?thesis" by (simp add: seed_chests_def)
qed

lemma restarted_containers:
  assumes "load_chests (\<lambda>_. None) fs (te_level_name env) q = Some c"
  shows "ts_containers (restarted env fs) q = Some c"
proof -
  have "fold (\<lambda>d store. case packs d of None \<Rightarrow> store | Some pack \<Rightarrow> seed_chests (te_blocks env) d (mp_blocks pack) store) ds store q = Some c"
    if "store q = Some c" for packs :: "dimension_id \<rightharpoonup> map_pack" and ds store
    using that by (induction ds arbitrary: store) (auto simp: seed_chests_keeps split: option.splits)
  then show ?thesis using assms by (simp add: restarted_def tick_start_def Let_def load_containers_def split: prod.splits)
qed

subsection \<open>The files of a level\<close>

lemma level_files:
  "blocks_file_for level d \<noteq> blocks_tmp_file_for level e" "blocks_file_for level d = blocks_file_for level e \<longleftrightarrow> d = e"
  "blocks_file_for level d \<noteq> players_file level" "blocks_file_for level d \<noteq> players_tmp_file level"
  "blocks_file_for level d \<noteq> chests_file level" "blocks_file_for level d \<noteq> world_dir level @ [ascii ''chests.tmp'']"
  "players_file level \<noteq> blocks_tmp_file_for level d" "players_file level \<noteq> players_tmp_file level"
  "players_file level \<noteq> chests_file level" "players_file level \<noteq> world_dir level @ [ascii ''chests.tmp'']"
  "chests_file level \<noteq> blocks_tmp_file_for level d" "chests_file level \<noteq> players_tmp_file level"
  "chests_file level \<noteq> world_dir level @ [ascii ''chests.tmp'']"
  by ((cases d; cases e)?, simp_all add: blocks_file_for_def blocks_tmp_file_for_def blocks_file_def blocks_tmp_file_def
      players_file_def players_tmp_file_def chests_file_def)+

text \<open>The saves of a stop meet no failure.\<close>

definition saves_fine :: "tick_env \<Rightarrow> tick_state \<Rightarrow> bool" where
  "saves_fine env s \<longleftrightarrow> (\<forall>n \<in> {0..<5}. te_io env (ts_saves s + n) = io_fine)"

lemma saved_overrides_files:
  assumes "\<forall>n \<in> {0..<3}. te_io env (ts_saves s + n) = io_fine"
  shows "ts_files (save_all_overrides env s) (blocks_file_for (te_level_name env) d) =
      Some (serialize_overrides (te_blocks env) (block_overrides_for (ts_world s) d))"
    and "ts_saves (save_all_overrides env s) = ts_saves s + 3"
proof -
  have "te_io env (ts_saves s) = io_fine" "te_io env (Suc (ts_saves s)) = io_fine" "te_io env (Suc (Suc (ts_saves s))) = io_fine"
    using assms by (auto dest: bspec [of _ _ 0] bspec [of _ _ 1] bspec [of _ _ 2])
  then show "ts_files (save_all_overrides env s) (blocks_file_for (te_level_name env) d) =
      Some (serialize_overrides (te_blocks env) (block_overrides_for (ts_world s) d))"
    by (cases d) (simp_all add: save_all_overrides_def dimension_all_def do_save_def save_overrides_for_def persist_result_def
        save_file_fine level_files not_sym [OF level_files(1)])
qed (simp add: save_all_overrides_def dimension_all_def do_save_def)

lemma save_all_overrides_same:
  "ts_world (save_all_overrides env s) = ts_world s" "ts_containers (save_all_overrides env s) = ts_containers s"
  "ts_inventories (save_all_overrides env s) = ts_inventories s" "ts_saved_players (save_all_overrides env s) = ts_saved_players s"
  by (simp_all add: save_all_overrides_def dimension_all_def do_save_def)

lemma persist_result_files: "snd (persist_result r) = snd r"
  by (auto simp: persist_result_def split: prod.splits sum.splits)

lemma save_all_overrides_chests:
  "ts_files (save_all_overrides env s) (chests_file (te_level_name env)) = ts_files s (chests_file (te_level_name env))"
  by (simp add: save_all_overrides_def dimension_all_def do_save_def save_overrides_for_def persist_result_files
      save_file_others level_files not_sym [OF level_files(5)])

lemma overrides_in_file:
  assumes "fs (blocks_file_for level d) = Some (serialize_overrides ord m)" "overrides_storable ord m"
  shows "load_overrides_for (\<lambda>_. None) fs level d = m"
  using assms by (simp add: load_overrides_is_load overrides.load_def overrides.reads_back)

lemma players_in_file:
  assumes "fs (players_file level) = Some (serialize_players ord m)" "players_storable ord m"
  shows "load_players (\<lambda>_. None) fs level = m"
  using assms by (simp add: load_players_is_load players.load_def players.reads_back)

lemma chests_in_file:
  assumes "fs (chests_file level) = Some (serialize_chests ord m)" "chests_fit ord m"
  shows "load_chests (\<lambda>_. None) fs level = chests_on_file m"
  using assms by (simp add: load_chests_def deserialize_serialize_on_file)

subsection \<open>The two ways to stop\<close>

text \<open>
  What is to be saved has room in the files: their counts are \<open>u32\<close>s, so no map has \<open>2 ^ 32\<close> entries, and so it is with the
  slots and the NBT of a player; a chest has its 27 slots. The NBT of an item in a chest may have any length.
\<close>

definition storable :: "tick_env \<Rightarrow> tick_state \<Rightarrow> bool" where
  "storable env s \<longleftrightarrow> (\<forall>d. overrides_storable (te_blocks env) (block_overrides_for (ts_world s) d))
    \<and> chests_fit (te_chests env) (ts_containers s)
    \<and> players_storable (te_saved env) (ts_saved_players (merge_online_into_saved env s))"

lemma merge_same:
  "ts_world (merge_online_into_saved env s) = ts_world s" "ts_files (merge_online_into_saved env s) = ts_files s"
  "ts_saves (merge_online_into_saved env s) = ts_saves s"
  "ts_world t = ts_world s \<Longrightarrow> ts_inventories t = ts_inventories s \<Longrightarrow> ts_saved_players t = ts_saved_players s \<Longrightarrow>
    ts_saved_players (merge_online_into_saved env t) = ts_saved_players (merge_online_into_saved env s)"
  by (simp_all add: merge_online_into_saved_def)

text \<open>
  C3: What a stop by the message saves is there after the next start. Suppose that each of the five saves of the stop succeeds
  (of the blocks of three gardens, of the chests, of the players), that what is saved has room in the files (\<open>storable\<close>), and that
  the files can be read at the start. Then a tick loop that is started on the files of one that received Shutdown has the
  block overrides of every garden; it has every player who was ever seen with what it last had, those online at the stop
  with their state at that moment; and it has every chest with its 27 slots, each item with the first 65535 bytes of
  its NBT. What an item has beyond that \<open>encode_slot_bytes\<close> cuts off, so a chest comes back as it was exactly if
  none of its items has more and its absent slots are empty ones.
\<close>

theorem shutdown_message_keeps_everything:
  assumes "storable env s" "saves_fine env s"
  shows "let r = restarted env (ts_files (handle_shutdown env s)) in
      (\<forall>d. block_overrides_for (ts_world r) d = block_overrides_for (ts_world s) d)
    \<and> ts_saved_players r = ts_saved_players s ++ collect_player_data env (ts_world s) (ts_inventories s)
    \<and> (\<forall>p slots. ts_containers s p = Some slots \<longrightarrow>
        ts_containers r p = Some (map slot_on_file slots)
      \<and> (ts_containers r p = Some slots \<longleftrightarrow> list_all chest_slot_ok slots))"
proof -
  let ?l = "te_level_name env" and ?s1 = "save_all_overrides env s"
  have fine: "te_io env (ts_saves s + n) = io_fine" if "n < 5" for n using assms(2) that by (simp add: saves_fine_def)
  then have three: "\<forall>n \<in> {0..<3}. te_io env (ts_saves s + n) = io_fine" by simp
  note saved = saved_overrides_files [OF three] save_all_overrides_same [of env s]
  define s2 where "s2 = save_containers env ?s1"
  have s2: "ts_files s2 = (ts_files ?s1)(chests_file ?l \<mapsto> serialize_chests (te_chests env) (ts_containers s),
      world_dir ?l @ [ascii ''chests.tmp''] := None)" "ts_saves s2 = ts_saves s + 4"
    "ts_world s2 = ts_world s" "ts_inventories s2 = ts_inventories s" "ts_saved_players s2 = ts_saved_players s"
    using fine [of 3] by (simp_all add: s2_def save_containers_def do_save_def save_chests_def save_file_fine saved del: fun_upd_apply)
  define s3 where "s3 = merge_online_into_saved env s2"
  have s3: "ts_saved_players s3 = ts_saved_players (merge_online_into_saved env s)" "ts_files s3 = ts_files s2" "ts_saves s3 = ts_saves s + 4"
    unfolding s3_def by (simp_all add: merge_same(2,3) s2(2) merge_same(4) [OF s2(3-5)])
  define fs where "fs = ts_files (handle_shutdown env s)"
  have files: "fs = (ts_files s2)(players_file ?l \<mapsto> serialize_players (te_saved env) (ts_saved_players s3), players_tmp_file ?l := None)"
    using fine [of 4] s3 by (simp add: fs_def handle_shutdown_def Let_def s2_def [symmetric] s3_def [symmetric] save_cached_players_def
        do_save_def save_players_def persist_result_files save_file_fine del: fun_upd_apply)
  have "fs (blocks_file_for ?l d) = Some (serialize_overrides (te_blocks env) (block_overrides_for (ts_world s) d))" for d
    using saved(1) by (simp add: files s2(1) level_files)
  moreover have "fs (players_file ?l) = Some (serialize_players (te_saved env) (ts_saved_players (merge_online_into_saved env s)))"
    by (simp add: files level_files s3(1))
  moreover have "fs (chests_file ?l) = Some (serialize_chests (te_chests env) (ts_containers s))"
    by (simp add: files s2(1) level_files not_sym [OF level_files(9)])
  ultimately have loads: "load_overrides_for (\<lambda>_. None) fs ?l d = block_overrides_for (ts_world s) d"
    "load_players (\<lambda>_. None) fs ?l = ts_saved_players (merge_online_into_saved env s)" "load_chests (\<lambda>_. None) fs ?l = chests_on_file (ts_containers s)" for d
    using assms(1) overrides_in_file players_in_file chests_in_file unfolding storable_def by blast+
  have "ts_containers (restarted env fs) p = Some (map slot_on_file slots)" if "ts_containers s p = Some slots" for p slots
    using restarted_containers [of fs env p] loads(3) that by (simp add: chests_on_file_def)
  then show ?thesis
    using loads(1,2) by (simp add: fs_def [symmetric] Let_def restarted_world restarted_players slots_on_file_same)
      (simp add: merge_online_into_saved_def)
qed

text \<open>A block of the nether and two chests beside it, the second with an item of 70000 bytes of NBT.\<close>

definition sample_level_env :: "tick_env \<Rightarrow> tick_env" where
  "sample_level_env env = env\<lparr>te_level_name := ascii ''world'', te_io := (\<lambda>_. io_fine), te_blocks := sorted_entries,
    te_players := sorted_entries, te_saved := sorted_entries, te_chests := sorted_entries\<rparr>"

definition sample_level :: "tick_env \<Rightarrow> tick_state" where
  "sample_level env = (restarted env Map.empty)\<lparr>
    ts_world := load_block_overrides_for Nether [(1, 64, 2) \<mapsto> 10] (with_garden (garden_from_size Tiny)),
    ts_containers := [(Nether, 0, 64, 4) \<mapsto> starter_chest_loot,
      (Nether, 0, 64, 5) \<mapsto> starter_chest_loot[0 := slot_with_nbt 5 1 (replicate 70000 7)]]\<rparr>"

lemma starter_chest_whole: "length starter_chest_loot = CHEST_SLOT_COUNT" "list_all chest_slot_ok starter_chest_loot"
  by (simp_all add: starter_chest_loot_def empty_chest_def CHEST_SLOT_COUNT_def chest_slot_ok_def slot_item_def slot_empty_def
      list_all_length nth_list_update)

theorem shutdown_message_keeps_everything_witness:
  "\<forall>e. let env = sample_level_env e; r = restarted env (ts_files (handle_shutdown env (sample_level env))) in
    block_overrides_for (ts_world r) Nether (1, 64, 2) = Some 10 \<and> ts_containers r (Nether, 0, 64, 4) = Some starter_chest_loot
  \<and> ts_containers r (Nether, 0, 64, 5) = Some (starter_chest_loot[0 := slot_with_nbt 5 1 (replicate 65535 7)])"
proof
  fix e
  define env where "env = sample_level_env e"
  define s where "s = sample_level env"
  have whole: "map slot_on_file starter_chest_loot = starter_chest_loot" by (simp add: slots_on_file_same starter_chest_whole(2))
  have empties: "overrides_storable sorted_entries Map.empty" "players_storable sorted_entries Map.empty"
    by (simp_all add: overrides_storable_def players_storable_def sorted.iteration_order_axioms)
  have "storable env s"
    unfolding storable_def
  proof (intro conjI allI)
    fix d
    show "overrides_storable (te_blocks env) (block_overrides_for (ts_world s) d)"
      using empties(1) by (cases d) (simp_all add: s_def sample_level_def env_def sample_level_env_def block_overrides_for_def
        load_block_overrides_for_def with_garden_def empty_by_dim_def dimension_all_def overrides_storable_def)
    show "chests_fit (te_chests env) (ts_containers s)"
      by (auto simp: s_def sample_level_def env_def sample_level_env_def chests_fit_def starter_chest_whole(1)
          sorted.iteration_order_axioms ran_def split: if_splits)
    have "ts_inventories s = Map.empty" "ts_saved_players s = Map.empty"
      by (simp_all add: s_def sample_level_def restarted_def tick_start_def Let_def load_players_def load_players_from_path_def
          split: prod.splits)
    moreover have "fold (\<lambda>_ r. r) xs m = m" for xs :: "player_handle list" and m :: player_map by (induction xs) simp_all
    ultimately have "ts_saved_players (merge_online_into_saved env s) = Map.empty"
      by (simp add: merge_online_into_saved_def collect_player_data_def collect_one_player_data_def)
    then show "players_storable (te_saved env) (ts_saved_players (merge_online_into_saved env s))"
      using empties(2) by (simp add: env_def sample_level_env_def)
  qed
  moreover have "saves_fine env s" by (simp add: saves_fine_def env_def sample_level_env_def)
  ultimately show "let env = sample_level_env e; r = restarted env (ts_files (handle_shutdown env (sample_level env))) in
      block_overrides_for (ts_world r) Nether (1, 64, 2) = Some 10 \<and> ts_containers r (Nether, 0, 64, 4) = Some starter_chest_loot
    \<and> ts_containers r (Nether, 0, 64, 5) = Some (starter_chest_loot[0 := slot_with_nbt 5 1 (replicate 65535 7)])"
    using shutdown_message_keeps_everything [of env s]
    by (simp add: Let_def env_def [symmetric] s_def [symmetric])
      (simp add: s_def sample_level_def block_overrides_for_def load_block_overrides_for_def map_update whole
        slot_on_file_def slot_with_nbt_def)
qed

text \<open>
  C33: A stop by the flag forgets the chests. \<open>TickHandle::shutdown\<close> sets the flag and then sends the message, so a loop that
  was in its pause sees the flag first: it ends with a flush that writes blocks and players, while the file of the chests
  stays as it was, so that what was put into chests since the last autosave is not there after the next start,
  whatever the files, the mods and the outcomes of the saves are.
\<close>

theorem shutdown_flag_forgets_chests:
  "load_chests rd (ts_files (fst (flush_on_flag env mods (s, m)))) (te_level_name env) = load_chests rd (ts_files s) (te_level_name env)"
proof -
  have "ts_files (fst (flush_on_flag env mods (s, m))) (chests_file (te_level_name env)) = ts_files s (chests_file (te_level_name env))"
    by (simp add: flush_on_flag_def Let_def save_cached_players_def do_save_def save_players_def persist_result_files
        save_file_others merge_same(1-3) level_files not_sym [OF level_files(9)] save_all_overrides_chests)
  then show ?thesis by (simp add: load_chests_def)
qed

end
