(* ===== verification/Error_Text.thy ===== *)
theory Error_Text
  imports Login_Machine Play_Machine Status_Packets Session Connection Text_Format
begin

section \<open>What errors say (\<open>fmt::Display\<close>)\<close>

text \<open>
  The texts of the errors of both crates, as the clients of the conformance crate keep them and the server logs them. An
  I/O error and a zlib error are their own texts.
\<close>

subsection \<open>Numbers\<close>

text \<open>\<open>{:02x}\<close> on an \<open>i32\<close>: the hexadecimal digits of its bit pattern, two of them at least.\<close>

definition hex_digit :: "nat \<Rightarrow> u8" where
  "hex_digit d = word_of_nat (if d < 10 then 48 + d else 87 + d)"

fun hex_nat :: "nat \<Rightarrow> rstring" where
  "hex_nat n = (if n < 16 then [hex_digit n] else hex_nat (n div 16) @ [hex_digit (n mod 16)])"

declare hex_nat.simps [simp del]

definition hex2 :: "i32 \<Rightarrow> rstring" where
  "hex2 i = (let digits = hex_nat (unat i) in if length digits < 2 then 48 # digits else digits)"

definition dec_i32 :: "i32 \<Rightarrow> rstring" where
  "dec_i32 i = dec_int (sint i)"

subsection \<open>States\<close>

definition protocol_state_name :: "protocol_state \<Rightarrow> rstring" where
  "protocol_state_name s =
    ascii (case s of Handshaking \<Rightarrow> ''Handshaking'' | Status \<Rightarrow> ''Status'' | Login \<Rightarrow> ''Login'' | Play \<Rightarrow> ''Play'' | Closed \<Rightarrow> ''Closed'')"

definition state_error_message :: "state_error \<Rightarrow> rstring" where
  "state_error_message e =
    (case e of
       state_error.WrongState current expected \<Rightarrow>
         ascii ''packet received in '' @ protocol_state_name current @ ascii '' state, expected '' @ protocol_state_name expected
     | state_error.ConnectionClosed \<Rightarrow> ascii ''connection is closed'')"

definition status_state_error_message :: "status_state_error \<Rightarrow> rstring" where
  "status_state_error_message e =
    (case e of
       status_state_error.WrongState current expected \<Rightarrow>
         ascii ''status packet received in '' @ protocol_state_name current @ ascii '' state, expected ''
           @ protocol_state_name expected
     | status_state_error.ConnectionClosed \<Rightarrow> ascii ''connection is closed'')"

subsection \<open>Codecs and frames\<close>

definition codec_error_message :: "codec_error \<Rightarrow> rstring" where
  "codec_error_message e = ascii
    (case e of
       IncompleteInput \<Rightarrow> ''incomplete protocol input''
     | VarIntTooLong \<Rightarrow> ''VarInt is overlong''
     | VarLongTooLong \<Rightarrow> ''VarLong is overlong''
     | NegativeStringLength \<Rightarrow> ''String has a negative byte length''
     | StringTooLong \<Rightarrow> ''String exceeds its configured limit''
     | InvalidUtf8 \<Rightarrow> ''String is not valid UTF-8''
     | InvalidBoolean \<Rightarrow> ''boolean byte was not 0 or 1'')"

definition framing_error_message :: "framing_error \<Rightarrow> rstring" where
  "framing_error_message e =
    (case e of
       LengthCodec error \<Rightarrow> ascii ''invalid frame-length VarInt: '' @ codec_error_message error
     | LengthPrefixTooLong n \<Rightarrow> ascii ''frame-length prefix uses '' @ dec_nat n @ ascii '' bytes, at most 3 allowed''
     | PacketIdCodec error \<Rightarrow> ascii ''invalid packet-ID VarInt: '' @ codec_error_message error
     | NegativeFrameLength \<Rightarrow> ascii ''frame length is negative''
     | ZeroFrameLength \<Rightarrow> ascii ''frame length is zero''
     | FrameTooLong n maximum \<Rightarrow> ascii ''frame length '' @ dec_nat n @ ascii '' exceeds maximum '' @ dec_nat maximum
     | FrameLengthOverflow \<Rightarrow> ascii ''frame length cannot be represented safely'')"

definition wrong_packet_id_message :: "i32 \<Rightarrow> i32 \<Rightarrow> rstring" where
  "wrong_packet_id_message received expected =
    ascii ''expected packet ID '' @ dec_i32 expected @ ascii '', got '' @ dec_i32 received"

definition trailing_bytes_message :: "nat \<Rightarrow> rstring" where
  "trailing_bytes_message count = ascii ''packet has '' @ dec_nat count @ ascii '' trailing byte(s)''"

subsection \<open>Packets\<close>

definition handshake_error_message :: "handshake_error \<Rightarrow> rstring" where
  "handshake_error_message e =
    (case e of
       handshake_error.WrongPacketId received \<Rightarrow> ascii ''expected handshake packet ID 0, got '' @ dec_i32 received
     | handshake_error.Codec error \<Rightarrow> ascii ''handshake field codec error: '' @ codec_error_message error
     | AddressTooLong \<Rightarrow> ascii ''handshake server address is too long''
     | InvalidNextState value \<Rightarrow> ascii ''invalid handshake next_state value '' @ dec_i32 value
     | handshake_error.TrailingBytes count \<Rightarrow> ascii ''handshake packet has '' @ dec_nat count @ ascii '' trailing byte(s)''
     | handshake_error.Incomplete \<Rightarrow> ascii ''handshake input is incomplete'')"

definition status_error_message :: "status_error \<Rightarrow> rstring" where
  "status_error_message e =
    (case e of
       status_error.Codec error \<Rightarrow> ascii ''status codec error: '' @ codec_error_message error
     | PayloadNotEmpty count \<Rightarrow> ascii ''status payload must be empty, got '' @ dec_nat count @ ascii '' byte(s)''
     | status_error.WrongPacketId received expected \<Rightarrow>
         ascii ''expected status packet ID '' @ dec_i32 expected @ ascii '', got '' @ dec_i32 received
     | JsonTooLong \<Rightarrow> ascii ''status JSON response exceeds limit''
     | JsonSerialization message \<Rightarrow> ascii ''status JSON serialization failed: '' @ message
     | status_error.Incomplete \<Rightarrow> ascii ''status input is incomplete'')"

definition compression_error_message :: "io_error compression_error \<Rightarrow> rstring" where
  "compression_error_message e =
    (case e of
       compression_error.Framing error \<Rightarrow> ascii ''framing error: '' @ framing_error_message error
     | compression_error.Codec error \<Rightarrow> ascii ''codec error: '' @ codec_error_message error
     | Zlib error \<Rightarrow> ascii ''zlib error: '' @ error
     | DecompressedTooLarge n maximum \<Rightarrow>
         ascii ''decompressed payload '' @ dec_nat n @ ascii '' exceeds maximum '' @ dec_nat maximum
     | DataLengthMismatch declared actual \<Rightarrow>
         ascii ''data length '' @ dec_nat declared @ ascii '' does not match actual '' @ dec_nat actual
     | compression_error.WrongPacketId received expected \<Rightarrow> wrong_packet_id_message received expected
     | compression_error.TrailingBytes count \<Rightarrow> trailing_bytes_message count
     | compression_error.Incomplete \<Rightarrow> ascii ''incomplete input'')"

text \<open>\<open>{:?}\<close> on a protocol state is the name of the variant, which is what \<open>name\<close> gives.\<close>

definition login_error_message :: "login_error \<Rightarrow> rstring" where
  "login_error_message e =
    (case e of
       login_error.Framing error \<Rightarrow> ascii ''framing error: '' @ framing_error_message error
     | login_error.Codec error \<Rightarrow> ascii ''codec error: '' @ codec_error_message error
     | login_error.WrongPacketId received expected \<Rightarrow> wrong_packet_id_message received expected
     | login_error.TrailingBytes count \<Rightarrow> trailing_bytes_message count
     | login_error.WrongState received \<Rightarrow> ascii ''expected Login state, got '' @ protocol_state_name received
     | login_error.Incomplete \<Rightarrow> ascii ''incomplete input'')"

text \<open>\<open>StillRunning\<close> is no error of the program, but a decoder of the model that has not come to its end; it has no text.\<close>

definition play_error_message :: "play_error \<Rightarrow> rstring" where
  "play_error_message e =
    (case e of
       play_error.Framing error \<Rightarrow> ascii ''framing error: '' @ framing_error_message error
     | play_error.Codec error \<Rightarrow> ascii ''codec error: '' @ codec_error_message error
     | play_error.Compression error \<Rightarrow> ascii ''compression error: '' @ compression_error_message error
     | play_error.WrongPacketId received expected \<Rightarrow> wrong_packet_id_message received expected
     | play_error.TrailingBytes count \<Rightarrow> trailing_bytes_message count
     | play_error.WrongState received \<Rightarrow> ascii ''expected Play state, got '' @ protocol_state_name received
     | play_error.Incomplete \<Rightarrow> ascii ''incomplete input''
     | StillRunning \<Rightarrow> [])"

subsection \<open>Machines, connections and sessions\<close>

text \<open>The phases as the source names them.\<close>

definition login_phase_name :: "login_phase \<Rightarrow> rstring" where
  "login_phase_name p = ascii
    (case p of AwaitingLoginStart \<Rightarrow> ''AwaitingLoginStart'' | AwaitingEncryptionResponse \<Rightarrow> ''AwaitingEncryptionResponse''
     | LoginDone \<Rightarrow> ''LoginComplete'' | Disconnected \<Rightarrow> ''Disconnected'')"

definition login_machine_error_message :: "login_machine_error \<Rightarrow> rstring" where
  "login_machine_error_message e =
    (case e of
       LoginErr error \<Rightarrow> ascii ''login error: '' @ login_error_message error
     | UnexpectedPacket phase expected \<Rightarrow>
         ascii ''unexpected packet in phase '' @ login_phase_name phase @ ascii '', expected '' @ ascii expected
     | Terminal \<Rightarrow> ascii ''login state machine has reached a terminal state'')"

definition play_phase_name :: "play_phase \<Rightarrow> rstring" where
  "play_phase_name p = ascii
    (case p of AwaitingTeleportConfirm \<Rightarrow> ''AwaitingTeleportConfirm'' | PlayActive \<Rightarrow> ''Active'' | PlayDisconnected \<Rightarrow> ''Disconnected'')"

definition play_machine_error_message :: "play_machine_error \<Rightarrow> rstring" where
  "play_machine_error_message e =
    (case e of
       PlayErr error \<Rightarrow> ascii ''play error: '' @ play_error_message error
     | PlayTerminal \<Rightarrow> ascii ''play state machine has reached a terminal state''
     | UnexpectedEvent phase expected \<Rightarrow>
         ascii ''unexpected event in phase '' @ play_phase_name phase @ ascii '', expected '' @ ascii expected
     | Custom message \<Rightarrow> message)"

text \<open>Without the error of a session, which is an outcome of its own here.\<close>

definition connection_error_message :: "connection_error \<Rightarrow> rstring" where
  "connection_error_message e =
    (case e of
       Io error \<Rightarrow> ascii ''I/O error: '' @ error
     | RemoteDisconnected \<Rightarrow> ascii ''remote disconnected''
     | ConnFraming error \<Rightarrow> ascii ''framing error: '' @ framing_error_message error
     | ConnHandshake error \<Rightarrow> ascii ''handshake error: '' @ handshake_error_message error
     | ConnStatus error \<Rightarrow> ascii ''status error: '' @ status_error_message error
     | ConnLogin error \<Rightarrow> ascii ''login error: '' @ login_error_message error
     | ConnLoginMachine error \<Rightarrow> ascii ''login state machine error: '' @ login_machine_error_message error
     | ConnCompression error \<Rightarrow> ascii ''compression error: '' @ compression_error_message error
     | ConnUnexpectedPacket state packet_id \<Rightarrow>
         ascii ''unexpected packet 0x'' @ hex2 packet_id @ ascii '' in '' @ protocol_state_name state @ ascii '' state'')"

definition session_error_message :: "session_error \<Rightarrow> rstring" where
  "session_error_message e =
    (case e of
       SessIo error \<Rightarrow> ascii ''I/O error: '' @ error
     | SessDisconnected \<Rightarrow> ascii ''remote disconnected''
     | SessPlay error \<Rightarrow> ascii ''play error: '' @ play_error_message error
     | SessFraming error \<Rightarrow> ascii ''framing error: '' @ framing_error_message error
     | SessUnexpectedPacket packet_id \<Rightarrow> ascii ''unexpected packet 0x'' @ hex2 packet_id @ ascii '' in Play state''
     | TeleportTimeout \<Rightarrow> ascii ''teleport confirmation timeout''
     | InvalidPosition \<Rightarrow> ascii ''invalid position (NaN or Inf)''
     | KeepAliveTimeout \<Rightarrow> ascii ''keep alive timeout'')"

end
