(* ===== verification/Probe_Stream.thy ===== *)
theory Probe_Stream
  imports Error_Text Connection_Run
begin

section \<open>The socket of a conformance client\<close>

text \<open>
  The clients of the conformance crate talk to a server over one TCP connection. What the operating system answers
  is given: a fault says whether it is a time-out (an I/O error of kind \<open>TimedOut\<close> or \<open>WouldBlock\<close>, or the end of
  tokio's time limit) and what the error says; the reads are a list, after which the server is silent, so that the next
  read runs into its time-out. What a client writes is kept, so that a server can be given it.
\<close>

type_synonym io_fault = "bool \<times> io_error"

datatype probe_read = Received bytes | ReadFault io_fault

record probe_env =
  pe_parse_address :: "rstring \<Rightarrow> rstring option"
  pe_connect :: "io_fault option"
  pe_set_read_timeout :: "io_error option"
  pe_set_write_timeout :: "io_error option"
  pe_write :: "bytes \<Rightarrow> bytes \<Rightarrow> io_fault option"
  pe_deflate :: "bytes \<Rightarrow> io_error + bytes"
  pe_inflate :: "bytes \<Rightarrow> io_error + bytes"
  pe_from_json :: "rstring \<Rightarrow> rstring + status_response"
  pe_fuel :: nat

text \<open>\<open>write_all\<close>, its error converted.\<close>

definition probe_write :: "probe_env \<Rightarrow> (io_fault \<Rightarrow> 'e) \<Rightarrow> bytes \<Rightarrow> ('e, unit, bytes) st" where
  "probe_write env conv wire sent =
    (case pe_write env sent wire of Some f \<Rightarrow> (Inl (conv f), sent) | None \<Rightarrow> (Inr (), sent @ wire))"

text \<open>A packet encoded into an empty buffer, its error converted.\<close>

definition probe_encode :: "('e \<Rightarrow> 'f) \<Rightarrow> 'e encoder \<Rightarrow> 'f + bytes" where
  "probe_encode conv enc = (case enc [] of (Inl e, _) \<Rightarrow> Inl (conv e) | (Inr _, wire) \<Rightarrow> Inr wire)"

definition probe_send :: "probe_env \<Rightarrow> (io_fault \<Rightarrow> 'f) \<Rightarrow> ('e \<Rightarrow> 'f) \<Rightarrow> 'e encoder \<Rightarrow> ('f, unit, bytes) st" where
  "probe_send env io conv enc sent =
    (case probe_encode conv enc of Inl e \<Rightarrow> (Inl e, sent) | Inr wire \<Rightarrow> probe_write env io wire sent)"

definition PROTOCOL_VERSION :: i32 where "PROTOCOL_VERSION = 763"

text \<open>\<open>format!("{}:{}", host, port)\<close>.\<close>

definition host_port :: "rstring \<Rightarrow> u16 \<Rightarrow> rstring" where
  "host_port host port = host @ ascii '':'' @ dec_nat (unat port)"

subsection \<open>What the reads deliver\<close>

fun received :: "probe_read list \<Rightarrow> bytes option" where
  "received [] = Some []"
| "received (Received bs # reads) = (if bs = [] then None else map_option ((@) bs) (received reads))"
| "received (ReadFault f # reads) = None"

lemma received_Cons: "received (r # reads) = Some bs \<longleftrightarrow> (\<exists>b bs'. r = Received b \<and> b \<noteq> [] \<and> received reads = Some bs' \<and> bs = b @ bs')"
  by (cases r) auto

lemma received_append:
  "received (xs @ ys) = Some bs \<longleftrightarrow> (\<exists>a b. received xs = Some a \<and> received ys = Some b \<and> bs = a @ b)"
  by (induction xs arbitrary: bs) (auto simp: received_Cons)

text \<open>A socket that takes what is written.\<close>

definition probe_writes :: "probe_env \<Rightarrow> bool" where
  "probe_writes env \<longleftrightarrow> (\<forall>sent wire. pe_write env sent wire = None)"

lemma probe_write_goes: "probe_writes env \<Longrightarrow> probe_write env conv wire sent = (Inr (), sent @ wire)"
  by (simp add: probe_write_def probe_writes_def)

lemma probe_send_goes: "probe_writes env \<Longrightarrow> enc [] = (Inr u, wire) \<Longrightarrow> probe_send env io conv enc sent = (Inr (), sent @ wire)"
  by (simp add: probe_send_def probe_encode_def probe_write_goes)

subsection \<open>Frames cut anywhere\<close>

text \<open>
  The bytes of one item \<open>p\<close> for a decoder that waits: in front of anything they are read, and no part of them is enough.
\<close>

definition item :: "(bytes \<Rightarrow> 'r \<times> bytes) \<Rightarrow> 'r \<Rightarrow> 'r \<Rightarrow> bytes \<Rightarrow> bool" where
  "item dec wait p w \<longleftrightarrow> (\<forall>rest. dec (w @ rest) = (p, rest)) \<and> (\<forall>a b. w = a @ b \<longrightarrow> b \<noteq> [] \<longrightarrow> dec a = (wait, a))"

lemma item_full: "item dec wait p w \<Longrightarrow> dec (w @ rest) = (p, rest)"
  by (simp add: item_def)

text \<open>A buffer that together with what is to come starts with an item has all of it or is waiting for it.\<close>

lemma item_cases:
  assumes "item dec wait p w" "buffer @ later = w @ rest"
  obtains (whole) tail where "buffer = w @ tail" "rest = tail @ later" "dec buffer = (p, tail)"
  | (partial) needed where "w = buffer @ needed" "needed \<noteq> []" "later = needed @ rest" "dec buffer = (wait, buffer)"
proof (cases "length w \<le> length buffer")
  case True
  with assms(2) obtain tail where "buffer = w @ tail" "rest = tail @ later" by (auto simp: append_eq_append_conv2)
  then show ?thesis using whole item_full [OF assms(1)] by blast
next
  case False
  with assms(2) obtain needed where "w = buffer @ needed" "needed \<noteq> []" "later = needed @ rest"
    by (auto simp: append_eq_append_conv2)
  then show ?thesis using partial assms(1) by (auto simp: item_def)
qed

text \<open>A frame is one.\<close>

lemma frame_item:
  assumes "var_int_length pid + length b \<le> effective_max_length m"
  shows "item (decode_frame m) (Inr FrameIncomplete) (Inr (FrameComplete \<lparr>pf_packet_id = pid, pf_payload = b\<rparr>)) (frame_bytes pid b)"
  using decode_frame_bytes [OF assms] decode_frame_truncated [OF assms] by (auto simp: item_def)

end
