(* ===== verification/Login_Probe.thy ===== *)
theory Login_Probe
  imports Probe_Stream
begin

section \<open>The login client (\<open>login_client.rs\<close>)\<close>

text \<open>
  A client that logs in offline and reports what became of it. Each read is followed by one attempt to decode a frame, in
  the format without compression.
\<close>

datatype login_client_error = LoginConnect io_error | LoginIo io_error | LoginEof | LoginTimeout | LoginProtocol rstring

definition login_client_error_message :: "login_client_error \<Rightarrow> rstring" where
  "login_client_error_message e =
    (case e of
       LoginConnect error \<Rightarrow> ascii ''connection failed: '' @ error
     | LoginIo error \<Rightarrow> ascii ''I/O error: '' @ error
     | LoginEof \<Rightarrow> ascii ''remote closed connection prematurely''
     | LoginTimeout \<Rightarrow> ascii ''operation timed out''
     | LoginProtocol message \<Rightarrow> ascii ''protocol error: '' @ message)"

definition login_client_error_from_framing :: "framing_error \<Rightarrow> login_client_error" where
  "login_client_error_from_framing error = LoginProtocol (ascii ''framing error: '' @ framing_error_message error)"

definition login_client_error_from_login :: "login_error \<Rightarrow> login_client_error" where
  "login_client_error_from_login error = LoginProtocol (ascii ''login error: '' @ login_error_message error)"

datatype login_outcome = LoginOk uuid rstring nat | LoginRefused rstring

record login_probe_config =
  lpc_host :: rstring
  lpc_port :: u16
  lpc_username :: rstring
  lpc_uuid :: uuid

text \<open>A frame taken apart is put together again for the decoder of its packet.\<close>

definition login_packet_again :: "i32 \<Rightarrow> bytes \<Rightarrow> (nat \<Rightarrow> (login_error, login_decode_outcome) decoder) \<Rightarrow> login_client_error + login_decode_outcome" where
  "login_packet_again pid payload dec =
    (case encode_frame pid payload PROTOCOL_MAX_FRAME_LENGTH [] of
       (Inl e, _) \<Rightarrow> Inl (login_client_error_from_framing e)
     | (Inr _, reconstructed) \<Rightarrow>
       (case dec PROTOCOL_MAX_FRAME_LENGTH reconstructed of
          (Inl e, _) \<Rightarrow> Inl (login_client_error_from_login e)
        | (Inr packet, _) \<Rightarrow> Inr packet))"

text \<open>What a frame means: the outcome, or nothing yet.\<close>

definition login_probe_frame :: "i32 \<Rightarrow> bytes \<Rightarrow> login_client_error + login_outcome option" where
  "login_probe_frame packet_id payload =
    (if packet_id = 0 then
       (case login_packet_again 0 payload decode_login_disconnect of
          Inl e \<Rightarrow> Inl e
        | Inr (LoginComplete (LoginDisconnect d)) \<Rightarrow> Inr (Some (LoginRefused (ld_reason d)))
        | Inr _ \<Rightarrow> Inl (LoginProtocol (ascii ''expected Login Disconnect'')))
     else if packet_id = 2 then
       (case login_packet_again 2 payload decode_login_success of
          Inl e \<Rightarrow> Inl e
        | Inr (LoginComplete (LoginSuccess success)) \<Rightarrow>
            Inr (Some (LoginOk (lsu_uuid success) (lsu_username success) (length (lsu_properties success))))
        | Inr _ \<Rightarrow> Inl (LoginProtocol (ascii ''expected Login Success'')))
     else if packet_id = 3 then Inr None
     else Inl (LoginProtocol (ascii ''unexpected packet ID 0x'' @ hex2 packet_id @ ascii '' during login'')))"

text \<open>The loop: a read, then one frame, then, unless there is an outcome, the next read.\<close>

fun login_probe_reads :: "probe_read list \<Rightarrow> bytes \<Rightarrow> login_client_error + login_outcome" where
  "login_probe_reads [] buffer = Inl LoginTimeout"
| "login_probe_reads (ReadFault f # reads) buffer = Inl (if fst f then LoginTimeout else LoginIo (snd f))"
| "login_probe_reads (Received bs # reads) buffer =
    (if bs = [] then Inl LoginEof
     else case decode_frame PROTOCOL_MAX_FRAME_LENGTH (buffer @ bs) of
       (Inr FrameIncomplete, _) \<Rightarrow> login_probe_reads reads (buffer @ bs)
     | (Inl e, _) \<Rightarrow> Inl (login_client_error_from_framing e)
     | (Inr (FrameComplete frame), input) \<Rightarrow>
       (case login_probe_frame (pf_packet_id frame) (pf_payload frame) of
          Inl e \<Rightarrow> Inl e
        | Inr (Some outcome) \<Rightarrow> Inr outcome
        | Inr None \<Rightarrow> login_probe_reads reads input))"

text \<open>The connection, with the handshake and the Login Start, which \<open>play_client.rs\<close> sends in the same way.\<close>

definition login_client_start :: "probe_env \<Rightarrow> (rstring \<Rightarrow> 'e) \<Rightarrow> (io_error \<Rightarrow> 'e) \<Rightarrow> (io_error \<Rightarrow> 'e) \<Rightarrow> (login_error \<Rightarrow> 'e) \<Rightarrow>
    login_probe_config \<Rightarrow> ('e, unit, bytes) st" where
  "login_client_start env protocol connect io login config sent =
    (let m = PROTOCOL_MAX_FRAME_LENGTH;
         handshake = \<lparr>hs_protocol_version = PROTOCOL_VERSION, hs_server_address = lpc_host config, hs_port = lpc_port config,
           hs_next_state = NextLogin\<rparr>;
         login_start = \<lparr>lst_username = lpc_username config, lst_uuid = lpc_uuid config\<rparr> in
     case pe_parse_address env (host_port (lpc_host config) (lpc_port config)) of
       Some e \<Rightarrow> (Inl (protocol (ascii ''invalid address: '' @ e)), sent)
     | None \<Rightarrow>
    (case pe_connect env of
       Some (_, error) \<Rightarrow> (Inl (connect error), sent)
     | None \<Rightarrow>
    (case pe_set_read_timeout env of
       Some error \<Rightarrow> (Inl (io error), sent)
     | None \<Rightarrow>
    (case pe_set_write_timeout env of
       Some error \<Rightarrow> (Inl (io error), sent)
     | None \<Rightarrow>
       st_bind (probe_send env (\<lambda>f. io (snd f)) (\<lambda>e. protocol (handshake_error_message e)) (encode_handshake handshake m)) (\<lambda>_.
         probe_send env (\<lambda>f. io (snd f)) login (encode_login_start login_start m)) sent))))"

text \<open>The result, and what was written.\<close>

definition run_login_probe :: "probe_env \<Rightarrow> login_probe_config \<Rightarrow> probe_read list \<Rightarrow> (login_client_error + login_outcome) \<times> bytes" where
  "run_login_probe env config reads =
    (case login_client_start env LoginProtocol LoginConnect LoginIo login_client_error_from_login config [] of
       (Inl e, sent) \<Rightarrow> (Inl e, sent)
     | (Inr _, sent) \<Rightarrow> (login_probe_reads reads [], sent))"

end
