(* ===== verification/Play_Probe.thy ===== *)
theory Play_Probe
  imports Login_Probe Play_Player
begin

section \<open>The play client (\<open>play_client.rs\<close>, \<open>play_diff.rs\<close>)\<close>

text \<open>
  A client that logs in offline, follows the compression the server asks for, watches the first packets of the game, and
  answers the position it is put at. What it saw is compared with what it saw on another server.
\<close>

text \<open>
  \<open>PlayHangs\<close> is no error of the program: it is what becomes of a client whose walk over the NBT of a Join Game has not come
  to its end after \<open>fuel\<close> steps.
\<close>

datatype play_client_error = PlayConnect io_error | PlayIo io_error | PlayEof | PlayTimeout | PlayProtocol rstring | PlayHangs

definition play_client_error_message :: "play_client_error \<Rightarrow> rstring" where
  "play_client_error_message e =
    (case e of
       PlayConnect error \<Rightarrow> ascii ''connection failed: '' @ error
     | PlayIo error \<Rightarrow> ascii ''I/O error: '' @ error
     | PlayEof \<Rightarrow> ascii ''remote closed connection prematurely''
     | PlayTimeout \<Rightarrow> ascii ''operation timed out''
     | PlayProtocol message \<Rightarrow> ascii ''protocol error: '' @ message
     | PlayHangs \<Rightarrow> [])"

definition play_client_error_from_framing :: "framing_error \<Rightarrow> play_client_error" where
  "play_client_error_from_framing error = PlayProtocol (ascii ''framing error: '' @ framing_error_message error)"

definition play_client_error_from_login :: "login_error \<Rightarrow> play_client_error" where
  "play_client_error_from_login error = PlayProtocol (ascii ''login error: '' @ login_error_message error)"

definition play_client_error_from_play :: "play_error \<Rightarrow> play_client_error" where
  "play_client_error_from_play error =
    (case error of StillRunning \<Rightarrow> PlayHangs | _ \<Rightarrow> PlayProtocol (ascii ''play error: '' @ play_error_message error))"

definition play_client_error_from_compression :: "io_error compression_error \<Rightarrow> play_client_error" where
  "play_client_error_from_compression error = PlayProtocol (ascii ''compression error: '' @ compression_error_message error)"

datatype probe_phase = ProbeJoinGame | ProbeTeleportConfirmed | ProbePostTeleport

record play_snapshot =
  psn_entity_id :: i32
  psn_gamemode :: u8
  psn_dimension_name :: rstring
  psn_hashed_seed :: i64
  psn_is_hardcore :: bool
  psn_is_flat :: bool
  psn_uuid :: uuid
  psn_username :: rstring
  psn_phase_reached :: probe_phase
  psn_teleport_confirmed :: bool
  psn_keep_alive_seen :: bool
  psn_chunk_data_seen :: bool

text \<open>The configuration has the fields of that of the login client.\<close>

type_synonym play_probe_config = login_probe_config

subsection \<open>The login\<close>

definition packet_again :: "i32 \<Rightarrow> bytes \<Rightarrow> (nat \<Rightarrow> ('e, 'r) decoder) \<Rightarrow> ('e \<Rightarrow> play_client_error) \<Rightarrow> play_client_error + 'r" where
  "packet_again pid payload dec conv =
    (case encode_frame pid payload PROTOCOL_MAX_FRAME_LENGTH [] of
       (Inl e, _) \<Rightarrow> Inl (play_client_error_from_framing e)
     | (Inr _, reconstructed) \<Rightarrow>
       (case dec PROTOCOL_MAX_FRAME_LENGTH reconstructed of
          (Inl e, _) \<Rightarrow> Inl (conv e)
        | (Inr packet, _) \<Rightarrow> Inr packet))"

text \<open>A packet of the login changes the threshold or ends the login.\<close>

datatype login_progress = LoginGoesOn i32 | LoginDoneAs uuid rstring

definition play_probe_login_packet :: "decompressed_packet \<Rightarrow> i32 \<Rightarrow> play_client_error + login_progress" where
  "play_probe_login_packet p threshold =
    (if dp_packet_id p = 2 then
       (case packet_again 2 (dp_payload p) decode_login_success play_client_error_from_login of
          Inl e \<Rightarrow> Inl e
        | Inr (LoginComplete (LoginSuccess success)) \<Rightarrow> Inr (LoginDoneAs (lsu_uuid success) (lsu_username success))
        | Inr _ \<Rightarrow> Inl (PlayProtocol (ascii ''expected Login Success'')))
     else if dp_packet_id p = 3 then
       (case decode_var_int (dp_payload p) of
          (Inl e, _) \<Rightarrow> Inl (PlayProtocol (codec_error_message e))
        | (Inr t, _) \<Rightarrow> Inr (LoginGoesOn t))
     else if dp_packet_id p = 0 then Inl (PlayProtocol (ascii ''server sent Login Disconnect''))
     else Inl (PlayProtocol (ascii ''unexpected packet ID 0x'' @ hex2 (dp_packet_id p) @ ascii '' during login'')))"

lemma decoded_progress:
  assumes "decode_compressed_frame inflate t m inp = (Inr (CompressedComplete p), rest)"
  shows "length rest < length inp"
proof (cases "sint t < 0")
  case True
  with assms show ?thesis
    by (auto simp: decode_compressed_frame_def split: prod.splits sum.splits decode_outcome.splits dest!: decode_frame_complete)
next
  case False
  with assms obtain b where "decode_raw_frame m inp = (Inr (RawComplete b), rest)"
    by (auto simp: decode_compressed_frame_def split: prod.splits sum.splits raw_decode_outcome.splits)
  then obtain l n input where "decode_var_int inp = (Inr l, input)" "rest = drop n input"
    by (auto simp: decode_raw_frame_def Let_def split: prod.splits sum.splits codec_error.splits option.splits if_splits)
  moreover from this have "length input < length inp"
    by (cases inp) (auto simp: decode_var_int_spec var_width_def split: if_splits)
  ultimately show ?thesis by simp
qed

text \<open>
  The frames in the buffer, up to the one that ends the login. The result is the threshold and the identity, if there is one
  by now, with the rest of the buffer.
\<close>

function play_login_frames :: "probe_env \<Rightarrow> i32 \<Rightarrow> bytes \<Rightarrow> play_client_error + i32 \<times> (uuid \<times> rstring) option \<times> bytes" where
  "play_login_frames env threshold buffer =
    (case decode_compressed_frame (pe_inflate env) threshold PROTOCOL_MAX_FRAME_LENGTH buffer of
       (Inl e, _) \<Rightarrow> Inl (play_client_error_from_compression e)
     | (Inr CompressedIncomplete, _) \<Rightarrow> Inr (threshold, None, buffer)
     | (Inr (CompressedComplete p), input) \<Rightarrow>
       (case play_probe_login_packet p threshold of
          Inl e \<Rightarrow> Inl e
        | Inr (LoginDoneAs u name) \<Rightarrow> Inr (threshold, Some (u, name), input)
        | Inr (LoginGoesOn t) \<Rightarrow> play_login_frames env t input))"
  by pat_completeness auto

termination
  by (relation "measure (\<lambda>(env, threshold, buffer). length buffer)") (auto dest: decoded_progress [OF sym])

declare play_login_frames.simps [simp del]

fun play_login_reads :: "probe_env \<Rightarrow> probe_read list \<Rightarrow> i32 \<Rightarrow> bytes \<Rightarrow>
    play_client_error + i32 \<times> (uuid \<times> rstring) \<times> bytes \<times> probe_read list" where
  "play_login_reads env [] threshold buffer = Inl PlayTimeout"
| "play_login_reads env (ReadFault f # reads) threshold buffer = Inl (if fst f then PlayTimeout else PlayIo (snd f))"
| "play_login_reads env (Received bs # reads) threshold buffer =
    (if bs = [] then Inl PlayEof
     else case play_login_frames env threshold (buffer @ bs) of
       Inl e \<Rightarrow> Inl e
     | Inr (threshold, Some identity, buffer) \<Rightarrow> Inr (threshold, identity, buffer, reads)
     | Inr (threshold, None, buffer) \<Rightarrow> play_login_reads env reads threshold buffer)"

subsection \<open>The observation of play\<close>

text \<open>The local variables of the second half, and what was written so far.\<close>

record observation =
  ob_entity_id :: "i32 option"
  ob_gamemode :: "u8 option"
  ob_dimension :: "rstring option"
  ob_hashed_seed :: "i64 option"
  ob_hardcore :: "bool option"
  ob_flat :: "bool option"
  ob_teleport_confirmed :: bool
  ob_keep_alive_seen :: bool
  ob_chunk_data_seen :: bool
  ob_phase :: probe_phase
  ob_sent :: bytes

definition observation_start :: "bytes \<Rightarrow> observation" where
  "observation_start sent =
    \<lparr>ob_entity_id = None, ob_gamemode = None, ob_dimension = None, ob_hashed_seed = None, ob_hardcore = None, ob_flat = None,
     ob_teleport_confirmed = False, ob_keep_alive_seen = False, ob_chunk_data_seen = False, ob_phase = ProbeJoinGame,
     ob_sent = sent\<rparr>"

definition see_join_game :: "probe_env \<Rightarrow> bytes \<Rightarrow> (play_client_error, unit, observation) st" where
  "see_join_game env payload ob =
    (case packet_again 0x28 payload (decode_join_game (pe_fuel env)) play_client_error_from_play of
       Inl e \<Rightarrow> (Inl e, ob)
     | Inr (PlayComplete (JoinGame join)) \<Rightarrow>
         (Inr (), ob\<lparr>ob_entity_id := Some (jg_entity_id join), ob_gamemode := Some (game_mode_to_wire (jg_gamemode join)),
           ob_dimension := Some (jg_dimension_name join), ob_hashed_seed := Some (jg_hashed_seed join),
           ob_hardcore := Some (jg_is_hardcore join), ob_flat := Some (jg_is_flat join), ob_phase := ProbeJoinGame\<rparr>)
     | Inr _ \<Rightarrow> (Inl (PlayProtocol (ascii ''expected Join Game'')), ob))"

text \<open>The answer, encoded as a frame, taken apart, and encoded in the format the connection has.\<close>

definition confirm_wire :: "probe_env \<Rightarrow> i32 \<Rightarrow> i32 \<Rightarrow> play_client_error + bytes" where
  "confirm_wire env threshold teleport_id =
    (let m = PROTOCOL_MAX_FRAME_LENGTH in
     case encode_confirm_teleportation \<lparr>ct_teleport_id = teleport_id\<rparr> m [] of
       (Inl e, _) \<Rightarrow> Inl (PlayProtocol (play_error_message e))
     | (Inr _, confirm_body) \<Rightarrow>
       (case decode_frame m confirm_body of
          (Inr (FrameComplete f), _) \<Rightarrow>
            (case encode_compressed_frame (pe_deflate env) (pf_packet_id f) (pf_payload f) threshold m [] of
               (Inl e, _) \<Rightarrow> Inl (play_client_error_from_compression e)
             | (Inr _, wire) \<Rightarrow> Inr wire)
        | _ \<Rightarrow> Inl (PlayProtocol (ascii ''failed to re-encode Confirm Teleportation''))))"

text \<open>A position packet that does not decode is skipped.\<close>

definition see_position :: "probe_env \<Rightarrow> i32 \<Rightarrow> bytes \<Rightarrow> (play_client_error, unit, observation) st" where
  "see_position env threshold payload ob =
    (case encode_frame 0x3C payload PROTOCOL_MAX_FRAME_LENGTH [] of
       (Inl e, _) \<Rightarrow> (Inl (play_client_error_from_framing e), ob)
     | (Inr _, reconstructed) \<Rightarrow>
       (case decode_synchronize_player_position PROTOCOL_MAX_FRAME_LENGTH reconstructed of
          (Inr (PlayComplete (SynchronizePlayerPosition sync)), _) \<Rightarrow>
            (case confirm_wire env threshold (syn_teleport_id sync) of
               Inl e \<Rightarrow> (Inl e, ob)
             | Inr wire \<Rightarrow>
               (case probe_write env (\<lambda>f. PlayIo (snd f)) wire (ob_sent ob) of
                  (Inl e, sent) \<Rightarrow> (Inl e, ob\<lparr>ob_sent := sent\<rparr>)
                | (Inr _, sent) \<Rightarrow>
                    (Inr (), ob\<lparr>ob_sent := sent, ob_teleport_confirmed := True, ob_phase := ProbeTeleportConfirmed\<rparr>)))
        | _ \<Rightarrow> (Inr (), ob)))"

definition past_teleport :: "observation \<Rightarrow> observation" where
  "past_teleport ob = (if ob_teleport_confirmed ob then ob\<lparr>ob_phase := ProbePostTeleport\<rparr> else ob)"

definition observe_packet :: "probe_env \<Rightarrow> i32 \<Rightarrow> decompressed_packet \<Rightarrow> (play_client_error, unit, observation) st" where
  "observe_packet env threshold p ob =
    (if dp_packet_id p = 0x28 then see_join_game env (dp_payload p) ob
     else if dp_packet_id p = 0x3C then see_position env threshold (dp_payload p) ob
     else if dp_packet_id p = 0x23 then (Inr (), past_teleport (ob\<lparr>ob_keep_alive_seen := True\<rparr>))
     else if dp_packet_id p = 0x24 then (Inr (), past_teleport (ob\<lparr>ob_chunk_data_seen := True\<rparr>))
     else (Inr (), ob))"

function observe_frames :: "probe_env \<Rightarrow> i32 \<Rightarrow> bytes \<Rightarrow> (play_client_error, bytes, observation) st" where
  "observe_frames env threshold buffer ob =
    (case decode_compressed_frame (pe_inflate env) threshold PROTOCOL_MAX_FRAME_LENGTH buffer of
       (Inl e, _) \<Rightarrow> (Inl (play_client_error_from_compression e), ob)
     | (Inr CompressedIncomplete, _) \<Rightarrow> (Inr buffer, ob)
     | (Inr (CompressedComplete p), input) \<Rightarrow>
       (case observe_packet env threshold p ob of
          (Inl e, ob) \<Rightarrow> (Inl e, ob)
        | (Inr _, ob) \<Rightarrow> observe_frames env threshold input ob))"
  by pat_completeness auto

termination
  by (relation "measure (\<lambda>(env, threshold, buffer, ob). length buffer)") (auto dest: decoded_progress [OF sym])

declare observe_frames.simps [simp del]

text \<open>A time-out is the natural end of the observation.\<close>

fun observe_reads :: "probe_env \<Rightarrow> i32 \<Rightarrow> probe_read list \<Rightarrow> bytes \<Rightarrow> (play_client_error, unit, observation) st" where
  "observe_reads env threshold [] buffer ob = (Inr (), ob)"
| "observe_reads env threshold (ReadFault f # reads) buffer ob = (if fst f then (Inr (), ob) else (Inl (PlayIo (snd f)), ob))"
| "observe_reads env threshold (Received bs # reads) buffer ob =
    (if bs = [] then (Inl PlayEof, ob)
     else case observe_frames env threshold (buffer @ bs) ob of
       (Inl e, ob) \<Rightarrow> (Inl e, ob)
     | (Inr buffer, ob) \<Rightarrow>
       if ob_phase ob = ProbePostTeleport then (Inr (), ob) else observe_reads env threshold reads buffer ob)"

definition seen :: "'a option \<Rightarrow> play_client_error + 'a" where
  "seen x = (case x of None \<Rightarrow> Inl (PlayProtocol (ascii ''did not receive Join Game'')) | Some a \<Rightarrow> Inr a)"

definition play_snapshot_of :: "observation \<Rightarrow> uuid \<Rightarrow> rstring \<Rightarrow> play_client_error + play_snapshot" where
  "play_snapshot_of ob u name =
    (case seen (ob_entity_id ob) of Inl e \<Rightarrow> Inl e | Inr entity_id \<Rightarrow>
    (case seen (ob_gamemode ob) of Inl e \<Rightarrow> Inl e | Inr gamemode \<Rightarrow>
    (case seen (ob_dimension ob) of Inl e \<Rightarrow> Inl e | Inr dimension_name \<Rightarrow>
    (case seen (ob_hashed_seed ob) of Inl e \<Rightarrow> Inl e | Inr hashed_seed \<Rightarrow>
    (case seen (ob_hardcore ob) of Inl e \<Rightarrow> Inl e | Inr is_hardcore \<Rightarrow>
    (case seen (ob_flat ob) of Inl e \<Rightarrow> Inl e | Inr is_flat \<Rightarrow>
      Inr \<lparr>psn_entity_id = entity_id, psn_gamemode = gamemode, psn_dimension_name = dimension_name,
        psn_hashed_seed = hashed_seed, psn_is_hardcore = is_hardcore, psn_is_flat = is_flat, psn_uuid = u,
        psn_username = name, psn_phase_reached = ob_phase ob, psn_teleport_confirmed = ob_teleport_confirmed ob,
        psn_keep_alive_seen = ob_keep_alive_seen ob, psn_chunk_data_seen = ob_chunk_data_seen ob\<rparr>))))))"

text \<open>The result, and what was written.\<close>

definition run_play_probe :: "probe_env \<Rightarrow> play_probe_config \<Rightarrow> probe_read list \<Rightarrow> (play_client_error + play_snapshot) \<times> bytes" where
  "run_play_probe env config reads =
    (case login_client_start env PlayProtocol PlayConnect PlayIo play_client_error_from_login config [] of
       (Inl e, sent) \<Rightarrow> (Inl e, sent)
     | (Inr _, sent) \<Rightarrow>
       (case play_login_reads env reads COMPRESSION_DISABLED [] of
          Inl e \<Rightarrow> (Inl e, sent)
        | Inr (threshold, (u, name), buffer, reads) \<Rightarrow>
          (case observe_reads env threshold reads buffer (observation_start sent) of
             (Inl e, ob) \<Rightarrow> (Inl e, ob_sent ob)
           | (Inr _, ob) \<Rightarrow> (play_snapshot_of ob u name, ob_sent ob))))"

subsection \<open>Differences\<close>

record play_diff_entry =
  pde_field :: rstring
  pde_expected :: rstring
  pde_actual :: rstring

datatype play_diff_result = PlayMatch | PlayMismatch "play_diff_entry list"

definition probe_phase_name :: "probe_phase \<Rightarrow> rstring" where
  "probe_phase_name p = ascii
    (case p of ProbeJoinGame \<Rightarrow> ''JoinGame'' | ProbeTeleportConfirmed \<Rightarrow> ''TeleportConfirmed'' | ProbePostTeleport \<Rightarrow> ''PostTeleport'')"

definition compare_play :: "string \<Rightarrow> ('a \<Rightarrow> rstring) \<Rightarrow> 'a \<Rightarrow> 'a \<Rightarrow> play_diff_entry list" where
  "compare_play field show expected actual =
    (if expected \<noteq> actual then [\<lparr>pde_field = ascii field, pde_expected = show expected, pde_actual = show actual\<rparr>] else [])"

text \<open>\<open>{:?}\<close> on a string escapes with tables of the standard library, which is a parameter.\<close>

definition diff_play :: "(rstring \<Rightarrow> rstring) \<Rightarrow> play_snapshot \<Rightarrow> play_snapshot \<Rightarrow> play_diff_result" where
  "diff_play debug_str expected actual =
    (let debug_bool = (\<lambda>b. if b then ascii ''true'' else ascii ''false'');
         entries =
           compare_play ''gamemode'' (\<lambda>g. dec_nat (unat g)) (psn_gamemode expected) (psn_gamemode actual)
           @ compare_play ''dimension_name'' debug_str (psn_dimension_name expected) (psn_dimension_name actual)
           @ compare_play ''is_hardcore'' debug_bool (psn_is_hardcore expected) (psn_is_hardcore actual)
           @ compare_play ''is_flat'' debug_bool (psn_is_flat expected) (psn_is_flat actual)
           @ compare_play ''phase_reached'' probe_phase_name (psn_phase_reached expected) (psn_phase_reached actual)
           @ compare_play ''teleport_confirmed'' debug_bool (psn_teleport_confirmed expected) (psn_teleport_confirmed actual)
           @ compare_play ''keep_alive_seen'' debug_bool (psn_keep_alive_seen expected) (psn_keep_alive_seen actual)
           @ compare_play ''chunk_data_seen'' debug_bool (psn_chunk_data_seen expected) (psn_chunk_data_seen actual)
     in if entries = [] then PlayMatch else PlayMismatch entries)"

definition play_diff_line :: "play_diff_entry \<Rightarrow> rstring" where
  "play_diff_line e =
    ascii ''  '' @ pde_field e @ ascii '': expected '' @ pde_expected e @ ascii '' but got '' @ pde_actual e @ [10]"

definition play_diff_message :: "play_diff_result \<Rightarrow> rstring" where
  "play_diff_message r =
    (case r of
       PlayMatch \<Rightarrow> ascii ''play snapshots match''
     | PlayMismatch entries \<Rightarrow>
         ascii ''play snapshots differ ('' @ dec_nat (length entries) @ ascii '' field(s)):'' @ [10]
           @ concat (map play_diff_line entries))"

lemma diff_play_matches:
  "diff_play debug_str a b = PlayMatch \<longleftrightarrow>
    psn_gamemode a = psn_gamemode b \<and> psn_dimension_name a = psn_dimension_name b \<and> psn_is_hardcore a = psn_is_hardcore b
    \<and> psn_is_flat a = psn_is_flat b \<and> psn_phase_reached a = psn_phase_reached b
    \<and> psn_teleport_confirmed a = psn_teleport_confirmed b \<and> psn_keep_alive_seen a = psn_keep_alive_seen b
    \<and> psn_chunk_data_seen a = psn_chunk_data_seen b"
  by (simp add: diff_play_def Let_def compare_play_def)

end
