(* ===== verification/Status_Probe.thy ===== *)
theory Status_Probe
  imports Probe_Stream Config "HOL-Library.List_Lexorder"
begin

section \<open>The status client (\<open>client.rs\<close>, \<open>snapshot.rs\<close>, \<open>diff.rs\<close>)\<close>

text \<open>
  A client that asks a server for its status, keeps what matters of the answer, and compares it with that of another
  server.
\<close>

subsection \<open>Snapshots\<close>

record status_snapshot =
  ss_version_name :: rstring
  ss_protocol_version :: i32
  ss_max_players :: i32
  ss_online_players :: i32
  ss_description_text :: rstring
  ss_has_favicon :: bool
  ss_sample_names :: "rstring list"
  ss_pong_echoed :: bool

text \<open>\<open>sort\<close> on strings compares bytes, and so does the order of lists of bytes.\<close>

definition status_snapshot_from_response :: "status_response \<Rightarrow> bool \<Rightarrow> status_snapshot" where
  "status_snapshot_from_response response pong_echoed =
    (let sample_names = (case sp_sample (sr_players response) of None \<Rightarrow> [] | Some sample \<Rightarrow> sort (map ps_name sample)) in
     \<lparr>ss_version_name = sv_name (sr_version response), ss_protocol_version = sv_protocol (sr_version response),
      ss_max_players = sp_max (sr_players response), ss_online_players = sp_online (sr_players response),
      ss_description_text = sd_text (sr_description response), ss_has_favicon = (sr_favicon response \<noteq> None),
      ss_sample_names = sample_names, ss_pong_echoed = pong_echoed\<rparr>)"

record normalized_snapshot =
  ns_version_name :: rstring
  ns_protocol_version :: i32
  ns_max_players :: i32
  ns_online_players :: i32
  ns_description_text :: rstring
  ns_has_favicon :: bool
  ns_sample_names :: "rstring list"
  ns_pong_echoed :: bool

definition normalize_snapshot :: "status_snapshot \<Rightarrow> normalized_snapshot" where
  "normalize_snapshot s =
    \<lparr>ns_version_name = ss_version_name s, ns_protocol_version = ss_protocol_version s, ns_max_players = ss_max_players s,
     ns_online_players = ss_online_players s, ns_description_text = ss_description_text s, ns_has_favicon = ss_has_favicon s,
     ns_sample_names = ss_sample_names s, ns_pong_echoed = ss_pong_echoed s\<rparr>"

subsection \<open>Differences\<close>

record status_diff_entry =
  sde_field :: rstring
  sde_expected :: rstring
  sde_actual :: rstring

datatype status_diff_result = StatusMatch | StatusMismatch "status_diff_entry list"

definition is_match :: "status_diff_result \<Rightarrow> bool" where
  "is_match r = (case r of StatusMatch \<Rightarrow> True | StatusMismatch _ \<Rightarrow> False)"

definition is_mismatch :: "status_diff_result \<Rightarrow> bool" where
  "is_mismatch r = (case r of StatusMatch \<Rightarrow> False | StatusMismatch _ \<Rightarrow> True)"

text \<open>
  \<open>{:?}\<close>. On strings it escapes what the standard library's tables of Unicode hold not printable, which is a parameter.
\<close>

definition debug_bool :: "bool \<Rightarrow> rstring" where
  "debug_bool b = (if b then ascii ''true'' else ascii ''false'')"

definition debug_list :: "('a \<Rightarrow> rstring) \<Rightarrow> 'a list \<Rightarrow> rstring" where
  "debug_list show xs = ascii ''['' @ (case xs of [] \<Rightarrow> [] | x # xs \<Rightarrow> show x @ concat (map (\<lambda>y. ascii '', '' @ show y) xs)) @ ascii '']''"

text \<open>The \<open>compare!\<close> macro: an entry for a field that differs.\<close>

definition compare_field :: "string \<Rightarrow> ('a \<Rightarrow> rstring) \<Rightarrow> 'a \<Rightarrow> 'a \<Rightarrow> status_diff_entry list" where
  "compare_field field show expected actual =
    (if expected \<noteq> actual then [\<lparr>sde_field = ascii field, sde_expected = show expected, sde_actual = show actual\<rparr>] else [])"

definition status_diff :: "(rstring \<Rightarrow> rstring) \<Rightarrow> normalized_snapshot \<Rightarrow> normalized_snapshot \<Rightarrow> status_diff_result" where
  "status_diff debug_str expected actual =
    (let entries =
       compare_field ''version_name'' debug_str (ns_version_name expected) (ns_version_name actual)
       @ compare_field ''protocol_version'' dec_i32 (ns_protocol_version expected) (ns_protocol_version actual)
       @ compare_field ''max_players'' dec_i32 (ns_max_players expected) (ns_max_players actual)
       @ compare_field ''online_players'' dec_i32 (ns_online_players expected) (ns_online_players actual)
       @ compare_field ''description_text'' debug_str (ns_description_text expected) (ns_description_text actual)
       @ compare_field ''has_favicon'' debug_bool (ns_has_favicon expected) (ns_has_favicon actual)
       @ compare_field ''sample_names'' (debug_list debug_str) (ns_sample_names expected) (ns_sample_names actual)
       @ compare_field ''pong_echoed'' debug_bool (ns_pong_echoed expected) (ns_pong_echoed actual)
     in if entries = [] then StatusMatch else StatusMismatch entries)"

definition diff_entry_line :: "status_diff_entry \<Rightarrow> rstring" where
  "diff_entry_line e =
    ascii ''  '' @ sde_field e @ ascii '': expected '' @ sde_expected e @ ascii '' but got '' @ sde_actual e @ [10]"

definition status_diff_message :: "status_diff_result \<Rightarrow> rstring" where
  "status_diff_message r =
    (case r of
       StatusMatch \<Rightarrow> ascii ''snapshots match''
     | StatusMismatch entries \<Rightarrow>
         ascii ''snapshots differ ('' @ dec_nat (length entries) @ ascii '' field(s)):'' @ [10] @ concat (map diff_entry_line entries))"

text \<open>\<open>sort\<close> forgets the order and nothing else.\<close>

lemma sort_eq_mset: "sort xs = sort ys \<longleftrightarrow> mset xs = mset ys"
  by (metis mset_sort properties_for_sort sorted_sort)

lemma compare_field_Nil: "compare_field field show a b = [] \<longleftrightarrow> a = b"
  by (simp add: compare_field_def)

definition sample_names :: "status_response \<Rightarrow> rstring list" where
  "sample_names r = (case sp_sample (sr_players r) of None \<Rightarrow> [] | Some sample \<Rightarrow> map ps_name sample)"

text \<open>The fields of a snapshot as they are shown, and those in which two snapshots differ.\<close>

definition shown_fields :: "(rstring \<Rightarrow> rstring) \<Rightarrow> normalized_snapshot \<Rightarrow> (string \<times> rstring) list" where
  "shown_fields debug_str s =
    [(''version_name'', debug_str (ns_version_name s)), (''protocol_version'', dec_i32 (ns_protocol_version s)),
     (''max_players'', dec_i32 (ns_max_players s)), (''online_players'', dec_i32 (ns_online_players s)),
     (''description_text'', debug_str (ns_description_text s)), (''has_favicon'', debug_bool (ns_has_favicon s)),
     (''sample_names'', debug_list debug_str (ns_sample_names s)), (''pong_echoed'', debug_bool (ns_pong_echoed s))]"

definition differing_fields :: "normalized_snapshot \<Rightarrow> normalized_snapshot \<Rightarrow> string list" where
  "differing_fields a b = map fst (filter snd
    [(''version_name'', ns_version_name a \<noteq> ns_version_name b), (''protocol_version'', ns_protocol_version a \<noteq> ns_protocol_version b),
     (''max_players'', ns_max_players a \<noteq> ns_max_players b), (''online_players'', ns_online_players a \<noteq> ns_online_players b),
     (''description_text'', ns_description_text a \<noteq> ns_description_text b), (''has_favicon'', ns_has_favicon a \<noteq> ns_has_favicon b),
     (''sample_names'', ns_sample_names a \<noteq> ns_sample_names b), (''pong_echoed'', ns_pong_echoed a \<noteq> ns_pong_echoed b)])"

lemma filter_step: "filter P (x # xs) = (if P x then [x] else []) @ filter P xs"
  by simp

lemma differing_fields_bound: "length (differing_fields a b) \<le> 8" "distinct (map ascii (differing_fields a b))"
proof -
  have short: "length (map fst (filter snd fs)) \<le> length fs" for fs :: "(string \<times> bool) list" by simp
  show "length (differing_fields a b) \<le> 8" unfolding differing_fields_def by (rule le_trans [OF short]) simp
  have "distinct (differing_fields a b)" unfolding differing_fields_def by (rule distinct_map_filter) simp
  then show "distinct (map ascii (differing_fields a b))" by (simp add: distinct_map inj_on_def ascii_inject)
qed

lemma differing_fields_Nil: "differing_fields a b = [] \<longleftrightarrow> a = b"
  by (cases a; cases b) (simp add: differing_fields_def)

lemma differing_field:
  "''version_name'' \<in> set (differing_fields a b) \<longleftrightarrow> ns_version_name a \<noteq> ns_version_name b"
  "''protocol_version'' \<in> set (differing_fields a b) \<longleftrightarrow> ns_protocol_version a \<noteq> ns_protocol_version b"
  "''max_players'' \<in> set (differing_fields a b) \<longleftrightarrow> ns_max_players a \<noteq> ns_max_players b"
  "''online_players'' \<in> set (differing_fields a b) \<longleftrightarrow> ns_online_players a \<noteq> ns_online_players b"
  "''description_text'' \<in> set (differing_fields a b) \<longleftrightarrow> ns_description_text a \<noteq> ns_description_text b"
  "''has_favicon'' \<in> set (differing_fields a b) \<longleftrightarrow> ns_has_favicon a \<noteq> ns_has_favicon b"
  "''sample_names'' \<in> set (differing_fields a b) \<longleftrightarrow> ns_sample_names a \<noteq> ns_sample_names b"
  "''pong_echoed'' \<in> set (differing_fields a b) \<longleftrightarrow> ns_pong_echoed a \<noteq> ns_pong_echoed b"
  by (auto simp: differing_fields_def)

lemma compare_field_shows:
  "map (\<lambda>e. (sde_field e, sde_expected e)) (compare_field field show x y) = map (apfst ascii) (if x \<noteq> y then [(field, show x)] else [])"
  "map (\<lambda>e. (sde_field e, sde_actual e)) (compare_field field show x y) = map (apfst ascii) (if x \<noteq> y then [(field, show y)] else [])"
  "map sde_field (compare_field field show x y) = map ascii (map fst (if x \<noteq> y then [(field, x \<noteq> y)] else []))"
  by (simp_all add: compare_field_def)

text \<open>The comparison walks these lists in step.\<close>

definition diff_entries :: "(rstring \<Rightarrow> rstring) \<Rightarrow> normalized_snapshot \<Rightarrow> normalized_snapshot \<Rightarrow> status_diff_entry list" where
  "diff_entries debug_str a b = (case status_diff debug_str a b of StatusMatch \<Rightarrow> [] | StatusMismatch es \<Rightarrow> es)"

lemma diff_entries_shown:
  "map sde_field (diff_entries debug_str a b) = map ascii (differing_fields a b)"
  "map (\<lambda>e. (sde_field e, sde_expected e)) (diff_entries debug_str a b) =
    map (apfst ascii) (filter (\<lambda>(f, _). f \<in> set (differing_fields a b)) (shown_fields debug_str a))"
  "map (\<lambda>e. (sde_field e, sde_actual e)) (diff_entries debug_str a b) =
    map (apfst ascii) (filter (\<lambda>(f, _). f \<in> set (differing_fields a b)) (shown_fields debug_str b))"
proof -
  have es: "diff_entries debug_str a b =
      compare_field ''version_name'' debug_str (ns_version_name a) (ns_version_name b)
      @ compare_field ''protocol_version'' dec_i32 (ns_protocol_version a) (ns_protocol_version b)
      @ compare_field ''max_players'' dec_i32 (ns_max_players a) (ns_max_players b)
      @ compare_field ''online_players'' dec_i32 (ns_online_players a) (ns_online_players b)
      @ compare_field ''description_text'' debug_str (ns_description_text a) (ns_description_text b)
      @ compare_field ''has_favicon'' debug_bool (ns_has_favicon a) (ns_has_favicon b)
      @ compare_field ''sample_names'' (debug_list debug_str) (ns_sample_names a) (ns_sample_names b)
      @ compare_field ''pong_echoed'' debug_bool (ns_pong_echoed a) (ns_pong_echoed b)"
    by (auto simp only: diff_entries_def status_diff_def Let_def status_diff_result.case split: if_splits)
  show "map sde_field (diff_entries debug_str a b) = map ascii (differing_fields a b)"
    unfolding es map_append compare_field_shows differing_fields_def filter_step snd_conv by simp
  show "map (\<lambda>e. (sde_field e, sde_expected e)) (diff_entries debug_str a b) =
      map (apfst ascii) (filter (\<lambda>(f, _). f \<in> set (differing_fields a b)) (shown_fields debug_str a))"
    unfolding es map_append compare_field_shows shown_fields_def filter_step prod.case differing_field by simp
  show "map (\<lambda>e. (sde_field e, sde_actual e)) (diff_entries debug_str a b) =
      map (apfst ascii) (filter (\<lambda>(f, _). f \<in> set (differing_fields a b)) (shown_fields debug_str b))"
    unfolding es map_append compare_field_shows shown_fields_def filter_step prod.case differing_field by simp
qed

lemma mismatch_entries:
  "case status_diff debug_str a b of StatusMatch \<Rightarrow> a = b
   | StatusMismatch es \<Rightarrow> a \<noteq> b \<and> map sde_field es = map ascii (differing_fields a b)
      \<and> map (\<lambda>e. (sde_field e, sde_expected e)) es =
          map (apfst ascii) (filter (\<lambda>(f, _). f \<in> set (differing_fields a b)) (shown_fields debug_str a))
      \<and> map (\<lambda>e. (sde_field e, sde_actual e)) es =
          map (apfst ascii) (filter (\<lambda>(f, _). f \<in> set (differing_fields a b)) (shown_fields debug_str b))
      \<and> es \<noteq> [] \<and> length es \<le> 8 \<and> distinct (map sde_field es)"
proof (cases "status_diff debug_str a b")
  case StatusMatch
  then have "differing_fields a b = []" using diff_entries_shown(1) [of debug_str a b] by (simp add: diff_entries_def)
  then have "a = b" by (simp only: differing_fields_Nil)
  then show ?thesis unfolding StatusMatch status_diff_result.case .
next
  case (StatusMismatch es)
  then have es: "diff_entries debug_str a b = es" and "es \<noteq> []"
    by (auto simp: diff_entries_def status_diff_def Let_def split: if_splits)
  note shown = diff_entries_shown [of debug_str a b, unfolded es]
  have "differing_fields a b \<noteq> []" using shown(1) \<open>es \<noteq> []\<close> by auto
  moreover have "length es = length (differing_fields a b)" using arg_cong [OF shown(1), of length] by simp
  ultimately show ?thesis
    using shown \<open>es \<noteq> []\<close> differing_fields_bound [of a b] by (simp only: StatusMismatch status_diff_result.case) (simp add: differing_fields_Nil)
qed

text \<open>
  C35: Two servers match exactly when they agree. The comparison of two responses says that they match if and only if version,
  protocol, slots, players online and description are the same, both or none have an icon, the sampled names are
  the same up to their order, counted with repetition, and the pongs agree; the ids of sampled players and the
  icons themselves play no part. A mismatch lists the fields that differ, all of them and no other, each once and in the
  order of the snapshot, and shows for each the value of the one snapshot as expected and that of the other as actual.
\<close>

theorem status_diff_matches:
  "(status_diff debug_str (normalize_snapshot (status_snapshot_from_response r p)) (normalize_snapshot (status_snapshot_from_response r' p'))
      = StatusMatch \<longleftrightarrow>
    sr_version r = sr_version r' \<and> sp_max (sr_players r) = sp_max (sr_players r') \<and> sp_online (sr_players r) = sp_online (sr_players r')
    \<and> sr_description r = sr_description r' \<and> (sr_favicon r = None \<longleftrightarrow> sr_favicon r' = None)
    \<and> mset (sample_names r) = mset (sample_names r') \<and> p = p')
  \<and> (case status_diff debug_str a b of StatusMatch \<Rightarrow> a = b
     | StatusMismatch es \<Rightarrow> a \<noteq> b \<and> map sde_field es = map ascii (differing_fields a b)
        \<and> map (\<lambda>e. (sde_field e, sde_expected e)) es =
            map (apfst ascii) (filter (\<lambda>(f, _). f \<in> set (differing_fields a b)) (shown_fields debug_str a))
        \<and> map (\<lambda>e. (sde_field e, sde_actual e)) es =
            map (apfst ascii) (filter (\<lambda>(f, _). f \<in> set (differing_fields a b)) (shown_fields debug_str b))
        \<and> es \<noteq> [] \<and> length es \<le> 8 \<and> distinct (map sde_field es))"
proof
  have "(sort (sample_names r) = sort (sample_names r')) = (mset (sample_names r) = mset (sample_names r'))" by (rule sort_eq_mset)
  moreover have "ss_sample_names (status_snapshot_from_response q b) = sort (sample_names q)" for q b
    by (simp add: status_snapshot_from_response_def sample_names_def Let_def split: option.splits)
  moreover have "(sr_version r = sr_version r') = (sv_name (sr_version r) = sv_name (sr_version r') \<and> sv_protocol (sr_version r) = sv_protocol (sr_version r'))"
    "(sr_description r = sr_description r') = (sd_text (sr_description r) = sd_text (sr_description r'))"
    by (cases "sr_version r"; cases "sr_version r'"; simp) (cases "sr_description r"; cases "sr_description r'"; simp)
  ultimately show "status_diff debug_str (normalize_snapshot (status_snapshot_from_response r p))
      (normalize_snapshot (status_snapshot_from_response r' p')) = StatusMatch \<longleftrightarrow>
    sr_version r = sr_version r' \<and> sp_max (sr_players r) = sp_max (sr_players r') \<and> sp_online (sr_players r) = sp_online (sr_players r')
    \<and> sr_description r = sr_description r' \<and> (sr_favicon r = None \<longleftrightarrow> sr_favicon r' = None)
    \<and> mset (sample_names r) = mset (sample_names r') \<and> p = p'"
    by (auto simp: status_diff_def Let_def compare_field_Nil normalize_snapshot_def)
      (simp_all add: status_snapshot_from_response_def Let_def)
qed (rule mismatch_entries)

subsection \<open>Errors\<close>

datatype status_client_error = StatusConnect io_error | StatusIo io_error | StatusEof | StatusTimeout | StatusProtocol rstring

definition status_client_error_message :: "status_client_error \<Rightarrow> rstring" where
  "status_client_error_message e =
    (case e of
       StatusConnect error \<Rightarrow> ascii ''connection failed: '' @ error
     | StatusIo error \<Rightarrow> ascii ''I/O error: '' @ error
     | StatusEof \<Rightarrow> ascii ''remote closed connection prematurely''
     | StatusTimeout \<Rightarrow> ascii ''operation timed out''
     | StatusProtocol message \<Rightarrow> ascii ''protocol error: '' @ message)"

definition status_client_error_from_io :: "io_fault \<Rightarrow> status_client_error" where
  "status_client_error_from_io f = (if fst f then StatusTimeout else StatusIo (snd f))"

subsection \<open>Frames of the exchange\<close>

definition try_decode_frame_len :: "bytes \<Rightarrow> rstring + nat option" where
  "try_decode_frame_len buf =
    (case decode_frame PROTOCOL_MAX_FRAME_LENGTH buf of
       (Inr (FrameComplete _), input) \<Rightarrow> Inr (Some (length buf - length input))
     | (Inr FrameIncomplete, _) \<Rightarrow> Inr None
     | (Inl error, _) \<Rightarrow> Inl (framing_error_message error))"

text \<open>
  The loop of \<open>read_status_response\<close> and of \<open>read_pong_and_verify\<close>: read until there is a frame, which \<open>use\<close> looks at.
  The result comes with the rest of the buffer and of the reads.
\<close>

fun read_probe_frame :: "(packet_frame \<Rightarrow> status_client_error + 'a) \<Rightarrow> probe_read list \<Rightarrow> bytes \<Rightarrow>
    (status_client_error + 'a) \<times> bytes \<times> probe_read list" where
  "read_probe_frame use reads buf =
    (case try_decode_frame_len buf of
       Inl message \<Rightarrow> (Inl (StatusProtocol message), buf, reads)
     | Inr (Some consumed) \<Rightarrow>
       ((case decode_frame PROTOCOL_MAX_FRAME_LENGTH (take consumed buf) of
           (Inl error, _) \<Rightarrow> Inl (StatusProtocol (framing_error_message error))
         | (Inr FrameIncomplete, _) \<Rightarrow> Inl (StatusProtocol (ascii ''frame became incomplete after copy''))
         | (Inr (FrameComplete frame), _) \<Rightarrow> use frame), drop consumed buf, reads)
     | Inr None \<Rightarrow>
       (case reads of
          [] \<Rightarrow> (Inl StatusTimeout, buf, [])
        | r # reads \<Rightarrow>
          (case r of
             ReadFault f \<Rightarrow> (Inl (status_client_error_from_io f), buf, reads)
           | Received bs \<Rightarrow> if bs = [] then (Inl StatusEof, buf, reads) else read_probe_frame use reads (buf @ bs))))"

declare read_probe_frame.simps [simp del]

definition use_status_frame :: "probe_env \<Rightarrow> packet_frame \<Rightarrow> status_client_error + status_response" where
  "use_status_frame env frame =
    (if pf_packet_id frame \<noteq> 0
     then Inl (StatusProtocol (ascii ''expected status response packet ID 0, got '' @ dec_i32 (pf_packet_id frame)))
     else case decode_string MAX_STATUS_JSON_UTF16_UNITS (pf_payload frame) of
        (Inl error, _) \<Rightarrow> Inl (StatusProtocol (codec_error_message error))
      | (Inr json, _) \<Rightarrow>
        (case pe_from_json env json of
           Inl error \<Rightarrow> Inl (StatusProtocol (ascii ''JSON parse error: '' @ error))
         | Inr response \<Rightarrow> Inr response))"

definition read_status_response ::
  "probe_env \<Rightarrow> probe_read list \<Rightarrow> bytes \<Rightarrow> (status_client_error + status_response) \<times> bytes \<times> probe_read list" where
  "read_status_response env = read_probe_frame (use_status_frame env)"

definition use_pong_frame :: "i64 \<Rightarrow> packet_frame \<Rightarrow> status_client_error + bool" where
  "use_pong_frame expected frame =
    (if pf_packet_id frame \<noteq> 1
     then Inl (StatusProtocol (ascii ''expected pong packet ID 1, got '' @ dec_i32 (pf_packet_id frame)))
     else case decode_i64 (pf_payload frame) of
        (Inl error, _) \<Rightarrow> Inl (StatusProtocol (codec_error_message error))
      | (Inr value, _) \<Rightarrow> Inr (value = expected))"

definition read_pong_and_verify :: "i64 \<Rightarrow> probe_read list \<Rightarrow> bytes \<Rightarrow> (status_client_error + bool) \<times> bytes \<times> probe_read list" where
  "read_pong_and_verify expected = read_probe_frame (use_pong_frame expected)"

subsection \<open>The probe\<close>

record status_client =
  stc_host :: rstring
  stc_port :: u16

definition ping_payload :: i64 where "ping_payload = 0x123456789ABCDEF0"

text \<open>
  The result, and what was written. The same buffer serves for what is sent and for what is read; \<open>buf.clear()\<close> after the
  ping also drops what the server had sent after its status response by then.
\<close>

definition probe_with_protocol :: "probe_env \<Rightarrow> status_client \<Rightarrow> i32 \<Rightarrow> probe_read list \<Rightarrow> (status_client_error + status_snapshot) \<times> bytes" where
  "probe_with_protocol env c protocol_version reads =
    (let m = PROTOCOL_MAX_FRAME_LENGTH; io = status_client_error_from_io;
         handshake = \<lparr>hs_protocol_version = protocol_version, hs_server_address = stc_host c, hs_port = stc_port c,
           hs_next_state = NextStatus\<rparr> in
     case pe_connect env of
       Some (elapsed, error) \<Rightarrow> (Inl (if elapsed then StatusTimeout else StatusConnect error), [])
     | None \<Rightarrow>
    (case probe_send env io (\<lambda>e. StatusProtocol (handshake_error_message e)) (encode_handshake handshake m) [] of
       (Inl e, sent) \<Rightarrow> (Inl e, sent)
     | (Inr _, sent) \<Rightarrow>
    (case probe_send env io (\<lambda>e. StatusProtocol (framing_error_message e)) (encode_frame 0 [] m) sent of
       (Inl e, sent) \<Rightarrow> (Inl e, sent)
     | (Inr _, sent) \<Rightarrow>
    (case read_status_response env reads [] of
       (Inl e, _) \<Rightarrow> (Inl e, sent)
     | (Inr response, buf, reads) \<Rightarrow>
    (case encode_frame 1 (encode_i64 ping_payload []) m buf of
       (Inl e, _) \<Rightarrow> (Inl (StatusProtocol (framing_error_message e)), sent)
     | (Inr _, wire) \<Rightarrow>
    (case probe_write env io wire sent of
       (Inl e, sent) \<Rightarrow> (Inl e, sent)
     | (Inr _, sent) \<Rightarrow>
    (case read_pong_and_verify ping_payload reads [] of
       (Inl e, _) \<Rightarrow> (Inl e, sent)
     | (Inr pong_echoed, _) \<Rightarrow> (Inr (status_snapshot_from_response response pong_echoed), sent))))))))"

definition probe :: "probe_env \<Rightarrow> status_client \<Rightarrow> probe_read list \<Rightarrow> (status_client_error + status_snapshot) \<times> bytes" where
  "probe env c = probe_with_protocol env c 763"

end
