(* ===== verification/Status_Probe_Run.thy ===== *)
theory Status_Probe_Run
  imports Status_Probe Server
begin

section \<open>The status client at the server\<close>

text \<open>
  The client of \<open>client.rs\<close> and the connection loop of \<open>connection.rs\<close> in one conversation: what each reads is what the
  other has written.
\<close>

subsection \<open>A frame in any reads\<close>

lemma try_decode_frame_len_item:
  assumes "item (decode_frame PROTOCOL_MAX_FRAME_LENGTH) (Inr FrameIncomplete) (Inr (FrameComplete f)) w"
  shows "try_decode_frame_len w = Inr (Some (length w))"
    and "w = a @ b \<Longrightarrow> b \<noteq> [] \<Longrightarrow> try_decode_frame_len a = Inr None"
  using item_full [OF assms, of "[]"] assms by (auto simp: try_decode_frame_len_def item_def)

lemma read_probe_frame_exact:
  assumes f: "item (decode_frame PROTOCOL_MAX_FRAME_LENGTH) (Inr FrameIncomplete) (Inr (FrameComplete f)) w"
    and "received reads = Some bs" "buf @ bs = w"
  shows "read_probe_frame use (reads @ later) buf = (use f, [], later)"
  using assms(2,3)
proof (induction reads arbitrary: bs buf)
  case Nil
  then show ?case using try_decode_frame_len_item(1) [OF f] item_full [OF f, of "[]"]
    by (subst read_probe_frame.simps) simp
next
  case (Cons r reads)
  then obtain b bs' where r: "r = Received b" "b \<noteq> []" "received reads = Some bs'" "bs = b @ bs'"
    by (auto simp: received_Cons)
  with Cons.prems(2) have "try_decode_frame_len buf = Inr None"
    by (intro try_decode_frame_len_item(2) [OF f, of buf bs]) auto
  with r Cons.IH [OF r(3), of "buf @ b"] Cons.prems(2) show ?case
    by (subst read_probe_frame.simps) simp
qed

subsection \<open>What the client writes\<close>

definition status_handshake_of :: "status_client \<Rightarrow> handshake_packet" where
  "status_handshake_of c = \<lparr>hs_protocol_version = 763, hs_server_address = stc_host c, hs_port = stc_port c, hs_next_state = NextStatus\<rparr>"

lemma packet_larger_limit:
  assumes "encode_packet conv pid body m [] = (Inr u, w)" "effective_max_length m \<le> effective_max_length m'"
  shows "encode_packet conv pid body m' [] = (Inr (), w)"
  using assms by (auto simp: encode_packet_Inr)

lemma protocol_limit: "effective_max_length m \<le> effective_max_length PROTOCOL_MAX_FRAME_LENGTH"
  by (simp add: effective_max_length_def)

lemma small_frames:
  assumes "length b \<le> 60000"
  shows "encode_frame pid b PROTOCOL_MAX_FRAME_LENGTH out = (Inr (), out @ frame_bytes pid b)"
    "encode_frame pid b 65536 out = (Inr (), out @ frame_bytes pid b)"
  using assms var_int_length_short [of pid]
  by (simp_all add: encode_frame_Inr effective_max_length_def PROTOCOL_MAX_FRAME_LENGTH_def)

lemma status_json_frame:
  assumes "encode_status_response to_json r m [] = (Inr u, sw)" "json_roundtrips to_json (pe_from_json env) r"
  shows "\<exists>b. sw = frame_bytes 0 b \<and> use_status_frame env \<lparr>pf_packet_id = 0, pf_payload = b\<rparr> = Inr r
    \<and> var_int_length 0 + length b \<le> effective_max_length m"
proof -
  from assms obtain j b where j: "to_json r = Inr j" "utf8_valid j" "pe_from_json env j = Inr r"
    and b: "run_body (st_map_err status_json_error (encode_string j MAX_STATUS_JSON_UTF16_UNITS)) = Inr b"
    and sw: "sw = frame_bytes STATUS_PACKET_ID b" "var_int_length STATUS_PACKET_ID + length b \<le> effective_max_length m"
    by (auto simp: encode_status_response_def encode_packet_Inr json_roundtrips_def split: sum.splits)
  have "decodes (decode_string MAX_STATUS_JSON_UTF16_UNITS) b j"
    by (rule field_run_body [OF _ b]) (simp add: field_map_err_enc field_string j(2))
  then have "decode_string MAX_STATUS_JSON_UTF16_UNITS b = (Inr j, [])" by (simp add: decodesD_all)
  then show ?thesis using sw j(3) by (auto simp: use_status_frame_def STATUS_PACKET_ID_def)
qed

subsection \<open>The conversation\<close>

lemma ping_frame: "encode_pong_response ping_payload 65536 [] = (Inr (), frame_bytes 1 (encode_i64 ping_payload []))"
  using small_frames(2) [of "encode_i64 ping_payload []" 1 "[]"]
  by (simp add: encode_pong_response_def encode_packet_Inr run_body_def encode_frame_Inr PING_PACKET_ID_def encode_i64_def)

lemma pong_read: "use_pong_frame ping_payload \<lparr>pf_packet_id = 1, pf_payload = encode_i64 ping_payload []\<rparr> = Inr True"
proof -
  have "decodes decode_i64 (encode_i64 ping_payload []) ping_payload"
    by (rule field_run_body [where m = "st_mod (encode_i64 ping_payload)"]) (auto intro: field_intros simp: run_body_def)
  then show ?thesis by (simp add: use_pong_frame_def decodesD_all)
qed

text \<open>The response of a server to its configuration.\<close>

lemma server_live_status:
  "live_status_response cenv (server_connection_config c) =
    \<lparr>sr_version = \<lparr>sv_name = ascii ''1.20.1'', sv_protocol = 763\<rparr>,
     sr_players = \<lparr>sp_max = cfg_max_players c, sp_online = word_of_nat (min (env_player_count cenv) (2 ^ 31 - 1)), sp_sample = Some []\<rparr>,
     sr_description = \<lparr>sd_text = cfg_motd c\<rparr>, sr_favicon = None\<rparr>"
  by (simp add: live_status_response_def i32_of_usize_def i32_max_def min_def server_connection_config_def status_response_from_config_def)

text \<open>The server, at the first two packets and at all three.\<close>

lemma server_after_request:
  assumes "utf8_valid (hs_server_address h)" "hs_next_state h = NextStatus"
    and "encode_handshake h (cnf_max_frame_length config) [] = (Inr u1, hw)"
    and "encode_frame STATUS_PACKET_ID [] (cnf_max_frame_length config) [] = (Inr u2, rw)"
    and "encode_status_response (env_to_json env) (live_status_response env config) (cnf_max_frame_length config) [] = (Inr u4, sw)"
    and "\<And>a b. env_write_fails env a b = None" "read_bytes evs = Some (hw @ rw @ later)"
  shows "handle_connection env config evs = conn_drain env config \<lparr>cn_state = Status, cn_buffer = later, cn_sent = sw\<rparr>"
proof -
  let ?m = "cnf_max_frame_length config"
  let ?c = "\<lambda>s b w. \<lparr>cn_state = s, cn_buffer = b, cn_sent = w\<rparr>"
  have h: "decode_handshake ?m (hw @ rw @ later) = (Inr h, rw @ later)" by (rule handshake.roundtrip [OF assms(1,3)])
  from assms(4) have "rw = frame_bytes STATUS_PACKET_ID []"
    and "var_int_length STATUS_PACKET_ID + length ([] :: bytes) \<le> effective_max_length ?m"
    by (auto simp: encode_frame_Inr)
  then have r: "decode_status_request ?m (rw @ later) = (Inr (Some ()), later)"
    using decode_frame_bytes [of STATUS_PACKET_ID "[]" ?m later]
    by (simp add: decode_status_request_def decode_packet_def validate_status_request_frame_def)
  have "conn_drain env config (?c Handshaking (hw @ rw @ later) []) = conn_drain env config (?c Status (rw @ later) [])"
    by (rule conn_drain_Again) (use h assms(2) in \<open>simp add: round_handshake target_state_def\<close>)
  also have "\<dots> = conn_drain env config (?c Status later sw)"
    by (rule conn_drain_Again) (use r assms(5,6) in \<open>simp add: round_status_request\<close>)
  finally show ?thesis by (simp add: handle_connection_def conn_run_read_bytes [OF assms(7)] conn_feed_def)
qed

lemma server_waits_for_ping:
  "conn_drain env config \<lparr>cn_state = Status, cn_buffer = [], cn_sent = sw\<rparr> =
    NeedRead \<lparr>cn_state = Status, cn_buffer = [], cn_sent = sw\<rparr>"
proof -
  have "decode_frame m [] = (Inr FrameIncomplete, [])" for m by (simp add: decode_frame_def decode_var_int_spec var_width_def)
  then have "conn_round env config \<lparr>cn_state = Status, cn_buffer = [], cn_sent = sw\<rparr> =
      NeedRead \<lparr>cn_state = Status, cn_buffer = [], cn_sent = sw\<rparr>"
    by (simp add: conn_round_def try_decode_packet_def decode_in_state_def decode_status_request_def decode_packet_def)
  then show ?thesis by (simp add: conn_drain_stop)
qed

lemma server_answers_ping:
  assumes "encode_pong_response v (cnf_max_frame_length config) [] = (Inr u, pw)" "\<And>a b. env_write_fails env a b = None"
  shows "conn_drain env config \<lparr>cn_state = Status, cn_buffer = pw, cn_sent = sw\<rparr> = Ended (Inr ()) (sw @ pw)"
proof -
  have "decode_ping_request (cnf_max_frame_length config) pw = (Inr (Some v), [])"
    using ping.roundtrip [OF TrueI assms(1), of "[]"] by simp
  then show ?thesis using assms by (simp add: conn_drain_stop round_ping)
qed

text \<open>The client, given a response it can use and then a pong.\<close>

lemma client_exchange:
  assumes "encode_handshake (status_handshake_of client) PROTOCOL_MAX_FRAME_LENGTH [] = (Inr (), hw)"
    and "pe_connect penv = None" "probe_writes penv"
    and item0: "item (decode_frame PROTOCOL_MAX_FRAME_LENGTH) (Inr FrameIncomplete) (Inr (FrameComplete f)) sw"
    and "use_status_frame penv f = Inr r" "received reads = Some sw"
    and "received reads' = Some (frame_bytes 1 (encode_i64 ping_payload []))"
  shows "probe penv client (reads @ reads') =
    (Inr (status_snapshot_from_response r True), (hw @ frame_bytes 0 []) @ frame_bytes 1 (encode_i64 ping_payload []))"
proof -
  have item1: "item (decode_frame PROTOCOL_MAX_FRAME_LENGTH) (Inr FrameIncomplete)
      (Inr (FrameComplete \<lparr>pf_packet_id = 1, pf_payload = encode_i64 ping_payload []\<rparr>)) (frame_bytes 1 (encode_i64 ping_payload []))"
    by (rule frame_item) (use small_frames(1) [of "encode_i64 ping_payload []" 1 "[]"] in \<open>simp add: encode_frame_Inr encode_i64_def\<close>)
  have "read_status_response penv (reads @ reads') [] = (Inr r, [], reads')"
    using read_probe_frame_exact [OF item0 assms(6), where use = "use_status_frame penv" and later = reads'] assms(5)
    by (simp add: read_status_response_def)
  moreover have "read_pong_and_verify ping_payload reads' [] = (Inr True, [], [])"
    using read_probe_frame_exact [OF item1 assms(7), where use = "use_pong_frame ping_payload" and later = "[]"] pong_read
    by (simp add: read_pong_and_verify_def)
  ultimately show ?thesis
    using assms(2) small_frames(1) [of "encode_i64 ping_payload []" 1 "[]"]
      probe_send_goes [OF assms(3), where io = status_client_error_from_io and enc = "encode_handshake (status_handshake_of client) PROTOCOL_MAX_FRAME_LENGTH", OF assms(1)]
      probe_send_goes [OF assms(3), where io = status_client_error_from_io and enc = "encode_frame 0 [] PROTOCOL_MAX_FRAME_LENGTH", OF small_frames(1)]
    by (simp add: probe_def probe_with_protocol_def Let_def status_handshake_of_def probe_write_goes [OF assms(3)] encode_i64_def)
qed

text \<open>
  C6: The status client at the server. Take sockets that work, a host name that fits a handshake, and a serde_json that
  reads back what it wrote. The client asks with two packets; on these, in any reads, the server sends a response and
  waits; when the client has it, in any reads, it sends a ping; the server answers with a pong and ends the connection
  without an error; and the client, which reads this in any pieces as well, has a snapshot with the version, the description
  and the number of slots that were configured, the number of players that are online, and an echoed ping.
\<close>

theorem status_client_sees_the_server:
  assumes "utf8_valid (stc_host client)" "encode_handshake (status_handshake_of client) 65536 [] = (Inr u, hw)"
    and "pe_connect penv = None" "probe_writes penv" "\<And>a b. env_write_fails cenv a b = None"
    and "encode_status_response (env_to_json cenv) (live_status_response cenv (server_connection_config c)) 65536 [] = (Inr u', sw)"
    and "json_roundtrips (env_to_json cenv) (pe_from_json penv) (live_status_response cenv (server_connection_config c))"
    and "received reads = Some sw"
  shows "\<exists>ask ping pong.
      (\<forall>evs. read_bytes evs = Some ask \<longrightarrow>
        (\<exists>w. handle_connection cenv (server_connection_config c) evs = NeedRead w \<and> cn_sent w = sw))
    \<and> (\<forall>evs. read_bytes evs = Some (ask @ ping) \<longrightarrow>
        handle_connection cenv (server_connection_config c) evs = Ended (Inr ()) (sw @ pong))
    \<and> (\<forall>reads'. received reads' = Some pong \<longrightarrow> probe penv client (reads @ reads') =
        (Inr \<lparr>ss_version_name = ascii ''1.20.1'', ss_protocol_version = 763, ss_max_players = cfg_max_players c,
           ss_online_players = word_of_nat (min (env_player_count cenv) (2 ^ 31 - 1)), ss_description_text = cfg_motd c,
           ss_has_favicon = False, ss_sample_names = [], ss_pong_echoed = True\<rparr>, ask @ ping))"
proof -
  let ?config = "server_connection_config c" and ?live = "live_status_response cenv (server_connection_config c)"
  let ?rw = "frame_bytes 0 []" and ?pw = "frame_bytes 1 (encode_i64 ping_payload [])"
  have limit: "cnf_max_frame_length ?config = 65536" by (rule server_frame_limit)
  have request: "encode_frame STATUS_PACKET_ID [] (cnf_max_frame_length ?config) [] = (Inr (), ?rw)"
    using small_frames(2) [of "[]" 0 "[]"] by (simp add: limit STATUS_PACKET_ID_def)
  have h: "utf8_valid (hs_server_address (status_handshake_of client))" "hs_next_state (status_handshake_of client) = NextStatus"
    "encode_handshake (status_handshake_of client) (cnf_max_frame_length ?config) [] = (Inr u, hw)"
    using assms(1,2) by (simp_all add: status_handshake_of_def limit)
  have hp: "encode_handshake (status_handshake_of client) PROTOCOL_MAX_FRAME_LENGTH [] = (Inr (), hw)"
    using packet_larger_limit [OF assms(2) [unfolded encode_handshake_def] protocol_limit] by (simp add: encode_handshake_def)
  from status_json_frame [OF assms(6,7)] obtain b where b: "sw = frame_bytes 0 b"
    "use_status_frame penv \<lparr>pf_packet_id = 0, pf_payload = b\<rparr> = Inr ?live"
    "var_int_length 0 + length b \<le> effective_max_length 65536" by blast
  have item0: "item (decode_frame PROTOCOL_MAX_FRAME_LENGTH) (Inr FrameIncomplete)
      (Inr (FrameComplete \<lparr>pf_packet_id = 0, pf_payload = b\<rparr>)) sw"
    using b(1,3) frame_item le_trans [OF _ protocol_limit] by blast
  have result: "status_snapshot_from_response ?live True =
      \<lparr>ss_version_name = ascii ''1.20.1'', ss_protocol_version = 763, ss_max_players = cfg_max_players c,
       ss_online_players = word_of_nat (min (env_player_count cenv) (2 ^ 31 - 1)), ss_description_text = cfg_motd c,
       ss_has_favicon = False, ss_sample_names = [], ss_pong_echoed = True\<rparr>"
    by (simp add: server_live_status status_snapshot_from_response_def)
  have client: "probe penv client (reads @ reads') = (Inr (status_snapshot_from_response ?live True), (hw @ ?rw) @ ?pw)"
    if "received reads' = Some ?pw" for reads'
    by (rule client_exchange [OF hp assms(3,4) item0 b(2) assms(8) that])
  have waits: "\<exists>w. handle_connection cenv ?config evs = NeedRead w \<and> cn_sent w = sw" if "read_bytes evs = Some (hw @ ?rw)" for evs
    using server_after_request [OF h request _ assms(5), of u' sw evs "[]"] assms(6) that
    by (simp add: limit server_waits_for_ping)
  have answers: "handle_connection cenv ?config evs = Ended (Inr ()) (sw @ ?pw)" if "read_bytes evs = Some ((hw @ ?rw) @ ?pw)" for evs
    using server_after_request [OF h request _ assms(5), of u' sw evs ?pw] assms(6) that
      server_answers_ping [OF _ assms(5), of ping_payload ?config "()" ?pw sw] ping_frame
    by (simp add: limit)
  show ?thesis
    by (rule exI [of _ "hw @ ?rw"], rule exI [of _ ?pw], rule exI [of _ ?pw])
      (intro conjI allI impI, (erule waits | erule answers)+, erule client [unfolded result])
qed

text \<open>A server with the default settings and two players, and a serde_json that writes one text for this response.\<close>

definition sample_probe :: probe_env where
  "sample_probe = \<lparr>pe_parse_address = (\<lambda>_. None), pe_connect = None, pe_set_read_timeout = None, pe_set_write_timeout = None,
    pe_write = (\<lambda>_ _. None), pe_deflate = Inr, pe_inflate = Inr,
    pe_from_json = (\<lambda>_. Inr (live_status_response sample_env (server_connection_config server_config_default))), pe_fuel = 64\<rparr>"

theorem status_client_sees_the_server_witness:
  "\<exists>reads sent. probe sample_probe \<lparr>stc_host = ascii ''localhost'', stc_port = 25565\<rparr> reads =
    (Inr \<lparr>ss_version_name = ascii ''1.20.1'', ss_protocol_version = 763, ss_max_players = 20, ss_online_players = 3,
       ss_description_text = ascii ''A Rust Minecraft Server'', ss_has_favicon = False, ss_sample_names = [],
       ss_pong_echoed = True\<rparr>, sent)"
proof -
  let ?client = "\<lparr>stc_host = ascii ''localhost'', stc_port = 25565\<rparr>"
  let ?live = "live_status_response sample_env (server_connection_config server_config_default)"
  have "fst (encode_handshake (status_handshake_of ?client) 65536 []) = Inr ()"
    by (simp add: packet_eval encode_handshake_def handshake_body_def status_handshake_of_def encode_u16_def
        MAX_SERVER_ADDRESS_UTF16_UNITS_def HANDSHAKE_PACKET_ID_def next_state_wire_value_def to_be_bytes_def to_le_bytes_def)
  then obtain hw where h: "encode_handshake (status_handshake_of ?client) 65536 [] = (Inr (), hw)" using encoded_ex by blast
  have "fst (encode_status_response (env_to_json sample_env) ?live 65536 []) = Inr ()"
    by (simp add: sample_env_def packet_eval encode_status_response_def MAX_STATUS_JSON_UTF16_UNITS_def STATUS_PACKET_ID_def)
  then obtain sw where s: "encode_status_response (env_to_json sample_env) ?live 65536 [] = (Inr (), sw)" using encoded_ex by blast
  have env: "utf8_valid (stc_host ?client)" "pe_connect sample_probe = None" "probe_writes sample_probe"
    "\<And>a b. env_write_fails sample_env a b = None" "json_roundtrips (env_to_json sample_env) (pe_from_json sample_probe) ?live"
    by (simp_all add: sample_probe_def probe_writes_def sample_env_def json_roundtrips_def packet_eval)
  have "sw \<noteq> []" using status_json_frame [OF s env(5)] by (auto simp: frame_bytes_def encode_var_int_Nil)
  then have "received [Received sw] = Some sw" by simp
  from status_client_sees_the_server [OF env(1) h env(2-4) s env(5) this] obtain pong ask ping where
    "\<forall>reads'. received reads' = Some pong \<longrightarrow> probe sample_probe ?client ([Received sw] @ reads') =
        (Inr \<lparr>ss_version_name = ascii ''1.20.1'', ss_protocol_version = 763, ss_max_players = cfg_max_players server_config_default,
           ss_online_players = word_of_nat (min (env_player_count sample_env) (2 ^ 31 - 1)),
           ss_description_text = cfg_motd server_config_default,
           ss_has_favicon = False, ss_sample_names = [], ss_pong_echoed = True\<rparr>, ask @ ping)" by blast
  moreover have "\<exists>reads. received reads = Some b" for b :: bytes
    by (cases "b = []") (auto intro: exI [of _ "[]"] exI [of _ "[Received b]"])
  ultimately have "\<exists>reads. probe sample_probe ?client reads =
        (Inr \<lparr>ss_version_name = ascii ''1.20.1'', ss_protocol_version = 763, ss_max_players = cfg_max_players server_config_default,
           ss_online_players = word_of_nat (min (env_player_count sample_env) (2 ^ 31 - 1)),
           ss_description_text = cfg_motd server_config_default,
           ss_has_favicon = False, ss_sample_names = [], ss_pong_echoed = True\<rparr>, ask @ ping)" by blast
  then show ?thesis by (auto simp: server_config_default_def sample_env_def)
qed

end
