(* ===== verification/Login_Probe_Run.thy ===== *)
theory Login_Probe_Run
  imports Login_Probe Status_Probe_Run
begin

section \<open>The login client at the server\<close>

text \<open>
  The client of \<open>login_client.rs\<close> and the connection loop in one conversation. The client reads every frame in the format
  without compression, so what it makes of a server depends on the compression threshold of that server.
\<close>

subsection \<open>Frames in any reads\<close>

lemma login_probe_reads_item:
  assumes f: "item (decode_frame PROTOCOL_MAX_FRAME_LENGTH) (Inr FrameIncomplete) (Inr (FrameComplete f)) w"
    and "received reads = Some bs" "buffer @ bs = w @ rest" "length buffer < length w \<or> reads \<noteq> []"
  shows "\<exists>reads' input bs'. received reads' = Some bs' \<and> input @ bs' = rest \<and> login_probe_reads reads buffer =
    (case login_probe_frame (pf_packet_id f) (pf_payload f) of
       Inl e \<Rightarrow> Inl e
     | Inr (Some outcome) \<Rightarrow> Inr outcome
     | Inr None \<Rightarrow> login_probe_reads reads' input)"
  using assms(2-4)
proof (induction reads arbitrary: bs buffer)
  case Nil
  then show ?case by auto
next
  case (Cons r reads)
  then obtain b bs' where r: "r = Received b" "b \<noteq> []" "received reads = Some bs'" "bs = b @ bs'"
    by (auto simp: received_Cons)
  with Cons.prems(2) have "(buffer @ b) @ bs' = w @ rest" by simp
  from f this show ?case
  proof (cases rule: item_cases)
    case (whole tail)
    with r show ?thesis by (intro exI [of _ reads] exI [of _ tail] exI [of _ bs']) simp
  next
    case (partial needed)
    then have "length (buffer @ b) < length w" by simp
    with Cons.IH [OF r(3), of "buffer @ b"] \<open>(buffer @ b) @ bs' = w @ rest\<close> partial(4) r(1,2) show ?thesis by simp
  qed
qed

lemma login_probe_reads_refused:
  assumes "item (decode_frame PROTOCOL_MAX_FRAME_LENGTH) (Inr FrameIncomplete) (Inr (FrameComplete f)) w"
    and "received reads = Some bs" "buffer @ bs = w @ rest" "login_probe_frame (pf_packet_id f) (pf_payload f) = Inl e"
  shows "\<exists>e. login_probe_reads reads buffer = Inl e"
proof (cases "reads = []")
  case False
  with login_probe_reads_item [OF assms(1-3)] assms(4) show ?thesis by auto
qed simp

subsection \<open>The two forms of a Login Success\<close>

text \<open>A frame of a connection with compression, read as one of a connection without.\<close>

lemma compressed_frame_misread:
  assumes "wire_frame deflate t m p w" "0 \<le> sint t"
  defines "b \<equiv> encode_var_int (dp_packet_id p) [] @ dp_payload p"
  shows "w = frame_bytes 0 b \<and> var_int_length 0 + length b \<le> effective_max_length m \<or>
    (\<exists>z. w = frame_bytes (word_of_nat (length b)) z \<and> var_int_length (word_of_nat (length b)) + length z \<le> effective_max_length m)"
proof -
  from assms(1,2) obtain body where body: "compressed_body deflate t b = Inr body"
    and w: "length body \<le> effective_max_length m" "w = encode_var_int (word_of_nat (length body)) [] @ body"
    unfolding b_def
    by (auto simp: wire_frame_def encode_compressed_frame_def Let_def st_map_err_def encode_raw_frame_Inr split: sum.splits prod.splits)
  from body obtain v z where v: "v = 0 \<and> z = b \<or> v = word_of_nat (length b)" "body = encode_var_int v [] @ z"
    by (auto simp: compressed_body_def split: if_splits sum.splits)
  then have "w = frame_bytes v z" "var_int_length v + length z \<le> effective_max_length m"
    using w by (simp_all add: frame_bytes_def var_int_length_correct)
  with v(1) show ?thesis by blast
qed

lemma success_as_disconnect:
  "\<exists>e. login_probe_frame 0 (encode_var_int LOGIN_SUCCESS_PACKET_ID [] @ login_success_payload (uuid_new 0 0) name) = Inl e"
proof -
  let ?z = "encode_var_int LOGIN_SUCCESS_PACKET_ID [] @ login_success_payload (uuid_new 0 0) name"
  have "encode_var_int LOGIN_SUCCESS_PACKET_ID [] = [2]"
    by (simp add: LOGIN_SUCCESS_PACKET_ID_def encode_var_int_def var_enc_loop.simps)
  moreover have "uuid_to_be_bytes (uuid_new 0 0) = [0, 0, 0, 0, 0, 0, 0, 0, 0, 0, 0, 0, 0, 0, 0, 0]"
    by code_simp
  ultimately obtain y where z: "?z = 2 # 0 # 0 # y" "y \<noteq> []"
    by (simp add: login_success_payload_def)
  have v: "decode_var_int (2 # s) = (Inr 2, s)" for s
    using var_int.roundtrip [of 2 s] by (simp add: encode_var_int_def var_enc_loop.simps)
  have "decode_string MAX_CHAT_COMPONENT_LENGTH (2 # 0 # 0 # y) = (Inr [0, 0], y)"
    by (simp add: decode_string_def v usize_of_i32_def MAX_CHAT_COMPONENT_LENGTH_def packet_eval slice_to_def)
  then have "decode_string MAX_CHAT_COMPONENT_LENGTH ?z = (Inr [0, 0], y)" by (simp only: z(1))
  then have "parse_fields login_error.WrongPacketId login_error.TrailingBytes LOGIN_DISCONNECT_PACKET_ID login_disconnect_fields
      \<lparr>pf_packet_id = 0, pf_payload = ?z\<rparr> = Inl (login_error.TrailingBytes (length y))"
    by (simp add: parse_fields_def decode_exact_def login_disconnect_fields_def st_bind_def st_map_err_def LOGIN_DISCONNECT_PACKET_ID_def z(2))
  then show ?thesis
    using decode_frame_bytes [of 0 ?z PROTOCOL_MAX_FRAME_LENGTH "[]"]
    by (cases "encode_frame 0 ?z PROTOCOL_MAX_FRAME_LENGTH []")
      (auto simp: login_probe_frame_def login_packet_again_def decode_login_disconnect_def decode_packet_def encode_frame_Inr
        split: sum.splits)
qed

text \<open>Anything else the server may have sent as the second frame is no packet of a login.\<close>

lemma other_login_frame:
  assumes "19 \<le> n" "n \<le> 105"
  shows "\<exists>e. login_probe_frame (word_of_nat n) z = Inl e"
proof -
  have "unat (word_of_nat n :: i32) = n" by (subst unat_of_nat) (use assms(2) in simp)
  then have "(word_of_nat n :: i32) \<noteq> 0" "(word_of_nat n :: i32) \<noteq> 2" "(word_of_nat n :: i32) \<noteq> 3"
    using assms(1) by (auto simp: unat_eq_0 dest!: arg_cong [where f = unat])
  then show ?thesis by (simp add: login_probe_frame_def)
qed

lemma success_again:
  assumes "utf8_valid (lst_username p)" "encode_login_start p m [] = (Inr u, w)"
  shows "decode_login_success PROTOCOL_MAX_FRAME_LENGTH (frame_bytes LOGIN_SUCCESS_PACKET_ID (login_success_payload i (lst_username p)))
    = (Inr (LoginComplete (LoginSuccess \<lparr>lsu_uuid = i, lsu_username = lst_username p, lsu_properties = []\<rparr>)), [])"
proof -
  let ?q = "\<lparr>lsu_uuid = i, lsu_username = lst_username p, lsu_properties = []\<rparr>"
  have "encode_login_success ?q PROTOCOL_MAX_FRAME_LENGTH [] =
      (Inr (), frame_bytes LOGIN_SUCCESS_PACKET_ID (login_success_payload i (lst_username p)))"
    using packet_larger_limit [OF accepted_login(3) [OF assms, of i, unfolded encode_login_success_def] protocol_limit]
    by (simp add: encode_login_success_def)
  from login_success.roundtrip [OF _ this, of "[]"] assms(1) show ?thesis by simp
qed

lemma login_success_seen:
  assumes "utf8_valid (lst_username p)" "encode_login_start p m [] = (Inr u, w)"
  shows "login_probe_frame LOGIN_SUCCESS_PACKET_ID (login_success_payload i (lst_username p)) =
    Inr (Some (LoginOk i (lst_username p) 0))"
  using success_again [OF assms, of i] small_frames(1) [of "login_success_payload i (lst_username p)" 2 "[]"]
    accepted_login(2) [OF assms, of i]
  by (simp add: login_probe_frame_def login_packet_again_def LOGIN_SUCCESS_PACKET_ID_def)

subsection \<open>The conversation\<close>

definition login_handshake_of :: "login_probe_config \<Rightarrow> handshake_packet" where
  "login_handshake_of pc = \<lparr>hs_protocol_version = PROTOCOL_VERSION, hs_server_address = lpc_host pc, hs_port = lpc_port pc,
    hs_next_state = NextLogin\<rparr>"

definition login_start_of :: "login_probe_config \<Rightarrow> login_start" where
  "login_start_of pc = \<lparr>lst_username = lpc_username pc, lst_uuid = lpc_uuid pc\<rparr>"

text \<open>A client whose socket works.\<close>

definition probe_connects :: "probe_env \<Rightarrow> login_probe_config \<Rightarrow> bool" where
  "probe_connects env pc \<longleftrightarrow> pe_parse_address env (host_port (lpc_host pc) (lpc_port pc)) = None \<and> pe_connect env = None
    \<and> pe_set_read_timeout env = None \<and> pe_set_write_timeout env = None \<and> probe_writes env"

lemma login_client_starts:
  fixes protocol :: "rstring \<Rightarrow> 'e"
  assumes "probe_connects env pc" "encode_handshake (login_handshake_of pc) m [] = (Inr u1, hw)"
    "encode_login_start (login_start_of pc) m [] = (Inr u2, lw)"
  shows "login_client_start env protocol connect io login pc [] = (Inr (), hw @ lw)"
proof -
  have h: "encode_handshake (login_handshake_of pc) PROTOCOL_MAX_FRAME_LENGTH [] = (Inr (), hw)"
    using packet_larger_limit [OF assms(2) [unfolded encode_handshake_def] protocol_limit] by (simp add: encode_handshake_def)
  have l: "encode_login_start (login_start_of pc) PROTOCOL_MAX_FRAME_LENGTH [] = (Inr (), lw)"
    using packet_larger_limit [OF assms(3) [unfolded encode_login_start_def] protocol_limit] by (simp add: encode_login_start_def)
  have w: "probe_writes env" using assms(1) by (simp add: probe_connects_def)
  show ?thesis
    using assms(1) probe_send_goes [OF w, where io = "\<lambda>f. io (snd f)" and enc = "encode_handshake (login_handshake_of pc) PROTOCOL_MAX_FRAME_LENGTH", OF h]
      probe_send_goes [OF w, where io = "\<lambda>f. io (snd f)" and enc = "encode_login_start (login_start_of pc) PROTOCOL_MAX_FRAME_LENGTH", OF l]
    by (simp add: login_client_start_def probe_connects_def Let_def login_handshake_of_def login_start_of_def st_bind_def)
qed

text \<open>The packets of a client bring a connection into play; what the server sends is known.\<close>

lemma probe_reaches_play:
  assumes "utf8_valid (lpc_host pc)" "encode_handshake (login_handshake_of pc) 65536 [] = (Inr u1, hw)"
    and "utf8_valid (lpc_username pc)" "encode_login_start (login_start_of pc) 65536 [] = (Inr u2, lw)"
    and "\<not> cfg_online_mode c" "\<And>a b. env_write_fails cenv a b = None" "zlib_bounded (env_deflate cenv)" "read_bytes evs = Some (hw @ lw)"
  obtains sent where "handle_connection cenv (server_connection_config c) evs =
      EnterPlay (play_session_config cenv (server_connection_config c) (lpc_username pc)) (env_next_entity_id cenv) sent"
    "login_wire cenv (server_connection_config c) (login_success_payload (uuid_new 0 0) (lpc_username pc)) sent"
proof -
  have "utf8_valid (hs_server_address (login_handshake_of pc))" "hs_next_state (login_handshake_of pc) = NextLogin"
    "utf8_valid (lst_username (login_start_of pc))"
    using assms(1,3) by (simp_all add: login_handshake_of_def login_start_of_def)
  from login_reaches_play [OF this(1,2), of "server_connection_config c" u1 hw "login_start_of pc" u2 lw cenv evs "[]"] this(3) assms(2,4-8)
  show ?thesis using that by (auto simp: server_frame_limit login_start_of_def)
qed

subsection \<open>What the client makes of the answer\<close>

text \<open>Without compression.\<close>

lemma plain_login_seen:
  assumes "utf8_valid (lst_username p)" "encode_login_start p 65536 [] = (Inr u, lw)"
    and "login_wire cenv config (login_success_payload i (lst_username p)) sent" "sint (cnf_compression_threshold config) < 0"
    and "received reads = Some (sent @ later)"
  shows "login_probe_reads reads [] = Inr (LoginOk i (lst_username p) 0)"
proof -
  let ?b = "login_success_payload i (lst_username p)"
  have w: "sent = frame_bytes LOGIN_SUCCESS_PACKET_ID ?b" using assms(3,4) by (simp add: login_wire_def)
  have "item (decode_frame PROTOCOL_MAX_FRAME_LENGTH) (Inr FrameIncomplete)
      (Inr (FrameComplete \<lparr>pf_packet_id = LOGIN_SUCCESS_PACKET_ID, pf_payload = ?b\<rparr>)) sent"
    unfolding w
    by (rule frame_item)
      (use accepted_login(2) [OF assms(1,2), of i] small_frames(1) [of ?b LOGIN_SUCCESS_PACKET_ID "[]"] in \<open>simp add: encode_frame_Inr\<close>)
  moreover have "sent \<noteq> []" by (simp add: w frame_bytes_def encode_var_int_Nil)
  ultimately show ?thesis
    using login_probe_reads_item [of "\<lparr>pf_packet_id = LOGIN_SUCCESS_PACKET_ID, pf_payload = ?b\<rparr>" sent reads "sent @ later" "[]" later]
      login_success_seen [OF assms(1,2), of i] assms(5) by auto
qed

text \<open>With compression: what follows Set Compression is read in the wrong format.\<close>

lemma set_compression_skipped:
  assumes "received reads = Some (frame_bytes SET_COMPRESSION_PACKET_ID (encode_var_int t []) @ rest)"
  obtains reads' input bs' where "received reads' = Some bs'" "input @ bs' = rest" "login_probe_reads reads [] = login_probe_reads reads' input"
proof -
  have i: "item (decode_frame PROTOCOL_MAX_FRAME_LENGTH) (Inr FrameIncomplete)
      (Inr (FrameComplete \<lparr>pf_packet_id = SET_COMPRESSION_PACKET_ID, pf_payload = encode_var_int t []\<rparr>))
      (frame_bytes SET_COMPRESSION_PACKET_ID (encode_var_int t []))"
    by (rule frame_item)
      (use var_int_short [of t] small_frames(1) [of "encode_var_int t []" SET_COMPRESSION_PACKET_ID "[]"] in \<open>simp add: encode_frame_Inr\<close>)
  have "frame_bytes SET_COMPRESSION_PACKET_ID (encode_var_int t []) \<noteq> []" by (simp add: frame_bytes_def encode_var_int_Nil)
  with login_probe_reads_item [OF i assms, of "[]" rest] obtain reads' input bs' where "received reads' = Some bs'" "input @ bs' = rest"
    "login_probe_reads reads [] = login_probe_reads reads' input"
    by (auto simp: SET_COMPRESSION_PACKET_ID_def login_probe_frame_def)
  then show ?thesis by (rule that)
qed

lemma compressed_login_refused:
  assumes "login_wire cenv config (login_success_payload (uuid_new 0 0) name) sent" "0 \<le> sint (cnf_compression_threshold config)"
    and "length (login_success_payload (uuid_new 0 0) name) \<le> 100" "received reads = Some (sent @ later)"
  shows "\<exists>e. login_probe_reads reads [] = Inl e"
proof -
  let ?t = "cnf_compression_threshold config" and ?b = "login_success_payload (uuid_new 0 0) name"
  from assms(1,2) obtain w where w: "sent = frame_bytes SET_COMPRESSION_PACKET_ID (encode_var_int ?t []) @ w"
    and cw: "wire_frame (env_deflate cenv) ?t (cnf_max_frame_length config) \<lparr>dp_packet_id = LOGIN_SUCCESS_PACKET_ID, dp_payload = ?b\<rparr> w"
    by (auto simp: login_wire_def)
  from assms(4) have "received reads = Some (frame_bytes SET_COMPRESSION_PACKET_ID (encode_var_int ?t []) @ (w @ later))" by (simp add: w)
  then obtain reads' input bs' where
    next_read: "received reads' = Some bs'" "input @ bs' = w @ later" "login_probe_reads reads [] = login_probe_reads reads' input"
    by (rule set_compression_skipped)
  let ?body = "encode_var_int LOGIN_SUCCESS_PACKET_ID [] @ ?b"
  have "length ?body \<le> 105 \<and> 19 \<le> length ?body"
    using assms(3) var_int_short [of LOGIN_SUCCESS_PACKET_ID] by (simp add: login_success_payload_def LOGIN_SUCCESS_PACKET_ID_def packet_eval)
  then have other: "\<exists>e. login_probe_frame (word_of_nat (length ?body)) z = Inl e" for z using other_login_frame by blast
  have refused: "\<exists>e. login_probe_reads reads' input = Inl e"
    if "w = frame_bytes v z" "var_int_length v + length z \<le> effective_max_length m" "\<exists>e. login_probe_frame v z = Inl e" for v z m
  proof -
    have "item (decode_frame PROTOCOL_MAX_FRAME_LENGTH) (Inr FrameIncomplete)
        (Inr (FrameComplete \<lparr>pf_packet_id = v, pf_payload = z\<rparr>)) (frame_bytes v z)"
      by (rule frame_item) (rule le_trans [OF that(2) protocol_limit])
    from login_probe_reads_refused [OF this next_read(1,2) [unfolded that(1)]] that(3) show ?thesis by auto
  qed
  show ?thesis
    using compressed_frame_misread [OF cw assms(2)] refused other success_as_disconnect [of name] by (auto simp: next_read(3))
qed

text \<open>
  C7: The login client at the server. On a server in offline mode, with sockets that work, the login client's two packets,
  in any reads, bring the connection into play. If the server's compression threshold is negative, the client, which gets
  what the server sent, in any reads and followed by anything, reports a success with its own name, and the placeholder as
  the UUID. If the threshold is not negative, as it is by default, it never does: it reads the compressed Login Success as
  a frame without compression, and ends with an error.
\<close>

theorem login_client_needs_no_compression:
  assumes "probe_connects penv pc" "\<not> cfg_online_mode c"
    and "utf8_valid (lpc_host pc)" "encode_handshake (login_handshake_of pc) 65536 [] = (Inr u1, hw)"
    and "utf8_valid (lpc_username pc)" "encode_login_start (login_start_of pc) 65536 [] = (Inr u2, lw)"
    and "\<And>a b. env_write_fails cenv a b = None" "zlib_bounded (env_deflate cenv)" "read_bytes evs = Some (hw @ lw)"
  shows "case handle_connection cenv (server_connection_config c) evs of
      EnterPlay _ _ sent \<Rightarrow> \<forall>reads later. received reads = Some (sent @ later) \<longrightarrow>
        (if sint (cfg_network_compression_threshold c) < 0
         then run_login_probe penv pc reads = (Inr (LoginOk (uuid_new 0 0) (lpc_username pc) 0), hw @ lw)
         else \<exists>e. run_login_probe penv pc reads = (Inl e, hw @ lw))
    | _ \<Rightarrow> False"
proof -
  let ?name = "lpc_username pc"
  from probe_reaches_play [OF assms(3-6) assms(2,7-9)] obtain sent
    where play: "handle_connection cenv (server_connection_config c) evs =
        EnterPlay (play_session_config cenv (server_connection_config c) ?name) (env_next_entity_id cenv) sent"
      and sent: "login_wire cenv (server_connection_config c) (login_success_payload (uuid_new 0 0) ?name) sent" .
  have start: "run_login_probe penv pc reads = (login_probe_reads reads [], hw @ lw)" for reads
    using login_client_starts [OF assms(1,4,6), of LoginProtocol LoginConnect LoginIo login_client_error_from_login]
    by (simp add: run_login_probe_def)
  have name: "lst_username (login_start_of pc) = ?name" by (simp add: login_start_of_def)
  have ok: "utf8_valid (lst_username (login_start_of pc))" using assms(5) by (simp add: name)
  have "login_probe_reads reads [] = Inr (LoginOk (uuid_new 0 0) ?name 0)"
    if "sint (cfg_network_compression_threshold c) < 0" "received reads = Some (sent @ later)" for reads later
    using plain_login_seen [OF ok assms(6), unfolded name, OF sent _ that(2)] that(1) by (simp add: server_frame_limit)
  moreover have "\<exists>e. login_probe_reads reads [] = Inl e"
    if "\<not> sint (cfg_network_compression_threshold c) < 0" "received reads = Some (sent @ later)" for reads later
    using compressed_login_refused [OF sent _ _ that(2)] accepted_login(2) [OF ok assms(6), of "uuid_new 0 0"] that(1)
    by (simp add: server_frame_limit name)
  ultimately show ?thesis by (simp add: play start) blast
qed

text \<open>Steve, on a server without compression.\<close>

definition steve_probe :: login_probe_config where
  "steve_probe = \<lparr>lpc_host = ascii ''localhost'', lpc_port = 25565, lpc_username = ascii ''Steve'', lpc_uuid = uuid_new 0 0\<rparr>"

lemma steve_encodes:
  "\<exists>hw. encode_handshake (login_handshake_of steve_probe) 65536 [] = (Inr (), hw)"
  "\<exists>lw. encode_login_start (login_start_of steve_probe) 65536 [] = (Inr (), lw)"
proof -
  have "fst (encode_handshake (login_handshake_of steve_probe) 65536 []) = Inr ()"
    by (simp add: packet_eval encode_handshake_def handshake_body_def login_handshake_of_def steve_probe_def encode_u16_def
        MAX_SERVER_ADDRESS_UTF16_UNITS_def HANDSHAKE_PACKET_ID_def next_state_wire_value_def to_be_bytes_def to_le_bytes_def
        PROTOCOL_VERSION_def)
  then show "\<exists>hw. encode_handshake (login_handshake_of steve_probe) 65536 [] = (Inr (), hw)" using encoded_ex by blast
  have "fst (encode_login_start (login_start_of steve_probe) 65536 []) = Inr ()"
    by (simp add: packet_eval encode_login_start_def login_start_body_def login_start_of_def steve_probe_def encode_bool_def
        encode_uuid_bytes MAX_USERNAME_LENGTH_def LOGIN_START_PACKET_ID_def)
  then show "\<exists>lw. encode_login_start (login_start_of steve_probe) 65536 [] = (Inr (), lw)" using encoded_ex by blast
qed

lemma received_ex: "\<exists>reads. received reads = Some b"
  by (cases "b = []") (auto intro: exI [of _ "[]"] exI [of _ "[Received b]"])

theorem login_client_needs_no_compression_witness:
  "\<exists>reads sent. run_login_probe sample_probe steve_probe reads = (Inr (LoginOk (uuid_new 0 0) (ascii ''Steve'') 0), sent)"
proof -
  let ?c = "server_config_default\<lparr>cfg_network_compression_threshold := -1\<rparr>"
  obtain hw lw where h: "encode_handshake (login_handshake_of steve_probe) 65536 [] = (Inr (), hw)"
    and l: "encode_login_start (login_start_of steve_probe) 65536 [] = (Inr (), lw)" using steve_encodes by blast
  have "hw \<noteq> []" using h by (auto simp: encode_handshake_def encode_packet_Inr frame_bytes_def encode_var_int_Nil)
  then have "read_bytes [ReadBytes (hw @ lw)] = Some (hw @ lw)" by simp
  moreover have "probe_connects sample_probe steve_probe" "\<not> cfg_online_mode ?c" "utf8_valid (lpc_host steve_probe)"
    "utf8_valid (lpc_username steve_probe)" "\<And>a b. env_write_fails sample_env a b = None" "zlib_bounded (env_deflate sample_env)"
    by (simp_all add: probe_connects_def probe_writes_def sample_probe_def server_config_default_def steve_probe_def packet_eval
        sample_env_def zlib_bounded_def)
  ultimately have "case handle_connection sample_env (server_connection_config ?c) [ReadBytes (hw @ lw)] of
      EnterPlay _ _ sent \<Rightarrow> \<forall>reads later. received reads = Some (sent @ later) \<longrightarrow>
        (if sint (cfg_network_compression_threshold ?c) < 0
         then run_login_probe sample_probe steve_probe reads = (Inr (LoginOk (uuid_new 0 0) (lpc_username steve_probe) 0), hw @ lw)
         else \<exists>e. run_login_probe sample_probe steve_probe reads = (Inl e, hw @ lw))
    | _ \<Rightarrow> False"
    using login_client_needs_no_compression [where penv = sample_probe and pc = steve_probe and c = ?c and cenv = sample_env
        and hw = hw and lw = lw and evs = "[ReadBytes (hw @ lw)]"] h l by blast
  then obtain sent where "\<forall>reads later. received reads = Some (sent @ later) \<longrightarrow>
      run_login_probe sample_probe steve_probe reads = (Inr (LoginOk (uuid_new 0 0) (lpc_username steve_probe) 0), hw @ lw)"
    by (auto split: conn_outcome.splits)
  moreover obtain reads where "received reads = Some (sent @ [])" using received_ex by blast
  moreover have "lpc_username steve_probe = ascii ''Steve''" by (simp add: steve_probe_def)
  ultimately show ?thesis by metis
qed

end
