(* ===== verification/Play_Probe_Run.thy ===== *)
theory Play_Probe_Run
  imports Play_Probe Login_Probe_Run
begin

section \<open>The play client at the server\<close>

text \<open>
  The client of \<open>play_client.rs\<close> against the connection loop and the session, from the handshake to the position it
  confirms. The reads may cut what the server sends anywhere.
\<close>

subsection \<open>Frames in any reads\<close>

abbreviation probe_item :: "probe_env \<Rightarrow> i32 \<Rightarrow> decompressed_packet \<Rightarrow> bytes \<Rightarrow> bool" where
  "probe_item env t p \<equiv> item (decode_compressed_frame (pe_inflate env) t PROTOCOL_MAX_FRAME_LENGTH) (Inr CompressedIncomplete)
    (Inr (CompressedComplete p))"

lemma compressed_larger_limit:
  assumes "encode_compressed_frame deflate pid b t m [] = (Inr u, w)" "effective_max_length m \<le> effective_max_length m'"
  shows "encode_compressed_frame deflate pid b t m' [] = (Inr (), w)"
proof (cases "sint t < 0")
  case True
  with assms have "encode_frame pid b m [] = (Inr (), w)"
    by (auto simp: encode_compressed_frame_def st_map_err_def split: prod.splits sum.splits)
  with assms(2) have "encode_frame pid b m' [] = (Inr (), w)" by (auto simp: encode_frame_Inr)
  with True show ?thesis by (simp add: encode_compressed_frame_def st_map_err_def)
next
  case False
  with assms obtain c where c: "compressed_body deflate t (encode_var_int pid [] @ b) = Inr c" "encode_raw_frame c m [] = (Inr (), w)"
    by (auto simp: encode_compressed_frame_def Let_def st_map_err_def split: prod.splits sum.splits)
  with assms(2) have "encode_raw_frame c m' [] = (Inr (), w)" by (auto simp: encode_raw_frame_Inr)
  with c(1) False show ?thesis by (simp add: encode_compressed_frame_def Let_def st_map_err_def)
qed

lemma wire_frame_item:
  assumes "zlib_ok senv" "pe_inflate env = sx_inflate senv" "wire_frame (sx_deflate senv) t m p w"
  shows "probe_item env t p w"
proof -
  have "compressible (sx_deflate senv) (sx_inflate senv) p"
    using compressible_packet [OF assms(1), of "dp_packet_id p" "dp_payload p" m] assms(3) by (cases p) (simp add: wire_frame_def)
  moreover have "encode_compressed_frame (sx_deflate senv) (dp_packet_id p) (dp_payload p) t PROTOCOL_MAX_FRAME_LENGTH [] = (Inr (), w)"
    using compressed_larger_limit [OF _ protocol_limit] assms(3) by (auto simp: wire_frame_def)
  ultimately have "\<exists>f. f \<noteq> [] \<and> w = [] @ f \<and>
      (\<forall>rest. decode_compressed_frame (sx_inflate senv) t PROTOCOL_MAX_FRAME_LENGTH (f @ rest) = (Inr (CompressedComplete p), rest)) \<and>
      (\<forall>a b. f = a @ b \<longrightarrow> b \<noteq> [] \<longrightarrow>
        decode_compressed_frame (sx_inflate senv) t PROTOCOL_MAX_FRAME_LENGTH a = (Inr CompressedIncomplete, a))"
    by (rule compressed.enc_frame)
  then show ?thesis by (auto simp: item_def assms(2))
qed

lemma plain_frame_item:
  assumes "var_int_length pid + length b \<le> effective_max_length m" "sint t < 0"
  shows "probe_item env t \<lparr>dp_packet_id = pid, dp_payload = b\<rparr> (frame_bytes pid b)"
proof -
  have le: "var_int_length pid + length b \<le> effective_max_length PROTOCOL_MAX_FRAME_LENGTH" by (rule le_trans [OF assms(1) protocol_limit])
  show ?thesis
    using decode_frame_bytes [OF le] decode_frame_truncated [OF le] assms(2) by (auto simp: item_def decode_compressed_frame_def)
qed

subsection \<open>The login\<close>

text \<open>Bytes that bring the client through the login, with the threshold it then has and who it is.\<close>

inductive login_stream :: "probe_env \<Rightarrow> i32 \<Rightarrow> bytes \<Rightarrow> i32 \<Rightarrow> uuid \<times> rstring \<Rightarrow> bool" for env where
  ends: "probe_item env t p w \<Longrightarrow> play_probe_login_packet p t = Inr (LoginDoneAs u name) \<Longrightarrow> login_stream env t w t (u, name)"
| goes_on: "probe_item env t p w \<Longrightarrow> play_probe_login_packet p t = Inr (LoginGoesOn t1) \<Longrightarrow> login_stream env t1 ws t2 i \<Longrightarrow>
    login_stream env t (w @ ws) t2 i"

lemma login_stream_whole: "login_stream env t w t2 i \<Longrightarrow> play_login_frames env t (w @ rest) = Inr (t2, Some i, rest)"
proof (induction rule: login_stream.induct)
  case (ends t p w u name)
  then show ?case using item_full [OF ends(1), of rest] by (subst play_login_frames.simps) simp
next
  case (goes_on t p w t1 ws t2 i)
  then show ?case using item_full [OF goes_on(1), of "ws @ rest"] by (subst play_login_frames.simps) simp
qed

lemma login_stream_part:
  "login_stream env t w t2 i \<Longrightarrow> w = a @ b \<Longrightarrow> b \<noteq> [] \<Longrightarrow>
    \<exists>t' a'. play_login_frames env t a = Inr (t', None, a') \<and> login_stream env t' (a' @ b) t2 i"
proof (induction arbitrary: a rule: login_stream.induct)
  case (ends t p w u name)
  then have "play_login_frames env t a = Inr (t, None, a)" by (subst play_login_frames.simps) (simp add: item_def)
  then show ?case using ends login_stream.ends [of env t p w] by auto
next
  case (goes_on t p w t1 ws t2 i)
  from goes_on.hyps(1) goes_on.prems(1) [symmetric] show ?case
  proof (cases rule: item_cases)
    case (whole tail)
    from goes_on.IH [OF whole(2) goes_on.prems(2)] whole(3) goes_on.hyps(2) show ?thesis
      by (subst play_login_frames.simps) simp
  next
    case (partial needed)
    then have "play_login_frames env t a = Inr (t, None, a)" by (subst play_login_frames.simps) simp
    then show ?thesis using login_stream.goes_on [OF goes_on.hyps] goes_on.prems(1) by auto
  qed
qed

lemma play_login_reads_stream:
  assumes "login_stream env t w t2 i" "buffer @ part @ last_bytes = w @ early" "length (buffer @ part) < length w"
    and "length w \<le> length (buffer @ part @ last_bytes)" "received reads = Some part" "last_bytes \<noteq> []"
  shows "play_login_reads env (reads @ Received last_bytes # later) t buffer = Inr (t2, i, early, later)"
  using assms
proof (induction reads arbitrary: t w buffer part)
  case Nil
  then show ?case using login_stream_whole [OF Nil.prems(1), of early] by (cases i) simp
next
  case (Cons r reads)
  then obtain b part' where r: "r = Received b" "b \<noteq> []" "received reads = Some part'" "part = b @ part'"
    by (auto simp: received_Cons)
  define y where "y = buffer @ b"
  have "y @ (part' @ last_bytes) = w @ early" "length y < length w"
    using Cons.prems(2,3) r(4) by (simp_all add: y_def)
  then obtain c where "w = y @ c" "c \<noteq> []" by (auto simp: append_eq_append_conv2)
  then have c: "w = (buffer @ b) @ c" "c \<noteq> []" by (simp_all add: y_def)
  from login_stream_part [OF Cons.prems(1) c] obtain t' a' where
    step: "play_login_frames env t (buffer @ b) = Inr (t', None, a')" "login_stream env t' (a' @ c) t2 i" by blast
  have "a' @ part' @ last_bytes = (a' @ c) @ early" "length (a' @ part') < length (a' @ c)"
    "length (a' @ c) \<le> length (a' @ part' @ last_bytes)"
    using Cons.prems(2-4) r(4) c(1) by auto
  from Cons.IH [OF step(2) this r(3) assms(6)] step(1) r(1,2) show ?case by simp
qed

subsection \<open>The observation\<close>

text \<open>A run of packets that ends the observation nowhere.\<close>

inductive observed :: "probe_env \<Rightarrow> i32 \<Rightarrow> decompressed_packet list \<Rightarrow> observation \<Rightarrow> observation \<Rightarrow> bool" for env t where
  none: "observed env t [] ob ob"
| more: "observe_packet env t p ob = (Inr (), ob1) \<Longrightarrow> ob_phase ob1 \<noteq> ProbePostTeleport \<Longrightarrow> observed env t ps ob1 ob2 \<Longrightarrow>
    observed env t (p # ps) ob ob2"

lemma observed_append: "observed env t ps ob ob1 \<Longrightarrow> observed env t qs ob1 ob2 \<Longrightarrow> observed env t (ps @ qs) ob ob2"
  by (induction rule: observed.induct) (auto intro: observed.intros)

lemma nothing_buffered: "decode_compressed_frame inflate t m [] = (Inr CompressedIncomplete, [])"
proof -
  have "decode_var_int [] = (Inl IncompleteInput, [])" by (simp add: decode_var_int_spec var_width_def)
  then show ?thesis by (simp add: decode_compressed_frame_def decode_frame_def decode_raw_frame_def)
qed

lemma observe_frames_part:
  assumes "list_all2 (probe_item env t) ps ws" "buffer @ later = concat ws" "observed env t ps ob ob2" "ob_phase ob \<noteq> ProbePostTeleport"
  shows "\<exists>ps' ws' ob1 buffer'. observe_frames env t buffer ob = (Inr buffer', ob1) \<and> ob_phase ob1 \<noteq> ProbePostTeleport
    \<and> list_all2 (probe_item env t) ps' ws' \<and> buffer' @ later = concat ws' \<and> observed env t ps' ob1 ob2
    \<and> (later = [] \<longrightarrow> ps' = [])"
  using assms
proof (induction ps ws arbitrary: buffer ob rule: list_all2_induct)
  case Nil
  then have "observe_frames env t buffer ob = (Inr [], ob)"
    by (subst observe_frames.simps) (simp add: nothing_buffered)
  with Nil show ?case by (intro exI [of _ "[]"] exI [of _ ob]) simp
next
  case (Cons p ps w ws)
  from Cons.prems(2) obtain ob1 where ob1: "observe_packet env t p ob = (Inr (), ob1)" "ob_phase ob1 \<noteq> ProbePostTeleport"
    "observed env t ps ob1 ob2" by (auto elim: observed.cases)
  have "buffer @ later = w @ concat ws" using Cons.prems(1) by simp
  from Cons.hyps(1) this show ?case
  proof (cases rule: item_cases)
    case (whole tail)
    then have "observe_frames env t buffer ob = observe_frames env t tail ob1"
      using ob1(1) by (subst observe_frames.simps) simp
    with Cons.IH [of tail ob1] whole(2) ob1(2,3) show ?thesis by simp
  next
    case (partial needed)
    then have "observe_frames env t buffer ob = (Inr buffer, ob)" by (subst observe_frames.simps) simp
    with Cons.hyps Cons.prems partial show ?thesis
      by (intro exI [of _ "p # ps"] exI [of _ "w # ws"] exI [of _ ob] exI [of _ buffer]) simp
  qed
qed

lemma observe_reads_all:
  assumes "list_all2 (probe_item env t) ps ws" "received reads = Some later" "buffer @ later = concat ws" "reads \<noteq> []"
    and "observed env t ps ob ob2" "ob_phase ob \<noteq> ProbePostTeleport"
  shows "observe_reads env t reads buffer ob = (Inr (), ob2)"
  using assms
proof (induction reads arbitrary: ps ws later buffer ob)
  case Nil
  then show ?case by simp
next
  case (Cons r reads)
  then obtain b later' where r: "r = Received b" "b \<noteq> []" "received reads = Some later'" "later = b @ later'"
    by (auto simp: received_Cons)
  have "(buffer @ b) @ later' = concat ws" using Cons.prems(3) r(4) by simp
  from observe_frames_part [OF Cons.prems(1) this Cons.prems(5,6)] obtain ps' ws' ob1 buffer'
    where step: "observe_frames env t (buffer @ b) ob = (Inr buffer', ob1)" "ob_phase ob1 \<noteq> ProbePostTeleport"
      "list_all2 (probe_item env t) ps' ws'" "buffer' @ later' = concat ws'" "observed env t ps' ob1 ob2"
      "later' = [] \<longrightarrow> ps' = []" by blast
  show ?case
  proof (cases "reads = []")
    case True
    with r(3) step(5,6) have "ob2 = ob1" by (auto elim: observed.cases)
    with True step(1,2) r(1,2) show ?thesis by simp
  next
    case False
    with Cons.IH [OF step(3) r(3) step(4) False step(5,2)] step(1,2) r(1,2) show ?thesis by simp
  qed
qed

text \<open>The packets of the join between the first and the last are skipped, or are chunks.\<close>

definition seen_chunks :: "decompressed_packet list \<Rightarrow> bool" where
  "seen_chunks ps \<longleftrightarrow> CHUNK_DATA_PACKET_ID \<in> set (map dp_packet_id ps)"

lemma middle_observed:
  assumes "\<forall>p \<in> set ps. dp_packet_id p \<notin> {0x28, 0x3C, 0x23}" "\<not> ob_teleport_confirmed ob" "ob_phase ob = ProbeJoinGame"
  shows "observed env t ps ob (ob\<lparr>ob_chunk_data_seen := ob_chunk_data_seen ob \<or> seen_chunks ps\<rparr>)"
  using assms
proof (induction ps arbitrary: ob)
  case Nil
  then show ?case by (simp add: seen_chunks_def observed.none)
next
  case (Cons p ps)
  let ?ob1 = "ob\<lparr>ob_chunk_data_seen := ob_chunk_data_seen ob \<or> dp_packet_id p = 0x24\<rparr>"
  have "observe_packet env t p ob = (Inr (), ?ob1)"
    using Cons.prems by (auto simp: observe_packet_def past_teleport_def)
  moreover have "observed env t ps ?ob1 (?ob1\<lparr>ob_chunk_data_seen := ob_chunk_data_seen ?ob1 \<or> seen_chunks ps\<rparr>)"
    using Cons.prems by (intro Cons.IH) auto
  moreover have "?ob1\<lparr>ob_chunk_data_seen := ob_chunk_data_seen ?ob1 \<or> seen_chunks ps\<rparr> =
      ob\<lparr>ob_chunk_data_seen := ob_chunk_data_seen ob \<or> seen_chunks (p # ps)\<rparr>"
    by (simp add: seen_chunks_def CHUNK_DATA_PACKET_ID_def disj_assoc eq_commute)
  ultimately show ?case using Cons.prems(3) observed.more [of env t p ob ?ob1 ps] by simp
qed

lemma join_ids_between: "p \<in> set (join_ids @ replicate 25 CHUNK_DATA_PACKET_ID) \<Longrightarrow> p \<notin> {0x28, 0x3C, 0x23}"
  by (auto simp: join_ids_def other_ids view_ids)

text \<open>A payload the encoder of the packet made is read back.\<close>

lemma packet_again_reads:
  assumes "enc m [] = (Inr (), frame_bytes pid b)" "var_int_length pid + length b \<le> effective_max_length m"
    and "\<And>m. enc m = encode_packet conv' pid body m"
    and "\<And>w. enc PROTOCOL_MAX_FRAME_LENGTH [] = (Inr (), w) \<Longrightarrow> dec PROTOCOL_MAX_FRAME_LENGTH w = (Inr v, [])"
  shows "packet_again pid b dec conv = Inr v"
proof -
  have "enc PROTOCOL_MAX_FRAME_LENGTH [] = (Inr (), frame_bytes pid b)"
    using packet_larger_limit [OF assms(1) [unfolded assms(3)] protocol_limit] by (simp add: assms(3))
  moreover have "encode_frame pid b PROTOCOL_MAX_FRAME_LENGTH [] = (Inr (), frame_bytes pid b)"
    using le_trans [OF assms(2) protocol_limit] by (simp add: encode_frame_Inr)
  ultimately show ?thesis using assms(4) by (simp add: packet_again_def)
qed

lemma join_seen:
  assumes "sent_as senv s (encode_join_game j) p w" "dp_packet_id p = JOIN_GAME_PACKET_ID" "join_game_ok (pe_fuel env) j"
  shows "observe_packet env t p ob = (Inr (), ob\<lparr>ob_entity_id := Some (jg_entity_id j), ob_gamemode := Some (game_mode_to_wire (jg_gamemode j)),
    ob_dimension := Some (jg_dimension_name j), ob_hashed_seed := Some (jg_hashed_seed j), ob_hardcore := Some (jg_is_hardcore j),
    ob_flat := Some (jg_is_flat j), ob_phase := ProbeJoinGame\<rparr>)"
proof -
  have "packet_again JOIN_GAME_PACKET_ID (dp_payload p) (decode_join_game (pe_fuel env)) play_client_error_from_play
      = Inr (PlayComplete (JoinGame j))"
  proof (rule packet_again_reads [where enc = "encode_join_game j" and m = "ses_max_frame_length s"])
    show "encode_join_game j (ses_max_frame_length s) [] = (Inr (), frame_bytes JOIN_GAME_PACKET_ID (dp_payload p))"
      "var_int_length JOIN_GAME_PACKET_ID + length (dp_payload p) \<le> effective_max_length (ses_max_frame_length s)"
      using assms(1,2) by (simp_all add: sent_as_def wire_frame_def)
    show "decode_join_game (pe_fuel env) PROTOCOL_MAX_FRAME_LENGTH w = (Inr (PlayComplete (JoinGame j)), [])"
      if "encode_join_game j PROTOCOL_MAX_FRAME_LENGTH [] = (Inr (), w)" for w
      using join_game.roundtrip [OF assms(3) that, of "[]"] by simp
  qed (rule encode_join_game_def)
  then show ?thesis using assms(2) by (simp add: observe_packet_def see_join_game_def JOIN_GAME_PACKET_ID_def)
qed

text \<open>The answer to the position, which the session reads.\<close>

lemma confirm_goes:
  assumes "pe_deflate env = sx_deflate senv" "zlib_ok senv" "zlib_bounded (sx_deflate senv)"
  shows "\<exists>w. confirm_wire env t i = Inr w
    \<and> try_decode_play_packet senv w 65536 t = (Inr (Some (ConfirmTeleportation \<lparr>ct_teleport_id = i\<rparr>)), [])"
proof -
  let ?p = "\<lparr>ct_teleport_id = i\<rparr>" and ?b = "encode_var_int i []"
  have short: "length ?b \<le> 55000" "length ?b \<le> 60000" using var_int_short [of i] by simp_all
  have frame: "encode_confirm_teleportation ?p m [] = (Inr (), frame_bytes CONFIRM_TELEPORTATION_PACKET_ID ?b)"
    "decode_frame m (frame_bytes CONFIRM_TELEPORTATION_PACKET_ID ?b) =
      (Inr (FrameComplete \<lparr>pf_packet_id = CONFIRM_TELEPORTATION_PACKET_ID, pf_payload = ?b\<rparr>), [])"
    if "65536 \<le> effective_max_length m" for m
  proof -
    have "var_int_length CONFIRM_TELEPORTATION_PACKET_ID + length ?b \<le> effective_max_length m"
      using that short(1) var_int_length_short [of CONFIRM_TELEPORTATION_PACKET_ID] by simp
    then show "encode_confirm_teleportation ?p m [] = (Inr (), frame_bytes CONFIRM_TELEPORTATION_PACKET_ID ?b)"
      "decode_frame m (frame_bytes CONFIRM_TELEPORTATION_PACKET_ID ?b) =
        (Inr (FrameComplete \<lparr>pf_packet_id = CONFIRM_TELEPORTATION_PACKET_ID, pf_payload = ?b\<rparr>), [])"
      using decode_frame_bytes [of CONFIRM_TELEPORTATION_PACKET_ID ?b m "[]"]
      by (simp_all add: encode_confirm_teleportation_def encode_packet_Inr run_body_def confirm_teleportation_body_def)
  qed
  have limit: "65536 \<le> effective_max_length 65536" "65536 \<le> effective_max_length PROTOCOL_MAX_FRAME_LENGTH"
    by (simp_all add: effective_max_length_def PROTOCOL_MAX_FRAME_LENGTH_def)
  obtain w where w: "encode_compressed_frame (sx_deflate senv) CONFIRM_TELEPORTATION_PACKET_ID ?b t 65536 [] = (Inr (), w)"
    using compressed_frame_succeeds [OF assms(3) server_frame_limit(2) short(1)] by blast
  have "confirm_wire env t i = Inr w"
    using frame [OF limit(2)] compressed_larger_limit [OF w protocol_limit] by (simp add: confirm_wire_def Let_def assms(1))
  moreover have "client_wire senv t 65536 (ConfirmTeleportation ?p) = Some w"
    using frame [OF limit(1)] w by (simp add: client_wire_def play_encoder_def)
  from try_decode_client_wire [OF _ _ assms(2) this, of "[]"]
  have "try_decode_play_packet senv w 65536 t = (Inr (Some (ConfirmTeleportation ?p)), [])"
    by (simp add: serverbound_def play_packet_ok_def)
  ultimately show ?thesis by blast
qed

lemma position_seen:
  assumes "sent_as senv s (encode_synchronize_player_position y) p w" "dp_packet_id p = SYNCHRONIZE_PLAYER_POSITION_PACKET_ID"
    and "confirm_wire env t (syn_teleport_id y) = Inr wire" "probe_writes env"
  shows "observe_packet env t p ob = (Inr (), ob\<lparr>ob_sent := ob_sent ob @ wire, ob_teleport_confirmed := True,
    ob_phase := ProbeTeleportConfirmed\<rparr>)"
proof -
  have "packet_again SYNCHRONIZE_PLAYER_POSITION_PACKET_ID (dp_payload p) decode_synchronize_player_position play_client_error_from_play
      = Inr (PlayComplete (SynchronizePlayerPosition y))"
  proof (rule packet_again_reads [where enc = "encode_synchronize_player_position y" and m = "ses_max_frame_length s"])
    show "encode_synchronize_player_position y (ses_max_frame_length s) [] =
        (Inr (), frame_bytes SYNCHRONIZE_PLAYER_POSITION_PACKET_ID (dp_payload p))"
      "var_int_length SYNCHRONIZE_PLAYER_POSITION_PACKET_ID + length (dp_payload p) \<le> effective_max_length (ses_max_frame_length s)"
      using assms(1,2) by (simp_all add: sent_as_def wire_frame_def)
    show "decode_synchronize_player_position PROTOCOL_MAX_FRAME_LENGTH w = (Inr (PlayComplete (SynchronizePlayerPosition y)), [])"
      if "encode_synchronize_player_position y PROTOCOL_MAX_FRAME_LENGTH [] = (Inr (), w)" for w
      using synchronize_player_position.roundtrip [OF TrueI that, of "[]"] by simp
  qed (rule encode_synchronize_player_position_def)
  then have "see_position env t (dp_payload p) ob = (Inr (), ob\<lparr>ob_sent := ob_sent ob @ wire, ob_teleport_confirmed := True,
      ob_phase := ProbeTeleportConfirmed\<rparr>)"
    by (auto simp: see_position_def packet_again_def SYNCHRONIZE_PLAYER_POSITION_PACKET_ID_def assms(3) probe_write_goes [OF assms(4)]
        split: prod.splits sum.splits)
  then show ?thesis using assms(2) by (simp add: observe_packet_def SYNCHRONIZE_PLAYER_POSITION_PACKET_ID_def)
qed

subsection \<open>The conversation\<close>

lemma login_wire_stream:
  assumes "login_wire cenv config (login_success_payload (uuid_new 0 0) name) sent" "utf8_valid name"
    and "encode_login_start p 65536 [] = (Inr u, lw)" "lst_username p = name"
    and "cnf_max_frame_length config = 65536" "cnf_compression_threshold config = t"
    and "zlib_ok senv" "pe_inflate env = sx_inflate senv" "sx_deflate senv = env_deflate cenv"
  shows "\<exists>t'. login_stream env COMPRESSION_DISABLED sent t' (uuid_new 0 0, name) \<and> (sint t < 0 \<longrightarrow> t' = COMPRESSION_DISABLED) \<and> (0 \<le> sint t \<longrightarrow> t' = t)"
proof -
  let ?b = "login_success_payload (uuid_new 0 0) name"
  let ?p = "\<lparr>dp_packet_id = LOGIN_SUCCESS_PACKET_ID, dp_payload = ?b\<rparr>"
  have enc: "utf8_valid (lst_username p)" "encode_login_start p 65536 [] = (Inr u, lw)" using assms(2-4) by simp_all
  have bound: "length ?b \<le> 100" using accepted_login(2) [OF enc] assms(4) by simp
  have success: "play_probe_login_packet ?p t' = Inr (LoginDoneAs (uuid_new 0 0) name)" for t'
    using success_again [OF enc, of "uuid_new 0 0"] small_frames(1) [of ?b 2 "[]"] bound assms(4)
    by (simp add: play_probe_login_packet_def packet_again_def LOGIN_SUCCESS_PACKET_ID_def)
  have plain: "probe_item env COMPRESSION_DISABLED \<lparr>dp_packet_id = pid, dp_payload = b\<rparr> (frame_bytes pid b)" if "length b \<le> 100" for pid b
    by (rule plain_frame_item [where m = 65536])
      (use that small_frames(2) [of b pid "[]"] in \<open>simp_all add: encode_frame_Inr COMPRESSION_DISABLED_def\<close>)
  show ?thesis
  proof (cases "sint t < 0")
    case True
    with assms(1,6) have "sent = frame_bytes LOGIN_SUCCESS_PACKET_ID ?b" by (simp add: login_wire_def)
    with login_stream.ends [OF plain [OF bound] success] True show ?thesis by auto
  next
    case False
    with assms(1,5,6,9) obtain w where w: "sent = frame_bytes SET_COMPRESSION_PACKET_ID (encode_var_int t []) @ w"
      "wire_frame (sx_deflate senv) t 65536 ?p w" by (auto simp: login_wire_def)
    have "play_probe_login_packet \<lparr>dp_packet_id = SET_COMPRESSION_PACKET_ID, dp_payload = encode_var_int t []\<rparr> COMPRESSION_DISABLED
        = Inr (LoginGoesOn t)"
      using var_int.roundtrip [of t "[]"] by (simp add: play_probe_login_packet_def SET_COMPRESSION_PACKET_ID_def)
    moreover have "probe_item env COMPRESSION_DISABLED \<lparr>dp_packet_id = SET_COMPRESSION_PACKET_ID, dp_payload = encode_var_int t []\<rparr>
        (frame_bytes SET_COMPRESSION_PACKET_ID (encode_var_int t []))"
      using var_int_short [of t] by (intro plain) simp
    moreover have "login_stream env t w t (uuid_new 0 0, name)"
      by (rule login_stream.ends [OF wire_frame_item [OF assms(7,8) w(2)] success])
    ultimately have "login_stream env COMPRESSION_DISABLED sent t (uuid_new 0 0, name)"
      unfolding w(1) by (intro login_stream.goes_on)
    then show ?thesis using False by auto
  qed
qed

text \<open>Two negative thresholds are the same format.\<close>

lemma negative_thresholds:
  assumes "sint t < 0" "sint t' < 0"
  shows "decode_compressed_frame inflate t m = decode_compressed_frame inflate t' m"
    "encode_compressed_frame deflate pid b t m = encode_compressed_frame deflate pid b t' m"
  using assms by (auto simp: decode_compressed_frame_def encode_compressed_frame_def fun_eq_iff)

lemma negative_confirm: "sint t < 0 \<Longrightarrow> sint t' < 0 \<Longrightarrow> confirm_wire env t i = confirm_wire env t' i"
  by (auto simp: confirm_wire_def Let_def negative_thresholds(2) [of t t'] split: prod.split sum.split decode_outcome.split)

definition play_snapshot_expected :: "server_config \<Rightarrow> play_probe_config \<Rightarrow> i32 \<Rightarrow> play_snapshot" where
  "play_snapshot_expected c pc i =
    \<lparr>psn_entity_id = i, psn_gamemode = cfg_default_gamemode c, psn_dimension_name = ascii ''minecraft:overworld'',
     psn_hashed_seed = 0, psn_is_hardcore = False, psn_is_flat = True, psn_uuid = uuid_new 0 0, psn_username = lpc_username pc,
     psn_phase_reached = ProbeTeleportConfirmed, psn_teleport_confirmed = True, psn_keep_alive_seen = False,
     psn_chunk_data_seen = True\<rparr>"

lemma join_packet_ok:
  assumes "nbt_root (sx_registry_codec senv)" "length (sx_registry_codec senv) \<le> fuel"
  shows "join_game_ok fuel (join_game_packet senv s)"
proof -
  have "utf8_valid (dimension_protocol_name d)" for d using names_ok(1) [of d] by (simp add: str_ok_def)
  then show ?thesis using assms
    by (auto simp: join_game_ok_def join_game_packet_def Let_def protocol_names_def death_location_ok_def list_all_iff)
qed

text \<open>The join as the client sees it: from the first of its packets to the confirmed position.\<close>

lemma join_observed:
  assumes frames: "sent_as senv s (encode_join_game (join_game_packet senv s)) join w1" "dp_packet_id join = JOIN_GAME_PACKET_ID"
      "map dp_packet_id ps = join_ids @ replicate 25 CHUNK_DATA_PACKET_ID"
      "sent_as senv s (encode_synchronize_player_position (sync_packet 0)) sync w2"
      "dp_packet_id sync = SYNCHRONIZE_PLAYER_POSITION_PACKET_ID"
    and new: "ses_entity_id s = i" "ses_dimension s = Overworld" "game_mode_from_wire (cfg_default_gamemode c) = Some (ses_gamemode s)"
    and codec: "nbt_root (sx_registry_codec senv)" "length (sx_registry_codec senv) \<le> pe_fuel penv"
    and confirm: "confirm_wire penv t 0 = Inr confirm" and wr: "probe_writes penv"
  obtains ob where "observed penv t (join # ps @ [sync]) (observation_start sent) ob" "ob_sent ob = sent @ confirm"
    "play_snapshot_of ob (uuid_new 0 0) (lpc_username pc) = Inr (play_snapshot_expected c pc i)"
proof -
  let ?j = "join_game_packet senv s" and ?ob = "observation_start sent"
  define ob1 where "ob1 = ?ob\<lparr>ob_entity_id := Some (jg_entity_id ?j), ob_gamemode := Some (game_mode_to_wire (jg_gamemode ?j)),
    ob_dimension := Some (jg_dimension_name ?j), ob_hashed_seed := Some (jg_hashed_seed ?j), ob_hardcore := Some (jg_is_hardcore ?j),
    ob_flat := Some (jg_is_flat ?j), ob_phase := ProbeJoinGame\<rparr>"
  define ob2 where "ob2 = ob1\<lparr>ob_chunk_data_seen := ob_chunk_data_seen ob1 \<or> seen_chunks ps\<rparr>"
  define ob3 where "ob3 = ob2\<lparr>ob_sent := ob_sent ob2 @ confirm, ob_teleport_confirmed := True, ob_phase := ProbeTeleportConfirmed\<rparr>"
  have "observe_packet penv t join ?ob = (Inr (), ob1)"
    using join_seen [OF frames(1,2) join_packet_ok [OF codec], of t ?ob] by (simp add: ob1_def)
  moreover have "observed penv t ps ob1 ob2"
    unfolding ob2_def
  proof (rule middle_observed)
    show "\<forall>p \<in> set ps. dp_packet_id p \<notin> {0x28, 0x3C, 0x23}"
      using join_ids_between frames(3) by (metis (no_types, lifting) image_eqI set_map)
  qed (simp_all add: ob1_def observation_start_def)
  moreover have "observe_packet penv t sync ob2 = (Inr (), ob3)"
    using position_seen [OF frames(4,5) _ wr, of t confirm ob2] confirm by (simp add: sync_packet_def ob3_def)
  ultimately have "observed penv t (join # ps @ [sync]) ?ob ob3"
    by (auto simp: ob1_def ob3_def intro!: observed.intros observed_append)
  moreover have "play_snapshot_of ob3 (uuid_new 0 0) (lpc_username pc) = Inr (play_snapshot_expected c pc i)"
    using new frames(3)
    by (auto simp: play_snapshot_of_def seen_def ob3_def ob2_def ob1_def observation_start_def play_snapshot_expected_def
        join_game_packet_def Let_def dimension_protocol_name_def seen_chunks_def game_mode_from_wire_def game_mode_to_wire_def split: if_splits)
  moreover have "ob_sent ob3 = sent @ confirm" by (simp add: ob3_def ob2_def ob1_def observation_start_def)
  ultimately show ?thesis using that by blast
qed

text \<open>The whole run of the client, on a login and on what it observes.\<close>

lemma play_probe_run:
  assumes start: "login_client_start penv PlayProtocol PlayConnect PlayIo play_client_error_from_login pc [] = (Inr (), asked)"
    and stream: "login_stream penv COMPRESSION_DISABLED sent t (u, name)"
    and items: "list_all2 (probe_item penv t) ps ws" and seen_all: "observed penv t ps (observation_start asked) ob"
    and snapshot: "play_snapshot_of ob u name = Inr snap"
    and r: "received login_reads = Some part" "length part < length sent" "part @ last_bytes = sent @ early"
      "received play_reads = Some later" "early @ later = concat ws"
  shows "run_play_probe penv pc (login_reads @ Received last_bytes # play_reads) =
    (if play_reads = [] then (Inl (PlayProtocol (ascii ''did not receive Join Game'')), asked) else (Inr snap, ob_sent ob))"
proof -
  have "length sent \<le> length (part @ last_bytes)" "last_bytes \<noteq> []" using r(2,3) by (auto simp: append_eq_append_conv2)
  with play_login_reads_stream [OF stream, of "[]" part last_bytes early login_reads play_reads] r(1-3)
  have login: "play_login_reads penv (login_reads @ Received last_bytes # play_reads) COMPRESSION_DISABLED [] =
      Inr (t, (u, name), early, play_reads)" by simp
  show ?thesis
  proof (cases "play_reads = []")
    case True
    with login show ?thesis by (simp add: run_play_probe_def start play_snapshot_of_def seen_def observation_start_def)
  next
    case False
    from observe_reads_all [OF items r(4,5) False seen_all]
    have "observe_reads penv t play_reads early (observation_start asked) = (Inr (), ob)" by (simp add: observation_start_def)
    then show ?thesis using False snapshot by (simp add: run_play_probe_def start login)
  qed
qed

text \<open>
  C5: The play client at the server. On a server in offline mode with a game mode there is, with sockets that work,
  zlib that reads back what it wrote, and a registry codec that is NBT, let the client read what the server sends, in any
  reads, and then nothing. If a read comes after the one that completes the login, the client has a snapshot of the game,
  with the entity id, the game mode, the overworld, a position it confirmed and chunks, whatever the threshold of
  compression is, and what it wrote last is what the session reads as the confirmation of teleport 0. If
  no read comes after that one, because all of the join came with it, the client looks at none of it, and fails for want
  of a Join Game.
\<close>

theorem play_client_sees_the_join:
  assumes "probe_connects penv pc" "\<not> cfg_online_mode c" "unat (cfg_default_gamemode c) < 4"
    and "utf8_valid (lpc_host pc)" "encode_handshake (login_handshake_of pc) 65536 [] = (Inr u1, hw)"
    and "utf8_valid (lpc_username pc)" "encode_login_start (login_start_of pc) 65536 [] = (Inr u2, lw)"
    and "\<And>a b. env_write_fails cenv a b = None" "read_bytes evs = Some (hw @ lw)"
    and "sx_deflate senv = env_deflate cenv" "pe_deflate penv = sx_deflate senv" "pe_inflate penv = sx_inflate senv"
    and "writes_succeed senv" "zlib_ok senv" "zlib_bounded (sx_deflate senv)" "sx_timeout_fails senv = None" "\<not> sx_tick_gone senv"
    and "length (sx_registry_codec senv) \<le> 54000" "nbt_root (sx_registry_codec senv)" "length (sx_registry_codec senv) \<le> pe_fuel penv"
  shows "case handle_connection cenv (server_connection_config c) evs of
      EnterPlay sc i sent \<Rightarrow>
        \<exists>t confirm. run_play_loop senv sc i ch now [] = SessionOn t []
        \<and> try_decode_play_packet senv confirm 65536 (cfg_network_compression_threshold c) =
            (Inr (Some (ConfirmTeleportation \<lparr>ct_teleport_id = 0\<rparr>)), [])
        \<and> (\<forall>login_reads last_bytes part early play_reads later.
            received login_reads = Some part \<longrightarrow> length part < length sent \<longrightarrow> part @ last_bytes = sent @ early \<longrightarrow>
            received play_reads = Some later \<longrightarrow> early @ later = ses_written t \<longrightarrow>
            run_play_probe penv pc (login_reads @ Received last_bytes # play_reads) =
              (if play_reads = [] then (Inl (PlayProtocol (ascii ''did not receive Join Game'')), hw @ lw)
               else (Inr (play_snapshot_expected c pc i), hw @ lw @ confirm)))
    | _ \<Rightarrow> False"
proof -
  let ?config = "server_connection_config c" and ?t = "cfg_network_compression_threshold c" and ?i = "env_next_entity_id cenv"
  let ?sc = "play_session_config cenv ?config (lpc_username pc)"
  have name: "lst_username (login_start_of pc) = lpc_username pc" by (simp add: login_start_of_def)
  have bounded: "zlib_bounded (env_deflate cenv)" using assms(10,15) by simp
  from probe_reaches_play [OF assms(4-7) assms(2,8) bounded assms(9)] obtain sent
    where play: "handle_connection cenv ?config evs = EnterPlay ?sc ?i sent"
      and sent: "login_wire cenv ?config (login_success_payload (uuid_new 0 0) (lpc_username pc)) sent" .
  from login_wire_stream [OF sent assms(6,7) name _ _ assms(14,12,10), of ?t] obtain t'
    where stream: "login_stream penv COMPRESSION_DISABLED sent t' (uuid_new 0 0, lpc_username pc)"
      and t': "sint ?t < 0 \<Longrightarrow> t' = COMPRESSION_DISABLED" "0 \<le> sint ?t \<Longrightarrow> t' = ?t"
    by (auto simp: server_frame_limit)
  have "t' = ?t \<or> sint t' < 0 \<and> sint ?t < 0" using t' by (force simp: COMPRESSION_DISABLED_def)
  then have decode: "decode_compressed_frame (pe_inflate penv) t' = decode_compressed_frame (pe_inflate penv) ?t"
    and confirm_same: "confirm_wire penv t' 0 = confirm_wire penv ?t 0"
    using negative_thresholds(1) [of t' ?t] negative_confirm [of t' ?t] by (auto simp: fun_eq_iff)
  have "game_mode_from_wire (sc_gamemode ?sc) \<noteq> None" using assms(3) by (simp only: game_mode_known server_session)
  moreover have "str_ok 16 (sc_username ?sc)" using accepted_login(1) [OF _ assms(7)] assms(6) by (simp add: server_session name)
  ultimately obtain s t join w1 ps ws sync w2 where
    s: "session_new senv ?sc ?i ch now = Inr s"
    and t: "run_play_loop senv ?sc ?i ch now [] = SessionOn t []" "ses_written t = w1 @ concat ws @ w2"
    and frames: "sent_as senv s (encode_join_game (join_game_packet senv s)) join w1" "dp_packet_id join = JOIN_GAME_PACKET_ID"
      "list_all2 (wire_frame (sx_deflate senv) (sc_compression_threshold ?sc) (sc_max_frame_length ?sc)) ps ws"
      "map dp_packet_id ps = join_ids @ replicate 25 CHUNK_DATA_PACKET_ID"
      "sent_as senv s (encode_synchronize_player_position (sync_packet 0)) sync w2"
      "dp_packet_id sync = SYNCHRONIZE_PLAYER_POSITION_PACKET_ID"
    using join_completes [OF assms(13,15,18,16,17), of ?sc ?i ch now] server_frame_limit(2)
    unfolding server_session(3) by blast
  have new: "ses_compression_threshold s = ?t" "ses_max_frame_length s = 65536" "ses_entity_id s = ?i" "ses_dimension s = Overworld"
    "game_mode_from_wire (cfg_default_gamemode c) = Some (ses_gamemode s)"
    using s by (auto simp: session_new_def server_session split: option.splits if_splits)
  have i: "probe_item penv t' p w" if "wire_frame (sx_deflate senv) ?t 65536 p w" for p w
    using wire_frame_item [OF assms(14,12) that] by (simp add: item_def decode)
  have "list_all2 (wire_frame (sx_deflate senv) ?t 65536) (join # ps @ [sync]) (w1 # ws @ [w2])"
    using frames(1,3,5) new(1,2) by (auto simp: sent_as_def server_session intro: list_all2_appendI)
  then have items: "list_all2 (probe_item penv t') (join # ps @ [sync]) (w1 # ws @ [w2])" by (rule list_all2_mono) (rule i)
  from confirm_goes [OF assms(11,14,15), of ?t 0] obtain confirm where confirm: "confirm_wire penv ?t 0 = Inr confirm"
    "try_decode_play_packet senv confirm 65536 ?t = (Inr (Some (ConfirmTeleportation \<lparr>ct_teleport_id = 0\<rparr>)), [])" by blast
  from join_observed [OF frames(1,2,4-6) new(3-5) assms(19,20), of t' confirm "hw @ lw" pc] confirm(1) confirm_same assms(1)
  obtain ob where ob: "observed penv t' (join # ps @ [sync]) (observation_start (hw @ lw)) ob" "ob_sent ob = (hw @ lw) @ confirm"
    "play_snapshot_of ob (uuid_new 0 0) (lpc_username pc) = Inr (play_snapshot_expected c pc ?i)"
    by (auto simp: probe_connects_def)
  have "run_play_probe penv pc (login_reads @ Received last_bytes # play_reads) =
      (if play_reads = [] then (Inl (PlayProtocol (ascii ''did not receive Join Game'')), hw @ lw)
       else (Inr (play_snapshot_expected c pc ?i), hw @ lw @ confirm))"
    if "received login_reads = Some part" "length part < length sent" "part @ last_bytes = sent @ early"
      "received play_reads = Some later" "early @ later = ses_written t" for login_reads last_bytes part early play_reads later
    using play_probe_run [OF login_client_starts [OF assms(1,5,7)] stream items ob(1,3) that(1-4)] that(5) t(2) ob(2) by simp
  then show ?thesis using t(1) confirm(2) by (simp add: play) blast
qed

text \<open>Steve, on a server with the default settings and a zlib that turns its input around.\<close>

definition mirror_probe :: probe_env where
  "mirror_probe = sample_probe\<lparr>pe_deflate := sx_deflate mirror_zlib, pe_inflate := sx_inflate mirror_zlib\<rparr>"

definition mirror_connection :: connection_env where
  "mirror_connection = sample_env\<lparr>env_deflate := sx_deflate mirror_zlib\<rparr>"

lemma mirror_works:
  "probe_connects mirror_probe steve_probe" "\<And>a b. env_write_fails mirror_connection a b = None"
  "sx_deflate mirror_zlib = env_deflate mirror_connection" "pe_deflate mirror_probe = sx_deflate mirror_zlib"
  "pe_inflate mirror_probe = sx_inflate mirror_zlib" "writes_succeed mirror_zlib" "zlib_ok mirror_zlib"
  "zlib_bounded (sx_deflate mirror_zlib)" "sx_timeout_fails mirror_zlib = None" "\<not> sx_tick_gone mirror_zlib"
  "length (sx_registry_codec mirror_zlib) \<le> 54000" "length (sx_registry_codec mirror_zlib) \<le> pe_fuel mirror_probe"
  "env_next_entity_id mirror_connection = 7"
  by (simp_all add: mirror_probe_def mirror_connection_def sample_probe_def sample_env_def mirror_zlib_def probe_connects_def
      probe_writes_def writes_succeed_def zlib_ok_def zlib_reads_back_def zlib_bounded_def)

lemma mirror_codec: "nbt_root (sx_registry_codec mirror_zlib)"
proof -
  have "to_be_bytes (0 :: u16) = [0, 0]" by code_simp
  moreover have "nbt_entries [0]" by (rule nbt_end)
  ultimately show ?thesis
    unfolding nbt_root_def
    by - (rule exI [where x = "[]"], rule exI [where x = "[0]"], simp add: mirror_zlib_def)
qed

theorem play_client_sees_the_join_witness:
  "\<exists>reads sent. run_play_probe mirror_probe steve_probe reads = (Inr (play_snapshot_expected server_config_default steve_probe 7), sent)"
proof -
  let ?c = server_config_default
  let ?config = "server_connection_config ?c"
  let ?sc = "play_session_config mirror_connection ?config (lpc_username steve_probe)"
  obtain hw lw where h: "encode_handshake (login_handshake_of steve_probe) 65536 [] = (Inr (), hw)"
    and l: "encode_login_start (login_start_of steve_probe) 65536 [] = (Inr (), lw)" using steve_encodes by blast
  have "hw \<noteq> []" using h by (auto simp: encode_handshake_def encode_packet_Inr frame_bytes_def encode_var_int_Nil)
  then have evs: "read_bytes [ReadBytes (hw @ lw)] = Some (hw @ lw)" by simp
  have texts: "utf8_valid (lpc_host steve_probe)" "utf8_valid (lpc_username steve_probe)"
    by (simp_all add: steve_probe_def packet_eval)
  have mode: "\<not> cfg_online_mode ?c" "unat (cfg_default_gamemode ?c) < 4" by (simp_all add: server_config_default_def)
  from probe_reaches_play [OF texts(1) h texts(2) l mode(1) mirror_works(2) _ evs] mirror_works(3,8) obtain sent
    where play: "handle_connection mirror_connection ?config [ReadBytes (hw @ lw)] = EnterPlay ?sc 7 sent"
      and wire: "login_wire mirror_connection ?config (login_success_payload (uuid_new 0 0) (lpc_username steve_probe)) sent"
    by (auto simp: mirror_works(13))
  have "sent \<noteq> []" using wire by (auto simp: login_wire_def frame_bytes_def encode_var_int_Nil split: if_splits)
  from play_client_sees_the_join [OF mirror_works(1) mode texts(1) h texts(2) l mirror_works(2) evs mirror_works(3-11) mirror_codec mirror_works(12),
      of 1 0]
  obtain t confirm where t: "run_play_loop mirror_zlib ?sc 7 1 0 [] = SessionOn t []"
    and all: "\<forall>login_reads last_bytes part early play_reads later.
        received login_reads = Some part \<longrightarrow> length part < length sent \<longrightarrow> part @ last_bytes = sent @ early \<longrightarrow>
        received play_reads = Some later \<longrightarrow> early @ later = ses_written t \<longrightarrow>
        run_play_probe mirror_probe steve_probe (login_reads @ Received last_bytes # play_reads) =
          (if play_reads = [] then (Inl (PlayProtocol (ascii ''did not receive Join Game'')), hw @ lw)
           else (Inr (play_snapshot_expected ?c steve_probe 7), hw @ lw @ confirm))"
    unfolding play by auto
  have "game_mode_from_wire (sc_gamemode ?sc) \<noteq> None" using mode(2) by (simp only: game_mode_known server_session)
  moreover have "str_ok 16 (sc_username ?sc)" using accepted_login(1) [OF _ l] texts(2) by (simp add: server_session login_start_of_def)
  moreover have "JOIN_ROOM \<le> effective_max_length (sc_max_frame_length ?sc)"
    unfolding server_session(3) by (rule server_frame_limit(2))
  ultimately obtain s enc1 join w1 rest where "sent_as mirror_zlib s enc1 join w1" "ses_written t = w1 @ rest"
    using join_completes [OF mirror_works(6,8,11,9,10), of ?sc 7 1 0] t by auto
  then have "ses_written t \<noteq> []" using wire_frame_reads(1) [OF mirror_works(7)] by (auto simp: sent_as_def)
  then have later: "received [Received (ses_written t)] = Some (ses_written t)" by simp
  have "run_play_probe mirror_probe steve_probe ([] @ Received sent # [Received (ses_written t)]) =
      (Inr (play_snapshot_expected ?c steve_probe 7), hw @ lw @ confirm)"
    using all [rule_format, of "[]" "[]" sent "[]" "[Received (ses_written t)]" "ses_written t"] \<open>sent \<noteq> []\<close> later by simp
  then show ?thesis by blast
qed

text \<open>Two servers look the same to the comparison of the play clients when they have the same game mode.\<close>

lemma play_clients_compare:
  "diff_play debug_str (play_snapshot_expected c pc i) (play_snapshot_expected c' pc' i') = PlayMatch \<longleftrightarrow>
    cfg_default_gamemode c = cfg_default_gamemode c'"
  by (simp add: diff_play_matches play_snapshot_expected_def)

end
