(* ===== verification/Spec2Isabelle.thy ===== *)
theory Spec2Isabelle
  imports Connection_Run Play_Wire Play_Machine Registry Mutation Session_Screen Server Tick_Restart Play_Probe_Run
begin

text \<open>
  A model of the Rustbound server, a Minecraft 1.20.1 (protocol 763) server
  of three small gardens ("hakoniwa"), in three crates: the protocol crate
  (src/crates/rustbound-protocol) turns bytes into packets and keeps the state
  machines of a connection, the server crate (src/crates/rustbound-server) has
  the connection loop, the world and everything that lives in it, and the
  conformance crate (src/crates/rustbound-conformance) has clients that talk to
  a server and compare what they saw with what another server showed.

  1. How the program works

  The server (server.rs) reads its configuration (config.rs), starts the tick
  thread and then the listener (listener.rs), which gives each TCP connection
  a thread. That one runs
  handle_connection (connection.rs): it collects bytes, cuts packets off the
  front of its buffer according to the state the connection is in (handshake,
  status, login), answers them, and on a finished login hands the connection
  to the play session. The session talks to one tick thread, which owns the
  world (world.rs through the facade of mutation.rs), the mobs, the chests,
  the players and the files, and answers with outbound packets. Chunks of
  the garden are generated flat (chunk.rs), decorated from map packs
  (map_pack.rs) and changed by players; the changes, the players and the
  chests are saved to files (persist.rs, container.rs).

  A conformance client opens one connection and goes through one exchange: the
  status and a ping (client.rs), a login (login_client.rs), or a login and the
  first packets of the game (play_client.rs). It keeps a snapshot of it, and two
  snapshots are compared field by field (diff.rs, play_diff.rs).

  2. The theories

  Protocol crate:
    Prelude           shared lemmas and the collections dec_intros, field_intros
    Bytes, Codec      bytes, big-endian words, UTF-8; the contracts of a decoder
                      and of a codec as locales
    Primitives        primitives.rs: VarInt, VarLong, strings, numbers, block
                      positions, UUIDs, byte arrays
    Framing           framing.rs: length-prefixed frames
    Packets           the shape all packet codecs share (locale framed_packet)
    Handshake         state.rs, handshake.rs
    Status_Packets    status.rs
    Compression       compression.rs
    Login_Packets     login.rs;  Login_Machine  login_state_machine.rs
    Nbt, Play_Types, Play_Player, Play_World, Play_Entity, Play_Container
                      play.rs: the walk over NBT, the records and enums, and
                      the encoders and decoders, grouped by what they are about
    Play_Wire         the round trip of all of them
    Play_Machine      play_state_machine.rs
  Server crate:
    Text_Format, Text_Trim   the parts of the string library the server uses
    Floats            f64 arithmetic on bit patterns, as the code uses it
    Offline_Uuid      offline_uuid.rs
    Connection, Connection_Run   connection.rs: one packet, then the loop
    Registry          registry.rs: the table of blocks and items
    Hakoniwa          hakoniwa.rs: sizes, borders and clamps of the gardens
    Chunk             chunk.rs: the flat generator
    World             world.rs: chunks, block layers, players and views
    Mutation          mutation.rs: world operations with the messages they send
    Fluid, Dimension  fluid.rs, dimension.rs
    Collision, Mob    collision.rs, mob.rs
    Storage, Persist  the file system, and persist.rs
    Container         container.rs: chests and their file
    Map_Pack          map_pack.rs: packs, the built-in gardens, arrival
    Mods              mod_api.rs: the registry and host of mods
    Session_Events    what the tick thread tells a session (an enum of session.rs)
    Player_State      the inventory and chunk state of a player, of tick.rs
    Tick, Tick_Messages, Tick_Loop   tick.rs: the state of the tick thread and its
                      messages, the handler of each message, the periodic
                      tasks, one round, the start and the end
    Tick_Invariant, Tick_Safety   the invariant of the tick thread's tables
    Tick_View         a client that replays the events of its channel
    Session, Session_Run   session.rs: what a session sends, what it receives,
                      the play loop
    Session_Dispatch  the chain of decoders against a table of packet ids
    Session_Safety    what a session may tell the tick thread
    Session_Faults    the keep-alive clock and the reason of a disconnect
    Session_Join      the packets of the join: what they are, and that they fit
    Config            config.rs: the properties file and the command line
    Server            listener.rs, server.rs: the settings of every part, the
                      start, and a login on a running server
    Tick_Restart      the files between one run of the tick thread and the next
    Session_View      a client that reads the bytes of a session
    Session_Screen    tick thread, session, codecs and client, composed
    Error_Text        the Display texts of the errors of both crates
  Conformance crate:
    Probe_Stream      the socket of a client, and frames cut anywhere
    Status_Probe      client.rs, snapshot.rs, diff.rs
    Login_Probe       login_client.rs
    Play_Probe        play_client.rs, play_diff.rs
    Status_Probe_Run, Login_Probe_Run, Play_Probe_Run
                      each client in conversation with the model of the server

  Definitions keep the names of the Rust functions where they are free, and
  a theory follows the order of its source file. A struct is a record, an enum
  a datatype, an integer a word of its width (u8, i32 and usize are "byte",
  "32 word" and, where a length cannot wrap, nat), an f32 or f64 its bit
  pattern, a Result a sum with the error left, a Vec a list, a HashMap a
  partial map. A function that changes its argument returns the changed value;
  a decoder takes the input and returns its result and the rest of the input.
  The iteration order of a HashMap, which Rust leaves open, is a parameter
  "ord", of which the contract iteration_order says that it lists each entry
  of the map once.

  3. What the lemmas show

  Codecs. transactional: a decoder that does not return a value leaves the
  input alone. codec, streaming_codec, wire_codec: what was encoded is read
  back in front of anything, and every proper prefix is incomplete.
  framed_packet: the same for a packet in its frame, with errors of the encoder
  leaving the output alone. Each is interpreted on the codecs of the program,
  and each packet's round trip is an instance. What the wire cannot carry
  although the encoder accepts it is a premise of the round trip alone
  (play_packet_ok for the packets of the play state, the length limit of
  compressed_frame_wire); a refusal and a cut-off frame need none. prefix_stable says that a
  decision taken on a partial buffer does not change when more bytes come;
  segmentation_irrelevant rests on it.

  State machines. The login and play machines are explored through lists of
  calls: their invariants, that phases only go forward, and what the final
  states refuse. The connection is a loop over read events; drain_stops and
  segmentation_irrelevant make it a function of the bytes.

  World. block_store is the contract of a function from positions to blocks,
  interpreted on the three layers (overrides, pack, plateau) of the world;
  reachable_worlds_are_well_formed is rule induction over world_step, the
  operations the tick thread uses. client_view_of_chunk joins the generator,
  the deltas and the lookup: a client sees what the server stores.

  Files. file_store is the contract of a format with a reader and a writer;
  over the file system of Storage, where each step of a save may fail or the
  process may stop, it gives that a save is all or nothing, for overrides,
  players and chests.

  Movement. resolve_movement, the clamps of the garden, and the arrival in
  each built-in garden, over f64 bit patterns.

  Tick thread. A run is a start from the files, rounds of messages and tasks,
  and an end. tick_inv says that the tables of players belong together, and every
  handler and task keeps it. The locale chunk_order is the contract of an
  enumeration of chunk sets; tick_world, over it, is the frame of
  the proof that the client view (the events of a channel, replayed over the flat
  generator) stays the world of the server: each handler either is neutral to
  every view or changes world and views alike.

  Session. The play loop is a list of passes, each given what happens outside
  (events waiting, times, the outcome of a read). The locale session_frame is
  the frame of whatever sending does not touch; own_session is its instance for
  the identity of the session. packets_dispatch_on_id (in
  Session_Dispatch) is a dispatch over ids as the reference of the decoder chain; packets_reach_the_session is its
  consequence for a client's bytes. screen_shows_the_world composes all of it: what
  a reader of the session's bytes knows of chunks, dimension and blocks is what
  the tick thread has.

  Server. configuration_reads_back is the round trip of the properties file
  against a writer of the development (the program has none). With
  server_connection_config as what every connection is given,
  a_login_is_in_the_game goes from a configuration and a client's bytes through
  the connection loop and the session to the forty packets a client reads; its
  core, join_completes, is that no encoder of the join refuses, under the
  frame limit of 65536 bytes the server sets, if zlib adds at most a tenth and 128
  bytes and the registry codec has at most 54000 bytes (the fixture of the
  repository has 39164). Tick_Restart starts a tick thread on the files of a
  stopped one: a stop by the message whose saves succeed keeps everything but
  the NBT of an item in a chest beyond 65535 bytes (slot_on_file, in Container,
  is what the file keeps of a slot), and a stop by the flag leaves out the chests.
  offline_login_exchange, at any compression threshold, is the login alone.

  Clients. The three conversations put a client and the server at the two ends
  of a connection, with the bytes cut into reads at will (item, of Probe_Stream,
  is a frame that is read whole or waited for): status_client_sees_the_server,
  login_client_needs_no_compression and play_client_sees_the_join say what the
  client reports, the last one after the whole join of the session. What a
  client reports is thereby a test of the server, and two of the theorems also
  show where a client fails on a server that does nothing wrong.
  status_diff_matches and diff_play_matches say what a comparison lists and what
  it overlooks.

  4. Bounds and fuel

  Arithmetic is that of a release build: words wrap, and an index out of range
  is a branch of the model. The walk over NBT is recursive in a fuel of bytes;
  a walk over n bytes needs at most n steps unless a length overflows, and the
  divergence of that case is a theorem (creative_slot_decoder_diverges) rather
  than a hypothesis. Decoders that take fuel are proved to read back with any
  fuel at least the length of the input. The connection loop has no fuel: its
  drain is a function whose termination is the length of the buffer, and the
  loops of the clients are structural in the reads. The play client's walk
  over the NBT of a Join Game has a fuel pe_fuel; the length of the codec is
  enough, and PlayHangs is what a client becomes that runs out of it.

  5. Parameters

  Code outside the repository is an argument: MD5 and zlib, serde_json, the
  binary registry codec fixture, hypot, and atan2 with to_degrees (the heading
  of a mob), the callbacks of a mod, the outcomes of file operations (te_io n is
  that of the n-th save), and the answers of the sockets. The order in which threads
  take turns is one too: a round of the tick thread is given the messages that
  came since the last round, mods' messages included, and a pass of a session the
  events that came since its last pass. What a client is answered by its socket,
  by serde_json and by zlib is a record probe_env, in which a fault says whether
  it is a time-out; the Debug text of a string, which rests on the Unicode tables
  of the standard library, is an argument of the comparisons. A session that
  meets NBT without end is an outcome of its own, Hanging.

  6. Not modelled

  Of listener.rs and server.rs the threads, the sockets and the handles that
  stop them: what is modelled is what they compute, with the answers of the
  operating system and the parser of socket addresses as parameters (a record
  listener_env), and the accept loop as a function of what accept returned.
  main.rs waits for a signal and prints. The log lines have no result to
  reason about. The clients' time limits are not numbers but answers of the
  socket. The test modules are not modelled. The tick
  thread's handle, whose methods only send on the channel, is the list of
  messages of a round.
\<close>

end
